(* ===== verification/Prelude.thy ===== *)
theory Prelude
  imports Complex_Main "HOL-Library.Word" "HOL-Library.Sublist"
begin

text \<open>
  What every component of the development shares: the result type of fallible code and its
  sequencing, decimal rendering and parsing of unsigned integers, Rust's checked and saturating
  arithmetic, SQL tables as lists of rows, and the locale of guarded systems, through which an
  invariant kept by each operation is lifted to every run.
\<close>

section \<open>Results\<close>

text \<open>
  An \<open>anyhow::Error\<close> or a service error is a value. \<open>Bail\<close> carries the message the source
  writes (later code inspects its prefix); \<open>Lib\<close> is an error raised by a library, whose text
  the repository does not fix.
\<close>

datatype lib_error =
    RowNotFound
  | UniqueViolation
  | ForeignKeyViolation
  | IntOutOfRange
  | JsonError
  | Transport string

datatype perror = Bail string | Lib lib_error

type_synonym 'a res = "perror + 'a"

definition rbind :: "'e + 'a \<Rightarrow> ('a \<Rightarrow> 'e + 'b) \<Rightarrow> 'e + 'b" where
  "rbind m f = (case m of Inl e \<Rightarrow> Inl e | Inr x \<Rightarrow> f x)"

definition ensure :: "bool \<Rightarrow> string \<Rightarrow> unit res" where
  "ensure b msg = (if b then Inr () else Inl (Bail msg))"

definition ok_or :: "'a option \<Rightarrow> perror \<Rightarrow> 'a res" where
  "ok_or x e = (case x of None \<Rightarrow> Inl e | Some y \<Rightarrow> Inr y)"

definition is_ok :: "'e + 'a \<Rightarrow> bool" where
  "is_ok r = (case r of Inl _ \<Rightarrow> False | Inr _ \<Rightarrow> True)"

lemma rbind_simps [simp]:
  "rbind (Inl e) f = Inl e"
  "rbind (Inr x) f = f x"
  by (simp_all add: rbind_def)

text \<open>The continuation of a call is simplified only once the call has been evaluated.\<close>

lemma rbind_weak_cong: "m = m' \<Longrightarrow> rbind m f = rbind m' f"
  by simp

lemma rbind_eq_Inr [simp]: "rbind m f = Inr y \<longleftrightarrow> (\<exists>x. m = Inr x \<and> f x = Inr y)"
  by (cases m) (simp_all add: rbind_def)

lemma ensure_eq_Inr [simp]: "ensure b msg = Inr u \<longleftrightarrow> b"
  by (simp add: ensure_def)

lemma ensure_True [simp]: "b \<Longrightarrow> ensure b msg = Inr ()"
  by (simp add: ensure_def)

lemma ensure_False [simp]: "\<not> b \<Longrightarrow> ensure b msg = Inl (Bail msg)"
  by (simp add: ensure_def)

lemma ok_or_eq_Inr [simp]: "ok_or x e = Inr y \<longleftrightarrow> x = Some y"
  by (cases x) (simp_all add: ok_or_def)

lemma ok_or_simps [simp]: "ok_or (Some y) e = Inr y" "ok_or None e = Inl e"
  by (simp_all add: ok_or_def)

lemma is_ok_simps [simp]: "is_ok (Inr x)" "\<not> is_ok (Inl e)"
  by (simp_all add: is_ok_def)

lemma is_ok_iff: "is_ok r \<longleftrightarrow> (\<exists>x. r = Inr x)"
  by (cases r) auto

section \<open>Machine integers\<close>

type_synonym u64 = "64 word"
type_synonym u128 = "128 word"

definition checked_add :: "'a::len word \<Rightarrow> 'a word \<Rightarrow> 'a word option" where
  "checked_add a b = (if unat a + unat b < 2 ^ LENGTH('a) then Some (a + b) else None)"

definition checked_sub :: "'a::len word \<Rightarrow> 'a word \<Rightarrow> 'a word option" where
  "checked_sub a b = (if unat b \<le> unat a then Some (a - b) else None)"

definition checked_mul :: "'a::len word \<Rightarrow> 'a word \<Rightarrow> 'a word option" where
  "checked_mul a b = (if unat a * unat b < 2 ^ LENGTH('a) then Some (a * b) else None)"

lemma unat_add_noflow:
  "unat a + unat b < 2 ^ LENGTH('a) \<Longrightarrow> unat (a + b) = unat a + unat (b :: 'a::len word)"
  by (simp add: unat_word_ariths)

lemma checked_add_Some:
  "checked_add a b = Some c \<Longrightarrow> unat c = unat a + unat b"
  by (auto simp: checked_add_def unat_add_noflow split: if_splits)

lemma checked_sub_Some:
  "checked_sub a b = Some c \<Longrightarrow> unat b \<le> unat a \<and> unat c = unat a - unat b"
  by (auto simp: checked_sub_def unat_sub word_le_nat_alt split: if_splits)

lemma checked_mul_Some:
  "checked_mul a b = Some c \<Longrightarrow> unat c = unat a * unat b"
  by (auto simp: checked_mul_def unat_word_ariths split: if_splits)

text \<open>Signed 64-bit seconds are integers; saturation is written out where the source saturates.\<close>

definition i64_max :: int where "i64_max = 9223372036854775807"
definition i64_min :: int where "i64_min = - 9223372036854775808"

definition i64_saturating_add :: "int \<Rightarrow> int \<Rightarrow> int" where
  "i64_saturating_add a b = max i64_min (min i64_max (a + b))"

section \<open>Floats\<close>

text \<open>A 64-bit float is a rational, an infinity or not a number.\<close>

datatype f64 = Nan | Infinite bool | Fin rat

text \<open>\<open>Infinite True\<close> is the positive infinity. Comparisons with a NaN are false.\<close>

fun f64_le :: "f64 \<Rightarrow> f64 \<Rightarrow> bool" where
  "f64_le Nan _ = False"
| "f64_le _ Nan = False"
| "f64_le (Infinite b) y = (\<not> b \<or> y = Infinite True)"
| "f64_le (Fin x) (Infinite b) = b"
| "f64_le (Fin x) (Fin y) = (x \<le> y)"

definition f64_less :: "f64 \<Rightarrow> f64 \<Rightarrow> bool" where
  "f64_less x y \<longleftrightarrow> f64_le x y \<and> x \<noteq> y"

text \<open>\<open>f64::max\<close> ignores a NaN.\<close>

fun f64_max :: "f64 \<Rightarrow> f64 \<Rightarrow> f64" where
  "f64_max Nan y = y"
| "f64_max x Nan = x"
| "f64_max x y = (if f64_le x y then y else x)"

definition is_finite :: "f64 \<Rightarrow> bool" where
  "is_finite x = (case x of Fin _ \<Rightarrow> True | _ \<Rightarrow> False)"

section \<open>Decimal text\<close>

definition is_ascii_digit :: "char \<Rightarrow> bool" where
  "is_ascii_digit c \<longleftrightarrow> 48 \<le> (of_char c :: nat) \<and> (of_char c :: nat) \<le> 57"

definition digit_char :: "nat \<Rightarrow> char" where
  "digit_char d = char_of (48 + d)"

fun show_nat :: "nat \<Rightarrow> string" where
  "show_nat n = (if n < 10 then [digit_char n] else show_nat (n div 10) @ [digit_char (n mod 10)])"

declare show_nat.simps [simp del]

definition show_int :: "int \<Rightarrow> string" where
  "show_int i = (if i < 0 then ''-'' @ show_nat (nat (- i)) else show_nat (nat i))"

definition digits_value :: "string \<Rightarrow> nat" where
  "digits_value s = foldl (\<lambda>v c. 10 * v + (of_char c - 48)) 0 s"

lemma digits_value_snoc: "digits_value (s @ [c]) = 10 * digits_value s + (of_char c - 48)"
  by (simp add: digits_value_def)

lemma of_char_digit: "d < 10 \<Longrightarrow> (of_char (digit_char d) :: nat) = 48 + d"
  by (simp add: digit_char_def of_char_of)

lemma is_ascii_digit_digit_char [simp]: "d < 10 \<Longrightarrow> is_ascii_digit (digit_char d)"
  by (simp add: is_ascii_digit_def of_char_digit)

lemma show_nat_nonempty [simp]: "show_nat n \<noteq> []"
  by (subst show_nat.simps) simp

lemma show_nat_digits: "list_all is_ascii_digit (show_nat n)"
proof (induction n rule: show_nat.induct)
  case (1 n)
  show ?case
    using 1 by (cases "n < 10") (auto simp: show_nat.simps [of n])
qed

lemma digits_value_show_nat [simp]: "digits_value (show_nat n) = n"
proof (induction n rule: show_nat.induct)
  case (1 n)
  show ?case
  proof (cases "n < 10")
    case True
    then show ?thesis
      by (simp add: show_nat.simps [of n] digits_value_def of_char_digit)
  next
    case False
    with 1 show ?thesis
      by (simp add: show_nat.simps [of n] digits_value_snoc of_char_digit)
  qed
qed

text \<open>Evaluation at concrete numbers.\<close>

lemma show_nat_eval:
  "n < 10 \<Longrightarrow> show_nat n = [digit_char n]"
  "\<not> n < 10 \<Longrightarrow> show_nat n = show_nat (n div 10) @ [digit_char (n mod 10)]"
  by (simp_all add: show_nat.simps [of n])

lemma digit_char_eval:
  "digit_char 0 = CHR ''0''" "digit_char (Suc 0) = CHR ''1''" "digit_char 2 = CHR ''2''"
  "digit_char 3 = CHR ''3''" "digit_char 4 = CHR ''4''" "digit_char 5 = CHR ''5''"
  "digit_char 6 = CHR ''6''" "digit_char 7 = CHR ''7''" "digit_char 8 = CHR ''8''"
  "digit_char 9 = CHR ''9''"
  by code_simp+

lemma show_nat_inject [simp]: "show_nat m = show_nat n \<longleftrightarrow> m = n"
  by (metis digits_value_show_nat)


section \<open>SQL tables\<close>

text \<open>
  A table is the list of its rows in insertion order. \<open>WHERE\<close> clauses are bool-valued functions
  on rows. A \<open>PRIMARY KEY\<close> or \<open>UNIQUE\<close> clause is a check of the inserting or updating
  statement; the invariants of the components say that it then holds of the table.
\<close>

definition exists_where :: "('r \<Rightarrow> bool) \<Rightarrow> 'r list \<Rightarrow> bool" where
  "exists_where P rows = list_ex P rows"

definition fetch_optional :: "('r \<Rightarrow> bool) \<Rightarrow> 'r list \<Rightarrow> 'r option" where
  "fetch_optional P rows = find P rows"

definition fetch_one :: "('r \<Rightarrow> bool) \<Rightarrow> 'r list \<Rightarrow> 'r res" where
  "fetch_one P rows = ok_or (fetch_optional P rows) (Lib RowNotFound)"

definition update_where :: "('r \<Rightarrow> bool) \<Rightarrow> ('r \<Rightarrow> 'r) \<Rightarrow> 'r list \<Rightarrow> 'r list" where
  "update_where P f rows = map (\<lambda>r. if P r then f r else r) rows"

definition rows_affected :: "('r \<Rightarrow> bool) \<Rightarrow> 'r list \<Rightarrow> nat" where
  "rows_affected P rows = length (filter P rows)"

lemma exists_where_iff [simp]: "exists_where P rows \<longleftrightarrow> (\<exists>r \<in> set rows. P r)"
  by (simp add: exists_where_def list_ex_iff)

lemma fetch_optional_SomeD: "fetch_optional P rows = Some r \<Longrightarrow> r \<in> set rows \<and> P r"
  by (auto simp: fetch_optional_def find_Some_iff)

lemma fetch_optional_None: "fetch_optional P rows = None \<longleftrightarrow> (\<forall>r \<in> set rows. \<not> P r)"
  by (auto simp: fetch_optional_def find_None_iff)

lemma fetch_one_InrD: "fetch_one P rows = Inr r \<Longrightarrow> r \<in> set rows \<and> P r"
  by (auto simp: fetch_one_def dest: fetch_optional_SomeD)

lemma fetch_one_Inl: "fetch_one P rows = Inl e \<Longrightarrow> e = Lib RowNotFound \<and> (\<forall>r \<in> set rows. \<not> P r)"
  by (auto simp: fetch_one_def ok_or_def fetch_optional_None split: option.splits)

lemma fetch_one_key:
  assumes "distinct (map key rows)" "r \<in> set rows"
  shows "fetch_one (\<lambda>x. key x = key r) rows = Inr r"
proof (cases "fetch_one (\<lambda>x. key x = key r) rows")
  case (Inl e)
  with assms show ?thesis by (auto dest: fetch_one_Inl)
next
  case (Inr r')
  then have "r' \<in> set rows" "key r' = key r" by (auto dest: fetch_one_InrD)
  with assms Inr show ?thesis by (metis distinct_map inj_on_def)
qed

lemma fetch_optional_key:
  "distinct (map key rows) \<Longrightarrow> r \<in> set rows \<Longrightarrow> fetch_optional (\<lambda>x. key x = key r) rows = Some r"
  using fetch_one_key [of key rows r] by (simp add: fetch_one_def)

lemma set_update_where: "set (update_where P f rows) = (\<lambda>r. if P r then f r else r) ` set rows"
  by (simp add: update_where_def)

lemma in_update_where:
  "r \<in> set (update_where P f rows) \<longleftrightarrow>
    (\<exists>r0 \<in> set rows. r = (if P r0 then f r0 else r0))"
  by (auto simp: set_update_where)

lemma update_where_Nil [simp]: "update_where P f [] = []"
  and update_where_Cons [simp]:
    "update_where P f (r # rows) = (if P r then f r else r) # update_where P f rows"
  by (simp_all add: update_where_def)

lemma map_update_where: "(\<And>r. P r \<Longrightarrow> key (f r) = key r) \<Longrightarrow> map key (update_where P f rows) = map key rows"
  by (auto simp: update_where_def)

lemma update_where_id: "\<forall>r \<in> set rows. \<not> P r \<Longrightarrow> update_where P f rows = rows"
  by (simp add: update_where_def map_idI)

lemma length_update_where [simp]: "length (update_where P f rows) = length rows"
  by (simp add: update_where_def)

lemma rows_affected_pos: "0 < rows_affected P rows \<longleftrightarrow> (\<exists>r \<in> set rows. P r)"
  by (simp add: rows_affected_def filter_empty_conv)

lemma rows_affected_one: "rows_affected P rows = Suc 0 \<Longrightarrow> \<exists>r \<in> set rows. P r"
  using rows_affected_pos [of P rows] by simp

lemma rows_affected_key:
  assumes "distinct (map key rows)" "\<And>r. P r \<Longrightarrow> key r = k"
  shows "rows_affected P rows = (if \<exists>r \<in> set rows. P r then 1 else 0)"
  using assms(1)
proof (induction rows)
  case Nil
  then show ?case by (simp add: rows_affected_def)
next
  case (Cons r rows)
  then show ?case
    using assms(2) by (auto simp: rows_affected_def)
qed

text \<open>Every row of one table has a relative in another.\<close>

definition kept :: "('r \<Rightarrow> 'r \<Rightarrow> bool) \<Rightarrow> 'r list \<Rightarrow> 'r list \<Rightarrow> bool" where
  "kept R rows rows' \<longleftrightarrow> (\<forall>r \<in> set rows. \<exists>r' \<in> set rows'. R r r')"

lemma keptD: "kept R rows rows' \<Longrightarrow> r \<in> set rows \<Longrightarrow> \<exists>r' \<in> set rows'. R r r'"
  by (simp add: kept_def)

lemma kept_refl: "(\<And>r. R r r) \<Longrightarrow> kept R rows rows"
  by (auto simp: kept_def)

lemma kept_append: "(\<And>r. R r r) \<Longrightarrow> kept R rows (rows @ new)"
  by (auto simp: kept_def)

lemma kept_update: "(\<And>r. R r r) \<Longrightarrow> (\<And>r. P r \<Longrightarrow> R r (f r)) \<Longrightarrow> kept R rows (update_where P f rows)"
  unfolding kept_def
proof
  fix r
  assume R: "\<And>r. R r r" "\<And>r. P r \<Longrightarrow> R r (f r)" and r: "r \<in> set rows"
  then have "(if P r then f r else r) \<in> set (update_where P f rows)"
    by (simp add: update_where_def)
  moreover have "R r (if P r then f r else r)" using R by simp
  ultimately show "\<exists>r' \<in> set (update_where P f rows). R r r'" by blast
qed

lemma kept_trans:
  "(\<And>x y z. R x y \<Longrightarrow> R y z \<Longrightarrow> R x z) \<Longrightarrow> kept R a b \<Longrightarrow> kept R b c \<Longrightarrow> kept R a c"
  unfolding kept_def by meson

text \<open>The sum of a value over the rows a clause selects.\<close>

definition sum_where :: "('r \<Rightarrow> bool) \<Rightarrow> ('r \<Rightarrow> nat) \<Rightarrow> 'r list \<Rightarrow> nat" where
  "sum_where P v rows = sum_list (map v (filter P rows))"

lemma sum_where_simps [simp]:
  "sum_where P v [] = 0"
  "sum_where P v (r # rows) = (if P r then v r else 0) + sum_where P v rows"
  by (simp_all add: sum_where_def)

lemma sum_where_append [simp]: "sum_where P v (xs @ ys) = sum_where P v xs + sum_where P v ys"
  by (simp add: sum_where_def)

lemma sum_where_member: "r \<in> set rows \<Longrightarrow> P r \<Longrightarrow> v r \<le> sum_where P v rows"
  by (induction rows) auto

lemma sum_where_cong:
  "(\<And>r. r \<in> set rows \<Longrightarrow> P r = Q r) \<Longrightarrow> (\<And>r. r \<in> set rows \<Longrightarrow> P r \<Longrightarrow> v r = w r) \<Longrightarrow>
    sum_where P v rows = sum_where Q w rows"
  by (induction rows) auto

lemma sum_where_none: "(\<And>r. r \<in> set rows \<Longrightarrow> \<not> P r) \<Longrightarrow> sum_where P v rows = 0"
  by (induction rows) auto

lemma sum_where_update_same:
  "(\<And>r. r \<in> set rows \<Longrightarrow> U r \<Longrightarrow> P (f r) = P r \<and> v (f r) = v r) \<Longrightarrow>
    sum_where P v (update_where U f rows) = sum_where P v rows"
  by (induction rows) auto

text \<open>Taking one row, identified by its key, out of the rows a clause selects.\<close>

lemma sum_where_drop_key:
  assumes "distinct (map key rows)" "r \<in> set rows" "P r"
    and "\<And>x. U x \<longleftrightarrow> key x = key r" "\<And>x. U x \<Longrightarrow> \<not> P (f x)"
  shows "sum_where P v (update_where U f rows) + v r = sum_where P v rows"
  using assms(1,2)
proof (induction rows)
  case Nil
  then show ?case by simp
next
  case (Cons x rows)
  show ?case
  proof (cases "x = r")
    case True
    with Cons.prems have "\<forall>y \<in> set rows. \<not> U y" by (auto simp: assms(4)) (metis imageI)
    then have "update_where U f rows = rows" by (rule update_where_id)
    moreover have "U r" by (simp add: assms(4))
    moreover from this have "\<not> P (f r)" by (rule assms(5))
    ultimately show ?thesis using True assms(3) by simp
  next
    case False
    with Cons.prems have r: "r \<in> set rows" and "key x \<noteq> key r" by (auto simp: image_iff)
    then have "\<not> U x" by (simp add: assms(4))
    with Cons r show ?thesis by auto
  qed
qed

section \<open>Guarded systems\<close>

text \<open>
  A component with state is a step function on labelled operations. What every operation keeps,
  every run keeps; a run is a list of operations, in the order in which they took effect.
\<close>

definition run :: "('op \<Rightarrow> 's \<Rightarrow> 's) \<Rightarrow> 'op list \<Rightarrow> 's \<Rightarrow> 's" where
  "run step ops s = fold step ops s"

lemma run_simps [simp]:
  "run step [] s = s"
  "run step (x # xs) s = run step xs (step x s)"
  by (simp_all add: run_def)

lemma run_append [simp]: "run step (xs @ ys) s = run step ys (run step xs s)"
  by (simp add: run_def)

locale guarded_system =
  fixes step :: "'op \<Rightarrow> 's \<Rightarrow> 's"
    and inv :: "'s \<Rightarrow> bool"
  assumes step_inv: "inv s \<Longrightarrow> inv (step x s)"
begin

lemma run_inv: "inv s \<Longrightarrow> inv (run step xs s)"
  by (induction xs arbitrary: s) (auto intro: step_inv)

text \<open>A relation between states that every step refines is refined by every run.\<close>

lemma run_rel:
  assumes "\<And>s. R s s" "\<And>s t u. R s t \<Longrightarrow> R t u \<Longrightarrow> R s u"
    and "\<And>x s. inv s \<Longrightarrow> R s (step x s)"
  shows "inv s \<Longrightarrow> R s (run step xs s)"
proof (induction xs arbitrary: s)
  case Nil
  then show ?case using assms(1) by simp
next
  case (Cons x xs)
  then show ?case using assms(2,3) step_inv by (metis run_simps(2))
qed

text \<open>A property that the invariant protects once it holds.\<close>

lemma run_stable:
  assumes "\<And>x s. inv s \<Longrightarrow> P s \<Longrightarrow> P (step x s)"
  shows "inv s \<Longrightarrow> P s \<Longrightarrow> P (run step xs s)"
proof (induction xs arbitrary: s)
  case Nil
  then show ?case by simp
next
  case (Cons x xs)
  then show ?case using assms step_inv by simp
qed

end

end
