(* ===== verification/Payment_Contract.thy ===== *)
theory Payment_Contract
  imports Prelude
begin

text \<open>
  The content and spending contract shared by the admin service and the payment gateway
  (\<open>crates/common/src/payments.rs\<close>): approved contents, the approval that binds them to a
  network, an expiry and two spending caps, amounts as decimal text, and execution leases. SHA-256
  over the JSON encoding is the parameter \<open>digest\<close> of the definitions that use it.
\<close>

section \<open>Data\<close>

record approved_content =
  ac_sha256 :: string
  ac_byte_size :: u64
  ac_payment_mode :: string

record payment_approval =
  pa_quote_id :: string
  pa_content_digest :: string
  pa_network :: string
  pa_expires_at :: int
  pa_max_storage_atto :: string
  pa_max_gas_wei :: string
  pa_contents :: "approved_content list"

record content_quote =
  cq_cost :: string
  cq_estimated_gas_cost_wei :: string
  cq_file_size :: u64
  cq_chunk_count :: nat
  cq_payment_mode :: string
  cq_address :: string
  cq_content_sha256 :: string
  cq_network :: string
  cq_confidence :: string

record payment_lease =
  pl_quote_id :: string
  pl_job_id :: string
  pl_owner :: string
  pl_generation :: int
  pl_expires_at :: int

type_synonym digest_fn = "string \<Rightarrow> approved_content list \<Rightarrow> string"

section \<open>Amounts\<close>

definition u128_to_string :: "u128 \<Rightarrow> string" where
  "u128_to_string w = show_nat (unat w)"

definition amount :: "string \<Rightarrow> u128 res" where
  "amount raw =
     rbind (ensure (raw \<noteq> [] \<and> list_all is_ascii_digit raw) ''invalid unsigned payment amount'') (\<lambda>_.
     if digits_value raw < 2 ^ 128 then Inr (of_nat (digits_value raw)) else Inl (Lib IntOutOfRange))"

lemma amount_eq_Inr:
  "amount raw = Inr w \<longleftrightarrow>
     raw \<noteq> [] \<and> list_all is_ascii_digit raw \<and> digits_value raw < 2 ^ 128 \<and>
     unat w = digits_value raw"
proof -
  have "(of_nat (digits_value raw) :: u128) = w \<longleftrightarrow> unat w = digits_value raw"
    if "digits_value raw < 2 ^ 128"
    using that by (auto simp: word_unat_eq_iff unat_of_nat)
  then show ?thesis by (auto simp: amount_def)
qed

lemma amount_u128_to_string [simp]: "amount (u128_to_string w) = Inr w"
  using unsigned_less [of w, where ?'a = nat] by (simp add: amount_eq_Inr u128_to_string_def show_nat_digits)

lemma u128_to_string_inject [simp]: "u128_to_string v = u128_to_string w \<longleftrightarrow> v = w"
  by (simp add: u128_to_string_def word_unat_eq_iff)

text \<open>The value of a stored amount, for statements about columns that hold amounts.\<close>

definition amount_value :: "string \<Rightarrow> nat" where
  "amount_value raw = digits_value raw"

definition is_amount :: "string \<Rightarrow> bool" where
  "is_amount raw \<longleftrightarrow> is_ok (amount raw)"

lemma amount_value_to_string [simp]: "amount_value (u128_to_string w) = unat w"
  by (simp add: amount_value_def u128_to_string_def)

lemma is_amount_to_string [simp]: "is_amount (u128_to_string w)"
  by (simp add: is_amount_def)

lemma amount_value_eq: "amount raw = Inr w \<Longrightarrow> amount_value raw = unat w"
  by (simp add: amount_eq_Inr amount_value_def)

lemma is_amountE:
  assumes "is_amount raw"
  obtains w where "amount raw = Inr w" "unat w = amount_value raw"
  using assms amount_value_eq by (auto simp: is_amount_def is_ok_iff)

text \<open>Reading an amount accepts exactly the non-empty digit strings whose value fits 128 bits and
  returns that value; what the gateway writes for an amount is read back as that amount.\<close>

theorem amount_exact:
  "(amount raw = Inr w \<longleftrightarrow> raw \<noteq> [] \<and> list_all is_ascii_digit raw \<and> digits_value raw = unat w) \<and>
   amount (u128_to_string w) = Inr w"
  using unsigned_less [of w, where ?'a = nat] by (auto simp: amount_eq_Inr)

section \<open>Approvals\<close>

definition is_ascii_uppercase :: "char \<Rightarrow> bool" where
  "is_ascii_uppercase c \<longleftrightarrow> 65 \<le> (of_char c :: nat) \<and> (of_char c :: nat) \<le> 90"

definition is_ascii_hexdigit :: "char \<Rightarrow> bool" where
  "is_ascii_hexdigit c \<longleftrightarrow> is_ascii_digit c \<or>
     (65 \<le> (of_char c :: nat) \<and> (of_char c :: nat) \<le> 70) \<or>
     (97 \<le> (of_char c :: nat) \<and> (of_char c :: nat) \<le> 102)"

definition payment_modes :: "string list" where
  "payment_modes = [''auto'', ''single'', ''merkle'']"

definition check_content :: "approved_content \<Rightarrow> unit res" where
  "check_content item =
     rbind (ensure (length (ac_sha256 item) = 64 \<and>
                    list_all (\<lambda>b. is_ascii_hexdigit b \<and> \<not> is_ascii_uppercase b) (ac_sha256 item))
              ''invalid content SHA-256'') (\<lambda>_.
     ensure (3 \<le> ac_byte_size item \<and> ac_payment_mode item \<in> set payment_modes)
              ''invalid approved content'')"

fun check_contents :: "approved_content list \<Rightarrow> unit res" where
  "check_contents [] = Inr ()"
| "check_contents (item # items) = rbind (check_content item) (\<lambda>_. check_contents items)"

definition validate :: "digest_fn \<Rightarrow> payment_approval \<Rightarrow> int \<Rightarrow> string \<Rightarrow> unit res" where
  "validate digest a now network =
     rbind (ensure (pa_network a = network \<and> network \<noteq> [] \<and> length network \<le> 512)
              ''approval network changed'') (\<lambda>_.
     rbind (ensure (pa_expires_at a > now \<and> pa_expires_at a \<le> i64_saturating_add now 86400)
              ''approval expired or exceeds one day'') (\<lambda>_.
     rbind (ensure (pa_quote_id a \<noteq> [] \<and> length (pa_quote_id a) \<le> 128) ''invalid quote ID'') (\<lambda>_.
     rbind (ensure (pa_contents a \<noteq> [] \<and> length (pa_contents a) \<le> 65540)
              ''invalid approval content count'') (\<lambda>_.
     rbind (amount (pa_max_storage_atto a)) (\<lambda>_.
     rbind (amount (pa_max_gas_wei a)) (\<lambda>_.
     rbind (check_contents (pa_contents a)) (\<lambda>_.
     ensure (pa_content_digest a = digest network (pa_contents a)) ''approval content changed'')))))))"

definition permits :: "payment_approval \<Rightarrow> string \<Rightarrow> u64 \<Rightarrow> string \<Rightarrow> bool" where
  "permits a sha256 byte_size mode =
     list_ex (\<lambda>item. ac_sha256 item = sha256 \<and> ac_byte_size item = byte_size \<and> ac_payment_mode item = mode)
       (pa_contents a)"

lemma check_contents_ok:
  "check_contents items = Inr () \<longleftrightarrow> (\<forall>item \<in> set items. check_content item = Inr ())"
  by (induction items) auto

lemma validate_ok:
  "validate digest a now network = Inr () \<longleftrightarrow>
     pa_network a = network \<and> network \<noteq> [] \<and> length network \<le> 512 \<and>
     now < pa_expires_at a \<and> pa_expires_at a \<le> i64_saturating_add now 86400 \<and>
     pa_quote_id a \<noteq> [] \<and> length (pa_quote_id a) \<le> 128 \<and>
     pa_contents a \<noteq> [] \<and> length (pa_contents a) \<le> 65540 \<and>
     is_amount (pa_max_storage_atto a) \<and> is_amount (pa_max_gas_wei a) \<and>
     (\<forall>item \<in> set (pa_contents a). check_content item = Inr ()) \<and>
     pa_content_digest a = digest network (pa_contents a)"
  by (auto simp: validate_def check_contents_ok is_amount_def is_ok_iff)

lemma permits_iff:
  "permits a sha256 byte_size mode \<longleftrightarrow>
     (\<exists>item \<in> set (pa_contents a).
        ac_sha256 item = sha256 \<and> ac_byte_size item = byte_size \<and> ac_payment_mode item = mode)"
  by (simp add: permits_def list_ex_iff)

section \<open>Leases\<close>

definition lease_key_of :: "string \<Rightarrow> string \<Rightarrow> int \<Rightarrow> string" where
  "lease_key_of job owner generation = job @ '':'' @ owner @ '':'' @ show_int generation"

definition lease_key :: "payment_lease \<Rightarrow> string" where
  "lease_key l = lease_key_of (pl_job_id l) (pl_owner l) (pl_generation l)"

lemma split_at_colon:
  "a @ CHR '':'' # b = c @ CHR '':'' # d \<Longrightarrow> CHR '':'' \<notin> set a \<Longrightarrow> CHR '':'' \<notin> set c \<Longrightarrow> a = c \<and> b = d"
proof (induction a arbitrary: c)
  case Nil
  then show ?case by (cases c) auto
next
  case (Cons x a)
  then show ?case by (cases c) auto
qed

lemma show_int_inject [simp]: "show_int i = show_int j \<longleftrightarrow> i = j"
proof -
  have minus: "CHR ''-'' \<notin> set (show_nat n)" for n
    using show_nat_digits [of n] by (auto simp: list_all_iff is_ascii_digit_def)
  then have "CHR ''-'' # s \<noteq> show_nat n" for s n
    by (metis list.set_intros(1))
  note neq = this this [symmetric]
  show ?thesis
    by (auto simp: show_int_def neq nat_eq_iff split: if_splits)
qed

lemma lease_key_inject:
  assumes "CHR '':'' \<notin> set job" "CHR '':'' \<notin> set job'"
    and "CHR '':'' \<notin> set owner" "CHR '':'' \<notin> set owner'"
    and "lease_key_of job owner g = lease_key_of job' owner' g'"
  shows "job = job' \<and> owner = owner' \<and> g = g'"
proof -
  have "job @ CHR '':'' # (owner @ CHR '':'' # show_int g) =
      job' @ CHR '':'' # (owner' @ CHR '':'' # show_int g')"
    using assms(5) by (simp add: lease_key_of_def)
  from split_at_colon [OF this assms(1,2)]
  have "job = job'" and rest: "owner @ CHR '':'' # show_int g = owner' @ CHR '':'' # show_int g'"
    by simp_all
  with split_at_colon [OF rest assms(3,4)] show ?thesis by simp
qed

end
