(* ===== verification/Payment_Journal.thy ===== *)
theory Payment_Journal
  imports Payment_Contract
begin

text \<open>
  The payment journal of the gateway (\<open>crates/antd_service/src/payments/journal.rs\<close>): its five
  SQLite tables, and every operation as a function from the journal to a result and the new
  journal. A \<open>BEGIN IMMEDIATE\<close> transaction holds the writer lock, so an operation is one atomic
  step; an early return before \<open>commit\<close> leaves the journal unchanged, which is the \<open>Inl\<close> branch.
  Each operation reads the clock once (\<open>now\<close>, in seconds).
\<close>

section \<open>Tables\<close>

record approval_row =
  ar_id :: string
  ar_definition :: payment_approval
  ar_state :: string
  ar_reserved_storage :: string
  ar_reserved_gas :: string

record lease_row =
  lr_approval_id :: string
  lr_job_id :: string
  lr_owner :: string
  lr_generation :: int
  lr_expires_at :: int

record upload_row =
  ur_id :: string
  ur_approval_id :: string
  ur_sha256 :: string
  ur_lease_key :: string
  ur_state :: string
  ur_result :: "string option"
  ur_detail :: "string option"
  ur_updated_at :: int

record transaction_row =
  tr_id :: string
  tr_hash :: "string option"
  tr_upload_id :: string
  tr_approval_id :: string
  tr_network :: string
  tr_nonce :: int
  tr_raw_transaction :: "string option"
  tr_storage_reserved :: string
  tr_gas_reserved :: string
  tr_state :: string
  tr_receipt :: "string option"

record journal =
  jn_network :: string
  payment_controls :: "(string \<times> string) list"
  payment_approvals :: "approval_row list"
  payment_leases :: "lease_row list"
  payment_uploads :: "upload_row list"
  payment_transactions :: "transaction_row list"

definition empty_journal :: "string \<Rightarrow> journal" where
  "empty_journal net = \<lparr>jn_network = net, payment_controls = [], payment_approvals = [],
     payment_leases = [], payment_uploads = [], payment_transactions = []\<rparr>"

record transaction_reservation =
  rs_approval_id :: string
  rs_upload_id :: string
  rs_id :: string
  rs_nonce :: u64
  rs_storage_upper :: u128
  rs_gas_upper :: u128

section \<open>Helpers\<close>

definition require_open_approval :: "string \<Rightarrow> unit res" where
  "require_open_approval state =
     rbind (ensure (state \<noteq> ''cancelled_unpaid'')
       ''approval_required: unpaid approval was cancelled; regenerate the quote'') (\<lambda>_.
     ensure (state = ''open'') ''payment_recovery_required: approval is paused'')"

definition checked_reservation :: "u128 \<Rightarrow> u128 \<Rightarrow> u128 \<Rightarrow> u128 res" where
  "checked_reservation used additional cap =
     rbind (ok_or (checked_add used additional) (Bail ''approval_required: amount overflow'')) (\<lambda>total.
     rbind (ensure (total \<le> cap) ''approval_required: aggregate spending cap exceeded'') (\<lambda>_.
     Inr total))"

definition lease_valid :: "int \<Rightarrow> string \<Rightarrow> string \<Rightarrow> journal \<Rightarrow> bool" where
  "lease_valid now approval_id key j =
     exists_where (\<lambda>l. lr_approval_id l = approval_id \<and>
       lease_key_of (lr_job_id l) (lr_owner l) (lr_generation l) = key \<and> lr_expires_at l > now)
       (payment_leases j)"

definition restore_pending :: "journal \<Rightarrow> bool" where
  "restore_pending j =
     exists_where (\<lambda>c. c = (''restore_reconciliation_required'', ''1'')) (payment_controls j)"

definition validate_execution :: "int \<Rightarrow> string \<Rightarrow> journal \<Rightarrow> unit res" where
  "validate_execution now upload_id j =
     ensure (exists_where (\<lambda>u. ur_id u = upload_id \<and>
         lease_valid now (ur_approval_id u) (ur_lease_key u) j) (payment_uploads j))
       ''payment_recovery_required: execution lease lost before signing''"

definition has_transaction :: "string \<Rightarrow> journal \<Rightarrow> bool" where
  "has_transaction upload_id j =
     exists_where (\<lambda>t. tr_upload_id t = upload_id) (payment_transactions j)"

definition unresolved :: "transaction_row \<Rightarrow> bool" where
  "unresolved t \<longleftrightarrow> tr_state t \<in> {''reserved'', ''signed''}"

section \<open>Opening\<close>

text \<open>
  The three restart updates of \<open>initialize\<close>, in order. The statements before them create the
  tables, or copy every row of a legacy transaction table, and leave the rows as they are.
\<close>

definition initialize :: "int \<Rightarrow> journal \<Rightarrow> journal" where
  "initialize now j =
     (let uploads1 = update_where
            (\<lambda>u. ur_state u \<in> {''preparing'', ''partial''} \<and> \<not> has_transaction (ur_id u) j)
            (\<lambda>u. u\<lparr>ur_state := ''retryable'',
               ur_detail := Some ''Unpaid preparation/storage interrupted before any transaction reservation'',
               ur_updated_at := now\<rparr>) (payment_uploads j);
          uploads2 = update_where (\<lambda>u. ur_state u \<in> {''preparing'', ''paying'', ''partial''})
            (\<lambda>u. u\<lparr>ur_state := ''payment_recovery_required'',
               ur_detail := Some ''Gateway restarted; retained SDK payment material must be reconciled'',
               ur_updated_at := now\<rparr>) uploads1;
          approvals1 = update_where
            (\<lambda>a. exists_where (\<lambda>u. ur_state u = ''payment_recovery_required'' \<and> ur_approval_id u = ar_id a) uploads2)
            (\<lambda>a. a\<lparr>ar_state := ''paused''\<rparr>) (payment_approvals j)
      in j\<lparr>payment_uploads := uploads2, payment_approvals := approvals1\<rparr>)"

definition open_journal :: "int \<Rightarrow> string \<Rightarrow> journal \<Rightarrow> journal" where
  "open_journal now net j = initialize now (j\<lparr>jn_network := net\<rparr>)"

section \<open>Operations\<close>

definition approve :: "digest_fn \<Rightarrow> int \<Rightarrow> payment_approval \<Rightarrow> journal \<Rightarrow> journal res" where
  "approve digest now approval j =
     rbind (validate digest approval now (jn_network j)) (\<lambda>_.
     (case fetch_optional (\<lambda>a. ar_id a = pa_quote_id approval) (payment_approvals j) of
        Some existing \<Rightarrow>
          rbind (ensure (ar_definition existing = approval)
            ''quote ID already binds a different approval'') (\<lambda>_. Inr j)
      | None \<Rightarrow>
          Inr (j\<lparr>payment_approvals := payment_approvals j @
            [\<lparr>ar_id = pa_quote_id approval, ar_definition = approval, ar_state = ''open'',
              ar_reserved_storage = ''0'', ar_reserved_gas = ''0''\<rparr>]\<rparr>)))"

definition cancel_unpaid :: "int \<Rightarrow> string \<Rightarrow> string \<Rightarrow> journal \<Rightarrow> (bool \<times> journal) res" where
  "cancel_unpaid now approval_id key j =
     rbind (ensure (lease_valid now approval_id key j \<and> \<not> restore_pending j)
       ''payment_recovery_required: cannot revoke without the current execution lease'') (\<lambda>_.
     if exists_where (\<lambda>t. tr_approval_id t = approval_id) (payment_transactions j) then Inr (False, j)
     else
       (let P = (\<lambda>a. ar_id a = approval_id);
            updated = rows_affected P (payment_approvals j)
        in Inr (updated = 1,
             j\<lparr>payment_approvals :=
                 update_where P (\<lambda>a. a\<lparr>ar_state := ''cancelled_unpaid''\<rparr>) (payment_approvals j)\<rparr>)))"

definition admit ::
  "digest_fn \<Rightarrow> int \<Rightarrow> string \<Rightarrow> string \<Rightarrow> string \<Rightarrow> u64 \<Rightarrow> string \<Rightarrow> string \<Rightarrow> journal \<Rightarrow> (bool \<times> journal) res"
where
  "admit digest now upload_id approval_id sha256 byte_size mode key j =
     rbind (fetch_one (\<lambda>a. ar_id a = approval_id) (payment_approvals j)) (\<lambda>row.
     rbind (require_open_approval (ar_state row)) (\<lambda>_.
     rbind (validate digest (ar_definition row) now (jn_network j)) (\<lambda>_.
     rbind (ensure (permits (ar_definition row) sha256 byte_size mode)
       ''approval_required: content or payment mode changed'') (\<lambda>_.
     rbind (ensure (lease_valid now approval_id key j)
       ''payment_recovery_required: payment execution lease lost'') (\<lambda>_.
     if exists_where (\<lambda>u. ur_id u = upload_id) (payment_uploads j) then
       (let P = (\<lambda>u. ur_id u = upload_id \<and> ur_state u = ''retryable'' \<and> ur_approval_id u = approval_id \<and>
                   ur_sha256 u = sha256 \<and> \<not> has_transaction (ur_id u) j)
        in Inr (rows_affected P (payment_uploads j) = 1,
             j\<lparr>payment_uploads := update_where P
                 (\<lambda>u. u\<lparr>ur_state := ''preparing'', ur_lease_key := key, ur_updated_at := now,
                        ur_detail := None\<rparr>) (payment_uploads j)\<rparr>))
     else
       Inr (True, j\<lparr>payment_uploads := payment_uploads j @
         [\<lparr>ur_id = upload_id, ur_approval_id = approval_id, ur_sha256 = sha256, ur_lease_key = key,
           ur_state = ''preparing'', ur_result = None, ur_detail = None, ur_updated_at = now\<rparr>]\<rparr>))))))"

definition reserve :: "digest_fn \<Rightarrow> int \<Rightarrow> transaction_reservation \<Rightarrow> journal \<Rightarrow> journal res" where
  "reserve digest now r j =
     rbind (ensure (\<not> restore_pending j)
       ''payment_recovery_required: restored payment journal requires operator reconciliation before signing'') (\<lambda>_.
     rbind (validate_execution now (rs_upload_id r) j) (\<lambda>_.
     rbind (fetch_one (\<lambda>a. ar_id a = rs_approval_id r) (payment_approvals j)) (\<lambda>row.
     rbind (validate digest (ar_definition row) now (jn_network j)) (\<lambda>_.
     rbind (require_open_approval (ar_state row)) (\<lambda>_.
     rbind (amount (ar_reserved_storage row)) (\<lambda>used_storage.
     rbind (amount (pa_max_storage_atto (ar_definition row))) (\<lambda>cap_storage.
     rbind (checked_reservation used_storage (rs_storage_upper r) cap_storage) (\<lambda>storage.
     rbind (amount (ar_reserved_gas row)) (\<lambda>used_gas.
     rbind (amount (pa_max_gas_wei (ar_definition row))) (\<lambda>cap_gas.
     rbind (checked_reservation used_gas (rs_gas_upper r) cap_gas) (\<lambda>gas.
     rbind (ensure (\<not> exists_where (\<lambda>t. tr_network t = jn_network j \<and> unresolved t) (payment_transactions j))
       ''payment_recovery_required: unresolved signed transaction'') (\<lambda>_.
     if 2 ^ 63 \<le> unat (rs_nonce r) then Inl (Lib IntOutOfRange)
     else if exists_where (\<lambda>t. tr_id t = rs_id r \<or>
          (tr_network t = jn_network j \<and> tr_nonce t = int (unat (rs_nonce r)))) (payment_transactions j)
     then Inl (Lib UniqueViolation)
     else Inr (j\<lparr>payment_transactions := payment_transactions j @
           [\<lparr>tr_id = rs_id r, tr_hash = None, tr_upload_id = rs_upload_id r,
             tr_approval_id = rs_approval_id r, tr_network = jn_network j,
             tr_nonce = int (unat (rs_nonce r)), tr_raw_transaction = None,
             tr_storage_reserved = u128_to_string (rs_storage_upper r),
             tr_gas_reserved = u128_to_string (rs_gas_upper r),
             tr_state = ''reserved'', tr_receipt = None\<rparr>],
         payment_approvals := update_where (\<lambda>a. ar_id a = rs_approval_id r)
           (\<lambda>a. a\<lparr>ar_reserved_storage := u128_to_string storage, ar_reserved_gas := u128_to_string gas\<rparr>)
           (payment_approvals j),
         payment_uploads := update_where (\<lambda>u. ur_id u = rs_upload_id r)
           (\<lambda>u. u\<lparr>ur_state := ''paying'', ur_updated_at := now\<rparr>) (payment_uploads j)\<rparr>)))))))))))))"

definition record_signed :: "int \<Rightarrow> string \<Rightarrow> string \<Rightarrow> string \<Rightarrow> journal \<Rightarrow> journal res" where
  "record_signed now tx_id hash raw j =
     rbind (fetch_one (\<lambda>t. tr_id t = tx_id) (payment_transactions j)) (\<lambda>row.
     rbind (validate_execution now (tr_upload_id row) j) (\<lambda>_.
     (let P = (\<lambda>t. tr_id t = tx_id \<and> tr_state t = ''reserved'') in
     if exists_where P (payment_transactions j) \<and>
        exists_where (\<lambda>t. tr_id t \<noteq> tx_id \<and> tr_network t = tr_network row \<and> tr_hash t = Some hash)
          (payment_transactions j)
     then Inl (Lib UniqueViolation)
     else
       rbind (ensure (rows_affected P (payment_transactions j) = 1)
         ''transaction signing intent no longer owned'') (\<lambda>_.
       Inr (j\<lparr>payment_transactions := update_where P
         (\<lambda>t. t\<lparr>tr_hash := Some hash, tr_raw_transaction := Some raw, tr_state := ''signed''\<rparr>)
         (payment_transactions j)\<rparr>)))))"

definition settle :: "string \<Rightarrow> u128 \<Rightarrow> u128 \<Rightarrow> string \<Rightarrow> journal \<Rightarrow> journal res" where
  "settle hash storage gas receipt j =
     (let P = (\<lambda>t. tr_hash t = Some hash \<and> tr_network t = jn_network j) in
     rbind (fetch_one P (payment_transactions j)) (\<lambda>row.
     if tr_state row = ''settled'' then Inr j
     else
       rbind (amount (tr_storage_reserved row)) (\<lambda>storage_upper.
       rbind (amount (tr_gas_reserved row)) (\<lambda>gas_upper.
       rbind (ensure (storage \<le> storage_upper \<and> gas \<le> gas_upper)
         ''receipt exceeds signed reservation; manual reconciliation required'') (\<lambda>_.
       rbind (fetch_one (\<lambda>a. ar_id a = tr_approval_id row) (payment_approvals j)) (\<lambda>current.
       rbind (amount (ar_reserved_storage current)) (\<lambda>reserved_storage.
       rbind (ok_or (checked_sub reserved_storage (storage_upper - storage))
         (Bail ''invalid storage reservation'')) (\<lambda>storage_used.
       rbind (amount (ar_reserved_gas current)) (\<lambda>reserved_gas.
       rbind (ok_or (checked_sub reserved_gas (gas_upper - gas))
         (Bail ''invalid gas reservation'')) (\<lambda>gas_used.
       Inr (j\<lparr>payment_approvals := update_where (\<lambda>a. ar_id a = tr_approval_id row)
              (\<lambda>a. a\<lparr>ar_reserved_storage := u128_to_string storage_used,
                     ar_reserved_gas := u128_to_string gas_used\<rparr>) (payment_approvals j),
            payment_transactions := update_where P
              (\<lambda>t. t\<lparr>tr_state := ''settled'', tr_receipt := Some receipt\<rparr>)
              (payment_transactions j)\<rparr>)))))))))))"

definition finish ::
  "int \<Rightarrow> string \<Rightarrow> string \<Rightarrow> string option \<Rightarrow> string option \<Rightarrow> journal \<Rightarrow> journal"
where
  "finish now upload_id state result detail j =
     (let unpaid = (\<not> has_transaction upload_id j);
          state' = (if state = ''payment_recovery_required'' \<and> unpaid then ''retryable'' else state);
          j1 = j\<lparr>payment_uploads := update_where (\<lambda>u. ur_id u = upload_id)
                 (\<lambda>u. u\<lparr>ur_state := state', ur_result := result, ur_detail := detail,
                        ur_updated_at := now\<rparr>) (payment_uploads j)\<rparr>
      in if state' = ''payment_recovery_required''
         then j1\<lparr>payment_approvals := update_where
                (\<lambda>a. exists_where (\<lambda>u. ur_id u = upload_id \<and> ur_approval_id u = ar_id a) (payment_uploads j1))
                (\<lambda>a. a\<lparr>ar_state := ''paused''\<rparr>) (payment_approvals j1)\<rparr>
         else j1)"

definition activate :: "int \<Rightarrow> payment_lease \<Rightarrow> journal \<Rightarrow> journal res" where
  "activate now lease j =
     rbind (ensure (pl_expires_at lease > now \<and> pl_expires_at lease \<le> now + 3600 \<and>
                    pl_generation lease > 0 \<and> pl_job_id lease \<noteq> [] \<and> pl_owner lease \<noteq> [])
       ''invalid execution lease'') (\<lambda>_.
     if exists_where (\<lambda>l. lr_approval_id l = pl_quote_id lease) (payment_leases j) then
       (let P = (\<lambda>l. lr_approval_id l = pl_quote_id lease \<and> lr_job_id l = pl_job_id lease \<and>
             ((lr_generation l = pl_generation lease \<and> lr_owner l = pl_owner lease \<and> lr_expires_at l > now) \<or>
              lr_generation l < pl_generation lease))
        in rbind (ensure (rows_affected P (payment_leases j) = 1)
             ''payment_recovery_required: stale payment lease or different job ID; resume the original job and approval'') (\<lambda>_.
           Inr (j\<lparr>payment_leases := update_where P
             (\<lambda>l. l\<lparr>lr_owner := pl_owner lease, lr_generation := pl_generation lease,
                    lr_expires_at := pl_expires_at lease\<rparr>) (payment_leases j)\<rparr>)))
     else if exists_where (\<lambda>a. ar_id a = pl_quote_id lease) (payment_approvals j) then
       Inr (j\<lparr>payment_leases := payment_leases j @
         [\<lparr>lr_approval_id = pl_quote_id lease, lr_job_id = pl_job_id lease, lr_owner = pl_owner lease,
           lr_generation = pl_generation lease, lr_expires_at = pl_expires_at lease\<rparr>]\<rparr>)
     else Inl (Lib ForeignKeyViolation))"

section \<open>Queries\<close>

definition has_storage_intent :: "string \<Rightarrow> journal \<Rightarrow> bool" where
  "has_storage_intent upload_id j =
     exists_where (\<lambda>t. tr_upload_id t = upload_id \<and> tr_storage_reserved t \<noteq> ''0'') (payment_transactions j)"

definition signing_enabled :: "journal \<Rightarrow> bool" where
  "signing_enabled j =
     (\<not> (restore_pending j \<or>
         exists_where (\<lambda>t. tr_network t = jn_network j \<and> unresolved t) (payment_transactions j)))"

definition is_partial :: "string \<Rightarrow> journal \<Rightarrow> bool" where
  "is_partial upload_id j = exists_where (\<lambda>u. ur_id u = upload_id \<and> ur_state u = ''partial'') (payment_uploads j)"

definition upload_result :: "string \<Rightarrow> journal \<Rightarrow> string option" where
  "upload_result upload_id j =
     (case fetch_optional (\<lambda>u. ur_id u = upload_id \<and> ur_state u = ''complete'') (payment_uploads j) of
        None \<Rightarrow> None | Some u \<Rightarrow> ur_result u)"

record upload_status =
  us_upload_id :: string
  us_state :: string
  us_transaction_count :: nat
  us_result :: "string option"
  us_detail :: "string option"
  us_updated_at :: int

definition upload_status_of :: "string \<Rightarrow> journal \<Rightarrow> upload_status res" where
  "upload_status_of upload_id j =
     rbind (fetch_one (\<lambda>u. ur_id u = upload_id) (payment_uploads j)) (\<lambda>row.
     Inr \<lparr>us_upload_id = upload_id, us_state = ur_state row,
          us_transaction_count = rows_affected (\<lambda>t. tr_upload_id t = upload_id) (payment_transactions j),
          us_result = ur_result row, us_detail = ur_detail row, us_updated_at = ur_updated_at row\<rparr>)"

definition check_storage :: "digest_fn \<Rightarrow> int \<Rightarrow> string \<Rightarrow> u128 \<Rightarrow> journal \<Rightarrow> unit res" where
  "check_storage digest now approval_id upper j =
     rbind (fetch_one (\<lambda>a. ar_id a = approval_id) (payment_approvals j)) (\<lambda>row.
     rbind (validate digest (ar_definition row) now (jn_network j)) (\<lambda>_.
     rbind (amount (ar_reserved_storage row)) (\<lambda>used.
     rbind (amount (pa_max_storage_atto (ar_definition row))) (\<lambda>cap.
     rbind (checked_reservation used upper cap) (\<lambda>_. Inr ())))))"

end
