(* ===== verification/Journal_Invariant.thy ===== *)
theory Journal_Invariant
  imports Payment_Journal
begin

text \<open>
  What every operation of the payment journal keeps: keys and identities are unique, stored amounts
  parse, no approval is reserved beyond its caps, at most one transaction per network is
  unresolved, and what an approval has reserved is exactly what its receipts have charged plus
  what is outstanding. The charged amounts are a ghost ledger beside the journal.
\<close>

section \<open>What an operation that succeeds has checked\<close>

lemma reserveE:
  assumes "reserve digest now r j = Inr j'"
  obtains row storage gas where
    "row \<in> set (payment_approvals j)" "ar_id row = rs_approval_id r" "ar_state row = ''open''"
    "unat storage = amount_value (ar_reserved_storage row) + unat (rs_storage_upper r)"
    "unat storage \<le> amount_value (pa_max_storage_atto (ar_definition row))"
    "unat gas = amount_value (ar_reserved_gas row) + unat (rs_gas_upper r)"
    "unat gas \<le> amount_value (pa_max_gas_wei (ar_definition row))"
    "\<not> restore_pending j" "validate_execution now (rs_upload_id r) j = Inr ()"
    "validate digest (ar_definition row) now (jn_network j) = Inr ()"
    "\<forall>t \<in> set (payment_transactions j). tr_network t = jn_network j \<longrightarrow> \<not> unresolved t"
    "\<forall>t \<in> set (payment_transactions j). tr_id t \<noteq> rs_id r"
    "\<forall>t \<in> set (payment_transactions j). tr_network t = jn_network j \<longrightarrow>
       tr_nonce t \<noteq> int (unat (rs_nonce r))"
    "j' = j\<lparr>payment_transactions := payment_transactions j @
           [\<lparr>tr_id = rs_id r, tr_hash = None, tr_upload_id = rs_upload_id r,
             tr_approval_id = rs_approval_id r, tr_network = jn_network j,
             tr_nonce = int (unat (rs_nonce r)), tr_raw_transaction = None,
             tr_storage_reserved = u128_to_string (rs_storage_upper r),
             tr_gas_reserved = u128_to_string (rs_gas_upper r),
             tr_state = ''reserved'', tr_receipt = None\<rparr>],
         payment_approvals := update_where (\<lambda>a. ar_id a = rs_approval_id r)
           (\<lambda>a. a\<lparr>ar_reserved_storage := u128_to_string storage, ar_reserved_gas := u128_to_string gas\<rparr>)
           (payment_approvals j),
         payment_uploads := update_where (\<lambda>u. ur_id u = rs_upload_id r)
           (\<lambda>u. u\<lparr>ur_state := ''paying'', ur_updated_at := now\<rparr>) (payment_uploads j)\<rparr>"
proof -
  define cr where "cr = checked_reservation"
  from assms obtain row us cs storage ug cg gas where *:
    "\<not> restore_pending j" "validate_execution now (rs_upload_id r) j = Inr ()"
    "fetch_one (\<lambda>a. ar_id a = rs_approval_id r) (payment_approvals j) = Inr row"
    "validate digest (ar_definition row) now (jn_network j) = Inr ()"
    "require_open_approval (ar_state row) = Inr ()"
    "amount (ar_reserved_storage row) = Inr us"
    "amount (pa_max_storage_atto (ar_definition row)) = Inr cs"
    "cr us (rs_storage_upper r) cs = Inr storage"
    "amount (ar_reserved_gas row) = Inr ug"
    "amount (pa_max_gas_wei (ar_definition row)) = Inr cg"
    "cr ug (rs_gas_upper r) cg = Inr gas"
    "\<not> exists_where (\<lambda>t. tr_network t = jn_network j \<and> unresolved t) (payment_transactions j)"
    "\<not> exists_where (\<lambda>t. tr_id t = rs_id r \<or>
        (tr_network t = jn_network j \<and> tr_nonce t = int (unat (rs_nonce r)))) (payment_transactions j)"
    and j': "Inr j' = (Inr (j\<lparr>payment_transactions := payment_transactions j @
           [\<lparr>tr_id = rs_id r, tr_hash = None, tr_upload_id = rs_upload_id r,
             tr_approval_id = rs_approval_id r, tr_network = jn_network j,
             tr_nonce = int (unat (rs_nonce r)), tr_raw_transaction = None,
             tr_storage_reserved = u128_to_string (rs_storage_upper r),
             tr_gas_reserved = u128_to_string (rs_gas_upper r),
             tr_state = ''reserved'', tr_receipt = None\<rparr>],
         payment_approvals := update_where (\<lambda>a. ar_id a = rs_approval_id r)
           (\<lambda>a. a\<lparr>ar_reserved_storage := u128_to_string storage, ar_reserved_gas := u128_to_string gas\<rparr>)
           (payment_approvals j),
         payment_uploads := update_where (\<lambda>u. ur_id u = rs_upload_id r)
           (\<lambda>u. u\<lparr>ur_state := ''paying'', ur_updated_at := now\<rparr>) (payment_uploads j)\<rparr>) :: journal res)"
    unfolding reserve_def rbind_eq_Inr ensure_eq_Inr cr_def
    by (elim exE conjE) (simp split: if_splits; blast)
  have cr: "unat total = amount_value used + unat extra \<and> unat total \<le> amount_value cap"
    if "cr u extra c = Inr total" "amount used = Inr u" "amount cap = Inr c" for u extra c total used cap
    using that by (auto simp: cr_def checked_reservation_def word_le_nat_alt amount_value_eq
        dest!: checked_add_Some)
  have "ar_state row = ''open''"
    using *(5) by (simp add: require_open_approval_def)
  moreover have "row \<in> set (payment_approvals j) \<and> ar_id row = rs_approval_id r"
    using *(3) by (rule fetch_one_InrD)
  ultimately show thesis
    using *(1,2,4,12,13) j' cr [OF *(8,6,7)] cr [OF *(11,9,10)]
    by (intro that [of row storage gas]) simp_all
qed

lemma settleE:
  assumes "settle hash storage gas receipt j = Inr j'"
  obtains (replay) row where "fetch_one (\<lambda>t. tr_hash t = Some hash \<and> tr_network t = jn_network j)
      (payment_transactions j) = Inr row" "tr_state row = ''settled''" "j' = j"
  | (charge) row current storage' gas' where
    "fetch_one (\<lambda>t. tr_hash t = Some hash \<and> tr_network t = jn_network j)
      (payment_transactions j) = Inr row" "tr_state row \<noteq> ''settled''"
    "current \<in> set (payment_approvals j)" "ar_id current = tr_approval_id row"
    "unat storage \<le> amount_value (tr_storage_reserved row)"
    "unat gas \<le> amount_value (tr_gas_reserved row)"
    "unat storage' + amount_value (tr_storage_reserved row) =
       amount_value (ar_reserved_storage current) + unat storage"
    "unat gas' + amount_value (tr_gas_reserved row) = amount_value (ar_reserved_gas current) + unat gas"
    "j' = j\<lparr>payment_approvals := update_where (\<lambda>a. ar_id a = tr_approval_id row)
              (\<lambda>a. a\<lparr>ar_reserved_storage := u128_to_string storage',
                     ar_reserved_gas := u128_to_string gas'\<rparr>) (payment_approvals j),
            payment_transactions := update_where
              (\<lambda>t. tr_hash t = Some hash \<and> tr_network t = jn_network j)
              (\<lambda>t. t\<lparr>tr_state := ''settled'', tr_receipt := Some receipt\<rparr>)
              (payment_transactions j)\<rparr>"
proof -
  from assms obtain row where row: "fetch_one (\<lambda>t. tr_hash t = Some hash \<and> tr_network t = jn_network j)
      (payment_transactions j) = Inr row"
    by (auto simp: settle_def Let_def)
  show thesis
  proof (cases "tr_state row = ''settled''")
    case True
    with assms row show thesis by (intro replay) (simp_all add: settle_def)
  next
    case False
    with assms row obtain su gu current rs ss rg gg where *:
      "amount (tr_storage_reserved row) = Inr su" "amount (tr_gas_reserved row) = Inr gu"
      "storage \<le> su" "gas \<le> gu"
      "fetch_one (\<lambda>a. ar_id a = tr_approval_id row) (payment_approvals j) = Inr current"
      "amount (ar_reserved_storage current) = Inr rs" "checked_sub rs (su - storage) = Some ss"
      "amount (ar_reserved_gas current) = Inr rg" "checked_sub rg (gu - gas) = Some gg"
      "j' = j\<lparr>payment_approvals := update_where (\<lambda>a. ar_id a = tr_approval_id row)
              (\<lambda>a. a\<lparr>ar_reserved_storage := u128_to_string ss,
                     ar_reserved_gas := u128_to_string gg\<rparr>) (payment_approvals j),
            payment_transactions := update_where
              (\<lambda>t. tr_hash t = Some hash \<and> tr_network t = jn_network j)
              (\<lambda>t. t\<lparr>tr_state := ''settled'', tr_receipt := Some receipt\<rparr>)
              (payment_transactions j)\<rparr>"
      unfolding settle_def Let_def by (simp only: rbind_eq_Inr ensure_eq_Inr ok_or_eq_Inr if_False rbind_simps) (elim exE conjE; simp)
    have "unat (su - storage) = unat su - unat storage" "unat (gu - gas) = unat gu - unat gas"
      using *(3,4) by (simp_all add: unat_sub)
    then have "unat ss + unat su = unat rs + unat storage" "unat gg + unat gu = unat rg + unat gas"
      using checked_sub_Some [OF *(7)] checked_sub_Some [OF *(9)] *(3,4)
      unfolding word_le_nat_alt by linarith+
    then show thesis
      using * row False fetch_one_InrD [OF *(5)]
      by (intro charge [of row current ss gg]) (simp_all add: amount_value_eq word_le_nat_alt)
  qed
qed

lemma record_signedE:
  assumes "record_signed now tx_id hash raw j = Inr j'"
  obtains row where "row \<in> set (payment_transactions j)" "tr_id row = tx_id"
    "validate_execution now (tr_upload_id row) j = Inr ()"
    "\<forall>t \<in> set (payment_transactions j). tr_id t \<noteq> tx_id \<longrightarrow> tr_network t = tr_network row \<longrightarrow>
       tr_hash t \<noteq> Some hash"
    "\<exists>t \<in> set (payment_transactions j). tr_id t = tx_id \<and> tr_state t = ''reserved''"
    "j' = j\<lparr>payment_transactions := update_where (\<lambda>t. tr_id t = tx_id \<and> tr_state t = ''reserved'')
         (\<lambda>t. t\<lparr>tr_hash := Some hash, tr_raw_transaction := Some raw, tr_state := ''signed''\<rparr>)
         (payment_transactions j)\<rparr>"
proof -
  from assms obtain row where *:
    "fetch_one (\<lambda>t. tr_id t = tx_id) (payment_transactions j) = Inr row"
    "validate_execution now (tr_upload_id row) j = Inr ()"
    "rows_affected (\<lambda>t. tr_id t = tx_id \<and> tr_state t = ''reserved'') (payment_transactions j) = 1"
    "\<not> ((\<exists>t \<in> set (payment_transactions j). tr_id t = tx_id \<and> tr_state t = ''reserved'') \<and>
        (\<exists>t \<in> set (payment_transactions j). tr_id t \<noteq> tx_id \<and> tr_network t = tr_network row \<and>
           tr_hash t = Some hash))"
    "j' = j\<lparr>payment_transactions := update_where (\<lambda>t. tr_id t = tx_id \<and> tr_state t = ''reserved'')
         (\<lambda>t. t\<lparr>tr_hash := Some hash, tr_raw_transaction := Some raw, tr_state := ''signed''\<rparr>)
         (payment_transactions j)\<rparr>"
    by (auto simp: record_signed_def Let_def split: if_splits)
  have ex: "\<exists>t \<in> set (payment_transactions j). tr_id t = tx_id \<and> tr_state t = ''reserved''"
    using *(3) by (intro rows_affected_one) simp
  show thesis
    using that [of row] * ex fetch_one_InrD [OF *(1)] by blast
qed

lemma approveE:
  assumes "approve digest now approval j = Inr j'"
  obtains (known) "j' = j"
  | (new) "validate digest approval now (jn_network j) = Inr ()"
    "\<forall>a \<in> set (payment_approvals j). ar_id a \<noteq> pa_quote_id approval"
    "j' = j\<lparr>payment_approvals := payment_approvals j @
            [\<lparr>ar_id = pa_quote_id approval, ar_definition = approval, ar_state = ''open'',
              ar_reserved_storage = ''0'', ar_reserved_gas = ''0''\<rparr>]\<rparr>"
proof (cases "fetch_optional (\<lambda>a. ar_id a = pa_quote_id approval) (payment_approvals j)")
  case None
  then have "\<forall>a \<in> set (payment_approvals j). ar_id a \<noteq> pa_quote_id approval"
    by (simp add: fetch_optional_None)
  with None assms show thesis by (intro new) (simp_all add: approve_def)
next
  case (Some a)
  with assms show thesis by (intro known) (simp add: approve_def)
qed

lemma cancel_unpaidE:
  assumes "cancel_unpaid now approval_id key j = Inr (b, j')"
  obtains "lease_valid now approval_id key j" "\<not> restore_pending j"
    "b \<longrightarrow> (\<forall>t \<in> set (payment_transactions j). tr_approval_id t \<noteq> approval_id)"
    "b \<longrightarrow> (\<exists>a \<in> set (payment_approvals j). ar_id a = approval_id)"
    "b \<longrightarrow> j' = j\<lparr>payment_approvals := update_where (\<lambda>a. ar_id a = approval_id)
        (\<lambda>a. a\<lparr>ar_state := ''cancelled_unpaid''\<rparr>) (payment_approvals j)\<rparr>"
    "j' = j \<or> j' = j\<lparr>payment_approvals := update_where (\<lambda>a. ar_id a = approval_id)
        (\<lambda>a. a\<lparr>ar_state := ''cancelled_unpaid''\<rparr>) (payment_approvals j)\<rparr>"
proof -
  have ok: "lease_valid now approval_id key j" "\<not> restore_pending j"
    using assms by (auto simp: cancel_unpaid_def)
  show thesis
  proof (cases "exists_where (\<lambda>t. tr_approval_id t = approval_id) (payment_transactions j)")
    case True
    with ok assms have "\<not> b" "j' = j" by (auto simp: cancel_unpaid_def)
    with ok show thesis by (intro that) simp_all
  next
    case False
    with ok assms have b: "b \<longleftrightarrow> rows_affected (\<lambda>a. ar_id a = approval_id) (payment_approvals j) = 1"
      and j': "j' = j\<lparr>payment_approvals := update_where (\<lambda>a. ar_id a = approval_id)
        (\<lambda>a. a\<lparr>ar_state := ''cancelled_unpaid''\<rparr>) (payment_approvals j)\<rparr>"
      by (simp_all add: cancel_unpaid_def Let_def del: exists_where_iff)
    from b have "b \<longrightarrow> (\<exists>a \<in> set (payment_approvals j). ar_id a = approval_id)"
      using rows_affected_one [of "\<lambda>a. ar_id a = approval_id" "payment_approvals j"] by simp
    with ok False j' show thesis by (intro that) simp_all
  qed
qed

lemma admitE:
  assumes "admit digest now upload_id approval_id sha256 byte_size mode key j = Inr (b, j')"
  obtains row where
    "row \<in> set (payment_approvals j)" "ar_id row = approval_id" "ar_state row = ''open''"
    "validate digest (ar_definition row) now (jn_network j) = Inr ()"
    "permits (ar_definition row) sha256 byte_size mode"
    "lease_valid now approval_id key j"
    "(\<exists>u \<in> set (payment_uploads j). ur_id u = upload_id) \<and>
       (b \<longrightarrow> \<not> has_transaction upload_id j \<and>
         (\<exists>u \<in> set (payment_uploads j). ur_id u = upload_id \<and> ur_state u = ''retryable'' \<and>
            ur_approval_id u = approval_id \<and> ur_sha256 u = sha256)) \<and>
       j' = j\<lparr>payment_uploads := update_where
          (\<lambda>u. ur_id u = upload_id \<and> ur_state u = ''retryable'' \<and> ur_approval_id u = approval_id \<and>
                   ur_sha256 u = sha256 \<and> \<not> has_transaction (ur_id u) j)
          (\<lambda>u. u\<lparr>ur_state := ''preparing'', ur_lease_key := key, ur_updated_at := now,
                        ur_detail := None\<rparr>) (payment_uploads j)\<rparr>
     \<or> (\<forall>u \<in> set (payment_uploads j). ur_id u \<noteq> upload_id) \<and> b \<and>
       j' = j\<lparr>payment_uploads := payment_uploads j @
         [\<lparr>ur_id = upload_id, ur_approval_id = approval_id, ur_sha256 = sha256, ur_lease_key = key,
           ur_state = ''preparing'', ur_result = None, ur_detail = None, ur_updated_at = now\<rparr>]\<rparr>"
proof -
  from assms obtain row where row: "fetch_one (\<lambda>a. ar_id a = approval_id) (payment_approvals j) = Inr row"
    by (auto simp: admit_def)
  from assms row have ok: "ar_state row = ''open''"
    "validate digest (ar_definition row) now (jn_network j) = Inr ()"
    "permits (ar_definition row) sha256 byte_size mode" "lease_valid now approval_id key j"
    by (auto simp: admit_def require_open_approval_def)
  let ?P = "\<lambda>u. ur_id u = upload_id \<and> ur_state u = ''retryable'' \<and> ur_approval_id u = approval_id \<and>
      ur_sha256 u = sha256 \<and> \<not> has_transaction (ur_id u) j"
  show thesis
  proof (cases "exists_where (\<lambda>u. ur_id u = upload_id) (payment_uploads j)")
    case True
    with assms row ok have b: "b \<longleftrightarrow> rows_affected ?P (payment_uploads j) = 1"
      and j': "j' = j\<lparr>payment_uploads := update_where ?P
          (\<lambda>u. u\<lparr>ur_state := ''preparing'', ur_lease_key := key, ur_updated_at := now,
                        ur_detail := None\<rparr>) (payment_uploads j)\<rparr>"
      by (auto simp: admit_def require_open_approval_def Let_def simp del: exists_where_iff)
    from b have "b \<longrightarrow> (\<exists>u \<in> set (payment_uploads j). ?P u)"
      using rows_affected_one [of ?P "payment_uploads j"] by simp
    with True j' show thesis
      using fetch_one_InrD [OF row] ok by (intro that [of row]) auto
  next
    case False
    with assms row ok have "b" "j' = j\<lparr>payment_uploads := payment_uploads j @
         [\<lparr>ur_id = upload_id, ur_approval_id = approval_id, ur_sha256 = sha256, ur_lease_key = key,
           ur_state = ''preparing'', ur_result = None, ur_detail = None, ur_updated_at = now\<rparr>]\<rparr>"
      by (auto simp: admit_def require_open_approval_def simp del: exists_where_iff)
    with False show thesis
      using fetch_one_InrD [OF row] ok by (intro that [of row]) auto
  qed
qed

lemma activateE:
  assumes "activate now lease j = Inr j'"
  obtains (renew) l where "l \<in> set (payment_leases j)" "lr_approval_id l = pl_quote_id lease"
    "lr_job_id l = pl_job_id lease" "lr_generation l \<le> pl_generation lease"
    "j' = j\<lparr>payment_leases := update_where
       (\<lambda>l. lr_approval_id l = pl_quote_id lease \<and> lr_job_id l = pl_job_id lease \<and>
             ((lr_generation l = pl_generation lease \<and> lr_owner l = pl_owner lease \<and> lr_expires_at l > now) \<or>
              lr_generation l < pl_generation lease))
       (\<lambda>l. l\<lparr>lr_owner := pl_owner lease, lr_generation := pl_generation lease,
                    lr_expires_at := pl_expires_at lease\<rparr>) (payment_leases j)\<rparr>"
  | (grant) "\<forall>l \<in> set (payment_leases j). lr_approval_id l \<noteq> pl_quote_id lease"
    "\<exists>a \<in> set (payment_approvals j). ar_id a = pl_quote_id lease"
    "j' = j\<lparr>payment_leases := payment_leases j @
         [\<lparr>lr_approval_id = pl_quote_id lease, lr_job_id = pl_job_id lease, lr_owner = pl_owner lease,
           lr_generation = pl_generation lease, lr_expires_at = pl_expires_at lease\<rparr>]\<rparr>"
proof (cases "exists_where (\<lambda>l. lr_approval_id l = pl_quote_id lease) (payment_leases j)")
  case True
  let ?P = "\<lambda>l. lr_approval_id l = pl_quote_id lease \<and> lr_job_id l = pl_job_id lease \<and>
             ((lr_generation l = pl_generation lease \<and> lr_owner l = pl_owner lease \<and> lr_expires_at l > now) \<or>
              lr_generation l < pl_generation lease)"
  from assms True have n: "rows_affected ?P (payment_leases j) = 1"
    and j': "j' = j\<lparr>payment_leases := update_where ?P
       (\<lambda>l. l\<lparr>lr_owner := pl_owner lease, lr_generation := pl_generation lease,
                    lr_expires_at := pl_expires_at lease\<rparr>) (payment_leases j)\<rparr>"
    by (auto simp: activate_def Let_def simp del: exists_where_iff)
  from n obtain l where l: "l \<in> set (payment_leases j)" "?P l"
    using rows_affected_one [of ?P "payment_leases j"] by auto
  from l(2) have "lr_generation l \<le> pl_generation lease" by auto
  then show thesis using renew [of l] l j' by simp
next
  case False
  with assms have "exists_where (\<lambda>a. ar_id a = pl_quote_id lease) (payment_approvals j)"
    "j' = j\<lparr>payment_leases := payment_leases j @
         [\<lparr>lr_approval_id = pl_quote_id lease, lr_job_id = pl_job_id lease, lr_owner = pl_owner lease,
           lr_generation = pl_generation lease, lr_expires_at = pl_expires_at lease\<rparr>]\<rparr>"
    by (auto simp: activate_def simp del: exists_where_iff split: if_splits)
  with False show thesis by (intro grant) simp_all
qed

section \<open>The books: approvals, transactions and charged amounts\<close>

text \<open>The amounts charged so far to each approval, for storage and for gas.\<close>

type_synonym paid = "string \<Rightarrow> nat \<times> nat"

definition outstanding_storage :: "string \<Rightarrow> transaction_row list \<Rightarrow> nat" where
  "outstanding_storage approval txs =
     sum_where (\<lambda>t. tr_approval_id t = approval \<and> tr_state t \<noteq> ''settled'')
       (\<lambda>t. amount_value (tr_storage_reserved t)) txs"

definition outstanding_gas :: "string \<Rightarrow> transaction_row list \<Rightarrow> nat" where
  "outstanding_gas approval txs =
     sum_where (\<lambda>t. tr_approval_id t = approval \<and> tr_state t \<noteq> ''settled'')
       (\<lambda>t. amount_value (tr_gas_reserved t)) txs"

definition approval_ok :: "approval_row \<Rightarrow> bool" where
  "approval_ok a \<longleftrightarrow> ar_id a = pa_quote_id (ar_definition a) \<and>
     is_amount (ar_reserved_storage a) \<and> is_amount (ar_reserved_gas a) \<and>
     is_amount (pa_max_storage_atto (ar_definition a)) \<and> is_amount (pa_max_gas_wei (ar_definition a)) \<and>
     amount_value (ar_reserved_storage a) \<le> amount_value (pa_max_storage_atto (ar_definition a)) \<and>
     amount_value (ar_reserved_gas a) \<le> amount_value (pa_max_gas_wei (ar_definition a))"

definition transaction_ok :: "transaction_row \<Rightarrow> bool" where
  "transaction_ok t \<longleftrightarrow> is_amount (tr_storage_reserved t) \<and> is_amount (tr_gas_reserved t) \<and>
     tr_state t \<in> {''reserved'', ''signed'', ''settled''} \<and>
     (tr_hash t = None \<longleftrightarrow> tr_state t = ''reserved'')"

text \<open>Two rows that one network could not carry both.\<close>

definition conflict :: "transaction_row \<Rightarrow> transaction_row \<Rightarrow> bool" where
  "conflict t t' \<longleftrightarrow> tr_network t = tr_network t' \<and>
     (tr_nonce t = tr_nonce t' \<or> (tr_hash t \<noteq> None \<and> tr_hash t = tr_hash t') \<or>
      (unresolved t \<and> unresolved t'))"

definition entry_ok :: "transaction_row list \<Rightarrow> paid \<Rightarrow> approval_row \<Rightarrow> bool" where
  "entry_ok txs paid a \<longleftrightarrow>
     amount_value (ar_reserved_storage a) = fst (paid (ar_id a)) + outstanding_storage (ar_id a) txs \<and>
     amount_value (ar_reserved_gas a) = snd (paid (ar_id a)) + outstanding_gas (ar_id a) txs"

definition books_ok :: "approval_row list \<Rightarrow> transaction_row list \<Rightarrow> paid \<Rightarrow> bool" where
  "books_ok as txs paid \<longleftrightarrow> distinct (map ar_id as) \<and> distinct (map tr_id txs) \<and>
     (\<forall>a \<in> set as. approval_ok a \<and> entry_ok txs paid a) \<and>
     (\<forall>t \<in> set txs. transaction_ok t \<and> tr_approval_id t \<in> ar_id ` set as) \<and>
     (\<forall>t \<in> set txs. \<forall>t' \<in> set txs. conflict t t' \<longrightarrow> t = t') \<and>
     (\<forall>x. x \<notin> ar_id ` set as \<longrightarrow> paid x = (0, 0))"

lemma books_okD:
  assumes "books_ok as txs paid"
  shows "distinct (map ar_id as)" "distinct (map tr_id txs)"
    "a \<in> set as \<Longrightarrow> approval_ok a" "a \<in> set as \<Longrightarrow> entry_ok txs paid a"
    "t \<in> set txs \<Longrightarrow> transaction_ok t" "t \<in> set txs \<Longrightarrow> tr_approval_id t \<in> ar_id ` set as"
    "t \<in> set txs \<Longrightarrow> t' \<in> set txs \<Longrightarrow> conflict t t' \<Longrightarrow> t = t'"
    "x \<notin> ar_id ` set as \<Longrightarrow> paid x = (0, 0)"
  using assms unfolding books_ok_def by blast+

lemma outstanding_Nil [simp]: "outstanding_storage x [] = 0" "outstanding_gas x [] = 0"
  by (simp_all add: outstanding_storage_def outstanding_gas_def)

lemma outstanding_none:
  "(\<And>t. t \<in> set txs \<Longrightarrow> tr_approval_id t \<noteq> x) \<Longrightarrow>
     outstanding_storage x txs = 0 \<and> outstanding_gas x txs = 0"
  by (simp add: outstanding_storage_def outstanding_gas_def sum_where_none)

text \<open>Changing the state of an approval never touches the books.\<close>

lemma approval_state_update [simp]:
  "approval_ok (a\<lparr>ar_state := st\<rparr>) = approval_ok a"
  "entry_ok txs paid (a\<lparr>ar_state := st\<rparr>) = entry_ok txs paid a"
  by (simp_all add: approval_ok_def entry_ok_def)

lemma map_id_update_state [simp]:
  "map ar_id (update_where P (\<lambda>a. a\<lparr>ar_state := st\<rparr>) as) = map ar_id as"
  by (rule map_update_where) simp

lemma ids_update_state [simp]:
  "ar_id ` set (update_where P (\<lambda>a. a\<lparr>ar_state := st\<rparr>) as) = ar_id ` set as"
  by (metis map_id_update_state set_map)

lemma books_update_state:
  assumes "books_ok as txs paid"
  shows "books_ok (update_where P (\<lambda>a. a\<lparr>ar_state := st\<rparr>) as) txs paid"
  using assms unfolding books_ok_def by (auto simp: in_update_where)

lemma books_approve:
  assumes "books_ok as txs paid" and fresh: "\<forall>a \<in> set as. ar_id a \<noteq> pa_quote_id approval"
    and "validate digest approval now network = Inr ()"
  shows "books_ok (as @ [\<lparr>ar_id = pa_quote_id approval, ar_definition = approval,
      ar_state = st, ar_reserved_storage = ''0'', ar_reserved_gas = ''0''\<rparr>]) txs paid"
proof -
  have zero: "is_amount ''0''" "amount_value ''0'' = 0"
    by (simp_all add: is_amount_def amount_def is_ascii_digit_def digits_value_def amount_value_def)
  have "\<And>t. t \<in> set txs \<Longrightarrow> tr_approval_id t \<noteq> pa_quote_id approval"
    using assms(1) fresh unfolding books_ok_def by (metis imageE)
  then have "outstanding_storage (pa_quote_id approval) txs = 0"
    "outstanding_gas (pa_quote_id approval) txs = 0"
    using outstanding_none [of txs] by blast+
  moreover have "paid (pa_quote_id approval) = (0, 0)"
    using books_okD(8) [OF assms(1)] fresh by (metis imageE)
  ultimately show ?thesis
    using assms unfolding books_ok_def
    by (auto simp: approval_ok_def entry_ok_def zero validate_ok)
qed

lemma map_id_update_reserved [simp]:
  "map ar_id (update_where P (\<lambda>a. a\<lparr>ar_reserved_storage := x, ar_reserved_gas := y\<rparr>) as) = map ar_id as"
  by (rule map_update_where) simp

lemma ids_update_reserved [simp]:
  "ar_id ` set (update_where P (\<lambda>a. a\<lparr>ar_reserved_storage := x, ar_reserved_gas := y\<rparr>) as) =
     ar_id ` set as"
  by (metis map_id_update_reserved set_map)

text \<open>Writing new reserved amounts to one approval, with transactions and ledger that agree.\<close>

lemma books_update_reserved:
  assumes books: "books_ok as txs paid" and row: "row \<in> set as" "ar_id row = k"
    and cap: "unat s \<le> amount_value (pa_max_storage_atto (ar_definition row))"
      "unat g \<le> amount_value (pa_max_gas_wei (ar_definition row))"
    and txs': "distinct (map tr_id txs')"
      "\<And>t. t \<in> set txs' \<Longrightarrow> transaction_ok t \<and> tr_approval_id t \<in> ar_id ` set as"
      "\<And>t t'. t \<in> set txs' \<Longrightarrow> t' \<in> set txs' \<Longrightarrow> conflict t t' \<Longrightarrow> t = t'"
    and sums: "unat s = fst (paid' k) + outstanding_storage k txs'"
      "unat g = snd (paid' k) + outstanding_gas k txs'"
    and other: "\<And>x. x \<noteq> k \<Longrightarrow> paid' x = paid x \<and> outstanding_storage x txs' = outstanding_storage x txs \<and>
        outstanding_gas x txs' = outstanding_gas x txs"
  shows "books_ok (update_where (\<lambda>a. ar_id a = k)
      (\<lambda>a. a\<lparr>ar_reserved_storage := u128_to_string s, ar_reserved_gas := u128_to_string g\<rparr>) as) txs' paid'"
proof -
  let ?as = "update_where (\<lambda>a. ar_id a = k)
      (\<lambda>a. a\<lparr>ar_reserved_storage := u128_to_string s, ar_reserved_gas := u128_to_string g\<rparr>) as"
  have ok: "approval_ok a \<and> entry_ok txs' paid' a" if a: "a \<in> set ?as" for a
  proof -
    from a obtain a0 where a0: "a0 \<in> set as"
      "a = (if ar_id a0 = k then a0\<lparr>ar_reserved_storage := u128_to_string s,
              ar_reserved_gas := u128_to_string g\<rparr> else a0)"
      by (auto simp: in_update_where)
    note old = books_okD(3,4) [OF books a0(1)]
    show ?thesis
    proof (cases "ar_id a0 = k")
      case True
      with row a0(1) books_okD(1) [OF books] have "a0 = row" by (auto simp: distinct_map inj_on_def)
      with True a0 old cap sums show ?thesis by (simp add: approval_ok_def entry_ok_def)
    next
      case False
      with a0 old other [OF False] show ?thesis by (simp add: entry_ok_def)
    qed
  qed
  have ledger: "paid' x = (0, 0)" if "x \<notin> ar_id ` set ?as" for x
  proof -
    from that row have "x \<noteq> k" by auto
    with that books_okD(8) [OF books] other show ?thesis by simp
  qed
  show ?thesis
    unfolding books_ok_def using books_okD(1) [OF books] txs' ok ledger by simp
qed

lemma books_reserve:
  assumes books: "books_ok as txs paid" and row: "row \<in> set as" "ar_id row = tr_approval_id t"
    and s: "unat s = amount_value (ar_reserved_storage row) + amount_value (tr_storage_reserved t)"
      "unat s \<le> amount_value (pa_max_storage_atto (ar_definition row))"
    and g: "unat g = amount_value (ar_reserved_gas row) + amount_value (tr_gas_reserved t)"
      "unat g \<le> amount_value (pa_max_gas_wei (ar_definition row))"
    and t: "transaction_ok t" "tr_state t = ''reserved''" "\<forall>x \<in> set txs. tr_id x \<noteq> tr_id t"
      "\<forall>x \<in> set txs. tr_network x = tr_network t \<longrightarrow> \<not> unresolved x \<and> tr_nonce x \<noteq> tr_nonce t"
  shows "books_ok (update_where (\<lambda>a. ar_id a = tr_approval_id t)
      (\<lambda>a. a\<lparr>ar_reserved_storage := u128_to_string s, ar_reserved_gas := u128_to_string g\<rparr>) as)
      (txs @ [t]) paid"
proof (rule books_update_reserved [OF books row s(2) g(2)])
  note entry = books_okD(4) [OF books row(1), unfolded entry_ok_def row(2)]
  show "unat s = fst (paid (tr_approval_id t)) + outstanding_storage (tr_approval_id t) (txs @ [t])"
    using entry s(1) t(2) by (simp add: outstanding_storage_def)
  show "unat g = snd (paid (tr_approval_id t)) + outstanding_gas (tr_approval_id t) (txs @ [t])"
    using entry g(1) t(2) by (simp add: outstanding_gas_def)
  have none: "tr_hash t = None" using t(1,2) by (simp add: transaction_ok_def)
  show "x = y" if xy: "x \<in> set (txs @ [t])" "y \<in> set (txs @ [t])" and "conflict x y" for x y
  proof -
    have "\<not> conflict x t \<and> \<not> conflict t x" if "x \<in> set txs" for x
      using that t(4) none unfolding conflict_def by auto
    with xy \<open>conflict x y\<close> books_okD(7) [OF books] show ?thesis by auto
  qed
  have "tr_approval_id t \<in> ar_id ` set as" using row by (metis image_eqI)
  then show "transaction_ok x \<and> tr_approval_id x \<in> ar_id ` set as" if "x \<in> set (txs @ [t])" for x
    using that t(1) books_okD(5,6) [OF books] by auto
  show "distinct (map tr_id (txs @ [t]))"
    using t(3) books_okD(2) [OF books] by auto
qed (simp add: outstanding_storage_def outstanding_gas_def)

lemma conflict_sym: "conflict t t' = conflict t' t"
  unfolding conflict_def by metis

lemma books_signed:
  assumes books: "books_ok as txs paid"
    and fresh: "\<forall>t \<in> set txs. tr_id t \<noteq> tx_id \<longrightarrow> tr_network t = net \<longrightarrow> tr_hash t \<noteq> Some hash"
    and net: "\<forall>t \<in> set txs. tr_id t = tx_id \<longrightarrow> tr_network t = net"
  shows "books_ok as (update_where (\<lambda>t. tr_id t = tx_id \<and> tr_state t = ''reserved'')
         (\<lambda>t. t\<lparr>tr_hash := Some hash, tr_raw_transaction := Some raw, tr_state := ''signed''\<rparr>) txs) paid"
proof -
  let ?P = "\<lambda>t. tr_id t = tx_id \<and> tr_state t = ''reserved''"
  let ?f = "\<lambda>t. t\<lparr>tr_hash := Some hash, tr_raw_transaction := Some raw, tr_state := ''signed''\<rparr>"
  let ?g = "\<lambda>t. if ?P t then ?f t else t"
  have ids: "map tr_id (update_where ?P ?f txs) = map tr_id txs"
    by (rule map_update_where) simp
  have sums: "outstanding_storage x (update_where ?P ?f txs) = outstanding_storage x txs"
    "outstanding_gas x (update_where ?P ?f txs) = outstanding_gas x txs" for x
    unfolding outstanding_storage_def outstanding_gas_def
    by (intro sum_where_update_same; simp)+
  have one: "t = t'" if "t \<in> set txs" "t' \<in> set txs" "tr_id t = tr_id t'" for t t'
    using that books_okD(2) [OF books] by (auto simp: distinct_map inj_on_def)
  have new: "t = t'" if t: "t \<in> set txs" "?P t" and t': "t' \<in> set txs" "\<not> ?P t'"
    and c: "conflict (?f t) t'" for t t'
  proof (cases "tr_id t' = tx_id")
    case True
    with t t' one show ?thesis by metis
  next
    case False
    have nets: "tr_network t = tr_network t'" "tr_network t = net"
      using c t net by (simp_all add: conflict_def)
    then have "tr_hash t' \<noteq> Some hash" using False fresh t'(1) by metis
    moreover have "unresolved t" using t(2) by (simp add: unresolved_def)
    ultimately have "conflict t t'" using c nets(1) unfolding conflict_def by auto
    with t t' books_okD(7) [OF books] show ?thesis by blast
  qed
  have conflicts: "?g t = ?g t'" if t: "t \<in> set txs" "t' \<in> set txs" "conflict (?g t) (?g t')" for t t'
  proof -
    consider "?P t" "?P t'" | "?P t" "\<not> ?P t'" | "\<not> ?P t" "?P t'" | "\<not> ?P t" "\<not> ?P t'" by blast
    then have "t = t'"
    proof cases
      case 1
      with t one [of t t'] show ?thesis by simp
    next
      case 2
      with t show ?thesis by (intro new) simp_all
    next
      case 3
      have "conflict (?f t') t"
        using t(3) unfolding if_not_P [OF 3(1)] if_P [OF 3(2)] conflict_sym [of t] .
      with 3 t(1,2) new [of t' t] show ?thesis by blast
    next
      case 4
      have "conflict t t'" using t(3) unfolding if_not_P [OF 4(1)] if_not_P [OF 4(2)] .
      with t(1,2) show ?thesis by (intro books_okD(7) [OF books])
    qed
    then show ?thesis by simp
  qed
  have rows: "transaction_ok (?g t) \<and> tr_approval_id (?g t) \<in> ar_id ` set as" if "t \<in> set txs" for t
    using books_okD(5,6) [OF books that] by (auto simp: transaction_ok_def)
  have entries: "entry_ok (update_where ?P ?f txs) paid a" if "a \<in> set as" for a
    using books_okD(4) [OF books that] by (simp add: entry_ok_def sums)
  show ?thesis
    unfolding books_ok_def ids set_update_where
    using books_okD(1-3,8) [OF books] conflicts rows entries by blast
qed

lemma books_settle:
  assumes books: "books_ok as txs paid" and t: "t \<in> set txs" "tr_state t \<noteq> ''settled''"
    and P: "\<And>x. x \<in> set txs \<Longrightarrow> P x \<longleftrightarrow> x = t"
    and row: "row \<in> set as" "ar_id row = tr_approval_id t"
    and s: "unat s + amount_value (tr_storage_reserved t) = amount_value (ar_reserved_storage row) + cs"
      "cs \<le> amount_value (tr_storage_reserved t)"
    and g: "unat g + amount_value (tr_gas_reserved t) = amount_value (ar_reserved_gas row) + cg"
      "cg \<le> amount_value (tr_gas_reserved t)" and hash: "tr_hash t \<noteq> None"
  shows "books_ok (update_where (\<lambda>a. ar_id a = tr_approval_id t)
      (\<lambda>a. a\<lparr>ar_reserved_storage := u128_to_string s, ar_reserved_gas := u128_to_string g\<rparr>) as)
      (update_where P (\<lambda>t. t\<lparr>tr_state := ''settled'', tr_receipt := Some receipt\<rparr>) txs)
      (paid(tr_approval_id t := (fst (paid (tr_approval_id t)) + cs, snd (paid (tr_approval_id t)) + cg)))"
proof -
  let ?f = "\<lambda>t. t\<lparr>tr_state := ''settled'', tr_receipt := Some receipt\<rparr>"
  let ?g = "\<lambda>t. if P t then ?f t else t"
  let ?k = "tr_approval_id t"
  let ?txs = "update_where P ?f txs"
  let ?U = "\<lambda>x. tr_id x = tr_id t"
  have same: "?txs = update_where ?U ?f txs"
    unfolding update_where_def
    using P t(1) books_okD(2) [OF books] by (intro map_cong) (auto simp: distinct_map inj_on_def)
  have ids: "map tr_id ?txs = map tr_id txs"
    unfolding update_where_def by auto
  have out: "outstanding_storage ?k ?txs + amount_value (tr_storage_reserved t) = outstanding_storage ?k txs"
    "outstanding_gas ?k ?txs + amount_value (tr_gas_reserved t) = outstanding_gas ?k txs"
    unfolding same outstanding_storage_def outstanding_gas_def
    by (rule sum_where_drop_key [where key = tr_id], use books_okD(2) [OF books] t in simp_all)+
  have other: "outstanding_storage x ?txs = outstanding_storage x txs"
    "outstanding_gas x ?txs = outstanding_gas x txs" if "x \<noteq> ?k" for x
    unfolding outstanding_storage_def outstanding_gas_def
    using that P by (intro sum_where_update_same; auto)+
  note entry = books_okD(4) [OF books row(1), unfolded entry_ok_def row(2)]
  note cap = books_okD(3) [OF books row(1), unfolded approval_ok_def]
  have txs: "transaction_ok x \<and> tr_approval_id x \<in> ar_id ` set as" if x: "x \<in> set ?txs" for x
  proof -
    from x obtain x0 where x0: "x0 \<in> set txs" "x = ?g x0" by (auto simp: in_update_where)
    then show ?thesis
      using books_okD(5,6) [OF books x0(1)] P hash by (auto simp: transaction_ok_def)
  qed
  have conflicts: "x = y" if x: "x \<in> set ?txs" and y: "y \<in> set ?txs" and c: "conflict x y" for x y
  proof -
    from x y obtain x0 y0 where *: "x0 \<in> set txs" "x = ?g x0" "y0 \<in> set txs" "y = ?g y0"
      by (auto simp: in_update_where)
    with c have "conflict x0 y0" by (auto simp: conflict_def unresolved_def split: if_splits)
    with * books_okD(7) [OF books] show ?thesis by blast
  qed
  show ?thesis
    by (rule books_update_reserved [OF books row])
       (use txs conflicts ids books_okD(2) [OF books] out other entry s g cap in
         \<open>simp_all add: ids [symmetric] del: map_map\<close>)
qed

end
