(* ===== verification/Journal_Runs.thy ===== *)
theory Journal_Runs
  imports Journal_Invariant
begin

text \<open>
  Runs of the payment journal: any sequence of its operations, of gateway restarts and of operator
  writes to the control table, in the order in which their transactions commit. An operation that
  fails leaves the journal as it was. The ghost ledger adds up what each receipt charged.
\<close>

section \<open>Operations as events\<close>

datatype journal_op =
    Approve payment_approval
  | CancelUnpaid string string
  | Admit string string string u64 string string
  | Reserve transaction_reservation
  | RecordSigned string string string
  | Settle string u128 u128 string
  | Finish string string "string option" "string option"
  | Activate payment_lease
  | Reopen string
  | SetControls "(string \<times> string) list"

type_synonym journal_event = "int \<times> journal_op"

fun exec :: "digest_fn \<Rightarrow> journal_event \<Rightarrow> journal \<Rightarrow> journal res" where
  "exec digest (now, Approve a) j = approve digest now a j"
| "exec digest (now, CancelUnpaid approval_id key) j =
     rbind (cancel_unpaid now approval_id key j) (\<lambda>(_, j'). Inr j')"
| "exec digest (now, Admit upload_id approval_id sha256 byte_size mode key) j =
     rbind (admit digest now upload_id approval_id sha256 byte_size mode key j) (\<lambda>(_, j'). Inr j')"
| "exec digest (now, Reserve r) j = reserve digest now r j"
| "exec digest (now, RecordSigned tx_id hash raw) j = record_signed now tx_id hash raw j"
| "exec digest (now, Settle hash storage gas receipt) j = settle hash storage gas receipt j"
| "exec digest (now, Finish upload_id state result detail) j =
     Inr (finish now upload_id state result detail j)"
| "exec digest (now, Activate lease) j = activate now lease j"
| "exec digest (now, Reopen net) j = Inr (open_journal now net j)"
| "exec digest (now, SetControls cs) j = Inr (j\<lparr>payment_controls := cs\<rparr>)"

definition journal_step :: "digest_fn \<Rightarrow> journal_event \<Rightarrow> journal \<Rightarrow> journal" where
  "journal_step digest ev j = (case exec digest ev j of Inl _ \<Rightarrow> j | Inr j' \<Rightarrow> j')"

text \<open>What a settlement charges: the approval, the storage and the gas of a receipt that is booked.\<close>

definition settlement :: "digest_fn \<Rightarrow> journal_event \<Rightarrow> journal \<Rightarrow> (string \<times> u128 \<times> u128) option" where
  "settlement digest ev j =
     (case snd ev of
        Settle hash storage gas receipt \<Rightarrow>
          (case (settle hash storage gas receipt j,
                 fetch_one (\<lambda>t. tr_hash t = Some hash \<and> tr_network t = jn_network j)
                   (payment_transactions j)) of
             (Inr _, Inr row) \<Rightarrow>
               if tr_state row = ''settled'' then None else Some (tr_approval_id row, storage, gas)
           | _ \<Rightarrow> None)
      | _ \<Rightarrow> None)"

definition charge :: "(string \<times> u128 \<times> u128) option \<Rightarrow> paid \<Rightarrow> paid" where
  "charge c paid =
     (case c of None \<Rightarrow> paid
      | Some (a, s, g) \<Rightarrow> paid(a := (fst (paid a) + unat s, snd (paid a) + unat g)))"

type_synonym accounts = "journal \<times> paid"

definition acc_step :: "digest_fn \<Rightarrow> journal_event \<Rightarrow> accounts \<Rightarrow> accounts" where
  "acc_step digest ev s =
     (journal_step digest ev (fst s), charge (settlement digest ev (fst s)) (snd s))"

definition opened :: "string \<Rightarrow> accounts" where
  "opened net = (empty_journal net, \<lambda>_. (0, 0))"

lemma charge_None [simp]: "charge None paid = paid"
  by (simp add: charge_def)

lemma settlement_other: "(\<forall>h s g r. snd ev \<noteq> Settle h s g r) \<Longrightarrow> settlement digest ev j = None"
  by (auto simp: settlement_def split: journal_op.splits)

lemma fst_acc_step [simp]: "fst (acc_step digest ev s) = journal_step digest ev (fst s)"
  by (simp add: acc_step_def)

lemma fst_run_acc: "fst (run (acc_step digest) evs s) = run (journal_step digest) evs (fst s)"
  by (induction evs arbitrary: s) simp_all

section \<open>The invariant\<close>

definition acc_inv :: "accounts \<Rightarrow> bool" where
  "acc_inv s \<longleftrightarrow>
     books_ok (payment_approvals (fst s)) (payment_transactions (fst s)) (snd s) \<and>
     distinct (map ur_id (payment_uploads (fst s))) \<and>
     distinct (map lr_approval_id (payment_leases (fst s))) \<and>
     (\<forall>t \<in> set (payment_transactions (fst s)). tr_upload_id t \<in> ur_id ` set (payment_uploads (fst s)))"

lemma acc_inv_opened: "acc_inv (opened net)"
  by (simp add: acc_inv_def opened_def empty_journal_def books_ok_def)

lemma map_ur_id_update:
  "(\<And>u. ur_id (f u) = ur_id u) \<Longrightarrow> map ur_id (update_where P f us) = map ur_id us"
  by (rule map_update_where)

lemma map_lr_id_update:
  "(\<And>l. lr_approval_id (f l) = lr_approval_id l) \<Longrightarrow>
     map lr_approval_id (update_where P f ls) = map lr_approval_id ls"
  by (rule map_update_where)

lemma ur_ids_update:
  assumes "\<And>u. ur_id (f u) = ur_id u"
  shows "ur_id ` set (update_where P f us) = ur_id ` set us"
proof -
  have "ur_id ` set (update_where P f us) = set (map ur_id (update_where P f us))" by simp
  also have "\<dots> = ur_id ` set us" by (subst map_ur_id_update) (simp_all add: assms)
  finally show ?thesis .
qed

lemmas upload_keys = map_ur_id_update map_lr_id_update ur_ids_update

lemma tr_upload_ids_update:
  assumes "\<And>t. tr_upload_id (f t) = tr_upload_id t"
  shows "(\<forall>t \<in> set (update_where P f txs). tr_upload_id t \<in> S) \<longleftrightarrow> (\<forall>t \<in> set txs. tr_upload_id t \<in> S)"
  by (induction txs) (auto simp: assms)

lemma finish_shape:
  obtains P st f where
    "finish now upload_id state result detail j =
       j\<lparr>payment_approvals := update_where P (\<lambda>a. a\<lparr>ar_state := ''paused''\<rparr>) (payment_approvals j),
         payment_uploads := update_where (\<lambda>u. ur_id u = upload_id)
           (\<lambda>u. u\<lparr>ur_state := st, ur_result := result, ur_detail := detail, ur_updated_at := now\<rparr>)
           (payment_uploads j)\<rparr>"
proof -
  let ?st = "if state = ''payment_recovery_required'' \<and> \<not> has_transaction upload_id j
    then ''retryable'' else state"
  let ?us = "update_where (\<lambda>u. ur_id u = upload_id)
    (\<lambda>u. u\<lparr>ur_state := ?st, ur_result := result, ur_detail := detail, ur_updated_at := now\<rparr>)
    (payment_uploads j)"
  show thesis
  proof (cases "?st = ''payment_recovery_required''")
    case True
    then show thesis
      by (intro that [where st = ?st and P = "\<lambda>a. exists_where
            (\<lambda>u. ur_id u = upload_id \<and> ur_approval_id u = ar_id a) ?us"])
        (simp only: finish_def Let_def if_True refl; simp)
  next
    case False
    have none: "update_where (\<lambda>_. False) f as = as" for f and as :: "approval_row list"
      by (simp add: update_where_def)
    from False show thesis
      by (intro that [where st = ?st and P = "\<lambda>_. False"])
        (simp only: finish_def Let_def if_False none; simp)
  qed
qed

lemma acc_inv_initialize: "acc_inv (j, paid) \<Longrightarrow> acc_inv (initialize now j, paid)"
  unfolding acc_inv_def initialize_def Let_def
  by (simp add: books_update_state upload_keys)

lemma acc_inv_open: "acc_inv (j, paid) \<Longrightarrow> acc_inv (open_journal now net j, paid)"
  unfolding open_journal_def by (rule acc_inv_initialize) (simp add: acc_inv_def)

lemma acc_inv_controls: "acc_inv (j, paid) \<Longrightarrow> acc_inv (j\<lparr>payment_controls := cs\<rparr>, paid)"
  by (simp add: acc_inv_def)

lemma acc_inv_finish: "acc_inv (j, paid) \<Longrightarrow> acc_inv (finish now upload_id state result detail j, paid)"
  by (rule finish_shape [of now upload_id state result detail j])
    (simp add: acc_inv_def books_update_state upload_keys)

lemma acc_inv_approve:
  assumes "acc_inv (j, paid)" "approve digest now a j = Inr j'"
  shows "acc_inv (j', paid)"
  using assms(2)
proof (cases rule: approveE)
  case known
  with assms(1) show ?thesis by simp
next
  case new
  with assms(1) show ?thesis by (simp add: acc_inv_def books_approve)
qed

lemma acc_inv_cancel_unpaid:
  assumes "acc_inv (j, paid)" "cancel_unpaid now approval_id key j = Inr (b, j')"
  shows "acc_inv (j', paid)"
  using assms(2) by (rule cancel_unpaidE) (use assms(1) in \<open>auto simp: acc_inv_def books_update_state\<close>)

lemma acc_inv_admit:
  assumes "acc_inv (j, paid)" "admit digest now upload_id approval_id sha256 byte_size mode key j = Inr (b, j')"
  shows "acc_inv (j', paid)"
  using assms(2)
proof (rule admitE, elim disjE conjE)
  assume "\<forall>u \<in> set (payment_uploads j). ur_id u \<noteq> upload_id"
  then show ?thesis
    if "j' = j\<lparr>payment_uploads := payment_uploads j @
         [\<lparr>ur_id = upload_id, ur_approval_id = approval_id, ur_sha256 = sha256, ur_lease_key = key,
           ur_state = ''preparing'', ur_result = None, ur_detail = None, ur_updated_at = now\<rparr>]\<rparr>"
    using assms(1) that by (auto simp: acc_inv_def)
qed (use assms(1) in \<open>simp add: acc_inv_def upload_keys\<close>)

lemma acc_inv_activate:
  assumes "acc_inv (j, paid)" "activate now lease j = Inr j'"
  shows "acc_inv (j', paid)"
  using assms(2)
proof (cases rule: activateE)
  case (renew l)
  with assms(1) show ?thesis by (simp add: acc_inv_def upload_keys)
next
  case grant
  with assms(1) show ?thesis by (auto simp: acc_inv_def)
qed

lemma validate_execution_upload:
  "validate_execution now upload_id j = Inr () \<Longrightarrow> upload_id \<in> ur_id ` set (payment_uploads j)"
  by (auto simp: validate_execution_def)

lemma acc_inv_reserve:
  assumes inv: "acc_inv (j, paid)" and op: "reserve digest now r j = Inr j'"
  shows "acc_inv (j', paid)"
  using op
proof (rule reserveE)
  fix row storage gas
  let ?t = "\<lparr>tr_id = rs_id r, tr_hash = None, tr_upload_id = rs_upload_id r,
             tr_approval_id = rs_approval_id r, tr_network = jn_network j,
             tr_nonce = int (unat (rs_nonce r)), tr_raw_transaction = None,
             tr_storage_reserved = u128_to_string (rs_storage_upper r),
             tr_gas_reserved = u128_to_string (rs_gas_upper r),
             tr_state = ''reserved'', tr_receipt = None\<rparr>"
  assume row: "row \<in> set (payment_approvals j)" "ar_id row = rs_approval_id r"
    and amounts: "unat storage = amount_value (ar_reserved_storage row) + unat (rs_storage_upper r)"
      "unat storage \<le> amount_value (pa_max_storage_atto (ar_definition row))"
      "unat gas = amount_value (ar_reserved_gas row) + unat (rs_gas_upper r)"
      "unat gas \<le> amount_value (pa_max_gas_wei (ar_definition row))"
    and exe: "validate_execution now (rs_upload_id r) j = Inr ()"
    and free: "\<forall>t \<in> set (payment_transactions j). tr_network t = jn_network j \<longrightarrow> \<not> unresolved t"
      "\<forall>t \<in> set (payment_transactions j). tr_id t \<noteq> rs_id r"
      "\<forall>t \<in> set (payment_transactions j). tr_network t = jn_network j \<longrightarrow>
         tr_nonce t \<noteq> int (unat (rs_nonce r))"
    and j': "j' = j\<lparr>payment_transactions := payment_transactions j @ [?t],
         payment_approvals := update_where (\<lambda>a. ar_id a = rs_approval_id r)
           (\<lambda>a. a\<lparr>ar_reserved_storage := u128_to_string storage, ar_reserved_gas := u128_to_string gas\<rparr>)
           (payment_approvals j),
         payment_uploads := update_where (\<lambda>u. ur_id u = rs_upload_id r)
           (\<lambda>u. u\<lparr>ur_state := ''paying'', ur_updated_at := now\<rparr>) (payment_uploads j)\<rparr>"
  have "transaction_ok ?t" by (simp add: transaction_ok_def)
  from books_reserve [of "payment_approvals j" "payment_transactions j" paid row ?t storage gas]
  have "books_ok (payment_approvals j') (payment_transactions j') paid"
    using inv row amounts free \<open>transaction_ok ?t\<close> by (simp add: j' acc_inv_def)
  with inv validate_execution_upload [OF exe] show ?thesis
    by (simp add: acc_inv_def j' upload_keys)
qed

lemma acc_inv_record_signed:
  assumes inv: "acc_inv (j, paid)" and op: "record_signed now tx_id hash raw j = Inr j'"
  shows "acc_inv (j', paid)"
  using op
proof (rule record_signedE)
  fix row
  assume row: "row \<in> set (payment_transactions j)" "tr_id row = tx_id"
    and fresh: "\<forall>t \<in> set (payment_transactions j). tr_id t \<noteq> tx_id \<longrightarrow>
       tr_network t = tr_network row \<longrightarrow> tr_hash t \<noteq> Some hash"
    and j': "j' = j\<lparr>payment_transactions := update_where (\<lambda>t. tr_id t = tx_id \<and> tr_state t = ''reserved'')
         (\<lambda>t. t\<lparr>tr_hash := Some hash, tr_raw_transaction := Some raw, tr_state := ''signed''\<rparr>)
         (payment_transactions j)\<rparr>"
  from inv have books: "books_ok (payment_approvals j) (payment_transactions j) paid"
    by (simp add: acc_inv_def)
  have "\<forall>t \<in> set (payment_transactions j). tr_id t = tx_id \<longrightarrow> tr_network t = tr_network row"
    using books_okD(2) [OF books] row by (auto simp: distinct_map inj_on_def)
  from books_signed [OF books fresh this, of raw] inv show ?thesis
    by (simp add: acc_inv_def j' tr_upload_ids_update)
qed

lemma settlement_settle:
  assumes "settle hash storage gas receipt j = Inr j'"
    and "fetch_one (\<lambda>t. tr_hash t = Some hash \<and> tr_network t = jn_network j)
      (payment_transactions j) = Inr row"
  shows "settlement digest (now, Settle hash storage gas receipt) j =
    (if tr_state row = ''settled'' then None else Some (tr_approval_id row, storage, gas))"
  using assms by (simp add: settlement_def)

lemma acc_inv_settle:
  assumes inv: "acc_inv (j, paid)" and op: "settle hash storage gas receipt j = Inr j'"
  shows "acc_inv (j', charge (settlement digest (now, Settle hash storage gas receipt) j) paid)"
  using op
proof (cases rule: settleE)
  case (replay row)
  with inv show ?thesis by (simp add: settlement_settle [OF op])
next
  case (charge row current storage' gas')
  from inv have books: "books_ok (payment_approvals j) (payment_transactions j) paid"
    by (simp add: acc_inv_def)
  let ?P = "\<lambda>t. tr_hash t = Some hash \<and> tr_network t = jn_network j"
  from charge(1) have row: "row \<in> set (payment_transactions j)" "?P row" by (auto dest: fetch_one_InrD)
  have P: "?P x \<longleftrightarrow> x = row" if "x \<in> set (payment_transactions j)" for x
  proof
    assume "?P x"
    with row(2) have "conflict x row" by (simp add: conflict_def)
    with that row(1) show "x = row" by (intro books_okD(7) [OF books])
  qed (use row in simp)
  have "books_ok (payment_approvals j') (payment_transactions j')
      (Journal_Runs.charge (Some (tr_approval_id row, storage, gas)) paid)"
    unfolding charge(9)
    using books_settle [OF books row(1) charge(2) P charge(3,4,7,5,8,6)] row(2)
    by (simp add: charge_def)
  with inv show ?thesis
    using charge(2) unfolding settlement_settle [OF op charge(1)]
    by (simp add: acc_inv_def charge(9) tr_upload_ids_update)
qed

lemma acc_inv_step:
  assumes "acc_inv s"
  shows "acc_inv (acc_step digest ev s)"
proof -
  obtain j paid where s: "s = (j, paid)" by (cases s)
  obtain now op where ev: "ev = (now, op)" by (cases ev)
  note inv = assms [unfolded s]
  show ?thesis
  proof (cases "exec digest ev j")
    case (Inl e)
    then have "settlement digest ev j = None"
      unfolding ev by (cases op) (auto simp: settlement_def)
    with Inl inv show ?thesis by (simp add: s acc_step_def journal_step_def)
  next
    case (Inr j')
    then have "acc_inv (j', charge (settlement digest ev j) paid)"
      unfolding ev using inv
      by (cases op)
        (auto simp: settlement_other
          intro: acc_inv_approve acc_inv_cancel_unpaid acc_inv_admit acc_inv_reserve
            acc_inv_record_signed acc_inv_settle acc_inv_activate acc_inv_finish acc_inv_open
            acc_inv_controls)
    with Inr show ?thesis by (simp add: s acc_step_def journal_step_def)
  qed
qed

interpretation books: guarded_system "acc_step digest" acc_inv for digest
  by unfold_locales (rule acc_inv_step)

lemma acc_inv_run: "acc_inv (run (acc_step digest) evs (opened net))"
  by (rule books.run_inv) (rule acc_inv_opened)

end
