(* ===== verification/Payment_Signer.thy ===== *)
theory Payment_Signer
  imports Journal_Runs
begin

text \<open>
  The signer of the gateway (\<open>crates/antd_service/src/payments/signer.rs\<close>): how a prepared upload is
  paid by transactions, each reserved in the journal before it is signed, recorded before it is
  broadcast, and settled from its receipt. The answers of the RPC node, the wallet, the contract
  library and the clock are parameters. Between two journal operations of a payment other requests may
  commit theirs, which are part of the answers.
\<close>

section \<open>Steps with state and errors\<close>

text \<open>
  The journal, every event committed on it since the payment began, the bytes sent to the network and
  the number of transactions attempted. The events are a ghost.
\<close>

record signer_state =
  sg_journal :: journal
  sg_events :: "journal_event list"
  sg_sent :: "string list"
  sg_calls :: nat

definition signer_start :: "journal \<Rightarrow> signer_state" where
  "signer_start j = \<lparr>sg_journal = j, sg_events = [], sg_sent = [], sg_calls = 0\<rparr>"

type_synonym 'a action = "signer_state \<Rightarrow> 'a res \<times> signer_state"

definition lift :: "'a res \<Rightarrow> 'a action" where
  "lift r s = (r, s)"

definition andthen :: "'a action \<Rightarrow> ('a \<Rightarrow> 'b action) \<Rightarrow> 'b action" where
  "andthen m f s = (case m s of (Inl e, s') \<Rightarrow> (Inl e, s') | (Inr x, s') \<Rightarrow> f x s')"

definition perform :: "digest_fn \<Rightarrow> journal_event \<Rightarrow> unit action" where
  "perform digest ev s =
     (map_sum id (\<lambda>_. ()) (exec digest ev (sg_journal s)),
      s\<lparr>sg_journal := journal_step digest ev (sg_journal s), sg_events := sg_events s @ [ev]\<rparr>)"

definition interfere :: "digest_fn \<Rightarrow> journal_event list \<Rightarrow> unit action" where
  "interfere digest evs s =
     (Inr (), s\<lparr>sg_journal := run (journal_step digest) evs (sg_journal s), sg_events := sg_events s @ evs\<rparr>)"

definition broadcast :: "string \<Rightarrow> unit res \<Rightarrow> unit action" where
  "broadcast raw answer s = (answer, s\<lparr>sg_sent := sg_sent s @ [raw]\<rparr>)"

section \<open>Transactions\<close>

type_synonym u256 = "256 word"

definition u128_of_u256 :: "u256 \<Rightarrow> u128 res" where
  "u128_of_u256 w = (if unat w < 2 ^ 128 then Inr (ucast w) else Inl (Lib IntOutOfRange))"

record tx_request =
  rq_to :: string
  rq_input :: string
  rq_chain_id :: u64
  rq_nonce :: u64
  rq_max_fee_per_gas :: u128
  rq_max_priority_fee_per_gas :: u128
  rq_gas_limit :: "u64 option"

record merkle_event =
  me_address :: string
  me_depth :: "8 word"
  me_timestamp :: u64
  me_winner :: string
  me_total_amount :: u256

record tx_receipt =
  rc_transaction_hash :: string
  rc_from :: string
  rc_to :: "string option"
  rc_status :: bool
  rc_gas_used :: u64
  rc_effective_gas_price :: u128
  rc_merkle_events :: "merkle_event list"

text \<open>
  What one transaction meets: the answers of the node, the fresh identifier of its intent, the signed
  envelope as hash and bytes, the events other requests commit meanwhile, and the clock.
\<close>

record tx_answers =
  ta_genesis :: "string option res"
  ta_fees :: "(u128 \<times> u128) res"
  ta_nonce :: "u64 res"
  ta_estimate :: "tx_request \<Rightarrow> u64 res"
  ta_intent_id :: string
  ta_build :: "tx_request \<Rightarrow> (string \<times> string) res"
  ta_send :: "string + unit"
  ta_receipt :: "tx_receipt res option"
  ta_before_reserve :: "journal_event list"
  ta_reserve_at :: int
  ta_before_record :: "journal_event list"
  ta_record_at :: int
  ta_before_settle :: "journal_event list"
  ta_settle_at :: int

record pool_commitment =
  pc_pool_hash :: string
  pc_candidates :: string

record merkle_batch =
  mb_depth :: "8 word"
  mb_pool_commitments :: "pool_commitment list"
  mb_timestamp :: u64

type_synonym quote_payment = "string \<times> string \<times> u256"

datatype payment_info =
    WaveBatch "quote_payment list" u256
  | Merkle "merkle_batch list"

text \<open>The signer and the libraries it calls; \<open>sv_receipt_json\<close> is the JSON text of a receipt.\<close>

record signer_env =
  sv_digest :: digest_fn
  sv_genesis :: string
  sv_chain_id :: u64
  sv_wallet :: "string option"
  sv_token :: string
  sv_vault :: string
  sv_max_transfers :: nat
  sv_approve_call :: "u128 \<Rightarrow> string"
  sv_quotes_call :: "quote_payment list \<Rightarrow> (string \<times> string) res"
  sv_merkle_call :: "merkle_batch \<Rightarrow> (string \<times> string) res"
  sv_merkle_cost :: "merkle_batch \<Rightarrow> u256"
  sv_receipt_json :: "tx_receipt \<Rightarrow> string"
  sv_answers :: "nat \<Rightarrow> tx_answers"
  sv_before_check :: "journal_event list"
  sv_check_at :: int

fun sum_costs :: "u128 \<Rightarrow> u256 list \<Rightarrow> u128 res" where
  "sum_costs acc [] = Inr acc"
| "sum_costs acc (w # ws) =
     rbind (u128_of_u256 w) (\<lambda>cost.
     rbind (ok_or (checked_add acc cost) (Bail ''storage cost overflow'')) (\<lambda>acc'. sum_costs acc' ws))"

definition storage_upper :: "signer_env \<Rightarrow> payment_info \<Rightarrow> u128 res" where
  "storage_upper env info =
     (case info of
        WaveBatch _ total_amount \<Rightarrow> u128_of_u256 total_amount
      | Merkle batches \<Rightarrow> sum_costs 0 (map (sv_merkle_cost env) batches))"

definition receipt_gas :: "tx_receipt \<Rightarrow> u128 res" where
  "receipt_gas receipt =
     ok_or (checked_mul (ucast (rc_gas_used receipt)) (rc_effective_gas_price receipt))
       (Bail ''receipt gas overflow'')"

definition gas_limit_of :: "u64 \<Rightarrow> u64 res" where
  "gas_limit_of estimate =
     rbind (ok_or (checked_mul estimate 3) (Bail ''gas limit overflow'')) (\<lambda>n.
     rbind (ensure (n div 2 > 0) ''RPC returned zero gas limit'') (\<lambda>_. Inr (n div 2)))"

text \<open>What is decided before the journal is asked: the request, its nonce and its gas cap.\<close>

definition plan_transaction ::
  "signer_env \<Rightarrow> tx_answers \<Rightarrow> string \<Rightarrow> string \<Rightarrow> (string \<times> tx_request \<times> u64 \<times> u128) res"
where
  "plan_transaction env a to_address calldata =
     rbind (rbind (ta_genesis a) (\<lambda>g. ok_or g (Bail ''RPC genesis block missing''))) (\<lambda>genesis.
     rbind (ensure (genesis = sv_genesis env)
       ''approval_required: EVM chain changed or local devnet restarted'') (\<lambda>_.
     rbind (ok_or (sv_wallet env) (Bail ''wallet is not configured'')) (\<lambda>wallet.
     rbind (ta_fees a) (\<lambda>(max_fee, priority_fee).
     rbind (ta_nonce a) (\<lambda>nonce.
     let request = \<lparr>rq_to = to_address, rq_input = calldata, rq_chain_id = sv_chain_id env, rq_nonce = nonce,
           rq_max_fee_per_gas = max_fee, rq_max_priority_fee_per_gas = priority_fee, rq_gas_limit = None\<rparr>
     in rbind (ta_estimate a request) (\<lambda>estimate.
        rbind (gas_limit_of estimate) (\<lambda>gas_limit.
        rbind (ok_or (checked_mul (ucast gas_limit) max_fee) (Bail ''gas cost overflow'')) (\<lambda>gas_upper.
        Inr (wallet, request\<lparr>rq_gas_limit := Some gas_limit\<rparr>, nonce, gas_upper)))))))))"

definition check_receipt :: "string \<Rightarrow> string \<Rightarrow> string \<Rightarrow> tx_receipt res option \<Rightarrow> tx_receipt res" where
  "check_receipt wallet to_address hash answer =
     rbind (case answer of None \<Rightarrow> Inl (Bail ''payment_recovery_required: receipt timeout'') | Some r \<Rightarrow> r)
       (\<lambda>receipt.
     rbind (ensure (rc_transaction_hash receipt = hash \<and> rc_from receipt = wallet \<and> rc_to receipt = Some to_address)
       ''payment_recovery_required: transaction receipt identity mismatch'') (\<lambda>_. Inr receipt))"

definition next_answers :: "signer_env \<Rightarrow> tx_answers action" where
  "next_answers env s = (Inr (sv_answers env (sg_calls s)), s\<lparr>sg_calls := sg_calls s + 1\<rparr>)"

definition transact ::
  "signer_env \<Rightarrow> tx_answers \<Rightarrow> string \<Rightarrow> string \<Rightarrow> string \<Rightarrow> string \<Rightarrow> u128 \<Rightarrow> tx_receipt action"
where
  "transact env a upload_id approval_id to_address calldata storage_cap =
     andthen (lift (plan_transaction env a to_address calldata)) (\<lambda>(wallet, request, nonce, gas_upper).
     andthen (interfere (sv_digest env) (ta_before_reserve a)) (\<lambda>_.
     andthen (perform (sv_digest env) (ta_reserve_at a, Reserve \<lparr>rs_approval_id = approval_id,
         rs_upload_id = upload_id, rs_id = ta_intent_id a, rs_nonce = nonce,
         rs_storage_upper = storage_cap, rs_gas_upper = gas_upper\<rparr>)) (\<lambda>_.
     andthen (lift (ta_build a request)) (\<lambda>(hash, raw).
     andthen (interfere (sv_digest env) (ta_before_record a)) (\<lambda>_.
     andthen (perform (sv_digest env) (ta_record_at a, RecordSigned (ta_intent_id a) hash raw)) (\<lambda>_.
     andthen (broadcast raw (case ta_send a of
         Inl e \<Rightarrow> Inl (Bail (''payment_recovery_required: broadcast outcome uncertain: '' @ e)) | Inr _ \<Rightarrow> Inr ())) (\<lambda>_.
     lift (check_receipt wallet to_address hash (ta_receipt a)))))))))"

definition settle_receipt :: "signer_env \<Rightarrow> tx_answers \<Rightarrow> tx_receipt \<Rightarrow> u128 \<Rightarrow> u128 \<Rightarrow> unit action" where
  "settle_receipt env a receipt storage gas =
     andthen (interfere (sv_digest env) (ta_before_settle a)) (\<lambda>_.
     perform (sv_digest env) (ta_settle_at a,
       Settle (rc_transaction_hash receipt) storage gas (sv_receipt_json env receipt)))"

section \<open>Paying an upload\<close>

record paid_totals =
  pt_storage :: u128
  pt_gas :: u128

definition add_paid :: "u128 \<Rightarrow> u128 \<Rightarrow> paid_totals \<Rightarrow> paid_totals res" where
  "add_paid storage gas t =
     rbind (ok_or (checked_add (pt_storage t) storage) (Bail ''storage amount overflow'')) (\<lambda>st.
     rbind (ok_or (checked_add (pt_gas t) gas) (Bail ''gas amount overflow'')) (\<lambda>g.
     Inr \<lparr>pt_storage = st, pt_gas = g\<rparr>))"

fun batch_amount :: "u128 \<Rightarrow> quote_payment list \<Rightarrow> u128 res" where
  "batch_amount acc [] = Inr acc"
| "batch_amount acc ((_, _, w) # ps) =
     (case u128_of_u256 w of
        Inl _ \<Rightarrow> Inl (Bail ''payment amount overflow'')
      | Inr v \<Rightarrow> rbind (ok_or (checked_add acc v) (Bail ''payment amount overflow'')) (\<lambda>acc'. batch_amount acc' ps))"

text \<open>\<open>slice::chunks\<close>; its size is a positive constant of the contract library.\<close>

function chunks :: "nat \<Rightarrow> 'a list \<Rightarrow> 'a list list" where
  "chunks n xs = (if xs = [] \<or> n = 0 then [] else take n xs # chunks n (drop n xs))"
  by pat_completeness auto
termination by (relation "measure (\<lambda>(_, xs). length xs)") auto

declare chunks.simps [simp del]

lemma concat_chunks: "0 < n \<Longrightarrow> concat (chunks n xs) = xs"
  by (induction n xs rule: chunks.induct) (subst chunks.simps, auto)

definition pay_wave ::
  "signer_env \<Rightarrow> string \<Rightarrow> string \<Rightarrow> quote_payment list \<Rightarrow> paid_totals \<Rightarrow> (string \<times> paid_totals) action"
where
  "pay_wave env upload_id approval_id payments t =
     andthen (lift (batch_amount 0 payments)) (\<lambda>total.
     andthen (lift (sv_quotes_call env payments)) (\<lambda>(calldata, to_address).
     andthen (next_answers env) (\<lambda>a.
     andthen (transact env a upload_id approval_id to_address calldata total) (\<lambda>receipt.
     andthen (lift (receipt_gas receipt)) (\<lambda>gas.
     andthen (settle_receipt env a receipt (if rc_status receipt then total else 0) gas) (\<lambda>_.
     andthen (lift (ensure (rc_status receipt) ''payment_recovery_required: storage payment reverted'')) (\<lambda>_.
     andthen (lift (add_paid total gas t)) (\<lambda>t'.
     lift (Inr (rc_transaction_hash receipt, t'))))))))))"

fun pay_waves ::
  "signer_env \<Rightarrow> string \<Rightarrow> string \<Rightarrow> quote_payment list list \<Rightarrow> (string \<rightharpoonup> string) \<Rightarrow> paid_totals \<Rightarrow>
     ((string \<rightharpoonup> string) \<times> paid_totals) action"
where
  "pay_waves env upload_id approval_id [] proofs t = lift (Inr (proofs, t))"
| "pay_waves env upload_id approval_id (payments # rest) proofs t =
     andthen (pay_wave env upload_id approval_id payments t) (\<lambda>(hash, t').
     pay_waves env upload_id approval_id rest
       (fold (\<lambda>(quote_hash, _, _) m. m(quote_hash \<mapsto> hash)) payments proofs) t')"

definition merkle_winner :: "string \<Rightarrow> merkle_batch \<Rightarrow> tx_receipt \<Rightarrow> (string \<times> u128) res" where
  "merkle_winner to_address batch receipt =
     (case filter (\<lambda>e. me_address e = to_address \<and> me_depth e = mb_depth batch \<and> me_timestamp e = mb_timestamp batch)
         (rc_merkle_events receipt) of
        [] \<Rightarrow> Inl (Bail ''payment_recovery_required: missing matching merkle receipt'')
      | event # more_events \<Rightarrow>
          rbind (ensure (more_events = []) ''payment_recovery_required: ambiguous merkle receipt'') (\<lambda>_.
          rbind (ensure (\<exists>pool \<in> set (mb_pool_commitments batch). pc_pool_hash pool = me_winner event)
            ''payment_recovery_required: unexpected merkle winner'') (\<lambda>_.
          rbind (u128_of_u256 (me_total_amount event)) (\<lambda>total. Inr (me_winner event, total)))))"

definition pay_batch ::
  "signer_env \<Rightarrow> string \<Rightarrow> string \<Rightarrow> merkle_batch \<Rightarrow> paid_totals \<Rightarrow> (string \<times> paid_totals) action"
where
  "pay_batch env upload_id approval_id batch t =
     andthen (lift (u128_of_u256 (sv_merkle_cost env batch))) (\<lambda>upper.
     andthen (lift (sv_merkle_call env batch)) (\<lambda>(calldata, to_address).
     andthen (next_answers env) (\<lambda>a.
     andthen (transact env a upload_id approval_id to_address calldata upper) (\<lambda>receipt.
     andthen (lift (receipt_gas receipt)) (\<lambda>gas.
     if \<not> rc_status receipt
     then andthen (settle_receipt env a receipt 0 gas)
            (\<lambda>_. lift (Inl (Bail ''payment_recovery_required: merkle payment reverted'')))
     else
       andthen (lift (merkle_winner to_address batch receipt)) (\<lambda>(winner, total).
       andthen (settle_receipt env a receipt total gas) (\<lambda>_.
       andthen (lift (add_paid total gas t)) (\<lambda>t'.
       lift (Inr (winner, t'))))))))))"

fun pay_batches ::
  "signer_env \<Rightarrow> string \<Rightarrow> string \<Rightarrow> merkle_batch list \<Rightarrow> string list \<Rightarrow> paid_totals \<Rightarrow>
     (string list \<times> paid_totals) action"
where
  "pay_batches env upload_id approval_id [] winners t = lift (Inr (winners, t))"
| "pay_batches env upload_id approval_id (batch # rest) winners t =
     andthen (pay_batch env upload_id approval_id batch t) (\<lambda>(winner, t').
     pay_batches env upload_id approval_id rest (winners @ [winner]) t')"

datatype payment_proofs =
    WaveProofs "string \<rightharpoonup> string"
  | MerkleProofs "string list"

text \<open>The allowance replaces any earlier one; its transaction pays no storage.\<close>

definition approve_allowance ::
  "signer_env \<Rightarrow> string \<Rightarrow> string \<Rightarrow> u128 \<Rightarrow> paid_totals action"
where
  "approve_allowance env upload_id approval_id upper =
     (if upper = 0 then lift (Inr \<lparr>pt_storage = 0, pt_gas = 0\<rparr>)
      else
        andthen (next_answers env) (\<lambda>a.
        andthen (transact env a upload_id approval_id (sv_token env) (sv_approve_call env upper) 0) (\<lambda>receipt.
        andthen (lift (receipt_gas receipt)) (\<lambda>gas.
        andthen (settle_receipt env a receipt 0 gas) (\<lambda>_.
        andthen (lift (ensure (rc_status receipt) ''payment_recovery_required: token approval reverted'')) (\<lambda>_.
        lift (Inr \<lparr>pt_storage = 0, pt_gas = gas\<rparr>)))))))"

definition checked_upper :: "signer_env \<Rightarrow> string \<Rightarrow> u128 \<Rightarrow> unit action" where
  "checked_upper env approval_id upper s =
     (check_storage (sv_digest env) (sv_check_at env) approval_id upper (sg_journal s), s)"

definition pay :: "signer_env \<Rightarrow> string \<Rightarrow> string \<Rightarrow> payment_info \<Rightarrow> (payment_proofs \<times> paid_totals) action" where
  "pay env upload_id approval_id info =
     andthen (lift (storage_upper env info)) (\<lambda>upper.
     andthen (interfere (sv_digest env) (sv_before_check env)) (\<lambda>_.
     andthen (checked_upper env approval_id upper) (\<lambda>_.
     andthen (approve_allowance env upload_id approval_id upper) (\<lambda>t.
     case info of
       WaveBatch payments _ \<Rightarrow>
         andthen (pay_waves env upload_id approval_id (chunks (sv_max_transfers env) payments) Map.empty t)
           (\<lambda>(proofs, t'). lift (Inr (WaveProofs proofs, t')))
     | Merkle batches \<Rightarrow>
         andthen (pay_batches env upload_id approval_id batches [] t)
           (\<lambda>(winners, t'). lift (Inr (MerkleProofs winners, t')))))))"

end
