(* ===== verification/Payment_Uploads.thy ===== *)
theory Payment_Uploads
  imports Payment_Signer
begin

text \<open>
  The uploads of the gateway (\<open>crates/antd_service/src/payments/mod.rs\<close>): admission and joining of
  tasks, the finalization loop over the storage client, sessions kept for a resumption, and how the end
  of a task is written to the journal. The storage client, the JSON of a receipt and the clock are
  parameters.
\<close>

section \<open>Modes and errors\<close>

datatype payment_mode = AutoMode | SingleMode | MerkleMode

fun format_mode :: "payment_mode \<Rightarrow> string" where
  "format_mode AutoMode = ''auto''"
| "format_mode SingleMode = ''single''"
| "format_mode MerkleMode = ''merkle''"

definition validate_buffered_payment_mode :: "payment_mode \<Rightarrow> u64 \<Rightarrow> unit res" where
  "validate_buffered_payment_mode mode len =
     ensure (mode \<noteq> SingleMode \<or> len \<le> 64 * 1024 * 1024)
       ''approval_required: single payment mode is limited to 64 MiB; choose auto or merkle for larger files''"

text \<open>The text of an error; that of a library is a parameter of what runs.\<close>

fun error_text :: "(lib_error \<Rightarrow> string) \<Rightarrow> perror \<Rightarrow> string" where
  "error_text lib_text (Bail s) = s"
| "error_text lib_text (Lib e) = lib_text e"

definition payment_error_code :: "string \<Rightarrow> string" where
  "payment_error_code detail =
     (if prefix ''approval_required:'' detail then ''APPROVAL_REQUIRED''
      else if prefix ''partial_upload:'' detail then ''PARTIAL_UPLOAD''
      else ''PAYMENT_RECOVERY_REQUIRED'')"

section \<open>Quotes\<close>

definition contract_calls :: "payment_info \<Rightarrow> nat" where
  "contract_calls info = (case info of WaveBatch payments _ \<Rightarrow> (length payments + 255) div 256 | Merkle batches \<Rightarrow> length batches)"

text \<open>The displayed gas ceiling: five million gas at twice the fee for each call and the allowance.\<close>

definition quote_gas :: "u128 \<Rightarrow> u128 res \<Rightarrow> nat \<Rightarrow> u128 res" where
  "quote_gas cost max_fee calls =
     (if cost = 0 then Inr 0
      else rbind max_fee (\<lambda>fee.
        ok_or (Option.bind (checked_mul fee 2) (\<lambda>f. Option.bind (checked_mul f 5000000)
          (\<lambda>g. checked_mul g (of_nat (calls + 1))))) (Bail ''quote gas ceiling overflow'')))"

record prepared_upload =
  pu_payment_info :: payment_info
  pu_total_chunks :: nat
  pu_data_map_address :: "string option"

definition quote_content ::
  "signer_env \<Rightarrow> string \<Rightarrow> u64 \<times> string \<Rightarrow> payment_mode \<Rightarrow> prepared_upload res \<Rightarrow> u128 res \<Rightarrow> content_quote res"
where
  "quote_content env network file mode preparation max_fee =
     rbind (validate_buffered_payment_mode mode (fst file)) (\<lambda>_.
     rbind preparation (\<lambda>prepared.
     rbind (storage_upper env (pu_payment_info prepared)) (\<lambda>cost.
     rbind (quote_gas cost max_fee (contract_calls (pu_payment_info prepared))) (\<lambda>gas.
     rbind (ok_or (pu_data_map_address prepared) (Bail ''public preparation has no address'')) (\<lambda>address.
     Inr \<lparr>cq_cost = u128_to_string cost, cq_estimated_gas_cost_wei = u128_to_string gas, cq_file_size = fst file,
          cq_chunk_count = pu_total_chunks prepared, cq_payment_mode = format_mode mode, cq_address = address,
          cq_content_sha256 = snd file, cq_network = network,
          cq_confidence = (if cost = 0 then ''verified_all_already_stored'' else ''prepared_storage_upper_bound'')\<rparr>)))))"

section \<open>The gateway\<close>

record upload_receipt =
  ru_address :: string
  ru_byte_size :: u64
  ru_chunks_stored :: nat
  ru_total_chunks :: nat
  ru_chunks_failed :: nat
  ru_storage_cost_atto :: string
  ru_estimated_gas_cost_wei :: string
  ru_payment_mode_used :: string
  ru_verified :: bool
  ru_upload_id :: string

text \<open>A session holds the handle by which the storage client resumes.\<close>

record resume_session =
  rm_handle :: string
  rm_receipt :: upload_receipt
  rm_sha256 :: string
  rm_verify :: bool
  rm_expires :: int

record gateway =
  gw_journal :: journal
  gw_running :: "string list"
  gw_quotes :: nat
  gw_resumes :: "(string \<times> resume_session) list"

text \<open>Four slots, shared by quotes and tasks.\<close>

definition free_slot :: "gateway \<Rightarrow> bool" where
  "free_slot g \<longleftrightarrow> gw_quotes g + length (gw_running g) < 4"

record file_upload_result =
  fu_data_map :: string
  fu_data_map_address :: "string option"
  fu_chunks_stored :: nat
  fu_total_chunks :: nat
  fu_chunks_failed :: nat
  fu_payment_mode_used :: payment_mode

datatype finalize_outcome =
    Complete file_upload_result
  | Partial file_upload_result string

record upload_context =
  uc_id :: string
  uc_sha256 :: string
  uc_size :: u64
  uc_verify :: bool

text \<open>A session that has ended is dropped before the four kept ones are counted.\<close>

definition live_sessions :: "int \<Rightarrow> (string \<times> resume_session) list \<Rightarrow> (string \<times> resume_session) list" where
  "live_sessions now = filter (\<lambda>(_, session). rm_expires session > now)"

definition receipt_of :: "upload_context \<Rightarrow> paid_totals \<Rightarrow> file_upload_result \<Rightarrow> string \<Rightarrow> bool \<Rightarrow> upload_receipt" where
  "receipt_of c t r address verified =
     \<lparr>ru_address = address, ru_byte_size = uc_size c, ru_chunks_stored = fu_chunks_stored r,
      ru_total_chunks = fu_total_chunks r, ru_chunks_failed = fu_chunks_failed r,
      ru_storage_cost_atto = u128_to_string (pt_storage t), ru_estimated_gas_cost_wei = u128_to_string (pt_gas t),
      ru_payment_mode_used = format_mode (fu_payment_mode_used r), ru_verified = verified, ru_upload_id = uc_id c\<rparr>"

definition partial_detail :: "string \<Rightarrow> string" where
  "partial_detail upload_id =
     ''partial_upload: '' @ upload_id @ ''; storage can resume against the original payment within one hour''"

definition keep_resume ::
  "int \<Rightarrow> upload_context \<Rightarrow> paid_totals \<Rightarrow> file_upload_result \<Rightarrow> string \<Rightarrow> gateway \<Rightarrow> upload_receipt res \<times> gateway"
where
  "keep_resume now c t r handle g =
     (let live = live_sessions now (gw_resumes g) in
      if length live \<ge> 4
      then (Inl (Bail ''payment_recovery_required: partial upload recovery capacity exhausted''), g\<lparr>gw_resumes := live\<rparr>)
      else
        (case fu_data_map_address r of
           None \<Rightarrow> (Inl (Bail ''public partial upload missing address''), g\<lparr>gw_resumes := live\<rparr>)
         | Some address \<Rightarrow>
             (Inl (Bail (partial_detail (uc_id c))),
              g\<lparr>gw_resumes := filter (\<lambda>(i, _). i \<noteq> uc_id c) live @
                [(uc_id c, \<lparr>rm_handle = handle, rm_receipt = receipt_of c t r address False,
                   rm_sha256 = uc_sha256 c, rm_verify = uc_verify c, rm_expires = now + 3600\<rparr>)]\<rparr>)))"

text \<open>\<open>download\<close> fetches the content of a data map: the length it reports, and the length and hash of the
  file it leaves.\<close>

type_synonym download_fn = "string \<Rightarrow> (u64 \<times> u64 \<times> string) res"

definition verify_content :: "download_fn \<Rightarrow> string \<Rightarrow> string \<Rightarrow> u64 \<Rightarrow> unit res" where
  "verify_content download map_bytes sha256 len =
     rbind (download map_bytes) (\<lambda>(downloaded, verified_size, verified_sha256).
     ensure (len = downloaded \<and> len = verified_size \<and> sha256 = verified_sha256)
       ''payment_recovery_required: verification mismatch'')"

definition completed ::
  "download_fn \<Rightarrow> upload_context \<Rightarrow> paid_totals \<Rightarrow> file_upload_result \<Rightarrow> upload_receipt res"
where
  "completed download c t r =
     rbind (ensure (fu_chunks_failed r = 0 \<and> fu_chunks_stored r = fu_total_chunks r)
       ''payment_recovery_required: incomplete storage result'') (\<lambda>_.
     rbind (if uc_verify c then verify_content download (fu_data_map r) (uc_sha256 c) (uc_size c) else Inr ()) (\<lambda>_.
     rbind (ok_or (fu_data_map_address r) (Bail ''public upload missing address'')) (\<lambda>address.
     Inr (receipt_of c t r address (uc_verify c)))))"

text \<open>
  At most three resumptions, and none once a resumption has not lowered the number of failed chunks.
  \<open>resumed\<close> answers a resumption of a handle.
\<close>

fun finalize_loop ::
  "nat \<Rightarrow> (string \<Rightarrow> finalize_outcome res) \<Rightarrow> download_fn \<Rightarrow> int \<Rightarrow> upload_context \<Rightarrow> paid_totals \<Rightarrow>
     nat option \<Rightarrow> finalize_outcome \<Rightarrow> gateway \<Rightarrow> upload_receipt res \<times> gateway"
where
  "finalize_loop 0 resumed download now c t previous_failed (Complete r) g = (completed download c t r, g)"
| "finalize_loop 0 resumed download now c t previous_failed (Partial r handle) g = keep_resume now c t r handle g"
| "finalize_loop (Suc n) resumed download now c t previous_failed (Complete r) g = (completed download c t r, g)"
| "finalize_loop (Suc n) resumed download now c t previous_failed (Partial r handle) g =
     (if (case previous_failed of None \<Rightarrow> False | Some p \<Rightarrow> fu_chunks_failed r \<ge> p)
      then keep_resume now c t r handle g
      else (case resumed handle of
              Inl e \<Rightarrow> (Inl e, g)
            | Inr outcome \<Rightarrow> finalize_loop n resumed download now c t (Some (fu_chunks_failed r)) outcome g))"

text \<open>One task: the preparation of the file, its payment, and its finalization with the proofs.\<close>

definition upload_inner ::
  "signer_env \<Rightarrow> string \<Rightarrow> prepared_upload res \<Rightarrow> (payment_proofs \<Rightarrow> finalize_outcome res) \<Rightarrow>
     (string \<Rightarrow> finalize_outcome res) \<Rightarrow> download_fn \<Rightarrow> int \<Rightarrow> upload_context \<Rightarrow> gateway \<Rightarrow> upload_receipt res \<times> gateway"
where
  "upload_inner env approval_id preparation finalized resumed download now c g =
     (case preparation of
        Inl e \<Rightarrow> (Inl e, g)
      | Inr prepared \<Rightarrow>
          (case pay env (uc_id c) approval_id (pu_payment_info prepared) (signer_start (gw_journal g)) of
             (Inl e, s) \<Rightarrow> (Inl e, g\<lparr>gw_journal := sg_journal s\<rparr>)
           | (Inr (proofs, t), s) \<Rightarrow>
               (case finalized proofs of
                  Inl e \<Rightarrow> (Inl e, g\<lparr>gw_journal := sg_journal s\<rparr>)
                | Inr outcome \<Rightarrow>
                    finalize_loop 3 resumed download now c t None outcome (g\<lparr>gw_journal := sg_journal s\<rparr>))))"

section \<open>Tasks\<close>

datatype admission =
    Finished string
  | Resume
  | Joined
  | Started

text \<open>What a request does before it waits: the stored result, a resumption, an upload that runs, or a
  new task, which the journal admits once. Its reads and its admission are taken at one instant.\<close>

definition begin_upload ::
  "digest_fn \<Rightarrow> int \<Rightarrow> string \<Rightarrow> string \<Rightarrow> string \<Rightarrow> u64 \<Rightarrow> payment_mode \<Rightarrow> string \<Rightarrow> gateway \<Rightarrow> admission res \<times> gateway"
where
  "begin_upload digest now upload_id approval_id sha256 len mode key g =
     (case validate_buffered_payment_mode mode len of
        Inl e \<Rightarrow> (Inl e, g)
      | Inr _ \<Rightarrow>
        (case upload_result upload_id (gw_journal g) of
           Some result \<Rightarrow> (Inr (Finished result), g)
         | None \<Rightarrow>
           if is_partial upload_id (gw_journal g) then (Inr Resume, g)
           else if upload_id \<in> set (gw_running g) then (Inr Joined, g)
           else if \<not> free_slot g then (Inl (Bail ''upload capacity exhausted''), g)
           else
             (case admit digest now upload_id approval_id sha256 len (format_mode mode) key (gw_journal g) of
                Inl e \<Rightarrow> (Inl e, g)
              | Inr (fresh, j) \<Rightarrow>
                  if fresh then (Inr Started, g\<lparr>gw_journal := j, gw_running := gw_running g @ [upload_id]\<rparr>)
                  else (Inl (Bail ''payment_recovery_required: existing upload must be reconciled; no second payment was started''),
                        g\<lparr>gw_journal := j\<rparr>))))"

definition end_task :: "string \<Rightarrow> gateway \<Rightarrow> gateway" where
  "end_task upload_id g = g\<lparr>gw_running := filter (\<lambda>i. i \<noteq> upload_id) (gw_running g)\<rparr>"

text \<open>The code takes the intent to exist when the query itself fails; queries of the journal do not fail here.\<close>

definition failure_detail :: "string \<Rightarrow> string \<Rightarrow> journal \<Rightarrow> string" where
  "failure_detail upload_id detail j =
     (if prefix ''approval_required:'' detail \<and> has_storage_intent upload_id j
      then ''payment_recovery_required: budget changed after storage payment intent; '' @ detail else detail)"

definition failure_state :: "string \<Rightarrow> string" where
  "failure_state detail =
     (if prefix ''approval_required:'' detail then ''approval_required''
      else if prefix ''partial_upload:'' detail then ''partial''
      else ''payment_recovery_required'')"

text \<open>\<open>result\<close> is the receipt as JSON, or the text of the error.\<close>

definition end_upload :: "int \<Rightarrow> string \<Rightarrow> string + string \<Rightarrow> gateway \<Rightarrow> string option \<times> gateway" where
  "end_upload now upload_id result g =
     (case result of
        Inr receipt \<Rightarrow>
          (None, end_task upload_id (g\<lparr>gw_journal := finish now upload_id ''complete'' (Some receipt) None (gw_journal g)\<rparr>))
      | Inl detail \<Rightarrow>
          (let detail' = failure_detail upload_id detail (gw_journal g)
           in (Some detail', end_task upload_id
                (g\<lparr>gw_journal := finish now upload_id (failure_state detail') None (Some detail') (gw_journal g)\<rparr>))))"

section \<open>Resumptions\<close>

definition resume_begin :: "int \<Rightarrow> string \<Rightarrow> gateway \<Rightarrow> (admission \<times> resume_session option) res \<times> gateway" where
  "resume_begin now upload_id g =
     (case upload_result upload_id (gw_journal g) of
        Some result \<Rightarrow> (Inr (Finished result, None), g)
      | None \<Rightarrow>
        if upload_id \<in> set (gw_running g) then (Inr (Joined, None), g)
        else if \<not> free_slot g then (Inl (Lib (Transport ''no permits available'')), g)
        else
          (case map_of (gw_resumes g) upload_id of
             None \<Rightarrow> (Inl (Bail ''payment_recovery_required: no retained recovery material; no new payment was started''), g)
           | Some session \<Rightarrow>
               (let g' = g\<lparr>gw_resumes := filter (\<lambda>(i, _). i \<noteq> upload_id) (gw_resumes g)\<rparr>
                in if rm_expires session \<le> now
                   then (Inl (Bail ''payment_recovery_required: retained recovery material expired''), g')
                   else (Inr (Started, Some session), g'\<lparr>gw_running := gw_running g @ [upload_id]\<rparr>))))"

text \<open>One resumption of the storage: the receipt of the original payment, or a session kept again.\<close>

definition resume_inner ::
  "(string \<Rightarrow> finalize_outcome res) \<Rightarrow> download_fn \<Rightarrow> int \<Rightarrow> string \<Rightarrow> resume_session \<Rightarrow> gateway \<Rightarrow>
     upload_receipt res \<times> gateway"
where
  "resume_inner resumed download now upload_id session g =
     (case resumed (rm_handle session) of
        Inl e \<Rightarrow> (Inl e, g)
      | Inr (Complete r) \<Rightarrow>
          (rbind (ensure (fu_chunks_failed r = 0 \<and> fu_chunks_stored r = fu_total_chunks r)
             ''payment_recovery_required: incomplete resumed upload'') (\<lambda>_.
           rbind (if rm_verify session
                  then verify_content download (fu_data_map r) (rm_sha256 session) (ru_byte_size (rm_receipt session))
                  else Inr ())
             (\<lambda>_. Inr ((rm_receipt session)\<lparr>ru_chunks_stored := fu_chunks_stored r, ru_chunks_failed := 0,
               ru_verified := rm_verify session\<rparr>))), g)
      | Inr (Partial r handle) \<Rightarrow>
          (case rbind (amount (ru_storage_cost_atto (rm_receipt session))) (\<lambda>storage.
                rbind (amount (ru_estimated_gas_cost_wei (rm_receipt session))) (\<lambda>gas.
                Inr \<lparr>pt_storage = storage, pt_gas = gas\<rparr>)) of
             Inl e \<Rightarrow> (Inl e, g)
           | Inr t \<Rightarrow> keep_resume now \<lparr>uc_id = upload_id, uc_sha256 = rm_sha256 session,
               uc_size = ru_byte_size (rm_receipt session), uc_verify = rm_verify session\<rparr> t r handle g))"

definition resume_end :: "int \<Rightarrow> string \<Rightarrow> string + string \<Rightarrow> gateway \<Rightarrow> gateway" where
  "resume_end now upload_id result g =
     end_task upload_id
       (case result of
          Inr receipt \<Rightarrow> g\<lparr>gw_journal := finish now upload_id ''complete'' (Some receipt) None (gw_journal g)\<rparr>
        | Inl detail \<Rightarrow> g\<lparr>gw_journal := finish now upload_id
            (if prefix ''partial_upload:'' detail then ''partial'' else ''payment_recovery_required'')
            None (Some detail) (gw_journal g)\<rparr>)"

definition expire_sessions :: "int \<Rightarrow> gateway \<Rightarrow> gateway" where
  "expire_sessions now g = g\<lparr>gw_resumes := live_sessions now (gw_resumes g)\<rparr>"

end
