(* ===== verification/Journal_Example.thy ===== *)
theory Journal_Example
  imports Journal_Runs
begin

text \<open>
  A small run of the payment journal, evaluated: the input at which the witnesses of the journal's
  properties apply them.
\<close>

section \<open>The example of the witnesses\<close>

text \<open>
  One approval for one content, executed under a lease: a first transaction is reserved, signed and
  settled below its reservation, a second one is reserved and left unresolved.
\<close>

definition demo_sha :: string where "demo_sha = replicate 64 CHR ''a''"

definition demo_approval :: payment_approval where
  "demo_approval = \<lparr>pa_quote_id = ''q'', pa_content_digest = ''d'', pa_network = ''net'',
     pa_expires_at = 1000, pa_max_storage_atto = ''100'', pa_max_gas_wei = ''50'',
     pa_contents = [\<lparr>ac_sha256 = demo_sha, ac_byte_size = 5, ac_payment_mode = ''auto''\<rparr>]\<rparr>"

definition demo_lease :: "string \<Rightarrow> int \<Rightarrow> payment_lease" where
  "demo_lease owner generation = \<lparr>pl_quote_id = ''q'', pl_job_id = ''job'', pl_owner = owner,
     pl_generation = generation, pl_expires_at = 100\<rparr>"

definition demo_reservation :: "string \<Rightarrow> u64 \<Rightarrow> u128 \<Rightarrow> u128 \<Rightarrow> transaction_reservation" where
  "demo_reservation tx nonce storage gas = \<lparr>rs_approval_id = ''q'', rs_upload_id = ''u'', rs_id = tx,
     rs_nonce = nonce, rs_storage_upper = storage, rs_gas_upper = gas\<rparr>"

definition demo_digest :: digest_fn where "demo_digest network contents = ''d''"

definition demo_admitted :: "journal_event list" where
  "demo_admitted =
     [(0, Approve demo_approval), (0, Activate (demo_lease ''w'' 1)),
      (0, Admit ''u'' ''q'' demo_sha 5 ''auto'' ''job:w:1'')]"

definition demo_signed :: "journal_event list" where
  "demo_signed = demo_admitted @
     [(1, Reserve (demo_reservation ''t'' 0 30 20)), (1, RecordSigned ''t'' ''h'' ''raw'')]"

definition demo_paid :: "journal_event list" where
  "demo_paid = demo_signed @
     [(2, Settle ''h'' 25 10 ''receipt''), (3, Reserve (demo_reservation ''t2'' 1 40 10))]"

definition after :: "digest_fn \<Rightarrow> string \<Rightarrow> journal_event list \<Rightarrow> journal" where
  "after digest net evs = run (journal_step digest) evs (empty_journal net)"

lemma after_fst: "after digest net evs = fst (run (acc_step digest) evs (opened net))"
  by (simp add: after_def fst_run_acc opened_def)

text \<open>The states it goes through, evaluated one operation at a time.\<close>

definition demo_tx :: "string \<Rightarrow> int \<Rightarrow> string option \<Rightarrow> string \<Rightarrow> string \<Rightarrow> string \<Rightarrow> transaction_row" where
  "demo_tx tx nonce hash storage gas state = \<lparr>tr_id = tx, tr_hash = hash, tr_upload_id = ''u'',
     tr_approval_id = ''q'', tr_network = ''net'', tr_nonce = nonce,
     tr_raw_transaction = map_option (\<lambda>_. ''raw'') hash, tr_storage_reserved = storage,
     tr_gas_reserved = gas, tr_state = state,
     tr_receipt = (if state = ''settled'' then Some ''receipt'' else None)\<rparr>"

definition demo_journal :: "string \<Rightarrow> int \<Rightarrow> transaction_row list \<Rightarrow> string \<Rightarrow> string \<Rightarrow> journal" where
  "demo_journal state t txs storage gas = \<lparr>jn_network = ''net'', payment_controls = [],
     payment_approvals = [\<lparr>ar_id = ''q'', ar_definition = demo_approval, ar_state = ''open'',
       ar_reserved_storage = storage, ar_reserved_gas = gas\<rparr>],
     payment_leases = [\<lparr>lr_approval_id = ''q'', lr_job_id = ''job'', lr_owner = ''w'',
       lr_generation = 1, lr_expires_at = 100\<rparr>],
     payment_uploads = [\<lparr>ur_id = ''u'', ur_approval_id = ''q'', ur_sha256 = demo_sha,
       ur_lease_key = ''job:w:1'', ur_state = state, ur_result = None, ur_detail = None,
       ur_updated_at = t\<rparr>],
     payment_transactions = txs\<rparr>"

lemma demo_amounts:
  "amount ''100'' = Inr 100" "amount ''50'' = Inr 50" "amount ''0'' = Inr 0" "amount ''30'' = Inr 30"
  "amount ''20'' = Inr 20" "amount ''25'' = Inr 25" "amount ''10'' = Inr 10"
  by (simp_all add: amount_def is_ascii_digit_def digits_value_def)

lemma demo_key: "lease_key_of ''job'' ''w'' 1 = ''job:w:1''"
  by (simp add: lease_key_of_def show_int_def show_nat_eval digit_char_eval)

lemma demo_written:
  "u128_to_string 30 = ''30''" "u128_to_string 20 = ''20''" "u128_to_string 25 = ''25''"
  "u128_to_string 10 = ''10''" "u128_to_string 65 = ''65''" "u128_to_string 40 = ''40''"
  by (simp_all add: u128_to_string_def show_nat_eval digit_char_eval)

lemma demo_content:
  "check_content \<lparr>ac_sha256 = demo_sha, ac_byte_size = 5, ac_payment_mode = ''auto''\<rparr> = Inr ()"
  by (simp add: check_content_def demo_sha_def list_all_iff is_ascii_hexdigit_def is_ascii_digit_def
      is_ascii_uppercase_def payment_modes_def word_le_nat_alt)

lemma demo_valid: "0 \<le> now \<Longrightarrow> now < 1000 \<Longrightarrow> validate demo_digest demo_approval now ''net'' = Inr ()"
  by (simp add: validate_ok demo_approval_def demo_amounts demo_content is_amount_def
      i64_saturating_add_def i64_max_def i64_min_def demo_digest_def)

lemma demo_approval_simps:
  "pa_quote_id demo_approval = ''q''" "pa_max_storage_atto demo_approval = ''100''"
  "pa_max_gas_wei demo_approval = ''50''" "permits demo_approval demo_sha 5 ''auto''"
  by (simp_all add: demo_approval_def permits_def)

lemmas demo_simps = demo_valid demo_approval_simps demo_amounts demo_key demo_written demo_journal_def
  demo_tx_def demo_reservation_def demo_lease_def fetch_one_def fetch_optional_def rows_affected_def
  require_open_approval_def validate_execution_def lease_valid_def restore_pending_def
  has_transaction_def unresolved_def checked_reservation_def checked_add_def checked_sub_def Let_def
  journal_step_def

lemma demo_admitted_state:
  "after demo_digest ''net'' demo_admitted = demo_journal ''preparing'' 0 [] ''0'' ''0''"
  by (simp add: after_def demo_admitted_def empty_journal_def approve_def activate_def admit_def
      demo_simps cong: rbind_weak_cong)

lemma demo_reserve:
  "journal_step demo_digest (1, Reserve (demo_reservation ''t'' 0 30 20))
     (demo_journal ''preparing'' 0 [] ''0'' ''0'') =
   demo_journal ''paying'' 1 [demo_tx ''t'' 0 None ''30'' ''20'' ''reserved''] ''30'' ''20''"
  by (simp add: reserve_def demo_simps cong: rbind_weak_cong)

lemma demo_sign:
  "journal_step demo_digest (1, RecordSigned ''t'' ''h'' ''raw'')
     (demo_journal ''paying'' 1 [demo_tx ''t'' 0 None ''30'' ''20'' ''reserved''] ''30'' ''20'') =
   demo_journal ''paying'' 1 [demo_tx ''t'' 0 (Some ''h'') ''30'' ''20'' ''signed''] ''30'' ''20''"
  by (simp add: record_signed_def demo_simps cong: rbind_weak_cong)

lemma demo_settle:
  "settle ''h'' 25 10 ''receipt''
     (demo_journal ''paying'' 1 [demo_tx ''t'' 0 (Some ''h'') ''30'' ''20'' ''signed''] ''30'' ''20'') =
   Inr (demo_journal ''paying'' 1 [demo_tx ''t'' 0 (Some ''h'') ''30'' ''20'' ''settled''] ''25'' ''10'')"
  by (simp add: settle_def demo_simps cong: rbind_weak_cong)

lemma demo_reserve2:
  "journal_step demo_digest (3, Reserve (demo_reservation ''t2'' 1 40 10))
     (demo_journal ''paying'' 1 [demo_tx ''t'' 0 (Some ''h'') ''30'' ''20'' ''settled''] ''25'' ''10'') =
   demo_journal ''paying'' 3 [demo_tx ''t'' 0 (Some ''h'') ''30'' ''20'' ''settled'',
     demo_tx ''t2'' 1 None ''40'' ''10'' ''reserved''] ''65'' ''20''"
  by (simp add: reserve_def demo_simps cong: rbind_weak_cong)

lemma demo_signed_state:
  "after demo_digest ''net'' demo_signed =
     demo_journal ''paying'' 1 [demo_tx ''t'' 0 (Some ''h'') ''30'' ''20'' ''signed''] ''30'' ''20''"
  using demo_admitted_state demo_reserve demo_sign by (simp add: after_def demo_signed_def)

lemma demo_paid_state:
  "after demo_digest ''net'' demo_paid =
     demo_journal ''paying'' 3 [demo_tx ''t'' 0 (Some ''h'') ''30'' ''20'' ''settled'',
       demo_tx ''t2'' 1 None ''40'' ''10'' ''reserved''] ''65'' ''20''"
  using demo_signed_state demo_settle demo_reserve2
  by (simp add: after_def demo_paid_def journal_step_def [of _ "(2, _)"])

end
