(* ===== verification/Journal_Properties.thy ===== *)
theory Journal_Properties
  imports Journal_Example
begin

text \<open>
  The properties of the payment journal over whole runs: spending stays within the approved caps and
  the books balance, one transaction per network is unresolved, a superseded lease can do nothing
  more, a cancelled approval never spends, a restart loses nothing, settlement succeeds once and is
  then idempotent. Each rests on the interpretation \<open>books\<close> of the guarded system.
\<close>

section \<open>What every step leaves in place\<close>

text \<open>
  Approvals are never removed and their definition never changes; leases keep their job and their
  generation only grows; transactions keep their identity, approval and reservation,
  and once signed their hash and their bytes.
\<close>

definition approval_kept :: "approval_row \<Rightarrow> approval_row \<Rightarrow> bool" where
  "approval_kept a a' \<longleftrightarrow> ar_id a' = ar_id a \<and> ar_definition a' = ar_definition a \<and>
     (ar_state a' = ''open'' \<longrightarrow> ar_state a = ''open'')"

definition lease_kept :: "lease_row \<Rightarrow> lease_row \<Rightarrow> bool" where
  "lease_kept l l' \<longleftrightarrow> lr_approval_id l' = lr_approval_id l \<and> lr_job_id l' = lr_job_id l \<and>
     lr_generation l \<le> lr_generation l'"

definition transaction_kept :: "transaction_row \<Rightarrow> transaction_row \<Rightarrow> bool" where
  "transaction_kept t t' \<longleftrightarrow> tr_id t' = tr_id t \<and> tr_upload_id t' = tr_upload_id t \<and>
     tr_approval_id t' = tr_approval_id t \<and> tr_network t' = tr_network t \<and> tr_nonce t' = tr_nonce t \<and>
     tr_storage_reserved t' = tr_storage_reserved t \<and> tr_gas_reserved t' = tr_gas_reserved t \<and>
     (tr_state t = ''settled'' \<longrightarrow> tr_state t' = ''settled'') \<and>
     (tr_state t \<noteq> ''reserved'' \<longrightarrow> tr_state t' \<noteq> ''reserved'' \<and>
        tr_hash t' = tr_hash t \<and> tr_raw_transaction t' = tr_raw_transaction t)"

definition grows :: "accounts \<Rightarrow> accounts \<Rightarrow> bool" where
  "grows s s' \<longleftrightarrow>
     kept approval_kept (payment_approvals (fst s)) (payment_approvals (fst s')) \<and>
     kept lease_kept (payment_leases (fst s)) (payment_leases (fst s')) \<and>
     kept transaction_kept (payment_transactions (fst s)) (payment_transactions (fst s'))"

lemmas row_kept_defs = approval_kept_def lease_kept_def transaction_kept_def

lemma growsI:
  assumes "kept approval_kept (payment_approvals j) (payment_approvals j')"
    "kept lease_kept (payment_leases j) (payment_leases j')"
    "kept transaction_kept (payment_transactions j) (payment_transactions j')"
  shows "grows (j, p) (j', p')"
  using assms by (simp add: grows_def)

lemma kept_refls [simp]:
  "kept approval_kept as as" "kept lease_kept ls ls" "kept transaction_kept ts ts"
  "kept approval_kept as (as @ as')" "kept lease_kept ls (ls @ ls')" "kept transaction_kept ts (ts @ ts')"
  by (auto intro!: kept_refl kept_append simp: row_kept_defs)

lemma kept_updates:
  "(\<And>a. P a \<Longrightarrow> approval_kept a (f a)) \<Longrightarrow> kept approval_kept as (update_where P f as)"
  "(\<And>l. Q l \<Longrightarrow> lease_kept l (g l)) \<Longrightarrow> kept lease_kept ls (update_where Q g ls)"
  "(\<And>t. T t \<Longrightarrow> transaction_kept t (h t)) \<Longrightarrow> kept transaction_kept ts (update_where T h ts)"
  by (auto intro!: kept_update simp: row_kept_defs)

lemma grows_refl: "grows s s"
  by (simp add: grows_def)

lemma grows_trans: "grows s t \<Longrightarrow> grows t u \<Longrightarrow> grows s u"
  unfolding grows_def
  by (elim conjE, intro conjI; erule (1) kept_trans [rotated]) (auto simp: row_kept_defs)

lemma grows_initialize: "grows (j, p) (initialize now j, p')"
  unfolding initialize_def Let_def by (rule growsI) (simp_all add: kept_updates row_kept_defs)

lemma grows_exec:
  assumes "exec digest ev j = Inr j'"
  shows "grows (j, p) (j', p')"
proof -
  obtain now op where ev: "ev = (now, op)" by (cases ev)
  note growsI [simp] kept_updates [simp] row_kept_defs [simp]
  show ?thesis
  proof (cases op)
    case (Approve a)
    with assms ev have "approve digest now a j = Inr j'" by simp
    then show ?thesis by (cases rule: approveE) simp_all
  next
    case (CancelUnpaid approval_id key)
    with assms ev obtain b where "cancel_unpaid now approval_id key j = Inr (b, j')" by auto
    then have "j' = j \<or> j' = j\<lparr>payment_approvals := update_where (\<lambda>a. ar_id a = approval_id)
        (\<lambda>a. a\<lparr>ar_state := ''cancelled_unpaid''\<rparr>) (payment_approvals j)\<rparr>"
      by (rule cancel_unpaidE)
    then show ?thesis by (elim disjE) simp_all
  next
    case (Admit upload_id approval_id sha byte_size mode key)
    with assms ev obtain b where
      "admit digest now upload_id approval_id sha byte_size mode key j = Inr (b, j')" by auto
    then obtain us where "j' = j\<lparr>payment_uploads := us\<rparr>" by (elim admitE disjE conjE) blast+
    then show ?thesis by simp
  next
    case (Reserve r)
    with assms ev have "reserve digest now r j = Inr j'" by simp
    then show ?thesis by (rule reserveE) simp
  next
    case (RecordSigned tx_id hash raw)
    with assms ev have "record_signed now tx_id hash raw j = Inr j'" by simp
    then show ?thesis by (rule record_signedE) (auto intro!: growsI kept_updates)
  next
    case (Settle hash storage gas receipt)
    with assms ev have "settle hash storage gas receipt j = Inr j'" by simp
    then show ?thesis by (cases rule: settleE) simp_all
  next
    case (Finish upload_id state result detail)
    with assms ev have "j' = finish now upload_id state result detail j" by simp
    then show ?thesis
      by (rule_tac finish_shape [of now upload_id state result detail j]) simp
  next
    case (Activate lease)
    with assms ev have "activate now lease j = Inr j'" by simp
    then show ?thesis
      by (cases rule: activateE) (auto intro!: growsI kept_updates)
  next
    case (Reopen net)
    with assms ev have "j' = initialize now (j\<lparr>jn_network := net\<rparr>)" by (simp add: open_journal_def)
    with grows_initialize [of "j\<lparr>jn_network := net\<rparr>" p now p'] show ?thesis by (simp add: grows_def)
  next
    case (SetControls cs)
    with assms ev have "j' = j\<lparr>payment_controls := cs\<rparr>" by simp
    then show ?thesis by simp
  qed
qed

lemma grows_step: "grows s (acc_step digest ev s)"
proof (cases "exec digest ev (fst s)")
  case (Inl e)
  then show ?thesis using grows_refl [of s] by (simp add: grows_def acc_step_def journal_step_def)
next
  case (Inr j')
  from grows_exec [OF this, of "snd s"] Inr show ?thesis
    by (simp add: acc_step_def journal_step_def)
qed

lemma grows_run: "acc_inv s \<Longrightarrow> grows s (run (acc_step digest) evs s)"
  by (rule books.run_rel) (auto intro: grows_refl grows_trans grows_step)

section \<open>Reachable journals\<close>

lemma acc_inv_after:
  obtains paid where "acc_inv (after digest net evs, paid)"
  using acc_inv_run [of digest evs net] by (metis after_fst prod.collapse)

lemma after_append: "after digest net (evs @ evs') = run (journal_step digest) evs' (after digest net evs)"
  by (simp add: after_def)

lemma grows_after:
  obtains p p' where "grows (after digest net evs, p) (after digest net (evs @ evs'), p')"
proof -
  obtain p where inv: "acc_inv (after digest net evs, p)" by (rule acc_inv_after)
  let ?s = "run (acc_step digest) evs' (after digest net evs, p)"
  have "grows (after digest net evs, p) ?s" by (rule grows_run [OF inv])
  moreover have "fst ?s = after digest net (evs @ evs')" by (simp add: fst_run_acc after_append)
  ultimately show thesis by (metis prod.collapse that)
qed

lemma after_books:
  obtains paid where "books_ok (payment_approvals (after digest net evs))
    (payment_transactions (after digest net evs)) paid"
  by (rule acc_inv_after [of digest net evs]) (auto simp: acc_inv_def)

lemma after_keys:
  "distinct (map ur_id (payment_uploads (after digest net evs)))"
  "distinct (map lr_approval_id (payment_leases (after digest net evs)))"
  "distinct (map ar_id (payment_approvals (after digest net evs)))"
  "distinct (map tr_id (payment_transactions (after digest net evs)))"
  by (rule acc_inv_after [of digest net evs], simp add: acc_inv_def books_ok_def)+

section \<open>Spending\<close>

text \<open>C1. In every journal that a run of operations, restarts and control writes reaches, what an
  approval has reserved is what its settled receipts charged plus what its unsettled transactions
  may still cost, for storage and for gas, and neither exceeds the cap the user approved.\<close>

theorem spending_cap:
  assumes "run (acc_step digest) evs (opened net) = (j, paid)"
    and "a \<in> set (payment_approvals j)"
  shows "amount_value (ar_reserved_storage a) =
      fst (paid (ar_id a)) + outstanding_storage (ar_id a) (payment_transactions j) \<and>
    amount_value (ar_reserved_gas a) =
      snd (paid (ar_id a)) + outstanding_gas (ar_id a) (payment_transactions j) \<and>
    amount_value (ar_reserved_storage a) \<le> amount_value (pa_max_storage_atto (ar_definition a)) \<and>
    amount_value (ar_reserved_gas a) \<le> amount_value (pa_max_gas_wei (ar_definition a))"
proof -
  have "books_ok (payment_approvals j) (payment_transactions j) paid"
    using acc_inv_run [of digest evs net] assms(1) by (simp add: acc_inv_def)
  from books_okD(3,4) [OF this assms(2)] show ?thesis
    by (simp add: approval_ok_def entry_ok_def)
qed

lemma demo_accounts:
  "run (acc_step demo_digest) demo_paid (opened ''net'') =
     (after demo_digest ''net'' demo_paid, (\<lambda>_. (0, 0))(''q'' := (25, 10)))"
proof -
  have quiet: "snd (run (acc_step demo_digest) evs s) = snd s"
    if "\<forall>ev \<in> set evs. \<forall>h a g r. snd ev \<noteq> Settle h a g r" for evs s
    using that by (induction evs arbitrary: s) (simp_all add: acc_step_def settlement_other)
  let ?s = "run (acc_step demo_digest) demo_signed (opened ''net'')"
  have fst: "fst ?s = demo_journal ''paying'' 1 [demo_tx ''t'' 0 (Some ''h'') ''30'' ''20'' ''signed''] ''30'' ''20''"
    using demo_signed_state by (simp add: after_fst)
  have snd: "snd ?s = (\<lambda>_. (0, 0))"
    by (subst quiet) (auto simp: demo_signed_def demo_admitted_def opened_def)
  have settled: "settlement demo_digest (2, Settle ''h'' 25 10 ''receipt'') (fst ?s) = Some (''q'', 25, 10)"
    by (subst settlement_settle [OF demo_settle [folded fst],
          where row = "demo_tx ''t'' 0 (Some ''h'') ''30'' ''20'' ''signed''"])
      (simp_all add: fst demo_journal_def demo_tx_def fetch_one_def fetch_optional_def)
  have "snd (run (acc_step demo_digest) demo_paid (opened ''net'')) = (\<lambda>_. (0, 0))(''q'' := (25, 10))"
    using settled snd
    by (simp add: demo_paid_def acc_step_def [of _ "(2, _)"] acc_step_def [of _ "(3, _)"]
        settlement_other charge_def fun_eq_iff)
  then show ?thesis by (metis after_fst prod.collapse)
qed

theorem spending_cap_witness:
  "\<exists>a. a \<in> set (payment_approvals (after demo_digest ''net'' demo_paid)) \<and>
     amount_value (ar_reserved_storage a) = 25 + 40 \<and> amount_value (ar_reserved_storage a) \<le> 100"
proof -
  let ?a = "\<lparr>ar_id = ''q'', ar_definition = demo_approval, ar_state = ''open'',
     ar_reserved_storage = ''65'', ar_reserved_gas = ''20''\<rparr>"
  have a: "?a \<in> set (payment_approvals (after demo_digest ''net'' demo_paid))"
    by (simp add: demo_paid_state demo_journal_def)
  have "outstanding_storage ''q'' (payment_transactions (after demo_digest ''net'' demo_paid)) = 40"
    by (simp add: demo_paid_state demo_journal_def demo_tx_def outstanding_storage_def amount_value_def
        digits_value_def)
  with a spending_cap [OF demo_accounts a] show ?thesis
    by (intro exI [of _ ?a]) (simp add: demo_approval_def amount_value_def digits_value_def)
qed

text \<open>C2. In every reachable journal at most one transaction of a network is reserved or signed
  without a settled receipt, and no nonce is used twice on one network.\<close>

theorem one_unresolved:
  "rows_affected (\<lambda>t. tr_network t = n \<and> unresolved t)
     (payment_transactions (after digest net evs)) \<le> 1 \<and>
   distinct (map (\<lambda>t. (tr_network t, tr_nonce t)) (payment_transactions (after digest net evs)))"
proof -
  let ?txs = "payment_transactions (after digest net evs)"
  obtain paid where books: "books_ok (payment_approvals (after digest net evs)) ?txs paid"
    by (rule after_books)
  have dist: "distinct ?txs" using after_keys(4) by (simp add: distinct_map)
  let ?us = "filter (\<lambda>t. tr_network t = n \<and> unresolved t) ?txs"
  have same: "x = y" if "x \<in> set ?us" "y \<in> set ?us" for x y
    using that by (intro books_okD(7) [OF books]) (auto simp: conflict_def)
  have "length ?us = card (set ?us)" using dist by (metis distinct_card distinct_filter)
  also have "\<dots> \<le> 1" using same by (subst One_nat_def, intro card_le_Suc0_iff_eq [THEN iffD2]) auto
  finally have "rows_affected (\<lambda>t. tr_network t = n \<and> unresolved t) ?txs \<le> 1"
    by (simp add: rows_affected_def)
  moreover have "inj_on (\<lambda>t. (tr_network t, tr_nonce t)) (set ?txs)"
    by (rule inj_onI, rule books_okD(7) [OF books]) (auto simp: conflict_def)
  ultimately show ?thesis using dist by (simp add: distinct_map)
qed

section \<open>Reserving\<close>

lemma checked_reservation_Inr:
  "checked_reservation used extra cap = Inr tot \<longleftrightarrow>
     unat tot = unat used + unat extra \<and> unat tot \<le> unat cap"
proof -
  have "checked_add used extra = Some tot \<longleftrightarrow> unat tot = unat used + unat extra"
    using unsigned_less [of tot, where ?'a = nat]
    by (auto simp: checked_add_def unat_add_noflow word_unat_eq_iff)
  then show ?thesis
    by (auto simp: checked_reservation_def word_le_nat_alt)
qed

lemma checked_reservation_ok:
  "is_ok (checked_reservation used extra cap) \<longleftrightarrow> unat used + unat extra \<le> unat cap"
proof
  assume "unat used + unat extra \<le> unat cap"
  moreover from this have "unat (used + extra) = unat used + unat extra"
    using unsigned_less [of cap, where ?'a = nat] by (intro unat_add_noflow) simp
  ultimately have "checked_reservation used extra cap = Inr (used + extra)"
    by (simp add: checked_reservation_Inr)
  then show "is_ok (checked_reservation used extra cap)" by simp
qed (auto simp: is_ok_iff checked_reservation_Inr)

lemma is_ok_rbind: "is_ok (rbind m f) \<longleftrightarrow> (\<exists>x. m = Inr x \<and> is_ok (f x))"
  by (cases m) simp_all

text \<open>In a reachable journal a reservation against an existing approval succeeds exactly when
  no restore awaits reconciliation, the execution lease of its upload is live, the approval is
  valid, open and has room for both amounts under its caps, no transaction of the network is
  unresolved, and the nonce fits the column and is free, as is the transaction id.\<close>

theorem reserve_exact:
  assumes "a \<in> set (payment_approvals (after digest net evs))" and "ar_id a = rs_approval_id r"
  shows "is_ok (reserve digest now r (after digest net evs)) \<longleftrightarrow>
    \<not> restore_pending (after digest net evs) \<and>
    is_ok (validate_execution now (rs_upload_id r) (after digest net evs)) \<and>
    is_ok (validate digest (ar_definition a) now (jn_network (after digest net evs))) \<and>
    ar_state a = ''open'' \<and>
    amount_value (ar_reserved_storage a) + unat (rs_storage_upper r) \<le>
      amount_value (pa_max_storage_atto (ar_definition a)) \<and>
    amount_value (ar_reserved_gas a) + unat (rs_gas_upper r) \<le>
      amount_value (pa_max_gas_wei (ar_definition a)) \<and>
    \<not> exists_where (\<lambda>t. tr_network t = jn_network (after digest net evs) \<and> unresolved t)
        (payment_transactions (after digest net evs)) \<and>
    unat (rs_nonce r) < 2 ^ 63 \<and>
    \<not> exists_where (\<lambda>t. tr_id t = rs_id r \<or>
         (tr_network t = jn_network (after digest net evs) \<and> tr_nonce t = int (unat (rs_nonce r))))
        (payment_transactions (after digest net evs))"
proof -
  let ?j = "after digest net evs"
  obtain paid where books: "books_ok (payment_approvals ?j) (payment_transactions ?j) paid"
    by (rule after_books)
  have row: "fetch_one (\<lambda>x. ar_id x = rs_approval_id r) (payment_approvals ?j) = Inr a"
    using fetch_one_key [OF after_keys(3) assms(1)] assms(2) by simp
  from books_okD(3) [OF books assms(1)] obtain us ug cs cg where am:
    "amount (ar_reserved_storage a) = Inr us" "amount (ar_reserved_gas a) = Inr ug"
    "amount (pa_max_storage_atto (ar_definition a)) = Inr cs"
    "amount (pa_max_gas_wei (ar_definition a)) = Inr cg"
    by (auto simp: approval_ok_def is_amount_def is_ok_iff)
  note vals = am [THEN amount_value_eq]
  have S: "(\<exists>x. checked_reservation u e c = Inr x) \<longleftrightarrow> unat u + unat e \<le> unat c"
    for u e c using checked_reservation_ok [of u e c] by (auto simp: is_ok_iff)
  have open_ok: "require_open_approval st = Inr () \<longleftrightarrow> st = ''open''" for st
    by (auto simp: require_open_approval_def)
  show ?thesis
    unfolding reserve_def is_ok_rbind row am ensure_eq_Inr vals
    by (simp add: am is_ok_iff open_ok S not_le if_distrib [of is_ok] conj_ac cong: conj_cong
        del: exists_where_iff)
qed

theorem reserve_exact_witness:
  "\<not> is_ok (reserve demo_digest 4 (demo_reservation ''t3'' 2 1 1) (after demo_digest ''net'' demo_paid))"
proof -
  let ?a = "\<lparr>ar_id = ''q'', ar_definition = demo_approval, ar_state = ''open'',
     ar_reserved_storage = ''65'', ar_reserved_gas = ''20''\<rparr>"
  have a: "?a \<in> set (payment_approvals (after demo_digest ''net'' demo_paid))"
    by (simp add: demo_paid_state demo_journal_def)
  have "exists_where (\<lambda>t. tr_network t = jn_network (after demo_digest ''net'' demo_paid) \<and> unresolved t)
      (payment_transactions (after demo_digest ''net'' demo_paid))"
    by (simp add: demo_paid_state demo_journal_def demo_tx_def unresolved_def)
  then show ?thesis
    by (subst reserve_exact [OF a]) (simp_all add: demo_reservation_def)
qed

section \<open>Settling\<close>

lemma books_fetch_hash:
  assumes "books_ok as txs paid" "t \<in> set txs" "tr_hash t = Some h" "tr_network t = n"
  shows "fetch_one (\<lambda>x. tr_hash x = Some h \<and> tr_network x = n) txs = Inr t"
proof (cases "fetch_one (\<lambda>x. tr_hash x = Some h \<and> tr_network x = n) txs")
  case (Inl e)
  with assms show ?thesis by (auto dest: fetch_one_Inl)
next
  case (Inr t')
  then have "t' \<in> set txs" "tr_hash t' = Some h" "tr_network t' = n" by (auto dest: fetch_one_InrD)
  then have "t' = t" using assms by (intro books_okD(7) [OF assms(1)]) (simp_all add: conflict_def)
  with Inr show ?thesis by simp
qed

lemma outstanding_member:
  assumes "t \<in> set txs" "tr_state t \<noteq> ''settled''"
  shows "amount_value (tr_storage_reserved t) \<le> outstanding_storage (tr_approval_id t) txs"
    "amount_value (tr_gas_reserved t) \<le> outstanding_gas (tr_approval_id t) txs"
  unfolding outstanding_storage_def outstanding_gas_def using assms
  by (auto intro: sum_where_member [where v = "\<lambda>t. amount_value (tr_storage_reserved t)"]
      sum_where_member [where v = "\<lambda>t. amount_value (tr_gas_reserved t)"])

lemma settle_settled:
  assumes "fetch_one (\<lambda>t. tr_hash t = Some hash \<and> tr_network t = jn_network j)
      (payment_transactions j) = Inr row" "tr_state row = ''settled''"
  shows "settle hash storage gas receipt j = Inr j"
  using assms by (simp add: settle_def)

lemma checked_sub_ok: "unat b \<le> unat a \<Longrightarrow> checked_sub a b = Some (a - b)"
  by (simp add: checked_sub_def)

lemma settle_ok:
  assumes books: "books_ok (payment_approvals j) (payment_transactions j) paid"
    and t: "t \<in> set (payment_transactions j)" "tr_hash t = Some h" "tr_network t = jn_network j"
    and le: "unat storage \<le> amount_value (tr_storage_reserved t)" "unat gas \<le> amount_value (tr_gas_reserved t)"
  shows "is_ok (settle h storage gas receipt j)"
proof (cases "tr_state t = ''settled''")
  case True
  with settle_settled [OF books_fetch_hash [OF books t(1,2,3)]] show ?thesis by simp
next
  case False
  from books_okD(5) [OF books t(1)] obtain su gu where
    am: "amount (tr_storage_reserved t) = Inr su" "amount (tr_gas_reserved t) = Inr gu"
    by (auto simp: transaction_ok_def is_amount_def is_ok_iff)
  from books_okD(6) [OF books t(1)] obtain a where a: "a \<in> set (payment_approvals j)"
    "ar_id a = tr_approval_id t" by auto
  from books_okD(3) [OF books a(1)] obtain us ug where
    um: "amount (ar_reserved_storage a) = Inr us" "amount (ar_reserved_gas a) = Inr ug"
    by (auto simp: approval_ok_def is_amount_def is_ok_iff)
  note vals = am [THEN amount_value_eq] um [THEN amount_value_eq]
  have "unat su \<le> unat us" "unat gu \<le> unat ug"
    using outstanding_member [OF t(1) False] books_okD(4) [OF books a(1)] a(2) vals
    by (simp_all add: entry_ok_def)
  then have sub: "checked_sub us (su - storage) = Some (us - (su - storage))"
    "checked_sub ug (gu - gas) = Some (ug - (gu - gas))"
    using le vals by (simp_all add: checked_sub_ok unat_sub word_le_nat_alt)
  have row: "fetch_one (\<lambda>x. ar_id x = tr_approval_id t) (payment_approvals j) = Inr a"
    using fetch_one_key [OF books_okD(1) [OF books] a(1)] a(2) by simp
  show ?thesis
    using le vals False
    by (simp add: settle_def books_fetch_hash [OF books t] am um row sub word_le_nat_alt)
qed

text \<open>In a reachable journal, a receipt that stays within a transaction's reservation can always
  be settled; the transaction is then settled, and settling it again with any figures changes
  nothing.\<close>

theorem settle_total:
  assumes "t \<in> set (payment_transactions (after digest net evs))"
    and "tr_hash t = Some h" and "tr_network t = jn_network (after digest net evs)"
    and "unat storage \<le> amount_value (tr_storage_reserved t)"
    and "unat gas \<le> amount_value (tr_gas_reserved t)"
  shows "\<exists>j'. settle h storage gas receipt (after digest net evs) = Inr j' \<and>
    list_ex (\<lambda>t'. tr_id t' = tr_id t \<and> tr_state t' = ''settled'') (payment_transactions j') \<and>
    (\<forall>storage' gas' receipt'. settle h storage' gas' receipt' j' = Inr j')"
proof -
  let ?j = "after digest net evs"
  obtain paid where books: "books_ok (payment_approvals ?j) (payment_transactions ?j) paid"
    by (rule after_books)
  note row = books_fetch_hash [OF books assms(1,2,3)]
  from settle_ok [OF books assms] obtain j' where j': "settle h storage gas receipt ?j = Inr j'"
    by (auto simp: is_ok_iff)
  from j' show ?thesis
  proof (cases rule: settleE)
    case (replay row')
    with row assms(1) j' settle_settled [OF row] show ?thesis by (auto simp: list_ex_iff)
  next
    case (charge row' current s g)
    let ?t = "t\<lparr>tr_state := ''settled'', tr_receipt := Some receipt\<rparr>"
    have t: "?t \<in> set (payment_transactions j')"
      using assms(1-3) unfolding charge(9) by (auto simp: in_update_where intro!: bexI [of _ t])
    have "after digest net (evs @ [(0, Settle h storage gas receipt)]) = j'"
      using j' by (simp add: after_append journal_step_def)
    with after_books [of digest net "evs @ [(0, Settle h storage gas receipt)]"] obtain paid'
      where "books_ok (payment_approvals j') (payment_transactions j') paid'" by metis
    from books_fetch_hash [OF this t] have
      "fetch_one (\<lambda>x. tr_hash x = Some h \<and> tr_network x = jn_network j') (payment_transactions j') = Inr ?t"
      using assms(2,3) by (simp add: charge(9))
    note again = settle_settled [OF this]
    have "list_ex (\<lambda>t'. tr_id t' = tr_id t \<and> tr_state t' = ''settled'') (payment_transactions j')"
      unfolding list_ex_iff by (rule bexI [OF _ t]) simp
    with again j' show ?thesis by simp
  qed
qed

theorem settle_total_witness:
  "\<exists>j'. settle ''h'' 25 10 ''receipt'' (after demo_digest ''net'' demo_signed) = Inr j' \<and>
     settle ''h'' 1 1 ''other'' j' = Inr j'"
  using settle_total [of "demo_tx ''t'' 0 (Some ''h'') ''30'' ''20'' ''signed''" demo_digest "''net''"
      demo_signed "''h''" 25 10 "''receipt''"]
  unfolding demo_signed_state
  by (auto simp: demo_journal_def demo_tx_def amount_value_def digits_value_def)

section \<open>Fencing\<close>

lemma lease_key_generation:
  assumes "lease_key_of job owner g = lease_key_of job owner' g'"
  shows "owner = owner' \<and> g = g'"
proof -
  have colon: "CHR '':'' \<notin> set (rev (show_int i))" for i
    using show_nat_digits [of "nat i"] show_nat_digits [of "nat (- i)"]
    by (auto simp: show_int_def list_all_iff is_ascii_digit_def)
  have "owner @ CHR '':'' # show_int g = owner' @ CHR '':'' # show_int g'"
    using assms by (simp add: lease_key_of_def)
  from arg_cong [OF this, of rev]
  have "rev (show_int g) @ CHR '':'' # rev owner = rev (show_int g') @ CHR '':'' # rev owner'"
    by simp
  from split_at_colon [OF this colon colon] show ?thesis by simp
qed

lemma lease_valid_unique:
  assumes "distinct (map lr_approval_id (payment_leases j))" "l \<in> set (payment_leases j)"
    and "lease_valid now (lr_approval_id l) (lease_key_of (lr_job_id l) owner g) j"
  shows "g = lr_generation l"
proof -
  from assms(3) obtain l' where "l' \<in> set (payment_leases j)" "lr_approval_id l' = lr_approval_id l"
    and key: "lease_key_of (lr_job_id l') (lr_owner l') (lr_generation l') = lease_key_of (lr_job_id l) owner g"
    by (auto simp: lease_valid_def)
  with assms(1,2) have "l' = l" by (auto simp: distinct_map inj_on_def)
  with lease_key_generation [OF key [unfolded \<open>l' = l\<close>]] show ?thesis by simp
qed

text \<open>C3. Once a lease of an approval was granted at some generation, no key of an older generation of
  that job is honoured in any later journal: it cannot admit or revoke, and an upload that carries
  it can neither reserve nor record a signed transaction.\<close>

theorem lease_fencing:
  assumes "l \<in> set (payment_leases (after digest net evs))" and "g < lr_generation l"
    and "key = lease_key_of (lr_job_id l) owner g"
  shows "\<not> is_ok (cancel_unpaid now (lr_approval_id l) key (after digest net (evs @ evs'))) \<and>
    \<not> is_ok (admit digest now upload_id (lr_approval_id l) sha256 byte_size mode key
        (after digest net (evs @ evs'))) \<and>
    list_all (\<lambda>u. ur_approval_id u = lr_approval_id l \<and> ur_lease_key u = key \<longrightarrow>
        \<not> is_ok (validate_execution now (ur_id u) (after digest net (evs @ evs'))) \<and>
        (rs_upload_id r = ur_id u \<longrightarrow> \<not> is_ok (reserve digest now r (after digest net (evs @ evs')))) \<and>
        list_all (\<lambda>t. tr_upload_id t = ur_id u \<longrightarrow>
            \<not> is_ok (record_signed now (tr_id t) hash raw (after digest net (evs @ evs'))))
          (payment_transactions (after digest net (evs @ evs'))))
      (payment_uploads (after digest net (evs @ evs')))"
proof -
  let ?j = "after digest net (evs @ evs')"
  obtain p p' where "grows (after digest net evs, p) (?j, p')" by (rule grows_after)
  then obtain l' where l': "l' \<in> set (payment_leases ?j)" "lease_kept l l'"
    using assms(1) by (auto simp: grows_def dest: keptD)
  have stale: "\<not> lease_valid now (lr_approval_id l) key ?j"
  proof
    assume "lease_valid now (lr_approval_id l) key ?j"
    with l' have "lease_valid now (lr_approval_id l') (lease_key_of (lr_job_id l') owner g) ?j"
      by (simp add: lease_kept_def assms(3))
    from lease_valid_unique [OF after_keys(2) l'(1) this] l'(2) assms(2) show False
      by (simp add: lease_kept_def)
  qed
  have exec: "\<not> is_ok (validate_execution now (ur_id u) ?j)"
    if u: "u \<in> set (payment_uploads ?j)" "ur_approval_id u = lr_approval_id l" "ur_lease_key u = key" for u
  proof -
    have "u' = u" if "u' \<in> set (payment_uploads ?j)" "ur_id u' = ur_id u" for u'
      using that u(1) after_keys(1) [of digest net "evs @ evs'"] by (auto simp: distinct_map inj_on_def)
    note same = this
    show ?thesis
    proof
      assume "is_ok (validate_execution now (ur_id u) ?j)"
      then obtain u' where "u' \<in> set (payment_uploads ?j)" "ur_id u' = ur_id u"
        and valid: "lease_valid now (ur_approval_id u') (ur_lease_key u') ?j"
        by (auto simp: validate_execution_def is_ok_iff)
      with same have "u' = u" by blast
      with valid stale u show False by simp
    qed
  qed
  have "\<not> is_ok (reserve digest now r ?j)" if "\<not> is_ok (validate_execution now (rs_upload_id r) ?j)"
    using that by (auto simp: reserve_def is_ok_iff simp del: ensure_eq_Inr)
  moreover have "\<not> is_ok (record_signed now (tr_id t) hash raw ?j)"
    if "t \<in> set (payment_transactions ?j)" "\<not> is_ok (validate_execution now (tr_upload_id t) ?j)" for t
    using that fetch_one_key [OF after_keys(4) that(1)] by (auto simp: record_signed_def is_ok_iff)
  ultimately show ?thesis using exec stale
    by (auto simp: list_all_iff cancel_unpaid_def admit_def is_ok_iff)
qed

theorem lease_fencing_witness:
  "\<not> is_ok (reserve demo_digest 2 (demo_reservation ''t'' 0 30 20)
     (after demo_digest ''net'' (demo_admitted @ [(1, Activate (demo_lease ''v'' 2))])))"
proof -
  let ?evs = "demo_admitted @ [(1, Activate (demo_lease ''v'' 2))]"
  let ?l = "\<lparr>lr_approval_id = ''q'', lr_job_id = ''job'', lr_owner = ''v'', lr_generation = 2,
    lr_expires_at = 100\<rparr>"
  have state: "after demo_digest ''net'' ?evs =
      (demo_journal ''preparing'' 0 [] ''0'' ''0'')\<lparr>payment_leases := [?l]\<rparr>"
    using demo_admitted_state
    by (simp add: after_append activate_def demo_simps cong: rbind_weak_cong)
  then have "?l \<in> set (payment_leases (after demo_digest ''net'' ?evs))" by simp
  from lease_fencing [OF this, of 1 "''job:w:1''" "''w''" 2 "[]" "''u''" demo_sha 5 "''auto''"
      "demo_reservation ''t'' 0 30 20"]
  show ?thesis by (simp add: demo_key) (simp add: state demo_journal_def demo_reservation_def)
qed

section \<open>Cancellation and admission\<close>

lemma new_transaction:
  assumes "exec digest ev j = Inr j'" "t' \<in> set (payment_transactions j')"
  shows "(\<exists>t \<in> set (payment_transactions j). tr_approval_id t = tr_approval_id t') \<or>
    (\<exists>a \<in> set (payment_approvals j). ar_id a = tr_approval_id t' \<and> ar_state a = ''open'')"
proof -
  obtain now op where ev: "ev = (now, op)" by (cases ev)
  have same: ?thesis if "payment_transactions j' = payment_transactions j"
    using that assms(2) by auto
  have updated: ?thesis if "payment_transactions j' = update_where P f (payment_transactions j)"
    "\<And>t. tr_approval_id (f t) = tr_approval_id t" for P f
    using assms(2) unfolding that(1) by (auto simp: in_update_where that(2))
  show ?thesis
  proof (cases op)
    case (Approve a)
    with assms(1) ev have "approve digest now a j = Inr j'" by simp
    then show ?thesis by (cases rule: approveE) (simp_all add: same)
  next
    case (CancelUnpaid approval_id key)
    with assms(1) ev obtain b where "cancel_unpaid now approval_id key j = Inr (b, j')" by auto
    then have "payment_transactions j' = payment_transactions j" by (rule cancel_unpaidE) auto
    then show ?thesis by (rule same)
  next
    case (Admit upload_id approval_id sha byte_size mode key)
    with assms(1) ev obtain b where
      "admit digest now upload_id approval_id sha byte_size mode key j = Inr (b, j')" by auto
    then have "payment_transactions j' = payment_transactions j" by (rule admitE) auto
    then show ?thesis by (rule same)
  next
    case (Reserve r)
    with assms(1) ev have "reserve digest now r j = Inr j'" by simp
    then show ?thesis by (rule reserveE) (use assms(2) in auto)
  next
    case (RecordSigned tx_id hash raw)
    with assms(1) ev have "record_signed now tx_id hash raw j = Inr j'" by simp
    then show ?thesis
    proof (rule record_signedE)
      assume j': "j' = j\<lparr>payment_transactions := update_where (\<lambda>t. tr_id t = tx_id \<and> tr_state t = ''reserved'')
         (\<lambda>t. t\<lparr>tr_hash := Some hash, tr_raw_transaction := Some raw, tr_state := ''signed''\<rparr>)
         (payment_transactions j)\<rparr>"
      from j' show ?thesis by (intro updated, simp, simp)
    qed
  next
    case (Settle hash storage gas receipt)
    with assms(1) ev have "settle hash storage gas receipt j = Inr j'" by simp
    then show ?thesis
    proof (cases rule: settleE)
      case (charge row current s g)
      from charge(9) show ?thesis by (intro updated, simp, simp)
    qed (simp add: same)
  next
    case (Finish upload_id state result detail)
    with assms(1) ev have "j' = finish now upload_id state result detail j" by simp
    then show ?thesis
      by (rule_tac finish_shape [of now upload_id state result detail j]) (simp add: same)
  next
    case (Activate lease)
    with assms(1) ev have "activate now lease j = Inr j'" by simp
    then show ?thesis by (cases rule: activateE) (simp_all add: same)
  qed (use assms(1) ev in \<open>auto simp: open_journal_def initialize_def Let_def intro!: same\<close>)
qed

definition revoked :: "string \<Rightarrow> journal \<Rightarrow> bool" where
  "revoked x j \<longleftrightarrow> exists_where (\<lambda>a. ar_id a = x \<and> ar_state a \<noteq> ''open'') (payment_approvals j) \<and>
     \<not> exists_where (\<lambda>t. tr_approval_id t = x) (payment_transactions j)"

lemma revoked_step:
  assumes "acc_inv s" "revoked x (fst s)"
  shows "revoked x (fst (acc_step digest ev s))"
proof (cases "exec digest ev (fst s)")
  case (Inl e)
  with assms(2) show ?thesis by (simp add: journal_step_def)
next
  case (Inr j')
  let ?j = "fst s"
  from assms(2) obtain a where a: "a \<in> set (payment_approvals ?j)" "ar_id a = x" "ar_state a \<noteq> ''open''"
    and none: "\<forall>t \<in> set (payment_transactions ?j). tr_approval_id t \<noteq> x"
    by (auto simp: revoked_def)
  from grows_step [of s digest ev] Inr a(1) obtain a' where
    "a' \<in> set (payment_approvals j')" "approval_kept a a'"
    by (auto simp: grows_def acc_step_def journal_step_def dest!: keptD [OF _ a(1)])
  moreover have "tr_approval_id t \<noteq> x" if "t \<in> set (payment_transactions j')" for t
  proof
    assume "tr_approval_id t = x"
    with new_transaction [OF Inr that] none obtain b where
      "b \<in> set (payment_approvals ?j)" "ar_id b = x" "ar_state b = ''open''" by auto
    with a assms(1) show False
      by (auto simp: acc_inv_def books_ok_def distinct_map inj_on_def)
  qed
  ultimately show ?thesis
    using Inr a by (auto simp: revoked_def journal_step_def approval_kept_def)
qed

lemma cancelled_stays_unpaid:
  assumes "cancel_unpaid now x key (after digest net evs) = Inr (True, j')"
  shows "list_all (\<lambda>t. tr_approval_id t \<noteq> x)
    (payment_transactions (run (journal_step digest) evs' j'))"
proof -
  obtain paid where "acc_inv (after digest net evs, paid)" by (rule acc_inv_after)
  then have inv: "acc_inv (j', paid)" using assms by (rule acc_inv_cancel_unpaid)
  from assms have "revoked x (fst (j', paid))"
  proof (rule cancel_unpaidE)
    let ?P = "\<lambda>a. ar_id a = x" and ?f = "\<lambda>a. a\<lparr>ar_state := ''cancelled_unpaid''\<rparr>"
    let ?as = "payment_approvals (after digest net evs)"
    assume "True \<longrightarrow> (\<exists>a \<in> set ?as. ar_id a = x)"
      and j': "True \<longrightarrow> j' = (after digest net evs)\<lparr>payment_approvals := update_where ?P ?f ?as\<rparr>"
      and none: "True \<longrightarrow> (\<forall>t \<in> set (payment_transactions (after digest net evs)). tr_approval_id t \<noteq> x)"
    then obtain a where "a \<in> set ?as" "ar_id a = x" by auto
    then have "?f a \<in> set (update_where ?P ?f ?as)" by (auto simp: set_update_where)
    then have "exists_where (\<lambda>a. ar_id a = x \<and> ar_state a \<noteq> ''open'') (update_where ?P ?f ?as)"
      unfolding exists_where_iff by (rule bexI [rotated]) (simp add: \<open>ar_id a = x\<close>)
    with j' none show ?thesis by (simp add: revoked_def del: exists_where_iff) simp
  qed
  from books.run_stable [where P = "\<lambda>s. revoked x (fst s)", OF revoked_step inv this]
  have "revoked x (fst (run (acc_step digest) evs' (j', paid)))" .
  then show ?thesis by (auto simp: fst_run_acc revoked_def list_all_iff)
qed

text \<open>C5. A revocation that the journal confirms is final: whatever runs afterwards, restarts included,
  no transaction is ever recorded for that approval.\<close>

theorem cancel_is_final:
  assumes "cancel_unpaid now x key (after digest net evs) = Inr (True, j')"
  shows "list_all (\<lambda>t. tr_approval_id t \<noteq> x)
    (payment_transactions (run (journal_step digest) evs' j'))"
  using assms by (rule cancelled_stays_unpaid)

theorem cancel_is_final_witness:
  "\<exists>j'. cancel_unpaid 1 ''q'' ''job:w:1'' (after demo_digest ''net'' demo_admitted) = Inr (True, j') \<and>
     list_all (\<lambda>t. tr_approval_id t \<noteq> ''q'') (payment_transactions (run (journal_step demo_digest)
       [(2, Reserve (demo_reservation ''t'' 0 30 20))] j'))"
proof -
  have "\<exists>j'. cancel_unpaid 1 ''q'' ''job:w:1'' (after demo_digest ''net'' demo_admitted) = Inr (True, j')"
    by (simp add: demo_admitted_state cancel_unpaid_def demo_simps cong: rbind_weak_cong)
  then show ?thesis using cancel_is_final by blast
qed

lemma has_transaction_kept:
  assumes "has_transaction u j" "grows (j, p) (j', p')"
  obtains t where "t \<in> set (payment_transactions j')" "tr_upload_id t = u"
proof -
  from assms(1) obtain t where "t \<in> set (payment_transactions j)" "tr_upload_id t = u"
    by (auto simp: has_transaction_def)
  moreover from assms(2) have "kept transaction_kept (payment_transactions j) (payment_transactions j')"
    by (simp add: grows_def)
  ultimately show thesis using that by (auto simp: transaction_kept_def dest!: keptD)
qed

text \<open>C6. An upload for which a transaction was ever recorded is never admitted again, so no second
  payment phase can start for it.\<close>

theorem no_second_payment_phase:
  assumes "has_transaction upload_id (after digest net evs)"
  shows "admit digest now upload_id approval_id sha256 byte_size mode key
    (after digest net (evs @ evs')) \<noteq> Inr (True, j')"
proof
  let ?j = "after digest net (evs @ evs')"
  assume "admit digest now upload_id approval_id sha256 byte_size mode key ?j = Inr (True, j')"
  moreover obtain p p' where "grows (after digest net evs, p) (?j, p')" by (rule grows_after)
  from assms this obtain t where t: "t \<in> set (payment_transactions ?j)" "tr_upload_id t = upload_id"
    by (rule has_transaction_kept)
  moreover obtain paid where "acc_inv (?j, paid)" by (rule acc_inv_after)
  with t have "upload_id \<in> ur_id ` set (payment_uploads ?j)" by (auto simp: acc_inv_def)
  ultimately show False
    by (auto simp: has_transaction_def elim!: admitE)
qed

theorem no_second_payment_phase_witness:
  "has_transaction ''u'' (after demo_digest ''net'' demo_signed) \<and>
   (\<nexists>j'. admit demo_digest 5 ''u'' ''q'' demo_sha 5 ''auto'' ''job:w:1''
     (after demo_digest ''net'' (demo_signed @ [(4, Reopen ''net'')])) = Inr (True, j'))"
proof -
  have tx: "has_transaction ''u'' (after demo_digest ''net'' demo_signed)"
    by (simp add: demo_signed_state demo_journal_def demo_tx_def has_transaction_def)
  then show ?thesis using no_second_payment_phase [OF tx] by blast
qed

section \<open>Restart\<close>

text \<open>What becomes of an upload when the gateway opens its journal.\<close>

definition restart_state :: "journal \<Rightarrow> upload_row \<Rightarrow> string" where
  "restart_state j u =
     (if ur_state u \<in> {''preparing'', ''paying'', ''partial''}
      then if ur_state u \<noteq> ''paying'' \<and> \<not> has_transaction (ur_id u) j then ''retryable''
           else ''payment_recovery_required''
      else ur_state u)"

lemma still_open:
  assumes "a \<in> set (update_where P (\<lambda>a. a\<lparr>ar_state := ''paused''\<rparr>) as)" "ar_state a = ''open''"
  shows "\<not> P a"
proof -
  from assms(1) obtain b where "a = (if P b then b\<lparr>ar_state := ''paused''\<rparr> else b)"
    unfolding in_update_where by blast
  with assms(2) show ?thesis by (cases "P b") auto
qed

text \<open>Opening a journal loses nothing: transactions, leases, controls and reserved amounts stay as
  they are. Work that was in flight becomes retryable when no transaction was reserved for it and
  needs payment recovery otherwise, and every approval with work to recover stops being open.\<close>

theorem restart_recovers:
  "payment_transactions (open_journal now net j) = payment_transactions j \<and>
   payment_leases (open_journal now net j) = payment_leases j \<and>
   payment_controls (open_journal now net j) = payment_controls j \<and>
   map (\<lambda>a. (ar_id a, ar_definition a, ar_reserved_storage a, ar_reserved_gas a))
     (payment_approvals (open_journal now net j)) =
   map (\<lambda>a. (ar_id a, ar_definition a, ar_reserved_storage a, ar_reserved_gas a)) (payment_approvals j) \<and>
   map (\<lambda>u. (ur_id u, ur_approval_id u, ur_sha256 u, ur_lease_key u, ur_result u, ur_state u))
     (payment_uploads (open_journal now net j)) =
   map (\<lambda>u. (ur_id u, ur_approval_id u, ur_sha256 u, ur_lease_key u, ur_result u, restart_state j u))
     (payment_uploads j) \<and>
   list_all (\<lambda>a. ar_state a = ''open'' \<longrightarrow>
       \<not> exists_where (\<lambda>u. ur_state u = ''payment_recovery_required'' \<and> ur_approval_id u = ar_id a)
         (payment_uploads (open_journal now net j)))
     (payment_approvals (open_journal now net j))"
proof (intro conjI)
  show "map (\<lambda>a. (ar_id a, ar_definition a, ar_reserved_storage a, ar_reserved_gas a))
     (payment_approvals (open_journal now net j)) =
   map (\<lambda>a. (ar_id a, ar_definition a, ar_reserved_storage a, ar_reserved_gas a)) (payment_approvals j)"
    by (simp add: open_journal_def initialize_def Let_def map_update_where)
  show "map (\<lambda>u. (ur_id u, ur_approval_id u, ur_sha256 u, ur_lease_key u, ur_result u, ur_state u))
     (payment_uploads (open_journal now net j)) =
   map (\<lambda>u. (ur_id u, ur_approval_id u, ur_sha256 u, ur_lease_key u, ur_result u, restart_state j u))
     (payment_uploads j)"
    by (auto simp: open_journal_def initialize_def Let_def update_where_def restart_state_def has_transaction_def)
  show "list_all (\<lambda>a. ar_state a = ''open'' \<longrightarrow>
       \<not> exists_where (\<lambda>u. ur_state u = ''payment_recovery_required'' \<and> ur_approval_id u = ar_id a)
         (payment_uploads (open_journal now net j)))
     (payment_approvals (open_journal now net j))"
    unfolding open_journal_def initialize_def Let_def list_all_iff
    by (auto simp del: exists_where_iff dest!: still_open)
qed (simp_all add: open_journal_def initialize_def Let_def)

theorem restart_recovers_witness:
  "map ur_state (payment_uploads (open_journal 9 ''net'' (after demo_digest ''net'' demo_signed))) =
     [''payment_recovery_required'']"
proof -
  have "map (\<lambda>(_, _, _, _, _, st). st) (map (\<lambda>u. (ur_id u, ur_approval_id u, ur_sha256 u,
      ur_lease_key u, ur_result u, ur_state u))
      (payment_uploads (open_journal 9 ''net'' (after demo_digest ''net'' demo_signed)))) =
     [''payment_recovery_required'']"
    using restart_recovers [of 9 "''net''" "after demo_digest ''net'' demo_signed"]
    by (simp add: demo_signed_state demo_journal_def restart_state_def demo_tx_def has_transaction_def
        del: map_map)
  then show ?thesis by (simp add: comp_def)
qed

end
