(* ===== verification/Signer_Properties.thy ===== *)
theory Signer_Properties
  imports Payment_Signer Journal_Properties
begin

text \<open>
  What a payment does to the journal: it changes the books through the journal's operations only, it
  sends nothing that the journal does not hold, and what it reports as paid is what it booked.
\<close>

section \<open>Reasoning about actions\<close>

text \<open>\<open>keeps\<close> speaks of every outcome of an action, \<open>attains\<close> of its success.\<close>

definition keeps :: "(signer_state \<Rightarrow> bool) \<Rightarrow> 'a action \<Rightarrow> bool" where
  "keeps I m \<longleftrightarrow> (\<forall>s. I s \<longrightarrow> I (snd (m s)))"

definition attains :: "(signer_state \<Rightarrow> bool) \<Rightarrow> 'a action \<Rightarrow> ('a \<Rightarrow> signer_state \<Rightarrow> bool) \<Rightarrow> bool" where
  "attains P m Q \<longleftrightarrow> (\<forall>s x s'. P s \<longrightarrow> m s = (Inr x, s') \<longrightarrow> Q x s')"

lemma keepsD: "keeps I m \<Longrightarrow> I s \<Longrightarrow> I (snd (m s))"
  by (simp add: keeps_def)

lemma attainsD: "attains P m Q \<Longrightarrow> P s \<Longrightarrow> m s = (Inr x, s') \<Longrightarrow> Q x s'"
  unfolding attains_def by blast

lemma keeps_andthen: "keeps I m \<Longrightarrow> (\<And>x. keeps I (f x)) \<Longrightarrow> keeps I (andthen m f)"
  unfolding keeps_def andthen_def by (simp add: split_beta split: sum.split)

lemma keeps_lift [intro!, simp]: "keeps I (lift r)"
  by (simp add: keeps_def lift_def)

text \<open>\<open>ends\<close> starts from a stronger precondition than the invariant.\<close>

definition ends :: "(signer_state \<Rightarrow> bool) \<Rightarrow> 'a action \<Rightarrow> (signer_state \<Rightarrow> bool) \<Rightarrow> bool" where
  "ends P m I \<longleftrightarrow> (\<forall>s. P s \<longrightarrow> I (snd (m s)))"

lemma keeps_ends: "keeps I m \<longleftrightarrow> ends I m I"
  by (simp add: keeps_def ends_def)

lemma ends_andthen:
  "ends P m I \<Longrightarrow> attains P m R \<Longrightarrow> (\<And>x. ends (R x) (f x) I) \<Longrightarrow> ends P (andthen m f) I"
  unfolding ends_def attains_def andthen_def
  by (auto simp: split_beta split: sum.split) (metis prod.collapse)

lemma keeps_attains: "keeps I m \<Longrightarrow> attains I m (\<lambda>_. I)"
  unfolding keeps_def attains_def by (metis snd_conv)

lemma ends_lift: "(\<And>s. P s \<Longrightarrow> I s) \<Longrightarrow> ends P (lift r) I"
  by (simp add: ends_def lift_def)

lemma attains_lift_const: "attains P (lift r) (\<lambda>_. P)"
  by (simp add: attains_def lift_def)

lemma attains_andthen: "attains P m R \<Longrightarrow> (\<And>x. attains (R x) (f x) Q) \<Longrightarrow> attains P (andthen m f) Q"
  unfolding attains_def andthen_def by (fastforce split: prod.splits sum.splits)

lemma attains_lift: "attains P (lift r) (\<lambda>x s. r = Inr x \<and> P s)"
  by (simp add: attains_def lift_def)

lemma attains_weaken:
  "attains P' m Q' \<Longrightarrow> (\<And>s. P s \<Longrightarrow> P' s) \<Longrightarrow> (\<And>x s. Q' x s \<Longrightarrow> Q x s) \<Longrightarrow> attains P m Q"
  unfolding attains_def by blast

section \<open>The journal of a payment\<close>

definition recorded :: "string \<Rightarrow> string \<Rightarrow> journal \<Rightarrow> string \<Rightarrow> bool" where
  "recorded upload_id approval_id j raw \<longleftrightarrow>
     (\<exists>t \<in> set (payment_transactions j). tr_raw_transaction t = Some raw \<and> tr_state t \<noteq> ''reserved'' \<and>
        tr_upload_id t = upload_id \<and> tr_approval_id t = approval_id)"

text \<open>The journal is the one its events lead to.\<close>

definition linked :: "digest_fn \<Rightarrow> string \<Rightarrow> journal_event list \<Rightarrow> signer_state \<Rightarrow> bool" where
  "linked digest net evs s \<longleftrightarrow> sg_journal s = after digest net (evs @ sg_events s)"

lemma keeps_linked [simp]:
  "keeps (linked d net evs) (perform d ev)" "keeps (linked d net evs) (interfere d evs')"
  "keeps (linked d net evs) (broadcast raw answer)" "keeps (linked d net evs) (next_answers env)"
  "keeps (linked d net evs) (checked_upper env approval_id upper)"
  by (simp_all add: keeps_def linked_def perform_def interfere_def broadcast_def next_answers_def checked_upper_def
      after_append [of d net "evs @ sg_events _", simplified])

text \<open>An action built from the steps above keeps what they keep.\<close>

locale kept_by_steps =
  fixes I :: "signer_state \<Rightarrow> bool" and env :: signer_env and upload_id approval_id :: string
  assumes settles: "keeps I (perform (sv_digest env) (now, Settle hash storage gas receipt))"
    and interferes: "keeps I (interfere (sv_digest env) evs)"
    and draws: "keeps I (next_answers env)"
    and checks: "keeps I (checked_upper env approval_id upper)"
    and transacts: "keeps I (transact env a upload_id approval_id to_address calldata upper)"
begin

lemmas steps = settles interferes draws checks transacts

lemma settle_receipt: "keeps I (settle_receipt env a receipt storage gas)"
  unfolding settle_receipt_def by (intro keeps_andthen steps)

lemma pay_wave: "keeps I (pay_wave env upload_id approval_id payments t)"
  unfolding pay_wave_def by (auto intro!: keeps_andthen steps settle_receipt split: prod.split)

lemma pay_waves: "keeps I (pay_waves env upload_id approval_id batches proofs t)"
proof (induction batches arbitrary: proofs t)
  case (Cons payments rest)
  then show ?case by (auto intro!: keeps_andthen pay_wave split: prod.split)
qed simp

lemma pay_batch: "keeps I (pay_batch env upload_id approval_id batch t)"
  unfolding pay_batch_def by (auto intro!: keeps_andthen steps settle_receipt split: prod.split)

lemma pay_batches: "keeps I (pay_batches env upload_id approval_id batches winners t)"
proof (induction batches arbitrary: winners t)
  case (Cons batch rest)
  then show ?case by (auto intro!: keeps_andthen pay_batch split: prod.split)
qed simp

lemma approve_allowance: "keeps I (approve_allowance env upload_id approval_id upper)"
  unfolding approve_allowance_def by (auto intro!: keeps_andthen steps settle_receipt)

lemma pay: "keeps I (pay env upload_id approval_id info)"
  unfolding pay_def
  by (auto intro!: keeps_andthen steps approve_allowance pay_waves pay_batches split: payment_info.split prod.split)

end


lemma keeps_linked_transact:
  "keeps (linked (sv_digest env) net evs) (transact env a upload_id approval_id to_address calldata upper)"
  unfolding transact_def by (auto intro!: keeps_andthen split: prod.split)

interpretation linked: kept_by_steps "linked (sv_digest env) net evs" env upload_id approval_id
  for env net evs upload_id approval_id
  by unfold_locales (simp_all add: keeps_linked_transact)

section \<open>What was sent is in the journal\<close>

definition intent :: "string \<Rightarrow> string \<Rightarrow> string \<Rightarrow> journal \<Rightarrow> bool" where
  "intent upload_id approval_id tx_id j \<longleftrightarrow>
     (\<exists>t \<in> set (payment_transactions j). tr_id t = tx_id \<and> tr_upload_id t = upload_id \<and> tr_approval_id t = approval_id)"

lemma grows_transactions:
  assumes "grows (j, p) (j', p')"
  shows "intent u a i j \<Longrightarrow> intent u a i j'" "recorded u a j raw \<Longrightarrow> recorded u a j' raw"
  using assms unfolding grows_def intent_def recorded_def kept_def transaction_kept_def by fastforce+

lemma run_transactions:
  assumes "j = after d net evs"
  shows "intent u a i j \<Longrightarrow> intent u a i (run (journal_step d) evs' j)"
    "recorded u a j raw \<Longrightarrow> recorded u a (run (journal_step d) evs' j) raw"
  by (rule grows_after [of d net evs evs'], simp add: assms after_append grows_transactions(1),
      rule grows_after [of d net evs evs'], simp add: assms after_append grows_transactions(2))


definition sent_ok :: "digest_fn \<Rightarrow> string \<Rightarrow> journal_event list \<Rightarrow> string \<Rightarrow> string \<Rightarrow> signer_state \<Rightarrow> bool" where
  "sent_ok d net evs upload_id approval_id s \<longleftrightarrow> linked d net evs s \<and>
     (\<forall>raw \<in> set (sg_sent s). recorded upload_id approval_id (sg_journal s) raw)"

lemma sent_ok_step:
  assumes "sent_ok d net evs u a s" "linked d net evs s'" "sg_sent s' = sg_sent s"
    and "sg_journal s' = run (journal_step d) evs' (sg_journal s)"
  shows "sent_ok d net evs u a s'"
  using assms(1-3) run_transactions(2) [of "sg_journal s" d net "evs @ sg_events s" u a _ evs']
  unfolding sent_ok_def linked_def assms(4) by auto

lemma keeps_sent_ok:
  "keeps (sent_ok d net evs u a) (perform d ev)" "keeps (sent_ok d net evs u a) (interfere d evs')"
  "keeps (sent_ok d net evs u a) (next_answers env)" "keeps (sent_ok d net evs u a) (checked_upper env a upper)"
proof -
  have lk: "sent_ok d net evs u a s \<Longrightarrow> linked d net evs s" for s by (simp add: sent_ok_def)
  show "keeps (sent_ok d net evs u a) (perform d ev)"
    unfolding keeps_def
  proof (intro allI impI)
    fix s assume s: "sent_ok d net evs u a s"
    show "sent_ok d net evs u a (snd (perform d ev s))"
      by (rule sent_ok_step [where evs' = "[ev]", OF s keepsD [OF keeps_linked(1) lk [OF s]]])
        (simp_all add: perform_def)
  qed
  show "keeps (sent_ok d net evs u a) (interfere d evs')"
    unfolding keeps_def
  proof (intro allI impI)
    fix s assume s: "sent_ok d net evs u a s"
    show "sent_ok d net evs u a (snd (interfere d evs' s))"
      by (rule sent_ok_step [where evs' = evs', OF s keepsD [OF keeps_linked(2) lk [OF s]]])
        (simp_all add: interfere_def)
  qed
qed (auto simp: keeps_def sent_ok_def linked_def next_answers_def checked_upper_def)

lemma reserve_intent:
  "journal_step d (now, Reserve r) j = j' \<Longrightarrow> reserve d now r j = Inr j'' \<Longrightarrow>
     intent (rs_upload_id r) (rs_approval_id r) (rs_id r) j'"
  by (auto simp: journal_step_def intent_def elim!: reserveE)

lemma record_recorded:
  assumes "j = after d net evs" "intent u a i j" "record_signed now i hash raw j = Inr j'"
  shows "recorded u a j' raw"
  using assms(3)
proof (rule record_signedE)
  fix row
  assume ex: "\<exists>t \<in> set (payment_transactions j). tr_id t = i \<and> tr_state t = ''reserved''"
    and j': "j' = j\<lparr>payment_transactions := update_where (\<lambda>t. tr_id t = i \<and> tr_state t = ''reserved'')
         (\<lambda>t. t\<lparr>tr_hash := Some hash, tr_raw_transaction := Some raw, tr_state := ''signed''\<rparr>)
         (payment_transactions j)\<rparr>"
  from ex obtain t where t: "t \<in> set (payment_transactions j)" "tr_id t = i" "tr_state t = ''reserved''" by blast
  from assms(2) obtain t' where t': "t' \<in> set (payment_transactions j)" "tr_id t' = i" "tr_upload_id t' = u"
    "tr_approval_id t' = a" by (auto simp: intent_def)
  have "t' = t"
    using after_keys(4) [of d net evs] t(1,2) t'(1,2) unfolding assms(1) distinct_map inj_on_def by metis
  define t2 where "t2 = t\<lparr>tr_hash := Some hash, tr_raw_transaction := Some raw, tr_state := ''signed''\<rparr>"
  have "t2 \<in> set (payment_transactions j')"
    using t by (auto simp: j' t2_def set_update_where)
  moreover have "tr_raw_transaction t2 = Some raw" "tr_state t2 \<noteq> ''reserved''" "tr_upload_id t2 = u" "tr_approval_id t2 = a"
    using t' \<open>t' = t\<close> by (simp_all add: t2_def)
  ultimately show ?thesis unfolding recorded_def by blast
qed


text \<open>The steps of a transaction: the intent exists once it is reserved, and its bytes are recorded before
  they are sent.\<close>

definition with_intent ::
  "digest_fn \<Rightarrow> string \<Rightarrow> journal_event list \<Rightarrow> string \<Rightarrow> string \<Rightarrow> string \<Rightarrow> signer_state \<Rightarrow> bool"
where
  "with_intent d net evs u a i s \<longleftrightarrow> sent_ok d net evs u a s \<and> intent u a i (sg_journal s)"

lemma sent_ok_linked: "sent_ok d net evs u a s \<Longrightarrow> sg_journal s = after d net (evs @ sg_events s)"
  by (simp add: sent_ok_def linked_def)

lemma attains_reserve:
  "attains (sent_ok d net evs u a) (perform d (now, Reserve \<lparr>rs_approval_id = a, rs_upload_id = u, rs_id = i,
     rs_nonce = nonce, rs_storage_upper = st, rs_gas_upper = g\<rparr>)) (\<lambda>_. with_intent d net evs u a i)"
proof -
  let ?r = "\<lparr>rs_approval_id = a, rs_upload_id = u, rs_id = i, rs_nonce = nonce, rs_storage_upper = st, rs_gas_upper = g\<rparr>"
  have "with_intent d net evs u a i s'"
    if s: "sent_ok d net evs u a s" and m: "perform d (now, Reserve ?r) s = (Inr x, s')" for s x s'
  proof -
    have "sent_ok d net evs u a s'"
      using keepsD [OF keeps_sent_ok(1) s, of "(now, Reserve ?r)"] m by simp
    moreover obtain j' where "reserve d now ?r (sg_journal s) = Inr j'"
      using m by (auto simp: perform_def map_sum_def split: sum.splits)
    then have "intent u a i (sg_journal s')"
      using m reserve_intent [OF HOL.refl, of d now ?r "sg_journal s" j'] by (auto simp: perform_def)
    ultimately show ?thesis by (simp add: with_intent_def)
  qed
  then show ?thesis by (simp add: attains_def)
qed

lemma with_intent_interfere:
  "attains (with_intent d net evs u a i) (interfere d evs') (\<lambda>_. with_intent d net evs u a i)"
  unfolding attains_def
proof (intro allI impI)
  fix s x s'
  assume s: "with_intent d net evs u a i s" and m: "interfere d evs' s = (Inr x, s')"
  then have "sent_ok d net evs u a s'"
    using keepsD [OF keeps_sent_ok(2), of d net evs u a s evs'] by (simp add: with_intent_def)
  moreover have "intent u a i (sg_journal s')"
    using s m run_transactions(1) [OF sent_ok_linked, of d net evs u a s] by (auto simp: with_intent_def interfere_def)
  ultimately show "with_intent d net evs u a i s'" by (simp add: with_intent_def)
qed

lemma attains_record:
  "attains (with_intent d net evs u a i) (perform d (now, RecordSigned i hash raw))
     (\<lambda>_ s. sent_ok d net evs u a s \<and> recorded u a (sg_journal s) raw)"
  unfolding attains_def
proof (intro allI impI)
  fix s x s'
  assume s: "with_intent d net evs u a i s" and m: "perform d (now, RecordSigned i hash raw) s = (Inr x, s')"
  then have "sent_ok d net evs u a s'"
    using keepsD [OF keeps_sent_ok(1), of d net evs u a s "(now, RecordSigned i hash raw)"] by (simp add: with_intent_def)
  moreover obtain j' where j': "record_signed now i hash raw (sg_journal s) = Inr j'"
    using m by (auto simp: perform_def map_sum_def split: sum.splits)
  then have "recorded u a j' raw"
    using s record_recorded [OF sent_ok_linked] by (auto simp: with_intent_def)
  then have "recorded u a (sg_journal s') raw"
    using m j' by (auto simp: perform_def journal_step_def)
  ultimately show "sent_ok d net evs u a s' \<and> recorded u a (sg_journal s') raw" ..
qed

lemma keeps_sent_ok_transact:
  "keeps (sent_ok (sv_digest env) net evs upload_id approval_id)
     (transact env a upload_id approval_id to_address calldata upper)"
proof -
  let ?d = "sv_digest env"
  let ?S = "sent_ok ?d net evs upload_id approval_id"
  let ?I = "with_intent ?d net evs upload_id approval_id (ta_intent_id a)"
  have weak: "?I s \<Longrightarrow> ?S s" for s by (simp add: with_intent_def)
  have keep: "ends ?I m ?S" if "keeps ?S m" for m :: "unit action"
    using that weak by (auto simp: ends_def keeps_def)
  have send: "ends (\<lambda>s. ?S s \<and> recorded upload_id approval_id (sg_journal s) raw) (broadcast raw answer) ?S"
    "attains (\<lambda>s. ?S s \<and> recorded upload_id approval_id (sg_journal s) raw) (broadcast raw answer) (\<lambda>_. ?S)" for raw answer
    by (auto simp: ends_def attains_def broadcast_def sent_ok_def linked_def)
  have tail: "ends ?I (andthen (perform ?d (now, RecordSigned (ta_intent_id a) hash raw)) (\<lambda>_.
      andthen (broadcast raw answer) (\<lambda>_. lift r))) ?S" for now hash raw answer and r :: "tx_receipt res"
    by (rule ends_andthen [OF keep [OF keeps_sent_ok(1)] attains_record])
      (rule ends_andthen [OF send], simp add: ends_lift)
  have rest: "ends ?I (andthen (interfere ?d evs') (\<lambda>_. andthen (perform ?d (now, RecordSigned (ta_intent_id a) hash raw)) (\<lambda>_.
      andthen (broadcast raw answer) (\<lambda>_. lift r)))) ?S" for evs' now hash raw answer and r :: "tx_receipt res"
    by (rule ends_andthen [OF keep [OF keeps_sent_ok(2)] with_intent_interfere tail])
  have built: "ends ?I (andthen (lift r') (\<lambda>(hash, raw). andthen (interfere ?d evs') (\<lambda>_.
      andthen (perform ?d (now, RecordSigned (ta_intent_id a) hash raw)) (\<lambda>_.
      andthen (broadcast raw answer) (\<lambda>_. lift (r hash)))))) ?S"
    for evs' now answer and r :: "string \<Rightarrow> tx_receipt res" and r' :: "(string \<times> string) res"
    by (rule ends_andthen [OF ends_lift [OF weak] attains_lift_const]) (auto intro: rest)
  have body: "keeps ?S (andthen (interfere ?d evs'') (\<lambda>_. andthen (perform ?d (t, Reserve \<lparr>rs_approval_id = approval_id,
      rs_upload_id = upload_id, rs_id = ta_intent_id a, rs_nonce = nonce, rs_storage_upper = st, rs_gas_upper = g\<rparr>)) (\<lambda>_.
      andthen (lift r') (\<lambda>(hash, raw). andthen (interfere ?d evs') (\<lambda>_.
      andthen (perform ?d (now, RecordSigned (ta_intent_id a) hash raw)) (\<lambda>_.
      andthen (broadcast raw answer) (\<lambda>_. lift (r hash))))))))"
    for evs'' t nonce st g evs' now answer and r :: "string \<Rightarrow> tx_receipt res" and r' :: "(string \<times> string) res"
    unfolding keeps_ends
    by (rule ends_andthen [OF keeps_sent_ok(2) [unfolded keeps_ends] keeps_attains [OF keeps_sent_ok(2)]])
      (rule ends_andthen [OF keeps_sent_ok(1) [unfolded keeps_ends] attains_reserve built])
  show ?thesis
    unfolding transact_def by (rule keeps_andthen) (auto intro: body split: prod.split)
qed


interpretation sent: kept_by_steps "sent_ok (sv_digest env) net evs upload_id approval_id" env upload_id approval_id
  for env net evs upload_id approval_id
  by unfold_locales (simp_all add: keeps_sent_ok keeps_sent_ok_transact)

definition within_caps :: "approval_row \<Rightarrow> bool" where
  "within_caps a \<longleftrightarrow> amount_value (ar_reserved_storage a) \<le> amount_value (pa_max_storage_atto (ar_definition a)) \<and>
     amount_value (ar_reserved_gas a) \<le> amount_value (pa_max_gas_wei (ar_definition a))"

lemma within_caps_after: "list_all within_caps (payment_approvals (after d net evs))"
  by (rule after_books [of d net evs]) (simp add: books_ok_def approval_ok_def within_caps_def list_all_iff)

text \<open>Whatever the network answers and whatever other requests do meanwhile, a payment changes the
  journal through the journal's own operations only: the journal it leaves, also when it fails, is one
  that a run of operations reaches, and there what every approval has charged and still reserves is
  within its caps.\<close>

theorem payment_refines_journal:
  "\<exists>events. sg_journal (snd (pay env upload_id approval_id info (signer_start (after (sv_digest env) net evs)))) =
      after (sv_digest env) net (evs @ events) \<and>
    list_all within_caps (payment_approvals (after (sv_digest env) net (evs @ events)))"
proof -
  let ?s = "snd (pay env upload_id approval_id info (signer_start (after (sv_digest env) net evs)))"
  have "linked (sv_digest env) net evs (signer_start (after (sv_digest env) net evs))"
    by (simp add: linked_def signer_start_def)
  from keepsD [OF linked.pay this] have "sg_journal ?s = after (sv_digest env) net (evs @ sg_events ?s)"
    by (simp add: linked_def)
  then show ?thesis using within_caps_after by blast
qed

text \<open>C7. Whatever the network answers and whatever other requests do meanwhile, everything a payment has
  sent to the network, also when it fails, is in the journal: a transaction of this upload and this
  approval holds the exact bytes.\<close>

theorem broadcasts_are_recorded:
  "list_all (recorded upload_id approval_id
       (sg_journal (snd (pay env upload_id approval_id info (signer_start (after (sv_digest env) net evs))))))
     (sg_sent (snd (pay env upload_id approval_id info (signer_start (after (sv_digest env) net evs)))))"
proof -
  have "sent_ok (sv_digest env) net evs upload_id approval_id (signer_start (after (sv_digest env) net evs))"
    by (simp add: sent_ok_def linked_def signer_start_def)
  from keepsD [OF sent.pay this] show ?thesis by (auto simp: sent_ok_def list_all_iff)
qed

end
