(* ===== verification/Signer_Books.thy ===== *)
theory Signer_Books
  imports Signer_Properties
begin

text \<open>
  What a payment reports as paid is what its receipts charged: the books of the journal under the
  payment, while the requests that run meanwhile neither reserve nor settle, as the signer's lock
  ensures.
\<close>

section \<open>The ledger of a payment\<close>

definition ledger :: "digest_fn \<Rightarrow> string \<Rightarrow> journal_event list \<Rightarrow> signer_state \<Rightarrow> accounts" where
  "ledger d net evs s = run (acc_step d) (evs @ sg_events s) (opened net)"

definition booked ::
  "digest_fn \<Rightarrow> string \<Rightarrow> journal_event list \<Rightarrow> string \<Rightarrow> nat \<Rightarrow> nat \<Rightarrow> signer_state \<Rightarrow> bool"
where
  "booked d net evs a st g s \<longleftrightarrow> linked d net evs s \<and>
     snd (ledger d net evs s) a = (fst (snd (run (acc_step d) evs (opened net)) a) + st,
       snd (snd (run (acc_step d) evs (opened net)) a) + g)"

lemma ledger_journal: "linked d net evs s \<Longrightarrow> fst (ledger d net evs s) = sg_journal s"
  by (simp add: linked_def ledger_def after_fst)

lemma ledger_perform:
  "linked d net evs s \<Longrightarrow> snd (ledger d net evs (snd (perform d ev s))) =
     charge (settlement d ev (sg_journal s)) (snd (ledger d net evs s))"
  using ledger_journal [of d net evs s] by (simp add: ledger_def perform_def acc_step_def)

lemma ledger_books:
  "linked d net evs s \<Longrightarrow>
     books_ok (payment_approvals (sg_journal s)) (payment_transactions (sg_journal s)) (snd (ledger d net evs s))"
  using acc_inv_run [of d "evs @ sg_events s" net] ledger_journal [of d net evs s]
  by (simp add: acc_inv_def ledger_def)

text \<open>What runs beside a payment: anything but the operations the lock of the signer protects.\<close>

fun quiet_op :: "journal_op \<Rightarrow> bool" where
  "quiet_op (Reserve _) = False"
| "quiet_op (RecordSigned _ _ _) = False"
| "quiet_op (Settle _ _ _ _) = False"
| "quiet_op (Reopen _) = False"
| "quiet_op _ = True"

lemma quiet_step:
  assumes "quiet_op (snd ev)"
  shows "settlement d ev j = None \<and> payment_transactions (journal_step d ev j) = payment_transactions j \<and>
    jn_network (journal_step d ev j) = jn_network j"
proof -
  obtain now op where ev: "ev = (now, op)" by (cases ev)
  have none: "settlement d ev j = None"
    using assms by (intro settlement_other) (auto simp: ev)
  have "payment_transactions j' = payment_transactions j \<and> jn_network j' = jn_network j" if "exec d ev j = Inr j'" for j'
    using that assms unfolding ev
  proof (cases op)
    case (Approve a)
    with that ev have "approve d now a j = Inr j'" by simp
    then show ?thesis by (cases rule: approveE) simp_all
  next
    case (CancelUnpaid i key)
    with that ev obtain b where "cancel_unpaid now i key j = Inr (b, j')" by auto
    then show ?thesis by (rule cancel_unpaidE) auto
  next
    case (Admit upload_id i sha byte_size mode key)
    with that ev obtain b where "admit d now upload_id i sha byte_size mode key j = Inr (b, j')" by auto
    then obtain us where "j' = j\<lparr>payment_uploads := us\<rparr>" by (elim admitE disjE conjE) blast+
    then show ?thesis by simp
  next
    case (Finish upload_id state result detail)
    with that ev have "j' = finish now upload_id state result detail j" by simp
    then show ?thesis by (rule_tac finish_shape [of now upload_id state result detail j]) simp
  next
    case (Activate l)
    with that ev have "activate now l j = Inr j'" by simp
    then show ?thesis by (cases rule: activateE) auto
  qed (use assms ev in auto)
  then show ?thesis
    using none by (cases "exec d ev j") (simp_all add: journal_step_def)
qed

lemma quiet_run:
  assumes "list_all (quiet_op \<circ> snd) evs'"
  shows "payment_transactions (run (journal_step d) evs' j) = payment_transactions j \<and>
    jn_network (run (journal_step d) evs' j) = jn_network j"
  using assms
proof (induction evs' arbitrary: j)
  case (Cons ev evs')
  then show ?case using quiet_step [of ev d j] by simp
qed simp

lemma quiet_ledger: "list_all (quiet_op \<circ> snd) evs' \<Longrightarrow> snd (run (acc_step d) evs' s) = snd s"
proof (induction evs' arbitrary: s)
  case (Cons ev evs')
  then show ?case using quiet_step [of ev d "fst s"] by (simp add: acc_step_def)
qed simp

section \<open>Steps of a payment\<close>

text \<open>\<open>P\<close> holds of some transaction of the approval on the current network.\<close>

definition own :: "string \<Rightarrow> (transaction_row \<Rightarrow> bool) \<Rightarrow> signer_state \<Rightarrow> bool" where
  "own a P s \<longleftrightarrow> (\<exists>t \<in> set (payment_transactions (sg_journal s)). tr_approval_id t = a \<and>
     tr_network t = jn_network (sg_journal s) \<and> P t)"

lemma attains_quiet:
  assumes "list_all (quiet_op \<circ> snd) evs'"
  shows "attains (\<lambda>s. booked d net evs a st g s \<and> own a P s) (interfere d evs') (\<lambda>_ s. booked d net evs a st g s \<and> own a P s)"
    "attains (booked d net evs a st g) (interfere d evs') (\<lambda>_. booked d net evs a st g)"
proof -
  have "booked d net evs a st g (snd (interfere d evs' s)) \<and> (own a P s \<longrightarrow> own a P (snd (interfere d evs' s)))"
    if "booked d net evs a st g s" for s
  proof -
    have "linked d net evs (snd (interfere d evs' s))"
      using that keepsD [OF keeps_linked(2)] by (auto simp: booked_def)
    moreover have "snd (ledger d net evs (snd (interfere d evs' s))) = snd (ledger d net evs s)"
      using quiet_ledger [OF assms] by (simp add: ledger_def interfere_def)
    ultimately show ?thesis
      using that quiet_run [OF assms] by (simp add: booked_def own_def interfere_def)
  qed
  then show "attains (\<lambda>s. booked d net evs a st g s \<and> own a P s) (interfere d evs') (\<lambda>_ s. booked d net evs a st g s \<and> own a P s)"
    "attains (booked d net evs a st g) (interfere d evs') (\<lambda>_. booked d net evs a st g)"
    unfolding attains_def by (metis snd_conv)+
qed

lemma perform_Inr:
  "perform d ev s = (Inr x, s') \<longleftrightarrow> (\<exists>j'. exec d ev (sg_journal s) = Inr j' \<and>
     s' = s\<lparr>sg_journal := j', sg_events := sg_events s @ [ev]\<rparr>)"
  by (auto simp: perform_def journal_step_def map_sum_def split: sum.splits)

lemma booked_perform:
  assumes "booked d net evs a st g s" "perform d ev s = (Inr x, s')" "settlement d ev (sg_journal s) = None"
  shows "booked d net evs a st g s'"
  using assms keepsD [OF keeps_linked(1), of d net evs s ev] ledger_perform [of d net evs s ev]
  by (simp add: booked_def)

lemma attains_reserved:
  "attains (booked d net evs a st g) (perform d (now, Reserve \<lparr>rs_approval_id = a, rs_upload_id = u, rs_id = i,
     rs_nonce = nonce, rs_storage_upper = x, rs_gas_upper = y\<rparr>))
     (\<lambda>_ s. booked d net evs a st g s \<and> own a (\<lambda>t. tr_id t = i) s)"
  unfolding attains_def
  by (auto intro: booked_perform simp: settlement_def) (auto simp: perform_Inr own_def elim!: reserveE)

lemma attains_recorded:
  "attains (\<lambda>s. booked d net evs a st g s \<and> own a (\<lambda>t. tr_id t = i) s) (perform d (now, RecordSigned i hash raw))
     (\<lambda>_ s. booked d net evs a st g s \<and> own a (\<lambda>t. tr_hash t = Some hash \<and> tr_state t = ''signed'') s)"
  unfolding attains_def
proof (intro allI impI)
  fix s x s'
  assume s: "booked d net evs a st g s \<and> own a (\<lambda>t. tr_id t = i) s"
    and m: "perform d (now, RecordSigned i hash raw) s = (Inr x, s')"
  then obtain t where t: "t \<in> set (payment_transactions (sg_journal s))" "tr_id t = i" "tr_approval_id t = a"
    "tr_network t = jn_network (sg_journal s)" by (auto simp: own_def)
  from m obtain j' where j': "record_signed now i hash raw (sg_journal s) = Inr j'" "sg_journal s' = j'"
    by (auto simp: perform_Inr)
  have "distinct (map tr_id (payment_transactions (sg_journal s)))"
    using s books_okD(2) [OF ledger_books] by (auto simp: booked_def)
  then have uniq: "t' = t" if "t' \<in> set (payment_transactions (sg_journal s))" "tr_id t' = i" for t'
    using that t(1,2) unfolding distinct_map inj_on_def by metis
  define t2 where "t2 = t\<lparr>tr_hash := Some hash, tr_raw_transaction := Some raw, tr_state := ''signed''\<rparr>"
  have "t2 \<in> set (payment_transactions j') \<and> jn_network j' = jn_network (sg_journal s)"
    using j'(1) by (rule record_signedE) (use t(1,2) uniq in \<open>auto simp: t2_def set_update_where\<close>)
  moreover have "tr_approval_id t2 = a \<and> tr_network t2 = jn_network (sg_journal s) \<and> tr_hash t2 = Some hash \<and> tr_state t2 = ''signed''"
    using t by (simp add: t2_def)
  ultimately have "own a (\<lambda>t. tr_hash t = Some hash \<and> tr_state t = ''signed'') s'"
    unfolding own_def j'(2) by (intro bexI [of _ t2]) auto
  then show "booked d net evs a st g s' \<and> own a (\<lambda>t. tr_hash t = Some hash \<and> tr_state t = ''signed'') s'"
    using s m by (auto intro: booked_perform simp: settlement_def)
qed


text \<open>A signed transaction of the approval that carries the hash.\<close>

abbreviation signed :: "string \<Rightarrow> string \<Rightarrow> signer_state \<Rightarrow> bool" where
  "signed a hash \<equiv> own a (\<lambda>t. tr_hash t = Some hash \<and> tr_state t = ''signed'')"

lemma attains_settled:
  "attains (\<lambda>s. booked d net evs a st g s \<and> signed a hash s) (perform d (now, Settle hash x y json))
     (\<lambda>_. booked d net evs a (st + unat x) (g + unat y))"
  unfolding attains_def
proof (intro allI impI)
  fix s u s'
  assume s: "booked d net evs a st g s \<and> signed a hash s" and m: "perform d (now, Settle hash x y json) s = (Inr u, s')"
  then have lk: "linked d net evs s" by (simp add: booked_def)
  from s obtain t where t: "t \<in> set (payment_transactions (sg_journal s))" "tr_approval_id t = a"
    "tr_network t = jn_network (sg_journal s)" "tr_hash t = Some hash" "tr_state t = ''signed''" by (auto simp: own_def)
  from m obtain j' where j': "settle hash x y json (sg_journal s) = Inr j'" by (auto simp: perform_Inr)
  have "settlement d (now, Settle hash x y json) (sg_journal s) = Some (a, x, y)"
    using settlement_settle [OF j' books_fetch_hash [OF ledger_books [OF lk] t(1,4,3)], of d now] t(2,5) by simp
  then show "booked d net evs a (st + unat x) (g + unat y) s'"
    using s m keepsD [OF keeps_linked(1) lk, of "(now, Settle hash x y json)"]
      ledger_perform [OF lk, of "(now, Settle hash x y json)"]
    by (simp add: booked_def charge_def)
qed

definition quiet_answers :: "tx_answers \<Rightarrow> bool" where
  "quiet_answers a \<longleftrightarrow> list_all (quiet_op \<circ> snd) (ta_before_reserve a @ ta_before_record a @ ta_before_settle a)"

definition quiet_env :: "signer_env \<Rightarrow> bool" where
  "quiet_env env \<longleftrightarrow> list_all (quiet_op \<circ> snd) (sv_before_check env) \<and> (\<forall>n. quiet_answers (sv_answers env n))"

lemma check_receipt_Inr: "check_receipt wallet to_address hash answer = Inr r \<Longrightarrow> rc_transaction_hash r = hash"
  by (auto simp: check_receipt_def)

lemma attains_transact:
  assumes "quiet_answers a"
  shows "attains (booked (sv_digest env) net evs approval_id st g)
    (transact env a upload_id approval_id to_address calldata upper)
    (\<lambda>receipt s. booked (sv_digest env) net evs approval_id st g s \<and> signed approval_id (rc_transaction_hash receipt) s)"
proof -
  let ?d = "sv_digest env"
  let ?B = "booked ?d net evs approval_id st g"
  have quiet: "list_all (quiet_op \<circ> snd) (ta_before_reserve a)" "list_all (quiet_op \<circ> snd) (ta_before_record a)"
    using assms by (simp_all add: quiet_answers_def)
  have sent: "attains (\<lambda>s. ?B s \<and> signed approval_id hash s)
      (andthen (broadcast raw answer) (\<lambda>_. lift (check_receipt wallet to_address hash r)))
      (\<lambda>receipt s. ?B s \<and> signed approval_id (rc_transaction_hash receipt) s)" for hash raw answer wallet r
    by (auto simp: attains_def andthen_def broadcast_def lift_def booked_def linked_def ledger_def own_def
        dest!: check_receipt_Inr split: prod.splits sum.splits)
  note recorded = attains_andthen [OF attains_recorded sent]
  have built: "attains (\<lambda>s. ?B s \<and> own approval_id (\<lambda>t. tr_id t = ta_intent_id a) s)
      (andthen (lift r') (\<lambda>(hash, raw). andthen (interfere ?d (ta_before_record a)) (\<lambda>_.
       andthen (perform ?d (now, RecordSigned (ta_intent_id a) hash raw)) (\<lambda>_.
       andthen (broadcast raw answer) (\<lambda>_. lift (check_receipt wallet to_address hash r))))))
      (\<lambda>receipt s. ?B s \<and> signed approval_id (rc_transaction_hash receipt) s)"
    for r' :: "(string \<times> string) res" and now answer wallet r
    by (rule attains_andthen [OF attains_lift_const])
      (auto intro: attains_andthen [OF attains_quiet(1) [OF quiet(2)] recorded])
  show ?thesis
    unfolding transact_def
    by (rule attains_andthen [OF attains_lift_const])
      (auto intro!: attains_andthen [OF attains_quiet(2) [OF quiet(1)]] attains_andthen [OF attains_reserved] built)
qed

lemma attains_settle_receipt:
  assumes "quiet_answers a"
  shows "attains (\<lambda>s. booked (sv_digest env) net evs i st g s \<and> signed i (rc_transaction_hash receipt) s)
    (settle_receipt env a receipt x y) (\<lambda>_. booked (sv_digest env) net evs i (st + unat x) (g + unat y))"
  using assms unfolding settle_receipt_def quiet_answers_def
  by (auto intro: attains_andthen [OF attains_quiet(1) attains_settled])

lemma attains_next:
  "quiet_env env \<Longrightarrow> attains (booked d net evs i st g) (next_answers env) (\<lambda>a s. quiet_answers a \<and> booked d net evs i st g s)"
  by (auto simp: attains_def next_answers_def quiet_env_def booked_def linked_def ledger_def)

lemma attains_pure: "(r \<Longrightarrow> attains P m Q) \<Longrightarrow> attains (\<lambda>s. r \<and> P s) m Q"
  by (auto simp: attains_def)

lemma add_paid_Inr:
  "add_paid x y t = Inr t' \<Longrightarrow> unat (pt_storage t') = unat (pt_storage t) + unat x \<and>
     unat (pt_gas t') = unat (pt_gas t) + unat y"
  by (auto simp: add_paid_def dest: checked_add_Some)


text \<open>A transaction and its settlement: \<open>charge\<close> gives the amounts to book and the rest of the step.\<close>

lemma attains_booking:
  assumes "quiet_env env"
    and "\<And>a receipt gas. quiet_answers a \<Longrightarrow>
      attains (\<lambda>s. booked (sv_digest env) net evs i st g s \<and> signed i (rc_transaction_hash receipt) s) (rest a receipt gas) Q"
  shows "attains (booked (sv_digest env) net evs i st g)
    (andthen (next_answers env) (\<lambda>a. andthen (transact env a upload_id i to_address calldata upper) (\<lambda>receipt.
       andthen (lift (receipt_gas receipt)) (rest a receipt)))) Q"
proof (rule attains_andthen [OF attains_next [OF assms(1)]], rule attains_pure)
  fix a assume a: "quiet_answers a"
  show "attains (booked (sv_digest env) net evs i st g) (andthen (transact env a upload_id i to_address calldata upper)
      (\<lambda>receipt. andthen (lift (receipt_gas receipt)) (rest a receipt))) Q"
    by (rule attains_andthen [OF attains_transact [OF a]], rule attains_andthen [OF attains_lift_const])
      (rule assms(2) [OF a])
qed

abbreviation paid_so_far ::
  "signer_env \<Rightarrow> string \<Rightarrow> journal_event list \<Rightarrow> string \<Rightarrow> paid_totals \<Rightarrow> signer_state \<Rightarrow> bool"
where
  "paid_so_far env net evs i t \<equiv> booked (sv_digest env) net evs i (unat (pt_storage t)) (unat (pt_gas t))"

lemma attains_add_paid:
  "attains (booked d net evs i (unat (pt_storage t) + unat x) (unat (pt_gas t) + unat y)) (lift (add_paid x y t))
     (\<lambda>t'. booked d net evs i (unat (pt_storage t')) (unat (pt_gas t')))"
  by (auto simp: attains_def lift_def dest: add_paid_Inr)

lemma attains_result: "attains (P x) (lift (Inr (y, x))) (\<lambda>(_, x). P x)"
  by (simp add: attains_def lift_def)

lemma attains_pay_wave:
  assumes "quiet_env env"
  shows "attains (paid_so_far env net evs i t) (pay_wave env upload_id i payments t) (\<lambda>(_, t'). paid_so_far env net evs i t')"
proof -
  have "attains (\<lambda>s. paid_so_far env net evs i t s \<and> signed i (rc_transaction_hash receipt) s)
      (andthen (settle_receipt env a receipt (if rc_status receipt then total else 0) gas) (\<lambda>_.
       andthen (lift (ensure (rc_status receipt) msg)) (\<lambda>_. andthen (lift (add_paid total gas t)) (\<lambda>t'.
       lift (Inr (rc_transaction_hash receipt, t')))))) (\<lambda>(_, t'). paid_so_far env net evs i t')"
    if "quiet_answers a" for a receipt total gas msg
  proof (cases "rc_status receipt")
    case True
    then show ?thesis
      by (auto intro!: attains_andthen [OF attains_settle_receipt [OF that]] attains_andthen [OF attains_lift_const]
          attains_andthen [OF attains_add_paid] attains_result)
  qed (auto simp: attains_def andthen_def lift_def split: prod.splits sum.splits)
  from attains_booking [OF assms this] show ?thesis
    unfolding pay_wave_def
    by (auto intro!: attains_andthen [OF attains_lift_const] split: prod.split)
qed

lemma attains_pay_waves:
  assumes "quiet_env env"
  shows "attains (paid_so_far env net evs i t) (pay_waves env upload_id i batches proofs t)
    (\<lambda>(_, t'). paid_so_far env net evs i t')"
proof (induction batches arbitrary: proofs t)
  case (Cons payments rest)
  then show ?case
    by (auto intro!: attains_andthen [OF attains_pay_wave [OF assms]] split: prod.split)
qed (simp add: attains_def lift_def)

lemma attains_pay_batch:
  assumes "quiet_env env"
  shows "attains (paid_so_far env net evs i t) (pay_batch env upload_id i batch t) (\<lambda>(_, t'). paid_so_far env net evs i t')"
proof -
  have "attains (\<lambda>s. paid_so_far env net evs i t s \<and> signed i (rc_transaction_hash receipt) s)
      (if \<not> rc_status receipt
       then andthen (settle_receipt env a receipt 0 gas) (\<lambda>_. lift (Inl e))
       else andthen (lift (merkle_winner to_address batch receipt)) (\<lambda>(winner, total).
         andthen (settle_receipt env a receipt total gas) (\<lambda>_. andthen (lift (add_paid total gas t)) (\<lambda>t'.
         lift (Inr (winner, t')))))) (\<lambda>(_, t'). paid_so_far env net evs i t')"
    if "quiet_answers a" for a receipt gas to_address e
  proof (cases "rc_status receipt")
    case True
    then show ?thesis
      by (auto intro!: attains_andthen [OF attains_lift_const] attains_andthen [OF attains_settle_receipt [OF that]]
          attains_andthen [OF attains_add_paid] attains_result split: prod.split)
  qed (auto simp: attains_def andthen_def lift_def split: prod.splits sum.splits)
  from attains_booking [OF assms this] show ?thesis
    unfolding pay_batch_def
    by (auto intro!: attains_andthen [OF attains_lift_const] split: prod.split)
qed

lemma attains_pay_batches:
  assumes "quiet_env env"
  shows "attains (paid_so_far env net evs i t) (pay_batches env upload_id i batches winners t)
    (\<lambda>(_, t'). paid_so_far env net evs i t')"
proof (induction batches arbitrary: winners t)
  case (Cons batch rest)
  then show ?case
    by (auto intro!: attains_andthen [OF attains_pay_batch [OF assms]] split: prod.split)
qed (simp add: attains_def lift_def)

lemma attains_allowance:
  assumes "quiet_env env"
  shows "attains (booked (sv_digest env) net evs i 0 0) (approve_allowance env upload_id i upper) (paid_so_far env net evs i)"
proof -
  have "attains (\<lambda>s. booked (sv_digest env) net evs i 0 0 s \<and> signed i (rc_transaction_hash receipt) s)
      (andthen (settle_receipt env a receipt 0 gas) (\<lambda>_. andthen (lift (ensure (rc_status receipt) msg)) (\<lambda>_.
       lift (Inr \<lparr>pt_storage = 0, pt_gas = gas\<rparr>)))) (paid_so_far env net evs i)"
    if "quiet_answers a" for a receipt gas msg
    by (rule attains_andthen [OF attains_settle_receipt [OF that]], rule attains_andthen [OF attains_lift_const])
      (simp add: attains_def lift_def)
  from attains_booking [OF assms this] show ?thesis
    unfolding approve_allowance_def by (simp add: attains_def lift_def)
qed

lemma attains_pay:
  assumes "quiet_env env"
  shows "attains (booked (sv_digest env) net evs i 0 0) (pay env upload_id i info) (\<lambda>(_, t). paid_so_far env net evs i t)"
proof -
  have quiet: "list_all (quiet_op \<circ> snd) (sv_before_check env)" using assms by (simp add: quiet_env_def)
  have check: "attains (booked (sv_digest env) net evs i 0 0) (checked_upper env i upper) (\<lambda>_. booked (sv_digest env) net evs i 0 0)" for upper
    by (simp add: attains_def checked_upper_def)
  have "attains (booked (sv_digest env) net evs i 0 0)
      (andthen (approve_allowance env upload_id i upper) (\<lambda>t. case info of
         WaveBatch payments _ \<Rightarrow> andthen (pay_waves env upload_id i (chunks (sv_max_transfers env) payments) Map.empty t)
           (\<lambda>(proofs, t'). lift (Inr (WaveProofs proofs, t')))
       | Merkle batches \<Rightarrow> andthen (pay_batches env upload_id i batches [] t)
           (\<lambda>(winners, t'). lift (Inr (MerkleProofs winners, t')))))
      (\<lambda>(_, t). paid_so_far env net evs i t)" for upper
    by (rule attains_andthen [OF attains_allowance [OF assms]])
      (auto intro!: attains_andthen [OF attains_pay_waves [OF assms]] attains_andthen [OF attains_pay_batches [OF assms]]
        attains_result split: payment_info.split prod.split)
  then show ?thesis
    unfolding pay_def
    by (auto intro!: attains_andthen [OF attains_lift_const] attains_andthen [OF attains_quiet(2) [OF quiet]]
        attains_andthen [OF check])
qed

text \<open>C4. When a payment succeeds, the journal it leaves is the one its operations lead to, and the storage
  and the gas it reports are exactly what the settled receipts charged the approval in that journal while
  it ran - allowance, waves or batches together - whatever the network answered. Other requests may run
  meanwhile, as far as the signer's lock admits them: all but those that reserve, sign or settle a
  transaction or reopen the journal.\<close>

theorem paid_upload_is_booked:
  assumes "pay env upload_id approval_id info (signer_start (after (sv_digest env) net evs)) = (Inr (proofs, t), s)"
    and "quiet_env env"
  shows "sg_journal s = after (sv_digest env) net (evs @ sg_events s) \<and>
    snd (run (acc_step (sv_digest env)) (evs @ sg_events s) (opened net)) approval_id =
    (fst (snd (run (acc_step (sv_digest env)) evs (opened net)) approval_id) + unat (pt_storage t),
     snd (snd (run (acc_step (sv_digest env)) evs (opened net)) approval_id) + unat (pt_gas t))"
proof -
  have "booked (sv_digest env) net evs approval_id 0 0 (signer_start (after (sv_digest env) net evs))"
    by (simp add: booked_def linked_def ledger_def signer_start_def)
  from attainsD [OF attains_pay [OF assms(2)] this assms(1)]
  have "paid_so_far env net evs approval_id t s" by simp
  then show ?thesis by (simp only: booked_def ledger_def linked_def)
qed


section \<open>A payment\<close>

text \<open>An upload of one quoted chunk: an allowance of 25, then a transfer of 25, with gas 5 each.\<close>

definition demo_answers :: "nat \<Rightarrow> tx_answers" where
  "demo_answers n = \<lparr>ta_genesis = Inr (Some ''genesis''), ta_fees = Inr (1, 0), ta_nonce = Inr (of_nat n),
     ta_estimate = (\<lambda>_. Inr 4), ta_intent_id = (if n = 0 then ''t'' else ''t2''),
     ta_build = (\<lambda>_. Inr (if n = 0 then ''h'' else ''h2'', ''raw'')), ta_send = Inr (),
     ta_receipt = Some (Inr \<lparr>rc_transaction_hash = (if n = 0 then ''h'' else ''h2''), rc_from = ''wallet'',
       rc_to = Some (if n = 0 then ''token'' else ''vault''), rc_status = True, rc_gas_used = 5,
       rc_effective_gas_price = 1, rc_merkle_events = []\<rparr>),
     ta_before_reserve = [], ta_reserve_at = 1, ta_before_record = [], ta_record_at = 1,
     ta_before_settle = [], ta_settle_at = 2\<rparr>"

definition demo_signer :: signer_env where
  "demo_signer = \<lparr>sv_digest = demo_digest, sv_genesis = ''genesis'', sv_chain_id = 1, sv_wallet = Some ''wallet'',
     sv_token = ''token'', sv_vault = ''vault'', sv_max_transfers = 256, sv_approve_call = (\<lambda>_. ''approve''),
     sv_quotes_call = (\<lambda>_. Inr (''call'', ''vault'')), sv_merkle_call = (\<lambda>_. Inr (''call'', ''vault'')),
     sv_merkle_cost = (\<lambda>_. 0), sv_receipt_json = (\<lambda>_. ''receipt''), sv_answers = demo_answers,
     sv_before_check = [], sv_check_at = 1\<rparr>"

lemma demo_numbers:
  "u128_to_string 0 = ''0''" "u128_to_string 6 = ''6''" "u128_to_string 5 = ''5''" "u128_to_string 11 = ''11''"
  "amount ''6'' = Inr 6" "amount ''5'' = Inr 5" "amount ''11'' = Inr 11"
  by (simp_all add: u128_to_string_def show_nat_eval digit_char_eval amount_def is_ascii_digit_def digits_value_def)

lemma demo_payment_steps:
  "reserve demo_digest 1 (demo_reservation ''t'' 0 0 6) (demo_journal ''preparing'' 0 [] ''0'' ''0'') =
     Inr (demo_journal ''paying'' 1 [demo_tx ''t'' 0 None ''0'' ''6'' ''reserved''] ''0'' ''6'')"
  "record_signed 1 ''t'' ''h'' ''raw'' (demo_journal ''paying'' 1 [demo_tx ''t'' 0 None ''0'' ''6'' ''reserved''] ''0'' ''6'') =
     Inr (demo_journal ''paying'' 1 [demo_tx ''t'' 0 (Some ''h'') ''0'' ''6'' ''signed''] ''0'' ''6'')"
  "settle ''h'' 0 5 ''receipt'' (demo_journal ''paying'' 1 [demo_tx ''t'' 0 (Some ''h'') ''0'' ''6'' ''signed''] ''0'' ''6'') =
     Inr (demo_journal ''paying'' 1 [demo_tx ''t'' 0 (Some ''h'') ''0'' ''6'' ''settled''] ''0'' ''5'')"
  "reserve demo_digest 1 (demo_reservation ''t2'' 1 25 6)
       (demo_journal ''paying'' 1 [demo_tx ''t'' 0 (Some ''h'') ''0'' ''6'' ''settled''] ''0'' ''5'') =
     Inr (demo_journal ''paying'' 1 [demo_tx ''t'' 0 (Some ''h'') ''0'' ''6'' ''settled'',
       demo_tx ''t2'' 1 None ''25'' ''6'' ''reserved''] ''25'' ''11'')"
  "record_signed 1 ''t2'' ''h2'' ''raw'' (demo_journal ''paying'' 1 [demo_tx ''t'' 0 (Some ''h'') ''0'' ''6'' ''settled'',
       demo_tx ''t2'' 1 None ''25'' ''6'' ''reserved''] ''25'' ''11'') =
     Inr (demo_journal ''paying'' 1 [demo_tx ''t'' 0 (Some ''h'') ''0'' ''6'' ''settled'',
       demo_tx ''t2'' 1 (Some ''h2'') ''25'' ''6'' ''signed''] ''25'' ''11'')"
  "settle ''h2'' 25 5 ''receipt'' (demo_journal ''paying'' 1 [demo_tx ''t'' 0 (Some ''h'') ''0'' ''6'' ''settled'',
       demo_tx ''t2'' 1 (Some ''h2'') ''25'' ''6'' ''signed''] ''25'' ''11'') =
     Inr (demo_journal ''paying'' 1 [demo_tx ''t'' 0 (Some ''h'') ''0'' ''6'' ''settled'',
       demo_tx ''t2'' 1 (Some ''h2'') ''25'' ''6'' ''settled''] ''25'' ''10'')"
  by (simp_all add: reserve_def record_signed_def settle_def demo_numbers demo_simps cong: rbind_weak_cong)


lemmas demo_action_simps = andthen_def lift_def perform_def interfere_def broadcast_def next_answers_def
  plan_transaction_def gas_limit_of_def check_receipt_def settle_receipt_def receipt_gas_def checked_mul_def
  demo_signer_def demo_answers_def Let_def journal_step_def

lemma demo_plan_transaction:
  "plan_transaction demo_signer (demo_answers n) to_address calldata =
     Inr (''wallet'', \<lparr>rq_to = to_address, rq_input = calldata, rq_chain_id = 1, rq_nonce = of_nat n,
       rq_max_fee_per_gas = 1, rq_max_priority_fee_per_gas = 0, rq_gas_limit = Some 6\<rparr>, of_nat n, 6)"
  by (simp add: plan_transaction_def gas_limit_of_def demo_signer_def demo_answers_def checked_mul_def Let_def
      word_less_nat_alt unat_div_distrib)


text \<open>A transaction and its settlement at these answers, given what the journal does.\<close>

lemma demo_settled_transaction:
  assumes "reserve demo_digest 1 (demo_reservation (ta_intent_id (demo_answers n)) (of_nat n) upper 6) j = Inr j1"
    and "record_signed 1 (ta_intent_id (demo_answers n)) hash ''raw'' j1 = Inr j2"
    and "settle hash storage 5 ''receipt'' j2 = Inr j3"
    and "sg_journal s1 = j" "hash = (if n = 0 then ''h'' else ''h2'')" "to_address = (if n = 0 then ''token'' else ''vault'')"
  shows "\<exists>receipt s2 s3. transact demo_signer (demo_answers n) ''u'' ''q'' to_address calldata upper s1 = (Inr receipt, s2) \<and>
    receipt_gas receipt = Inr 5 \<and> rc_status receipt \<and> rc_transaction_hash receipt = hash \<and>
    settle_receipt demo_signer (demo_answers n) receipt storage 5 s2 = (Inr (), s3) \<and>
    sg_journal s3 = j3 \<and> sg_calls s3 = sg_calls s1"
proof -
  have *: "sv_digest demo_signer = demo_digest" "ta_before_reserve (demo_answers n) = []" "ta_before_record (demo_answers n) = []"
    "ta_before_settle (demo_answers n) = []" "ta_reserve_at (demo_answers n) = 1" "ta_record_at (demo_answers n) = 1"
    "ta_build (demo_answers n) = (\<lambda>_. Inr (hash, ''raw''))" "ta_send (demo_answers n) = Inr ()"
    "sv_receipt_json demo_signer = (\<lambda>_. ''receipt'')"
    using assms(5) by (simp_all add: demo_signer_def demo_answers_def)
  obtain receipt where r: "check_receipt ''wallet'' to_address hash (ta_receipt (demo_answers n)) = Inr receipt"
    "receipt_gas receipt = Inr 5" "rc_status receipt" "rc_transaction_hash receipt = hash"
    using assms(5,6) by (simp add: check_receipt_def demo_answers_def receipt_gas_def checked_mul_def)
  note reserve = assms(1) [unfolded demo_reservation_def]
  show ?thesis
    using assms(4) by (simp add: transact_def settle_receipt_def andthen_def lift_def perform_def interfere_def broadcast_def
        demo_plan_transaction * reserve assms(2,3) r journal_step_def)
qed


lemma demo_pay:
  "\<exists>proofs t s. pay demo_signer ''u'' ''q'' (WaveBatch [(''quote'', ''payee'', 25)] 25)
      (signer_start (after demo_digest ''net'' demo_admitted)) = (Inr (proofs, t), s) \<and> pt_storage t = 25 \<and> pt_gas t = 10"
proof -
  let ?s0 = "signer_start (after demo_digest ''net'' demo_admitted)"
  let ?paid = "demo_journal ''paying'' 1 [demo_tx ''t'' 0 (Some ''h'') ''0'' ''6'' ''settled''] ''0'' ''5''"
  have env: "sv_digest demo_signer = demo_digest" "sv_before_check demo_signer = []" "sv_check_at demo_signer = 1"
    "sv_token demo_signer = ''token''" "sv_max_transfers demo_signer = 256" "sv_approve_call demo_signer = (\<lambda>_. ''approve'')"
    "sv_quotes_call demo_signer = (\<lambda>_. Inr (''call'', ''vault''))" "sv_answers demo_signer = demo_answers"
    by (simp_all add: demo_signer_def)
  have j0: "sg_journal ?s0 = demo_journal ''preparing'' 0 [] ''0'' ''0''" "sg_calls ?s0 = 0"
    by (simp_all add: signer_start_def demo_admitted_state)
  have "\<exists>receipt s2 s3. transact demo_signer (demo_answers 0) ''u'' ''q'' ''token'' ''approve'' 0 (?s0\<lparr>sg_calls := 1\<rparr>) = (Inr receipt, s2) \<and>
    receipt_gas receipt = Inr 5 \<and> rc_status receipt \<and> rc_transaction_hash receipt = ''h'' \<and>
    settle_receipt demo_signer (demo_answers 0) receipt 0 5 s2 = (Inr (), s3) \<and>
    sg_journal s3 = ?paid \<and> sg_calls s3 = sg_calls (?s0\<lparr>sg_calls := 1\<rparr>)"
    by (rule demo_settled_transaction [where ?j1.0 = "demo_journal ''paying'' 1
          [demo_tx ''t'' 0 None ''0'' ''6'' ''reserved''] ''0'' ''6''" and ?j2.0 = "demo_journal ''paying'' 1
          [demo_tx ''t'' 0 (Some ''h'') ''0'' ''6'' ''signed''] ''0'' ''6''", OF _ _ demo_payment_steps(3)])
      (simp_all add: demo_answers_def j0 demo_payment_steps(1,2))
  then obtain r2 s2 s3 where first: "transact demo_signer (demo_answers 0) ''u'' ''q'' ''token'' ''approve'' 0 (?s0\<lparr>sg_calls := 1\<rparr>) = (Inr r2, s2)"
    "receipt_gas r2 = Inr 5" "rc_status r2" "settle_receipt demo_signer (demo_answers 0) r2 0 5 s2 = (Inr (), s3)"
    and s3: "sg_journal s3 = ?paid" "sg_calls s3 = 1" by auto
  have "\<exists>receipt s4 s5. transact demo_signer (demo_answers 1) ''u'' ''q'' ''vault'' ''call'' 25 (s3\<lparr>sg_calls := Suc (Suc 0)\<rparr>) = (Inr receipt, s4) \<and>
    receipt_gas receipt = Inr 5 \<and> rc_status receipt \<and> rc_transaction_hash receipt = ''h2'' \<and>
    settle_receipt demo_signer (demo_answers 1) receipt 25 5 s4 = (Inr (), s5) \<and>
    sg_journal s5 = demo_journal ''paying'' 1 [demo_tx ''t'' 0 (Some ''h'') ''0'' ''6'' ''settled'',
       demo_tx ''t2'' 1 (Some ''h2'') ''25'' ''6'' ''settled''] ''25'' ''10'' \<and> sg_calls s5 = sg_calls (s3\<lparr>sg_calls := Suc (Suc 0)\<rparr>)"
    by (rule demo_settled_transaction [where ?j1.0 = "demo_journal ''paying'' 1 [demo_tx ''t'' 0 (Some ''h'') ''0'' ''6'' ''settled'',
          demo_tx ''t2'' 1 None ''25'' ''6'' ''reserved''] ''25'' ''11''"
        and ?j2.0 = "demo_journal ''paying'' 1 [demo_tx ''t'' 0 (Some ''h'') ''0'' ''6'' ''settled'',
          demo_tx ''t2'' 1 (Some ''h2'') ''25'' ''6'' ''signed''] ''25'' ''11''", OF _ _ demo_payment_steps(6)])
      (simp_all add: demo_answers_def s3 demo_payment_steps(4,5))
  then obtain r4 s4 s5 where second: "transact demo_signer (demo_answers 1) ''u'' ''q'' ''vault'' ''call'' 25 (s3\<lparr>sg_calls := Suc (Suc 0)\<rparr>) = (Inr r4, s4)"
    "receipt_gas r4 = Inr 5" "rc_status r4" "settle_receipt demo_signer (demo_answers 1) r4 25 5 s4 = (Inr (), s5)" by auto
  have check: "check_storage demo_digest 1 ''q'' 25 (sg_journal ?s0) = Inr ()"
    by (simp add: check_storage_def j0 demo_simps cong: rbind_weak_cong)
  have start: "?s0\<lparr>sg_calls := Suc 0\<rparr> = ?s0\<lparr>sg_calls := 1\<rparr>" by simp
  have allowance: "approve_allowance demo_signer ''u'' ''q'' 25 ?s0 = (Inr \<lparr>pt_storage = 0, pt_gas = 5\<rparr>, s3)"
    using first by (simp add: approve_allowance_def andthen_def next_answers_def lift_def env j0)
  have split: "chunks 256 [(''quote'', ''payee'', 25 :: u256)] = [[(''quote'', ''payee'', 25)]]"
    by (subst chunks.simps) (simp add: chunks.simps [of _ "[]"])
  have "pay_wave demo_signer ''u'' ''q'' [(''quote'', ''payee'', 25)] \<lparr>pt_storage = 0, pt_gas = 5\<rparr> s3 =
      (Inr (rc_transaction_hash r4, \<lparr>pt_storage = 25, pt_gas = 10\<rparr>), s5)"
    using second s3(2)
    by (simp add: pay_wave_def andthen_def next_answers_def lift_def env u128_of_u256_def checked_add_def add_paid_def)
  then show ?thesis
    using allowance check
    by (simp add: pay_def andthen_def lift_def storage_upper_def u128_of_u256_def interfere_def env checked_upper_def split)
qed

theorem paid_upload_is_booked_witness:
  "\<exists>s :: signer_state. snd (run (acc_step demo_digest) (demo_admitted @ sg_events s) (opened ''net'')) ''q'' = (25, 10)"
proof -
  have digest: "sv_digest demo_signer = demo_digest" by (simp add: demo_signer_def)
  have quiet: "quiet_env demo_signer"
    by (simp add: quiet_env_def quiet_answers_def demo_signer_def demo_answers_def)
  have zero: "snd (run (acc_step demo_digest) demo_admitted (opened ''net'')) ''q'' = (0, 0)"
    by (simp add: demo_admitted_def acc_step_def settlement_def opened_def)
  from demo_pay obtain proofs t s where "pay demo_signer ''u'' ''q'' (WaveBatch [(''quote'', ''payee'', 25)] 25)
      (signer_start (after demo_digest ''net'' demo_admitted)) = (Inr (proofs, t), s)" "pt_storage t = 25" "pt_gas t = 10" by blast
  note paid = this
  from paid_upload_is_booked [where env = demo_signer, unfolded digest, OF paid(1) quiet]
  have "snd (run (acc_step demo_digest) (demo_admitted @ sg_events s) (opened ''net'')) ''q'' = (25, 10)"
    by (simp only: zero paid(2,3)) simp
  then show ?thesis ..
qed

end
