(* ===== verification/Upload_Properties.thy ===== *)
theory Upload_Properties
  imports Payment_Uploads Signer_Books
begin

text \<open>
  The properties of the gateway's uploads: its bounds in every run, the receipts it issues, and how a
  failed task is recorded once storage may have been paid.
\<close>

section \<open>Runs of the gateway\<close>

datatype gateway_op =
    QuoteBegin
  | QuoteEnd
  | UploadBegin digest_fn string string string u64 payment_mode string
  | UploadEnd string "string + string"
  | KeepResume upload_context paid_totals file_upload_result string
  | ResumeBegin string
  | ResumeEnd string "string + string"
  | ExpireSessions
  | JournalEvent digest_fn journal_op

fun gateway_step :: "int \<times> gateway_op \<Rightarrow> gateway \<Rightarrow> gateway" where
  "gateway_step (now, QuoteBegin) g = (if free_slot g then g\<lparr>gw_quotes := gw_quotes g + 1\<rparr> else g)"
| "gateway_step (now, QuoteEnd) g = g\<lparr>gw_quotes := gw_quotes g - 1\<rparr>"
| "gateway_step (now, UploadBegin digest upload_id approval_id sha256 len mode key) g =
     snd (begin_upload digest now upload_id approval_id sha256 len mode key g)"
| "gateway_step (now, UploadEnd upload_id result) g = snd (end_upload now upload_id result g)"
| "gateway_step (now, KeepResume c t r handle) g = snd (keep_resume now c t r handle g)"
| "gateway_step (now, ResumeBegin upload_id) g = snd (resume_begin now upload_id g)"
| "gateway_step (now, ResumeEnd upload_id result) g = resume_end now upload_id result g"
| "gateway_step (now, ExpireSessions) g = expire_sessions now g"
| "gateway_step (now, JournalEvent digest op) g = g\<lparr>gw_journal := journal_step digest (now, op) (gw_journal g)\<rparr>"

definition new_gateway :: "journal \<Rightarrow> gateway" where
  "new_gateway j = \<lparr>gw_journal = j, gw_running = [], gw_quotes = 0, gw_resumes = []\<rparr>"

definition gateway_ok :: "gateway \<Rightarrow> bool" where
  "gateway_ok g \<longleftrightarrow> distinct (gw_running g) \<and> gw_quotes g + length (gw_running g) \<le> 4 \<and>
     distinct (map fst (gw_resumes g)) \<and> length (gw_resumes g) \<le> 4"

lemma distinct_fst_filter: "distinct (map fst xs) \<Longrightarrow> distinct (map fst (filter P xs))"
  by (induction xs) auto

lemma length_filter_trans: "length xs \<le> n \<Longrightarrow> length (filter P xs) \<le> n"
  using length_filter_le [of P xs] by linarith

lemmas gateway_defs = gateway_ok_def end_task_def live_sessions_def free_slot_def

lemma keep_resume_ok: "gateway_ok g \<Longrightarrow> gateway_ok (snd (keep_resume now c t r handle g))"
  using length_filter_le [of "\<lambda>(i, _). i \<noteq> uc_id c" "live_sessions now (gw_resumes g)"]
  by (auto simp: keep_resume_def gateway_defs Let_def distinct_fst_filter length_filter_trans split: option.split)

lemma begin_upload_ok: "gateway_ok g \<Longrightarrow> gateway_ok (snd (begin_upload digest now u a sha len mode key g))"
  by (auto simp: begin_upload_def gateway_defs split: sum.split option.split)

lemma resume_begin_ok: "gateway_ok g \<Longrightarrow> gateway_ok (snd (resume_begin now u g))"
  by (auto simp: resume_begin_def gateway_defs Let_def distinct_fst_filter length_filter_trans split: option.split)

lemma end_task_ok: "gateway_ok g \<Longrightarrow> gateway_ok (end_task u (g\<lparr>gw_journal := j\<rparr>))"
  by (auto simp: gateway_ok_def end_task_def intro: order_trans [OF add_left_mono [OF length_filter_le]])

lemma gateway_step_ok:
  assumes "gateway_ok g"
  shows "gateway_ok (gateway_step ev g)"
proof -
  obtain now op where ev: "ev = (now, op)" by fastforce
  show ?thesis
  proof (cases op)
    case (UploadEnd u result)
    then show ?thesis using assms ev by (cases result) (simp_all add: end_upload_def Let_def end_task_ok)
  next
    case (ResumeEnd u result)
    then show ?thesis using assms ev by (cases result) (simp_all add: resume_end_def end_task_ok)
  qed (use assms ev in \<open>simp_all add: keep_resume_ok begin_upload_ok resume_begin_ok\<close>,
       auto simp: gateway_defs expire_sessions_def distinct_fst_filter length_filter_trans)
qed

interpretation gateway: guarded_system gateway_step gateway_ok
  by unfold_locales (rule gateway_step_ok)

text \<open>C22. In every run of the gateway, at most four quotes, uploads and resumptions are under way, no
  upload is run by two tasks, and at most four partial uploads keep recovery material, one session each.\<close>

theorem gateway_bounded:
  "gw_quotes (run gateway_step evs (new_gateway j)) + length (gw_running (run gateway_step evs (new_gateway j))) \<le> 4 \<and>
   distinct (gw_running (run gateway_step evs (new_gateway j))) \<and>
   length (gw_resumes (run gateway_step evs (new_gateway j))) \<le> 4 \<and>
   distinct (map fst (gw_resumes (run gateway_step evs (new_gateway j))))"
  using gateway.run_inv [of "new_gateway j" evs] by (simp add: gateway_ok_def new_gateway_def)

section \<open>Receipts\<close>

lemma completed_Inr:
  assumes "completed download c t r = Inr receipt"
  shows "ru_chunks_failed receipt = 0" "ru_chunks_stored receipt = ru_total_chunks receipt"
    "ru_verified receipt = uc_verify c" "ru_byte_size receipt = uc_size c"
    "ru_storage_cost_atto receipt = u128_to_string (pt_storage t)"
    "ru_estimated_gas_cost_wei receipt = u128_to_string (pt_gas t)"
    "uc_verify c \<Longrightarrow> \<exists>map_bytes. download map_bytes = Inr (uc_size c, uc_size c, uc_sha256 c)"
  using assms by (auto simp: completed_def receipt_of_def verify_content_def split: if_splits)

lemma keep_resume_Inl: "fst (keep_resume now c t r handle g) \<noteq> Inr receipt"
  by (simp add: keep_resume_def Let_def split: option.split)

lemma finalize_loop_Inr:
  "finalize_loop n resumed download now c t p outcome g = (Inr receipt, g') \<Longrightarrow>
     \<exists>r. completed download c t r = Inr receipt"
proof (induction n resumed download now c t p outcome g rule: finalize_loop.induct)
  case (4 n resumed download now c t p r handle g)
  then show ?case
    using keep_resume_Inl by (auto split: if_splits sum.splits option.splits) (metis fst_conv)+
qed (use keep_resume_Inl in \<open>auto, (metis fst_conv)?\<close>)

text \<open>C14. An upload that succeeds has stored every chunk, has downloaded and compared its content when
  verification was asked for, and its receipt carries the size of the content and exactly the storage
  and gas that its payment reported.\<close>

theorem receipt_is_complete:
  assumes "upload_inner env approval_id preparation finalized resumed download now c g = (Inr receipt, g')"
  shows "ru_chunks_failed receipt = 0 \<and> ru_chunks_stored receipt = ru_total_chunks receipt \<and>
    ru_byte_size receipt = uc_size c \<and> ru_verified receipt = uc_verify c \<and>
    (uc_verify c \<longrightarrow> (\<exists>map_bytes. download map_bytes = Inr (uc_size c, uc_size c, uc_sha256 c))) \<and>
    (\<exists>prepared proofs t s. preparation = Inr prepared \<and>
      pay env (uc_id c) approval_id (pu_payment_info prepared) (signer_start (gw_journal g)) = (Inr (proofs, t), s) \<and>
      amount (ru_storage_cost_atto receipt) = Inr (pt_storage t) \<and>
      amount (ru_estimated_gas_cost_wei receipt) = Inr (pt_gas t))"
proof -
  from assms obtain prepared proofs t s outcome where *: "preparation = Inr prepared"
    "pay env (uc_id c) approval_id (pu_payment_info prepared) (signer_start (gw_journal g)) = (Inr (proofs, t), s)"
    "finalize_loop 3 resumed download now c t None outcome (g\<lparr>gw_journal := sg_journal s\<rparr>) = (Inr receipt, g')"
    by (auto simp: upload_inner_def split: sum.splits prod.splits)
  from finalize_loop_Inr [OF *(3)] obtain r where "completed download c t r = Inr receipt" ..
  from completed_Inr [OF this] *(1,2) show ?thesis by auto
qed

text \<open>An upload of one quote, paid by the signer of the example and stored whole.\<close>

definition demo_stored :: file_upload_result where
  "demo_stored = \<lparr>fu_data_map = ''map'', fu_data_map_address = Some ''address'', fu_chunks_stored = 3,
     fu_total_chunks = 3, fu_chunks_failed = 0, fu_payment_mode_used = SingleMode\<rparr>"

definition demo_context :: upload_context where
  "demo_context = \<lparr>uc_id = ''u'', uc_sha256 = demo_sha, uc_size = 5, uc_verify = True\<rparr>"

definition demo_preparation :: "prepared_upload res" where
  "demo_preparation = Inr \<lparr>pu_payment_info = WaveBatch [(''quote'', ''payee'', 25)] 25, pu_total_chunks = 3,
     pu_data_map_address = Some ''address''\<rparr>"

lemma demo_upload:
  "\<exists>receipt g'. upload_inner demo_signer ''q'' demo_preparation (\<lambda>_. Inr (Partial (demo_stored\<lparr>fu_chunks_failed := 1\<rparr>) ''handle''))
     (\<lambda>_. Inr (Complete demo_stored)) (\<lambda>_. Inr (5, 5, demo_sha)) 9 demo_context
     (new_gateway (after demo_digest ''net'' demo_admitted)) = (Inr receipt, g')"
proof -
  obtain proofs t s where "pay demo_signer ''u'' ''q'' (WaveBatch [(''quote'', ''payee'', 25)] 25)
      (signer_start (after demo_digest ''net'' demo_admitted)) = (Inr (proofs, t), s)"
    using demo_pay by blast
  then show ?thesis
    by (simp add: upload_inner_def demo_preparation_def demo_context_def new_gateway_def numeral_3_eq_3 completed_def
        demo_stored_def verify_content_def)
qed

theorem receipt_is_complete_witness:
  "\<exists>receipt. fst (upload_inner demo_signer ''q'' demo_preparation
      (\<lambda>_. Inr (Partial (demo_stored\<lparr>fu_chunks_failed := 1\<rparr>) ''handle'')) (\<lambda>_. Inr (Complete demo_stored))
      (\<lambda>_. Inr (5, 5, demo_sha)) 9 demo_context (new_gateway (after demo_digest ''net'' demo_admitted))) = Inr receipt \<and>
     ru_chunks_failed receipt = 0 \<and> ru_byte_size receipt = 5 \<and> ru_verified receipt \<and>
     amount (ru_storage_cost_atto receipt) = Inr 25 \<and> amount (ru_estimated_gas_cost_wei receipt) = Inr 10"
proof -
  from demo_upload obtain receipt g' where run: "upload_inner demo_signer ''q'' demo_preparation
      (\<lambda>_. Inr (Partial (demo_stored\<lparr>fu_chunks_failed := 1\<rparr>) ''handle'')) (\<lambda>_. Inr (Complete demo_stored))
      (\<lambda>_. Inr (5, 5, demo_sha)) 9 demo_context (new_gateway (after demo_digest ''net'' demo_admitted)) = (Inr receipt, g')"
    by blast
  from receipt_is_complete [OF this] demo_pay show ?thesis
    unfolding run by (auto simp: demo_preparation_def demo_context_def new_gateway_def)
qed

section \<open>Failures\<close>

lemma finish_state:
  assumes "has_transaction i j \<or> st \<noteq> ''payment_recovery_required''"
    and "u \<in> set (payment_uploads (finish now i st result detail j))" "ur_id u = i"
  shows "ur_state u = st"
proof -
  have "payment_uploads (finish now i st result detail j) = update_where (\<lambda>u. ur_id u = i)
      (\<lambda>u. u\<lparr>ur_state := st, ur_result := result, ur_detail := detail, ur_updated_at := now\<rparr>) (payment_uploads j)"
    using assms(1) by (auto simp: finish_def Let_def)
  with assms(2) obtain r where "u = (if ur_id r = i then r\<lparr>ur_state := st, ur_result := result, ur_detail := detail,
      ur_updated_at := now\<rparr> else r)"
    by (auto simp: in_update_where)
  then show ?thesis using assms(3) by (cases "ur_id r = i") auto
qed

lemma finish_pauses:
  assumes "has_transaction i j" "u \<in> set (payment_uploads (finish now i ''payment_recovery_required'' result detail j))"
    "ur_id u = i" "a \<in> set (payment_approvals (finish now i ''payment_recovery_required'' result detail j))"
    "ar_id a = ur_approval_id u"
  shows "ar_state a = ''paused''"
proof -
  let ?j = "finish now i ''payment_recovery_required'' result detail j"
  have "payment_approvals ?j = update_where (\<lambda>a. exists_where (\<lambda>u. ur_id u = i \<and> ur_approval_id u = ar_id a) (payment_uploads ?j))
      (\<lambda>a. a\<lparr>ar_state := ''paused''\<rparr>) (payment_approvals j)"
    using assms(1) by (simp add: finish_def Let_def)
  with assms(4) obtain b where "a = (if exists_where (\<lambda>u. ur_id u = i \<and> ur_approval_id u = ar_id b) (payment_uploads ?j)
      then b\<lparr>ar_state := ''paused''\<rparr> else b)"
    by (auto simp: in_update_where)
  moreover from this have "ar_id b = ar_id a" by (simp split: if_splits)
  ultimately show ?thesis using assms(2,3,5) by auto
qed

text \<open>C15. When a task fails after a transaction that pays storage was reserved, the failure never reads as
  one that a new approval would cure: the caller is told of a partial upload or of a recovery, the
  upload is recorded as such, and in the second case its approval is paused.\<close>

theorem paid_failure_needs_recovery:
  assumes "end_upload now upload_id (Inl detail) g = (Some detail', g')"
    and "has_storage_intent upload_id (gw_journal g)"
  shows "payment_error_code detail' \<noteq> ''APPROVAL_REQUIRED'' \<and>
    list_all (\<lambda>u. ur_id u = upload_id \<longrightarrow>
      (ur_state u = ''partial'' \<and> payment_error_code detail' = ''PARTIAL_UPLOAD'') \<or>
      (ur_state u = ''payment_recovery_required'' \<and> payment_error_code detail' = ''PAYMENT_RECOVERY_REQUIRED'' \<and>
        list_all (\<lambda>a. ar_id a = ur_approval_id u \<longrightarrow> ar_state a = ''paused'') (payment_approvals (gw_journal g'))))
      (payment_uploads (gw_journal g'))"
proof -
  have paid: "has_transaction upload_id (gw_journal g)"
    using assms(2) by (auto simp: has_storage_intent_def has_transaction_def)
  have detail: "detail' = failure_detail upload_id detail (gw_journal g)"
    and journal: "gw_journal g' = finish now upload_id (failure_state detail') None (Some detail') (gw_journal g)"
    using assms(1) by (auto simp: end_upload_def Let_def end_task_def)
  have approval: "\<not> prefix ''approval_required:'' detail'"
    using assms(2) by (auto simp: detail failure_detail_def)
  show ?thesis
  proof (cases "prefix ''partial_upload:'' detail'")
    case True
    then have code: "failure_state detail' = ''partial''" "payment_error_code detail' = ''PARTIAL_UPLOAD''"
      using approval by (simp_all add: failure_state_def payment_error_code_def)
    have "list_all (\<lambda>u. ur_id u = upload_id \<longrightarrow> ur_state u = ''partial'') (payment_uploads (gw_journal g'))"
      using finish_state [of upload_id "gw_journal g" "''partial''"] by (simp add: journal code list_all_iff)
    then show ?thesis by (simp add: code list_all_iff)
  next
    case False
    then have code: "failure_state detail' = ''payment_recovery_required''"
      "payment_error_code detail' = ''PAYMENT_RECOVERY_REQUIRED''"
      using approval by (simp_all add: failure_state_def payment_error_code_def)
    have "list_all (\<lambda>u. ur_id u = upload_id \<longrightarrow> ur_state u = ''payment_recovery_required'') (payment_uploads (gw_journal g'))"
      using finish_state [of upload_id "gw_journal g"] paid by (simp add: journal code list_all_iff)
    moreover have "list_all (\<lambda>u. ur_id u = upload_id \<longrightarrow>
        list_all (\<lambda>a. ar_id a = ur_approval_id u \<longrightarrow> ar_state a = ''paused'') (payment_approvals (gw_journal g')))
        (payment_uploads (gw_journal g'))"
      using finish_pauses [OF paid] by (auto simp: journal code list_all_iff)
    ultimately show ?thesis by (simp add: code list_all_iff)
  qed
qed

definition demo_failed :: "string option \<times> gateway" where
  "demo_failed = end_upload 7 ''u'' (Inl ''approval_required: content is not approved'')
     (new_gateway (after demo_digest ''net'' demo_signed))"

theorem paid_failure_needs_recovery_witness:
  "\<exists>detail. fst demo_failed = Some detail \<and> payment_error_code detail = ''PAYMENT_RECOVERY_REQUIRED'' \<and>
     map ur_state (payment_uploads (gw_journal (snd demo_failed))) = [''payment_recovery_required''] \<and>
     map ar_state (payment_approvals (gw_journal (snd demo_failed))) = [''paused'']"
proof -
  have intent: "has_storage_intent ''u'' (gw_journal (new_gateway (after demo_digest ''net'' demo_signed)))"
    by (simp add: new_gateway_def demo_signed_state has_storage_intent_def demo_journal_def demo_tx_def)
  obtain detail g' where failed: "demo_failed = (Some detail, g')"
    by (cases demo_failed) (auto simp: demo_failed_def end_upload_def Let_def)
  have rows: "map ur_id (payment_uploads (gw_journal g')) = [''u'']" "map ur_approval_id (payment_uploads (gw_journal g')) = [''q'']"
    "map ar_id (payment_approvals (gw_journal g')) = [''q'']" "map ur_state (payment_uploads (gw_journal g')) = [''payment_recovery_required'']"
    using failed intent by (auto simp: demo_failed_def end_upload_def Let_def end_task_def finish_def new_gateway_def
        demo_signed_state demo_journal_def demo_tx_def failure_state_def failure_detail_def has_transaction_def split: if_splits)
  from paid_failure_needs_recovery [OF failed [unfolded demo_failed_def] intent] rows show ?thesis
    unfolding failed by (auto simp: map_eq_Cons_conv list_all_iff)
qed

end
