(* ===== verification/Stream_Cache.thy ===== *)
theory Stream_Cache
  imports Prelude
begin

text \<open>
  The caches of the streaming service (\<open>crates/rust_stream/src/cache.rs\<close>): the least-recently-used
  segment cache, bounded in bytes, and the metadata caches, bounded in bytes and in entries. An
  insertion-ordered map is the list of its bindings, front first; a hash map is the list of its
  bindings in iteration order, about which nothing is assumed. Sizes are naturals: no resident
  collection of byte strings reaches the 64-bit limit. Instants and durations are naturals, and an
  operation reads the clock once.
\<close>

type_synonym byte = "8 word"

section \<open>Ordered bindings\<close>

definition remove_key :: "'k \<Rightarrow> ('k \<times> 'v) list \<Rightarrow> ('k \<times> 'v) list" where
  "remove_key k m = filter (\<lambda>(k', _). k' \<noteq> k) m"

lemma map_of_remove_key [simp]: "map_of (remove_key k m) k' = (if k' = k then None else map_of m k')"
  by (induction m) (auto simp: remove_key_def)

lemma keys_remove_key: "fst ` set (remove_key k m) = fst ` set m - {k}"
  by (auto simp: remove_key_def)

lemma distinct_remove_key: "distinct (map fst m) \<Longrightarrow> distinct (map fst (remove_key k m))"
  by (induction m) (auto simp: remove_key_def)

lemma remove_key_absent: "k \<notin> fst ` set m \<Longrightarrow> remove_key k m = m"
  by (induction m) (auto simp: remove_key_def)

lemma remove_key_front: "distinct (map fst ((k, v) # m)) \<Longrightarrow> remove_key k ((k, v) # m) = m"
  using remove_key_absent [of k m] by (simp add: remove_key_def)

lemma length_remove_key: "map_of m k = Some v \<Longrightarrow> length (remove_key k m) < length m"
proof (induction m)
  case (Cons b m)
  have "length (remove_key k m) \<le> length m" by (simp add: remove_key_def)
  with Cons show ?case
    by (cases b) (auto simp: remove_key_def less_Suc_eq_le split: if_splits)
qed simp

lemma sum_remove_key:
  fixes f :: "'v \<Rightarrow> nat"
  shows "distinct (map fst m) \<Longrightarrow> map_of m k = Some v \<Longrightarrow>
     sum_list (map (f \<circ> snd) (remove_key k m)) + f v = sum_list (map (f \<circ> snd) m)"
proof (induction m)
  case (Cons b m)
  show ?case
  proof (cases "fst b = k")
    case True
    with Cons show ?thesis by (cases b) (simp add: remove_key_front add.commute)
  next
    case False
    with Cons show ?thesis by (cases b) (auto simp: remove_key_def)
  qed
qed simp

section \<open>The segment cache\<close>

record cached_segment =
  cs_data :: "byte list"
  cs_expires_at :: nat

record segment_cache =
  sc_entries :: "(string \<times> cached_segment) list"
  sc_total_bytes :: nat
  sc_max_bytes :: nat
  sc_ttl :: nat
  sc_evictions_total :: nat

record segment_cache_snapshot =
  ss_evictions_total :: nat
  ss_bytes_resident :: nat
  ss_entries :: nat

definition new_segment_cache :: "nat \<Rightarrow> nat \<Rightarrow> segment_cache" where
  "new_segment_cache max_bytes ttl = \<lparr>sc_entries = [], sc_total_bytes = 0,
     sc_max_bytes = max_bytes, sc_ttl = ttl, sc_evictions_total = 0\<rparr>"

definition disabled :: "segment_cache \<Rightarrow> bool" where
  "disabled c \<longleftrightarrow> sc_max_bytes c = 0 \<or> sc_ttl c = 0"

definition remove_segment :: "string \<Rightarrow> segment_cache \<Rightarrow> segment_cache" where
  "remove_segment address c =
     (case map_of (sc_entries c) address of
        Some entry \<Rightarrow> c\<lparr>sc_entries := remove_key address (sc_entries c),
                        sc_total_bytes := sc_total_bytes c - length (cs_data entry)\<rparr>
      | None \<Rightarrow> c)"

definition evict_address :: "string \<Rightarrow> segment_cache \<Rightarrow> segment_cache" where
  "evict_address address c =
     (case map_of (sc_entries c) address of
        Some entry \<Rightarrow> c\<lparr>sc_entries := remove_key address (sc_entries c),
                        sc_total_bytes := sc_total_bytes c - length (cs_data entry),
                        sc_evictions_total := min (2 ^ 64 - 1) (sc_evictions_total c + 1)\<rparr>
      | None \<Rightarrow> c)"

function evict_to_limit :: "segment_cache \<Rightarrow> segment_cache" where
  "evict_to_limit c =
     (if sc_total_bytes c > sc_max_bytes c then
        (case sc_entries c of
           [] \<Rightarrow> c
         | (address, _) # _ \<Rightarrow> evict_to_limit (evict_address address c))
      else c)"
  by pat_completeness auto

termination
proof (relation "measure (\<lambda>c. length (sc_entries c))")
  fix c :: segment_cache and b entries address entry
  assume "sc_entries c = b # entries" "(address, entry) = b"
  then have "map_of (sc_entries c) address = Some entry" by auto
  then show "(evict_address address c, c) \<in> measure (\<lambda>c. length (sc_entries c))"
    by (simp add: evict_address_def length_remove_key)
qed simp

declare evict_to_limit.simps [simp del]

fun prune_front :: "nat \<Rightarrow> nat \<Rightarrow> segment_cache \<Rightarrow> segment_cache" where
  "prune_front 0 now c = c"
| "prune_front (Suc n) now c =
     (case sc_entries c of
        [] \<Rightarrow> c
      | (address, entry) # _ \<Rightarrow>
          if cs_expires_at entry \<le> now then prune_front n now (evict_address address c) else c)"

definition prune_expired :: "nat \<Rightarrow> segment_cache \<Rightarrow> segment_cache" where
  "prune_expired now c = prune_front 64 now c"

definition get_segment :: "nat \<Rightarrow> string \<Rightarrow> segment_cache \<Rightarrow> byte list option \<times> segment_cache" where
  "get_segment now address c =
     (if disabled c then (None, c)
      else case map_of (sc_entries c) address of
        None \<Rightarrow> (None, c)
      | Some entry \<Rightarrow>
          let c1 = c\<lparr>sc_entries := remove_key address (sc_entries c) @ [(address, entry)]\<rparr>
          in if cs_expires_at entry > now then (Some (cs_data entry), c1)
             else (None, evict_address address c1))"

definition insert_segment :: "nat \<Rightarrow> string \<Rightarrow> byte list \<Rightarrow> segment_cache \<Rightarrow> segment_cache" where
  "insert_segment now address data c0 =
     (let c = prune_expired now c0 in
      if disabled c \<or> length data > sc_max_bytes c then c
      else
        (let c1 = remove_segment address c;
             c2 = c1\<lparr>sc_total_bytes := sc_total_bytes c1 + length data,
                     sc_entries := sc_entries c1 @
                       [(address, \<lparr>cs_data = data, cs_expires_at = now + sc_ttl c1\<rparr>)]\<rparr>
         in evict_to_limit c2))"

definition snapshot :: "nat \<Rightarrow> segment_cache \<Rightarrow> segment_cache_snapshot \<times> segment_cache" where
  "snapshot now c0 =
     (let c = prune_expired now c0
      in (\<lparr>ss_evictions_total = sc_evictions_total c, ss_bytes_resident = sc_total_bytes c,
           ss_entries = length (sc_entries c)\<rparr>, c))"

datatype segment_op =
    GetSegment nat string
  | InsertSegment nat string "byte list"
  | Snapshot nat

fun segment_step :: "segment_op \<Rightarrow> segment_cache \<Rightarrow> segment_cache" where
  "segment_step (GetSegment now address) c = snd (get_segment now address c)"
| "segment_step (InsertSegment now address data) c = insert_segment now address data c"
| "segment_step (Snapshot now) c = snd (snapshot now c)"

section \<open>The segment cache's books\<close>

definition segment_bytes :: "(string \<times> cached_segment) list \<Rightarrow> nat" where
  "segment_bytes entries = sum_list (map ((\<lambda>e. length (cs_data e)) \<circ> snd) entries)"

definition segment_books :: "segment_cache \<Rightarrow> bool" where
  "segment_books c \<longleftrightarrow> distinct (map fst (sc_entries c)) \<and>
     sc_total_bytes c = segment_bytes (sc_entries c)"

definition segment_ok :: "segment_cache \<Rightarrow> bool" where
  "segment_ok c \<longleftrightarrow> segment_books c \<and> sc_total_bytes c \<le> sc_max_bytes c"

lemma segment_bytes_simps [simp]:
  "segment_bytes [] = 0"
  "segment_bytes (b # entries) = length (cs_data (snd b)) + segment_bytes entries"
  "segment_bytes (xs @ ys) = segment_bytes xs + segment_bytes ys"
  by (simp_all add: segment_bytes_def)

lemma segment_bytes_remove:
  "distinct (map fst m) \<Longrightarrow> map_of m k = Some v \<Longrightarrow>
     segment_bytes (remove_key k m) = segment_bytes m - length (cs_data v)"
  using sum_remove_key [of m k v "\<lambda>e. length (cs_data e)"] by (simp add: segment_bytes_def)

lemma evict_limits [simp]:
  "sc_max_bytes (evict_address a c) = sc_max_bytes c" "sc_ttl (evict_address a c) = sc_ttl c"
  "sc_max_bytes (remove_segment a c) = sc_max_bytes c" "sc_ttl (remove_segment a c) = sc_ttl c"
  by (simp_all add: evict_address_def remove_segment_def split: option.splits)

lemma evict_entries [simp]:
  "sc_entries (evict_address a c) = remove_key a (sc_entries c)"
  "sc_entries (remove_segment a c) = remove_key a (sc_entries c)"
  by (auto simp: evict_address_def remove_segment_def map_of_eq_None_iff remove_key_absent
      split: option.splits)

lemma evict_books [simp]:
  assumes "segment_books c"
  shows "segment_books (evict_address a c)" "segment_books (remove_segment a c)"
  using assms
  by (auto simp: segment_books_def evict_address_def remove_segment_def segment_bytes_remove
      distinct_remove_key split: option.splits)

lemma evict_total_le:
  "sc_total_bytes (evict_address a c) \<le> sc_total_bytes c"
  "sc_total_bytes (remove_segment a c) \<le> sc_total_bytes c"
  by (auto simp: evict_address_def remove_segment_def split: option.splits)

lemma evict_to_limit_limits [simp]:
  "sc_max_bytes (evict_to_limit c) = sc_max_bytes c \<and> sc_ttl (evict_to_limit c) = sc_ttl c"
proof (induction c rule: evict_to_limit.induct)
  case (1 c)
  then show ?case by (subst (1 2) evict_to_limit.simps) (auto split: list.splits)
qed

lemma prune_limits [simp]:
  "sc_max_bytes (prune_expired now c) = sc_max_bytes c \<and> sc_ttl (prune_expired now c) = sc_ttl c"
proof -
  have "sc_max_bytes (prune_front n now c) = sc_max_bytes c \<and> sc_ttl (prune_front n now c) = sc_ttl c" for n
    by (induction n now c rule: prune_front.induct) (auto split: list.splits)
  then show ?thesis by (simp add: prune_expired_def)
qed

lemma segment_step_limits:
  "sc_max_bytes (segment_step op c) = sc_max_bytes c \<and> sc_ttl (segment_step op c) = sc_ttl c"
  by (cases op) (auto simp: get_segment_def snapshot_def insert_segment_def Let_def
      split: option.splits if_splits)

lemma evict_to_limit_books: "segment_books c \<Longrightarrow> segment_ok (evict_to_limit c)"
proof (induction c rule: evict_to_limit.induct)
  case (1 c)
  show ?case
  proof (cases "sc_total_bytes c > sc_max_bytes c")
    case True
    show ?thesis
    proof (cases "sc_entries c")
      case Nil
      with 1(2) True show ?thesis by (simp add: segment_books_def)
    next
      case (Cons b entries)
      obtain address entry where b: "b = (address, entry)" by (cases b)
      have "evict_to_limit c = evict_to_limit (evict_address address c)"
        by (simp add: evict_to_limit.simps [of c] True Cons b)
      with 1(1) [OF True Cons b [symmetric]] 1(2) show ?thesis by simp
    qed
  next
    case False
    with 1(2) show ?thesis by (simp add: evict_to_limit.simps [of c] segment_ok_def)
  qed
qed

text \<open>Eviction to the limit drops entries from the front only.\<close>

lemma evict_to_limit_suffix:
  "segment_books c \<Longrightarrow> suffix (sc_entries (evict_to_limit c)) (sc_entries c)"
proof (induction c rule: evict_to_limit.induct)
  case (1 c)
  show ?case
  proof (cases "sc_total_bytes c > sc_max_bytes c \<and> sc_entries c \<noteq> []")
    case True
    then obtain address entry entries where e: "sc_entries c = (address, entry) # entries"
      by (metis list.exhaust surj_pair)
    have "evict_to_limit c = evict_to_limit (evict_address address c)"
      using True by (simp add: evict_to_limit.simps [of c] e)
    moreover have "sc_entries (evict_address address c) = entries"
      using 1(2) e by (simp add: segment_books_def remove_key_front)
    ultimately show ?thesis
      using 1(1) [OF conjunct1 [OF True] e refl] 1(2) e by (simp add: suffix_ConsI)
  next
    case False
    then show ?thesis by (auto simp: evict_to_limit.simps [of c])
  qed
qed

text \<open>The entry just inserted survives, since it fits on its own.\<close>

lemma evict_to_limit_last:
  "segment_books c \<Longrightarrow> sc_entries c = xs @ [(a, e)] \<Longrightarrow> length (cs_data e) \<le> sc_max_bytes c \<Longrightarrow>
     (a, e) \<in> set (sc_entries (evict_to_limit c))"
proof (induction c arbitrary: xs rule: evict_to_limit.induct)
  case (1 c)
  show ?case
  proof (cases "sc_total_bytes c > sc_max_bytes c")
    case True
    with 1(2-4) have "xs \<noteq> []" by (auto simp: segment_books_def)
    then obtain address entry ys where xs: "xs = (address, entry) # ys"
      by (metis list.exhaust surj_pair)
    have "evict_to_limit c = evict_to_limit (evict_address address c)"
      using True by (simp add: evict_to_limit.simps [of c] 1(3) xs)
    moreover have "sc_entries (evict_address address c) = ys @ [(a, e)]"
      using 1(2,3) xs by (simp add: segment_books_def remove_key_front)
    ultimately show ?thesis
      using 1(1) [OF True, of "(address, entry)" "ys @ [(a, e)]" address entry ys] 1(2-4) xs by simp
  next
    case False
    with 1(3) show ?thesis by (simp add: evict_to_limit.simps [of c])
  qed
qed

lemma prune_front_ok:
  "segment_ok c \<Longrightarrow> segment_ok (prune_front n now c)"
proof (induction n now c rule: prune_front.induct)
  case (2 n now c)
  have "segment_ok (evict_address a c)" for a
    using 2(2) evict_total_le(1) [of a c] by (simp add: segment_ok_def)
  with 2 show ?case by (auto split: list.splits)
qed simp

lemma prune_ok: "segment_ok c \<Longrightarrow> segment_ok (prune_expired now c)"
  by (simp add: prune_expired_def prune_front_ok)

lemma get_segment_ok: "segment_ok c \<Longrightarrow> segment_ok (snd (get_segment now address c))"
proof (cases "map_of (sc_entries c) address")
  case None
  then show "segment_ok c \<Longrightarrow> ?thesis" by (simp add: get_segment_def)
next
  case (Some entry)
  assume ok: "segment_ok c"
  let ?c = "c\<lparr>sc_entries := remove_key address (sc_entries c) @ [(address, entry)]\<rparr>"
  have "segment_bytes (remove_key address (sc_entries c)) + length (cs_data entry) = segment_bytes (sc_entries c)"
    using sum_remove_key [of "sc_entries c" address entry "\<lambda>e. length (cs_data e)"] ok Some
    by (simp add: segment_bytes_def segment_ok_def segment_books_def)
  with ok have c: "segment_ok ?c"
    by (auto simp: segment_ok_def segment_books_def distinct_remove_key keys_remove_key)
  then have "segment_ok (evict_address address ?c)"
    using evict_total_le(1) [of address ?c] by (simp add: segment_ok_def del: evict_entries)
  with ok c Some show ?thesis by (simp add: get_segment_def Let_def)
qed

lemma insert_segment_ok: "segment_ok c \<Longrightarrow> segment_ok (insert_segment now address data c)"
proof -
  assume ok: "segment_ok c"
  let ?c = "remove_segment address (prune_expired now c)"
  have "segment_books ?c" using prune_ok [OF ok] by (simp add: segment_ok_def)
  then have "segment_books (?c\<lparr>sc_total_bytes := sc_total_bytes ?c + length data,
      sc_entries := sc_entries ?c @ [(address, \<lparr>cs_data = data, cs_expires_at = now + sc_ttl ?c\<rparr>)]\<rparr>)"
    by (auto simp: segment_books_def keys_remove_key)
  from evict_to_limit_books [OF this] prune_ok [OF ok] show ?thesis
    by (simp add: insert_segment_def Let_def)
qed

lemma segment_step_ok: "segment_ok c \<Longrightarrow> segment_ok (segment_step op c)"
  by (cases op) (simp_all add: get_segment_ok insert_segment_ok snapshot_def Let_def prune_ok)

interpretation segments: guarded_system segment_step segment_ok
  by unfold_locales (rule segment_step_ok)


section \<open>Metadata caches\<close>

record 'v cached_value =
  cv_value :: 'v
  cv_expires_at :: nat
  cv_size_bytes :: nat

definition metadata_max_bytes :: nat where "metadata_max_bytes = 16 * 1024 * 1024"

definition metadata_bytes :: "(string \<times> 'v cached_value) list \<Rightarrow> nat" where
  "metadata_bytes cache = sum_list (map (cv_size_bytes \<circ> snd) cache)"

text \<open>\<open>min_by_key\<close> returns the first of several minimal bindings.\<close>

fun oldest_key :: "(string \<times> 'v cached_value) list \<Rightarrow> string option" where
  "oldest_key [] = None"
| "oldest_key [(key, _)] = Some key"
| "oldest_key ((key, e) # (key', e') # cache) =
     (if cv_expires_at e' < cv_expires_at e then oldest_key ((key', e') # cache)
      else oldest_key ((key, e) # cache))"

lemma oldest_key_in: "oldest_key cache = Some key \<Longrightarrow> key \<in> fst ` set cache"
  by (induction cache rule: oldest_key.induct) (auto split: if_splits)

lemma oldest_key_Some: "cache \<noteq> [] \<Longrightarrow> oldest_key cache \<noteq> None"
  by (induction cache rule: oldest_key.induct) auto

function make_room :: "nat \<Rightarrow> (string \<times> 'v cached_value) list \<Rightarrow> (string \<times> 'v cached_value) list" where
  "make_room extra cache =
     (if length cache \<ge> 128 \<or> metadata_bytes cache + extra > metadata_max_bytes then
        (case oldest_key cache of
           None \<Rightarrow> cache
         | Some oldest \<Rightarrow> make_room extra (remove_key oldest cache))
      else cache)"
  by pat_completeness auto

termination
proof (relation "measure (\<lambda>(_, cache). length cache)")
  fix extra oldest and cache :: "(string \<times> 'v cached_value) list"
  assume "oldest_key cache = Some oldest"
  then obtain e where "map_of cache oldest = Some e"
    by (auto dest!: oldest_key_in) (metis map_of_eq_None_iff not_None_eq image_eqI fst_conv)
  then show "((extra, remove_key oldest cache), (extra, cache)) \<in> measure (\<lambda>(_, cache). length cache)"
    by (simp add: length_remove_key)
qed simp

declare make_room.simps [simp del]

definition insert_metadata ::
  "nat \<Rightarrow> string \<Rightarrow> 'v cached_value \<Rightarrow> (string \<times> 'v cached_value) list \<Rightarrow> (string \<times> 'v cached_value) list"
where
  "insert_metadata now key v cache =
     (if cv_size_bytes v > metadata_max_bytes then cache
      else make_room (cv_size_bytes v)
             (remove_key key (filter (\<lambda>(_, entry). cv_expires_at entry > now) cache)) @ [(key, v)])"

text \<open>The lookup both loaders make before they fetch.\<close>

definition get_metadata ::
  "nat \<Rightarrow> string \<Rightarrow> (string \<times> 'v cached_value) list \<Rightarrow> 'v option \<times> (string \<times> 'v cached_value) list"
where
  "get_metadata now key cache =
     (case map_of cache key of
        Some cached \<Rightarrow>
          if cv_expires_at cached > now then (Some (cv_value cached), cache)
          else (None, remove_key key cache)
      | None \<Rightarrow> (None, cache))"

definition metadata_ok :: "(string \<times> 'v cached_value) list \<Rightarrow> bool" where
  "metadata_ok cache \<longleftrightarrow> distinct (map fst cache) \<and> length cache \<le> 128 \<and>
     metadata_bytes cache \<le> metadata_max_bytes"

lemma metadata_bytes_filter: "metadata_bytes (filter P cache) \<le> metadata_bytes cache"
  by (induction cache) (simp_all add: metadata_bytes_def)

lemma metadata_ok_filter: "metadata_ok cache \<Longrightarrow> metadata_ok (filter P cache)"
  using metadata_bytes_filter [of P cache]
  by (auto simp: metadata_ok_def distinct_map_filter intro: order_trans [OF length_filter_le])

lemma metadata_ok_remove: "metadata_ok cache \<Longrightarrow> metadata_ok (remove_key key cache)"
  unfolding remove_key_def by (rule metadata_ok_filter)

lemma make_room_subset: "set (make_room extra cache) \<subseteq> set cache"
proof (induction extra cache rule: make_room.induct)
  case (1 extra cache)
  then show ?case
    by (subst make_room.simps) (auto simp: remove_key_def split: option.splits)
qed

lemma make_room_ok:
  "metadata_ok cache \<Longrightarrow> extra \<le> metadata_max_bytes \<Longrightarrow>
     metadata_ok (make_room extra cache) \<and> length (make_room extra cache) < 128 \<and>
     metadata_bytes (make_room extra cache) + extra \<le> metadata_max_bytes"
proof (induction extra cache rule: make_room.induct)
  case (1 extra cache)
  show ?case
  proof (cases "length cache \<ge> 128 \<or> metadata_bytes cache + extra > metadata_max_bytes")
    case True
    with 1(3) have "cache \<noteq> []" by (auto simp: metadata_bytes_def)
    then obtain oldest where "oldest_key cache = Some oldest" using oldest_key_Some by blast
    with 1 True show ?thesis by (simp add: make_room.simps [of extra cache] metadata_ok_remove)
  next
    case False
    with 1(2) show ?thesis by (simp add: make_room.simps [of extra cache])
  qed
qed

lemma insert_metadata_ok:
  assumes "metadata_ok cache"
  shows "metadata_ok (insert_metadata now key v cache)"
proof (cases "cv_size_bytes v > metadata_max_bytes")
  case False
  let ?c = "remove_key key (filter (\<lambda>(_, entry). cv_expires_at entry > now) cache)"
  have "metadata_ok ?c" using assms by (intro metadata_ok_remove metadata_ok_filter)
  moreover have "key \<notin> fst ` set (make_room (cv_size_bytes v) ?c)"
    using make_room_subset [of "cv_size_bytes v" ?c] by (auto simp: remove_key_def)
  ultimately show ?thesis
    using make_room_ok [of ?c "cv_size_bytes v"] False
    by (auto simp: insert_metadata_def metadata_ok_def metadata_bytes_def)
qed (simp add: insert_metadata_def assms)

lemma get_metadata_ok: "metadata_ok cache \<Longrightarrow> metadata_ok (snd (get_metadata now key cache))"
  by (auto simp: get_metadata_def metadata_ok_remove split: option.splits)

datatype 'v metadata_op = GetMetadata nat string | InsertMetadata nat string "'v cached_value"

fun metadata_step ::
  "'v metadata_op \<Rightarrow> (string \<times> 'v cached_value) list \<Rightarrow> (string \<times> 'v cached_value) list" where
  "metadata_step (GetMetadata now key) cache = snd (get_metadata now key cache)"
| "metadata_step (InsertMetadata now key v) cache = insert_metadata now key v cache"

lemma metadata_step_ok: "metadata_ok cache \<Longrightarrow> metadata_ok (metadata_step op cache)"
  by (cases op) (simp_all add: get_metadata_ok insert_metadata_ok)

interpretation metadata: guarded_system metadata_step metadata_ok
  by unfold_locales (rule metadata_step_ok)

section \<open>Read-through caches\<close>

text \<open>
  What a loader relies on: a value it finds is one the cache holds for the key, and looking up or
  storing adds nothing but the stored binding. A fact about every binding then survives.
\<close>

locale read_cache =
  fixes holds :: "'s \<Rightarrow> 'k \<Rightarrow> 'v \<Rightarrow> bool"
    and lookup :: "nat \<Rightarrow> 'k \<Rightarrow> 's \<Rightarrow> 'v option \<times> 's"
    and store :: "nat \<Rightarrow> 'k \<Rightarrow> 'v \<Rightarrow> 's \<Rightarrow> 's"
  assumes found: "lookup now k s = (Some v, s') \<Longrightarrow> holds s k v"
    and lookup_keeps: "holds (snd (lookup now k s)) k' v \<Longrightarrow> holds s k' v"
    and store_keeps: "holds (store now k v s) k' v' \<Longrightarrow> k' = k \<and> v' = v \<or> holds s k' v'"
begin

lemma lookup_sound:
  assumes "\<forall>k v. holds s k v \<longrightarrow> P k v"
  shows "lookup now k s = (Some v, s') \<Longrightarrow> P k v"
    and "\<forall>k' v. holds (snd (lookup now k s)) k' v \<longrightarrow> P k' v"
  using assms found lookup_keeps by blast+

lemma store_sound:
  "\<forall>k v. holds s k v \<longrightarrow> P k v \<Longrightarrow> P k v \<Longrightarrow> \<forall>k' v'. holds (store now k v s) k' v' \<longrightarrow> P k' v'"
  using store_keeps by blast

end

definition segment_holds :: "segment_cache \<Rightarrow> string \<Rightarrow> byte list \<Rightarrow> bool" where
  "segment_holds c address data \<longleftrightarrow> (\<exists>e. (address, e) \<in> set (sc_entries c) \<and> cs_data e = data)"

lemma evict_to_limit_subset: "set (sc_entries (evict_to_limit c)) \<subseteq> set (sc_entries c)"
proof (induction c rule: evict_to_limit.induct)
  case (1 c)
  then show ?case
    by (subst evict_to_limit.simps) (auto simp: remove_key_def subset_iff split: list.splits)
qed

lemma prune_front_subset: "set (sc_entries (prune_front n now c)) \<subseteq> set (sc_entries c)"
  by (induction n now c rule: prune_front.induct)
    (auto simp: remove_key_def subset_iff split: list.splits)

lemma insert_segment_entries:
  "set (sc_entries (insert_segment now address data c)) \<subseteq>
     insert (address, \<lparr>cs_data = data, cs_expires_at = now + sc_ttl (remove_segment address
       (prune_expired now c))\<rparr>) (set (sc_entries c))"
  using prune_front_subset [of 64 now c]
  by (auto simp: insert_segment_def Let_def prune_expired_def remove_key_def
      dest!: subsetD [OF evict_to_limit_subset])

interpretation segment_reads: read_cache segment_holds get_segment insert_segment
proof
  fix now k s v and s' :: segment_cache
  assume "get_segment now k s = (Some v, s')"
  then show "segment_holds s k v"
    by (auto simp: get_segment_def segment_holds_def Let_def dest: map_of_SomeD split: if_splits option.splits)
next
  fix now k s k' v
  assume "segment_holds (snd (get_segment now k s)) k' v"
  then show "segment_holds s k' v"
    by (auto simp: get_segment_def segment_holds_def Let_def remove_key_def dest: map_of_SomeD
        split: if_splits option.splits)
next
  fix now k v s k' v'
  assume "segment_holds (insert_segment now k v s) k' v'"
  then show "k' = k \<and> v' = v \<or> segment_holds s k' v'"
    by (auto simp: segment_holds_def dest!: subsetD [OF insert_segment_entries])
qed

definition metadata_holds :: "(string \<times> 'v cached_value) list \<Rightarrow> string \<Rightarrow> 'v \<Rightarrow> bool" where
  "metadata_holds cache key v \<longleftrightarrow> (\<exists>e. (key, e) \<in> set cache \<and> cv_value e = v)"

interpretation metadata_reads: read_cache metadata_holds get_metadata
  "\<lambda>now key v. insert_metadata now key \<lparr>cv_value = v, cv_expires_at = now + ttl, cv_size_bytes = bytes\<rparr>"
  for ttl bytes
proof
  fix now k v and s s' :: "(string \<times> 'v cached_value) list"
  assume "get_metadata now k s = (Some v, s')"
  then show "metadata_holds s k v"
    by (auto simp: get_metadata_def metadata_holds_def dest: map_of_SomeD split: if_splits option.splits)
next
  fix now k k' v and s :: "(string \<times> 'v cached_value) list"
  assume "metadata_holds (snd (get_metadata now k s)) k' v"
  then show "metadata_holds s k' v"
    by (auto simp: get_metadata_def metadata_holds_def remove_key_def split: if_splits option.splits)
next
  fix now k k' v v' and s :: "(string \<times> 'v cached_value) list"
  assume "metadata_holds (insert_metadata now k
    \<lparr>cv_value = v, cv_expires_at = now + ttl, cv_size_bytes = bytes\<rparr> s) k' v'"
  then show "k' = k \<and> v' = v \<or> metadata_holds s k' v'"
    by (auto simp: metadata_holds_def insert_metadata_def remove_key_def
        dest!: subsetD [OF make_room_subset] split: if_splits)
qed

section \<open>Properties\<close>

text \<open>Whatever lookups, insertions and snapshots a segment cache serves, its byte count is the sum
  of the segments it holds and stays within the configured limit, and no address is held twice.\<close>

theorem segment_cache_bounded:
  "sc_total_bytes (run segment_step ops (new_segment_cache max_bytes ttl)) =
     segment_bytes (sc_entries (run segment_step ops (new_segment_cache max_bytes ttl))) \<and>
   sc_total_bytes (run segment_step ops (new_segment_cache max_bytes ttl)) \<le>
     sc_max_bytes (run segment_step ops (new_segment_cache max_bytes ttl)) \<and>
   sc_max_bytes (run segment_step ops (new_segment_cache max_bytes ttl)) = max_bytes \<and>
   distinct (map fst (sc_entries (run segment_step ops (new_segment_cache max_bytes ttl))))"
proof -
  have "segment_ok (new_segment_cache max_bytes ttl)"
    by (simp add: segment_ok_def segment_books_def new_segment_cache_def)
  note ok = segments.run_inv [OF this] and this
  then have "sc_max_bytes (run segment_step ops (new_segment_cache max_bytes ttl)) = max_bytes"
    using segments.run_stable [where P = "\<lambda>c. sc_max_bytes c = max_bytes"] segment_step_limits
    by (simp add: new_segment_cache_def)
  with ok [of ops] show ?thesis by (simp add: segment_ok_def segment_books_def)
qed

lemma segment_run_limits:
  "sc_max_bytes (run segment_step ops c) = sc_max_bytes c \<and> sc_ttl (run segment_step ops c) = sc_ttl c"
  by (induction ops arbitrary: c) (simp_all add: segment_step_limits)

lemma new_segment_cache_ok: "segment_ok (new_segment_cache max_bytes ttl)"
  by (simp add: segment_ok_def segment_books_def new_segment_cache_def)

lemma disabled_iff: "disabled c \<longleftrightarrow> sc_max_bytes c = 0 \<or> sc_ttl c = 0"
  by (simp add: disabled_def)

text \<open>In an enabled cache with any history, a segment that fits is served from the cache until its
  time to live has passed, and making room for it evicts the least recently used segments only.\<close>

theorem insert_then_get:
  assumes "c = run segment_step ops (new_segment_cache max_bytes ttl)"
    and "length data \<le> max_bytes" "0 < max_bytes" "0 < ttl" "now' < now + ttl"
  shows "fst (get_segment now' address (insert_segment now address data c)) = Some data \<and>
    suffix (sc_entries (insert_segment now address data c))
      (remove_key address (sc_entries (prune_expired now c)) @
        [(address, \<lparr>cs_data = data, cs_expires_at = now + ttl\<rparr>)])"
proof -
  have ok: "segment_ok c" unfolding assms(1) by (rule segments.run_inv) (rule new_segment_cache_ok)
  have lim: "sc_max_bytes c = max_bytes" "sc_ttl c = ttl"
    using segment_run_limits by (simp_all add: assms(1) new_segment_cache_def)
  let ?c1 = "remove_segment address (prune_expired now c)"
  let ?c = "?c1\<lparr>sc_total_bytes := sc_total_bytes ?c1 + length data,
      sc_entries := sc_entries ?c1 @ [(address, \<lparr>cs_data = data, cs_expires_at = now + ttl\<rparr>)]\<rparr>"
  have ins: "insert_segment now address data c = evict_to_limit ?c"
    using assms(2-4) lim by (simp add: insert_segment_def Let_def disabled_iff)
  have books: "segment_books ?c"
    using prune_ok [OF ok, of now] evict_books(2) [of "prune_expired now c" address]
    by (auto simp: segment_ok_def segment_books_def keys_remove_key)
  have "(address, \<lparr>cs_data = data, cs_expires_at = now + ttl\<rparr>) \<in> set (sc_entries (evict_to_limit ?c))"
    using assms(2) lim by (intro evict_to_limit_last [OF books]) simp_all
  moreover have "distinct (map fst (sc_entries (evict_to_limit ?c)))"
    using evict_to_limit_books [OF books] by (simp add: segment_ok_def segment_books_def)
  ultimately have "map_of (sc_entries (evict_to_limit ?c)) address =
      Some \<lparr>cs_data = data, cs_expires_at = now + ttl\<rparr>" by simp
  moreover have "suffix (sc_entries (evict_to_limit ?c)) (sc_entries ?c)"
    by (rule evict_to_limit_suffix [OF books])
  ultimately show ?thesis
    using lim assms(3-5) unfolding ins
    by (simp add: get_segment_def Let_def disabled_iff)
qed

theorem insert_then_get_witness:
  "fst (get_segment 5 ''b'' (insert_segment 1 ''b'' [7, 8]
     (run segment_step [InsertSegment 0 ''a'' [1, 2, 3]] (new_segment_cache 4 10)))) = Some [7, 8]"
  using insert_then_get [OF refl, of "[7, 8]" 4 10 5 1 "''b''" "[InsertSegment 0 ''a'' [1, 2, 3]]"]
  by simp

text \<open>A metadata cache never holds two bindings of one key, more than 128 bindings or more than
  16 MiB by its own estimate, and a value that fits is found until it expires.\<close>

theorem metadata_cache_bounded:
  assumes "cache = run metadata_step ops []"
  shows "distinct (map fst cache) \<and> length cache \<le> 128 \<and> metadata_bytes cache \<le> 16 * 1024 * 1024 \<and>
    (cv_size_bytes v \<le> 16 * 1024 * 1024 \<longrightarrow> now' < cv_expires_at v \<longrightarrow>
       fst (get_metadata now' key (insert_metadata now key v cache)) = Some (cv_value v))"
proof -
  have "metadata_ok cache"
    unfolding assms by (rule metadata.run_inv) (simp add: metadata_ok_def metadata_bytes_def)
  note ok = this insert_metadata_ok [OF this, of now key v]
  have "map_of (insert_metadata now key v cache) key = Some v" if "cv_size_bytes v \<le> metadata_max_bytes"
  proof (rule map_of_is_SomeI)
    show "distinct (map fst (insert_metadata now key v cache))"
      using ok(2) by (simp only: metadata_ok_def)
    show "(key, v) \<in> set (insert_metadata now key v cache)"
      using that by (simp add: insert_metadata_def)
  qed
  with ok(1) show ?thesis
    by (simp add: metadata_ok_def metadata_max_bytes_def get_metadata_def)
qed

theorem metadata_cache_bounded_witness:
  "fst (get_metadata 3 ''k'' (insert_metadata 1 ''k'' \<lparr>cv_value = True, cv_expires_at = 9, cv_size_bytes = 8\<rparr>
     (run metadata_step [InsertMetadata 0 ''a'' \<lparr>cv_value = False, cv_expires_at = 9, cv_size_bytes = 7\<rparr>] []))) =
   Some True"
  using metadata_cache_bounded [OF refl, where key = "''k''" and now = 1 and now' = 3
      and v = "\<lparr>cv_value = True, cv_expires_at = 9, cv_size_bytes = 8\<rparr>"
      and ops = "[InsertMetadata 0 ''a'' \<lparr>cv_value = False, cv_expires_at = 9, cv_size_bytes = 7\<rparr>]"]
  by simp

end
