(* ===== verification/Rust_Text.thy ===== *)
theory Rust_Text
  imports Prelude
begin

text \<open>
  Strings as Rust has them: byte strings that hold UTF-8, with the operations of \<open>str\<close> the source
  uses (checked and lossy decoding, slicing at character boundaries, trimming of Unicode white space,
  splitting, case folding, parsing of integers).
\<close>

section \<open>UTF-8\<close>

abbreviation byte :: "char \<Rightarrow> nat" where "byte \<equiv> of_char"

definition continuation :: "char \<Rightarrow> bool" where
  "continuation c \<longleftrightarrow> 128 \<le> byte c \<and> byte c \<le> 191"

text \<open>The bytes that may follow a leading byte, and the number of bytes it announces.\<close>

definition utf8_width :: "char \<Rightarrow> nat" where
  "utf8_width c =
     (if byte c \<le> 127 then 1 else if byte c < 194 then 0 else if byte c \<le> 223 then 2
      else if byte c \<le> 239 then 3 else if byte c \<le> 244 then 4 else 0)"

definition second_ok :: "char \<Rightarrow> char \<Rightarrow> bool" where
  "second_ok c d \<longleftrightarrow>
     (if byte c = 224 then 160 \<le> byte d \<and> byte d \<le> 191
      else if byte c = 237 then 128 \<le> byte d \<and> byte d \<le> 159
      else if byte c = 240 then 144 \<le> byte d \<and> byte d \<le> 191
      else if byte c = 244 then 128 \<le> byte d \<and> byte d \<le> 143
      else continuation d)"

text \<open>The bytes after the leading one that belong to its character, at most \<open>n\<close>.\<close>

fun matching :: "nat \<Rightarrow> char \<Rightarrow> string \<Rightarrow> nat" where
  "matching 0 c s = 0"
| "matching n c [] = 0"
| "matching (Suc n) c (d # s) =
     (if second_ok c d then 1 + length (takeWhile continuation (take n s)) else 0)"

text \<open>Whether a character starts the bytes, and how many bytes it or its broken prefix takes.\<close>

definition utf8_step :: "char \<Rightarrow> string \<Rightarrow> bool \<times> nat" where
  "utf8_step c s =
     (let w = utf8_width c
      in if w = 0 then (False, 1) else (let m = matching (w - 1) c s in (m = w - 1, 1 + m)))"

lemma utf8_step_pos [simp]: "0 < snd (utf8_step c s)"
  by (simp add: utf8_step_def Let_def)

text \<open>The characters of a byte string, a broken prefix as \<open>None\<close>.\<close>

function utf8_chars :: "string \<Rightarrow> string option list" where
  "utf8_chars [] = []"
| "utf8_chars (c # s) =
     (let (ok, n) = utf8_step c s
      in (if ok then Some (take n (c # s)) else None) # utf8_chars (drop n (c # s)))"
  by pat_completeness auto
termination
proof (relation "measure length")
  fix c and s :: string and x ok n
  assume "x = utf8_step c s" "(ok, n) = x"
  then have "0 < n" using utf8_step_pos [of c s] by (metis snd_conv)
  then show "(drop n (c # s), c # s) \<in> measure length" by simp
qed simp

declare utf8_chars.simps [simp del]

definition valid_utf8 :: "string \<Rightarrow> bool" where
  "valid_utf8 s \<longleftrightarrow> None \<notin> set (utf8_chars s)"

definition replacement :: string where
  "replacement = [char_of (239 :: nat), char_of (191 :: nat), char_of (189 :: nat)]"

definition from_utf8_lossy :: "string \<Rightarrow> string" where
  "from_utf8_lossy s = concat (map (\<lambda>c. case c of Some t \<Rightarrow> t | None \<Rightarrow> replacement) (utf8_chars s))"

text \<open>The text of \<open>FromUtf8Error\<close>: where decoding stops, and whether bytes are wrong or missing.\<close>

definition valid_up_to :: "string \<Rightarrow> nat" where
  "valid_up_to s = length (concat (map the (takeWhile (\<lambda>c. c \<noteq> None) (utf8_chars s))))"

definition utf8_error_text :: "string \<Rightarrow> string" where
  "utf8_error_text s =
     (let i = valid_up_to s; rest = drop i s; n = snd (utf8_step (hd rest) (tl rest))
      in if utf8_width (hd rest) \<noteq> 0 \<and> n = length rest
         then ''incomplete utf-8 byte sequence from index '' @ show_nat i
         else ''invalid utf-8 sequence of '' @ show_nat n @ '' bytes from index '' @ show_nat i)"

lemma concat_utf8_chars: "valid_utf8 s \<Longrightarrow> concat (map the (utf8_chars s)) = s"
proof (induction s rule: utf8_chars.induct)
  case (2 c s)
  obtain ok n where step: "utf8_step c s = (ok, n)" by fastforce
  with 2(2) have ok: "ok" "valid_utf8 (drop n (c # s))"
    by (simp_all add: valid_utf8_def utf8_chars.simps(2) split: if_splits)
  have "concat (map the (utf8_chars (drop n (c # s)))) = drop n (c # s)"
    using 2(1) [OF _ step [symmetric]] step ok(2) by simp
  then show ?case by (simp only: utf8_chars.simps(2) step Let_def split ok(1) if_True list.map concat.simps option.sel append_take_drop_id)
qed (simp add: utf8_chars.simps)

lemma from_utf8_lossy_id: "valid_utf8 s \<Longrightarrow> from_utf8_lossy s = s"
proof -
  assume valid: "valid_utf8 s"
  then have "map (\<lambda>c. case c of Some t \<Rightarrow> t | None \<Rightarrow> replacement) (utf8_chars s) = map the (utf8_chars s)"
    by (auto simp: valid_utf8_def split: option.split)
  then show "from_utf8_lossy s = s" by (simp only: from_utf8_lossy_def concat_utf8_chars [OF valid])
qed

text \<open>ASCII text decodes to itself.\<close>

definition ascii :: "string \<Rightarrow> bool" where
  "ascii s \<longleftrightarrow> list_all (\<lambda>c. byte c \<le> 127) s"

lemma ascii_simps [simp]: "ascii []" "ascii (c # s) \<longleftrightarrow> byte c \<le> 127 \<and> ascii s"
  "ascii (s @ t) \<longleftrightarrow> ascii s \<and> ascii t"
  by (simp_all add: ascii_def)

lemma ascii_valid: "ascii s \<Longrightarrow> valid_utf8 s"
proof (induction s)
  case (Cons c s)
  then have "utf8_step c s = (True, 1)" by (simp add: utf8_step_def utf8_width_def Let_def)
  with Cons show ?case by (simp add: valid_utf8_def utf8_chars.simps)
qed (simp add: valid_utf8_def utf8_chars.simps)

section \<open>Slices\<close>

text \<open>
  \<open>&s[i..]\<close> panics inside a character; a panic is \<open>None\<close>.
\<close>

definition is_char_boundary :: "string \<Rightarrow> nat \<Rightarrow> bool" where
  "is_char_boundary s i \<longleftrightarrow> i = 0 \<or> i = length s \<or> (i < length s \<and> \<not> continuation (s ! i))"

definition slice_from :: "string \<Rightarrow> nat \<Rightarrow> string option" where
  "slice_from s i = (if is_char_boundary s i then Some (drop i s) else None)"

section \<open>White space\<close>

definition byte_string :: "nat list \<Rightarrow> string" where "byte_string = map char_of"

text \<open>The characters with the property White_Space, encoded.\<close>

definition white_space :: "string list" where
  "white_space =
     [[CHR 0x09], [CHR 0x0A], [CHR 0x0B], [CHR 0x0C], [CHR 0x0D], [CHR 0x20], [CHR 0xC2, CHR 0x85],
      [CHR 0xC2, CHR 0xA0], [CHR 0xE1, CHR 0x9A, CHR 0x80], [CHR 0xE2, CHR 0x80, CHR 0x80],
      [CHR 0xE2, CHR 0x80, CHR 0x81], [CHR 0xE2, CHR 0x80, CHR 0x82],
      [CHR 0xE2, CHR 0x80, CHR 0x83], [CHR 0xE2, CHR 0x80, CHR 0x84],
      [CHR 0xE2, CHR 0x80, CHR 0x85], [CHR 0xE2, CHR 0x80, CHR 0x86],
      [CHR 0xE2, CHR 0x80, CHR 0x87], [CHR 0xE2, CHR 0x80, CHR 0x88],
      [CHR 0xE2, CHR 0x80, CHR 0x89], [CHR 0xE2, CHR 0x80, CHR 0x8A],
      [CHR 0xE2, CHR 0x80, CHR 0xA8], [CHR 0xE2, CHR 0x80, CHR 0xA9],
      [CHR 0xE2, CHR 0x80, CHR 0xAF], [CHR 0xE2, CHR 0x81, CHR 0x9F], [CHR 0xE3, CHR 0x80, CHR 0x80]]"

definition leading_space :: "string \<Rightarrow> string option" where
  "leading_space s = find (\<lambda>w. prefix w s) white_space"

definition trailing_space :: "string \<Rightarrow> string option" where
  "trailing_space s = find (\<lambda>w. suffix w s) white_space"

lemma white_space_nonempty: "w \<in> set white_space \<Longrightarrow> w \<noteq> []"
  by (auto simp: white_space_def)

lemma leading_space_length: "leading_space s = Some w \<Longrightarrow> 0 < length w \<and> length w \<le> length s"
  by (auto simp: leading_space_def find_Some_iff dest: prefix_length_le white_space_nonempty nth_mem)

lemma trailing_space_length: "trailing_space s = Some w \<Longrightarrow> 0 < length w \<and> length w \<le> length s"
  by (auto simp: trailing_space_def find_Some_iff dest: suffix_length_le white_space_nonempty nth_mem)

function trim_start :: "string \<Rightarrow> string" where
  "trim_start s = (case leading_space s of None \<Rightarrow> s | Some w \<Rightarrow> trim_start (drop (length w) s))"
  by pat_completeness auto
termination by (relation "measure length") (simp_all, metis leading_space_length diff_less less_le_trans)

function trim_end :: "string \<Rightarrow> string" where
  "trim_end s = (case trailing_space s of None \<Rightarrow> s | Some w \<Rightarrow> trim_end (take (length s - length w) s))"
  by pat_completeness auto
termination by (relation "measure length") (simp_all, metis trailing_space_length diff_less less_le_trans)

lemma trim_start_code [code]:
  "trim_start s = (if leading_space s = None then s else trim_start (drop (length (the (leading_space s))) s))"
  by (subst trim_start.simps) (simp split: option.split)

lemma trim_end_code [code]:
  "trim_end s =
    (if trailing_space s = None then s else trim_end (take (length s - length (the (trailing_space s))) s))"
  by (subst trim_end.simps) (simp split: option.split)

declare trim_start.simps [simp del] trim_end.simps [simp del]

definition trim :: "string \<Rightarrow> string" where
  "trim s = trim_end (trim_start s)"

text \<open>Text that neither starts nor ends with white space is its own trimming.\<close>

lemma trim_id: "leading_space s = None \<Longrightarrow> trailing_space s = None \<Longrightarrow> trim s = s"
  by (simp add: trim_def trim_start.simps trim_end.simps)

text \<open>Text of visible ASCII characters keeps its ends, and a leading blank goes.\<close>

definition visible :: "string \<Rightarrow> bool" where
  "visible s \<longleftrightarrow> list_all (\<lambda>c. 33 \<le> byte c \<and> byte c < 127) s"

lemma white_space_not_visible: "list_all (\<lambda>w. w \<noteq> [] \<and> \<not> (33 \<le> byte (hd w) \<and> byte (hd w) < 127) \<and> \<not> (33 \<le> byte (last w) \<and> byte (last w) < 127)) white_space"
  by code_simp

lemma visible_no_space:
  assumes "visible s"
  shows "leading_space s = None" "trailing_space s = None"
proof -
  have "\<not> prefix w s \<and> \<not> suffix w s" if "w \<in> set white_space" for w
  proof -
    from white_space_not_visible that
    have w: "w \<noteq> []" "\<not> (33 \<le> byte (hd w) \<and> byte (hd w) < 127)" "\<not> (33 \<le> byte (last w) \<and> byte (last w) < 127)"
      by (simp_all add: list_all_iff)
    then have "hd w \<notin> set s" "last w \<notin> set s" using assms by (auto simp: visible_def list_all_iff)
    moreover have "set w \<subseteq> set s" if "prefix w s \<or> suffix w s"
      using that by (auto dest: set_mono_prefix set_mono_suffix)
    ultimately show ?thesis using w(1) hd_in_set last_in_set by blast
  qed
  then show "leading_space s = None" "trailing_space s = None"
    by (simp_all add: leading_space_def trailing_space_def find_None_iff)
qed

lemma white_space_blank: "list_all (\<lambda>w. hd w = CHR '' '' \<longrightarrow> w = '' '') white_space \<and> '' '' \<in> set white_space"
  by code_simp

lemma trim_space: "trim (CHR '' '' # s) = trim s"
proof -
  let ?s = "CHR '' '' # s"
  have "leading_space ?s = Some '' ''"
  proof (cases "leading_space ?s")
    case None
    with white_space_blank show ?thesis by (auto simp: leading_space_def find_None_iff)
  next
    case (Some w)
    then have w: "w \<in> set white_space" "prefix w ?s" by (auto simp: leading_space_def find_Some_iff)
    with white_space_nonempty have "hd w = CHR '' ''" by (cases w) auto
    with w white_space_blank Some show ?thesis by (simp add: list_all_iff)
  qed
  then show ?thesis by (simp add: trim_def trim_start.simps [of ?s])
qed

section \<open>Evaluating decimal text\<close>

text \<open>Decimal digits of an integer by integer arithmetic, with which numbers of any size are evaluated.\<close>

function int_digits :: "int \<Rightarrow> string" where
  "int_digits i = (if i < 10 then [char_of (48 + i)] else int_digits (i div 10) @ [char_of (48 + i mod 10)])"
  by pat_completeness auto
termination by (relation "measure nat") (auto simp: nat_less_eq_zless)

declare int_digits.simps [simp del]

lemma show_nat_int_digits: "show_nat n = int_digits (int n)"
proof (induction n rule: show_nat.induct)
  case (1 n)
  have char: "digit_char m = char_of (48 + int m)" for m
    using char_of_nat [where ?'a = int, of "48 + m"] by (simp add: digit_char_def)
  show ?case using 1 by (simp add: show_nat.simps [of n] int_digits.simps [of "int n"] char zdiv_int zmod_int)
qed

lemma show_int_code [code]: "show_int i = (if i < 0 then ''-'' @ int_digits (- i) else int_digits i)"
  by (simp add: show_int_def show_nat_int_digits)

section \<open>Splitting and comparing\<close>

definition strip_prefix :: "string \<Rightarrow> string \<Rightarrow> string option" where
  "strip_prefix p s = (if prefix p s then Some (drop (length p) s) else None)"

fun split_on :: "char \<Rightarrow> string \<Rightarrow> string list" where
  "split_on d [] = [[]]"
| "split_on d (c # s) =
     (if c = d then [] # split_on d s
      else (case split_on d s of [] \<Rightarrow> [[c]] | part # parts \<Rightarrow> (c # part) # parts))"

definition split_once :: "char \<Rightarrow> string \<Rightarrow> (string \<times> string) option" where
  "split_once d s = (if d \<in> set s then Some (takeWhile (\<lambda>c. c \<noteq> d) s, tl (dropWhile (\<lambda>c. c \<noteq> d) s)) else None)"

definition contains :: "string \<Rightarrow> string \<Rightarrow> bool" where
  "contains s t \<longleftrightarrow> list_ex (prefix t) (map (\<lambda>i. drop i s) [0..<length s + 1])"

definition ascii_lower :: "char \<Rightarrow> char" where
  "ascii_lower c = (if 65 \<le> byte c \<and> byte c \<le> 90 then char_of (byte c + 32) else c)"

definition to_ascii_lowercase :: "string \<Rightarrow> string" where
  "to_ascii_lowercase = map ascii_lower"

definition is_ascii_alphanumeric :: "char \<Rightarrow> bool" where
  "is_ascii_alphanumeric c \<longleftrightarrow> is_ascii_digit c \<or>
     (65 \<le> (of_char c :: nat) \<and> (of_char c :: nat) \<le> 90) \<or>
     (97 \<le> (of_char c :: nat) \<and> (of_char c :: nat) \<le> 122)"

text \<open>\<open>str::parse\<close> for an unsigned and a signed integer type of the given width.\<close>

definition parse_unsigned :: "nat \<Rightarrow> string \<Rightarrow> nat option" where
  "parse_unsigned bits s =
     (let digits = (case s of c # rest \<Rightarrow> if c = CHR ''+'' then rest else s | [] \<Rightarrow> s)
      in if digits \<noteq> [] \<and> list_all is_ascii_digit digits \<and> digits_value digits < 2 ^ bits
         then Some (digits_value digits) else None)"

definition parse_signed :: "nat \<Rightarrow> string \<Rightarrow> int option" where
  "parse_signed bits s =
     (let negative = (case s of c # _ \<Rightarrow> c = CHR ''-'' | [] \<Rightarrow> False);
          digits = (case s of c # rest \<Rightarrow> if c = CHR ''+'' \<or> c = CHR ''-'' then rest else s | [] \<Rightarrow> s);
          value = (if negative then - int (digits_value digits) else int (digits_value digits))
      in if digits \<noteq> [] \<and> list_all is_ascii_digit digits \<and> - (2 ^ (bits - 1)) \<le> value \<and> value < 2 ^ (bits - 1)
         then Some value else None)"

lemma split_on_join: "split_on d s = parts \<Longrightarrow> parts \<noteq> []"
  by (induction s arbitrary: parts) (auto split: list.splits if_splits)

lemma split_on_free: "d \<notin> set s \<Longrightarrow> split_on d s = [s]"
  by (induction s) auto

lemma split_on_append: "d \<notin> set s \<Longrightarrow> split_on d (s @ d # t) = s # split_on d t"
  by (induction s) auto

lemma split_once_append: "d \<notin> set s \<Longrightarrow> split_once d (s @ d # t) = Some (s, t)"
  by (induction s) (auto simp: split_once_def)

lemma parse_unsigned_show: "n < 2 ^ bits \<Longrightarrow> parse_unsigned bits (show_nat n) = Some n"
proof -
  assume small: "n < 2 ^ bits"
  obtain c s where shown: "show_nat n = c # s" by (cases "show_nat n") auto
  then have "is_ascii_digit c" "list_all is_ascii_digit (c # s)" "digits_value (c # s) = n"
    using show_nat_digits [of n] digits_value_show_nat [of n] by simp_all
  moreover from this have "c \<noteq> CHR ''+''" by (auto simp: is_ascii_digit_def)
  ultimately show ?thesis using small by (simp add: parse_unsigned_def Let_def shown)
qed

end
