(* ===== verification/Stream_Manifest.thy ===== *)
theory Stream_Manifest
  imports "HOL-Library.Multiset" Rust_Text
begin

text \<open>
  Video manifests as the streaming service reads them (\<open>crates/rust_stream/src/models.rs\<close>): the
  structural checks and the sorting of \<open>index_segments\<close>, and the binary search of
  \<open>segment_address\<close>. The code compares durations, takes maxima and rounds them, and does no
  arithmetic that would round.
\<close>

section \<open>Durations\<close>

definition valid_duration :: "f64 \<Rightarrow> bool" where
  "valid_duration x \<longleftrightarrow> is_finite x \<and> f64_less (Fin 0) x \<and> f64_le x (Fin 3600)"

lemma valid_duration_iff: "valid_duration x \<longleftrightarrow> (\<exists>q. x = Fin q \<and> 0 < q \<and> q \<le> 3600)"
  by (cases x) (auto simp: valid_duration_def is_finite_def f64_less_def)

section \<open>Data\<close>

record video_segment =
  vs_segment_index :: int
  vs_autonomi_address :: string
  vs_duration :: f64

record video_variant =
  vv_resolution :: string
  vv_segment_duration :: f64
  vv_segments :: "video_segment list"

record video_manifest =
  vm_id :: string
  vm_status :: string
  vm_variants :: "video_variant list"

record catalog_video =
  cat_video_id :: string
  cat_video_manifest :: string

record catalog =
  cat_videos :: "catalog_video list"

record catalog_state =
  cst_catalog_address :: "string option"
  cst_published_catalog_address :: "string option"
  cst_catalog :: "catalog option"
  cst_published_catalog :: "catalog option"

section \<open>Indexing\<close>

fun check_segments :: "int option \<Rightarrow> video_segment list \<Rightarrow> string + unit" where
  "check_segments previous [] = Inr ()"
| "check_segments previous (segment # segments) =
     (if vs_segment_index segment < 0
         \<or> vs_segment_index segment \<ge> 65536
         \<or> previous = Some (vs_segment_index segment)
         \<or> \<not> valid_duration (vs_duration segment)
         \<or> vs_autonomi_address segment = []
         \<or> length (vs_autonomi_address segment) > 128
         \<or> \<not> list_all (\<lambda>b. is_ascii_alphanumeric b \<or> b = CHR ''-'') (vs_autonomi_address segment)
      then Inl ''invalid manifest segment''
      else check_segments (Some (vs_segment_index segment)) segments)"

definition sort_segments :: "video_variant \<Rightarrow> video_variant" where
  "sort_segments v = v\<lparr>vv_segments := sort_key vs_segment_index (vv_segments v)\<rparr>"

fun index_variants ::
  "nat \<Rightarrow> string list \<Rightarrow> video_variant list \<Rightarrow> string + video_variant list" where
  "index_variants total_segments resolutions [] = Inr []"
| "index_variants total_segments resolutions (variant # variants) =
     (let total_segments = total_segments + length (vv_segments variant) in
      if total_segments > 65536
         \<or> vv_resolution variant \<in> set resolutions
         \<or> vv_resolution variant = []
         \<or> length (vv_resolution variant) > 32
         \<or> \<not> list_all is_ascii_alphanumeric (vv_resolution variant)
         \<or> \<not> valid_duration (vv_segment_duration variant)
      then Inl ''invalid manifest variant''
      else
        (let variant' = sort_segments variant in
         rbind (check_segments None (vv_segments variant')) (\<lambda>_.
         rbind (index_variants total_segments (vv_resolution variant # resolutions) variants) (\<lambda>variants'.
         Inr (variant' # variants')))))"

definition index_segments :: "video_manifest \<Rightarrow> string + video_manifest" where
  "index_segments m =
     (if length (vm_id m) > 128 \<or> length (vm_variants m) > 16
      then Inl ''manifest exceeds structural limits''
      else rbind (index_variants 0 [] (vm_variants m)) (\<lambda>variants.
        Inr (m\<lparr>vm_variants := variants\<rparr>)))"

section \<open>Looking a segment up\<close>

text \<open>The slice search: halve the size, keep the half whose first key is not too large.\<close>

function search_loop :: "int \<Rightarrow> video_segment list \<Rightarrow> nat \<Rightarrow> nat \<Rightarrow> nat" where
  "search_loop key segments base size' =
     (if size' \<le> 1 then base
      else
        (let half = size' div 2; mid = base + half
         in search_loop key segments
              (if vs_segment_index (segments ! mid) > key then base else mid) (size' - half)))"
  by pat_completeness auto
termination by (relation "measure (\<lambda>(_, _, _, size'). size')") auto

declare search_loop.simps [simp del]

definition binary_search :: "int \<Rightarrow> video_segment list \<Rightarrow> nat option" where
  "binary_search key segments =
     (if segments = [] then None
      else
        (let base = search_loop key segments 0 (length segments)
         in if vs_segment_index (segments ! base) = key then Some base else None))"

definition segment_address :: "video_variant \<Rightarrow> int \<Rightarrow> string option" where
  "segment_address v i =
     map_option (\<lambda>k. vs_autonomi_address (vv_segments v ! k)) (binary_search i (vv_segments v))"

section \<open>What indexing establishes\<close>

definition segment_ok :: "video_segment \<Rightarrow> bool" where
  "segment_ok s \<longleftrightarrow> 0 \<le> vs_segment_index s \<and> vs_segment_index s < 65536 \<and>
     valid_duration (vs_duration s) \<and> vs_autonomi_address s \<noteq> [] \<and>
     length (vs_autonomi_address s) \<le> 128 \<and>
     list_all (\<lambda>b. is_ascii_alphanumeric b \<or> b = CHR ''-'') (vs_autonomi_address s)"

definition variant_indexed :: "video_variant \<Rightarrow> bool" where
  "variant_indexed v \<longleftrightarrow> sorted (map vs_segment_index (vv_segments v)) \<and>
     distinct (map vs_segment_index (vv_segments v)) \<and> list_all segment_ok (vv_segments v) \<and>
     valid_duration (vv_segment_duration v) \<and> vv_resolution v \<noteq> [] \<and>
     length (vv_resolution v) \<le> 32 \<and> list_all is_ascii_alphanumeric (vv_resolution v)"

lemma check_segments_ok:
  "check_segments previous segments = Inr () \<Longrightarrow> sorted (map vs_segment_index segments) \<Longrightarrow>
   (case previous of None \<Rightarrow> True | Some p \<Rightarrow> list_all (\<lambda>s. p \<le> vs_segment_index s) segments) \<Longrightarrow>
     distinct (map vs_segment_index segments) \<and> list_all segment_ok segments \<and>
     (case previous of None \<Rightarrow> True | Some p \<Rightarrow> list_all (\<lambda>s. p < vs_segment_index s) segments)"
proof (induction previous segments rule: check_segments.induct)
  case (2 previous segment segments)
  from 2(2) have ok: "segment_ok segment" and new: "previous \<noteq> Some (vs_segment_index segment)"
    and rest: "check_segments (Some (vs_segment_index segment)) segments = Inr ()"
    by (auto simp: segment_ok_def not_le not_less split: if_splits)
  have "\<not> (vs_segment_index segment < 0 \<or> vs_segment_index segment \<ge> 65536
         \<or> previous = Some (vs_segment_index segment) \<or> \<not> valid_duration (vs_duration segment)
         \<or> vs_autonomi_address segment = [] \<or> length (vs_autonomi_address segment) > 128
         \<or> \<not> list_all (\<lambda>b. is_ascii_alphanumeric b \<or> b = CHR ''-'') (vs_autonomi_address segment))"
    using 2(2) by (auto split: if_splits)
  from 2(1) [OF this rest] 2(3) have
    "distinct (map vs_segment_index segments)" "list_all segment_ok segments"
    "list_all (\<lambda>s. vs_segment_index segment < vs_segment_index s) segments"
    by (auto simp: list_all_iff)
  with 2(4) ok new show ?case
    by (cases previous) (auto simp: list_all_iff order_less_le)
qed (simp split: option.splits)

lemma sort_segments_simps [simp]:
  "vv_resolution (sort_segments v) = vv_resolution v"
  "vv_segment_duration (sort_segments v) = vv_segment_duration v"
  "vv_segments (sort_segments v) = sort_key vs_segment_index (vv_segments v)"
  by (simp_all add: sort_segments_def)

lemma index_variants_ok:
  "index_variants total_segments resolutions variants = Inr variants' \<Longrightarrow>
     variants' = map sort_segments variants \<and> list_all variant_indexed variants' \<and>
     distinct (map vv_resolution variants') \<and> set (map vv_resolution variants') \<inter> set resolutions = {} \<and>
     (variants' \<noteq> [] \<longrightarrow> total_segments + sum_list (map (length \<circ> vv_segments) variants') \<le> 65536)"
proof (induction total_segments resolutions variants arbitrary: variants' rule: index_variants.induct)
  case (2 total_segments resolutions variant variants)
  from 2(2) obtain vs where guard: "total_segments + length (vv_segments variant) \<le> 65536"
      "vv_resolution variant \<notin> set resolutions" "vv_resolution variant \<noteq> []"
      "length (vv_resolution variant) \<le> 32" "list_all is_ascii_alphanumeric (vv_resolution variant)"
      "valid_duration (vv_segment_duration variant)"
    and checked: "check_segments None (vv_segments (sort_segments variant)) = Inr ()"
    and rest: "index_variants (total_segments + length (vv_segments variant)) (vv_resolution variant # resolutions)
      variants = Inr vs"
    and v': "variants' = sort_segments variant # vs"
    by (auto simp: Let_def not_le split: if_splits)
  from guard have g: "\<not> (total_segments + length (vv_segments variant) > 65536
         \<or> vv_resolution variant \<in> set resolutions \<or> vv_resolution variant = []
         \<or> length (vv_resolution variant) > 32
         \<or> \<not> list_all is_ascii_alphanumeric (vv_resolution variant)
         \<or> \<not> valid_duration (vv_segment_duration variant))" by auto
  note IH = 2(1) [OF refl g refl rest]
  from check_segments_ok [OF checked] have "variant_indexed (sort_segments variant)"
    using guard by (simp add: variant_indexed_def)
  moreover from IH have vs: "vs = map sort_segments variants" "list_all variant_indexed vs"
    "distinct (map vv_resolution vs)"
    "set (map vv_resolution vs) \<inter> set (vv_resolution variant # resolutions) = {}"
    "vs \<noteq> [] \<longrightarrow> total_segments + length (vv_segments variant) +
       sum_list (map (length \<circ> vv_segments) vs) \<le> 65536"
    by blast+
  moreover from vs(4) have "vv_resolution variant \<notin> vv_resolution ` set vs"
    "vv_resolution ` set vs \<inter> set resolutions = {}" by auto
  moreover have "total_segments + length (vv_segments variant) +
      sum_list (map (length \<circ> vv_segments) vs) \<le> 65536"
    using vs(5) guard(1) by (cases "vs = []") (simp, blast)
  ultimately show ?case
    using guard(2) unfolding v' by (simp add: add.assoc) (simp add: vs(1) comp_def)
qed simp

section \<open>The search finds what a scan finds\<close>

lemma search_loop_bounds:
  "0 < n \<Longrightarrow> base \<le> search_loop key segments base n \<and> search_loop key segments base n < base + n"
proof (induction key segments base n rule: search_loop.induct)
  case (1 key segments base n)
  then show ?case
    by (subst (1 2) search_loop.simps) (force simp: Let_def split: if_splits)
qed

lemma search_loop_hit:
  assumes sorted: "sorted (map vs_segment_index segments)"
    and dist: "distinct (map vs_segment_index segments)"
    and key: "vs_segment_index (segments ! k) = key"
  shows "base \<le> k \<Longrightarrow> k < base + n \<Longrightarrow> base + n \<le> length segments \<Longrightarrow>
    search_loop key segments base n = k"
proof (induction n arbitrary: base rule: less_induct)
  case (less n)
  show ?case
  proof (cases "n \<le> 1")
    case True
    with less(2,3) show ?thesis by (simp add: search_loop.simps)
  next
    case False
    let ?half = "n div 2"
    let ?mid = "base + ?half"
    have in_range: "?mid < length segments" "k < length segments" using less(3,4) False by auto
    have order: "vs_segment_index (segments ! i) < vs_segment_index (segments ! i')"
      if "i < i'" "i' < length segments" for i i'
      using sorted_nth_mono [OF sorted, of i i'] nth_eq_iff_index_eq [OF dist, of i i'] that
      by (force simp: order_less_le)
    show ?thesis
    proof (cases "vs_segment_index (segments ! ?mid) > key")
      case True
      then have "k < ?mid" using order [of ?mid k] key in_range by (cases "k = ?mid") force+
      moreover have "?half \<le> n - ?half" by simp
      ultimately show ?thesis
        using less(1) [of "n - ?half" base] less(2-4) False True
        by (simp add: search_loop.simps [of key segments base n] Let_def)
    next
      case below: False
      then have "?mid \<le> k" using order [of k ?mid] key in_range by force
      then show ?thesis
        using less(1) [of "n - ?half" ?mid] less(2-4) False below
        by (simp add: search_loop.simps [of key segments base n] Let_def)
    qed
  qed
qed

lemma binary_search_iff:
  assumes "sorted (map vs_segment_index segments)" "distinct (map vs_segment_index segments)"
  shows "binary_search key segments = Some k \<longleftrightarrow>
    k < length segments \<and> vs_segment_index (segments ! k) = key"
proof (cases "segments = []")
  case False
  then show ?thesis
    using search_loop_hit [OF assms, of k key 0 "length segments"]
      search_loop_bounds [of "length segments" 0 key segments]
    by (auto simp: binary_search_def Let_def)
qed (simp add: binary_search_def)

lemma segment_address_map_of:
  assumes "variant_indexed v"
  shows "segment_address v = map_of (map (\<lambda>s. (vs_segment_index s, vs_autonomi_address s)) (vv_segments v))"
proof
  fix i
  let ?m = "map (\<lambda>s. (vs_segment_index s, vs_autonomi_address s)) (vv_segments v)"
  have sd: "sorted (map vs_segment_index (vv_segments v))" "distinct (map vs_segment_index (vv_segments v))"
    using assms by (simp_all add: variant_indexed_def)
  have dist: "distinct (map fst ?m)" using sd(2) by (simp add: comp_def)
  note iff = binary_search_iff [OF sd, of i]
  show "segment_address v i = map_of ?m i"
  proof (cases "binary_search i (vv_segments v)")
    case None
    with iff have "i \<notin> fst ` set ?m" by (force simp: in_set_conv_nth)
    then have "map_of ?m i = None" by (simp add: map_of_eq_None_iff)
    with None show ?thesis by (simp add: segment_address_def)
  next
    case (Some k)
    have k: "k < length (vv_segments v)" "vs_segment_index (vv_segments v ! k) = i"
      using iff [of k] Some by simp_all
    then have "(i, vs_autonomi_address (vv_segments v ! k)) \<in> set ?m"
      by (force simp: in_set_conv_nth)
    with dist have "map_of ?m i = Some (vs_autonomi_address (vv_segments v ! k))" by simp
    with Some show ?thesis by (simp add: segment_address_def)
  qed
qed

lemma index_segments_ok:
  assumes "index_segments m = Inr m'"
  shows "m' = m\<lparr>vm_variants := map sort_segments (vm_variants m)\<rparr>"
    "list_all variant_indexed (vm_variants m')" "distinct (map vv_resolution (vm_variants m'))"
    "sum_list (map (length \<circ> vv_segments) (vm_variants m')) \<le> 65536" "length (vm_variants m') \<le> 16"
proof -
  from assms obtain vs where vs: "index_variants 0 [] (vm_variants m) = Inr vs"
    "m' = m\<lparr>vm_variants := vs\<rparr>" "length (vm_variants m) \<le> 16"
    by (auto simp: index_segments_def split: if_splits)
  note ok = index_variants_ok [OF vs(1)]
  from ok vs show "m' = m\<lparr>vm_variants := map sort_segments (vm_variants m)\<rparr>"
    "list_all variant_indexed (vm_variants m')" "distinct (map vv_resolution (vm_variants m'))"
    "length (vm_variants m') \<le> 16"
    by auto
  from ok vs show "sum_list (map (length \<circ> vv_segments) (vm_variants m')) \<le> 65536"
    by (cases "vs = []") auto
qed

lemma map_of_sort_key:
  "distinct (map f xs) \<Longrightarrow> map_of (map (\<lambda>x. (f x, g x)) (sort_key f xs)) = map_of (map (\<lambda>x. (f x, g x)) xs)"
  for f :: "'a \<Rightarrow> 'b :: linorder"
proof -
  assume d: "distinct (map f xs)"
  then have "inj_on f (set xs)" "distinct xs" by (simp_all add: distinct_map)
  then have "distinct (map f (sort_key f xs))" by (simp add: distinct_map)
  have lookup: "map_of (map (\<lambda>x. (f x, g x)) ys) (f x) = Some (g x)"
    if "distinct (map f ys)" "x \<in> set ys" for ys x
    using that by (intro map_of_is_SomeI) (auto simp: comp_def)
  show ?thesis
  proof (rule map_of_eqI)
    show "set (map fst (map (\<lambda>x. (f x, g x)) (sort_key f xs))) = set (map fst (map (\<lambda>x. (f x, g x)) xs))"
      by (simp add: comp_def)
    show "\<forall>k \<in> set (map fst (map (\<lambda>x. (f x, g x)) (sort_key f xs))).
        map_of (map (\<lambda>x. (f x, g x)) (sort_key f xs)) k = map_of (map (\<lambda>x. (f x, g x)) xs) k"
      using lookup [OF d] lookup [OF \<open>distinct (map f (sort_key f xs))\<close>] by auto
  qed
qed

definition demo_manifest :: video_manifest where
  "demo_manifest = \<lparr>vm_id = ''v'', vm_status = ''ready'', vm_variants =
     [\<lparr>vv_resolution = ''720p'', vv_segment_duration = Fin 4, vv_segments =
        [\<lparr>vs_segment_index = 1, vs_autonomi_address = ''bb'', vs_duration = Fin (5 / 2)\<rparr>,
         \<lparr>vs_segment_index = 0, vs_autonomi_address = ''aa'', vs_duration = Fin (13 / 3)\<rparr>]\<rparr>]\<rparr>"

definition demo_indexed :: video_manifest where
  "demo_indexed = \<lparr>vm_id = ''v'', vm_status = ''ready'', vm_variants =
     [\<lparr>vv_resolution = ''720p'', vv_segment_duration = Fin 4, vv_segments =
        [\<lparr>vs_segment_index = 0, vs_autonomi_address = ''aa'', vs_duration = Fin (13 / 3)\<rparr>,
         \<lparr>vs_segment_index = 1, vs_autonomi_address = ''bb'', vs_duration = Fin (5 / 2)\<rparr>]\<rparr>]\<rparr>"

lemma demo_index: "index_segments demo_manifest = Inr demo_indexed"
  by (simp add: index_segments_def demo_manifest_def demo_indexed_def sort_segments_def valid_duration_def
      is_finite_def f64_less_def
      is_ascii_alphanumeric_def is_ascii_digit_def Let_def)

text \<open>C37. Indexing a manifest rejects it or keeps its variants with their segments sorted by index, all
  indices distinct, bounded and with valid durations and addresses, at most 16 variants of distinct
  resolutions and 65536 segments in all.\<close>

theorem index_segments_sound:
  assumes "index_segments m = Inr m'"
  shows "list_all2 (\<lambda>v v'. vv_resolution v' = vv_resolution v \<and> mset (vv_segments v') = mset (vv_segments v) \<and>
      sorted (map vs_segment_index (vv_segments v')) \<and> distinct (map vs_segment_index (vv_segments v')) \<and>
      list_all segment_ok (vv_segments v'))
    (vm_variants m) (vm_variants m') \<and>
   distinct (map vv_resolution (vm_variants m')) \<and> length (vm_variants m') \<le> 16 \<and>
   sum_list (map (length \<circ> vv_segments) (vm_variants m')) \<le> 65536 \<and>
   vm_id m' = vm_id m \<and> vm_status m' = vm_status m"
  using index_segments_ok [OF assms]
  by (auto simp: list_all2_conv_all_nth list_all_length variant_indexed_def)

theorem index_segments_sound_witness:
  "\<exists>m'. index_segments demo_manifest = Inr m' \<and> distinct (map vv_resolution (vm_variants m')) \<and>
     sum_list (map (length \<circ> vv_segments) (vm_variants m')) \<le> 65536"
  using index_segments_sound [OF demo_index] demo_index by blast

text \<open>In an indexed manifest the binary search for a segment finds exactly what a scan of the
  manifest's own segment list finds, and nothing for an index that is not listed.\<close>

theorem segment_address_scan:
  assumes "index_segments m = Inr m'" and "k < length (vm_variants m)"
  shows "segment_address (vm_variants m' ! k) i =
    map_option vs_autonomi_address
      (find (\<lambda>s. vs_segment_index s = i) (vv_segments (vm_variants m ! k)))"
proof -
  note ok = index_segments_ok [OF assms(1)]
  let ?v = "vm_variants m ! k" and ?v' = "vm_variants m' ! k"
  have v': "?v' = sort_segments ?v" using ok(1) assms(2) by simp
  have "variant_indexed ?v'" using ok(1,2) assms(2) by (simp add: list_all_length)
  then have dist: "distinct (map vs_segment_index (vv_segments ?v))"
    unfolding v' by (simp add: variant_indexed_def distinct_map)
  have scan: "map_of (map (\<lambda>s. (vs_segment_index s, vs_autonomi_address s)) xs) i =
      map_option vs_autonomi_address (find (\<lambda>s. vs_segment_index s = i) xs)" for xs
    by (induction xs) auto
  show ?thesis
    using segment_address_map_of [OF \<open>variant_indexed ?v'\<close>] map_of_sort_key [OF dist, of vs_autonomi_address]
    by (simp add: v' scan)
qed


theorem segment_address_scan_witness:
  "segment_address (vm_variants demo_indexed ! 0) 1 = Some ''bb''"
  using segment_address_scan [OF demo_index, of 0 1] by (simp add: demo_manifest_def)

end
