(* ===== verification/Rust_Float.thy ===== *)
theory Rust_Float
  imports Prelude "HOL-Library.Log_Nat"
begin

text \<open>
  Arithmetic on 64-bit floats: the exact result on rationals, rounded to the nearest float with ties
  to even, subnormal numbers and overflow included. The two zeros are one value; a division by zero
  takes the positive one.
\<close>

section \<open>Rounding\<close>

definition round_half_even :: "rat \<Rightarrow> int" where
  "round_half_even q =
     (let f = \<lfloor>q\<rfloor>; d = q - of_int f
      in if d < 1 / 2 then f else if d > 1 / 2 then f + 1 else if even f then f else f + 1)"

text \<open>The exponent of a positive number: \<open>2 powi e \<le> x < 2 powi (e + 1)\<close>.\<close>

definition exponent :: "rat \<Rightarrow> int" where
  "exponent x =
     (let (p, q) = quotient_of x; k = int (floorlog 2 (nat p)) - int (floorlog 2 (nat q))
      in if 2 powi k \<le> x then k else k - 1)"

definition ulp :: "rat \<Rightarrow> rat" where
  "ulp x = 2 powi (max (exponent x) (- 1022) - 52)"

definition nearest :: "rat \<Rightarrow> rat" where
  "nearest x = of_int (round_half_even (x / ulp x)) * ulp x"

definition f64_of :: "rat \<Rightarrow> f64" where
  "f64_of x =
     (if x = 0 then Fin 0
      else let r = nearest \<bar>x\<bar>
           in if 2 ^ 1024 \<le> r then Infinite (0 < x) else Fin (if 0 < x then r else - r))"

section \<open>Operations\<close>

fun f64_neg :: "f64 \<Rightarrow> f64" where
  "f64_neg Nan = Nan"
| "f64_neg (Infinite b) = Infinite (\<not> b)"
| "f64_neg (Fin x) = Fin (- x)"

fun f64_add :: "f64 \<Rightarrow> f64 \<Rightarrow> f64" where
  "f64_add (Fin x) (Fin y) = f64_of (x + y)"
| "f64_add (Infinite a) (Fin y) = Infinite a"
| "f64_add (Fin x) (Infinite b) = Infinite b"
| "f64_add (Infinite a) (Infinite b) = (if a = b then Infinite a else Nan)"
| "f64_add _ _ = Nan"

definition f64_sub :: "f64 \<Rightarrow> f64 \<Rightarrow> f64" where
  "f64_sub x y = f64_add x (f64_neg y)"

fun f64_mul :: "f64 \<Rightarrow> f64 \<Rightarrow> f64" where
  "f64_mul (Fin x) (Fin y) = f64_of (x * y)"
| "f64_mul (Infinite a) (Fin y) = (if y = 0 then Nan else Infinite (a = (0 < y)))"
| "f64_mul (Fin x) (Infinite b) = (if x = 0 then Nan else Infinite (b = (0 < x)))"
| "f64_mul (Infinite a) (Infinite b) = Infinite (a = b)"
| "f64_mul _ _ = Nan"

fun f64_div :: "f64 \<Rightarrow> f64 \<Rightarrow> f64" where
  "f64_div (Fin x) (Fin y) = (if y \<noteq> 0 then f64_of (x / y) else if x = 0 then Nan else Infinite (0 < x))"
| "f64_div (Infinite a) (Fin y) = Infinite (a = (0 \<le> y))"
| "f64_div (Fin x) (Infinite b) = Fin 0"
| "f64_div _ _ = Nan"

fun f64_min :: "f64 \<Rightarrow> f64 \<Rightarrow> f64" where
  "f64_min Nan y = y"
| "f64_min x Nan = x"
| "f64_min x y = (if f64_le x y then x else y)"

fun f64_floor :: "f64 \<Rightarrow> f64" where
  "f64_floor (Fin x) = Fin (of_int \<lfloor>x\<rfloor>)"
| "f64_floor x = x"

fun f64_ceil :: "f64 \<Rightarrow> f64" where
  "f64_ceil (Fin x) = Fin (of_int \<lceil>x\<rceil>)"
| "f64_ceil x = x"

text \<open>\<open>f64::round\<close> rounds halves away from zero.\<close>

definition round_half_away :: "rat \<Rightarrow> int" where
  "round_half_away x = (if 0 \<le> x then \<lfloor>x + 1 / 2\<rfloor> else \<lceil>x - 1 / 2\<rceil>)"

fun f64_round :: "f64 \<Rightarrow> f64" where
  "f64_round (Fin x) = Fin (of_int (round_half_away x))"
| "f64_round x = x"

text \<open>\<open>as\<close> casts truncate towards zero and saturate; a NaN becomes zero.\<close>

fun cast_between :: "int \<Rightarrow> int \<Rightarrow> f64 \<Rightarrow> int" where
  "cast_between lo hi Nan = 0"
| "cast_between lo hi (Infinite b) = (if b then hi else lo)"
| "cast_between lo hi (Fin x) = max lo (min hi (if 0 \<le> x then \<lfloor>x\<rfloor> else \<lceil>x\<rceil>))"

abbreviation as_i32 :: "f64 \<Rightarrow> int" where "as_i32 \<equiv> cast_between (- (2 ^ 31)) (2 ^ 31 - 1)"
abbreviation as_i64 :: "f64 \<Rightarrow> int" where "as_i64 \<equiv> cast_between (- (2 ^ 63)) (2 ^ 63 - 1)"
abbreviation as_u64 :: "f64 \<Rightarrow> int" where "as_u64 \<equiv> cast_between 0 (2 ^ 64 - 1)"

text \<open>The conversion of an integer rounds.\<close>

definition f64_of_int :: "int \<Rightarrow> f64" where
  "f64_of_int i = f64_of (of_int i)"

section \<open>What rounding keeps\<close>

lemma round_half_even_of_int [simp]: "round_half_even (of_int i) = i"
  by (simp add: round_half_even_def)

lemma round_half_even_bounds: "of_int (round_half_even q) \<le> q + 1 / 2" "q - 1 / 2 \<le> of_int (round_half_even q)"
  by (simp_all add: round_half_even_def Let_def) linarith+

lemma round_half_even_mono:
  assumes "x \<le> y"
  shows "round_half_even x \<le> round_half_even y"
proof (cases "\<lfloor>x\<rfloor> = \<lfloor>y\<rfloor>")
  case True
  with assms show ?thesis by (auto simp: round_half_even_def Let_def)
next
  case False
  then have "\<lfloor>x\<rfloor> + 1 \<le> \<lfloor>y\<rfloor>" using floor_mono [OF assms] by linarith
  then show ?thesis by (auto simp: round_half_even_def Let_def)
qed

lemma floorlog_powi: "0 < n \<Longrightarrow> (2 :: rat) powi (int (floorlog 2 n) - 1) \<le> of_nat n \<and> of_nat n < (2 :: rat) powi int (floorlog 2 n)"
proof -
  assume n: "0 < n"
  then have "2 ^ (floorlog 2 n - 1) \<le> n" "n < 2 ^ floorlog 2 n" using floorlog_bounds [of n 2] by simp_all
  moreover from this n have "0 < floorlog 2 n" by (cases "floorlog 2 n") simp_all
  moreover from calculation have "(2 :: rat) ^ (floorlog 2 n - 1) \<le> of_nat n" "of_nat n < (2 :: rat) ^ floorlog 2 n"
    by (metis of_nat_le_iff of_nat_numeral of_nat_power, metis of_nat_less_iff of_nat_numeral of_nat_power)
  ultimately show ?thesis by (simp add: power_int_def nat_diff_distrib)
qed

lemma exponent_bounds:
  assumes "0 < x"
  shows "2 powi exponent x \<le> x" "x < 2 powi (exponent x + 1)"
proof -
  obtain p q where pq: "quotient_of x = (p, q)" by fastforce
  then have q: "0 < q" and x: "x = of_int p / of_int q" by (auto dest: quotient_of_denom_pos quotient_of_div)
  with assms have p: "0 < p" by (simp add: zero_less_divide_iff)
  define a where "a = int (floorlog 2 (nat p))"
  define b where "b = int (floorlog 2 (nat q))"
  have np: "2 powi (a - 1) \<le> (of_int p :: rat)" "(of_int p :: rat) < 2 powi a"
    and nq: "2 powi (b - 1) \<le> (of_int q :: rat)" "(of_int q :: rat) < 2 powi b"
    using floorlog_powi [of "nat p"] floorlog_powi [of "nat q"] p q by (simp_all add: a_def b_def)
  have "x < 2 powi a / 2 powi (b - 1)" unfolding x using np nq p q by (intro frac_less) simp_all
  also have "\<dots> = 2 powi (a - b + 1)" by (simp add: power_int_diff [symmetric] algebra_simps)
  finally have upper: "x < 2 powi (a - b + 1)" .
  have "2 powi (a - b - 1) = 2 powi (a - 1) / (2 powi b :: rat)" by (simp add: power_int_diff [symmetric] algebra_simps)
  also have "\<dots> \<le> x" unfolding x using np nq p q by (intro frac_le) simp_all
  finally have lower: "2 powi (a - b - 1) \<le> x" .
  show "2 powi exponent x \<le> x" "x < 2 powi (exponent x + 1)"
    using upper lower by (auto simp: exponent_def pq Let_def a_def b_def)
qed

lemma powi_less: "(2 :: rat) powi a < 2 powi b \<longleftrightarrow> a < b"
  by (metis linorder_not_less one_less_numeral_iff power_int_increasing power_int_strict_increasing semiring_norm(76)
      order.strict_implies_order)

lemma exponent_less: "0 < x \<Longrightarrow> x < 2 powi e \<Longrightarrow> exponent x < e"
  using exponent_bounds(1) [of x] powi_less [of "exponent x" e] by linarith

lemma exponent_mono: "0 < x \<Longrightarrow> x \<le> y \<Longrightarrow> exponent x \<le> exponent y"
  using exponent_less [of x "exponent y + 1"] exponent_bounds(2) [of y] by linarith

lemma ulp_pos [simp]: "0 < ulp x"
  by (simp add: ulp_def)

lemma ulp_nonzero [simp]: "ulp x \<noteq> 0"
  using ulp_pos [of x] by linarith

lemma nearest_error: "\<bar>nearest x - x\<bar> \<le> ulp x / 2"
proof -
  have "nearest x - x = (of_int (round_half_even (x / ulp x)) - x / ulp x) * ulp x"
    using ulp_pos [of x] by (simp add: nearest_def left_diff_distrib)
  moreover have "\<bar>of_int (round_half_even (x / ulp x)) - x / ulp x\<bar> \<le> 1 / 2"
    using round_half_even_bounds [of "x / ulp x"] by linarith
  then have "\<bar>of_int (round_half_even (x / ulp x)) - x / ulp x\<bar> * ulp x \<le> 1 / 2 * ulp x"
    by (rule mult_right_mono) (simp add: order_less_imp_le)
  ultimately show ?thesis by (simp only: abs_mult abs_of_pos [OF ulp_pos])
qed

text \<open>Half an ulp is at most \<open>2 powi - 53\<close> of a normal number.\<close>

lemma exponent_ge: "0 < x \<Longrightarrow> 2 powi e \<le> x \<Longrightarrow> e \<le> exponent x"
  using exponent_bounds(2) [of x] powi_less [of e "exponent x + 1"] by linarith

lemma ulp_relative:
  assumes "0 < x" "2 powi (- 1022) \<le> x"
  shows "ulp x \<le> x * 2 powi (- 52)"
proof -
  have "- 1022 \<le> exponent x" using assms by (rule exponent_ge)
  then have "ulp x = 2 powi (exponent x + - 52)" by (simp only: ulp_def max_absorb1 diff_conv_add_uminus)
  also have "\<dots> = 2 powi exponent x * 2 powi (- 52)" by (rule power_int_add) simp
  also have "\<dots> \<le> x * 2 powi (- 52)" using exponent_bounds(1) [OF assms(1)] by (rule mult_right_mono) simp
  finally show ?thesis .
qed

lemma nearest_exact:
  assumes "x = of_int m * 2 powi k" "0 < m" "m < 2 ^ 53" "- 1074 \<le> k"
  shows "nearest x = x"
proof -
  have pos: "0 < x" using assms by simp
  have "x < 2 ^ 53 * 2 powi k" unfolding assms(1) using assms(3)
    by (intro mult_strict_right_mono) (metis of_int_less_iff of_int_numeral of_int_power, simp)
  also have "(2 :: rat) ^ 53 * 2 powi k = 2 powi (53 + k)" by (simp add: power_int_add)
  finally have "exponent x < 53 + k" by (rule exponent_less [OF pos])
  define u where "u = max (exponent x) (- 1022) - 52"
  have "u \<le> k" using \<open>exponent x < 53 + k\<close> assms(4) by (simp add: u_def)
  have ulp: "ulp x = 2 powi u" by (simp only: ulp_def u_def)
  have "(2 :: rat) powi k = 2 powi u * 2 powi (k - u)" by (subst power_int_add [symmetric]) simp_all
  also have "(2 :: rat) powi (k - u) = 2 ^ nat (k - u)" using \<open>u \<le> k\<close> by (simp add: power_int_def)
  finally have "x / ulp x = of_int (m * 2 ^ nat (k - u))"
    unfolding ulp using assms(1) by (simp add: power_int_not_zero)
  then have "of_int (round_half_even (x / ulp x)) = x / ulp x" by (simp only: round_half_even_of_int)
  then show ?thesis using ulp_pos [of x] by (simp add: nearest_def)
qed

lemma powi_scale: "(2 :: rat) ^ 52 * 2 powi (e - 52) = 2 powi e" "(2 :: rat) ^ 53 * 2 powi (e - 52) = 2 powi (e + 1)"
  using power_int_add [of "2 :: rat" 52 "e - 52"] power_int_add [of "2 :: rat" 53 "e - 52"] by (simp_all add: add.commute)

lemma nearest_mono:
  assumes "0 < x" "x \<le> y"
  shows "nearest x \<le> nearest y"
proof (cases "ulp x = ulp y")
  case True
  have "x / ulp y \<le> y / ulp y" using assms(2) by (rule divide_right_mono) (simp add: order_less_imp_le)
  then show ?thesis unfolding nearest_def True
    by (intro mult_right_mono) (simp_all add: round_half_even_mono order_less_imp_le)
next
  case False
  define ex where "ex = max (exponent x) (- 1022)"
  define ey where "ey = max (exponent y) (- 1022)"
  have "ex \<noteq> ey" using False by (auto simp: ulp_def ex_def ey_def)
  moreover have "ex \<le> ey" using exponent_mono [OF assms] by (simp add: ex_def ey_def max.coboundedI1)
  ultimately have less: "ex < ey" by simp
  then have ey: "exponent y = ey" by (auto simp: ex_def ey_def max_def split: if_splits)
  have "x < 2 powi (ex + 1)" using exponent_bounds(2) [OF assms(1)] power_int_increasing [of "exponent x + 1" "ex + 1" "2 :: rat"]
    by (simp add: ex_def)
  then have "x / ulp x \<le> 2 powi (ex + 1) / ulp x" by (intro divide_right_mono) (simp_all add: order_less_imp_le)
  also have "\<dots> = of_int (2 ^ 53)" by (simp add: ulp_def ex_def [symmetric] flip: power_int_diff)
  finally have "round_half_even (x / ulp x) \<le> 2 ^ 53" by (metis round_half_even_mono round_half_even_of_int)
  then have "nearest x \<le> 2 ^ 53 * ulp x" unfolding nearest_def
    by (intro mult_right_mono) (metis of_int_le_iff of_int_numeral of_int_power, simp add: order_less_imp_le)
  also have "\<dots> = 2 powi (ex + 1)" by (simp only: ulp_def ex_def [symmetric] powi_scale)
  also have "\<dots> \<le> 2 powi ey" using less by (intro power_int_increasing) simp_all
  also have "\<dots> \<le> nearest y"
  proof -
    have "(2 :: rat) powi ey / ulp y = of_int (2 ^ 52)" by (simp add: ulp_def ey_def [symmetric] flip: power_int_diff)
    moreover have "2 powi ey / ulp y \<le> y / ulp y"
      using exponent_bounds(1) [of y] assms ey by (intro divide_right_mono) (simp_all add: order_less_imp_le)
    ultimately have "2 ^ 52 \<le> round_half_even (y / ulp y)" by (metis round_half_even_mono round_half_even_of_int)
    then have "2 ^ 52 * ulp y \<le> nearest y" unfolding nearest_def
      by (intro mult_right_mono) (metis of_int_le_iff of_int_numeral of_int_power, simp add: order_less_imp_le)
    then show ?thesis by (simp only: ulp_def ey_def [symmetric] powi_scale)
  qed
  finally show ?thesis .
qed

text \<open>Integers of at most 53 bits and their halves are floats.\<close>

lemma f64_of_nearest: "0 < x \<Longrightarrow> nearest x < 2 ^ 1024 \<Longrightarrow> f64_of x = Fin (nearest x)"
  by (simp add: f64_of_def Let_def)

lemma f64_of_int_exact:
  assumes "\<bar>i\<bar> < 2 ^ 53"
  shows "f64_of (of_int i) = Fin (of_int i)"
proof (cases "i = 0")
  case False
  have "nearest (of_int \<bar>i\<bar>) = of_int \<bar>i\<bar>" using assms False by (intro nearest_exact [of _ "\<bar>i\<bar>" 0]) simp_all
  moreover have "(of_int \<bar>i\<bar> :: rat) < 2 ^ 1024"
  proof -
    have "\<bar>i\<bar> < 2 ^ 1024" using assms by (rule order_less_trans) simp
    then show ?thesis by (metis of_int_less_iff of_int_numeral of_int_power)
  qed
  ultimately show ?thesis using False by (auto simp: f64_of_def Let_def)
qed (simp add: f64_of_def)

section \<open>Evaluation\<close>

text \<open>The exponent by halving an integer, and the overflow by the exponent.\<close>

function bit_count :: "int \<Rightarrow> int" where
  "bit_count i = (if i \<le> 0 then 0 else 1 + bit_count (i div 2))"
  by pat_completeness auto
termination by (relation "measure nat") auto

declare bit_count.simps [simp del]

lemma bit_count_floorlog: "0 < n \<Longrightarrow> bit_count (int n) = int (floorlog 2 n)"
proof (induction n rule: less_induct)
  case (less n)
  show ?case
  proof (cases "n = 1")
    case True
    then show ?thesis by (simp add: bit_count.simps [of 1] bit_count.simps [of 0] compute_floorlog)
  next
    case False
    with less.prems have "0 < n div 2" "n div 2 < n" by (simp_all add: div_greater_zero_iff)
    then have "bit_count (int (n div 2)) = int (floorlog 2 (n div 2))" by (intro less.IH)
    then show ?thesis using less.prems \<open>0 < n div 2\<close>
      by (simp add: bit_count.simps [of "int n"] compute_floorlog [of 2 n] zdiv_int)
  qed
qed

lemma exponent_code [code]:
  "exponent x =
    (let (p, q) = quotient_of x; k = bit_count p - bit_count q in if 2 powi k \<le> x then k else k - 1)"
proof -
  obtain p q where pq: "quotient_of x = (p, q)" by (cases "quotient_of x")
  have "bit_count p = int (floorlog 2 (nat p))"
    using bit_count_floorlog [of "nat p"] by (cases "0 < p") (simp_all add: bit_count.simps [of p] floorlog_def)
  moreover have "bit_count q = int (floorlog 2 (nat q))"
    using bit_count_floorlog [of "nat q"] quotient_of_denom_pos [OF pq] by simp
  ultimately show ?thesis by (simp add: exponent_def pq)
qed

lemma huge_exponent: "0 < r \<Longrightarrow> 2 ^ 1024 \<le> r \<longleftrightarrow> 1024 \<le> exponent r"
  using exponent_ge [of r 1024] exponent_less [of r 1024] by fastforce

lemma f64_of_code [code]:
  "f64_of x =
    (if x = 0 then Fin 0
     else let r = nearest \<bar>x\<bar>
          in if 0 < r \<and> 1024 \<le> exponent r then Infinite (0 < x) else Fin (if 0 < x then r else - r))"
proof -
  have "2 ^ 1024 \<le> r \<longleftrightarrow> 0 < r \<and> 1024 \<le> exponent r" for r :: rat
    using huge_exponent [of r] by (cases "0 < r") (auto simp: not_less intro: order_trans dest: order.trans)
  then show ?thesis by (simp only: f64_of_def Let_def)
qed

end
