(* ===== verification/Stream_Hls.thy ===== *)
theory Stream_Hls
  imports Stream_Cache Stream_Manifest Rust_Float
begin

text \<open>
  The HLS side of the streaming service (\<open>crates/rust_stream/src/hls.rs\<close>, \<open>routes.rs\<close>,
  \<open>config.rs\<close>): headers, playlists, the route's segment index, the local catalog snapshot, and the
  read-through loading of catalogs and manifests. What lies outside is a parameter: the network's
  answer for an address, the JSON decoders and the content of the catalog state file.
\<close>

section \<open>Text\<close>

definition nl :: string where "nl = [CHR 0x0A]"

definition pad3 :: "nat \<Rightarrow> string" where
  "pad3 n = [digit_char (n div 100 mod 10), digit_char (n div 10 mod 10), digit_char (n mod 10)]"

definition fixed3 :: "rat \<Rightarrow> string" where
  "fixed3 q = (let n = nat (round_half_even (q * 1000)) in show_nat (n div 1000) @ ''.'' @ pad3 (n mod 1000))"

text \<open>Rust's \<open>{:.3}\<close>: the exact value, rounded half to even.\<close>

fun format3 :: "f64 \<Rightarrow> string" where
  "format3 Nan = ''NaN''"
| "format3 (Infinite b) = (if b then ''inf'' else ''-inf'')"
| "format3 (Fin q) = (if q < 0 then ''-'' @ fixed3 (- q) else fixed3 q)"

text \<open>\<open>x.ceil() as u64\<close>, a saturating cast.\<close>

fun ceil_u64 :: "f64 \<Rightarrow> nat" where
  "ceil_u64 Nan = 0"
| "ceil_u64 (Infinite b) = (if b then 2 ^ 64 - 1 else 0)"
| "ceil_u64 (Fin q) = min (2 ^ 64 - 1) (nat \<lceil>q\<rceil>)"

section \<open>Configuration and headers\<close>

record cache_config =
  cc_catalog_ttl :: nat
  cc_manifest_ttl :: nat
  cc_segment_ttl :: nat
  cc_segment_max_bytes :: nat

text \<open>Durations are in nanoseconds.\<close>

definition as_secs :: "nat \<Rightarrow> nat" where "as_secs d = d div 1000000000"

definition playlist_max_age_seconds :: "cache_config \<Rightarrow> nat" where
  "playlist_max_age_seconds cfg = as_secs (cc_catalog_ttl cfg)"

definition segment_max_age_seconds :: "cache_config \<Rightarrow> nat" where
  "segment_max_age_seconds cfg = as_secs (cc_segment_ttl cfg)"

definition cache_control_header :: "nat \<Rightarrow> string" where
  "cache_control_header n = (if n = 0 then ''no-store'' else ''public, max-age='' @ show_nat n)"

definition segment_cache_control_header :: "nat \<Rightarrow> string" where
  "segment_cache_control_header n =
     (if n = 0 then ''no-store'' else ''public, max-age='' @ show_nat n @ '', immutable'')"

definition playlist_headers :: "cache_config \<Rightarrow> (string \<times> string) list" where
  "playlist_headers cfg =
     [(''content-type'', ''application/vnd.apple.mpegurl''),
      (''cache-control'', cache_control_header (playlist_max_age_seconds cfg))]"

definition segment_headers :: "cache_config \<Rightarrow> (string \<times> string) list" where
  "segment_headers cfg =
     [(''content-type'', ''video/mp2t''),
      (''cache-control'', segment_cache_control_header (segment_max_age_seconds cfg))]"

section \<open>Playlists\<close>

definition target_duration :: "video_variant \<Rightarrow> nat" where
  "target_duration v =
     ceil_u64 (fold (\<lambda>s d. f64_max d (vs_duration s)) (vv_segments v) (vv_segment_duration v))"

definition playlist_entry :: "(int \<Rightarrow> string) \<Rightarrow> video_segment \<Rightarrow> string" where
  "playlist_entry segment_url s =
     ''#EXTINF:'' @ format3 (vs_duration s) @ '','' @ nl @ segment_url (vs_segment_index s) @ nl"

definition playlist_start :: "video_variant \<Rightarrow> string" where
  "playlist_start v =
     ''#EXTM3U'' @ nl @ ''#EXT-X-VERSION:3'' @ nl @ ''#EXT-X-PLAYLIST-TYPE:VOD'' @ nl @
     ''#EXT-X-INDEPENDENT-SEGMENTS'' @ nl @ ''#EXT-X-TARGETDURATION:'' @ show_nat (target_duration v) @ nl @
     ''#EXT-X-MEDIA-SEQUENCE:0'' @ nl"

definition find_variant :: "video_manifest \<Rightarrow> string \<Rightarrow> video_variant option" where
  "find_variant m resolution = find (\<lambda>v. vv_resolution v = resolution) (vm_variants m)"

definition ok_or_else :: "'a option \<Rightarrow> string \<Rightarrow> string + 'a" where
  "ok_or_else x e = (case x of None \<Rightarrow> Inl e | Some y \<Rightarrow> Inr y)"

definition render_manifest :: "video_manifest \<Rightarrow> string \<Rightarrow> (int \<Rightarrow> string) \<Rightarrow> string + string" where
  "render_manifest m resolution segment_url =
     (if vm_status m \<noteq> ''ready'' then Inl ''video not ready''
      else
        rbind (ok_or_else (find_variant m resolution) ''variant not found'') (\<lambda>v.
        if vv_segments v = [] then Inl ''no segments found''
        else Inr (playlist_start v @ concat (map (playlist_entry segment_url) (vv_segments v)) @
                  ''#EXT-X-ENDLIST'' @ nl)))"

definition video_segment_url :: "string \<Rightarrow> string \<Rightarrow> int \<Rightarrow> string" where
  "video_segment_url video_id resolution i =
     ''/stream/'' @ video_id @ ''/'' @ resolution @ ''/'' @ show_int i @ ''.ts''"

definition manifest_segment_url :: "string \<Rightarrow> string \<Rightarrow> int \<Rightarrow> string" where
  "manifest_segment_url manifest_address resolution i =
     ''/stream/manifest/'' @ manifest_address @ ''/'' @ resolution @ ''/'' @ show_int i @ ''.ts''"

section \<open>The segment index of a request\<close>

text \<open>\<open>trim_end_matches(".ts")\<close> removes every trailing copy of the suffix.\<close>

function strip_ts :: "string \<Rightarrow> string" where
  "strip_ts s = (if suffix ''.ts'' s then strip_ts (take (length s - 3) s) else s)"
  by pat_completeness auto
termination
  by (relation "measure length") (auto dest: suffix_length_le)

declare strip_ts.simps [simp del]

definition parse_digits :: "string \<Rightarrow> nat option" where
  "parse_digits s = (if s \<noteq> [] \<and> list_all is_ascii_digit s then Some (digits_value s) else None)"

definition parse_i32 :: "string \<Rightarrow> int option" where
  "parse_i32 s =
     (case s of
        [] \<Rightarrow> None
      | c # cs \<Rightarrow>
          (let r = (if c = CHR ''-'' then map_option (\<lambda>n. - int n) (parse_digits cs)
                    else if c = CHR ''+'' then map_option int (parse_digits cs)
                    else map_option int (parse_digits s))
           in case r of
                None \<Rightarrow> None
              | Some i \<Rightarrow> if - (2 ^ 31) \<le> i \<and> i < 2 ^ 31 then Some i else None))"

definition segment_index_of :: "string \<Rightarrow> int option" where
  "segment_index_of seg_param = parse_i32 (strip_ts seg_param)"

section \<open>Loading\<close>

text \<open>What the service reads: the network, the decoders and the file. An error is its text.\<close>

record stream_env =
  en_data_get_public :: "string \<Rightarrow> string + byte list"
  en_parse_catalog :: "byte list \<Rightarrow> string + catalog"
  en_parse_manifest :: "byte list \<Rightarrow> string + video_manifest"
  en_parse_state :: "byte list \<Rightarrow> string + catalog_state"
  en_state_file :: "byte list option"
  en_bootstrap_address :: "string option"

record app_cache =
  ac_catalogs :: "(string \<times> catalog cached_value) list"
  ac_manifests :: "(string \<times> video_manifest cached_value) list"
  ac_local_catalog :: "catalog_state cached_value option"
  ac_free_slots :: nat

definition document_limit :: nat where "document_limit = 4 * 1024 * 1024"

definition read_state ::
  "stream_env \<Rightarrow> cache_config \<Rightarrow> nat \<Rightarrow> app_cache \<Rightarrow> catalog_state option \<times> app_cache"
where
  "read_state env cfg now c =
     (case en_state_file env of
        None \<Rightarrow> (None, c)
      | Some file \<Rightarrow>
          (let raw = take (document_limit + 1) file in
           if length raw > document_limit then (None, c)
           else (case en_parse_state env raw of
               Inl _ \<Rightarrow> (None, c)
             | Inr v \<Rightarrow> (Some v, c\<lparr>ac_local_catalog := Some \<lparr>cv_value = v,
                   cv_expires_at = now + cc_catalog_ttl cfg, cv_size_bytes = length raw\<rparr>\<rparr>))))"

definition local_catalog ::
  "stream_env \<Rightarrow> cache_config \<Rightarrow> nat \<Rightarrow> app_cache \<Rightarrow> catalog_state option \<times> app_cache"
where
  "local_catalog env cfg now c =
     (case ac_local_catalog c of
        Some entry \<Rightarrow>
          if cv_expires_at entry > now then (Some (cv_value entry), c) else read_state env cfg now c
      | None \<Rightarrow> read_state env cfg now c)"

definition or_else :: "'a option \<Rightarrow> 'a option \<Rightarrow> 'a option" where
  "or_else x y = (case x of None \<Rightarrow> y | Some _ \<Rightarrow> x)"

definition read_catalog_address ::
  "stream_env \<Rightarrow> cache_config \<Rightarrow> nat \<Rightarrow> app_cache \<Rightarrow> string option \<times> app_cache"
where
  "read_catalog_address env cfg now c =
     (let (state, c') = local_catalog env cfg now c;
          address = Option.bind state (\<lambda>s. or_else (cst_published_catalog_address s) (cst_catalog_address s));
          filtered = (case address of None \<Rightarrow> None | Some v \<Rightarrow> if trim v = [] then None else Some v)
      in (or_else filtered (en_bootstrap_address env), c'))"

text \<open>A loader reads the clock before its lookup (\<open>now\<close>) and again after the fetch (\<open>later\<close>).\<close>

definition load_catalog ::
  "stream_env \<Rightarrow> cache_config \<Rightarrow> nat \<Rightarrow> nat \<Rightarrow> string \<Rightarrow> app_cache \<Rightarrow> (string + catalog) \<times> app_cache"
where
  "load_catalog env cfg now later address c =
     (let (hit, catalogs) = (if cc_catalog_ttl cfg = 0 then (None, ac_catalogs c)
                             else get_metadata now address (ac_catalogs c));
          c' = c\<lparr>ac_catalogs := catalogs\<rparr>
      in case hit of
           Some v \<Rightarrow> (Inr v, c')
         | None \<Rightarrow>
             if ac_free_slots c' = 0 then (Inl ''network fetch capacity exhausted'', c')
             else (case en_data_get_public env address of
                 Inl e \<Rightarrow> (Inl (''Autonomi catalog fetch failed: '' @ e), c')
               | Inr bytes \<Rightarrow>
                   if length bytes > document_limit then (Inl ''catalog exceeds byte limit'', c')
                   else (case en_parse_catalog env bytes of
                       Inl e \<Rightarrow> (Inl (''invalid catalog JSON: '' @ e), c')
                     | Inr v \<Rightarrow>
                         (Inr v,
                          if cc_catalog_ttl cfg = 0 then c'
                          else c'\<lparr>ac_catalogs := insert_metadata later address
                            \<lparr>cv_value = v, cv_expires_at = later + cc_catalog_ttl cfg,
                             cv_size_bytes = min (2 ^ 64 - 1) (length bytes * 4)\<rparr> (ac_catalogs c')\<rparr>))))"

definition load_manifest ::
  "stream_env \<Rightarrow> cache_config \<Rightarrow> nat \<Rightarrow> nat \<Rightarrow> string \<Rightarrow> app_cache \<Rightarrow> (string + video_manifest) \<times> app_cache"
where
  "load_manifest env cfg now later address c =
     (let (hit, manifests) = (if cc_manifest_ttl cfg = 0 then (None, ac_manifests c)
                              else get_metadata now address (ac_manifests c));
          c' = c\<lparr>ac_manifests := manifests\<rparr>
      in case hit of
           Some v \<Rightarrow> (Inr v, c')
         | None \<Rightarrow>
             if ac_free_slots c' = 0 then (Inl ''network fetch capacity exhausted'', c')
             else (case en_data_get_public env address of
                 Inl e \<Rightarrow> (Inl (''Autonomi manifest fetch failed: '' @ e), c')
               | Inr bytes \<Rightarrow>
                   if length bytes > document_limit then (Inl ''manifest exceeds byte limit'', c')
                   else (case en_parse_manifest env bytes of
                       Inl e \<Rightarrow> (Inl (''invalid video manifest JSON: '' @ e), c')
                     | Inr parsed \<Rightarrow>
                         (case index_segments parsed of
                            Inl e \<Rightarrow> (Inl e, c')
                          | Inr v \<Rightarrow>
                              (Inr v,
                               if cc_manifest_ttl cfg = 0 then c'
                               else c'\<lparr>ac_manifests := insert_metadata later address
                                 \<lparr>cv_value = v, cv_expires_at = later + cc_manifest_ttl cfg,
                                  cv_size_bytes = min (2 ^ 64 - 1) (length bytes * 4)\<rparr>
                                 (ac_manifests c')\<rparr>)))))"

definition select_catalog ::
  "stream_env \<Rightarrow> cache_config \<Rightarrow> nat \<Rightarrow> nat \<Rightarrow> app_cache \<Rightarrow> (string + catalog) \<times> app_cache"
where
  "select_catalog env cfg now later c =
     (let (state, c1) = local_catalog env cfg now c;
          snapshot = Option.bind state (\<lambda>s. or_else (cst_published_catalog s) (cst_catalog s))
      in case snapshot of
           Some v \<Rightarrow> (Inr v, c1)
         | None \<Rightarrow>
             (let (address, c2) = read_catalog_address env cfg now c1 in
              case address of
                None \<Rightarrow> (Inl ''catalog address not configured'', c2)
              | Some a \<Rightarrow> load_catalog env cfg now later a c2))"

definition load_video_manifest ::
  "stream_env \<Rightarrow> cache_config \<Rightarrow> nat \<Rightarrow> nat \<Rightarrow> nat \<Rightarrow> string \<Rightarrow> app_cache \<Rightarrow> (string + video_manifest) \<times> app_cache"
where
  "load_video_manifest env cfg now later latest video_id c =
     (let (selected, c1) = select_catalog env cfg now later c in
      case selected of
        Inl e \<Rightarrow> (Inl e, c1)
      | Inr cat \<Rightarrow>
          (case find (\<lambda>v. cat_video_id v = video_id) (cat_videos cat) of
             None \<Rightarrow> (Inl ''video not found in catalog'', c1)
           | Some v \<Rightarrow>
               (let (loaded, c2) = load_manifest env cfg later latest (cat_video_manifest v) c1 in
                case loaded of
                  Inl e \<Rightarrow> (Inl e, c2)
                | Inr m \<Rightarrow>
                    if vm_id m \<noteq> video_id then (Inl ''video manifest ID mismatch'', c2)
                    else (Inr m, c2))))"

definition build_manifest ::
  "stream_env \<Rightarrow> cache_config \<Rightarrow> nat \<Rightarrow> nat \<Rightarrow> nat \<Rightarrow> string \<Rightarrow> string \<Rightarrow> app_cache \<Rightarrow> (string + string) \<times> app_cache"
where
  "build_manifest env cfg now later latest video_id resolution c =
     (let (loaded, c') = load_video_manifest env cfg now later latest video_id c
      in (rbind loaded (\<lambda>m. render_manifest m resolution (video_segment_url video_id resolution)), c'))"

definition build_manifest_from_address ::
  "stream_env \<Rightarrow> cache_config \<Rightarrow> nat \<Rightarrow> nat \<Rightarrow> string \<Rightarrow> string \<Rightarrow> app_cache \<Rightarrow> (string + string) \<times> app_cache"
where
  "build_manifest_from_address env cfg now later address resolution c =
     (let (loaded, c') = load_manifest env cfg now later address c
      in (rbind loaded (\<lambda>m. render_manifest m resolution (manifest_segment_url address resolution)), c'))"

text \<open>The address a segment request resolves to, before its data is fetched.\<close>

definition resolve_segment :: "video_manifest \<Rightarrow> string \<Rightarrow> int \<Rightarrow> string + string" where
  "resolve_segment m resolution i =
     ok_or_else (Option.bind (find_variant m resolution) (\<lambda>v. segment_address v i)) ''segment not found''"

definition segment_request ::
  "stream_env \<Rightarrow> cache_config \<Rightarrow> nat \<Rightarrow> nat \<Rightarrow> nat \<Rightarrow> string \<Rightarrow> string \<Rightarrow> int \<Rightarrow> app_cache \<Rightarrow> (string + string) \<times> app_cache"
where
  "segment_request env cfg now later latest video_id resolution i c =
     (let (loaded, c') = load_video_manifest env cfg now later latest video_id c
      in (rbind loaded (\<lambda>m. resolve_segment m resolution i), c'))"

definition segment_request_from_address ::
  "stream_env \<Rightarrow> cache_config \<Rightarrow> nat \<Rightarrow> nat \<Rightarrow> string \<Rightarrow> string \<Rightarrow> int \<Rightarrow> app_cache \<Rightarrow> (string + string) \<times> app_cache"
where
  "segment_request_from_address env cfg now later address resolution i c =
     (let (loaded, c') = load_manifest env cfg now later address c
      in (rbind loaded (\<lambda>m. resolve_segment m resolution i), c'))"

section \<open>Routes\<close>

text \<open>A response is its status, its headers and its text; the data of a segment is the component
  that follows the address.\<close>

definition hls_manifest ::
  "stream_env \<Rightarrow> cache_config \<Rightarrow> nat \<Rightarrow> nat \<Rightarrow> nat \<Rightarrow> string \<Rightarrow> string \<Rightarrow> app_cache \<Rightarrow>
     (nat \<times> (string \<times> string) list \<times> string) \<times> app_cache"
where
  "hls_manifest env cfg now later latest video_id resolution c =
     (let (built, c') = build_manifest env cfg now later latest video_id resolution c
      in (case built of
            Inr playlist \<Rightarrow> (200, playlist_headers cfg, playlist)
          | Inl e \<Rightarrow> (404, [], e), c'))"

definition hls_manifest_by_address ::
  "stream_env \<Rightarrow> cache_config \<Rightarrow> nat \<Rightarrow> nat \<Rightarrow> string \<Rightarrow> string \<Rightarrow> app_cache \<Rightarrow>
     (nat \<times> (string \<times> string) list \<times> string) \<times> app_cache"
where
  "hls_manifest_by_address env cfg now later address resolution c =
     (let (built, c') = build_manifest_from_address env cfg now later address resolution c
      in (case built of
            Inr playlist \<Rightarrow> (200, playlist_headers cfg, playlist)
          | Inl e \<Rightarrow> (404, [], e), c'))"

text \<open>The answer before any data is fetched: a rejected request, or the address to fetch.\<close>

definition hls_segment ::
  "stream_env \<Rightarrow> cache_config \<Rightarrow> nat \<Rightarrow> nat \<Rightarrow> nat \<Rightarrow> string \<Rightarrow> string \<Rightarrow> string \<Rightarrow> app_cache \<Rightarrow>
     ((nat \<times> string) + string) \<times> app_cache"
where
  "hls_segment env cfg now later latest video_id resolution seg_param c =
     (case segment_index_of seg_param of
        None \<Rightarrow> (Inl (400, ''invalid segment index''), c)
      | Some i \<Rightarrow>
          (let (r, c') = segment_request env cfg now later latest video_id resolution i c
           in (case r of Inl e \<Rightarrow> Inl (404, e) | Inr address \<Rightarrow> Inr address, c')))"

definition hls_segment_by_address ::
  "stream_env \<Rightarrow> cache_config \<Rightarrow> nat \<Rightarrow> nat \<Rightarrow> string \<Rightarrow> string \<Rightarrow> string \<Rightarrow> app_cache \<Rightarrow>
     ((nat \<times> string) + string) \<times> app_cache"
where
  "hls_segment_by_address env cfg now later address resolution seg_param c =
     (case segment_index_of seg_param of
        None \<Rightarrow> (Inl (400, ''invalid segment index''), c)
      | Some i \<Rightarrow>
          (let (r, c') = segment_request_from_address env cfg now later address resolution i c
           in (case r of Inl e \<Rightarrow> Inl (404, e) | Inr a \<Rightarrow> Inr a, c')))"


section \<open>Requests resolve the playlist's own entries\<close>

lemma suffix_ts: "suffix ''.ts'' (s @ [c]) \<Longrightarrow> c = CHR ''s''"
  by (simp add: suffix_def)

lemma strip_ts_digits:
  assumes "s \<noteq> []" "last s \<noteq> CHR ''s''"
  shows "strip_ts (s @ ''.ts'') = s"
proof -
  have "\<not> suffix ''.ts'' s"
    using assms suffix_ts [of "butlast s" "last s"] by auto
  then show ?thesis
    by (subst strip_ts.simps) (simp add: strip_ts.simps [of s] suffix_def)
qed

lemma last_show_int: "show_int i \<noteq> [] \<and> is_ascii_digit (last (show_int i))"
proof -
  have "is_ascii_digit (last (show_nat n))" for n
    using show_nat_digits [of n] by (simp add: list_all_iff)
  then show ?thesis by (simp add: show_int_def)
qed

lemma parse_digits_show_nat: "parse_digits (show_nat n) = Some n"
  by (simp add: parse_digits_def show_nat_digits)

lemma parse_i32_show_int:
  assumes "- (2 ^ 31) \<le> i" "i < 2 ^ 31"
  shows "parse_i32 (show_int i) = Some i"
proof (cases "i < 0")
  case True
  then show ?thesis using assms by (simp add: show_int_def parse_i32_def parse_digits_show_nat)
next
  case False
  obtain c cs where c: "show_nat (nat i) = c # cs" by (cases "show_nat (nat i)") auto
  then have "is_ascii_digit c" using show_nat_digits [of "nat i"] by simp
  then have "c \<noteq> CHR ''-''" "c \<noteq> CHR ''+''" by (auto simp: is_ascii_digit_def)
  moreover have "parse_digits (c # cs) = Some (nat i)" by (metis c parse_digits_show_nat)
  ultimately show ?thesis using assms False by (simp add: show_int_def parse_i32_def c)
qed

lemma segment_index_of_show:
  assumes "- (2 ^ 31) \<le> i" "i < 2 ^ 31"
  shows "segment_index_of (show_int i @ ''.ts'') = Some i"
proof -
  have "last (show_int i) \<noteq> CHR ''s''"
    using last_show_int [of i] by (auto simp: is_ascii_digit_def)
  then show ?thesis
    using last_show_int [of i] by (simp add: segment_index_of_def strip_ts_digits parse_i32_show_int [OF assms])
qed

lemma fold_max_bound:
  "valid_duration d \<Longrightarrow> \<forall>s \<in> set ss. valid_duration (vs_duration s) \<Longrightarrow>
     \<exists>q. fold (\<lambda>s d. f64_max d (vs_duration s)) ss d = Fin q \<and> 0 < q \<and> q \<le> 3600 \<and> f64_le d (Fin q) \<and>
       (\<forall>s \<in> set ss. f64_le (vs_duration s) (Fin q))"
proof (induction ss arbitrary: d)
  case Nil
  then show ?case by (auto simp: valid_duration_iff)
next
  case (Cons s ss)
  then obtain a b where ab: "d = Fin a" "0 < a" "a \<le> 3600" "vs_duration s = Fin b" "0 < b" "b \<le> 3600"
    by (auto simp: valid_duration_iff)
  then have "valid_duration (f64_max d (vs_duration s))" by (auto simp: valid_duration_iff)
  from Cons.IH [OF this] Cons.prems(2) obtain q where
    "fold (\<lambda>s d. f64_max d (vs_duration s)) ss (f64_max d (vs_duration s)) = Fin q" "0 < q" "q \<le> 3600"
    "f64_le (f64_max d (vs_duration s)) (Fin q)" "\<forall>s \<in> set ss. f64_le (vs_duration s) (Fin q)" by auto
  with ab show ?case by (auto split: if_splits)
qed

text \<open>The playlist of an indexed manifest announces a target duration that no segment exceeds, and
  the file name of each of its entries, read back by the segment route, resolves to exactly that
  segment's network address.\<close>

theorem playlist_resolves:
  assumes "index_segments raw = Inr m" and "render_manifest m resolution segment_url = Inr out"
  shows "\<exists>v. find_variant m resolution = Some v \<and> vv_segments v \<noteq> [] \<and>
    out = playlist_start v @ concat (map (playlist_entry segment_url) (vv_segments v)) @ ''#EXT-X-ENDLIST'' @ nl \<and>
    list_all (\<lambda>s. f64_le (vs_duration s) (Fin (of_nat (target_duration v))) \<and>
       segment_index_of (show_int (vs_segment_index s) @ ''.ts'') = Some (vs_segment_index s) \<and>
       resolve_segment m resolution (vs_segment_index s) = Inr (vs_autonomi_address s)) (vv_segments v)"
proof -
  from assms(2) obtain v where v: "find_variant m resolution = Some v" "vv_segments v \<noteq> []"
    "out = playlist_start v @ concat (map (playlist_entry segment_url) (vv_segments v)) @ ''#EXT-X-ENDLIST'' @ nl"
    by (auto simp: render_manifest_def ok_or_else_def split: if_splits option.splits)
  have "v \<in> set (vm_variants m)" using v(1) by (auto simp: find_variant_def find_Some_iff)
  then have indexed: "variant_indexed v" using index_segments_ok(2) [OF assms(1)] by (simp add: list_all_iff)
  have entry: "f64_le (vs_duration s) (Fin (of_nat (target_duration v))) \<and>
       segment_index_of (show_int (vs_segment_index s) @ ''.ts'') = Some (vs_segment_index s) \<and>
       resolve_segment m resolution (vs_segment_index s) = Inr (vs_autonomi_address s)"
    if s: "s \<in> set (vv_segments v)" for s
  proof (intro conjI)
    have ok: "segment_ok s" using indexed s by (simp add: variant_indexed_def list_all_iff)
    then show "segment_index_of (show_int (vs_segment_index s) @ ''.ts'') = Some (vs_segment_index s)"
      by (intro segment_index_of_show) (auto simp: segment_ok_def)
    have "distinct (map vs_segment_index (vv_segments v))" using indexed by (simp add: variant_indexed_def)
    with s have "segment_address v (vs_segment_index s) = Some (vs_autonomi_address s)"
      unfolding segment_address_map_of [OF indexed] by (intro map_of_is_SomeI) (auto simp: comp_def)
    with v(1) show "resolve_segment m resolution (vs_segment_index s) = Inr (vs_autonomi_address s)"
      by (simp add: resolve_segment_def ok_or_else_def)
    have "valid_duration (vv_segment_duration v)"
      "\<forall>s \<in> set (vv_segments v). valid_duration (vs_duration s)"
      using indexed by (auto simp: variant_indexed_def list_all_iff segment_ok_def)
    from fold_max_bound [OF this] obtain q where
      q: "fold (\<lambda>s d. f64_max d (vs_duration s)) (vv_segments v) (vv_segment_duration v) = Fin q"
        "0 < q" "q \<le> 3600" "f64_le (vs_duration s) (Fin q)" using s by blast
    have "\<lceil>q\<rceil> \<le> 3600" using q(3) by (simp add: ceiling_le_iff)
    then have "nat \<lceil>q\<rceil> \<le> 3600" unfolding nat_le_iff by (simp only: of_nat_numeral)
    then have "target_duration v = nat \<lceil>q\<rceil>" by (simp add: target_duration_def q(1))
    moreover have "q \<le> of_nat (nat \<lceil>q\<rceil>)" using q(2) by (simp add: le_of_int_ceiling)
    ultimately show "f64_le (vs_duration s) (Fin (of_nat (target_duration v)))"
      using q(4) by (cases "vs_duration s") auto
  qed
  with v show ?thesis by (auto simp: list_all_iff)
qed

definition demo_url :: "int \<Rightarrow> string" where "demo_url = manifest_segment_url ''m'' ''720p''"

lemma demo_render:
  "\<exists>out. render_manifest demo_indexed ''720p'' demo_url = Inr out"
  by (simp add: render_manifest_def demo_indexed_def find_variant_def ok_or_else_def)

theorem playlist_resolves_witness:
  "\<exists>out v. render_manifest demo_indexed ''720p'' demo_url = Inr out \<and>
     find_variant demo_indexed ''720p'' = Some v \<and>
     list_all (\<lambda>s. resolve_segment demo_indexed ''720p'' (vs_segment_index s) = Inr (vs_autonomi_address s))
       (vv_segments v)"
proof -
  obtain out where out: "render_manifest demo_indexed ''720p'' demo_url = Inr out"
    using demo_render by blast
  from playlist_resolves [OF demo_index out] out show ?thesis by (auto simp: list_all_iff)
qed

section \<open>A cached manifest is the network's manifest\<close>

text \<open>Fetching without any cache.\<close>

definition fetch_manifest :: "stream_env \<Rightarrow> string \<Rightarrow> string + video_manifest" where
  "fetch_manifest env address =
     (case en_data_get_public env address of
        Inl e \<Rightarrow> Inl (''Autonomi manifest fetch failed: '' @ e)
      | Inr bytes \<Rightarrow>
          if length bytes > document_limit then Inl ''manifest exceeds byte limit''
          else (case en_parse_manifest env bytes of
              Inl e \<Rightarrow> Inl (''invalid video manifest JSON: '' @ e)
            | Inr parsed \<Rightarrow> index_segments parsed))"

definition manifests_sound :: "stream_env \<Rightarrow> app_cache \<Rightarrow> bool" where
  "manifests_sound env c \<longleftrightarrow> metadata_ok (ac_manifests c) \<and>
     (\<forall>address m. metadata_holds (ac_manifests c) address m \<longrightarrow> fetch_manifest env address = Inr m)"

lemma load_manifest_miss:
  assumes "(if cc_manifest_ttl cfg = 0 then (None, ac_manifests c)
      else get_metadata now address (ac_manifests c)) = (None, ms)"
    and "ac_free_slots c > 0"
  obtains n where "load_manifest env cfg now later address c =
    (fetch_manifest env address,
     case fetch_manifest env address of
       Inl _ \<Rightarrow> c\<lparr>ac_manifests := ms\<rparr>
     | Inr v \<Rightarrow> if cc_manifest_ttl cfg = 0 then c\<lparr>ac_manifests := ms\<rparr>
         else c\<lparr>ac_manifests := insert_metadata later address \<lparr>cv_value = v,
           cv_expires_at = later + cc_manifest_ttl cfg, cv_size_bytes = n\<rparr> ms\<rparr>)"
proof (cases "en_data_get_public env address")
  case (Inl e)
  with assms show thesis by (intro that) (simp add: load_manifest_def fetch_manifest_def)
next
  case bytes: (Inr bytes)
  show thesis
  proof (cases "length bytes > document_limit")
    case True
    with assms bytes show thesis by (intro that) (simp add: load_manifest_def fetch_manifest_def)
  next
    case False
    show thesis
    proof (cases "en_parse_manifest env bytes")
      case (Inl e)
      with assms bytes False show thesis by (intro that) (simp add: load_manifest_def fetch_manifest_def)
    next
      case (Inr parsed)
      with assms bytes False show thesis
        by (intro that [of "min (2 ^ 64 - 1) (length bytes * 4)"], cases "index_segments parsed")
          (simp_all add: load_manifest_def fetch_manifest_def)
    qed
  qed
qed

lemma load_manifest_sound:
  assumes sound: "manifests_sound env c" and slots: "ac_free_slots c > 0"
  shows "fst (load_manifest env cfg now later address c) = fetch_manifest env address \<and>
    manifests_sound env (snd (load_manifest env cfg now later address c)) \<and>
    ac_free_slots (snd (load_manifest env cfg now later address c)) = ac_free_slots c"
proof -
  define P where "P = (\<lambda>address m. fetch_manifest env address = Inr m)"
  obtain hit ms where looked: "(if cc_manifest_ttl cfg = 0 then (None, ac_manifests c)
    else get_metadata now address (ac_manifests c)) = (hit, ms)" by (metis surj_pair)
  have all: "\<forall>k v. metadata_holds (ac_manifests c) k v \<longrightarrow> P k v"
    using sound by (simp add: manifests_sound_def P_def)
  have ms: "metadata_ok ms \<and> (\<forall>k v. metadata_holds ms k v \<longrightarrow> P k v)"
  proof (cases "cc_manifest_ttl cfg = 0")
    case True
    with looked all sound show ?thesis by (simp add: manifests_sound_def)
  next
    case False
    then have "ms = snd (get_metadata now address (ac_manifests c))" using looked by simp
    with metadata_reads.lookup_sound(2) [OF all, of now address] sound show ?thesis
      by (simp add: manifests_sound_def get_metadata_ok)
  qed
  show ?thesis
  proof (cases hit)
    case (Some v)
    then have "get_metadata now address (ac_manifests c) = (Some v, ms)"
      using looked by (simp split: if_splits)
    with metadata_reads.lookup_sound(1) [OF all] have "P address v" by blast
    moreover have "load_manifest env cfg now later address c = (Inr v, c\<lparr>ac_manifests := ms\<rparr>)"
      unfolding load_manifest_def looked by (simp add: Some)
    ultimately show ?thesis using ms by (simp add: manifests_sound_def P_def)
  next
    case None
    from load_manifest_miss [OF looked [unfolded None] slots, of env later] obtain n where
      load: "load_manifest env cfg now later address c = (fetch_manifest env address,
        case fetch_manifest env address of
          Inl _ \<Rightarrow> c\<lparr>ac_manifests := ms\<rparr>
        | Inr v \<Rightarrow> if cc_manifest_ttl cfg = 0 then c\<lparr>ac_manifests := ms\<rparr>
            else c\<lparr>ac_manifests := insert_metadata later address \<lparr>cv_value = v,
              cv_expires_at = later + cc_manifest_ttl cfg, cv_size_bytes = n\<rparr> ms\<rparr>)" .
    show ?thesis
    proof (cases "fetch_manifest env address")
      case (Inl e)
      with ms show ?thesis unfolding load by (simp add: manifests_sound_def P_def)
    next
      case (Inr v)
      then have "P address v" by (simp add: P_def)
      note stored = metadata_reads.store_sound [OF conjunct2 [OF ms] this]
      show ?thesis
        using ms stored unfolding load by (simp add: Inr manifests_sound_def P_def insert_metadata_ok)
    qed
  qed
qed

definition empty_app_cache :: "nat \<Rightarrow> app_cache" where
  "empty_app_cache slots = \<lparr>ac_catalogs = [], ac_manifests = [], ac_local_catalog = None, ac_free_slots = slots\<rparr>"

definition manifest_step :: "stream_env \<Rightarrow> cache_config \<Rightarrow> nat \<times> nat \<times> string \<Rightarrow> app_cache \<Rightarrow> app_cache" where
  "manifest_step env cfg r c = snd (load_manifest env cfg (fst r) (fst (snd r)) (snd (snd r)) c)"

interpretation manifests: guarded_system "manifest_step env cfg"
  "\<lambda>c. manifests_sound env c \<and> ac_free_slots c > 0" for env cfg
  by unfold_locales (simp add: manifest_step_def load_manifest_sound)

text \<open>C35. However many manifests were loaded before, at whatever instants, loading a manifest through
  the cache gives what the network, the size limit, the decoder and the indexing give for that
  address, as long as a fetch slot is free.\<close>

theorem manifest_cache_transparent:
  assumes "0 < slots"
  shows "fst (load_manifest env cfg now later address
     (run (manifest_step env cfg) requests (empty_app_cache slots))) = fetch_manifest env address"
proof -
  have "manifests_sound env (empty_app_cache slots)"
    by (simp add: manifests_sound_def empty_app_cache_def metadata_ok_def metadata_bytes_def metadata_holds_def)
  then show ?thesis
    using manifests.run_inv [of env "empty_app_cache slots" cfg requests] assms
    by (simp add: empty_app_cache_def load_manifest_sound)
qed

definition demo_env :: stream_env where
  "demo_env = \<lparr>en_data_get_public = (\<lambda>a. if a = ''m'' then Inr [1] else Inl ''not found''),
     en_parse_catalog = (\<lambda>_. Inl ''eof''), en_parse_manifest = (\<lambda>_. Inr demo_manifest),
     en_parse_state = (\<lambda>_. Inl ''eof''), en_state_file = None, en_bootstrap_address = None\<rparr>"

definition demo_config :: cache_config where
  "demo_config = \<lparr>cc_catalog_ttl = 10, cc_manifest_ttl = 300, cc_segment_ttl = 3600, cc_segment_max_bytes = 64\<rparr>"

theorem manifest_cache_transparent_witness:
  "fst (load_manifest demo_env demo_config 5 6 ''m''
     (run (manifest_step demo_env demo_config) [(1, 2, ''m'')] (empty_app_cache 16))) = Inr demo_indexed"
  using manifest_cache_transparent [of 16 demo_env demo_config 5 6 "''m''" "[(1, 2, ''m'')]"]
  by (simp add: fetch_manifest_def demo_env_def document_limit_def demo_index)

lemma local_catalog_keeps:
  "ac_manifests (snd (local_catalog env cfg now c)) = ac_manifests c \<and>
   ac_free_slots (snd (local_catalog env cfg now c)) = ac_free_slots c"
  by (simp add: local_catalog_def read_state_def Let_def split: option.split sum.split)

lemma load_catalog_keeps:
  "ac_manifests (snd (load_catalog env cfg now later address c)) = ac_manifests c \<and>
   ac_free_slots (snd (load_catalog env cfg now later address c)) = ac_free_slots c"
proof -
  obtain hit cs where "(if cc_catalog_ttl cfg = 0 then (None, ac_catalogs c)
    else get_metadata now address (ac_catalogs c)) = (hit, cs)" by (metis surj_pair)
  then show ?thesis
    unfolding load_catalog_def by (simp add: Let_def split: option.split sum.split)
qed

lemma select_catalog_keeps:
  "ac_manifests (snd (select_catalog env cfg now later c)) = ac_manifests c \<and>
   ac_free_slots (snd (select_catalog env cfg now later c)) = ac_free_slots c"
  using local_catalog_keeps load_catalog_keeps
  by (simp add: select_catalog_def read_catalog_address_def Let_def split_beta split: option.split)

text \<open>A manifest served for a video carries that video's identifier, is the network's manifest at
  some address, and has every variant indexed.\<close>

theorem video_manifest_identity:
  assumes "0 < slots"
    and "fst (load_video_manifest env cfg now later latest video_id
      (run (manifest_step env cfg) requests (empty_app_cache slots))) = Inr m"
  shows "vm_id m = video_id \<and> list_all variant_indexed (vm_variants m) \<and>
    (\<exists>address. fetch_manifest env address = Inr m)"
proof -
  let ?c = "run (manifest_step env cfg) requests (empty_app_cache slots)"
  have "manifests_sound env (empty_app_cache slots)"
    by (simp add: manifests_sound_def empty_app_cache_def metadata_ok_def metadata_bytes_def metadata_holds_def)
  then have "manifests_sound env ?c" "ac_free_slots ?c > 0"
    using manifests.run_inv [of env "empty_app_cache slots" cfg requests] assms(1)
    by (simp_all add: empty_app_cache_def)
  then have c1: "manifests_sound env (snd (select_catalog env cfg now later ?c))"
    "ac_free_slots (snd (select_catalog env cfg now later ?c)) > 0"
    using select_catalog_keeps [of env cfg now later ?c] by (simp_all add: manifests_sound_def)
  from assms(2) obtain address where
    load: "fst (load_manifest env cfg later latest address (snd (select_catalog env cfg now later ?c))) = Inr m"
    and m: "vm_id m = video_id"
    by (auto simp: load_video_manifest_def Let_def split_beta split: sum.splits option.splits if_splits)
  have fetched: "fetch_manifest env address = Inr m"
    using load_manifest_sound [OF c1] load by simp
  then obtain raw where "index_segments raw = Inr m"
    by (auto simp: fetch_manifest_def split: sum.splits if_splits)
  from index_segments_ok(2) [OF this] m fetched show ?thesis by auto
qed

definition demo_state_env :: stream_env where
  "demo_state_env = demo_env\<lparr>en_state_file := Some [0], en_parse_state := (\<lambda>_. Inr
     \<lparr>cst_catalog_address = None, cst_published_catalog_address = None, cst_catalog = None,
      cst_published_catalog = Some \<lparr>cat_videos =
        [\<lparr>cat_video_id = ''v'', cat_video_manifest = ''m''\<rparr>]\<rparr>\<rparr>)\<rparr>"

theorem video_manifest_identity_witness:
  "vm_id demo_indexed = ''v'' \<and> (\<exists>address. fetch_manifest demo_state_env address = Inr demo_indexed)"
proof -
  have "fst (load_video_manifest demo_state_env demo_config 1 2 3 ''v''
      (run (manifest_step demo_state_env demo_config) [] (empty_app_cache 16))) = Inr demo_indexed"
    by (simp add: load_video_manifest_def select_catalog_def local_catalog_def read_state_def
        empty_app_cache_def demo_state_env_def demo_env_def demo_config_def document_limit_def or_else_def
        load_manifest_def get_metadata_def demo_index) (simp add: demo_indexed_def)
  from video_manifest_identity [OF _ this] show ?thesis by simp
qed

end
