(* ===== verification/Segment_Fetch.thy ===== *)
theory Segment_Fetch
  imports Stream_Cache
begin

text \<open>
  Fetching segment data with coalescing (\<open>fetch_segment_data\<close> and \<open>fetch_segment_data_uncached\<close> of
  \<open>crates/rust_stream/src/hls.rs\<close>) as a step relation: requests that arrive in any order, the
  detached tasks that own the network fetches, the watch channels between them, and the fetch
  slots. The loads of catalogs and manifests (\<open>load_catalog\<close>, \<open>load_manifest\<close>), which are not
  coalesced, compete for the same slots: a load takes one after it missed its cache and gives it
  back when it returns, fails or is dropped; a load that finds none is refused and changes nothing
  here. What a load does with its document is the subject of \<open>Stream_Hls\<close>. Each step is what happens while one lock is held or between two suspension points. The
  network is a function from addresses to answers.
\<close>

section \<open>States\<close>

type_synonym fetch_result = "string + byte list"

datatype channel = Pending | Sent fetch_result | Closed

datatype phase = Running | Fetched fetch_result | Published

datatype waiter = Checking | Waiting nat | Done fetch_result

text \<open>\<open>fe_opened_for\<close> records the address a channel was opened for; no step reads it. \<open>fe_loads\<close> has the
  catalog and manifest loads that hold a slot, with the address each asks the network for.\<close>

record fetch_state =
  fe_cache :: segment_cache
  fe_free_slots :: nat
  fe_fetches :: "string \<rightharpoonup> nat"
  fe_channels :: "nat \<Rightarrow> channel"
  fe_opened_for :: "nat \<Rightarrow> string"
  fe_next :: nat
  fe_tasks :: "nat \<rightharpoonup> string \<times> phase"
  fe_loads :: "nat \<rightharpoonup> string"
  fe_waiters :: "nat \<rightharpoonup> string \<times> waiter"

definition fetch_init :: "nat \<Rightarrow> nat \<Rightarrow> nat \<Rightarrow> fetch_state" where
  "fetch_init slots max_bytes ttl = \<lparr>fe_cache = new_segment_cache max_bytes ttl,
     fe_free_slots = slots, fe_fetches = Map.empty, fe_channels = (\<lambda>_. Closed),
     fe_opened_for = (\<lambda>_. []), fe_next = 0, fe_tasks = Map.empty, fe_loads = Map.empty,
     fe_waiters = Map.empty\<rparr>"

text \<open>The entry of an address is removed only by whoever still finds its own channel there.\<close>

definition forget :: "string \<Rightarrow> nat \<Rightarrow> (string \<rightharpoonup> nat) \<Rightarrow> (string \<rightharpoonup> nat)" where
  "forget a ch fetches = (if fetches a = Some ch then fetches(a := None) else fetches)"

section \<open>Steps\<close>

inductive fetch_step :: "(string \<Rightarrow> fetch_result) \<Rightarrow> fetch_state \<Rightarrow> fetch_state \<Rightarrow> bool" for net where
  hit: "fetch_step net s (s\<lparr>fe_cache := c, fe_waiters := (fe_waiters s)(w \<mapsto> (a, Done (Inr d)))\<rparr>)"
    if "fe_waiters s w = None" "get_segment now a (fe_cache s) = (Some d, c)"
| miss: "fetch_step net s (s\<lparr>fe_cache := c, fe_waiters := (fe_waiters s)(w \<mapsto> (a, Checking))\<rparr>)"
    if "fe_waiters s w = None" "get_segment now a (fe_cache s) = (None, c)"
| join: "fetch_step net s (s\<lparr>fe_waiters := (fe_waiters s)(w \<mapsto> (a, Waiting ch))\<rparr>)"
    if "fe_waiters s w = Some (a, Checking)" "fe_fetches s a = Some ch"
| full: "fetch_step net s (s\<lparr>fe_waiters := (fe_waiters s)
      (w \<mapsto> (a, Done (Inl ''network fetch capacity exhausted'')))\<rparr>)"
    if "fe_waiters s w = Some (a, Checking)" "fe_fetches s a = None" "fe_free_slots s = 0"
| spawn: "fetch_step net s (s\<lparr>fe_free_slots := n,
      fe_fetches := (fe_fetches s)(a \<mapsto> fe_next s),
      fe_channels := (fe_channels s)(fe_next s := Pending),
      fe_opened_for := (fe_opened_for s)(fe_next s := a),
      fe_tasks := (fe_tasks s)(fe_next s \<mapsto> (a, Running)),
      fe_waiters := (fe_waiters s)(w \<mapsto> (a, Waiting (fe_next s))),
      fe_next := Suc (fe_next s)\<rparr>)"
    if "fe_waiters s w = Some (a, Checking)" "fe_fetches s a = None" "fe_free_slots s = Suc n"
| fetched: "fetch_step net s (s\<lparr>fe_cache := insert_segment now a d (fe_cache s),
      fe_tasks := (fe_tasks s)(ch \<mapsto> (a, Fetched (Inr d)))\<rparr>)"
    if "fe_tasks s ch = Some (a, Running)" "net a = Inr d"
| failed: "fetch_step net s (s\<lparr>fe_tasks := (fe_tasks s)
      (ch \<mapsto> (a, Fetched (Inl (''Autonomi fetch failed: '' @ e))))\<rparr>)"
    if "fe_tasks s ch = Some (a, Running)" "net a = Inl e"
| timed_out: "fetch_step net s (s\<lparr>fe_tasks := (fe_tasks s)
      (ch \<mapsto> (a, Fetched (Inl ''shared segment fetch timed out'')))\<rparr>)"
    if "fe_tasks s ch = Some (a, Running)"
| publish: "fetch_step net s (s\<lparr>fe_channels := (fe_channels s)(ch := Sent r),
      fe_tasks := (fe_tasks s)(ch \<mapsto> (a, Published))\<rparr>)"
    if "fe_tasks s ch = Some (a, Fetched r)"
| cleanup: "fetch_step net s (s\<lparr>fe_fetches := forget a ch (fe_fetches s),
      fe_tasks := (fe_tasks s)(ch := None), fe_free_slots := Suc (fe_free_slots s)\<rparr>)"
    if "fe_tasks s ch = Some (a, Published)"
| panic: "fetch_step net s (s\<lparr>fe_channels := (fe_channels s)(ch := Closed),
      fe_tasks := (fe_tasks s)(ch := None), fe_free_slots := Suc (fe_free_slots s)\<rparr>)"
    if "fe_tasks s ch = Some (a, Running)"
| wake: "fetch_step net s (s\<lparr>fe_waiters := (fe_waiters s)(w \<mapsto> (a, Done r))\<rparr>)"
    if "fe_waiters s w = Some (a, Waiting ch)" "fe_channels s ch = Sent r"
| stopped: "fetch_step net s (s\<lparr>fe_fetches := forget a ch (fe_fetches s),
      fe_waiters := (fe_waiters s)(w \<mapsto> (a, Done (Inl ''shared segment fetch stopped'')))\<rparr>)"
    if "fe_waiters s w = Some (a, Waiting ch)" "fe_channels s ch = Closed"
| leave: "fetch_step net s (s\<lparr>fe_waiters := (fe_waiters s)(w := None)\<rparr>)"
    if "fe_waiters s w = Some x"
| load_begin: "fetch_step net s (s\<lparr>fe_free_slots := n, fe_loads := (fe_loads s)(l \<mapsto> a)\<rparr>)"
    if "fe_loads s l = None" "fe_free_slots s = Suc n"
| load_end: "fetch_step net s (s\<lparr>fe_free_slots := Suc (fe_free_slots s), fe_loads := (fe_loads s)(l := None)\<rparr>)"
    if "fe_loads s l = Some a"

inductive fetch_reachable :: "(string \<Rightarrow> fetch_result) \<Rightarrow> nat \<Rightarrow> nat \<Rightarrow> nat \<Rightarrow> fetch_state \<Rightarrow> bool"
  for net slots max_bytes ttl where
  start: "fetch_reachable net slots max_bytes ttl (fetch_init slots max_bytes ttl)"
| step: "fetch_reachable net slots max_bytes ttl s \<Longrightarrow> fetch_step net s s' \<Longrightarrow>
    fetch_reachable net slots max_bytes ttl s'"

section \<open>The invariant\<close>

fun channel_in_phase :: "phase \<Rightarrow> channel \<Rightarrow> bool" where
  "channel_in_phase Published c = (\<exists>r. c = Sent r)"
| "channel_in_phase Running c = (c = Pending)"
| "channel_in_phase (Fetched _) c = (c = Pending)"

definition slots_ok :: "nat \<Rightarrow> nat \<Rightarrow> (nat \<rightharpoonup> string) \<Rightarrow> (nat \<rightharpoonup> string \<times> phase) \<Rightarrow> bool" where
  "slots_ok slots free loads tasks \<longleftrightarrow> finite (dom tasks) \<and> finite (dom loads) \<and>
     free + card (dom tasks) + card (dom loads) = slots"

definition tasks_ok ::
  "(string \<rightharpoonup> nat) \<Rightarrow> (nat \<Rightarrow> channel) \<Rightarrow> (nat \<Rightarrow> string) \<Rightarrow> nat \<Rightarrow> (nat \<rightharpoonup> string \<times> phase) \<Rightarrow> bool"
where
  "tasks_ok fetches channels opened next_id tasks \<longleftrightarrow>
     (\<forall>ch a p. tasks ch = Some (a, p) \<longrightarrow>
        fetches a = Some ch \<and> ch < next_id \<and> opened ch = a \<and> channel_in_phase p (channels ch)) \<and>
     (\<forall>a ch. fetches a = Some ch \<longrightarrow> ch < next_id \<and> opened ch = a \<and>
        (channels ch = Closed \<or> tasks ch \<noteq> None)) \<and>
     (\<forall>ch. channels ch = Pending \<longrightarrow> tasks ch \<noteq> None)"

definition waiters_ok :: "(nat \<Rightarrow> string) \<Rightarrow> nat \<Rightarrow> (nat \<rightharpoonup> string \<times> waiter) \<Rightarrow> bool" where
  "waiters_ok opened next_id waiters \<longleftrightarrow>
     (\<forall>w a ch. waiters w = Some (a, Waiting ch) \<longrightarrow> ch < next_id \<and> opened ch = a)"

definition flights_ok :: "nat \<Rightarrow> fetch_state \<Rightarrow> bool" where
  "flights_ok slots s \<longleftrightarrow> slots_ok slots (fe_free_slots s) (fe_loads s) (fe_tasks s) \<and>
     tasks_ok (fe_fetches s) (fe_channels s) (fe_opened_for s) (fe_next s) (fe_tasks s) \<and>
     waiters_ok (fe_opened_for s) (fe_next s) (fe_waiters s)"

lemma slots_change:
  "slots_ok slots free loads tasks \<Longrightarrow> tasks ch = Some x \<Longrightarrow> slots_ok slots free loads (tasks(ch \<mapsto> y))"
  by (simp add: slots_ok_def insert_absorb domI)

lemma card_dom_release: "finite (dom m) \<Longrightarrow> m k = Some x \<Longrightarrow> card (dom m) = Suc (card (dom (m(k := None))))"
  using card.remove [of "dom m" k] by (simp add: domI)

lemma slots_release:
  "slots_ok slots free loads tasks \<Longrightarrow> tasks ch = Some x \<Longrightarrow> slots_ok slots (Suc free) loads (tasks(ch := None))"
  using card_dom_release [of tasks ch x] by (simp add: slots_ok_def)

lemma slots_take:
  "slots_ok slots (Suc n) loads tasks \<Longrightarrow> tasks ch = None \<Longrightarrow> slots_ok slots n loads (tasks(ch \<mapsto> x))"
  by (simp add: slots_ok_def domIff)

lemma slots_load:
  "slots_ok slots (Suc n) loads tasks \<Longrightarrow> loads l = None \<Longrightarrow> slots_ok slots n (loads(l \<mapsto> a)) tasks"
  by (simp add: slots_ok_def domIff)

lemma slots_unload:
  "slots_ok slots free loads tasks \<Longrightarrow> loads l = Some a \<Longrightarrow> slots_ok slots (Suc free) (loads(l := None)) tasks"
  using card_dom_release [of loads l a] by (simp add: slots_ok_def)

lemma tasks_okD:
  assumes "tasks_ok fetches channels opened next_id tasks"
  shows "tasks ch = Some (a, p) \<Longrightarrow> fetches a = Some ch"
    "tasks ch = Some (a, p) \<Longrightarrow> ch < next_id" "tasks ch = Some (a, p) \<Longrightarrow> opened ch = a"
    "tasks ch = Some (a, p) \<Longrightarrow> channel_in_phase p (channels ch)"
    "fetches a = Some ch \<Longrightarrow> ch < next_id" "fetches a = Some ch \<Longrightarrow> opened ch = a"
    "fetches a = Some ch \<Longrightarrow> channels ch = Closed \<or> tasks ch \<noteq> None"
    "channels ch = Pending \<Longrightarrow> tasks ch \<noteq> None"
  using assms unfolding tasks_ok_def by blast+

lemma tasks_spawn:
  assumes "tasks_ok fetches channels opened n tasks" "fetches a = None"
  shows "tasks_ok (fetches(a \<mapsto> n)) (channels(n := Pending)) (opened(n := a)) (Suc n) (tasks(n \<mapsto> (a, Running)))"
proof -
  have "b \<noteq> a" if "tasks ch = Some (b, p)" for ch b p
    using tasks_okD(1) [OF assms(1) that] assms(2) by auto
  then show ?thesis
    using assms unfolding tasks_ok_def by (auto simp: less_Suc_eq)
qed

lemma tasks_progress:
  assumes "tasks_ok fetches channels opened n tasks" "tasks ch = Some (a, p)"
    and "channel_in_phase q c"
  shows "tasks_ok fetches (channels(ch := c)) opened n (tasks(ch \<mapsto> (a, q)))"
  using assms unfolding tasks_ok_def by auto

lemma tasks_fetched:
  assumes "tasks_ok fetches channels opened n tasks" "tasks ch = Some (a, Running)"
  shows "tasks_ok fetches channels opened n (tasks(ch \<mapsto> (a, Fetched r)))"
  using tasks_progress [OF assms, of "Fetched r" Pending] tasks_okD(4) [OF assms]
  by (simp add: fun_upd_idem)

lemma tasks_okI:
  assumes "\<And>ch a p. tasks ch = Some (a, p) \<Longrightarrow>
      fetches a = Some ch \<and> ch < n \<and> opened ch = a \<and> channel_in_phase p (channels ch)"
    and "\<And>a ch. fetches a = Some ch \<Longrightarrow> ch < n \<and> opened ch = a \<and> (channels ch = Closed \<or> tasks ch \<noteq> None)"
    and "\<And>ch. channels ch = Pending \<Longrightarrow> tasks ch \<noteq> None"
  shows "tasks_ok fetches channels opened n tasks"
  using assms unfolding tasks_ok_def by blast

lemma tasks_end:
  assumes "tasks_ok fetches channels opened n tasks" "tasks ch = Some (a, Published)"
  shows "tasks_ok (forget a ch fetches) channels opened n (tasks(ch := None))"
proof (rule tasks_okI)
  note D = tasks_okD [OF assms(1)]
  have ch: "fetches a = Some ch" "channels ch \<noteq> Pending"
    using D(1,4) [OF assms(2)] by auto
  fix x b p
  assume "(tasks(ch := None)) x = Some (b, p)"
  then have x: "x \<noteq> ch" "tasks x = Some (b, p)" by (auto split: if_splits)
  then have "b \<noteq> a" using D(1) [OF x(2)] ch(1) by auto
  with D(1,2,3,4) [OF x(2)]
  show "forget a ch fetches b = Some x \<and> x < n \<and> opened x = b \<and> channel_in_phase p (channels x)"
    by (simp add: forget_def)
next
  note D = tasks_okD [OF assms(1)]
  have ch: "fetches a = Some ch" using D(1) [OF assms(2)] .
  fix b x
  assume "forget a ch fetches b = Some x"
  with ch have x: "b \<noteq> a" "fetches b = Some x" by (auto simp: forget_def split: if_splits)
  have "x \<noteq> ch" using x D(3) [OF assms(2)] D(6) [OF x(2)] by auto
  with D(5,6,7) [OF x(2)]
  show "x < n \<and> opened x = b \<and> (channels x = Closed \<or> (tasks(ch := None)) x \<noteq> None)" by simp
next
  fix x
  assume "channels x = Pending"
  with tasks_okD(8) [OF assms(1) this] tasks_okD(4) [OF assms] show "(tasks(ch := None)) x \<noteq> None"
    by (cases "x = ch") auto
qed

lemma tasks_panic:
  assumes "tasks_ok fetches channels opened n tasks" "tasks ch = Some (a, p)"
  shows "tasks_ok fetches (channels(ch := Closed)) opened n (tasks(ch := None))"
  using assms unfolding tasks_ok_def by auto

lemma tasks_forget:
  assumes "tasks_ok fetches channels opened n tasks" "channels ch = Closed"
  shows "tasks_ok (forget a ch fetches) channels opened n tasks"
proof -
  have "tasks ch = None"
  proof (cases "tasks ch")
    case (Some x)
    then obtain b p where "tasks ch = Some (b, p)" by (cases x) auto
    from tasks_okD(4) [OF assms(1) this] assms(2) show ?thesis by (cases p) auto
  qed
  with assms show ?thesis unfolding tasks_ok_def forget_def by auto
qed

lemma waiters_change:
  "waiters_ok opened n waiters \<Longrightarrow> (\<And>ch. x = (a, Waiting ch) \<Longrightarrow> ch < n \<and> opened ch = a) \<Longrightarrow> fst x = a \<Longrightarrow>
     waiters_ok opened n (waiters(w \<mapsto> x))"
  by (auto simp: waiters_ok_def)

lemma flights_step:
  assumes "fetch_step net s s'" "flights_ok slots s"
  shows "flights_ok slots s'"
  using assms
proof (induction rule: fetch_step.induct)
  case (join s w a ch)
  then have "ch < fe_next s \<and> fe_opened_for s ch = a"
    using tasks_okD(5,6) unfolding flights_ok_def by metis
  with join(3) show ?case by (auto simp: flights_ok_def waiters_ok_def)
next
  case (spawn s w a n)
  have ok: "tasks_ok (fe_fetches s) (fe_channels s) (fe_opened_for s) (fe_next s) (fe_tasks s)"
    using spawn(4) by (simp add: flights_ok_def)
  have "fe_tasks s (fe_next s) = None"
    using tasks_okD(2) [OF ok, of "fe_next s"] by (cases "fe_tasks s (fe_next s)") auto
  moreover have "waiters_ok ((fe_opened_for s)(fe_next s := a)) (Suc (fe_next s))
      ((fe_waiters s)(w \<mapsto> (a, Waiting (fe_next s))))"
    using spawn(4) by (auto simp: flights_ok_def waiters_ok_def less_Suc_eq)
  ultimately show ?case
    using spawn tasks_spawn [OF ok spawn(2)] by (simp add: flights_ok_def slots_take)
next
  case (fetched s ch a d now)
  then show ?case by (auto simp: flights_ok_def intro: slots_change tasks_fetched)
next
  case (failed s ch a e)
  then show ?case by (auto simp: flights_ok_def intro: slots_change tasks_fetched)
next
  case (timed_out s ch a)
  then show ?case by (auto simp: flights_ok_def intro: slots_change tasks_fetched)
next
  case (publish s ch a r)
  then show ?case
    by (auto simp: flights_ok_def slots_change intro!: tasks_progress)
next
  case (cleanup s ch a)
  then show ?case by (auto simp: flights_ok_def intro: slots_release tasks_end)
next
  case (panic s ch a)
  then show ?case by (auto simp: flights_ok_def intro: slots_release tasks_panic)
next
  case (stopped s w a ch)
  then show ?case by (auto simp: flights_ok_def intro: tasks_forget waiters_change)
next
  case (load_begin s l n a)
  then show ?case by (auto simp: flights_ok_def intro: slots_load)
next
  case (load_end s l a)
  then show ?case by (auto simp: flights_ok_def intro: slots_unload)
qed (auto simp: flights_ok_def waiters_ok_def)

text \<open>What is handed on is the network's answer for the address it was asked for.\<close>

definition data_ok :: "(string \<Rightarrow> fetch_result) \<Rightarrow> fetch_state \<Rightarrow> bool" where
  "data_ok net s \<longleftrightarrow>
     (\<forall>a d. segment_holds (fe_cache s) a d \<longrightarrow> net a = Inr d) \<and>
     (\<forall>ch a d. fe_tasks s ch = Some (a, Fetched (Inr d)) \<longrightarrow> net a = Inr d) \<and>
     (\<forall>ch d. fe_channels s ch = Sent (Inr d) \<longrightarrow> net (fe_opened_for s ch) = Inr d) \<and>
     (\<forall>w a d. fe_waiters s w = Some (a, Done (Inr d)) \<longrightarrow> net a = Inr d)"

lemma data_step:
  assumes "fetch_step net s s'" "flights_ok slots s" "data_ok net s"
  shows "data_ok net s'"
  using assms
proof (induction rule: fetch_step.induct)
  case (hit s w now a d c)
  then have cache: "\<forall>a d. segment_holds (fe_cache s) a d \<longrightarrow> net a = Inr d" by (simp add: data_ok_def)
  from segment_reads.lookup_sound [where P = "\<lambda>a d. net a = Inr d", OF cache, of now a] hit
  have "net a = Inr d" "\<forall>k v. segment_holds c k v \<longrightarrow> net k = Inr v" by auto
  with hit(4) show ?case by (auto simp: data_ok_def)
next
  case (miss s w now a c)
  then have cache: "\<forall>a d. segment_holds (fe_cache s) a d \<longrightarrow> net a = Inr d" by (simp add: data_ok_def)
  from segment_reads.lookup_sound(2) [where P = "\<lambda>a d. net a = Inr d", OF cache, of now a] miss(2)
  have "\<forall>k v. segment_holds c k v \<longrightarrow> net k = Inr v" by simp
  with miss(4) show ?case by (auto simp: data_ok_def)
next
  case (fetched s ch a d now)
  then have cache: "\<forall>a d. segment_holds (fe_cache s) a d \<longrightarrow> net a = Inr d" by (simp add: data_ok_def)
  from segment_reads.store_sound [where P = "\<lambda>a d. net a = Inr d", OF cache] fetched(2)
  have "\<forall>k v. segment_holds (insert_segment now a d (fe_cache s)) k v \<longrightarrow> net k = Inr v" by blast
  with fetched show ?case by (auto simp: data_ok_def)
next
  case (publish s ch a r)
  then have "fe_opened_for s ch = a" using tasks_okD(3) unfolding flights_ok_def by metis
  with publish show ?case by (auto simp: data_ok_def)
next
  case (wake s w a ch r)
  then have "fe_opened_for s ch = a" by (simp add: flights_ok_def waiters_ok_def)
  with wake show ?case by (auto simp: data_ok_def)
qed (auto simp: data_ok_def split: if_splits)

lemma reachable_ok:
  "fetch_reachable net slots max_bytes ttl s \<Longrightarrow> flights_ok slots s \<and> data_ok net s"
proof (induction rule: fetch_reachable.induct)
  case start
  show ?case
    by (simp add: flights_ok_def data_ok_def slots_ok_def tasks_ok_def waiters_ok_def fetch_init_def
        segment_holds_def new_segment_cache_def)
next
  case (step s s')
  then show ?case using flights_step data_step by blast
qed

section \<open>Properties\<close>

text \<open>An example: one request that misses, is fetched and is answered.\<close>

definition demo_net :: "string \<Rightarrow> fetch_result" where
  "demo_net a = (if a = ''x'' then Inr [1, 2] else Inl ''not found'')"

lemma demo_flight:
  obtains s where "fetch_reachable demo_net 16 64 10 s" "fe_waiters s 0 = Some (''x'', Waiting 0)"
    "fe_tasks s 0 = Some (''x'', Running)" "fe_loads s = Map.empty" "fe_free_slots s = 15"
proof -
  let ?s0 = "fetch_init 16 64 10"
  have get: "get_segment 0 ''x'' (fe_cache ?s0) = (None, fe_cache ?s0)"
    by (simp add: fetch_init_def new_segment_cache_def get_segment_def disabled_def)
  have "fetch_reachable demo_net 16 64 10 (?s0\<lparr>fe_cache := fe_cache ?s0,
      fe_waiters := (fe_waiters ?s0)(0 \<mapsto> (''x'', Checking))\<rparr>)" (is "fetch_reachable _ _ _ _ ?s1")
    by (rule fetch_reachable.step [OF fetch_reachable.start fetch_step.miss [OF _ get]])
      (simp add: fetch_init_def)
  moreover have "fetch_step demo_net ?s1 (?s1\<lparr>fe_free_slots := 15,
      fe_fetches := (fe_fetches ?s1)(''x'' \<mapsto> fe_next ?s1),
      fe_channels := (fe_channels ?s1)(fe_next ?s1 := Pending),
      fe_opened_for := (fe_opened_for ?s1)(fe_next ?s1 := ''x''),
      fe_tasks := (fe_tasks ?s1)(fe_next ?s1 \<mapsto> (''x'', Running)),
      fe_waiters := (fe_waiters ?s1)(0 \<mapsto> (''x'', Waiting (fe_next ?s1))),
      fe_next := Suc (fe_next ?s1)\<rparr>)" (is "fetch_step _ _ ?s2")
    by (rule fetch_step.spawn) (simp_all add: fetch_init_def)
  ultimately have "fetch_reachable demo_net 16 64 10 ?s2" by (rule fetch_reachable.step)
  then show thesis by (rule that) (simp_all add: fetch_init_def)
qed

lemma demo_answer:
  obtains s where "fetch_reachable demo_net 16 64 10 s" "fe_waiters s 0 = Some (''x'', Done (Inr [1, 2]))"
proof -
  obtain s where s: "fetch_reachable demo_net 16 64 10 s" "fe_waiters s 0 = Some (''x'', Waiting 0)"
    "fe_tasks s 0 = Some (''x'', Running)" using demo_flight by blast
  let ?s1 = "s\<lparr>fe_cache := insert_segment 0 ''x'' [1, 2] (fe_cache s),
    fe_tasks := (fe_tasks s)(0 \<mapsto> (''x'', Fetched (Inr [1, 2])))\<rparr>"
  let ?s2 = "?s1\<lparr>fe_channels := (fe_channels ?s1)(0 := Sent (Inr [1, 2])),
      fe_tasks := (fe_tasks ?s1)(0 \<mapsto> (''x'', Published))\<rparr>"
  let ?s3 = "?s2\<lparr>fe_waiters := (fe_waiters ?s2)(0 \<mapsto> (''x'', Done (Inr [1, 2])))\<rparr>"
  have 1: "fetch_step demo_net s ?s1" using s(3) by (rule fetch_step.fetched) (simp add: demo_net_def)
  have 2: "fetch_step demo_net ?s1 ?s2" by (rule fetch_step.publish) simp
  have 3: "fetch_step demo_net ?s2 ?s3" by (rule fetch_step.wake [where ch = 0]) (simp_all add: s(2))
  have "fetch_reachable demo_net 16 64 10 ?s3"
    by (rule fetch_reachable.step [OF fetch_reachable.step [OF fetch_reachable.step [OF s(1) 1] 2] 3])
  then show thesis by (rule that) simp
qed

text \<open>C20. However requests, fetches, loads of catalogs and manifests, timeouts, panics and departures
  interleave, no two fetches of segment data in flight are for the same address, and the segment fetches
  in flight, the loads that hold a slot and the free slots make up the slots: at most that many
  requests of the service are on the network at a time.\<close>

theorem single_flight:
  assumes "fetch_reachable net slots max_bytes ttl s"
  shows "inj_on (\<lambda>ch. fst (the (fe_tasks s ch))) (dom (fe_tasks s)) \<and>
    finite (dom (fe_tasks s)) \<and> finite (dom (fe_loads s)) \<and>
    card (dom (fe_tasks s)) + card (dom (fe_loads s)) + fe_free_slots s = slots"
proof
  have ok: "tasks_ok (fe_fetches s) (fe_channels s) (fe_opened_for s) (fe_next s) (fe_tasks s)"
    "slots_ok slots (fe_free_slots s) (fe_loads s) (fe_tasks s)"
    using reachable_ok [OF assms] by (simp_all add: flights_ok_def)
  then show "finite (dom (fe_tasks s)) \<and> finite (dom (fe_loads s)) \<and>
      card (dom (fe_tasks s)) + card (dom (fe_loads s)) + fe_free_slots s = slots"
    by (simp add: slots_ok_def)
  show "inj_on (\<lambda>ch. fst (the (fe_tasks s ch))) (dom (fe_tasks s))"
  proof (rule inj_onI)
    fix x y
    assume "x \<in> dom (fe_tasks s)" "y \<in> dom (fe_tasks s)"
      and same: "fst (the (fe_tasks s x)) = fst (the (fe_tasks s y))"
    then obtain a p b q where "fe_tasks s x = Some (a, p)" "fe_tasks s y = Some (b, q)" by auto
    with same tasks_okD(1) [OF ok(1), of x a p] tasks_okD(1) [OF ok(1), of y b q] show "x = y" by simp
  qed
qed

theorem single_flight_witness:
  "\<exists>s :: fetch_state. fe_tasks s 0 = Some (''x'', Running) \<and> fe_loads s 0 = Some ''m'' \<and>
     card (dom (fe_tasks s)) + card (dom (fe_loads s)) + fe_free_slots s = 16"
proof -
  obtain s where "fetch_reachable demo_net 16 64 10 s" "fe_tasks s 0 = Some (''x'', Running)" "fe_loads s = Map.empty"
    "fe_free_slots s = 15"
    using demo_flight by blast
  note s = this
  have "fetch_step demo_net s (s\<lparr>fe_free_slots := 14, fe_loads := (fe_loads s)(0 \<mapsto> ''m'')\<rparr>)" (is "fetch_step _ _ ?t")
    by (rule fetch_step.load_begin) (simp_all add: s)
  from single_flight [OF fetch_reachable.step [OF s(1) this]] s(2)
  show ?thesis by (intro exI [of _ ?t]) simp
qed

text \<open>C21. A request that is answered with data is answered with what the network holds at the address
  it asked for, whether the data came from the cache or from a fetch another request started.\<close>

theorem answers_are_faithful:
  assumes "fetch_reachable net slots max_bytes ttl s" and "fe_waiters s w = Some (a, Done (Inr d))"
  shows "net a = Inr d"
  using reachable_ok [OF assms(1)] assms(2) by (simp add: data_ok_def)

theorem answers_are_faithful_witness: "demo_net ''x'' = Inr [1, 2]"
proof -
  obtain s where "fetch_reachable demo_net 16 64 10 s" "fe_waiters s 0 = Some (''x'', Done (Inr [1, 2]))"
    by (rule demo_answer)
  then show ?thesis by (rule answers_are_faithful)
qed

text \<open>No waiting request is ever stuck: from every reachable state some continuation answers it,
  even when the fetch it joined failed, panicked, or was started by a request that has gone.\<close>

theorem waiter_can_finish:
  assumes "fetch_reachable net slots max_bytes ttl s" and "fe_waiters s w = Some (a, Waiting ch)"
  shows "\<exists>s' r. (fetch_step net)\<^sup>*\<^sup>* s s' \<and> fe_waiters s' w = Some (a, Done r)"
proof -
  have ok: "tasks_ok (fe_fetches s) (fe_channels s) (fe_opened_for s) (fe_next s) (fe_tasks s)"
    and a: "fe_opened_for s ch = a"
    using reachable_ok [OF assms(1)] assms(2) by (auto simp: flights_ok_def waiters_ok_def)
  have sent: "\<exists>t r. (fetch_step net)\<^sup>*\<^sup>* u t \<and> fe_waiters t w = Some (a, Done r)"
    if "fe_channels u ch = Sent r" "fe_waiters u w = Some (a, Waiting ch)" for u r
    using fetch_step.wake [OF that(2,1), of net] by (intro exI conjI, rule r_into_rtranclp) simp_all
  have ready: "\<exists>t r. (fetch_step net)\<^sup>*\<^sup>* u t \<and> fe_waiters t w = Some (a, Done r)"
    if "fe_tasks u ch = Some (a, Fetched r)" "fe_waiters u w = Some (a, Waiting ch)" for u r
  proof -
    let ?t = "u\<lparr>fe_channels := (fe_channels u)(ch := Sent r), fe_tasks := (fe_tasks u)(ch \<mapsto> (a, Published))\<rparr>"
    have "fetch_step net u ?t" using that(1) by (rule fetch_step.publish)
    then show ?thesis using sent [of ?t r] that(2) converse_rtranclp_into_rtranclp by fastforce
  qed
  show ?thesis
  proof (cases "fe_channels s ch")
    case (Sent r)
    from sent [OF this assms(2)] show ?thesis .
  next
    case Closed
    from fetch_step.stopped [OF assms(2) this, of net] show ?thesis
      by (intro exI conjI, rule r_into_rtranclp) simp_all
  next
    case Pending
    then obtain b p where "fe_tasks s ch = Some (b, p)" using tasks_okD(8) [OF ok] by fastforce
    with a tasks_okD(3) [OF ok] have task: "fe_tasks s ch = Some (a, p)" by blast
    show ?thesis
    proof (cases p)
      case Running
      let ?t = "s\<lparr>fe_tasks := (fe_tasks s)(ch \<mapsto> (a, Fetched (Inl ''shared segment fetch timed out'')))\<rparr>"
      have "fetch_step net s ?t" using task Running by (intro fetch_step.timed_out) simp
      then show ?thesis using ready [of ?t] assms(2) converse_rtranclp_into_rtranclp by fastforce
    next
      case (Fetched r)
      then show ?thesis using ready task assms(2) by blast
    next
      case Published
      then show ?thesis using tasks_okD(4) [OF ok task] Pending by simp
    qed
  qed
qed

theorem waiter_can_finish_witness:
  "\<exists>s s' r. fe_waiters s 0 = Some (''x'', Waiting 0) \<and> (fetch_step demo_net)\<^sup>*\<^sup>* s s' \<and>
     fe_waiters s' 0 = Some (''x'', Done r)"
proof -
  obtain s where "fetch_reachable demo_net 16 64 10 s" "fe_waiters s 0 = Some (''x'', Waiting 0)"
    using demo_flight by blast
  with waiter_can_finish [OF this] show ?thesis by blast
qed

end
