(* ===== verification/Admin_Tables.thy ===== *)
theory Admin_Tables
  imports Payment_Contract
begin

text \<open>
  The documents the admin service publishes and the tables of its database
  (\<open>crates/rust_admin/src/models.rs\<close>, \<open>pipeline/final_quote.rs\<close>,
  \<open>crates/rust_admin/migrations/\<close>). A column that holds JSON holds the value the code decodes
  from it; a timestamp, also in a document, is its instant in milliseconds. The triggers that count
  the changes of the public catalog are part of the statements that fire them.
\<close>

section \<open>Documents\<close>

record public_catalog_variant =
  pv_resolution :: string
  pv_width :: int
  pv_height :: int
  pv_segment_count :: int
  pv_total_duration :: "f64 option"

record public_catalog_video =
  pc_id :: string
  pc_title :: string
  pc_original_filename :: "string option"
  pc_description :: "string option"
  pc_status :: string
  pc_created_at :: int
  pc_updated_at :: int
  pc_manifest_address :: string
  pc_is_public :: bool
  pc_show_original_filename :: bool
  pc_show_manifest_address :: bool
  pc_variants :: "public_catalog_variant list"

record public_catalog_document =
  pd_schema_version :: int
  pd_content_type :: string
  pd_catalog_kind :: string
  pd_generated_at :: int
  pd_updated_at :: int
  pd_videos :: "public_catalog_video list"

record manifest_original_file =
  mo_autonomi_address :: string
  mo_byte_size :: "int option"
  mo_autonomi_cost_atto :: "string option"
  mo_payment_mode :: "string option"

record manifest_segment =
  ms_segment_index :: int
  ms_autonomi_address :: "string option"
  ms_duration :: f64
  ms_byte_size :: "int option"

record manifest_variant =
  mv_id :: string
  mv_resolution :: string
  mv_video_codec :: string
  mv_segment_container :: string
  mv_width :: int
  mv_height :: int
  mv_video_bitrate :: int
  mv_audio_bitrate :: int
  mv_segment_duration :: f64
  mv_total_duration :: "f64 option"
  mv_segment_count :: nat
  mv_segments :: "manifest_segment list"

record video_manifest_document =
  md_schema_version :: int
  md_content_type :: string
  md_id :: string
  md_title :: string
  md_original_filename :: "string option"
  md_description :: "string option"
  md_status :: string
  md_created_at :: int
  md_updated_at :: int
  md_show_original_filename :: bool
  md_show_manifest_address :: bool
  md_original_file :: "manifest_original_file option"
  md_variants :: "manifest_variant list"

section \<open>Plans\<close>

record planned_file =
  pf_path :: string
  pf_variant_id :: "string option"
  pf_segment_index :: "int option"
  pf_quote :: content_quote

record upload_plan =
  up_approval :: payment_approval
  up_files :: "planned_file list"
  up_manifest :: video_manifest_document
  up_manifest_quote :: content_quote
  up_catalog :: public_catalog_document
  up_catalog_quote :: content_quote
  up_all_catalog :: public_catalog_document
  up_all_catalog_quote :: content_quote
  up_base_catalog_digest :: string
  up_base_revision :: int
  up_publish :: bool

record catalog_plan =
  cp_approval :: payment_approval
  cp_catalog :: public_catalog_document
  cp_all_catalog :: public_catalog_document
  cp_catalog_quote :: content_quote
  cp_all_catalog_quote :: content_quote
  cp_revision :: int

section \<open>Rows\<close>

datatype video_codec = H264 | Hevc

record encode_settings =
  es_video_codec :: video_codec
  es_video_bitrate_overrides :: "(string \<times> int) list"
  es_audio_bitrate_kbps :: "int option"

text \<open>A final quote without a plan the code decodes is a legacy quote.\<close>

record variant_quote =
  vq_resolution :: string
  vq_width :: int
  vq_height :: int
  vq_segment_count :: nat
  vq_bytes :: u64
  vq_chunk_count :: nat
  vq_storage_cost_atto :: string
  vq_estimated_gas_cost_wei :: string

record final_quote =
  fq_plan :: "upload_plan option"
  fq_storage_cost_atto :: string
  fq_estimated_gas_cost_wei :: string
  fq_media_bytes :: u64
  fq_metadata_bytes :: u64
  fq_segment_count :: nat
  fq_chunk_count :: nat
  fq_variants :: "variant_quote list"

record video_row =
  vd_id :: string
  vd_title :: string
  vd_original_filename :: string
  vd_description :: "string option"
  vd_status :: string
  vd_manifest_address :: "string option"
  vd_catalog_address :: "string option"
  vd_all_catalog_address :: "string option"
  vd_error_message :: "string option"
  vd_job_dir :: "string option"
  vd_job_source_path :: "string option"
  vd_requested_resolutions :: "string list option"
  vd_encode_settings :: "encode_settings option"
  vd_final_quote :: "final_quote option"
  vd_final_quote_created_at :: "int option"
  vd_approval_expires_at :: "int option"
  vd_is_public :: bool
  vd_show_original_filename :: bool
  vd_show_manifest_address :: bool
  vd_upload_original :: bool
  vd_original_file_address :: "string option"
  vd_original_file_byte_size :: "int option"
  vd_original_file_cost :: "string option"
  vd_original_file_payment_mode :: "string option"
  vd_publish_when_ready :: bool
  vd_created_at :: int
  vd_updated_at :: int
  vd_user_id :: "string option"
  vd_approved_quote_id :: "string option"

record variant_row =
  vr_id :: string
  vr_video_id :: string
  vr_resolution :: string
  vr_width :: int
  vr_height :: int
  vr_video_bitrate :: int
  vr_audio_bitrate :: int
  vr_video_codec :: string
  vr_segment_container :: string
  vr_segment_duration :: f64
  vr_total_duration :: "f64 option"
  vr_segment_count :: "int option"

record segment_row =
  sr_variant_id :: string
  sr_segment_index :: int
  sr_autonomi_address :: "string option"
  sr_autonomi_cost_atto :: "string option"
  sr_autonomi_payment_mode :: "string option"
  sr_duration :: f64
  sr_byte_size :: "int option"
  sr_local_path :: "string option"

record job_row =
  jb_id :: string
  jb_kind :: string
  jb_video_id :: "string option"
  jb_status :: string
  jb_attempts :: int
  jb_max_attempts :: int
  jb_lease_owner :: "string option"
  jb_lease_expires_at :: "int option"
  jb_run_after :: int
  jb_last_error :: "string option"
  jb_created_at :: int
  jb_updated_at :: int
  jb_payment_quote_id :: "string option"

record catalog_approval_row =
  ca_id :: string
  ca_plan :: catalog_plan
  ca_state :: string
  ca_error_message :: "string option"
  ca_created_at :: int

record catalog_snapshot =
  sn_published_address :: "string option"
  sn_all_address :: "string option"
  sn_published :: public_catalog_document
  sn_all :: public_catalog_document
  sn_publish_pending :: bool

record admin_db =
  videos :: "video_row list"
  video_variants :: "variant_row list"
  video_segments :: "segment_row list"
  video_jobs :: "job_row list"
  catalog_approvals :: "catalog_approval_row list"
  catalog_generation :: int
  catalog_snapshot_row :: "catalog_snapshot option"

definition empty_db :: admin_db where
  "empty_db = \<lparr>videos = [], video_variants = [], video_segments = [], video_jobs = [],
     catalog_approvals = [], catalog_generation = 0, catalog_snapshot_row = None\<rparr>"

section \<open>Errors\<close>

datatype api_error = Api nat string

type_synonym 'a api = "api_error + 'a"

fun api_detail :: "api_error \<Rightarrow> string" where "api_detail (Api _ s) = s"

definition db_error :: "string \<Rightarrow> api_error" where "db_error e = Api 500 e"

definition payment_api :: "string \<Rightarrow> api_error" where "payment_api e = Api 409 e"

definition perror_text :: "perror \<Rightarrow> string" where
  "perror_text e = (case e of Bail s \<Rightarrow> s | Lib _ \<Rightarrow> ''library error'')"

definition map_err :: "('e \<Rightarrow> 'f) \<Rightarrow> 'e + 'a \<Rightarrow> 'f + 'a" where
  "map_err f r = (case r of Inl e \<Rightarrow> Inl (f e) | Inr x \<Rightarrow> Inr x)"

lemma map_err_eq_Inr [simp]: "map_err f r = Inr x \<longleftrightarrow> r = Inr x"
  by (simp add: map_err_def split: sum.split)

section \<open>Statements on videos and variants\<close>

definition is_ready :: "video_row \<Rightarrow> bool" where "is_ready v \<longleftrightarrow> vd_status v = ''ready''"

text \<open>An \<open>UPDATE\<close> that sets a column the triggers watch: it counts once for each row it touches
  that is ready before or after.\<close>

definition update_videos :: "(video_row \<Rightarrow> bool) \<Rightarrow> (video_row \<Rightarrow> video_row) \<Rightarrow> admin_db \<Rightarrow> admin_db" where
  "update_videos P f db = db\<lparr>videos := update_where P f (videos db),
     catalog_generation := catalog_generation db +
       int (rows_affected (\<lambda>v. P v \<and> (is_ready v \<or> is_ready (f v))) (videos db))\<rparr>"

definition insert_video :: "video_row \<Rightarrow> admin_db \<Rightarrow> admin_db" where
  "insert_video v db = db\<lparr>videos := videos db @ [v],
     catalog_generation := catalog_generation db + (if is_ready v then 1 else 0)\<rparr>"

text \<open>Deleting a video deletes its variants, their segments and its jobs; the video is gone when the
  triggers of its variants run.\<close>

definition delete_video_rows :: "string \<Rightarrow> admin_db \<Rightarrow> admin_db" where
  "delete_video_rows video_id db =
     (let gone = map vr_id (filter (\<lambda>r. vr_video_id r = video_id) (video_variants db))
      in db\<lparr>videos := filter (\<lambda>v. vd_id v \<noteq> video_id) (videos db),
            video_variants := filter (\<lambda>r. vr_video_id r \<noteq> video_id) (video_variants db),
            video_segments := filter (\<lambda>s. sr_variant_id s \<notin> set gone) (video_segments db),
            video_jobs := filter (\<lambda>j. jb_video_id j \<noteq> Some video_id) (video_jobs db),
            catalog_generation := catalog_generation db +
              int (rows_affected (\<lambda>v. vd_id v = video_id \<and> is_ready v) (videos db))\<rparr>)"

definition video_is_ready :: "string \<Rightarrow> admin_db \<Rightarrow> bool" where
  "video_is_ready video_id db = exists_where (\<lambda>v. vd_id v = video_id \<and> is_ready v) (videos db)"

definition delete_variants :: "string \<Rightarrow> admin_db \<Rightarrow> admin_db" where
  "delete_variants video_id db =
     (let gone = map vr_id (filter (\<lambda>r. vr_video_id r = video_id) (video_variants db))
      in db\<lparr>video_variants := filter (\<lambda>r. vr_video_id r \<noteq> video_id) (video_variants db),
            video_segments := filter (\<lambda>s. sr_variant_id s \<notin> set gone) (video_segments db),
            catalog_generation := catalog_generation db +
              (if video_is_ready video_id db then int (length gone) else 0)\<rparr>)"

definition insert_variant :: "variant_row \<Rightarrow> admin_db \<Rightarrow> admin_db" where
  "insert_variant r db = db\<lparr>video_variants := video_variants db @ [r],
     catalog_generation := catalog_generation db + (if video_is_ready (vr_video_id r) db then 1 else 0)\<rparr>"

end
