(* ===== verification/Job_Queue.thy ===== *)
theory Job_Queue
  imports Admin_Tables
begin

text \<open>
  The durable job queue of the admin service (\<open>crates/rust_admin/src/jobs/\<close>, \<open>db.rs\<close>): its tables,
  the leasing of jobs to workers, the outcome of an attempt, renewal, fencing, scheduling, recovery
  at start and the expiry of approvals. A statement is atomic, a \<open>BEGIN IMMEDIATE\<close> transaction
  is one step. Instants are integers in milliseconds; an operation reads the clock once. Calls to
  the payment gateway and to the file system are parameters.
\<close>

section \<open>Jobs\<close>

datatype job_kind = ProcessVideo | UploadVideo | PublishCatalog | FinalizeCatalog | QuoteVideo

fun kind_as_str :: "job_kind \<Rightarrow> string" where
  "kind_as_str ProcessVideo = ''process_video''"
| "kind_as_str UploadVideo = ''upload_video''"
| "kind_as_str PublishCatalog = ''publish_catalog''"
| "kind_as_str FinalizeCatalog = ''finalize_catalog''"
| "kind_as_str QuoteVideo = ''quote_video''"

definition kind_parse :: "string \<Rightarrow> job_kind option" where
  "kind_parse s =
     (if s = ''process_video'' then Some ProcessVideo
      else if s = ''upload_video'' then Some UploadVideo
      else if s = ''publish_catalog'' then Some PublishCatalog
      else if s = ''finalize_catalog'' then Some FinalizeCatalog
      else if s = ''quote_video'' then Some QuoteVideo
      else None)"

record leased_job =
  lj_lease_owner :: string
  lj_id :: string
  lj_kind :: job_kind
  lj_video_id :: "string option"
  lj_attempts :: int
  lj_max_attempts :: int

record job_lease =
  jl_id :: string
  jl_owner :: string
  jl_generation :: int

section \<open>Leasing\<close>

definition lease_expired :: "int \<Rightarrow> job_row \<Rightarrow> bool" where
  "lease_expired now r = (case jb_lease_expires_at r of None \<Rightarrow> False | Some t \<Rightarrow> t \<le> now)"

definition lease_live :: "int \<Rightarrow> job_row \<Rightarrow> bool" where
  "lease_live now r = (case jb_lease_expires_at r of None \<Rightarrow> False | Some t \<Rightarrow> t > now)"

definition ready :: "int \<Rightarrow> job_row \<Rightarrow> bool" where
  "ready now r \<longleftrightarrow> (jb_status r = ''queued'' \<and> jb_run_after r \<le> now) \<or>
     (jb_status r = ''running'' \<and> lease_expired now r)"

text \<open>\<open>ORDER BY run_after, created_at LIMIT 1\<close>.\<close>

definition sooner :: "job_row \<Rightarrow> job_row \<Rightarrow> bool" where
  "sooner a b \<longleftrightarrow> jb_run_after a < jb_run_after b \<or>
     (jb_run_after a = jb_run_after b \<and> jb_created_at a < jb_created_at b)"

fun soonest :: "job_row list \<Rightarrow> job_row option" where
  "soonest [] = None"
| "soonest (r # rs) =
     (case soonest rs of None \<Rightarrow> Some r | Some m \<Rightarrow> if sooner m r then Some m else Some r)"

definition acquire_next_job ::
  "int \<Rightarrow> int \<Rightarrow> string \<Rightarrow> admin_db \<Rightarrow> leased_job option api \<times> admin_db"
where
  "acquire_next_job now lease_seconds worker_id db =
     (case soonest (filter (ready now) (video_jobs db)) of
        None \<Rightarrow> (Inr None, db)
      | Some r \<Rightarrow>
          (let db' = db\<lparr>video_jobs := update_where (\<lambda>x. jb_id x = jb_id r)
                 (\<lambda>x. x\<lparr>jb_status := ''running'', jb_attempts := jb_attempts x + 1,
                        jb_lease_owner := Some worker_id,
                        jb_lease_expires_at := Some (now + 1000 * lease_seconds),
                        jb_updated_at := now\<rparr>) (video_jobs db)\<rparr>
           in case kind_parse (jb_kind r) of
                None \<Rightarrow> (Inl (Api 500 (''Unknown durable job kind '' @ CHR 0x22 # jb_kind r @ [CHR 0x22])), db')
              | Some kind \<Rightarrow>
                  (Inr (Some \<lparr>lj_lease_owner = worker_id, lj_id = jb_id r, lj_kind = kind,
                     lj_video_id = jb_video_id r, lj_attempts = jb_attempts r + 1,
                     lj_max_attempts = jb_max_attempts r\<rparr>), db')))"

text \<open>The clause by which every outcome of an attempt is fenced.\<close>

definition owned :: "int \<Rightarrow> leased_job \<Rightarrow> job_row \<Rightarrow> bool" where
  "owned now job r \<longleftrightarrow> jb_id r = lj_id job \<and> jb_status r = ''running'' \<and>
     jb_lease_owner r = Some (lj_lease_owner job) \<and> jb_attempts r = lj_attempts job \<and> lease_live now r"

definition renew_lease :: "int \<Rightarrow> int \<Rightarrow> leased_job \<Rightarrow> admin_db \<Rightarrow> bool \<times> admin_db" where
  "renew_lease now lease_seconds job db =
     (rows_affected (owned now job) (video_jobs db) = 1,
      db\<lparr>video_jobs := update_where (owned now job)
        (\<lambda>r. r\<lparr>jb_lease_expires_at := Some (now + 1000 * lease_seconds), jb_updated_at := now\<rparr>)
        (video_jobs db)\<rparr>)"

section \<open>Outcomes\<close>

definition mark_job_succeeded :: "int \<Rightarrow> leased_job \<Rightarrow> admin_db \<Rightarrow> string option \<times> admin_db" where
  "mark_job_succeeded now job db =
     (let updated = rows_affected (owned now job) (video_jobs db);
          jobs = update_where (owned now job)
            (\<lambda>r. r\<lparr>jb_status := ''succeeded'', jb_lease_owner := None, jb_lease_expires_at := None,
                   jb_last_error := None, jb_updated_at := now\<rparr>) (video_jobs db);
          P = (\<lambda>v. Some (vd_id v) = lj_video_id job \<and> vd_status v = ''ready'')
      in if updated = 1 \<and> lj_kind job = UploadVideo
         then (Option.bind (fetch_optional P (videos db)) vd_job_dir,
               db\<lparr>video_jobs := jobs,
                  videos := update_where P (\<lambda>v. v\<lparr>vd_job_dir := None, vd_job_source_path := None\<rparr>)
                    (videos db)\<rparr>)
         else (None, db\<lparr>video_jobs := jobs\<rparr>))"

definition mark_job_interrupted :: "int \<Rightarrow> string \<Rightarrow> string \<Rightarrow> admin_db \<Rightarrow> admin_db" where
  "mark_job_interrupted now job_id worker_id db =
     db\<lparr>video_jobs := update_where
       (\<lambda>r. jb_id r = job_id \<and> jb_status r = ''running'' \<and> jb_lease_owner r = Some worker_id)
       (\<lambda>r. r\<lparr>jb_status := ''queued'', jb_lease_owner := None, jb_lease_expires_at := None,
              jb_run_after := now,
              jb_last_error := Some ''Interrupted by graceful shutdown; job was requeued.'',
              jb_updated_at := now\<rparr>) (video_jobs db)\<rparr>"

definition job_retry_delay_seconds :: "int \<Rightarrow> int" where
  "job_retry_delay_seconds attempts =
     (let exponent = nat (min 5 (max (- (2 ^ 31)) (attempts - 1))) in min (15 * 60) (30 * 2 ^ exponent))"

definition str_contains :: "string \<Rightarrow> string \<Rightarrow> bool" where
  "str_contains s p \<longleftrightarrow> sublist p s"

definition paid_kind :: "job_kind \<Rightarrow> bool" where
  "paid_kind k \<longleftrightarrow> k \<in> {UploadVideo, FinalizeCatalog}"

definition needs_approval :: "string \<Rightarrow> bool" where
  "needs_approval detail \<longleftrightarrow> str_contains detail ''APPROVAL_REQUIRED'' \<or> str_contains detail ''approval_required:''"

definition needs_recovery :: "leased_job \<Rightarrow> string \<Rightarrow> bool" where
  "needs_recovery job detail \<longleftrightarrow>
     str_contains detail ''PAYMENT_RECOVERY_REQUIRED'' \<or> str_contains detail ''payment_recovery_required'' \<or>
     str_contains detail ''PARTIAL_UPLOAD'' \<or> str_contains detail ''partial_upload:'' \<or>
     (needs_approval detail \<and> lj_attempts job > 1 \<and> paid_kind (lj_kind job))"

text \<open>\<open>COALESCE(j.payment_quote_id, v.approved_quote_id)\<close> over the left join with the job's video.\<close>

definition job_quote :: "admin_db \<Rightarrow> job_row \<Rightarrow> string option" where
  "job_quote db r =
     (case jb_payment_quote_id r of
        Some q \<Rightarrow> Some q
      | None \<Rightarrow> Option.bind (jb_video_id r) (\<lambda>v.
          Option.bind (fetch_optional (\<lambda>x. vd_id x = v) (videos db)) vd_approved_quote_id))"

text \<open>What the final failure of an owned attempt decides: whether recovery is needed, and the text.\<close>

definition cancelled_prefix :: string where
  "cancelled_prefix =
     ''approval_required: original approval safely cancelled before any transaction; regenerate the quote. ''"

definition revoke_approval ::
  "(string \<Rightarrow> string \<Rightarrow> bool) \<Rightarrow> leased_job \<Rightarrow> string \<Rightarrow> job_row \<Rightarrow> admin_db \<Rightarrow> bool \<times> string"
where
  "revoke_approval cancel job detail r db =
     (if needs_approval detail \<and> paid_kind (lj_kind job) then
        (case job_quote db r of
           None \<Rightarrow> (needs_recovery job detail, detail)
         | Some quote_id \<Rightarrow>
             (let unpaid = cancel (lease_key_of (lj_id job) (lj_lease_owner job) (lj_attempts job)) quote_id
              in (\<not> unpaid, if unpaid then cancelled_prefix @ detail else detail)))
      else (needs_recovery job detail, detail))"

definition failed_video_status :: "leased_job \<Rightarrow> bool \<Rightarrow> bool \<Rightarrow> bool \<Rightarrow> string" where
  "failed_video_status job approval recovery approved =
     (if recovery \<or> (approved \<and> \<not> approval \<and> lj_kind job = UploadVideo) then ''payment_recovery_required''
      else if approval then ''approval_required''
      else ''error'')"

definition fail_finally ::
  "(string \<Rightarrow> string \<Rightarrow> bool) \<Rightarrow> int \<Rightarrow> leased_job \<Rightarrow> string \<Rightarrow> admin_db \<Rightarrow> unit api \<times> admin_db"
where
  "fail_finally cancel now job detail db =
     (case fetch_optional (owned now job) (video_jobs db) of
        None \<Rightarrow> (Inr (), db)
      | Some r \<Rightarrow>
          (let approval = needs_approval detail;
               (recovery, detail') = revoke_approval cancel job detail r db;
               jobs = update_where (owned now job)
                 (\<lambda>x. x\<lparr>jb_status := ''failed'', jb_lease_owner := None, jb_lease_expires_at := None,
                        jb_last_error := Some detail', jb_updated_at := now\<rparr>) (video_jobs db);
               approvals =
                 (if lj_kind job = FinalizeCatalog
                  then update_where (\<lambda>c. Some (ca_id c) = jb_payment_quote_id r)
                    (\<lambda>c. c\<lparr>ca_state := (if approval \<and> \<not> recovery then ''approval_required''
                                        else ''payment_recovery_required''),
                          ca_error_message := Some detail'\<rparr>) (catalog_approvals db)
                  else catalog_approvals db);
               db' = db\<lparr>video_jobs := jobs, catalog_approvals := approvals\<rparr>
           in case lj_video_id job of
                None \<Rightarrow> (Inr (), db')
              | Some video_id \<Rightarrow>
                  (case fetch_optional (\<lambda>v. vd_id v = video_id) (videos db) of
                     None \<Rightarrow> (Inl (db_error ''no rows returned''), db)
                   | Some v \<Rightarrow>
                       (Inr (), update_videos (\<lambda>v. vd_id v = video_id)
                          (\<lambda>x. x\<lparr>vd_status := failed_video_status job approval recovery
                                  (vd_approved_quote_id v \<noteq> None),
                                vd_error_message := Some detail', vd_updated_at := now\<rparr>) db'))))"

definition mark_job_failed ::
  "(string \<Rightarrow> string \<Rightarrow> bool) \<Rightarrow> int \<Rightarrow> leased_job \<Rightarrow> string \<Rightarrow> admin_db \<Rightarrow> unit api \<times> admin_db"
where
  "mark_job_failed cancel now job detail db =
     (if lj_attempts job \<ge> lj_max_attempts job \<or> needs_recovery job detail \<or> needs_approval detail
      then fail_finally cancel now job detail db
      else
        (Inr (), db\<lparr>video_jobs := update_where (owned now job)
          (\<lambda>r. r\<lparr>jb_status := ''queued'', jb_lease_owner := None, jb_lease_expires_at := None,
                 jb_run_after := now + 1000 * job_retry_delay_seconds (lj_attempts job),
                 jb_last_error := Some detail, jb_updated_at := now\<rparr>) (video_jobs db)\<rparr>))"

section \<open>The payment lease of a job\<close>

definition update_payment_lease ::
  "(payment_lease \<Rightarrow> string + unit) \<Rightarrow> int \<Rightarrow> leased_job \<Rightarrow> admin_db \<Rightarrow> string option api"
where
  "update_payment_lease activate_lease now job db =
     (if \<not> paid_kind (lj_kind job) then Inr None
      else
        (case fetch_optional (owned now job) (video_jobs db) of
           None \<Rightarrow> Inl (Api 409 ''Job lease ownership lost before payment activation'')
         | Some r \<Rightarrow>
             (case job_quote db r of
                None \<Rightarrow> Inr None
              | Some quote_id \<Rightarrow>
                  (let lease = \<lparr>pl_quote_id = quote_id, pl_job_id = lj_id job,
                         pl_owner = lj_lease_owner job, pl_generation = lj_attempts job,
                         pl_expires_at = the (jb_lease_expires_at r) div 1000\<rparr>
                   in case activate_lease lease of
                        Inl e \<Rightarrow> Inl (Api 409 e)
                      | Inr _ \<Rightarrow> Inr (Some (lease_key lease))))))"

section \<open>Fenced writes\<close>

definition owns_lease :: "int \<Rightarrow> job_lease \<Rightarrow> admin_db \<Rightarrow> bool" where
  "owns_lease now l db = exists_where (\<lambda>r. jb_id r = jl_id l \<and> jb_lease_owner r = Some (jl_owner l) \<and>
     jb_attempts r = jl_generation l \<and> jb_status r = ''running'' \<and> lease_live now r) (video_jobs db)"

definition begin_fenced :: "int \<Rightarrow> job_lease option \<Rightarrow> admin_db \<Rightarrow> unit api" where
  "begin_fenced now active db =
     (case active of
        None \<Rightarrow> Inr ()
      | Some l \<Rightarrow> if owns_lease now l db then Inr () else Inl (Api 409 ''Job lease ownership lost''))"

definition execute_fenced ::
  "int \<Rightarrow> job_lease option \<Rightarrow> (admin_db \<Rightarrow> admin_db) \<Rightarrow> admin_db \<Rightarrow> unit api \<times> admin_db"
where
  "execute_fenced now active query db =
     (case begin_fenced now active db of Inl e \<Rightarrow> (Inl e, db) | Inr _ \<Rightarrow> (Inr (), query db))"

definition set_status ::
  "int \<Rightarrow> job_lease option \<Rightarrow> string \<Rightarrow> string \<Rightarrow> string option \<Rightarrow> admin_db \<Rightarrow> unit api \<times> admin_db"
where
  "set_status now active video_id status msg =
     execute_fenced now active (update_videos (\<lambda>v. vd_id v = video_id)
       (\<lambda>v. v\<lparr>vd_status := status, vd_error_message := msg, vd_updated_at := now\<rparr>))"

definition set_awaiting_approval ::
  "int \<Rightarrow> job_lease option \<Rightarrow> string \<Rightarrow> final_quote \<Rightarrow> int \<Rightarrow> admin_db \<Rightarrow> unit api \<times> admin_db"
where
  "set_awaiting_approval now active video_id quote expires_at =
     execute_fenced now active (update_videos (\<lambda>v. vd_id v = video_id)
       (\<lambda>v. v\<lparr>vd_status := ''awaiting_approval'', vd_final_quote := Some quote,
              vd_final_quote_created_at := Some now, vd_approval_expires_at := Some expires_at,
              vd_error_message := None, vd_updated_at := now\<rparr>))"

section \<open>Scheduling\<close>

definition active :: "job_row \<Rightarrow> bool" where
  "active r \<longleftrightarrow> jb_status r = ''queued'' \<or> jb_status r = ''running''"

text \<open>The primary key and the three partial unique indexes: two rows that may not coexist.\<close>

definition index_conflict :: "job_row \<Rightarrow> job_row \<Rightarrow> bool" where
  "index_conflict a b \<longleftrightarrow> jb_id a = jb_id b \<or>
     (active a \<and> active b \<and> jb_kind a = jb_kind b \<and>
      ((jb_video_id a \<noteq> None \<and> jb_video_id a = jb_video_id b) \<or>
       (jb_video_id a = None \<and> jb_video_id b = None \<and> jb_kind a = ''publish_catalog'') \<or>
       jb_kind a = ''finalize_catalog''))"

definition new_job :: "int \<Rightarrow> string \<Rightarrow> string \<Rightarrow> string option \<Rightarrow> int \<Rightarrow> string option \<Rightarrow> job_row" where
  "new_job now job_id kind video_id max_attempts payment_quote = \<lparr>jb_id = job_id, jb_kind = kind,
     jb_video_id = video_id, jb_status = ''queued'', jb_attempts = 0, jb_max_attempts = max_attempts,
     jb_lease_owner = None, jb_lease_expires_at = None, jb_run_after = now, jb_last_error = None,
     jb_created_at = now, jb_updated_at = now, jb_payment_quote_id = payment_quote\<rparr>"

text \<open>\<open>ON CONFLICT DO NOTHING\<close>: a row that an index rejects is silently not inserted.\<close>

definition insert_or_ignore :: "job_row \<Rightarrow> job_row list \<Rightarrow> job_row list" where
  "insert_or_ignore r rows = (if exists_where (index_conflict r) rows then rows else rows @ [r])"

definition enqueue_video_job ::
  "int \<Rightarrow> int \<Rightarrow> string \<Rightarrow> job_kind \<Rightarrow> string \<Rightarrow> admin_db \<Rightarrow> admin_db"
where
  "enqueue_video_job now max_attempts job_id kind video_id db =
     (if exists_where (\<lambda>r. jb_kind r = kind_as_str kind \<and> jb_video_id r = Some video_id \<and> active r)
           (video_jobs db) then db
      else db\<lparr>video_jobs := insert_or_ignore
        (new_job now job_id (kind_as_str kind) (Some video_id) max_attempts None) (video_jobs db)\<rparr>)"

definition enqueue_catalog_publish_job :: "int \<Rightarrow> int \<Rightarrow> string \<Rightarrow> admin_db \<Rightarrow> admin_db" where
  "enqueue_catalog_publish_job now max_attempts job_id db =
     (if exists_where (\<lambda>r. jb_kind r = ''publish_catalog'' \<and> jb_status r = ''queued'') (video_jobs db) then db
      else db\<lparr>video_jobs := insert_or_ignore
        (new_job now job_id ''publish_catalog'' None max_attempts None) (video_jobs db)\<rparr>)"

section \<open>Recovery and expiry\<close>

definition requeue_expired :: "int \<Rightarrow> admin_db \<Rightarrow> admin_db" where
  "requeue_expired now db =
     db\<lparr>video_jobs := update_where
       (\<lambda>r. jb_status r = ''running'' \<and> (jb_lease_expires_at r = None \<or> lease_expired now r))
       (\<lambda>r. r\<lparr>jb_status := ''queued'', jb_lease_owner := None, jb_lease_expires_at := None,
              jb_run_after := now, jb_updated_at := now\<rparr>) (video_jobs db)\<rparr>"

definition interrupted_videos :: "int \<Rightarrow> admin_db \<Rightarrow> video_row list" where
  "interrupted_videos now db =
     sort_key vd_created_at (filter
       (\<lambda>v. vd_status v \<in> {''pending'', ''processing'', ''uploading'', ''quoting''} \<and>
            \<not> exists_where (\<lambda>r. jb_video_id r = Some (vd_id v) \<and> jb_status r = ''running'' \<and> lease_live now r)
                (video_jobs db)) (videos db))"

text \<open>\<open>recoverable\<close> says that the video's directory and source exist and that it requests a supported
  resolution; \<open>fresh\<close> gives the identifier of the job scheduled for a video.\<close>

definition recovery_error :: string where
  "recovery_error = ''Interrupted processing job could not be recovered because its source file or requested resolutions were missing.''"

definition recover_video ::
  "int \<Rightarrow> int \<Rightarrow> (video_row \<Rightarrow> bool) \<Rightarrow> (string \<Rightarrow> string) \<Rightarrow> video_row \<Rightarrow> admin_db \<Rightarrow> admin_db"
where
  "recover_video now max_attempts recoverable fresh v db =
     (if vd_status v \<in> {''pending'', ''processing''} then
        if \<not> recoverable v then snd (set_status now None (vd_id v) ''error'' (Some recovery_error) db)
        else enqueue_video_job now max_attempts (fresh (vd_id v)) ProcessVideo (vd_id v) db
      else if vd_status v = ''quoting'' then
        enqueue_video_job now max_attempts (fresh (vd_id v)) QuoteVideo (vd_id v) db
      else if vd_status v = ''uploading'' then
        enqueue_video_job now max_attempts (fresh (vd_id v)) UploadVideo (vd_id v) db
      else db)"

definition recover_interrupted_jobs ::
  "int \<Rightarrow> int \<Rightarrow> (video_row \<Rightarrow> bool) \<Rightarrow> (string \<Rightarrow> string) \<Rightarrow> bool \<Rightarrow> int \<Rightarrow> string \<Rightarrow> admin_db \<Rightarrow> admin_db"
where
  "recover_interrupted_jobs now max_attempts recoverable fresh publish_pending publish_attempts publish_id db0 =
     (let db = requeue_expired now db0;
          db' = fold (recover_video now max_attempts recoverable fresh) (interrupted_videos now db) db
      in if publish_pending then enqueue_catalog_publish_job now publish_attempts publish_id db' else db')"

definition cleanup_expired_approvals :: "int \<Rightarrow> admin_db \<Rightarrow> string list \<times> admin_db" where
  "cleanup_expired_approvals now db =
     (let P = (\<lambda>v. vd_status v = ''awaiting_approval'' \<and>
                (case vd_approval_expires_at v of None \<Rightarrow> False | Some t \<Rightarrow> t \<le> now))
      in (List.map_filter (\<lambda>v. if P v then vd_job_dir v else None) (videos db),
          update_videos P
            (\<lambda>v. v\<lparr>vd_status := ''expired'',
                   vd_error_message := Some ''Final quote approval window expired; local files were deleted.'',
                   vd_updated_at := now\<rparr>) db))"

end
