(* ===== verification/Catalog_Document.thy ===== *)
theory Catalog_Document
  imports Admin_Tables "HOL-Library.List_Lexorder" "HOL-Library.Char_ord" "HOL-Library.Product_Lexorder"
begin

text \<open>
  Catalog and manifest documents built from the database
  (\<open>crates/rust_admin/src/catalog/db_document/\<close>). The reads of one builder are taken at one
  instant; a document's own instants are arguments. The second part shows what the catalog
  depends on, and that the revision counter of the triggers detects every change of it.
\<close>

section \<open>Catalogs\<close>

definition catalog_content_type :: string where
  "catalog_content_type = ''application/vnd.autonomi.video.catalog+json;v=2''"

definition catalog_variant :: "variant_row \<Rightarrow> public_catalog_variant" where
  "catalog_variant r = \<lparr>pv_resolution = vr_resolution r, pv_width = vr_width r, pv_height = vr_height r,
     pv_segment_count = (case vr_segment_count r of None \<Rightarrow> 0 | Some n \<Rightarrow> n),
     pv_total_duration = vr_total_duration r\<rparr>"

definition catalog_entry ::
  "string \<Rightarrow> string \<Rightarrow> video_row \<Rightarrow> variant_row list \<Rightarrow> public_catalog_video"
where
  "catalog_entry video_id manifest_address v variants =
     \<lparr>pc_id = video_id, pc_title = vd_title v, pc_original_filename = None,
      pc_description = vd_description v, pc_status = ''ready'', pc_created_at = vd_created_at v,
      pc_updated_at = vd_updated_at v, pc_manifest_address = manifest_address,
      pc_is_public = vd_is_public v, pc_show_original_filename = False,
      pc_show_manifest_address = vd_show_manifest_address v,
      pc_variants = map catalog_variant variants\<rparr>"

text \<open>\<open>ORDER BY height DESC\<close> leaves ties in the order of insertion.\<close>

definition build_catalog_entry_from_db :: "admin_db \<Rightarrow> string \<Rightarrow> string \<Rightarrow> public_catalog_video api" where
  "build_catalog_entry_from_db db video_id manifest_address =
     (case fetch_optional (\<lambda>v. vd_id v = video_id) (videos db) of
        None \<Rightarrow> Inl (Api 404 ''Video not found'')
      | Some v \<Rightarrow> Inr (catalog_entry video_id manifest_address v
          (sort_key (\<lambda>r. - vr_height r) (filter (\<lambda>r. vr_video_id r = video_id) (video_variants db)))))"

definition listed :: "video_row \<Rightarrow> bool" where
  "listed v \<longleftrightarrow> is_ready v \<and> vd_manifest_address v \<noteq> None"

definition catalog_order :: "video_row \<Rightarrow> int \<times> int \<times> string" where
  "catalog_order v = (- vd_updated_at v, - vd_created_at v, vd_id v)"

definition variant_order :: "variant_row \<Rightarrow> int \<times> string \<times> string" where
  "variant_order r = (- vr_height r, vr_resolution r, vr_id r)"

definition build_all_catalog_from_db :: "int \<Rightarrow> admin_db \<Rightarrow> public_catalog_document" where
  "build_all_catalog_from_db now db =
     (let rows = sort_key catalog_order (filter listed (videos db));
          variants = sort_key variant_order (filter
            (\<lambda>r. exists_where (\<lambda>v. vd_id v = vr_video_id r \<and> listed v) (videos db)) (video_variants db))
      in \<lparr>pd_schema_version = 2, pd_content_type = catalog_content_type, pd_catalog_kind = ''all'',
          pd_generated_at = now, pd_updated_at = now,
          pd_videos = List.map_filter (\<lambda>v. map_option
            (\<lambda>manifest_address. catalog_entry (vd_id v) manifest_address v
              (filter (\<lambda>r. vr_video_id r = vd_id v) variants)) (vd_manifest_address v)) rows\<rparr>)"

text \<open>The published catalog is the public part of the catalog of all videos.\<close>

definition published_part :: "public_catalog_document \<Rightarrow> public_catalog_document" where
  "published_part c = c\<lparr>pd_catalog_kind := ''published'', pd_videos := filter pc_is_public (pd_videos c)\<rparr>"

section \<open>Manifests\<close>

definition original_file_manifest_from_row :: "video_row \<Rightarrow> manifest_original_file option" where
  "original_file_manifest_from_row v = map_option
     (\<lambda>address. \<lparr>mo_autonomi_address = address, mo_byte_size = vd_original_file_byte_size v,
        mo_autonomi_cost_atto = vd_original_file_cost v,
        mo_payment_mode = vd_original_file_payment_mode v\<rparr>) (vd_original_file_address v)"

definition segments_of :: "admin_db \<Rightarrow> string \<Rightarrow> segment_row list" where
  "segments_of db variant_id =
     sort_key sr_segment_index (filter (\<lambda>s. sr_variant_id s = variant_id) (video_segments db))"

definition manifest_segment_of :: "segment_row \<Rightarrow> manifest_segment" where
  "manifest_segment_of s = \<lparr>ms_segment_index = sr_segment_index s,
     ms_autonomi_address = sr_autonomi_address s, ms_duration = sr_duration s, ms_byte_size = sr_byte_size s\<rparr>"

definition manifest_variant_of :: "admin_db \<Rightarrow> variant_row \<Rightarrow> manifest_variant" where
  "manifest_variant_of db r = \<lparr>mv_id = vr_id r, mv_resolution = vr_resolution r,
     mv_video_codec = vr_video_codec r, mv_segment_container = vr_segment_container r,
     mv_width = vr_width r, mv_height = vr_height r, mv_video_bitrate = vr_video_bitrate r,
     mv_audio_bitrate = vr_audio_bitrate r, mv_segment_duration = vr_segment_duration r,
     mv_total_duration = vr_total_duration r, mv_segment_count = length (segments_of db (vr_id r)),
     mv_segments = map manifest_segment_of (segments_of db (vr_id r))\<rparr>"

definition manifest_content_type :: string where
  "manifest_content_type = ''application/vnd.autonomi.video.manifest+json;v=1''"

definition build_manifest_from_db :: "admin_db \<Rightarrow> string \<Rightarrow> bool \<Rightarrow> video_manifest_document api" where
  "build_manifest_from_db db video_id preparing =
     (case fetch_optional (\<lambda>v. vd_id v = video_id) (videos db) of
        None \<Rightarrow> Inl (Api 404 ''Video not found'')
      | Some v \<Rightarrow>
          (let variants = sort_key (\<lambda>r. - vr_height r)
                 (filter (\<lambda>r. vr_video_id r = video_id) (video_variants db))
           in if \<not> preparing \<and> (\<exists>r \<in> set variants. \<exists>s \<in> set (segments_of db (vr_id r)).
                   sr_autonomi_address s = None)
              then Inl (Api 409 ''Video has not finished uploading all segment addresses'')
              else Inr \<lparr>md_schema_version = 1, md_content_type = manifest_content_type,
                md_id = video_id, md_title = vd_title v, md_original_filename = None,
                md_description = vd_description v, md_status = ''ready'',
                md_created_at = vd_created_at v, md_updated_at = vd_updated_at v,
                md_show_original_filename = False,
                md_show_manifest_address = vd_show_manifest_address v,
                md_original_file = original_file_manifest_from_row v,
                md_variants = map (manifest_variant_of db) variants\<rparr>))"

section \<open>What the catalog depends on\<close>

definition catalog_videos :: "admin_db \<Rightarrow> public_catalog_video list" where
  "catalog_videos db = pd_videos (build_all_catalog_from_db 0 db)"

lemma build_catalog_videos [simp]: "pd_videos (build_all_catalog_from_db now db) = catalog_videos db"
  by (simp add: catalog_videos_def build_all_catalog_from_db_def Let_def)

definition listed_entry :: "variant_row list \<Rightarrow> video_row \<Rightarrow> public_catalog_video" where
  "listed_entry variants v = catalog_entry (vd_id v) (the (vd_manifest_address v)) v
     (sort_key variant_order (filter (\<lambda>r. vr_video_id r = vd_id v) variants))"

lemma map_filter_Some: "\<forall>v \<in> set vs. h v \<noteq> None \<Longrightarrow> List.map_filter h vs = map (\<lambda>v. the (h v)) vs"
  by (induction vs) (auto simp: List.map_filter_simps)

lemma catalog_videos_eq:
  "catalog_videos db = map (listed_entry (video_variants db)) (sort_key catalog_order (filter listed (videos db)))"
proof -
  have "filter (\<lambda>r. vr_video_id r = vd_id v) (sort_key variant_order (filter
      (\<lambda>r. \<exists>v \<in> set (videos db). vd_id v = vr_video_id r \<and> listed v) (video_variants db))) =
    sort_key variant_order (filter (\<lambda>r. vr_video_id r = vd_id v) (video_variants db))"
    if "v \<in> set (videos db)" "listed v" for v
  proof -
    have "filter (\<lambda>r. vr_video_id r = vd_id v \<and> (\<exists>v \<in> set (videos db). vd_id v = vr_video_id r \<and> listed v))
        (video_variants db) = filter (\<lambda>r. vr_video_id r = vd_id v) (video_variants db)"
      using that by (intro filter_cong) auto
    then show ?thesis by (simp add: filter_sort conj_commute)
  qed
  then show ?thesis
    by (auto simp: catalog_videos_def build_all_catalog_from_db_def Let_def map_filter_Some listed_entry_def listed_def)
qed

lemma sort_key_map: "sort_key k (map f xs) = map f (sort_key (k \<circ> f) xs)"
proof -
  have insort: "insort_key k (f x) (map f xs) = map f (insort_key (k \<circ> f) x xs)" for x xs
    by (induction xs) auto
  show ?thesis by (induction xs) (auto simp: insort [unfolded o_def] o_def)
qed

text \<open>Two rows the catalog does not tell apart.\<close>

definition same_listing :: "video_row \<Rightarrow> video_row \<Rightarrow> bool" where
  "same_listing v v' \<longleftrightarrow> vd_id v' = vd_id v \<and> vd_title v' = vd_title v \<and> vd_description v' = vd_description v \<and>
     vd_status v' = vd_status v \<and> vd_created_at v' = vd_created_at v \<and> vd_updated_at v' = vd_updated_at v \<and>
     vd_manifest_address v' = vd_manifest_address v \<and> vd_is_public v' = vd_is_public v \<and>
     vd_show_manifest_address v' = vd_show_manifest_address v"

lemma catalog_videos_same_listing:
  assumes "videos db' = map f (videos db)" "video_variants db' = video_variants db"
    and "\<And>v. same_listing v (f v)"
  shows "catalog_videos db' = catalog_videos db"
proof -
  have keys: "listed (f v) = listed v" "catalog_order (f v) = catalog_order v"
    "listed_entry vs (f v) = listed_entry vs v" for v vs
    using assms(3) [of v]
    by (simp_all add: same_listing_def listed_def is_ready_def catalog_order_def listed_entry_def catalog_entry_def)
  show ?thesis
    by (simp add: catalog_videos_eq assms filter_map o_def keys sort_key_map cong: map_cong)
qed

lemma catalog_videos_cong:
  "filter listed (videos db') = filter listed (videos db) \<Longrightarrow>
   (\<And>v. v \<in> set (videos db) \<Longrightarrow> listed v \<Longrightarrow>
     filter (\<lambda>r. vr_video_id r = vd_id v) (video_variants db') =
     filter (\<lambda>r. vr_video_id r = vd_id v) (video_variants db)) \<Longrightarrow>
   catalog_videos db' = catalog_videos db"
  by (auto simp: catalog_videos_eq listed_entry_def)

section \<open>Revisions\<close>

text \<open>The counter never falls, and while it stands the listed videos are the same.\<close>

definition revised :: "admin_db \<Rightarrow> admin_db \<Rightarrow> bool" where
  "revised db db' \<longleftrightarrow> catalog_generation db \<le> catalog_generation db' \<and>
     (catalog_generation db' = catalog_generation db \<longrightarrow> catalog_videos db' = catalog_videos db)"

lemma revised_refl [simp]: "revised db db"
  by (simp add: revised_def)

lemma revised_trans [trans]: "revised a b \<Longrightarrow> revised b c \<Longrightarrow> revised a c"
  by (auto simp: revised_def)

lemma revised_same:
  "catalog_generation db' = catalog_generation db \<Longrightarrow> videos db' = videos db \<Longrightarrow>
   video_variants db' = video_variants db \<Longrightarrow> revised db db'"
  by (simp add: revised_def catalog_videos_eq)

lemma revised_listing:
  assumes "catalog_generation db' = catalog_generation db" "video_variants db' = video_variants db"
    and "videos db' = update_where P f (videos db)" "\<And>v. same_listing v (f v)"
  shows "revised db db'"
proof -
  have "catalog_videos db' = catalog_videos db"
    by (rule catalog_videos_same_listing [where f = "\<lambda>v. if P v then f v else v"])
      (use assms in \<open>auto simp: update_where_def same_listing_def\<close>)
  with assms(1) show ?thesis by (simp add: revised_def)
qed

lemma rows_affected_zero: "rows_affected P rows = 0 \<longleftrightarrow> (\<forall>r \<in> set rows. \<not> P r)"
  by (simp add: rows_affected_def filter_empty_conv)

lemma revised_update_videos: "revised db (update_videos P f db)"
proof -
  have "filter listed (update_where P f vs) = filter listed vs"
    if "\<forall>v \<in> set vs. \<not> (P v \<and> (is_ready v \<or> is_ready (f v)))" for vs
    using that by (induction vs) (auto simp: listed_def)
  then show ?thesis
    unfolding revised_def update_videos_def
    by (auto simp: rows_affected_zero intro!: catalog_videos_cong)
qed

lemma revised_insert_video: "revised db (insert_video v db)"
  unfolding revised_def insert_video_def by (auto simp: listed_def intro!: catalog_videos_cong)

lemma revised_delete_video_rows: "revised db (delete_video_rows video_id db)"
proof -
  have "filter listed (filter (\<lambda>v. vd_id v \<noteq> video_id) (videos db)) = filter listed (videos db)"
    if "\<forall>v \<in> set (videos db). vd_id v = video_id \<longrightarrow> \<not> is_ready v"
    using that by (auto simp: listed_def intro: filter_cong)
  moreover have "filter (\<lambda>r. vr_video_id r = vd_id v) (filter (\<lambda>r. vr_video_id r \<noteq> video_id) rs) =
      filter (\<lambda>r. vr_video_id r = vd_id v) rs"
    if "\<forall>v \<in> set (videos db). vd_id v = video_id \<longrightarrow> \<not> is_ready v" "v \<in> set (videos db)" "listed v" for v rs
    using that by (auto simp: listed_def intro: filter_cong)
  ultimately show ?thesis
    unfolding revised_def delete_video_rows_def Let_def
    by (auto simp: rows_affected_zero intro!: catalog_videos_cong)
qed

lemma unready_variants:
  "\<not> video_is_ready video_id db \<Longrightarrow> v \<in> set (videos db) \<Longrightarrow> listed v \<Longrightarrow> vd_id v \<noteq> video_id"
  by (auto simp: video_is_ready_def listed_def)

lemma revised_insert_variant: "revised db (insert_variant r db)"
  unfolding revised_def insert_variant_def
  by (auto dest: unready_variants intro!: catalog_videos_cong)

lemma revised_delete_variants: "revised db (delete_variants video_id db)"
proof (cases "video_is_ready video_id db \<and> filter (\<lambda>r. vr_video_id r = video_id) (video_variants db) \<noteq> []")
  case True
  then show ?thesis by (simp add: revised_def delete_variants_def Let_def)
next
  case False
  then have "filter (\<lambda>r. vr_video_id r = vd_id v) (filter (\<lambda>r. vr_video_id r \<noteq> video_id) (video_variants db)) =
      filter (\<lambda>r. vr_video_id r = vd_id v) (video_variants db)"
    if "v \<in> set (videos db)" "listed v" for v
    using that by (auto simp: filter_empty_conv dest: unready_variants intro!: filter_cong)
  with False show ?thesis
    unfolding revised_def delete_variants_def Let_def by (auto intro!: catalog_videos_cong)
qed

lemmas revised_intros = revised_refl revised_update_videos revised_insert_video revised_delete_video_rows
  revised_insert_variant revised_delete_variants

end
