(* ===== verification/Video_Approval.thy ===== *)
theory Video_Approval
  imports Job_Queue Catalog_Document
begin

text \<open>
  Approval, requoting and resumption of a video's paid upload
  (\<open>crates/rust_admin/src/routes/upload.rs\<close>). The existence of the video's files and the gateway's
  answer are parameters. Authentication is the session component.
\<close>

section \<open>Videos\<close>

text \<open>\<open>ORDER BY created_at DESC, id DESC LIMIT 1\<close>.\<close>

definition newer :: "job_row \<Rightarrow> job_row \<Rightarrow> bool" where
  "newer a b \<longleftrightarrow> jb_created_at a > jb_created_at b \<or>
     (jb_created_at a = jb_created_at b \<and> jb_id a > jb_id b)"

fun newest :: "job_row list \<Rightarrow> job_row option" where
  "newest [] = None"
| "newest (r # rs) =
     (case newest rs of None \<Rightarrow> Some r | Some m \<Rightarrow> if newer m r then Some m else Some r)"

definition requeued :: "int \<Rightarrow> job_row \<Rightarrow> job_row" where
  "requeued now r = r\<lparr>jb_status := ''queued'', jb_run_after := now, jb_lease_owner := None,
     jb_lease_expires_at := None, jb_last_error := None,
     jb_max_attempts := max (jb_max_attempts r) (jb_attempts r + 1), jb_updated_at := now\<rparr>"

text \<open>Requeue the newest failed job a clause selects; a unique index may reject the update.\<close>

definition requeue_failed ::
  "int \<Rightarrow> (job_row \<Rightarrow> bool) \<Rightarrow> string \<Rightarrow> job_row list \<Rightarrow> (job_row list) api"
where
  "requeue_failed now P unavailable rows =
     (case newest (filter (\<lambda>r. P r \<and> jb_status r = ''failed'') rows) of
        None \<Rightarrow> Inl (Api 409 unavailable)
      | Some r \<Rightarrow>
          if exists_where (\<lambda>x. jb_id x \<noteq> jb_id r \<and> index_conflict (requeued now r) x) rows
          then Inl (db_error ''UNIQUE constraint failed'')
          else Inr (update_where (\<lambda>x. jb_id x = jb_id r) (requeued now) rows))"

definition resume_video :: "int \<Rightarrow> string \<Rightarrow> admin_db \<Rightarrow> unit api \<times> admin_db" where
  "resume_video now video_id db =
     (let P = (\<lambda>v. vd_id v = video_id \<and> vd_status v = ''payment_recovery_required'' \<and>
                   vd_approved_quote_id v \<noteq> None)
      in if rows_affected P (videos db) \<noteq> 1
         then (Inl (Api 409 ''This video has no paused approved upload''), db)
         else
           (case requeue_failed now (\<lambda>r. jb_video_id r = Some video_id \<and> jb_kind r = ''upload_video'')
                   ''The original upload job is unavailable; reconcile its payment journal''
                   (video_jobs db) of
              Inl e \<Rightarrow> (Inl e, db)
            | Inr jobs \<Rightarrow> (Inr (), update_videos P (\<lambda>v. v\<lparr>vd_status := ''uploading'',
                vd_error_message := None, vd_updated_at := now\<rparr>) (db\<lparr>video_jobs := jobs\<rparr>))))"

text \<open>
  The job of a request is enqueued by a transaction of its own after the one that changes the video; so
  is the expiry of old approvals before it.
\<close>

definition requote_video :: "int \<Rightarrow> string \<Rightarrow> admin_db \<Rightarrow> unit api \<times> admin_db" where
  "requote_video now video_id db =
     (let P = (\<lambda>v. vd_id v = video_id \<and> vd_status v \<in> {''approval_required'', ''awaiting_approval''})
      in if rows_affected P (videos db) \<noteq> 1
         then (Inl (Api 409 ''Only unpaid or revised approvals can be requoted; uncertain payments require recovery''), db)
         else (Inr (), update_videos P (\<lambda>v. v\<lparr>vd_status := ''quoting'', vd_approved_quote_id := None,
           vd_error_message := None, vd_updated_at := now\<rparr>) db))"

record approval_request =
  rq_quote_id :: string
  rq_max_storage_atto :: string
  rq_max_gas_wei :: string

text \<open>What an approval reads outside the database: whether a directory exists, and the gateway's
  answer to the approval.\<close>

record approval_env =
  ae_digest :: digest_fn
  ae_dir_exists :: "string \<Rightarrow> bool"
  ae_approve_payment :: "payment_approval \<Rightarrow> string + unit"

definition approve_video ::
  "approval_env \<Rightarrow> int \<Rightarrow> string \<Rightarrow> approval_request \<Rightarrow> admin_db \<Rightarrow> unit api \<times> admin_db"
where
  "approve_video env now video_id request db =
     (case fetch_optional (\<lambda>v. vd_id v = video_id) (videos db) of
        None \<Rightarrow> (Inl (Api 404 ''Video not found''), db)
      | Some v \<Rightarrow>
          if vd_status v = ''expired'' then (Inl (Api 410 ''Final quote approval window has expired''), db)
          else if vd_status v \<noteq> ''awaiting_approval'' then
            (Inl (Api 409 (''Video is '' @ vd_status v @ '', not awaiting approval'')), db)
          else
            (case map_option up_approval (Option.bind (vd_final_quote v) fq_plan) of
               None \<Rightarrow> (Inl (Api 409 ''Regenerate this legacy quote before approval''), db)
             | Some plan \<Rightarrow>
                 if rq_quote_id request \<noteq> pa_quote_id plan
                    \<or> rq_max_storage_atto request \<noteq> pa_max_storage_atto plan
                    \<or> rq_max_gas_wei request \<noteq> pa_max_gas_wei plan
                 then (Inl (Api 409 ''Quote changed. Review the current storage and gas caps before approval.''), db)
                 else
                   (case validate (ae_digest env) plan (now div 1000) (pa_network plan) of
                      Inl e \<Rightarrow> (Inl (Api 409 (perror_text e)), db)
                    | Inr _ \<Rightarrow>
                        (case vd_job_dir v of
                           None \<Rightarrow> (Inl (db_error ''unexpected null''), db)
                         | Some dir \<Rightarrow>
                             if \<not> ae_dir_exists env dir
                             then (Inl (Api 410 ''Transcoded files are no longer available''), db)
                             else
                               (case ae_approve_payment env plan of
                                  Inl e \<Rightarrow> (Inl (Api 502 e), db)
                                | Inr _ \<Rightarrow>
                                    (Inr (), update_videos (\<lambda>x. vd_id x = video_id)
                                      (\<lambda>x. x\<lparr>vd_status := ''uploading'',
                                             vd_approved_quote_id := Some (rq_quote_id request),
                                             vd_error_message := None, vd_updated_at := now\<rparr>)
                                      db))))))"

end
