(* ===== verification/Catalog_Payments.thy ===== *)
theory Catalog_Payments
  imports Video_Approval
begin

text \<open>
  Publication of the catalog under a payment approval
  (\<open>crates/rust_admin/src/catalog/payments.rs\<close>, \<open>catalog/sync.rs\<close>). A handler that calls the
  gateway between transactions is one definition per transaction, and one for what it computes from
  the gateway's answers; the gateway's quotes, stores and approvals are parameters.
\<close>

section \<open>Guards\<close>

definition assert_catalog_revision :: "int \<Rightarrow> admin_db \<Rightarrow> unit api" where
  "assert_catalog_revision expected db =
     (if catalog_generation db \<noteq> expected
      then Inl (payment_api ''approval_required: catalog changed; regenerate the quote'') else Inr ())"

definition pending_state :: "string \<Rightarrow> bool" where
  "pending_state s \<longleftrightarrow> s \<in> {''approved'', ''uploading'', ''payment_recovery_required''}"

definition require_reconciled_catalog :: "admin_db \<Rightarrow> unit api" where
  "require_reconciled_catalog db =
     (if exists_where (\<lambda>c. pending_state (ca_state c)) (catalog_approvals db)
      then Inl (payment_api ''payment_recovery_required: resume or reconcile the existing catalog payment first'')
      else Inr ())"

text \<open>Once storage starts, every error asks for recovery.\<close>

definition paid_phase :: "'a api \<Rightarrow> 'a api" where
  "paid_phase r = map_err
     (\<lambda>e. payment_api (''payment_recovery_required: approved storage started; '' @ api_detail e)) r"

section \<open>Preparing a quote\<close>

type_synonym cost_fn = "public_catalog_document \<Rightarrow> string \<Rightarrow> string + content_quote"

fun sum_amounts :: "string \<Rightarrow> u128 \<Rightarrow> string list \<Rightarrow> u128 api" where
  "sum_amounts overflow acc [] = Inr acc"
| "sum_amounts overflow acc (raw # raws) =
     rbind (map_err (payment_api \<circ> perror_text) (amount raw)) (\<lambda>v.
     (case checked_add acc v of
        None \<Rightarrow> Inl (payment_api overflow)
      | Some acc' \<Rightarrow> sum_amounts overflow acc' raws))"

definition content_of_quote :: "content_quote \<Rightarrow> approved_content" where
  "content_of_quote q = \<lparr>ac_sha256 = cq_content_sha256 q, ac_byte_size = cq_file_size q,
     ac_payment_mode = cq_payment_mode q\<rparr>"

definition prepare_check :: "int \<Rightarrow> job_lease option \<Rightarrow> admin_db \<Rightarrow> unit api" where
  "prepare_check now lease db = rbind (begin_fenced now lease db) (\<lambda>_. require_reconciled_catalog db)"

text \<open>\<open>db1\<close> is the database when the revision is read, \<open>db2\<close> when the catalog is built.\<close>

definition prepare_plan ::
  "digest_fn \<Rightarrow> cost_fn \<Rightarrow> string \<Rightarrow> int \<Rightarrow> string \<Rightarrow> int \<Rightarrow> admin_db \<Rightarrow> admin_db \<Rightarrow> catalog_plan api"
where
  "prepare_plan digest content_cost mode ttl quote_id now db1 db2 =
     (let revision = catalog_generation db1;
          all_catalog = build_all_catalog_from_db now db2;
          catalog = published_part all_catalog
      in rbind (map_err payment_api (content_cost catalog mode)) (\<lambda>catalog_quote.
         rbind (map_err payment_api (content_cost all_catalog mode)) (\<lambda>all_catalog_quote.
         if cq_network all_catalog_quote \<noteq> cq_network catalog_quote
         then Inl (payment_api ''Network changed during catalog quote'')
         else
           (let network = cq_network catalog_quote;
                quotes = [catalog_quote, all_catalog_quote];
                contents = map content_of_quote quotes
            in rbind (sum_amounts ''Catalog quote overflow'' 0 (map cq_cost quotes)) (\<lambda>storage.
               rbind (sum_amounts ''Catalog quote overflow'' 0 (map cq_estimated_gas_cost_wei quotes)) (\<lambda>gas.
               Inr \<lparr>cp_approval = \<lparr>pa_quote_id = quote_id, pa_content_digest = digest network contents,
                      pa_network = network, pa_expires_at = now div 1000 + min ttl 86400,
                      pa_max_storage_atto = u128_to_string storage, pa_max_gas_wei = u128_to_string gas,
                      pa_contents = contents\<rparr>,
                    cp_catalog = catalog, cp_all_catalog = all_catalog, cp_catalog_quote = catalog_quote,
                    cp_all_catalog_quote = all_catalog_quote, cp_revision = revision\<rparr>))))))"

definition supersede_drafts :: "catalog_approval_row list \<Rightarrow> catalog_approval_row list" where
  "supersede_drafts = update_where (\<lambda>c. ca_state c = ''draft'') (\<lambda>c. c\<lparr>ca_state := ''superseded''\<rparr>)"

definition prepare_commit ::
  "int \<Rightarrow> job_lease option \<Rightarrow> catalog_plan \<Rightarrow> admin_db \<Rightarrow> unit api \<times> admin_db"
where
  "prepare_commit now lease plan db =
     (case rbind (begin_fenced now lease db) (\<lambda>_.
           rbind (assert_catalog_revision (cp_revision plan) db) (\<lambda>_. require_reconciled_catalog db)) of
        Inl e \<Rightarrow> (Inl e, db)
      | Inr _ \<Rightarrow>
          if exists_where (\<lambda>c. ca_id c = pa_quote_id (cp_approval plan)) (catalog_approvals db)
          then (Inl (db_error ''UNIQUE constraint failed''), db)
          else (Inr (), db\<lparr>catalog_approvals := supersede_drafts (catalog_approvals db) @
            [\<lparr>ca_id = pa_quote_id (cp_approval plan), ca_plan = plan, ca_state = ''draft'',
              ca_error_message = None, ca_created_at = now\<rparr>]\<rparr>))"

text \<open>\<open>ORDER BY created_at DESC, id DESC LIMIT 1\<close>.\<close>

definition newer_approval :: "catalog_approval_row \<Rightarrow> catalog_approval_row \<Rightarrow> bool" where
  "newer_approval a b \<longleftrightarrow> ca_created_at a > ca_created_at b \<or>
     (ca_created_at a = ca_created_at b \<and> ca_id a > ca_id b)"

fun newest_approval :: "catalog_approval_row list \<Rightarrow> catalog_approval_row option" where
  "newest_approval [] = None"
| "newest_approval (c # cs) =
     (case newest_approval cs of None \<Rightarrow> Some c | Some m \<Rightarrow> if newer_approval m c then Some m else Some c)"

text \<open>The summary hides the approved contents.\<close>

definition summary :: "admin_db \<Rightarrow> (string \<times> payment_approval \<times> string option) option" where
  "summary db = map_option
     (\<lambda>c. (ca_state c, (cp_approval (ca_plan c))\<lparr>pa_contents := []\<rparr>, ca_error_message c))
     (newest_approval (catalog_approvals db))"

section \<open>Approving\<close>

definition set_approval ::
  "string \<Rightarrow> string \<Rightarrow> string option option \<Rightarrow> catalog_approval_row list \<Rightarrow> catalog_approval_row list"
where
  "set_approval q st msg = update_where (\<lambda>c. ca_id c = q)
     (\<lambda>c. c\<lparr>ca_state := st, ca_error_message := (case msg of None \<Rightarrow> ca_error_message c | Some m \<Rightarrow> m)\<rparr>)"

definition approve_catalog ::
  "(payment_approval \<Rightarrow> string + unit) \<Rightarrow> int \<Rightarrow> int \<Rightarrow> string \<Rightarrow> approval_request \<Rightarrow> admin_db \<Rightarrow>
     unit api \<times> admin_db"
where
  "approve_catalog approve_payment now max_attempts job_id request db =
     (case fetch_optional (\<lambda>c. ca_id c = rq_quote_id request) (catalog_approvals db) of
        None \<Rightarrow> (Inl (db_error ''no rows returned''), db)
      | Some c \<Rightarrow>
          if ca_state c \<noteq> ''draft''
          then (Inl (payment_api ''Catalog quote is no longer awaiting approval''), db)
          else if rq_max_storage_atto request \<noteq> pa_max_storage_atto (cp_approval (ca_plan c))
                  \<or> rq_max_gas_wei request \<noteq> pa_max_gas_wei (cp_approval (ca_plan c))
          then (Inl (payment_api ''Review the current storage and gas caps''), db)
          else
            (case assert_catalog_revision (cp_revision (ca_plan c)) db of
               Inl e \<Rightarrow> (Inl e, db)
             | Inr _ \<Rightarrow>
                 (case approve_payment (cp_approval (ca_plan c)) of
                    Inl e \<Rightarrow> (Inl (payment_api e), db)
                  | Inr _ \<Rightarrow>
                      (let job = new_job now job_id ''finalize_catalog'' None max_attempts
                             (Some (rq_quote_id request))
                       in if exists_where (index_conflict job) (video_jobs db)
                          then (Inl (db_error ''UNIQUE constraint failed''), db)
                          else (Inr (), db\<lparr>catalog_approvals :=
                                  set_approval (rq_quote_id request) ''approved'' None (catalog_approvals db),
                                video_jobs := video_jobs db @ [job]\<rparr>)))))"

section \<open>Finalizing\<close>

text \<open>
  The plan to store: none when the publication is complete already. The reads and the fenced update
  are taken at one instant: only the job that owns the lease changes its approval.
\<close>

definition finalize_begin ::
  "int \<Rightarrow> job_lease option \<Rightarrow> admin_db \<Rightarrow> catalog_plan option api \<times> admin_db"
where
  "finalize_begin now lease db =
     (case lease of
        None \<Rightarrow> (Inl (payment_api ''Catalog publication requires a leased job''), db)
      | Some l \<Rightarrow>
          (case Option.bind (fetch_optional (\<lambda>j. jb_id j = jl_id l) (video_jobs db)) (\<lambda>j.
                fetch_optional (\<lambda>c. Some (ca_id c) = jb_payment_quote_id j) (catalog_approvals db)) of
             None \<Rightarrow> (Inl (db_error ''no rows returned''), db)
           | Some c \<Rightarrow>
               if ca_state c = ''complete'' then (Inr None, db)
               else if ca_state c \<notin> {''approved'', ''uploading''}
               then (Inl (payment_api ''payment_recovery_required: catalog approval paused''), db)
               else if catalog_generation db \<noteq> cp_revision (ca_plan c)
               then (Inl (payment_api ''approval_required: catalog changed''), db)
               else
                 (case execute_fenced now lease (\<lambda>db. db\<lparr>catalog_approvals :=
                      set_approval (pa_quote_id (cp_approval (ca_plan c))) ''uploading'' None
                        (catalog_approvals db)\<rparr>) db of
                    (Inl e, db') \<Rightarrow> (Inl e, db')
                  | (Inr _, db') \<Rightarrow> (Inr (Some (ca_plan c)), db'))))"

type_synonym put_fn = "public_catalog_document \<Rightarrow> string \<Rightarrow> string + string"

fun store_documents :: "put_fn \<Rightarrow> (public_catalog_document \<times> content_quote) list \<Rightarrow> unit api" where
  "store_documents put [] = Inr ()"
| "store_documents put ((document, quote) # rest) =
     rbind (map_err payment_api (put document (cq_payment_mode quote))) (\<lambda>address.
     if address \<noteq> cq_address quote
     then Inl (payment_api ''payment_recovery_required: catalog address mismatch'')
     else store_documents put rest)"

definition store_catalog :: "put_fn \<Rightarrow> catalog_plan \<Rightarrow> unit api" where
  "store_catalog put plan = paid_phase (store_documents put
     [(cp_catalog plan, cp_catalog_quote plan), (cp_all_catalog plan, cp_all_catalog_quote plan)])"

text \<open>The addresses of a ready video are no columns the triggers watch.\<close>

definition set_catalog_addresses :: "string \<Rightarrow> string \<Rightarrow> admin_db \<Rightarrow> admin_db" where
  "set_catalog_addresses published all_videos db =
     db\<lparr>videos := update_where is_ready
       (\<lambda>v. v\<lparr>vd_catalog_address := Some published, vd_all_catalog_address := Some all_videos\<rparr>) (videos db)\<rparr>"

definition snapshot_of ::
  "public_catalog_document \<Rightarrow> content_quote \<Rightarrow> public_catalog_document \<Rightarrow> content_quote \<Rightarrow> catalog_snapshot"
where
  "snapshot_of catalog catalog_quote all_catalog all_catalog_quote =
     \<lparr>sn_published_address = Some (cq_address catalog_quote), sn_all_address = Some (cq_address all_catalog_quote),
      sn_published = catalog, sn_all = all_catalog, sn_publish_pending = False\<rparr>"

definition finalize_commit ::
  "int \<Rightarrow> job_lease option \<Rightarrow> catalog_plan \<Rightarrow> admin_db \<Rightarrow> unit api \<times> admin_db"
where
  "finalize_commit now lease plan db =
     (case rbind (begin_fenced now lease db) (\<lambda>_. assert_catalog_revision (cp_revision plan) db) of
        Inl e \<Rightarrow> (paid_phase (Inl e), db)
      | Inr _ \<Rightarrow> (Inr (),
          (set_catalog_addresses (cq_address (cp_catalog_quote plan)) (cq_address (cp_all_catalog_quote plan)) db)
            \<lparr>catalog_approvals := set_approval (pa_quote_id (cp_approval plan)) ''complete'' None
                 (catalog_approvals db),
             catalog_snapshot_row := Some (snapshot_of (cp_catalog plan) (cp_catalog_quote plan)
                 (cp_all_catalog plan) (cp_all_catalog_quote plan))\<rparr>))"

section \<open>Resuming\<close>

definition resume_catalog :: "int \<Rightarrow> admin_db \<Rightarrow> unit api \<times> admin_db" where
  "resume_catalog now db =
     (case newest_approval (filter (\<lambda>c. ca_state c = ''payment_recovery_required'') (catalog_approvals db)) of
        None \<Rightarrow> (Inl (payment_api ''No paused catalog publication is available''), db)
      | Some c \<Rightarrow>
          (case requeue_failed now
                  (\<lambda>r. jb_payment_quote_id r = Some (ca_id c) \<and> jb_kind r = ''finalize_catalog'')
                  ''The original catalog job is unavailable; reconcile its payment journal''
                  (video_jobs db) of
             Inl e \<Rightarrow> (Inl e, db)
           | Inr jobs \<Rightarrow> (Inr (), db\<lparr>video_jobs := jobs,
               catalog_approvals := set_approval (ca_id c) ''approved'' (Some None) (catalog_approvals db)\<rparr>)))"

section \<open>The local catalog\<close>

text \<open>\<open>previous\<close> are the addresses read from the state file when no snapshot exists.\<close>

definition refresh_local_catalog_from_db ::
  "int \<Rightarrow> string option \<times> string option \<Rightarrow> admin_db \<Rightarrow> admin_db"
where
  "refresh_local_catalog_from_db now previous db =
     (let all_catalog = build_all_catalog_from_db now db;
          (published_address, all_address) =
            (case catalog_snapshot_row db of
               Some s \<Rightarrow> (sn_published_address s, sn_all_address s) | None \<Rightarrow> previous)
      in db\<lparr>catalog_snapshot_row := Some \<lparr>sn_published_address = published_address,
            sn_all_address = all_address, sn_published = published_part all_catalog,
            sn_all = all_catalog, sn_publish_pending = True\<rparr>\<rparr>)"

end
