(* ===== verification/Video_Publication.thy ===== *)
theory Video_Publication
  imports Catalog_Payments
begin

text \<open>
  From transcoded files to a published video (\<open>crates/rust_admin/src/pipeline/\<close>): the final quote
  over the actual content, the upload under the approved plan, and the transaction that makes the
  video ready; and the requests that change a video (\<open>routes/admin.rs\<close>, \<open>upload.rs\<close>). The
  gateway, the file system and hashing are parameters; every transaction is one definition.
\<close>

section \<open>Recording renditions\<close>

definition reset_variants :: "int \<Rightarrow> job_lease option \<Rightarrow> string \<Rightarrow> admin_db \<Rightarrow> unit api \<times> admin_db" where
  "reset_variants now lease video_id = execute_fenced now lease (delete_variants video_id)"

record rendition_segment =
  rs_segment_index :: int
  rs_duration :: f64
  rs_byte_size :: int
  rs_local_path :: string

text \<open>\<open>ON CONFLICT (variant_id, segment_index) DO UPDATE\<close>.\<close>

definition upsert_segment :: "string \<Rightarrow> rendition_segment \<Rightarrow> segment_row list \<Rightarrow> segment_row list" where
  "upsert_segment variant_id s rows =
     (let same = (\<lambda>r. sr_variant_id r = variant_id \<and> sr_segment_index r = rs_segment_index s)
      in if exists_where same rows
         then update_where same (\<lambda>r. r\<lparr>sr_duration := rs_duration s, sr_byte_size := Some (rs_byte_size s),
                sr_local_path := Some (rs_local_path s)\<rparr>) rows
         else rows @ [\<lparr>sr_variant_id = variant_id, sr_segment_index = rs_segment_index s,
                sr_autonomi_address = None, sr_autonomi_cost_atto = None, sr_autonomi_payment_mode = None,
                sr_duration = rs_duration s, sr_byte_size = Some (rs_byte_size s),
                sr_local_path = Some (rs_local_path s)\<rparr>])"

definition insert_rendition ::
  "int \<Rightarrow> job_lease option \<Rightarrow> variant_row \<Rightarrow> rendition_segment list \<Rightarrow> admin_db \<Rightarrow> unit api \<times> admin_db"
where
  "insert_rendition now lease variant segments db =
     (case begin_fenced now lease db of
        Inl e \<Rightarrow> (Inl e, db)
      | Inr _ \<Rightarrow>
          if \<not> exists_where (\<lambda>v. vd_id v = vr_video_id variant) (videos db)
          then (Inl (db_error ''FOREIGN KEY constraint failed''), db)
          else if exists_where (\<lambda>r. vr_id r = vr_id variant) (video_variants db)
          then (Inl (db_error ''UNIQUE constraint failed''), db)
          else (Inr (), (insert_variant variant db)
            \<lparr>video_segments := fold (upsert_segment (vr_id variant)) segments (video_segments db)\<rparr>))"

section \<open>The final quote\<close>

record quote_env =
  qe_digest :: digest_fn
  qe_videos_digest :: "public_catalog_video list \<Rightarrow> string"
  qe_assert_under :: "string \<Rightarrow> string api"
  qe_sha256_file :: "string \<Rightarrow> string + u64 \<times> string"
  qe_file_cost :: "string \<Rightarrow> string \<Rightarrow> string + content_quote"
  qe_manifest_cost :: "video_manifest_document \<Rightarrow> string \<Rightarrow> string + content_quote"
  qe_catalog_cost :: cost_fn
  qe_payment_mode :: string
  qe_metadata_mode :: string
  qe_ttl :: int

definition catalog_digest ::
  "(public_catalog_video list \<Rightarrow> string) \<Rightarrow> public_catalog_document \<Rightarrow> string option \<Rightarrow> string"
where
  "catalog_digest videos_digest catalog exclude =
     videos_digest (sort_key pc_id (filter (\<lambda>v. Some (pc_id v) \<noteq> exclude) (pd_videos catalog)))"

fun map_res :: "('a \<Rightarrow> 'e + 'b) \<Rightarrow> 'a list \<Rightarrow> 'e + 'b list" where
  "map_res f [] = Inr []"
| "map_res f (x # xs) = rbind (f x) (\<lambda>y. rbind (map_res f xs) (\<lambda>ys. Inr (y # ys)))"

definition quote_segments :: "admin_db \<Rightarrow> string \<Rightarrow> segment_row list" where
  "quote_segments db video_id = concat (map (\<lambda>r. segments_of db (vr_id r))
     (sort_key (\<lambda>r. (- vr_height r, vr_id r)) (filter (\<lambda>r. vr_video_id r = video_id) (video_variants db))))"

text \<open>A path with the variant and the index of its segment; the original file has neither.\<close>

type_synonym quote_input = "string \<times> string option \<times> int option"

definition segment_input :: "segment_row \<Rightarrow> quote_input api" where
  "segment_input s = (case sr_local_path s of
     None \<Rightarrow> Inl (db_error ''unexpected null'')
   | Some path \<Rightarrow> Inr (path, Some (sr_variant_id s), Some (sr_segment_index s)))"

definition quote_inputs :: "admin_db \<Rightarrow> video_row \<Rightarrow> quote_input list api" where
  "quote_inputs db v =
     (let rows = quote_segments db (vd_id v)
      in if rows = [] \<or> length rows > 65536 then Inl (payment_api ''invalid transcoded segment count'')
         else rbind (map_res segment_input rows) (\<lambda>inputs.
           if vd_upload_original v
           then (case vd_job_source_path v of
                   None \<Rightarrow> Inl (db_error ''unexpected null'')
                 | Some path \<Rightarrow> Inr (inputs @ [(path, None, None)]))
           else Inr inputs))"

definition quote_file :: "quote_env \<Rightarrow> quote_input \<Rightarrow> planned_file api" where
  "quote_file env inp =
     (case inp of (raw, variant_id, segment_index) \<Rightarrow>
        rbind (qe_assert_under env raw) (\<lambda>path.
        rbind (map_err payment_api (qe_file_cost env path (qe_payment_mode env))) (\<lambda>quote.
        rbind (map_err payment_api (qe_sha256_file env path)) (\<lambda>(len, sha).
        if len \<noteq> cq_file_size quote \<or> sha \<noteq> cq_content_sha256 quote
        then Inl (payment_api ''content changed during final quote'')
        else Inr \<lparr>pf_path = path, pf_variant_id = variant_id, pf_segment_index = segment_index,
                  pf_quote = quote\<rparr>))))"

text \<open>The first element a predicate selects, changed where the change succeeds.\<close>

fun update_first :: "('a \<Rightarrow> bool) \<Rightarrow> ('a \<Rightarrow> 'a option) \<Rightarrow> 'a list \<Rightarrow> 'a list option" where
  "update_first P f [] = None"
| "update_first P f (x # xs) =
     (if P x then map_option (\<lambda>y. y # xs) (f x) else map_option (\<lambda>ys. x # ys) (update_first P f xs))"

definition i64_of_u64 :: "u64 \<Rightarrow> int api" where
  "i64_of_u64 w = (if unat w < 2 ^ 63 then Inr (int (unat w))
     else Inl (payment_api ''out of range integral type conversion attempted''))"

definition place_file :: "planned_file \<Rightarrow> video_manifest_document \<Rightarrow> video_manifest_document api" where
  "place_file file m =
     (case pf_variant_id file of
        Some variant_id \<Rightarrow>
          (case update_first (\<lambda>v. mv_id v = variant_id)
              (\<lambda>v. map_option (\<lambda>segments. v\<lparr>mv_segments := segments\<rparr>)
                (update_first (\<lambda>s. Some (ms_segment_index s) = pf_segment_index file)
                  (\<lambda>s. Some (s\<lparr>ms_autonomi_address := Some (cq_address (pf_quote file)),
                      ms_byte_size := Some (int (unat (cq_file_size (pf_quote file))))\<rparr>)) (mv_segments v)))
              (md_variants m) of
             None \<Rightarrow> Inl (payment_api ''quoted segment is absent from manifest'')
           | Some variants \<Rightarrow> rbind (i64_of_u64 (cq_file_size (pf_quote file)))
               (\<lambda>_. Inr (m\<lparr>md_variants := variants\<rparr>)))
      | None \<Rightarrow> rbind (i64_of_u64 (cq_file_size (pf_quote file))) (\<lambda>len.
          Inr (m\<lparr>md_original_file := Some \<lparr>mo_autonomi_address = cq_address (pf_quote file),
            mo_byte_size = Some len, mo_autonomi_cost_atto = None,
            mo_payment_mode = Some (cq_payment_mode (pf_quote file))\<rparr>\<rparr>)))"

fun place_files :: "planned_file list \<Rightarrow> video_manifest_document \<Rightarrow> video_manifest_document api" where
  "place_files [] m = Inr m"
| "place_files (file # files) m = rbind (place_file file m) (place_files files)"

definition planned_quotes ::
  "planned_file list \<Rightarrow> content_quote \<Rightarrow> content_quote \<Rightarrow> content_quote \<Rightarrow> content_quote list"
where
  "planned_quotes files manifest_quote catalog_quote all_catalog_quote =
     map pf_quote files @ [manifest_quote, catalog_quote, all_catalog_quote]"

definition quote_approval ::
  "quote_env \<Rightarrow> string \<Rightarrow> int \<Rightarrow> string \<Rightarrow> content_quote list \<Rightarrow> payment_approval api"
where
  "quote_approval env quote_id now network quotes =
     (if \<exists>q \<in> set quotes. cq_network q \<noteq> network then Inl (payment_api ''network changed during quote'')
      else
        rbind (sum_amounts ''quote sum overflow'' 0 (map cq_cost quotes)) (\<lambda>storage.
        rbind (sum_amounts ''quote sum overflow'' 0 (map cq_estimated_gas_cost_wei quotes)) (\<lambda>gas.
        let contents = map content_of_quote quotes;
            approval = \<lparr>pa_quote_id = quote_id, pa_content_digest = qe_digest env network contents,
              pa_network = network, pa_expires_at = now div 1000 + min (qe_ttl env) 86400,
              pa_max_storage_atto = u128_to_string storage, pa_max_gas_wei = u128_to_string gas,
              pa_contents = contents\<rparr>
        in rbind (map_err (payment_api \<circ> perror_text) (validate (qe_digest env) approval (now div 1000) network))
             (\<lambda>_. Inr approval))))"

definition quote_variant :: "planned_file list \<Rightarrow> manifest_variant \<Rightarrow> variant_quote api" where
  "quote_variant files v =
     (let quoted = map pf_quote (filter (\<lambda>f. pf_variant_id f = Some (mv_id v)) files)
      in rbind (sum_amounts ''variant cost overflow'' 0 (map cq_cost quoted)) (\<lambda>storage.
         rbind (sum_amounts ''variant gas overflow'' 0 (map cq_estimated_gas_cost_wei quoted)) (\<lambda>gas.
         Inr \<lparr>vq_resolution = mv_resolution v, vq_width = mv_width v, vq_height = mv_height v,
              vq_segment_count = mv_segment_count v, vq_bytes = sum_list (map cq_file_size quoted),
              vq_chunk_count = sum_list (map cq_chunk_count quoted),
              vq_storage_cost_atto = u128_to_string storage, vq_estimated_gas_cost_wei = u128_to_string gas\<rparr>)))"

text \<open>The new entry heads the catalog that will list the video.\<close>

definition planned_catalog ::
  "public_catalog_document \<Rightarrow> string \<Rightarrow> public_catalog_video \<Rightarrow> public_catalog_document"
where
  "planned_catalog base video_id entry =
     base\<lparr>pd_videos := entry # filter (\<lambda>v. pc_id v \<noteq> video_id) (pd_videos base)\<rparr>"

record quote_reads =
  qr_files :: admin_db
  qr_manifest :: admin_db
  qr_revision :: admin_db
  qr_catalog :: admin_db
  qr_entry :: admin_db
  qr_end :: admin_db

text \<open>
  \<open>reads\<close> gives the database at each point where the code reads it: other requests run between
  them.
\<close>

definition build_final_upload_quote ::
  "quote_env \<Rightarrow> string \<Rightarrow> int \<Rightarrow> string \<Rightarrow> quote_reads \<Rightarrow> final_quote api"
where
  "build_final_upload_quote env quote_id now video_id reads =
     (case fetch_optional (\<lambda>v. vd_id v = video_id) (videos (qr_files reads)) of
        None \<Rightarrow> Inl (db_error ''no rows returned'')
      | Some video \<Rightarrow>
        rbind (quote_inputs (qr_files reads) video) (\<lambda>inputs.
        rbind (map_res (quote_file env) inputs) (\<lambda>files.
        rbind (build_manifest_from_db (qr_manifest reads) video_id True) (\<lambda>draft.
        rbind (place_files files (draft\<lparr>md_updated_at := now\<rparr>)) (\<lambda>manifest.
        rbind (map_err payment_api (qe_manifest_cost env manifest (qe_metadata_mode env))) (\<lambda>manifest_quote.
        let base_revision = catalog_generation (qr_revision reads);
            base = build_all_catalog_from_db now (qr_catalog reads);
            base_digest = catalog_digest (qe_videos_digest env) base (Some video_id);
            publish = vd_publish_when_ready video
        in rbind (build_catalog_entry_from_db (qr_entry reads) video_id (cq_address manifest_quote)) (\<lambda>entry.
        let all_catalog = planned_catalog base video_id
              (entry\<lparr>pc_is_public := publish, pc_updated_at := md_updated_at manifest\<rparr>);
            catalog = published_part all_catalog
        in rbind (map_err payment_api (qe_catalog_cost env catalog (qe_metadata_mode env))) (\<lambda>catalog_quote.
        rbind (map_err payment_api (qe_catalog_cost env all_catalog (qe_metadata_mode env))) (\<lambda>all_catalog_quote.
        let quotes = planned_quotes files manifest_quote catalog_quote all_catalog_quote
        in rbind (quote_approval env quote_id now (cq_network manifest_quote) quotes) (\<lambda>approval.
        rbind (map_res (quote_variant files) (md_variants manifest)) (\<lambda>variants.
        if catalog_generation (qr_end reads) \<noteq> base_revision
        then Inl (payment_api ''Catalog changed during quoting; retry quote preparation'')
        else Inr
          \<lparr>fq_plan = Some \<lparr>up_approval = approval, up_files = files, up_manifest = manifest,
              up_manifest_quote = manifest_quote, up_catalog = catalog, up_catalog_quote = catalog_quote,
              up_all_catalog = all_catalog, up_all_catalog_quote = all_catalog_quote,
              up_base_catalog_digest = base_digest, up_base_revision = base_revision,
              up_publish = publish\<rparr>,
           fq_storage_cost_atto = pa_max_storage_atto approval,
           fq_estimated_gas_cost_wei = pa_max_gas_wei approval,
           fq_media_bytes = sum_list (map (cq_file_size \<circ> pf_quote) files),
           fq_metadata_bytes = cq_file_size manifest_quote + cq_file_size catalog_quote + cq_file_size all_catalog_quote,
           fq_segment_count = length (filter (\<lambda>f. pf_variant_id f \<noteq> None) files),
           fq_chunk_count = sum_list (map cq_chunk_count quotes),
           fq_variants = variants\<rparr>)))))))))))"

section \<open>Uploading under the approved plan\<close>

definition check_catalog :: "quote_env \<Rightarrow> upload_plan \<Rightarrow> string \<Rightarrow> admin_db \<Rightarrow> unit api" where
  "check_catalog env plan video_id db =
     (if catalog_digest (qe_videos_digest env) (build_all_catalog_from_db 0 db) (Some video_id)
         \<noteq> up_base_catalog_digest plan
      then Inl (payment_api ''approval_required: catalog changed; regenerate the quote before publishing'')
      else Inr ())"

definition check_file :: "quote_env \<Rightarrow> planned_file \<Rightarrow> unit api" where
  "check_file env file =
     rbind (qe_assert_under env (pf_path file)) (\<lambda>path.
     rbind (map_err payment_api (qe_sha256_file env path)) (\<lambda>(len, sha).
     if len \<noteq> cq_file_size (pf_quote file) \<or> sha \<noteq> cq_content_sha256 (pf_quote file)
     then Inl (payment_api ''approval_required: media changed after quote'') else Inr ()))"

definition upload_begin :: "quote_env \<Rightarrow> int \<Rightarrow> string \<Rightarrow> admin_db \<Rightarrow> admin_db \<Rightarrow> upload_plan api" where
  "upload_begin env now video_id db1 db2 =
     (case fetch_optional (\<lambda>v. vd_id v = video_id) (videos db1) of
        None \<Rightarrow> Inl (db_error ''no rows returned'')
      | Some v \<Rightarrow>
        (case vd_final_quote v of
           None \<Rightarrow> Inl (db_error ''unexpected null'')
         | Some quote \<Rightarrow>
           (case fq_plan quote of
              None \<Rightarrow> Inl (payment_api ''approval_required: legacy quote must be regenerated'')
            | Some plan \<Rightarrow>
                if vd_approved_quote_id v \<noteq> Some (pa_quote_id (up_approval plan))
                then Inl (payment_api ''approval_required: this quote has not been approved'')
                else
                  rbind (map_err (payment_api \<circ> perror_text)
                    (validate (qe_digest env) (up_approval plan) (now div 1000) (pa_network (up_approval plan)))) (\<lambda>_.
                  rbind (check_catalog env plan video_id db2) (\<lambda>_.
                  rbind (map_res (check_file env) (up_files plan)) (\<lambda>_. Inr plan))))))"

record file_result =
  fr_address :: string
  fr_byte_size :: u64
  fr_chunks_failed :: nat
  fr_chunks_stored :: nat
  fr_total_chunks :: nat
  fr_verified :: bool
  fr_storage_cost_atto :: string
  fr_payment_mode_used :: string

definition check_upload :: "bool \<Rightarrow> planned_file \<Rightarrow> file_result \<Rightarrow> unit api" where
  "check_upload verify file r =
     (if fr_address r \<noteq> cq_address (pf_quote file) \<or> fr_byte_size r \<noteq> cq_file_size (pf_quote file)
         \<or> fr_chunks_failed r \<noteq> 0 \<or> fr_chunks_stored r \<noteq> fr_total_chunks r \<or> (verify \<and> \<not> fr_verified r)
      then Inl (payment_api ''payment_recovery_required: incomplete or unexpected upload result'')
      else Inr ())"

definition record_upload ::
  "bool \<Rightarrow> int \<Rightarrow> job_lease option \<Rightarrow> string \<Rightarrow> planned_file \<Rightarrow> file_result \<Rightarrow> admin_db \<Rightarrow> unit api \<times> admin_db"
where
  "record_upload verify now lease video_id file r db =
     (case rbind (check_upload verify file r) (\<lambda>_. i64_of_u64 (fr_byte_size r)) of
        Inl e \<Rightarrow> (paid_phase (Inl e), db)
      | Inr len \<Rightarrow>
          (case execute_fenced now lease
             (\<lambda>db. case pf_variant_id file of
                Some variant_id \<Rightarrow> db\<lparr>video_segments := update_where
                  (\<lambda>s. sr_variant_id s = variant_id \<and> Some (sr_segment_index s) = pf_segment_index file)
                  (\<lambda>s. s\<lparr>sr_autonomi_address := Some (fr_address r),
                         sr_autonomi_cost_atto := Some (fr_storage_cost_atto r),
                         sr_autonomi_payment_mode := Some (fr_payment_mode_used r),
                         sr_byte_size := Some len\<rparr>) (video_segments db)\<rparr>
              | None \<Rightarrow> db\<lparr>videos := update_where (\<lambda>v. vd_id v = video_id)
                  (\<lambda>v. v\<lparr>vd_original_file_address := Some (fr_address r),
                         vd_original_file_cost := Some (fr_storage_cost_atto r),
                         vd_original_file_payment_mode := Some (fr_payment_mode_used r),
                         vd_original_file_byte_size := Some len\<rparr>) (videos db)\<rparr>) db of
             (r', db') \<Rightarrow> (paid_phase r', db')))"

definition store_planned :: "('d \<Rightarrow> string \<Rightarrow> string + string) \<Rightarrow> 'd \<Rightarrow> content_quote \<Rightarrow> unit api" where
  "store_planned put document quote =
     rbind (map_err payment_api (put document (cq_payment_mode quote))) (\<lambda>address.
     if address \<noteq> cq_address quote
     then Inl (payment_api ''payment_recovery_required: stored metadata address differs from approval'')
     else Inr ())"

definition store_manifest ::
  "(video_manifest_document \<Rightarrow> string \<Rightarrow> string + string) \<Rightarrow> upload_plan \<Rightarrow> unit api"
where
  "store_manifest put plan = paid_phase (store_planned put (up_manifest plan) (up_manifest_quote plan))"

definition upload_commit ::
  "int \<Rightarrow> job_lease option \<Rightarrow> string \<Rightarrow> upload_plan \<Rightarrow> admin_db \<Rightarrow> unit api \<times> admin_db"
where
  "upload_commit now lease video_id plan db =
     (case rbind (begin_fenced now lease db) (\<lambda>_. assert_catalog_revision (up_base_revision plan) db) of
        Inl e \<Rightarrow> (paid_phase (Inl e), db)
      | Inr _ \<Rightarrow> (Inr (),
          (set_catalog_addresses (cq_address (up_catalog_quote plan)) (cq_address (up_all_catalog_quote plan))
            (update_videos (\<lambda>v. vd_id v = video_id)
              (\<lambda>v. v\<lparr>vd_status := ''ready'',
                     vd_manifest_address := Some (cq_address (up_manifest_quote plan)),
                     vd_is_public := up_publish plan, vd_approval_expires_at := None,
                     vd_error_message := None, vd_updated_at := md_updated_at (up_manifest plan)\<rparr>) db))
            \<lparr>catalog_snapshot_row := Some (snapshot_of (up_catalog plan) (up_catalog_quote plan)
                 (up_all_catalog plan) (up_all_catalog_quote plan))\<rparr>))"

section \<open>Requests on a video\<close>

text \<open>The transactions answer whether the local catalog has to be refreshed and published.\<close>

definition update_video_visibility :: "int \<Rightarrow> string \<Rightarrow> bool \<Rightarrow> admin_db \<Rightarrow> bool api \<times> admin_db" where
  "update_video_visibility now video_id show_address db =
     (case fetch_optional (\<lambda>v. vd_id v = video_id) (videos db) of
        None \<Rightarrow> (Inl (Api 404 ''Video not found''), db)
      | Some v \<Rightarrow>
          (let changed = (vd_show_original_filename v \<or> vd_show_manifest_address v \<noteq> show_address)
           in (Inr (changed \<and> is_ready v \<and> vd_is_public v),
               update_videos (\<lambda>v. vd_id v = video_id)
                 (\<lambda>v. v\<lparr>vd_show_original_filename := False, vd_show_manifest_address := show_address,
                        vd_updated_at := (if changed then now else vd_updated_at v)\<rparr>) db)))"

text \<open>\<open>db1\<close> is the database of the preparing read.\<close>

definition prepared_manifest :: "string \<Rightarrow> bool \<Rightarrow> admin_db \<Rightarrow> string option api" where
  "prepared_manifest video_id public db1 =
     (if \<not> public then Inr None
      else
        (case fetch_optional (\<lambda>v. vd_id v = video_id) (videos db1) of
           None \<Rightarrow> Inl (Api 404 ''Video not found'')
         | Some v \<Rightarrow>
             if \<not> is_ready v then Inl (Api 409 ''Only ready videos can be published'')
             else
               (case vd_manifest_address v of
                  Some address \<Rightarrow> Inr (Some address)
                | None \<Rightarrow> Inl (Api 409
                    ''This legacy video has no stored manifest. Regenerate and approve its content quote before publication.''))))"

definition update_video_publication ::
  "int \<Rightarrow> string \<Rightarrow> bool \<Rightarrow> string option \<Rightarrow> admin_db \<Rightarrow> bool api \<times> admin_db"
where
  "update_video_publication now video_id public prepared db =
     (case fetch_optional (\<lambda>v. vd_id v = video_id) (videos db) of
        None \<Rightarrow> (Inl (Api 404 ''Video not found''), db)
      | Some v \<Rightarrow>
          if public \<and> \<not> is_ready v then (Inl (Api 409 ''Only ready videos can be published''), db)
          else
            (let existing = vd_manifest_address v;
                 address = (if public then (case existing of None \<Rightarrow> prepared | Some a \<Rightarrow> Some a) else None)
             in if public \<and> address = None then (Inl (Api 409 ''Manifest address is missing''), db)
                else
                  (let changed = (if public then \<not> vd_is_public v \<or> existing \<noteq> address else vd_is_public v)
                   in (Inr changed,
                       update_videos (\<lambda>v. vd_id v = video_id)
                         (\<lambda>v. v\<lparr>vd_is_public := public,
                                vd_manifest_address := (case address of None \<Rightarrow> vd_manifest_address v | Some a \<Rightarrow> Some a),
                                vd_updated_at := (if changed then now else vd_updated_at v)\<rparr>) db))))"

definition delete_video :: "string \<Rightarrow> admin_db \<Rightarrow> (bool \<times> string option) api \<times> admin_db" where
  "delete_video video_id db =
     (case fetch_optional (\<lambda>v. vd_id v = video_id) (videos db) of
        None \<Rightarrow> (Inl (Api 404 ''Video not found''), db)
      | Some v \<Rightarrow> (Inr (is_ready v \<and> vd_is_public v, vd_job_dir v), delete_video_rows video_id db))"

record accepted_fields =
  af_title :: string
  af_original_filename :: string
  af_description :: string
  af_job_dir :: string
  af_source_path :: string
  af_resolutions :: "string list"
  af_encode_settings :: encode_settings
  af_show_manifest_address :: bool
  af_upload_original :: bool
  af_publish_when_ready :: bool
  af_username :: string

definition accepted_video :: "int \<Rightarrow> string \<Rightarrow> accepted_fields \<Rightarrow> video_row" where
  "accepted_video now video_id a = \<lparr>vd_id = video_id, vd_title = af_title a,
     vd_original_filename = af_original_filename a,
     vd_description = (if af_description a = [] then None else Some (af_description a)),
     vd_status = ''pending'', vd_manifest_address = None, vd_catalog_address = None,
     vd_all_catalog_address = None, vd_error_message = None, vd_job_dir = Some (af_job_dir a),
     vd_job_source_path = Some (af_source_path a), vd_requested_resolutions = Some (af_resolutions a),
     vd_encode_settings = Some (af_encode_settings a), vd_final_quote = None,
     vd_final_quote_created_at = None, vd_approval_expires_at = None, vd_is_public = False,
     vd_show_original_filename = False, vd_show_manifest_address = af_show_manifest_address a,
     vd_upload_original = af_upload_original a, vd_original_file_address = None,
     vd_original_file_byte_size = None, vd_original_file_cost = None, vd_original_file_payment_mode = None,
     vd_publish_when_ready = af_publish_when_ready a, vd_created_at = now, vd_updated_at = now,
     vd_user_id = Some (af_username a), vd_approved_quote_id = None\<rparr>"

definition accept_video :: "int \<Rightarrow> string \<Rightarrow> accepted_fields \<Rightarrow> admin_db \<Rightarrow> unit api \<times> admin_db" where
  "accept_video now video_id a db =
     (if exists_where (\<lambda>v. vd_id v = video_id) (videos db)
      then (Inl (db_error ''UNIQUE constraint failed''), db)
      else (Inr (), insert_video (accepted_video now video_id a) db))"

end
