(* ===== verification/Admin_Runs.thy ===== *)
theory Admin_Runs
  imports Video_Publication
begin

text \<open>
  The admin service as a transition system: every transaction on its database is an event, a run is
  a list of events in the order of their commits. Two facts hold of every event: the catalog
  revision detects each change of the catalog, and the job table changes only in known ways.
\<close>

section \<open>Transactions as events\<close>

record admin_config =
  cfg_lease_seconds :: int
  cfg_max_attempts :: int
  cfg_publish_attempts :: int
  cfg_upload_verify :: bool

text \<open>An event carries the answers of the gateway and of the file system it used.\<close>

datatype admin_op =
    Acquire string
  | Renew leased_job
  | Succeed leased_job
  | Interrupt string string
  | Fail leased_job string bool
  | EnqueueVideo string job_kind string
  | EnqueuePublish string
  | Recover "video_row \<Rightarrow> bool" "string \<Rightarrow> string" bool string
  | ExpireApprovals
  | SetStatus "job_lease option" string string "string option"
  | SetAwaiting "job_lease option" string final_quote int
  | ApproveVideo approval_env string approval_request
  | Requote string
  | ResumeVideo string
  | PrepareCatalog "job_lease option" catalog_plan
  | ApproveCatalog "string + unit" string approval_request
  | FinalizeBegin "job_lease option"
  | FinalizeCommit "job_lease option" catalog_plan
  | ResumeCatalog
  | RefreshCatalog "string option \<times> string option"
  | ResetVariants "job_lease option" string
  | InsertRendition "job_lease option" variant_row "rendition_segment list"
  | RecordUpload "job_lease option" string planned_file file_result
  | UploadCommit "job_lease option" string upload_plan
  | SetVisibility string bool
  | SetPublication string bool "string option"
  | DeleteVideo string
  | AcceptVideo string accepted_fields

fun admin_exec :: "admin_config \<Rightarrow> int \<times> admin_op \<Rightarrow> admin_db \<Rightarrow> admin_db" where
  "admin_exec cfg (now, Acquire worker) db = snd (acquire_next_job now (cfg_lease_seconds cfg) worker db)"
| "admin_exec cfg (now, Renew job) db = snd (renew_lease now (cfg_lease_seconds cfg) job db)"
| "admin_exec cfg (now, Succeed job) db = snd (mark_job_succeeded now job db)"
| "admin_exec cfg (now, Interrupt job_id worker) db = mark_job_interrupted now job_id worker db"
| "admin_exec cfg (now, Fail job detail cancelled) db =
     snd (mark_job_failed (\<lambda>_ _. cancelled) now job detail db)"
| "admin_exec cfg (now, EnqueueVideo job_id kind video) db =
     enqueue_video_job now (cfg_max_attempts cfg) job_id kind video db"
| "admin_exec cfg (now, EnqueuePublish job_id) db =
     enqueue_catalog_publish_job now (cfg_publish_attempts cfg) job_id db"
| "admin_exec cfg (now, Recover recoverable fresh pending job_id) db =
     recover_interrupted_jobs now (cfg_max_attempts cfg) recoverable fresh pending
       (cfg_publish_attempts cfg) job_id db"
| "admin_exec cfg (now, ExpireApprovals) db = snd (cleanup_expired_approvals now db)"
| "admin_exec cfg (now, SetStatus lease video status msg) db = snd (set_status now lease video status msg db)"
| "admin_exec cfg (now, SetAwaiting lease video quote expires) db =
     snd (set_awaiting_approval now lease video quote expires db)"
| "admin_exec cfg (now, ApproveVideo env video request) db = snd (approve_video env now video request db)"
| "admin_exec cfg (now, Requote video) db = snd (requote_video now video db)"
| "admin_exec cfg (now, ResumeVideo video) db = snd (resume_video now video db)"
| "admin_exec cfg (now, PrepareCatalog lease plan) db = snd (prepare_commit now lease plan db)"
| "admin_exec cfg (now, ApproveCatalog answer job_id request) db =
     snd (approve_catalog (\<lambda>_. answer) now (cfg_publish_attempts cfg) job_id request db)"
| "admin_exec cfg (now, FinalizeBegin lease) db = snd (finalize_begin now lease db)"
| "admin_exec cfg (now, FinalizeCommit lease plan) db = snd (finalize_commit now lease plan db)"
| "admin_exec cfg (now, ResumeCatalog) db = snd (resume_catalog now db)"
| "admin_exec cfg (now, RefreshCatalog previous) db = refresh_local_catalog_from_db now previous db"
| "admin_exec cfg (now, ResetVariants lease video) db = snd (reset_variants now lease video db)"
| "admin_exec cfg (now, InsertRendition lease variant segments) db =
     snd (insert_rendition now lease variant segments db)"
| "admin_exec cfg (now, RecordUpload lease video file result) db =
     snd (record_upload (cfg_upload_verify cfg) now lease video file result db)"
| "admin_exec cfg (now, UploadCommit lease video plan) db = snd (upload_commit now lease video plan db)"
| "admin_exec cfg (now, SetVisibility video b) db = snd (update_video_visibility now video b db)"
| "admin_exec cfg (now, SetPublication video b prepared) db =
     snd (update_video_publication now video b prepared db)"
| "admin_exec cfg (now, DeleteVideo video) db = snd (delete_video video db)"
| "admin_exec cfg (now, AcceptVideo video form) db = snd (accept_video now video form db)"

section \<open>Every event respects the revision\<close>

lemma revised_jobs [simp]: "revised db (db\<lparr>video_jobs := rows\<rparr>)"
  and revised_approvals [simp]: "revised db (db\<lparr>catalog_approvals := cs\<rparr>)"
  and revised_snapshot [simp]: "revised db (db\<lparr>catalog_snapshot_row := sn\<rparr>)"
  and revised_segments [simp]: "revised db (db\<lparr>video_segments := ss\<rparr>)"
  by (simp_all add: revised_same)

lemma revised_execute_fenced:
  "(\<And>db. revised db (query db)) \<Longrightarrow> revised db (snd (execute_fenced now lease query db))"
  by (simp add: execute_fenced_def split: sum.split)

lemma revised_set_status: "revised db (snd (set_status now lease v st m db))"
  and revised_set_awaiting: "revised db (snd (set_awaiting_approval now lease v q e db))"
  and revised_expire: "revised db (snd (cleanup_expired_approvals now db))"
  and revised_reset: "revised db (snd (reset_variants now lease v db))"
  by (simp_all add: set_status_def set_awaiting_approval_def cleanup_expired_approvals_def Let_def
      reset_variants_def revised_execute_fenced revised_intros)

lemma revised_enqueue: "revised db (enqueue_video_job now m job_id kind v db)"
  and revised_publish: "revised db (enqueue_catalog_publish_job now m job_id db)"
  by (simp_all add: enqueue_video_job_def enqueue_catalog_publish_job_def)

lemma revised_addresses: "revised db (set_catalog_addresses a b db)"
  unfolding set_catalog_addresses_def
  by (rule revised_listing [where P = is_ready and
        f = "\<lambda>v. v\<lparr>vd_catalog_address := Some a, vd_all_catalog_address := Some b\<rparr>"])
    (simp_all add: same_listing_def)

lemma revised_with: "revised db db' \<Longrightarrow> revised db (db'\<lparr>video_jobs := rows\<rparr>)"
  "revised db db' \<Longrightarrow> revised db (db'\<lparr>catalog_approvals := cs\<rparr>)"
  "revised db db' \<Longrightarrow> revised db (db'\<lparr>catalog_snapshot_row := sn\<rparr>)"
  "revised db db' \<Longrightarrow> revised db (db'\<lparr>video_segments := ss\<rparr>)"
  by (auto intro: revised_trans)

lemma revised_after: "revised db db' \<Longrightarrow> revised db (update_videos P f db')"
  "revised db db' \<Longrightarrow> revised db (enqueue_video_job now m job_id kind v db')"
  "revised db db' \<Longrightarrow> revised db (enqueue_catalog_publish_job now m job_id db')"
  "revised db db' \<Longrightarrow> revised db (set_catalog_addresses a b db')"
  by (blast intro: revised_trans revised_update_videos revised_enqueue revised_publish revised_addresses)+

lemma revised_succeed: "revised db (snd (mark_job_succeeded now job db))"
proof -
  have "revised db (db\<lparr>video_jobs := rows, videos := update_where P
      (\<lambda>v. v\<lparr>vd_job_dir := None, vd_job_source_path := None\<rparr>) (videos db)\<rparr>)" for rows P
    by (rule revised_listing [where P = P and f = "\<lambda>v. v\<lparr>vd_job_dir := None, vd_job_source_path := None\<rparr>"])
      (simp_all add: same_listing_def)
  then show ?thesis by (simp add: mark_job_succeeded_def Let_def)
qed

lemma revised_fail: "revised db (snd (mark_job_failed cancel now job detail db))"
  by (simp add: mark_job_failed_def fail_finally_def Let_def split_beta revised_after revised_with
      split: option.split)

lemma revised_recover: "revised db (recover_interrupted_jobs now m ok fresh pending pm pid db)"
proof -
  have video: "revised db (recover_video now m ok fresh v db)" for v db
    by (simp add: recover_video_def revised_set_status revised_enqueue)
  have "revised db (fold (recover_video now m ok fresh) vs db)" for vs db
    by (induction vs arbitrary: db) (auto intro: revised_trans video)
  then have "revised db (fold (recover_video now m ok fresh) vs (requeue_expired now db))" for vs
    by (rule revised_trans [rotated]) (simp add: requeue_expired_def)
  then show ?thesis by (simp add: recover_interrupted_jobs_def Let_def revised_after)
qed

lemma revised_approve: "revised db (snd (approve_video env now v request db))"
  by (simp add: approve_video_def revised_intros split: option.split sum.split)

lemma revised_record_upload: "revised db (snd (record_upload verify now lease v file r db))"
proof -
  have listing: "revised db (db\<lparr>videos := update_where (\<lambda>v. vd_id v = w)
      (\<lambda>v. v\<lparr>vd_original_file_address := a, vd_original_file_cost := b,
         vd_original_file_payment_mode := c, vd_original_file_byte_size := d\<rparr>) (videos db)\<rparr>)" for db w a b c d
    by (rule revised_listing [where P = "\<lambda>v. vd_id v = w" and f = "\<lambda>v. v\<lparr>vd_original_file_address := a,
         vd_original_file_cost := b, vd_original_file_payment_mode := c, vd_original_file_byte_size := d\<rparr>"])
      (simp_all add: same_listing_def)
  show ?thesis
    by (auto simp: record_upload_def split_beta listing split: sum.split option.split
        intro!: revised_execute_fenced)
qed

lemmas revised_handlers = revised_set_status revised_set_awaiting revised_expire revised_reset revised_enqueue
  revised_publish revised_addresses revised_succeed revised_fail revised_recover revised_approve
  revised_record_upload

lemma revised_exec: "revised db (admin_exec cfg ev db)"
proof -
  obtain now op where ev: "ev = (now, op)" by (cases ev)
  show ?thesis
  proof (cases op)
    case (Acquire worker)
    then show ?thesis by (simp add: ev acquire_next_job_def Let_def split: option.split)
  next
    case (FinalizeBegin lease)
    have "revised db (snd (execute_fenced now lease (\<lambda>db. db\<lparr>catalog_approvals := set_approval q st m
        (catalog_approvals db)\<rparr>) db))" for q st m
      by (rule revised_execute_fenced) simp
    then have "execute_fenced now lease (\<lambda>db. db\<lparr>catalog_approvals := set_approval q st m
        (catalog_approvals db)\<rparr>) db = (r, db') \<Longrightarrow> revised db db'" for q st m r db'
      by (metis snd_conv)
    with FinalizeBegin show ?thesis by (auto simp: ev finalize_begin_def split: option.split prod.split sum.split)
  qed (auto simp: ev revised_handlers renew_lease_def mark_job_interrupted_def requote_video_def
      resume_video_def prepare_commit_def approve_catalog_def finalize_commit_def resume_catalog_def
      refresh_local_catalog_from_db_def insert_rendition_def upload_commit_def update_video_visibility_def
      update_video_publication_def delete_video_def accept_video_def Let_def split_beta revised_intros revised_after revised_with
      split: option.split sum.split)
qed

section \<open>Changes of the job table\<close>

text \<open>
  Every operation changes the job table by an acquisition, by rewriting rows in place without
  raising an attempt count, or by appending a fresh row the indexes accept.
\<close>

definition row_change :: "job_row \<Rightarrow> job_row \<Rightarrow> bool" where
  "row_change r r' \<longleftrightarrow> jb_id r' = jb_id r \<and> jb_kind r' = jb_kind r \<and> jb_video_id r' = jb_video_id r \<and>
     jb_attempts r' = jb_attempts r \<and> jb_payment_quote_id r' = jb_payment_quote_id r \<and>
     (jb_status r' = ''running'' \<longrightarrow> jb_status r = ''running'' \<and> jb_lease_owner r' = jb_lease_owner r)"

text \<open>\<open>Q\<close> says which rows may be queued anew, and which new rows may carry a payment quote.\<close>

inductive jobs_change :: "(job_row \<Rightarrow> bool) \<Rightarrow> job_row list \<Rightarrow> job_row list \<Rightarrow> bool" for Q where
  refl: "jobs_change Q rows rows"
| update: "jobs_change Q rows (update_where P f rows)"
    if "\<And>r. P r \<Longrightarrow> row_change r (f r) \<and> (active (f r) \<longrightarrow> active r)"
| requeue: "jobs_change Q rows (update_where (\<lambda>x. jb_id x = jb_id r) (requeued now) rows)"
    if "r \<in> set rows" "\<forall>x \<in> set rows. jb_id x \<noteq> jb_id r \<longrightarrow> \<not> index_conflict (requeued now r) x" "Q r"
| insert: "jobs_change Q rows (rows @ [r])"
    if "\<forall>x \<in> set rows. \<not> index_conflict r x" "jb_status r = ''queued''" "jb_attempts r = 0"
      "kind_parse (jb_kind r) \<noteq> None" "jb_payment_quote_id r = None \<or> Q r \<and> jb_kind r = ''finalize_catalog''"
| trans: "jobs_change Q a b \<Longrightarrow> jobs_change Q b c \<Longrightarrow> jobs_change Q a c"

lemma kind_parse_as_str [simp]: "kind_parse (kind_as_str k) = Some k"
  by (cases k) (simp_all add: kind_parse_def)

lemma kind_parse_consts [simp]:
  "kind_parse ''publish_catalog'' = Some PublishCatalog" "kind_parse ''finalize_catalog'' = Some FinalizeCatalog"
  by (simp_all add: kind_parse_def)

lemma update_videos_simps [simp]:
  "video_jobs (update_videos P f db) = video_jobs db"
  "catalog_approvals (update_videos P f db) = catalog_approvals db"
  "video_variants (update_videos P f db) = video_variants db"
  "videos (update_videos P f db) = update_where P f (videos db)"
  by (simp_all add: update_videos_def)

lemma change_insert: "jobs_change Q rows (insert_or_ignore r rows)"
  if "jb_status r = ''queued''" "jb_attempts r = 0" "kind_parse (jb_kind r) \<noteq> None"
    "jb_payment_quote_id r = None"
  using that by (auto simp: insert_or_ignore_def intro: jobs_change.intros)

lemma change_enqueue: "jobs_change Q (video_jobs db) (video_jobs (enqueue_video_job now m job_id kind v db))"
  by (auto simp: enqueue_video_job_def new_job_def intro: jobs_change.refl change_insert)

lemma change_publish: "jobs_change Q (video_jobs db) (video_jobs (enqueue_catalog_publish_job now m job_id db))"
  by (auto simp: enqueue_catalog_publish_job_def new_job_def intro: jobs_change.refl change_insert)

lemma change_owned:
  "(\<And>r. row_change r (f r) \<and> (active (f r) \<longrightarrow> active r)) \<Longrightarrow>
     jobs_change Q rows (update_where (owned now job) f rows)"
  by (rule jobs_change.update) simp

lemma newest_in: "newest rows = Some r \<Longrightarrow> r \<in> set rows"
  by (induction rows arbitrary: r) (auto split: option.splits if_splits)

lemma change_requeue_failed:
  assumes "requeue_failed now P e rows = Inr rows'" "\<And>r. P r \<Longrightarrow> Q r"
  shows "jobs_change Q rows rows'"
proof -
  from assms(1) obtain r where newest: "newest (filter (\<lambda>r. P r \<and> jb_status r = ''failed'') rows) = Some r"
    and ok: "\<not> exists_where (\<lambda>x. jb_id x \<noteq> jb_id r \<and> index_conflict (requeued now r) x) rows"
    and rows': "rows' = update_where (\<lambda>x. jb_id x = jb_id r) (requeued now) rows"
    by (auto simp: requeue_failed_def split: option.splits if_splits)
  from newest_in [OF newest] assms(2) have "r \<in> set rows" "Q r" by simp_all
  then show ?thesis unfolding rows' using ok by (intro jobs_change.requeue) auto
qed

lemma execute_fenced_jobs:
  "(\<And>db. video_jobs (query db) = video_jobs db) \<Longrightarrow> video_jobs (snd (execute_fenced now lease query db)) = video_jobs db"
  by (simp add: execute_fenced_def split: sum.splits)

lemma set_status_jobs: "video_jobs (snd (set_status now l v st m db)) = video_jobs db"
  and set_awaiting_jobs: "video_jobs (snd (set_awaiting_approval now l v q e db)) = video_jobs db"
  and cleanup_jobs: "video_jobs (snd (cleanup_expired_approvals now db)) = video_jobs db"
  by (simp_all add: set_status_def set_awaiting_approval_def cleanup_expired_approvals_def
      execute_fenced_jobs Let_def)

lemma change_fail_finally:
  "jobs_change Q (video_jobs db) (video_jobs (snd (fail_finally cancel now job detail db)))"
proof (cases "fetch_optional (owned now job) (video_jobs db)")
  case None
  then show ?thesis by (simp add: fail_finally_def jobs_change.refl)
next
  case (Some r)
  have "jobs_change Q (video_jobs db) (update_where (owned now job)
      (\<lambda>x. x\<lparr>jb_status := ''failed'', jb_lease_owner := None, jb_lease_expires_at := None,
         jb_last_error := Some d, jb_updated_at := now\<rparr>) (video_jobs db))" for d
    by (rule change_owned) (simp add: row_change_def active_def)
  with Some show ?thesis
    by (auto simp: fail_finally_def Let_def split_beta split: option.splits intro: jobs_change.refl)
qed

lemma change_recover_video:
  "jobs_change Q (video_jobs db) (video_jobs (recover_video now m ok fresh v db))"
  by (simp add: recover_video_def set_status_jobs change_enqueue jobs_change.refl)

lemma change_recover:
  "jobs_change Q (video_jobs db) (video_jobs (recover_interrupted_jobs now m ok fresh pending pm pid db))"
proof -
  have requeue: "jobs_change Q (video_jobs db) (video_jobs (requeue_expired now db))"
    unfolding requeue_expired_def
    by (simp, rule jobs_change.update) (auto simp: row_change_def active_def)
  have "jobs_change Q (video_jobs db) (video_jobs (fold (recover_video now m ok fresh) vs db))" for vs db
    by (induction vs arbitrary: db) (auto intro: jobs_change.refl jobs_change.trans change_recover_video)
  then have "jobs_change Q (video_jobs db) (video_jobs (fold (recover_video now m ok fresh)
      (interrupted_videos now (requeue_expired now db)) (requeue_expired now db)))" (is "jobs_change Q _ (video_jobs ?d)")
    using requeue by (blast intro: jobs_change.trans)
  moreover from this have "jobs_change Q (video_jobs db) (video_jobs (enqueue_catalog_publish_job now pm pid ?d))"
    by (rule jobs_change.trans [OF _ change_publish])
  ultimately show ?thesis by (simp add: recover_interrupted_jobs_def Let_def)
qed

lemma change_enqueue_after:
  "video_jobs db' = video_jobs db \<Longrightarrow>
   jobs_change Q (video_jobs db) (video_jobs (enqueue_video_job now m job_id kind v db'))"
  using change_enqueue [of Q db'] by simp

lemma change_approve:
  "jobs_change Q (video_jobs db) (video_jobs (snd (approve_video env now v request db)))"
  by (simp add: approve_video_def jobs_change.refl split: option.split sum.split)

text \<open>Every event but an acquisition and a deletion changes the job table in these ways.\<close>

lemma change_finalize_begin: "video_jobs (snd (finalize_begin now lease db)) = video_jobs db"
proof -
  have "execute_fenced now lease (\<lambda>db. db\<lparr>catalog_approvals := set_approval q st m
      (catalog_approvals db)\<rparr>) db = (r, db') \<Longrightarrow> video_jobs db' = video_jobs db" for q st m r db'
    by (auto simp: execute_fenced_def split: sum.splits)
  then show ?thesis by (auto simp: finalize_begin_def split: option.split prod.split sum.split)
qed

lemma change_record_upload: "video_jobs (snd (record_upload verify now lease v file r db)) = video_jobs db"
  by (auto simp: record_upload_def split_beta split: sum.split option.split intro!: execute_fenced_jobs)

lemma jobs_of_statements [simp]:
  "video_jobs (insert_video v db) = video_jobs db"
  "video_jobs (insert_variant r db) = video_jobs db"
  "video_jobs (delete_variants w db) = video_jobs db"
  "video_jobs (set_catalog_addresses a b db) = video_jobs db"
  by (simp_all add: insert_video_def insert_variant_def delete_variants_def Let_def set_catalog_addresses_def)

lemma change_quiet:
  "video_jobs (snd (prepare_commit now lease plan db)) = video_jobs db"
  "video_jobs (snd (finalize_commit now lease plan db)) = video_jobs db"
  "video_jobs (refresh_local_catalog_from_db now previous db) = video_jobs db"
  "video_jobs (snd (reset_variants now lease v db)) = video_jobs db"
  "video_jobs (snd (insert_rendition now lease variant segments db)) = video_jobs db"
  "video_jobs (snd (upload_commit now lease v uplan db)) = video_jobs db"
  "video_jobs (snd (update_video_visibility now v b db)) = video_jobs db"
  "video_jobs (snd (update_video_publication now v b p db)) = video_jobs db"
  "video_jobs (snd (accept_video now v a db)) = video_jobs db"
  by (simp_all add: prepare_commit_def finalize_commit_def refresh_local_catalog_from_db_def split_beta Let_def
      reset_variants_def execute_fenced_jobs insert_rendition_def upload_commit_def update_video_visibility_def
      update_video_publication_def accept_video_def split: sum.split option.split)

lemma change_approve_catalog:
  assumes "\<And>r. jb_kind r = ''finalize_catalog'' \<Longrightarrow> Q r"
  shows "jobs_change Q (video_jobs db) (video_jobs (snd (approve_catalog answer now m job_id request db)))"
  using assms
  by (auto simp: approve_catalog_def Let_def new_job_def jobs_change.refl split: option.split sum.split
      intro!: jobs_change.insert)

lemma change_renew: "jobs_change Q (video_jobs db) (video_jobs (snd (renew_lease now secs job db)))"
  by (simp add: renew_lease_def, rule change_owned) (simp add: row_change_def active_def)

lemma change_succeed: "jobs_change Q (video_jobs db) (video_jobs (snd (mark_job_succeeded now job db)))"
proof -
  have "jobs_change Q (video_jobs db) (update_where (owned now job)
    (\<lambda>r. r\<lparr>jb_status := ''succeeded'', jb_lease_owner := None, jb_lease_expires_at := None,
       jb_last_error := None, jb_updated_at := now\<rparr>) (video_jobs db))"
    by (rule change_owned) (simp add: row_change_def active_def)
  then show ?thesis by (simp add: mark_job_succeeded_def Let_def)
qed

lemma change_interrupt: "jobs_change Q (video_jobs db) (video_jobs (mark_job_interrupted now job_id worker db))"
  by (simp add: mark_job_interrupted_def, rule jobs_change.update) (auto simp: row_change_def active_def)

lemma change_fail: "jobs_change Q (video_jobs db) (video_jobs (snd (mark_job_failed cancel now job detail db)))"
proof -
  have "jobs_change Q (video_jobs db) (update_where (owned now job)
    (\<lambda>r. r\<lparr>jb_status := ''queued'', jb_lease_owner := None, jb_lease_expires_at := None,
       jb_run_after := now + 1000 * job_retry_delay_seconds (lj_attempts job),
       jb_last_error := Some detail, jb_updated_at := now\<rparr>) (video_jobs db))"
    by (rule jobs_change.update) (auto simp: row_change_def active_def owned_def)
  then show ?thesis by (simp add: mark_job_failed_def change_fail_finally)
qed

lemma change_resume:
  assumes "\<And>r. jb_kind r = ''upload_video'' \<Longrightarrow> Q r"
  shows "jobs_change Q (video_jobs db) (video_jobs (snd (resume_video now v db)))"
proof -
  have "jobs_change Q (video_jobs db) rows" if "requeue_failed now
      (\<lambda>r. jb_video_id r = Some v \<and> jb_kind r = ''upload_video'') e (video_jobs db) = Inr rows" for e rows
    using change_requeue_failed [OF that] assms by blast
  then show ?thesis by (auto simp: resume_video_def Let_def jobs_change.refl split: sum.split)
qed

lemma change_resume_catalog:
  assumes "\<And>r. jb_kind r = ''finalize_catalog'' \<Longrightarrow> Q r"
  shows "jobs_change Q (video_jobs db) (video_jobs (snd (resume_catalog now db)))"
proof -
  have "jobs_change Q (video_jobs db) rows" if "requeue_failed now
      (\<lambda>r. jb_payment_quote_id r = q \<and> jb_kind r = ''finalize_catalog'') e (video_jobs db) = Inr rows" for q e rows
    using change_requeue_failed [OF that] assms by blast
  then show ?thesis by (auto simp: resume_catalog_def jobs_change.refl split: sum.split option.split)
qed

definition pays_for_catalog :: "admin_op \<Rightarrow> bool" where
  "pays_for_catalog op \<longleftrightarrow> op = ResumeCatalog \<or> (case op of ApproveCatalog _ _ _ \<Rightarrow> True | _ \<Rightarrow> False)"

lemma change_exec:
  assumes "\<forall>worker. snd ev \<noteq> Acquire worker" "\<forall>video. snd ev \<noteq> DeleteVideo video"
    and "\<And>r. jb_kind r = ''upload_video'' \<Longrightarrow> Q r"
    and "\<And>r. pays_for_catalog (snd ev) \<Longrightarrow> jb_kind r = ''finalize_catalog'' \<Longrightarrow> Q r"
  shows "jobs_change Q (video_jobs db) (video_jobs (admin_exec cfg ev db))"
proof -
  obtain now op where ev: "ev = (now, op)" by (cases ev)
  show ?thesis
    using assms
    by (cases op) (simp_all add: ev change_enqueue change_publish change_recover cleanup_jobs set_status_jobs
      set_awaiting_jobs change_approve jobs_change.refl requote_video_def Let_def change_enqueue_after
      change_quiet change_finalize_begin change_record_upload change_approve_catalog change_renew change_succeed
      change_interrupt change_fail change_resume change_resume_catalog pays_for_catalog_def)
qed

end
