(* ===== verification/Job_Properties.thy ===== *)
theory Job_Properties
  imports Admin_Runs
begin

text \<open>
  The job queue over whole runs: a job's lease carries a number no other lease of the job has, an
  attempt that was superseded changes nothing, active jobs are unique per kind and video, and a
  final failure offers a new quote only after the gateway revoked the old approval.
\<close>

section \<open>How the job table evolves\<close>

definition job_ids :: "job_row list \<Rightarrow> string set" where
  "job_ids rows = jb_id ` set rows"

definition no_conflicts :: "job_row list \<Rightarrow> bool" where
  "no_conflicts rows \<longleftrightarrow> distinct (map jb_id rows) \<and>
     (\<forall>a \<in> set rows. \<forall>b \<in> set rows. index_conflict a b \<longrightarrow> a = b)"

definition fresh_row :: "job_row list \<Rightarrow> job_row \<Rightarrow> bool" where
  "fresh_row rows r \<longleftrightarrow> jb_id r \<notin> job_ids rows \<and> jb_attempts r = 0 \<and> jb_status r \<noteq> ''running'' \<and>
     kind_parse (jb_kind r) \<noteq> None"

definition evolves :: "job_row list \<Rightarrow> job_row list \<Rightarrow> bool" where
  "evolves a b \<longleftrightarrow> (no_conflicts a \<longrightarrow> no_conflicts b) \<and> job_ids a \<subseteq> job_ids b \<and>
     (\<forall>r' \<in> set b. (\<exists>r \<in> set a. row_change r r') \<or> fresh_row a r')"

lemma row_change_refl [simp]: "row_change r r"
  by (simp add: row_change_def)

lemma row_change_trans: "row_change a b \<Longrightarrow> row_change b c \<Longrightarrow> row_change a c"
  by (auto simp: row_change_def)

lemma row_change_id: "row_change r r' \<Longrightarrow> jb_id r' = jb_id r"
  by (simp add: row_change_def)

lemma index_conflict_sym: "index_conflict a b \<longleftrightarrow> index_conflict b a"
  by (auto simp: index_conflict_def)

lemma conflict_row_change:
  assumes "index_conflict a' b'" "row_change a a'" "row_change b b'"
    and "active a' \<longrightarrow> active a" "active b' \<longrightarrow> active b"
  shows "index_conflict a b"
  using assms by (auto simp: index_conflict_def row_change_def)

lemma evolves_trans:
  assumes "evolves a b" "evolves b c"
  shows "evolves a c"
proof -
  have "(\<exists>r \<in> set a. row_change r r'') \<or> fresh_row a r''" if "r'' \<in> set c" for r''
  proof -
    from assms(2) that consider r' where "r' \<in> set b" "row_change r' r''" | "fresh_row b r''"
      by (auto simp: evolves_def)
    then show ?thesis
    proof cases
      case 1
      with assms(1) show ?thesis
        by (auto simp: evolves_def fresh_row_def row_change_def dest!: bspec [of _ _ r'] intro: row_change_trans)
    next
      case 2
      with assms(1) show ?thesis by (auto simp: evolves_def fresh_row_def)
    qed
  qed
  with assms show ?thesis by (auto simp: evolves_def)
qed

lemma distinct_ids_eq: "distinct (map jb_id rows) \<Longrightarrow> a \<in> set rows \<Longrightarrow> b \<in> set rows \<Longrightarrow> jb_id a = jb_id b \<Longrightarrow> a = b"
  by (metis distinct_map inj_onD)

lemma evolves_update:
  assumes change: "\<And>r. P r \<Longrightarrow> r \<in> set rows \<Longrightarrow> row_change r (f r)"
    and act: "\<And>a b. a \<in> set rows \<Longrightarrow> b \<in> set rows \<Longrightarrow> distinct (map jb_id rows) \<Longrightarrow>
      index_conflict (if P a then f a else a) (if P b then f b else b) \<Longrightarrow>
      (\<forall>x \<in> set rows. \<forall>y \<in> set rows. index_conflict x y \<longrightarrow> x = y) \<Longrightarrow> a = b"
  shows "evolves rows (update_where P f rows)"
proof -
  have ids: "map jb_id (update_where P f rows) = map jb_id rows"
    using change by (auto simp: update_where_def row_change_def)
  have same: "a' = b'"
    if none: "no_conflicts rows" and ab: "a' \<in> set (update_where P f rows)" "b' \<in> set (update_where P f rows)"
      and conflict: "index_conflict a' b'" for a' b'
  proof -
    from ab obtain a b where a: "a \<in> set rows" "a' = (if P a then f a else a)"
      and b: "b \<in> set rows" "b' = (if P b then f b else b)" by (auto simp: in_update_where)
    have "a = b" using act [OF a(1) b(1)] none conflict unfolding a b no_conflicts_def by simp
    with a b show ?thesis by simp
  qed
  have "no_conflicts (update_where P f rows)" if "no_conflicts rows"
    unfolding no_conflicts_def
  proof (intro conjI ballI impI)
    show "distinct (map jb_id (update_where P f rows))" using that by (simp add: ids no_conflicts_def)
  qed (rule same [OF that])
  moreover have "job_ids (update_where P f rows) = job_ids rows"
    using arg_cong [OF ids, of set] by (simp add: job_ids_def)
  moreover have "\<exists>r \<in> set rows. row_change r r'" if "r' \<in> set (update_where P f rows)" for r'
    using that change by (auto simp: in_update_where split: if_splits) (blast intro: row_change_refl)+
  ultimately show ?thesis by (auto simp: evolves_def)
qed

lemma requeued_change: "row_change r (requeued now r)"
  by (simp add: requeued_def row_change_def)

lemma jobs_change_evolves: "jobs_change Q a b \<Longrightarrow> evolves a b"
proof (induction rule: jobs_change.induct)
  case (refl rows)
  show ?case unfolding evolves_def using row_change_refl by blast
next
  case (update P f rows)
  show ?case
  proof (rule evolves_update)
    fix a b
    assume "a \<in> set rows" "b \<in> set rows" "\<forall>x \<in> set rows. \<forall>y \<in> set rows. index_conflict x y \<longrightarrow> x = y"
      and conflict: "index_conflict (if P a then f a else a) (if P b then f b else b)"
    moreover from conflict have "index_conflict a b"
      by (rule conflict_row_change) (auto simp: update)
    ultimately show "a = b" by blast
  qed (simp add: update)
next
  case (requeue r rows now)
  show ?case
  proof (rule evolves_update)
    fix a b
    assume ab: "a \<in> set rows" "b \<in> set rows" and ids: "distinct (map jb_id rows)"
      and conflict: "index_conflict (if jb_id a = jb_id r then requeued now a else a)
        (if jb_id b = jb_id r then requeued now b else b)"
      and none: "\<forall>x \<in> set rows. \<forall>y \<in> set rows. index_conflict x y \<longrightarrow> x = y"
    show "a = b"
    proof (rule ccontr)
      assume "a \<noteq> b"
      have same: "x = r" if "x \<in> set rows" "jb_id x = jb_id r" for x
        using that requeue(1) ids by (rule_tac distinct_ids_eq)
      have other: "\<not> index_conflict x (requeued now r)" "\<not> index_conflict (requeued now r) x"
        if "x \<in> set rows" "jb_id x \<noteq> jb_id r" for x
        using requeue(2) that index_conflict_sym by blast+
      have "\<not> index_conflict a b" using none ab \<open>a \<noteq> b\<close> by blast
      then show False
        using conflict same [OF ab(1)] same [OF ab(2)] other [OF ab(1)] other [OF ab(2)] \<open>a \<noteq> b\<close>
        by (simp split: if_splits)
    qed
  qed (simp add: requeued_change)
next
  case (insert rows r)
  then have "jb_id r \<notin> jb_id ` set rows" by (auto simp: index_conflict_def)
  moreover have "\<not> index_conflict x r" if "x \<in> set rows" for x
    using insert(1) that index_conflict_sym by blast
  ultimately show ?case
    using insert by (auto simp: evolves_def no_conflicts_def job_ids_def fresh_row_def intro: row_change_refl)
next
  case (trans a b c)
  then show ?case by (blast intro: evolves_trans)
qed

section \<open>Leases issued in a run\<close>

record queue_state =
  qs_db :: admin_db
  qs_issued :: "leased_job list"
  qs_ids :: "string list"

definition issued_by :: "admin_config \<Rightarrow> int \<times> admin_op \<Rightarrow> admin_db \<Rightarrow> leased_job list" where
  "issued_by cfg ev db =
     (case ev of
        (now, Acquire worker) \<Rightarrow>
          (case fst (acquire_next_job now (cfg_lease_seconds cfg) worker db) of
             Inr (Some job) \<Rightarrow> [job] | _ \<Rightarrow> [])
      | _ \<Rightarrow> [])"

text \<open>Job identifiers are random UUIDs: an event that would reuse one does not occur.\<close>

definition queue_step :: "admin_config \<Rightarrow> int \<times> admin_op \<Rightarrow> queue_state \<Rightarrow> queue_state" where
  "queue_step cfg ev s =
     (let db' = admin_exec cfg ev (qs_db s);
          new = filter (\<lambda>i. i \<notin> set (map jb_id (video_jobs (qs_db s)))) (map jb_id (video_jobs db'))
      in if list_ex (\<lambda>i. i \<in> set (qs_ids s)) new then s
         else \<lparr>qs_db = db', qs_issued = qs_issued s @ issued_by cfg ev (qs_db s), qs_ids = qs_ids s @ new\<rparr>)"

lemma state_eta: "\<lparr>qs_db = qs_db s, qs_issued = qs_issued s, qs_ids = qs_ids s\<rparr> = s"
  by (cases s) simp

definition queue_start :: queue_state where
  "queue_start = \<lparr>qs_db = empty_db, qs_issued = [], qs_ids = []\<rparr>"

definition lease_of :: "leased_job \<Rightarrow> job_row \<Rightarrow> bool" where
  "lease_of l r \<longleftrightarrow> lj_id l = jb_id r \<and> lj_attempts l = jb_attempts r \<and> jb_lease_owner r = Some (lj_lease_owner l)"

definition row_ok :: "queue_state \<Rightarrow> job_row \<Rightarrow> bool" where
  "row_ok s r \<longleftrightarrow> 0 \<le> jb_attempts r \<and> jb_id r \<in> set (qs_ids s) \<and> kind_parse (jb_kind r) \<noteq> None \<and>
     (\<forall>l \<in> set (qs_issued s). lj_id l = jb_id r \<longrightarrow> lj_attempts l \<le> jb_attempts r) \<and>
     (jb_status r = ''running'' \<longrightarrow> (\<exists>l \<in> set (qs_issued s). lease_of l r))"

definition later_lease :: "leased_job \<Rightarrow> leased_job \<Rightarrow> bool" where
  "later_lease l m \<longleftrightarrow> (lj_id l = lj_id m \<longrightarrow> lj_attempts l < lj_attempts m)"

definition queue_ok :: "queue_state \<Rightarrow> bool" where
  "queue_ok s \<longleftrightarrow> no_conflicts (video_jobs (qs_db s)) \<and> (\<forall>r \<in> set (video_jobs (qs_db s)). row_ok s r) \<and>
     (\<forall>l \<in> set (qs_issued s). lj_id l \<in> set (qs_ids s)) \<and> sorted_wrt later_lease (qs_issued s)"

lemma queue_start_ok: "queue_ok queue_start"
  by (simp add: queue_ok_def queue_start_def empty_db_def no_conflicts_def)

lemma soonest_in: "soonest rows = Some r \<Longrightarrow> r \<in> set rows"
  by (induction rows arbitrary: r) (auto split: option.splits if_splits)

lemma soonest_None: "soonest rows = None \<longleftrightarrow> rows = []"
  by (cases rows) (auto split: option.splits)

lemma row_ok_change:
  assumes "row_ok s r" "row_change r r'" "qs_issued s' = qs_issued s" "set (qs_ids s) \<subseteq> set (qs_ids s')"
  shows "row_ok s' r'"
  using assms by (auto simp: row_ok_def row_change_def lease_of_def)

lemma queue_ok_evolves:
  assumes ok: "queue_ok s" and ev: "evolves (video_jobs (qs_db s)) (video_jobs db')"
    and new: "\<not> list_ex (\<lambda>i. i \<in> set (qs_ids s)) new"
    and new_def: "new = filter (\<lambda>i. i \<notin> set (map jb_id (video_jobs (qs_db s)))) (map jb_id (video_jobs db'))"
  shows "queue_ok \<lparr>qs_db = db', qs_issued = qs_issued s, qs_ids = qs_ids s @ new\<rparr>" (is "queue_ok ?s'")
proof -
  have "row_ok ?s' r'" if r': "r' \<in> set (video_jobs db')" for r'
  proof -
    from ev r' consider r where "r \<in> set (video_jobs (qs_db s))" "row_change r r'"
      | "fresh_row (video_jobs (qs_db s)) r'" by (auto simp: evolves_def)
    then show ?thesis
    proof cases
      case 1
      then show ?thesis using ok by (auto simp: queue_ok_def intro: row_ok_change)
    next
      case 2
      then have "jb_id r' \<in> set new" using r' by (auto simp: new_def fresh_row_def job_ids_def)
      moreover from this have "jb_id r' \<notin> set (qs_ids s)" using new by (auto simp: list_ex_iff)
      ultimately show ?thesis using 2 ok by (auto simp: row_ok_def fresh_row_def queue_ok_def)
    qed
  qed
  with ok ev show ?thesis by (auto simp: queue_ok_def evolves_def)
qed

text \<open>An acquisition changes one row, the soonest of the ready ones.\<close>

definition leased_row :: "int \<Rightarrow> int \<Rightarrow> string \<Rightarrow> job_row \<Rightarrow> job_row" where
  "leased_row now secs worker r = r\<lparr>jb_status := ''running'', jb_attempts := jb_attempts r + 1,
     jb_lease_owner := Some worker, jb_lease_expires_at := Some (now + 1000 * secs), jb_updated_at := now\<rparr>"

definition lease_on :: "string \<Rightarrow> job_kind \<Rightarrow> job_row \<Rightarrow> leased_job" where
  "lease_on worker kind r = \<lparr>lj_lease_owner = worker, lj_id = jb_id r, lj_kind = kind,
     lj_video_id = jb_video_id r, lj_attempts = jb_attempts r + 1, lj_max_attempts = jb_max_attempts r\<rparr>"

lemma acquire_cases:
  assumes "\<forall>r \<in> set (video_jobs db). kind_parse (jb_kind r) \<noteq> None"
  obtains "soonest (filter (ready now) (video_jobs db)) = None"
      "acquire_next_job now secs worker db = (Inr None, db)"
  | r kind where "soonest (filter (ready now) (video_jobs db)) = Some r" "r \<in> set (video_jobs db)" "ready now r"
      "kind_parse (jb_kind r) = Some kind"
      "acquire_next_job now secs worker db = (Inr (Some (lease_on worker kind r)),
         db\<lparr>video_jobs := update_where (\<lambda>x. jb_id x = jb_id r) (leased_row now secs worker) (video_jobs db)\<rparr>)"
proof (cases "soonest (filter (ready now) (video_jobs db))")
  case None
  then show ?thesis by (intro that(1)) (simp_all add: acquire_next_job_def)
next
  case (Some r)
  from soonest_in [OF this] have r: "r \<in> set (video_jobs db)" "ready now r" by simp_all
  with assms obtain kind where "kind_parse (jb_kind r) = Some kind" by blast
  with Some r show ?thesis
    by (intro that(2)) (simp_all add: acquire_next_job_def Let_def lease_on_def leased_row_def [abs_def])
qed

lemma no_conflicts_lease:
  assumes "no_conflicts rows" "r \<in> set rows" "ready now r"
  shows "no_conflicts (update_where (\<lambda>x. jb_id x = jb_id r) (leased_row t secs worker) rows)"
proof -
  have act: "active r" using assms(3) by (auto simp: ready_def active_def)
  have "a = b" if ab: "a \<in> set rows" "b \<in> set rows"
    and "index_conflict (if jb_id a = jb_id r then leased_row t secs worker a else a)
      (if jb_id b = jb_id r then leased_row t secs worker b else b)" for a b
  proof -
    have "x = r" if "x \<in> set rows" "jb_id x = jb_id r" for x
      using that assms by (auto simp: no_conflicts_def dest: distinct_ids_eq)
    with that act have "index_conflict a b"
      by (auto simp: index_conflict_def leased_row_def active_def split: if_splits)
    with ab assms(1) show ?thesis by (auto simp: no_conflicts_def)
  qed
  moreover have "map jb_id (update_where (\<lambda>x. jb_id x = jb_id r) (leased_row t secs worker) rows) = map jb_id rows"
    by (auto simp: update_where_def leased_row_def)
  ultimately show ?thesis
    using assms(1) unfolding no_conflicts_def set_update_where by fastforce
qed

lemma queue_ok_acquire:
  assumes ok: "queue_ok s" and r: "r \<in> set (video_jobs (qs_db s))" "ready now r"
  shows "queue_ok \<lparr>qs_db = (qs_db s)\<lparr>video_jobs := update_where (\<lambda>x. jb_id x = jb_id r)
      (leased_row now secs worker) (video_jobs (qs_db s))\<rparr>,
    qs_issued = qs_issued s @ [lease_on worker kind r], qs_ids = qs_ids s\<rparr>" (is "queue_ok ?s'")
proof -
  let ?rows = "video_jobs (qs_db s)"
  have same: "x = r" if "x \<in> set ?rows" "jb_id x = jb_id r" for x
    using that ok r by (auto simp: queue_ok_def no_conflicts_def dest: distinct_ids_eq)
  have row_r: "row_ok s r" using ok r by (simp add: queue_ok_def)
  have "row_ok ?s' (if jb_id x = jb_id r then leased_row now secs worker x else x)" if x: "x \<in> set ?rows" for x
  proof (cases "jb_id x = jb_id r")
    case True
    with same x have "x = r" by simp
    with row_r show ?thesis by (fastforce simp: row_ok_def leased_row_def lease_on_def lease_of_def)
  next
    case False
    moreover have "row_ok s x" using ok x by (simp add: queue_ok_def)
    ultimately show ?thesis by (auto simp: row_ok_def lease_on_def)
  qed
  moreover have "later_lease l (lease_on worker kind r)" if "l \<in> set (qs_issued s)" for l
    using row_r that by (auto simp: row_ok_def later_lease_def lease_on_def)
  moreover have "no_conflicts (update_where (\<lambda>x. jb_id x = jb_id r) (leased_row now secs worker) ?rows)"
    using ok r by (intro no_conflicts_lease) (auto simp: queue_ok_def)
  moreover have "lj_id (lease_on worker kind r) \<in> set (qs_ids s)"
    using row_r by (simp add: lease_on_def row_ok_def)
  ultimately have "\<forall>x \<in> set (video_jobs (qs_db ?s')). row_ok ?s' x"
    "\<forall>l \<in> set (qs_issued ?s'). lj_id l \<in> set (qs_ids ?s')" "sorted_wrt later_lease (qs_issued ?s')"
    "no_conflicts (video_jobs (qs_db ?s'))"
    using ok by (auto simp: queue_ok_def set_update_where sorted_wrt_append simp del: if_image_distrib)
  then show ?thesis by (simp add: queue_ok_def)
qed

lemma evolves_delete: "no_conflicts rows \<Longrightarrow> no_conflicts (filter P rows)"
  by (auto simp: no_conflicts_def distinct_map_filter)

lemma queue_ok_fewer:
  assumes ok: "queue_ok s" and "video_jobs db' = filter P (video_jobs (qs_db s))"
  shows "queue_ok \<lparr>qs_db = db', qs_issued = qs_issued s, qs_ids = qs_ids s\<rparr>"
  using assms by (auto simp: queue_ok_def row_ok_def evolves_delete)

lemma queue_step_ok: "queue_ok s \<Longrightarrow> queue_ok (queue_step cfg ev s)"
proof -
  assume ok: "queue_ok s"
  obtain now op where ev: "ev = (now, op)" by (cases ev)
  let ?db = "qs_db s"
  show ?thesis
  proof (cases "(\<exists>worker. op = Acquire worker) \<or> (\<exists>video. op = DeleteVideo video)")
    case False
    then have "issued_by cfg ev ?db = []" by (auto simp: issued_by_def ev split: admin_op.split)
    moreover have "evolves (video_jobs ?db) (video_jobs (admin_exec cfg ev ?db))"
      using False ev by (intro jobs_change_evolves [of "\<lambda>_. True"] change_exec) auto
    ultimately show ?thesis
      using ok queue_ok_evolves [OF ok] by (simp add: queue_step_def Let_def)
  next
    case True
    then show ?thesis
    proof
      assume "\<exists>video. op = DeleteVideo video"
      then obtain video where op: "op = DeleteVideo video" by blast
      have jobs: "\<exists>P. video_jobs (snd (delete_video video ?db)) = filter P (video_jobs ?db)"
        by (auto simp: delete_video_def delete_video_rows_def Let_def split: option.split
            intro: exI [of _ "\<lambda>_. True"])
      then obtain P where P: "video_jobs (snd (delete_video video ?db)) = filter P (video_jobs ?db)" by blast
      then have "filter (\<lambda>i. i \<notin> set (map jb_id (video_jobs ?db))) (map jb_id (filter P (video_jobs ?db))) = []"
        by (auto simp: filter_empty_conv)
      with ok P queue_ok_fewer [OF ok P] show ?thesis
        by (simp add: queue_step_def Let_def ev op issued_by_def)
    next
      assume "\<exists>worker. op = Acquire worker"
      then obtain worker where op: "op = Acquire worker" by blast
      have "\<forall>r \<in> set (video_jobs ?db). kind_parse (jb_kind r) \<noteq> None"
        using ok by (auto simp: queue_ok_def row_ok_def)
      then show ?thesis
      proof (cases rule: acquire_cases [of ?db now "cfg_lease_seconds cfg" worker])
        case 1
        have "filter (\<lambda>i. i \<notin> set (map jb_id (video_jobs ?db))) (map jb_id (video_jobs ?db)) = []"
          by (auto simp: filter_empty_conv)
        with 1 ok show ?thesis by (simp add: queue_step_def Let_def ev op issued_by_def state_eta)
      next
        case (2 r kind)
        let ?rows = "update_where (\<lambda>x. jb_id x = jb_id r) (leased_row now (cfg_lease_seconds cfg) worker) (video_jobs ?db)"
        have "map jb_id ?rows = map jb_id (video_jobs ?db)"
          by (auto simp: update_where_def leased_row_def)
        then have "filter (\<lambda>i. i \<notin> set (map jb_id (video_jobs ?db))) (map jb_id ?rows) = []"
          by (simp only: filter_empty_conv) simp
        then have "queue_step cfg ev s = \<lparr>qs_db = ?db\<lparr>video_jobs := ?rows\<rparr>,
            qs_issued = qs_issued s @ [lease_on worker kind r], qs_ids = qs_ids s\<rparr>"
          unfolding queue_step_def Let_def ev op issued_by_def by (simp add: 2)
        with queue_ok_acquire [OF ok 2(2,3)] show ?thesis by simp
      qed
    qed
  qed
qed

interpretation queue: guarded_system "queue_step cfg" queue_ok for cfg
  by unfold_locales (rule queue_step_ok)

lemma queue_run_ok: "queue_ok (run (queue_step cfg) evs queue_start)"
  by (rule queue.run_inv) (rule queue_start_ok)

section \<open>A run for the witnesses\<close>

definition demo_cfg :: admin_config where
  "demo_cfg = \<lparr>cfg_lease_seconds = 60, cfg_max_attempts = 3, cfg_publish_attempts = 3, cfg_upload_verify = True\<rparr>"

text \<open>A publication is queued, leased, and leased again after its lease has run out.\<close>

definition demo_queue :: queue_state where
  "demo_queue = run (queue_step demo_cfg)
     [(0, EnqueuePublish ''j''), (0, Acquire ''a''), (70000, Acquire ''b'')] queue_start"

lemma demo_queue_eval:
  "demo_queue = \<lparr>qs_db = empty_db\<lparr>video_jobs := [\<lparr>jb_id = ''j'', jb_kind = ''publish_catalog'',
       jb_video_id = None, jb_status = ''running'', jb_attempts = 2, jb_max_attempts = 3,
       jb_lease_owner = Some ''b'', jb_lease_expires_at = Some 130000, jb_run_after = 0,
       jb_last_error = None, jb_created_at = 0, jb_updated_at = 70000, jb_payment_quote_id = None\<rparr>]\<rparr>,
     qs_issued = [\<lparr>lj_lease_owner = ''a'', lj_id = ''j'', lj_kind = PublishCatalog, lj_video_id = None,
         lj_attempts = 1, lj_max_attempts = 3\<rparr>,
       \<lparr>lj_lease_owner = ''b'', lj_id = ''j'', lj_kind = PublishCatalog, lj_video_id = None,
         lj_attempts = 2, lj_max_attempts = 3\<rparr>],
     qs_ids = [''j'']\<rparr>"
  by code_simp

section \<open>Leases\<close>

text \<open>In every run, of two leases of one job the one issued later carries the greater number: a
  lease is issued at most once.\<close>

theorem lease_numbers_grow:
  "sorted_wrt later_lease (qs_issued (run (queue_step cfg) evs queue_start))"
  using queue_run_ok by (simp add: queue_ok_def)

definition active_lease :: "leased_job \<Rightarrow> job_lease" where
  "active_lease job = \<lparr>jl_id = lj_id job, jl_owner = lj_lease_owner job, jl_generation = lj_attempts job\<rparr>"

lemma owns_lease_owned:
  "owns_lease now (active_lease job) db \<longleftrightarrow> (\<exists>r \<in> set (video_jobs db). owned now job r)"
  by (auto simp: owns_lease_def active_lease_def owned_def)

lemma rows_affected_none: "\<forall>r \<in> set rows. \<not> P r \<Longrightarrow> rows_affected P rows = 0"
  by (simp add: rows_affected_def)

lemma unowned_changes_nothing:
  assumes "\<forall>r \<in> set (video_jobs db). \<not> owned now job r"
  shows "renew_lease now secs job db = (False, db)" "mark_job_succeeded now job db = (None, db)"
    "mark_job_failed cancel now job detail db = (Inr (), db)"
    "begin_fenced now (Some (active_lease job)) db = Inl (Api 409 ''Job lease ownership lost'')"
    "update_payment_lease act now job db = (if paid_kind (lj_kind job)
       then Inl (Api 409 ''Job lease ownership lost before payment activation'') else Inr None)"
  using assms
  by (simp_all add: renew_lease_def mark_job_succeeded_def mark_job_failed_def fail_finally_def begin_fenced_def
      owns_lease_owned update_payment_lease_def update_where_id rows_affected_none fetch_optional_None Let_def
      iffD2 [OF fetch_optional_None])

lemma superseded_unowned:
  assumes "queue_ok s" "l \<in> set (qs_issued s)" "m \<in> set (qs_issued s)" "lj_id l = lj_id m"
    and "lj_attempts l < lj_attempts m"
  shows "\<forall>r \<in> set (video_jobs (qs_db s)). \<not> owned now l r"
proof
  fix r
  assume "r \<in> set (video_jobs (qs_db s))"
  with assms have "lj_id m = jb_id r \<Longrightarrow> lj_attempts m \<le> jb_attempts r"
    by (auto simp: queue_ok_def row_ok_def)
  with assms show "\<not> owned now l r" by (auto simp: owned_def)
qed

text \<open>C12. An attempt whose job was leased again later can no longer act, in any run: its renewal
  fails, recording its success or its failure changes nothing, its transactions are refused, and a
  paid job cannot activate its payment lease.\<close>

theorem superseded_attempt_is_fenced:
  assumes "s = run (queue_step cfg) evs queue_start" "l \<in> set (qs_issued s)" "m \<in> set (qs_issued s)"
    and "lj_id l = lj_id m" "lj_attempts l < lj_attempts m"
  shows "renew_lease now secs l (qs_db s) = (False, qs_db s) \<and>
    mark_job_succeeded now l (qs_db s) = (None, qs_db s) \<and>
    mark_job_failed cancel now l detail (qs_db s) = (Inr (), qs_db s) \<and>
    begin_fenced now (Some (active_lease l)) (qs_db s) = Inl (Api 409 ''Job lease ownership lost'') \<and>
    update_payment_lease act now l (qs_db s) = (if paid_kind (lj_kind l)
      then Inl (Api 409 ''Job lease ownership lost before payment activation'') else Inr None)"
proof -
  have "\<forall>r \<in> set (video_jobs (qs_db s)). \<not> owned now l r"
    using superseded_unowned [OF _ assms(2-5)] queue_run_ok assms(1) by simp
  from unowned_changes_nothing [OF this] show ?thesis by simp
qed

theorem superseded_attempt_is_fenced_witness:
  "renew_lease 80000 60 \<lparr>lj_lease_owner = ''a'', lj_id = ''j'', lj_kind = PublishCatalog, lj_video_id = None,
     lj_attempts = 1, lj_max_attempts = 3\<rparr> (qs_db demo_queue) = (False, qs_db demo_queue)"
  using superseded_attempt_is_fenced [OF demo_queue_def, of "\<lparr>lj_lease_owner = ''a'', lj_id = ''j'',
      lj_kind = PublishCatalog, lj_video_id = None, lj_attempts = 1, lj_max_attempts = 3\<rparr>"
      "\<lparr>lj_lease_owner = ''b'', lj_id = ''j'', lj_kind = PublishCatalog, lj_video_id = None,
         lj_attempts = 2, lj_max_attempts = 3\<rparr>" 80000 60]
  by (simp add: demo_queue_eval)

lemma at_most_one: "(\<And>a b. a \<in> set xs \<Longrightarrow> b \<in> set xs \<Longrightarrow> a = b) \<Longrightarrow> distinct xs \<Longrightarrow> length xs \<le> 1"
proof (rule ccontr)
  assume eq: "\<And>a b. a \<in> set xs \<Longrightarrow> b \<in> set xs \<Longrightarrow> a = b" and "distinct xs" and "\<not> length xs \<le> 1"
  from \<open>\<not> length xs \<le> 1\<close> obtain a b ys where "xs = a # b # ys" by (cases xs rule: remdups_adj.cases) simp_all
  with eq [of a b] \<open>distinct xs\<close> show False by simp
qed

text \<open>In every run, a video has at most one queued or running job of each kind, and there is at most
  one queued or running preparation and one queued or running publication of the catalog.\<close>

theorem one_active_job:
  "rows_affected (\<lambda>r. active r \<and> jb_kind r = kind \<and> jb_video_id r = Some video)
     (video_jobs (qs_db (run (queue_step cfg) evs queue_start))) \<le> 1 \<and>
   rows_affected (\<lambda>r. active r \<and> jb_kind r = ''publish_catalog'' \<and> jb_video_id r = None)
     (video_jobs (qs_db (run (queue_step cfg) evs queue_start))) \<le> 1 \<and>
   rows_affected (\<lambda>r. active r \<and> jb_kind r = ''finalize_catalog'')
     (video_jobs (qs_db (run (queue_step cfg) evs queue_start))) \<le> 1"
proof -
  let ?rows = "video_jobs (qs_db (run (queue_step cfg) evs queue_start))"
  have ok: "no_conflicts ?rows" using queue_run_ok by (simp add: queue_ok_def)
  then have "distinct ?rows" by (auto simp: no_conflicts_def distinct_map)
  then have le: "rows_affected P ?rows \<le> 1" if "\<And>a b. P a \<Longrightarrow> P b \<Longrightarrow> index_conflict a b" for P
    unfolding rows_affected_def using ok that by (intro at_most_one) (auto simp: no_conflicts_def)
  show ?thesis by (intro conjI le) (auto simp: index_conflict_def)
qed

section \<open>Acquiring\<close>

lemma sooner_trans: "\<not> sooner a b \<Longrightarrow> \<not> sooner b c \<Longrightarrow> \<not> sooner a c"
  by (auto simp: sooner_def)

lemma soonest_least: "soonest rows = Some m \<Longrightarrow> x \<in> set rows \<Longrightarrow> \<not> sooner x m"
proof (induction rows arbitrary: m)
  case Nil
  then show ?case by simp
next
  case (Cons r rs)
  show ?case
  proof (cases "soonest rs")
    case None
    with Cons.prems show ?thesis by (auto simp: soonest_None sooner_def)
  next
    case (Some k)
    have asym: "\<not> sooner a a" "sooner a b \<Longrightarrow> \<not> sooner b a" for a b by (auto simp: sooner_def)
    show ?thesis
    proof (cases "sooner k r")
      case True
      with Cons.prems Some have "m = k" by simp
      with True Cons.prems(2) Cons.IH [OF Some] asym(2) [of k r] show ?thesis by auto
    next
      case False
      with Cons.prems Some have "m = r" by simp
      moreover have "\<not> sooner x r" if "x \<in> set rs"
        using Cons.IH [OF Some that] False by (rule sooner_trans)
      ultimately show ?thesis using Cons.prems(2) asym(1) by auto
    qed
  qed
qed

text \<open>Acquiring leases the ready job that is first by due time and age: it was queued and due, or its
  lease had run out; its attempt number grows by one, the lease runs for the configured time, and no
  other job changes. It finds none only when no job is ready.\<close>

theorem acquire_takes_soonest_ready:
  assumes "acquire_next_job now secs worker db = (Inr found, db')"
  shows "case found of
      None \<Rightarrow> db' = db \<and> (\<forall>r \<in> set (video_jobs db). \<not> ready now r)
    | Some job \<Rightarrow> (\<exists>r \<in> set (video_jobs db). ready now r \<and> \<not> (jb_status r = ''running'' \<and> lease_live now r) \<and>
        (\<forall>x \<in> set (video_jobs db). ready now x \<longrightarrow> \<not> sooner x r) \<and>
        kind_parse (jb_kind r) = Some (lj_kind job) \<and> job = lease_on worker (lj_kind job) r \<and>
        db' = db\<lparr>video_jobs := update_where (\<lambda>x. jb_id x = jb_id r) (leased_row now secs worker) (video_jobs db)\<rparr>)"
proof (cases "soonest (filter (ready now) (video_jobs db))")
  case None
  with assms show ?thesis by (auto simp: acquire_next_job_def soonest_None filter_empty_conv)
next
  case (Some r)
  from soonest_in [OF this] have r: "r \<in> set (video_jobs db)" "ready now r" by simp_all
  have least: "\<not> sooner x r" if "x \<in> set (video_jobs db)" "ready now x" for x
    using soonest_least [OF Some] that by simp
  from assms Some obtain kind where kind: "kind_parse (jb_kind r) = Some kind"
    by (auto simp: acquire_next_job_def Let_def split: option.splits)
  with assms Some have job: "found = Some (lease_on worker kind r)"
    and db': "db' = db\<lparr>video_jobs := update_where (\<lambda>x. jb_id x = jb_id r) (leased_row now secs worker) (video_jobs db)\<rparr>"
    by (auto simp: acquire_next_job_def Let_def lease_on_def leased_row_def [abs_def])
  have "\<not> (jb_status r = ''running'' \<and> lease_live now r)"
    using r(2) by (auto simp: ready_def lease_live_def lease_expired_def split: option.splits)
  moreover have "lj_kind (lease_on worker kind r) = kind" by (simp add: lease_on_def)
  ultimately show ?thesis using r kind least by (auto simp: job db')
qed

lemma demo_acquire:
  "acquire_next_job 130000 60 ''c'' (qs_db demo_queue) =
     (Inr (Some \<lparr>lj_lease_owner = ''c'', lj_id = ''j'', lj_kind = PublishCatalog, lj_video_id = None,
        lj_attempts = 3, lj_max_attempts = 3\<rparr>), snd (acquire_next_job 130000 60 ''c'' (qs_db demo_queue)))"
  unfolding demo_queue_eval by code_simp

theorem acquire_takes_soonest_ready_witness:
  "\<exists>r \<in> set (video_jobs (qs_db demo_queue)). ready 130000 r \<and> lj_attempts (lease_on ''c'' PublishCatalog r) = 3"
  using acquire_takes_soonest_ready [OF demo_acquire] by (auto simp: lease_on_def)

section \<open>Failing\<close>

text \<open>The pause before attempt \<open>n + 1\<close> is 30 seconds doubled \<open>n - 1\<close> times, at most 15 minutes.\<close>

theorem retry_delay:
  assumes "1 \<le> n"
  shows "job_retry_delay_seconds n = min 900 (30 * 2 ^ nat (n - 1)) \<and>
    30 \<le> job_retry_delay_seconds n \<and> job_retry_delay_seconds n \<le> 900 \<and>
    job_retry_delay_seconds n \<le> job_retry_delay_seconds (n + 1)"
proof -
  have closed: "job_retry_delay_seconds n = min 900 (30 * 2 ^ nat (n - 1))" if "1 \<le> n" for n
  proof (cases "n - 1 \<le> 5")
    case True
    with that have "n \<in> {1, 2, 3, 4, 5, 6}" by auto
    then show ?thesis by (auto simp: job_retry_delay_seconds_def Let_def)
  next
    case False
    then have "(2::int) ^ 5 \<le> 2 ^ nat (n - 1)" by (intro power_increasing) auto
    with False show ?thesis by (simp add: job_retry_delay_seconds_def Let_def min_def max_def)
  qed
  have "(2::int) ^ nat (n - 1) \<le> 2 ^ nat n" by (intro power_increasing nat_mono) auto
  moreover have "(1::int) \<le> 2 ^ nat (n - 1)" by simp
  moreover have "job_retry_delay_seconds (n + 1) = min 900 (30 * 2 ^ nat n)" using closed [of "n + 1"] assms by simp
  ultimately show ?thesis using closed [OF assms] by linarith
qed

theorem retry_delay_witness: "job_retry_delay_seconds 4 = 240"
  using retry_delay [of 4] by simp

text \<open>When an attempt of a paid job ends for want of an approval, the video or the catalog is
  offered a new quote exactly when the gateway answered that it revoked the old approval before any
  transaction; in every other case the approval is kept for recovery.\<close>

theorem requote_only_after_revocation:
  assumes "fetch_optional (owned now job) (video_jobs db) = Some r" "paid_kind (lj_kind job)"
    and "needs_approval detail" "job_quote db r = Some q"
    and "fail_finally cancel now job detail db = (Inr u, db')"
    and "outcome = (if cancel (lease_key_of (lj_id job) (lj_lease_owner job) (lj_attempts job)) q
           then ''approval_required'' else ''payment_recovery_required'')"
  shows "(\<forall>v \<in> set (videos db'). Some (vd_id v) = lj_video_id job \<longrightarrow> vd_status v = outcome) \<and>
    (lj_kind job = FinalizeCatalog \<longrightarrow>
      (\<forall>c \<in> set (catalog_approvals db'). Some (ca_id c) = jb_payment_quote_id r \<longrightarrow> ca_state c = outcome))"
proof -
  obtain unpaid d where unpaid: "unpaid = cancel (lease_key_of (lj_id job) (lj_lease_owner job) (lj_attempts job)) q"
    and revoke: "revoke_approval cancel job detail r db = (\<not> unpaid, d)"
    using assms by (simp add: revoke_approval_def Let_def)
  have outcome: "outcome = (if unpaid then ''approval_required'' else ''payment_recovery_required'')"
    using assms(6) unpaid by simp
  define jobs where "jobs = update_where (owned now job)
    (\<lambda>x. x\<lparr>jb_status := ''failed'', jb_lease_owner := None, jb_lease_expires_at := None,
       jb_last_error := Some d, jb_updated_at := now\<rparr>) (video_jobs db)"
  define approvals where "approvals = (if lj_kind job = FinalizeCatalog
    then update_where (\<lambda>c. Some (ca_id c) = jb_payment_quote_id r)
      (\<lambda>c. c\<lparr>ca_state := outcome, ca_error_message := Some d\<rparr>) (catalog_approvals db) else catalog_approvals db)"
  have fin: "fail_finally cancel now job detail db =
     (case lj_video_id job of
        None \<Rightarrow> (Inr (), db\<lparr>video_jobs := jobs, catalog_approvals := approvals\<rparr>)
      | Some w \<Rightarrow>
          (case fetch_optional (\<lambda>v. vd_id v = w) (videos db) of
             None \<Rightarrow> (Inl (db_error ''no rows returned''), db)
           | Some v \<Rightarrow> (Inr (), update_videos (\<lambda>v. vd_id v = w)
               (\<lambda>x. x\<lparr>vd_status := outcome, vd_error_message := Some d, vd_updated_at := now\<rparr>)
               (db\<lparr>video_jobs := jobs, catalog_approvals := approvals\<rparr>))))"
    unfolding fail_finally_def jobs_def approvals_def outcome
    by (cases unpaid) (simp_all add: assms(1,3) revoke failed_video_status_def Let_def cong: option.case_cong)
  have approved: "lj_kind job = FinalizeCatalog \<longrightarrow>
      (\<forall>c \<in> set approvals. Some (ca_id c) = jb_payment_quote_id r \<longrightarrow> ca_state c = outcome)"
    by (auto simp: approvals_def in_update_where)
  show ?thesis
  proof (cases "lj_video_id job")
    case None
    with assms(5) approved show ?thesis by (auto simp: fin)
  next
    case (Some w)
    with assms(5) obtain v where "fetch_optional (\<lambda>v. vd_id v = w) (videos db) = Some v"
      by (auto simp: fin split: option.splits)
    with assms(5) Some have "db' = update_videos (\<lambda>v. vd_id v = w)
        (\<lambda>x. x\<lparr>vd_status := outcome, vd_error_message := Some d, vd_updated_at := now\<rparr>)
        (db\<lparr>video_jobs := jobs, catalog_approvals := approvals\<rparr>)"
      by (simp add: fin)
    then have "vd_status x = outcome" if "x \<in> set (videos db')" "Some (vd_id x) = lj_video_id job" for x
    proof -
      from that(1) obtain x0 where "x = (if vd_id x0 = w then x0\<lparr>vd_status := outcome,
          vd_error_message := Some d, vd_updated_at := now\<rparr> else x0)"
        unfolding \<open>db' = _\<close> by (simp only: update_videos_simps in_update_where) blast
      with that(2) Some show ?thesis by (cases "vd_id x0 = w") simp_all
    qed
    moreover have "catalog_approvals db' = approvals" by (simp add: \<open>db' = _\<close>)
    ultimately show ?thesis using approved by blast
  qed
qed

definition demo_video :: video_row where
  "demo_video = (accepted_video 0 ''v'' \<lparr>af_title = ''t'', af_original_filename = ''f'', af_description = [],
      af_job_dir = ''d'', af_source_path = ''d/f'', af_resolutions = [''720p''],
      af_encode_settings = \<lparr>es_video_codec = H264, es_video_bitrate_overrides = [], es_audio_bitrate_kbps = None\<rparr>,
      af_show_manifest_address = False, af_upload_original = False, af_publish_when_ready = True,
      af_username = ''admin''\<rparr>)\<lparr>vd_status := ''uploading'', vd_approved_quote_id := Some ''q''\<rparr>"

definition demo_upload_job :: job_row where
  "demo_upload_job = (new_job 0 ''j'' ''upload_video'' (Some ''v'') 3 None)\<lparr>jb_status := ''running'',
     jb_attempts := 1, jb_lease_owner := Some ''a'', jb_lease_expires_at := Some 60000\<rparr>"

definition demo_upload_db :: admin_db where
  "demo_upload_db = empty_db\<lparr>videos := [demo_video], video_jobs := [demo_upload_job]\<rparr>"

definition demo_lease :: leased_job where
  "demo_lease = \<lparr>lj_lease_owner = ''a'', lj_id = ''j'', lj_kind = UploadVideo, lj_video_id = Some ''v'',
     lj_attempts = 1, lj_max_attempts = 3\<rparr>"

lemmas demo_upload_defs = demo_upload_db_def demo_upload_job_def demo_video_def demo_lease_def new_job_def
  accepted_video_def empty_db_def

theorem requote_only_after_revocation_witness:
  "filter (\<lambda>v. vd_id v = ''v'' \<and> vd_status v \<noteq> ''approval_required'')
     (videos (snd (fail_finally (\<lambda>_ _. True) 1000 demo_lease ''approval_required: media changed'' demo_upload_db))) = []"
proof -
  have "fail_finally (\<lambda>_ _. True) 1000 demo_lease ''approval_required: media changed'' demo_upload_db =
      (Inr (), snd (fail_finally (\<lambda>_ _. True) 1000 demo_lease ''approval_required: media changed'' demo_upload_db))"
    by (simp add: fail_finally_def demo_upload_defs fetch_optional_def owned_def lease_live_def split_beta Let_def)
  from requote_only_after_revocation [OF _ _ _ _ this, of demo_upload_job "''q''" "''approval_required''"]
  show ?thesis
    by (simp add: demo_upload_defs fetch_optional_def owned_def lease_live_def paid_kind_def needs_approval_def
        str_contains_def job_quote_def filter_empty_conv)
qed

section \<open>Recovery at start\<close>

definition interrupted_kind :: "string \<Rightarrow> job_kind option" where
  "interrupted_kind st =
     (if st \<in> {''pending'', ''processing''} then Some ProcessVideo
      else if st = ''quoting'' then Some QuoteVideo
      else if st = ''uploading'' then Some UploadVideo else None)"

definition scheduled :: "job_kind \<Rightarrow> string \<Rightarrow> job_row list \<Rightarrow> bool" where
  "scheduled kind v rows \<longleftrightarrow>
     exists_where (\<lambda>r. active r \<and> jb_kind r = kind_as_str kind \<and> jb_video_id r = Some v) rows"

lemma enqueue_schedules:
  assumes "job_id \<notin> job_ids (video_jobs db)" "kind \<in> {ProcessVideo, QuoteVideo, UploadVideo}"
  shows "scheduled kind v (video_jobs (enqueue_video_job now m job_id kind v db))"
proof (cases "scheduled kind v (video_jobs db)")
  case True
  then show ?thesis by (simp add: enqueue_video_job_def scheduled_def conj_commute conj_left_commute)
next
  case False
  then have "\<not> index_conflict (new_job now job_id (kind_as_str kind) (Some v) m None) x"
    if "x \<in> set (video_jobs db)" for x
    using that assms by (auto simp: index_conflict_def new_job_def job_ids_def scheduled_def)
  with False show ?thesis
    by (auto simp: enqueue_video_job_def scheduled_def insert_or_ignore_def new_job_def active_def)
qed

lemma enqueue_keeps: "scheduled k w (video_jobs db) \<Longrightarrow> scheduled k w (video_jobs (enqueue_video_job now m i kind v db))"
  by (auto simp: enqueue_video_job_def scheduled_def insert_or_ignore_def)

lemma recover_keeps: "scheduled k w (video_jobs db) \<Longrightarrow> scheduled k w (video_jobs (recover_video now m ok fresh v db))"
  by (simp add: recover_video_def set_status_jobs enqueue_keeps)

lemma recover_fold_keeps:
  "scheduled k w (video_jobs db) \<Longrightarrow> scheduled k w (video_jobs (fold (recover_video now m ok fresh) vs db))"
  by (induction vs arbitrary: db) (simp_all add: recover_keeps)

lemma enqueue_ids: "job_ids (video_jobs (enqueue_video_job now m i kind v db)) \<subseteq> insert i (job_ids (video_jobs db))"
proof -
  have "jb_id (new_job now i k w m q) = i" for k w q by (simp add: new_job_def)
  then show ?thesis
    by (cases "exists_where (index_conflict (new_job now i (kind_as_str kind) (Some v) m None)) (video_jobs db)")
      (simp_all add: enqueue_video_job_def insert_or_ignore_def job_ids_def subset_insertI)
qed

lemma recover_ids:
  "job_ids (video_jobs (recover_video now m ok fresh v db)) \<subseteq> insert (fresh (vd_id v)) (job_ids (video_jobs db))"
  by (simp add: recover_video_def set_status_jobs enqueue_ids subset_insertI)

lemma job_ids_update: "(\<And>r. P r \<Longrightarrow> jb_id (f r) = jb_id r) \<Longrightarrow> job_ids (update_where P f rows) = job_ids rows"
  using map_update_where [of P jb_id f rows] by (metis job_ids_def set_map)

lemma recover_schedules:
  assumes "fresh (vd_id v) \<notin> job_ids (video_jobs db)" "interrupted_kind (vd_status v) = Some kind"
    and "kind = ProcessVideo \<longrightarrow> ok v"
  shows "scheduled kind (vd_id v) (video_jobs (recover_video now m ok fresh v db))"
  using assms by (auto simp: recover_video_def interrupted_kind_def enqueue_schedules split: if_splits)

lemma disjoint_mono: "A \<subseteq> B \<Longrightarrow> C \<subseteq> D \<Longrightarrow> B \<inter> D = {} \<Longrightarrow> A \<inter> C = {}"
  by blast

lemma recover_fold_schedules:
  "v \<in> set vs \<Longrightarrow> fresh ` vd_id ` set vs \<inter> job_ids (video_jobs db) = {} \<Longrightarrow> distinct (map (fresh \<circ> vd_id) vs) \<Longrightarrow>
   interrupted_kind (vd_status v) = Some kind \<Longrightarrow> (kind = ProcessVideo \<longrightarrow> ok v) \<Longrightarrow>
   scheduled kind (vd_id v) (video_jobs (fold (recover_video now m ok fresh) vs db))"
proof (induction vs arbitrary: db)
  case Nil
  then show ?case by simp
next
  case (Cons x vs)
  show ?case
  proof (cases "v = x")
    case True
    with Cons.prems have "fresh (vd_id v) \<notin> job_ids (video_jobs db)" by auto
    with Cons.prems True recover_schedules show ?thesis by (simp add: recover_fold_keeps)
  next
    case False
    have "fresh (vd_id x) \<notin> fresh ` vd_id ` set vs" using Cons.prems(3) by (simp add: image_image)
    then have "fresh ` vd_id ` set vs \<inter> insert (fresh (vd_id x)) (job_ids (video_jobs db)) = {}"
      using Cons.prems(2) by simp
    from disjoint_mono [OF subset_refl recover_ids [of now m ok fresh x db] this]
    have "fresh ` vd_id ` set vs \<inter> job_ids (video_jobs (recover_video now m ok fresh x db)) = {}" .
    moreover have "v \<in> set vs" using Cons.prems(1) False by simp
    ultimately show ?thesis using Cons.IH Cons.prems(3-5) by simp
  qed
qed

lemma requeue_expired_facts:
  "videos (requeue_expired now db) = videos db"
  "job_ids (video_jobs (requeue_expired now db)) = job_ids (video_jobs db)"
  by (simp_all add: requeue_expired_def job_ids_update)

lemma interrupted_videosI:
  assumes "v \<in> set (videos db)" "interrupted_kind (vd_status v) = Some kind"
    and "\<not> exists_where (\<lambda>r. jb_video_id r = Some (vd_id v) \<and> jb_status r = ''running'' \<and> lease_live now r) (video_jobs db)"
  shows "v \<in> set (interrupted_videos now (requeue_expired now db))"
  using assms
  by (auto simp: interrupted_videos_def requeue_expired_facts interrupted_kind_def requeue_expired_def
      in_update_where split: if_splits)

text \<open>After recovery at start no video is stranded: whatever video was being processed, quoted or
  uploaded and is not under a live lease has a queued or running job of that kind again, unless its
  source is gone; identifiers drawn for the new jobs are fresh.\<close>

theorem recovery_reschedules:
  assumes "v \<in> set (videos db)" "interrupted_kind (vd_status v) = Some kind"
    and "kind = ProcessVideo \<longrightarrow> recoverable v"
    and "\<not> exists_where (\<lambda>r. jb_video_id r = Some (vd_id v) \<and> jb_status r = ''running'' \<and> lease_live now r) (video_jobs db)"
    and "distinct (map (fresh \<circ> vd_id) (videos db))" "fresh ` vd_id ` set (videos db) \<inter> job_ids (video_jobs db) = {}"
  shows "scheduled kind (vd_id v) (video_jobs
    (recover_interrupted_jobs now m recoverable fresh pending pm publish_id db))"
proof -
  let ?db = "requeue_expired now db"
  let ?vs = "interrupted_videos now ?db"
  have sub: "set ?vs \<subseteq> set (videos db)" by (auto simp: interrupted_videos_def requeue_expired_facts)
  have "distinct (map (fresh \<circ> vd_id) ?vs)"
    using assms(5) by (auto simp: interrupted_videos_def requeue_expired_facts distinct_map intro: inj_on_subset)
  moreover have "fresh ` vd_id ` set ?vs \<inter> job_ids (video_jobs ?db) = {}"
    using assms(6) sub requeue_expired_facts(2) [of now db] by blast
  ultimately have "scheduled kind (vd_id v) (video_jobs (fold (recover_video now m recoverable fresh) ?vs ?db))"
    using interrupted_videosI [OF assms(1,2,4)] assms(2,3) by (intro recover_fold_schedules) simp_all
  then have "scheduled kind (vd_id v) (video_jobs (enqueue_catalog_publish_job now pm publish_id
      (fold (recover_video now m recoverable fresh) ?vs ?db)))"
    by (auto simp: enqueue_catalog_publish_job_def insert_or_ignore_def scheduled_def)
  with \<open>scheduled kind (vd_id v) (video_jobs (fold _ ?vs ?db))\<close> show ?thesis
    by (simp add: recover_interrupted_jobs_def Let_def)
qed

theorem recovery_reschedules_witness:
  "scheduled UploadVideo ''v'' (video_jobs (recover_interrupted_jobs 90000 3 (\<lambda>_. True) (\<lambda>v. ''k'') False 3 ''p''
     (demo_upload_db\<lparr>video_jobs := []\<rparr>)))"
  using recovery_reschedules [of demo_video "demo_upload_db\<lparr>video_jobs := []\<rparr>" UploadVideo "\<lambda>_. True" 90000 "\<lambda>v. ''k''"
      3 False 3 "''p''"]
  by (simp add: demo_upload_defs interrupted_kind_def job_ids_def)

section \<open>A publication request during a preparation\<close>

text \<open>While a preparation runs, a request to publish the catalog is dropped: the statement only looks
  for a queued job, and the index then ignores the insertion. When the catalog has moved on meanwhile,
  the running preparation does not succeed either.\<close>

theorem publish_request_dropped:
  assumes "r \<in> set (video_jobs db)" "jb_kind r = ''publish_catalog''" "jb_video_id r = None"
    and "jb_status r = ''running''"
  shows "enqueue_catalog_publish_job now m job_id db = db \<and>
    (cp_revision plan \<noteq> catalog_generation db \<longrightarrow> fst (prepare_commit t lease plan db) \<noteq> Inr ())"
proof -
  have "index_conflict (new_job now job_id ''publish_catalog'' None m None) r"
    using assms by (simp add: index_conflict_def new_job_def active_def)
  with assms(1) have "exists_where (index_conflict (new_job now job_id ''publish_catalog'' None m None)) (video_jobs db)"
    by auto
  then show ?thesis
    by (auto simp: enqueue_catalog_publish_job_def insert_or_ignore_def prepare_commit_def assert_catalog_revision_def
        split: sum.split)
qed

theorem publish_request_dropped_witness:
  "enqueue_catalog_publish_job 90000 3 ''k'' (qs_db demo_queue) = qs_db demo_queue"
  using publish_request_dropped [of "hd (video_jobs (qs_db demo_queue))" "qs_db demo_queue"]
  by (simp add: demo_queue_eval)

end
