(* ===== verification/Catalog_Properties.thy ===== *)
theory Catalog_Properties
  imports Job_Properties
begin

text \<open>
  The catalog and its payments over whole runs: the revision detects every change, at most one
  catalog payment that never completed is open, and a committed publication is the current catalog.
\<close>

section \<open>Revisions over runs\<close>

interpretation admin: guarded_system "admin_exec cfg" "\<lambda>_. True" for cfg
  by unfold_locales simp

lemma revised_run: "revised db (run (admin_exec cfg) evs db)"
  by (rule admin.run_rel [of revised]) (auto intro: revised_trans revised_exec)

text \<open>C11. Over every run of the service the catalog revision either grows or stays, and when it stays
  the videos that a catalog built from the database lists are the same, field by field.\<close>

theorem revision_detects_changes:
  "catalog_generation db < catalog_generation (run (admin_exec cfg) evs db) \<or>
   (catalog_generation (run (admin_exec cfg) evs db) = catalog_generation db \<and>
    pd_videos (build_all_catalog_from_db now' (run (admin_exec cfg) evs db)) =
    pd_videos (build_all_catalog_from_db now db))"
  using revised_run [of db cfg evs] by (auto simp: revised_def)

section \<open>Paid jobs\<close>

definition finalizing :: "job_row \<Rightarrow> bool" where
  "finalizing r \<longleftrightarrow> active r \<and> jb_payment_quote_id r \<noteq> None"

definition paid_kinds_ok :: "job_row list \<Rightarrow> bool" where
  "paid_kinds_ok rows \<longleftrightarrow> (\<forall>r \<in> set rows. jb_payment_quote_id r \<noteq> None \<longrightarrow> jb_kind r = ''finalize_catalog'')"

definition paid_from :: "job_row list \<Rightarrow> job_row list \<Rightarrow> bool" where
  "paid_from a b \<longleftrightarrow> (\<forall>r' \<in> set b. finalizing r' \<longrightarrow>
     (\<exists>r \<in> set a. finalizing r \<and> jb_payment_quote_id r = jb_payment_quote_id r'))"

lemma paid_from_refl [simp]: "paid_from rows rows"
  by (auto simp: paid_from_def)

lemma paid_from_trans: "paid_from a b \<Longrightarrow> paid_from b c \<Longrightarrow> paid_from a c"
  unfolding paid_from_def by metis

lemma paid_kinds_update:
  "paid_kinds_ok rows \<Longrightarrow> (\<And>r. P r \<Longrightarrow> r \<in> set rows \<Longrightarrow> row_change r (f r)) \<Longrightarrow> paid_kinds_ok (update_where P f rows)"
  unfolding paid_kinds_ok_def
proof (intro ballI impI)
  fix r'
  assume ok: "\<forall>r \<in> set rows. jb_payment_quote_id r \<noteq> None \<longrightarrow> jb_kind r = ''finalize_catalog''"
    and f: "\<And>r. P r \<Longrightarrow> r \<in> set rows \<Longrightarrow> row_change r (f r)"
    and r': "r' \<in> set (update_where P f rows)" "jb_payment_quote_id r' \<noteq> None"
  from r'(1) obtain r where r: "r \<in> set rows" "r' = (if P r then f r else r)" by (auto simp: in_update_where)
  with f have "row_change r r'" by simp
  with ok r(1) r'(2) show "jb_kind r' = ''finalize_catalog''" by (simp add: row_change_def)
qed

lemma jobs_change_kinds: "jobs_change Q a b \<Longrightarrow> paid_kinds_ok a \<Longrightarrow> paid_kinds_ok b"
proof (induction rule: jobs_change.induct)
  case (update P f rows)
  then show ?case by (intro paid_kinds_update) auto
next
  case (requeue r rows now)
  then show ?case by (intro paid_kinds_update) (auto simp: requeued_change)
next
  case (insert rows r)
  then show ?case by (auto simp: paid_kinds_ok_def)
qed simp_all

lemma paid_from_update:
  assumes "\<And>r. P r \<Longrightarrow> r \<in> set rows \<Longrightarrow> finalizing (f r) \<Longrightarrow>
    finalizing r \<and> jb_payment_quote_id (f r) = jb_payment_quote_id r"
  shows "paid_from rows (update_where P f rows)"
  unfolding paid_from_def
proof (intro ballI impI)
  fix r'
  assume "r' \<in> set (update_where P f rows)" and paid: "finalizing r'"
  then obtain r where r: "r \<in> set rows" "r' = (if P r then f r else r)" by (auto simp: in_update_where)
  with paid assms [of r] have "finalizing r \<and> jb_payment_quote_id r = jb_payment_quote_id r'" by (cases "P r") auto
  with r show "\<exists>r \<in> set rows. finalizing r \<and> jb_payment_quote_id r = jb_payment_quote_id r'" by blast
qed

text \<open>Outside the approval and the resumption of the catalog, no job becomes a paying one.\<close>

lemma jobs_change_paid:
  "jobs_change (\<lambda>r. jb_kind r = ''upload_video'') a b \<Longrightarrow> no_conflicts a \<Longrightarrow> paid_kinds_ok a \<Longrightarrow> paid_from a b"
proof (induction rule: jobs_change.induct)
  case (update P f rows)
  then show ?case
    by (intro paid_from_update) (auto simp: finalizing_def row_change_def)
next
  case (requeue r rows now)
  have "jb_payment_quote_id x = None" if "x \<in> set rows" "jb_id x = jb_id r" for x
  proof -
    have "x = r" using that requeue by (auto simp: no_conflicts_def dest: distinct_ids_eq)
    with requeue that show ?thesis by (auto simp: paid_kinds_ok_def)
  qed
  then show ?case by (intro paid_from_update) (auto simp: finalizing_def requeued_def)
next
  case (insert rows r)
  then show ?case by (auto simp: paid_from_def finalizing_def)
next
  case (trans a b c)
  have "no_conflicts b" using jobs_change_evolves [OF trans(1)] trans.prems by (simp add: evolves_def)
  moreover have "paid_kinds_ok b" using jobs_change_kinds [OF trans(1)] trans.prems by simp
  ultimately show ?case using trans by (blast intro: paid_from_trans)
qed simp

section \<open>Open catalog payments\<close>

definition open_state :: "string \<Rightarrow> bool" where
  "open_state st \<longleftrightarrow> st = ''draft'' \<or> pending_state st"

text \<open>Beside the queue, the identifiers of the publications that completed.\<close>

type_synonym pay_state = "queue_state \<times> string list"

definition completed_by :: "int \<times> admin_op \<Rightarrow> admin_db \<Rightarrow> string list" where
  "completed_by ev db =
     (case ev of
        (now, FinalizeCommit lease plan) \<Rightarrow>
          (case fst (finalize_commit now lease plan db) of
             Inr _ \<Rightarrow> [pa_quote_id (cp_approval plan)] | Inl _ \<Rightarrow> [])
      | _ \<Rightarrow> [])"

definition pay_step :: "admin_config \<Rightarrow> int \<times> admin_op \<Rightarrow> pay_state \<Rightarrow> pay_state" where
  "pay_step cfg ev s = (queue_step cfg ev (fst s), snd s @ completed_by ev (qs_db (fst s)))"

definition approvals_ok :: "string list \<Rightarrow> catalog_approval_row list \<Rightarrow> bool" where
  "approvals_ok fin rows \<longleftrightarrow> distinct (map ca_id rows) \<and>
     (\<forall>c \<in> set rows. pa_quote_id (cp_approval (ca_plan c)) = ca_id c) \<and>
     (\<forall>a \<in> set rows. \<forall>b \<in> set rows. open_state (ca_state a) \<and> open_state (ca_state b) \<and>
        ca_id a \<notin> set fin \<and> ca_id b \<notin> set fin \<longrightarrow> a = b)"

text \<open>A job that will pay for a catalog has an approval that is pending, or completed before.\<close>

definition jobs_pay :: "string list \<Rightarrow> job_row list \<Rightarrow> catalog_approval_row list \<Rightarrow> bool" where
  "jobs_pay fin jobs rows \<longleftrightarrow> (\<forall>j \<in> set jobs. finalizing j \<longrightarrow>
     (\<exists>c \<in> set rows. jb_payment_quote_id j = Some (ca_id c) \<and> (pending_state (ca_state c) \<or> ca_id c \<in> set fin)))"

definition pay_ok :: "pay_state \<Rightarrow> bool" where
  "pay_ok s \<longleftrightarrow> queue_ok (fst s) \<and> paid_kinds_ok (video_jobs (qs_db (fst s))) \<and>
     approvals_ok (snd s) (catalog_approvals (qs_db (fst s))) \<and>
     jobs_pay (snd s) (video_jobs (qs_db (fst s))) (catalog_approvals (qs_db (fst s)))"

lemma approvals_update:
  assumes ok: "approvals_ok fin rows"
    and f: "\<And>c. P c \<Longrightarrow> c \<in> set rows \<Longrightarrow> ca_id (f c) = ca_id c \<and> ca_plan (f c) = ca_plan c"
    and opened: "\<And>c. P c \<Longrightarrow> c \<in> set rows \<Longrightarrow> open_state (ca_state (f c)) \<Longrightarrow> ca_id c \<notin> set fin \<Longrightarrow> open_state (ca_state c)"
  shows "approvals_ok fin (update_where P f rows)"
proof -
  have "map ca_id (update_where P f rows) = map ca_id rows"
    using f by (simp add: update_where_def)
  moreover have "pa_quote_id (cp_approval (ca_plan c')) = ca_id c'" if "c' \<in> set (update_where P f rows)" for c'
    using that ok f by (auto simp: in_update_where approvals_ok_def)
  moreover have "a' = b'" if ab: "a' \<in> set (update_where P f rows)" "b' \<in> set (update_where P f rows)"
      and op: "open_state (ca_state a')" "open_state (ca_state b')" "ca_id a' \<notin> set fin" "ca_id b' \<notin> set fin"
    for a' b'
  proof -
    from ab obtain a b where a: "a \<in> set rows" "a' = (if P a then f a else a)"
      and b: "b \<in> set rows" "b' = (if P b then f b else b)" by (auto simp: in_update_where)
    have "open_state (ca_state a) \<and> ca_id a \<notin> set fin" using op(1,3) a f [of a] opened [of a] by (auto split: if_splits)
    moreover have "open_state (ca_state b) \<and> ca_id b \<notin> set fin"
      using op(2,4) b f [of b] opened [of b] by (auto split: if_splits)
    ultimately have "a = b" using ok a b by (auto simp: approvals_ok_def)
    with a b show ?thesis by simp
  qed
  ultimately show ?thesis using ok unfolding approvals_ok_def by metis
qed

lemma jobs_pay_update:
  assumes "jobs_pay fin jobs rows"
    and "\<And>c. P c \<Longrightarrow> c \<in> set rows \<Longrightarrow> ca_id (f c) = ca_id c"
    and "\<And>c j. P c \<Longrightarrow> c \<in> set rows \<Longrightarrow> j \<in> set jobs \<Longrightarrow> finalizing j \<Longrightarrow> jb_payment_quote_id j = Some (ca_id c) \<Longrightarrow>
      pending_state (ca_state c) \<or> ca_id c \<in> set fin \<Longrightarrow> pending_state (ca_state (f c)) \<or> ca_id c \<in> set fin"
  shows "jobs_pay fin jobs (update_where P f rows)"
  unfolding jobs_pay_def
proof (intro ballI impI)
  fix j
  assume j: "j \<in> set jobs" "finalizing j"
  with assms(1) obtain c where c: "c \<in> set rows" "jb_payment_quote_id j = Some (ca_id c)"
    "pending_state (ca_state c) \<or> ca_id c \<in> set fin" by (auto simp: jobs_pay_def)
  let ?c = "if P c then f c else c"
  have "?c \<in> set (update_where P f rows)" using c(1) by (auto simp: in_update_where)
  moreover have "jb_payment_quote_id j = Some (ca_id ?c) \<and> (pending_state (ca_state ?c) \<or> ca_id ?c \<in> set fin)"
    using c assms(2) [of c] assms(3) [OF _ c(1) j] by simp
  ultimately show "\<exists>c \<in> set (update_where P f rows). jb_payment_quote_id j = Some (ca_id c) \<and>
      (pending_state (ca_state c) \<or> ca_id c \<in> set fin)" by blast
qed

lemma jobs_pay_from: "jobs_pay fin a rows \<Longrightarrow> paid_from a b \<Longrightarrow> jobs_pay fin b rows"
  unfolding jobs_pay_def paid_from_def by metis

lemma one_finalizing:
  assumes "no_conflicts jobs" "paid_kinds_ok jobs" "j \<in> set jobs" "k \<in> set jobs" "finalizing j" "finalizing k"
  shows "j = k"
proof -
  have "index_conflict j k"
    using assms by (auto simp: index_conflict_def finalizing_def paid_kinds_ok_def)
  with assms show ?thesis by (auto simp: no_conflicts_def)
qed

lemma approvals_ok_more: "approvals_ok fin rows \<Longrightarrow> approvals_ok (fin @ extra) rows"
  by (auto simp: approvals_ok_def)

lemma jobs_pay_more: "jobs_pay fin jobs rows \<Longrightarrow> jobs_pay (fin @ extra) jobs rows"
  by (fastforce simp: jobs_pay_def)

lemma approval_eq: "approvals_ok fin rows \<Longrightarrow> c \<in> set rows \<Longrightarrow> c' \<in> set rows \<Longrightarrow> ca_id c = ca_id c' \<Longrightarrow> c = c'"
  unfolding approvals_ok_def by (metis distinct_map inj_onD)

section \<open>Every event keeps the payments in order\<close>

abbreviation payments_ok :: "string list \<Rightarrow> admin_db \<Rightarrow> bool" where
  "payments_ok fin db \<equiv> approvals_ok fin (catalog_approvals db) \<and>
     jobs_pay fin (video_jobs db) (catalog_approvals db)"

lemma set_approval_simps:
  "set_approval q st msg = update_where (\<lambda>c. ca_id c = q)
     (\<lambda>c. c\<lparr>ca_state := st, ca_error_message := (case msg of None \<Rightarrow> ca_error_message c | Some m \<Rightarrow> m)\<rparr>)"
  by (simp add: set_approval_def fun_eq_iff)

lemma set_approval_ok:
  assumes "payments_ok fin db" "c \<in> set (catalog_approvals db)" "open_state (ca_state c) \<or> ca_id c \<in> set fin"
    and "pending_state st"
  shows "approvals_ok fin (set_approval (ca_id c) st msg (catalog_approvals db))"
    "jobs_pay fin (video_jobs db) (set_approval (ca_id c) st msg (catalog_approvals db))"
    "\<exists>c' \<in> set (set_approval (ca_id c) st msg (catalog_approvals db)). ca_id c' = ca_id c \<and> pending_state (ca_state c')"
proof -
  have same: "c' = c" if "c' \<in> set (catalog_approvals db)" "ca_id c' = ca_id c" for c'
    using approval_eq [of fin] assms(1,2) that by blast
  show "approvals_ok fin (set_approval (ca_id c) st msg (catalog_approvals db))"
    unfolding set_approval_simps using assms(1,3) same by (intro approvals_update) auto
  show "jobs_pay fin (video_jobs db) (set_approval (ca_id c) st msg (catalog_approvals db))"
    unfolding set_approval_simps using assms(1,4) by (intro jobs_pay_update) auto
  show "\<exists>c' \<in> set (set_approval (ca_id c) st msg (catalog_approvals db)). ca_id c' = ca_id c \<and> pending_state (ca_state c')"
    unfolding set_approval_simps set_update_where
    by (rule bexI [OF _ image_eqI [OF HOL.refl assms(2)]]) (simp add: assms(4))
qed

lemma jobs_pay_snoc: "jobs_pay fin (jobs @ [j]) rows \<longleftrightarrow> jobs_pay fin jobs rows \<and> (finalizing j \<longrightarrow>
    (\<exists>c \<in> set rows. jb_payment_quote_id j = Some (ca_id c) \<and> (pending_state (ca_state c) \<or> ca_id c \<in> set fin)))"
  by (auto simp: jobs_pay_def)

lemma prepare_payments:
  assumes "payments_ok fin db"
  shows "payments_ok fin (snd (prepare_commit now lease plan db))"
proof (cases "fst (prepare_commit now lease plan db)")
  case (Inl e)
  then have "snd (prepare_commit now lease plan db) = db"
    by (auto simp: prepare_commit_def split: sum.splits if_splits)
  with assms show ?thesis by simp
next
  case (Inr u)
  let ?q = "pa_quote_id (cp_approval plan)"
  from Inr have new: "\<forall>c \<in> set (catalog_approvals db). ca_id c \<noteq> ?q"
    and none: "\<forall>c \<in> set (catalog_approvals db). \<not> pending_state (ca_state c)"
    and db': "snd (prepare_commit now lease plan db) = db\<lparr>catalog_approvals := supersede_drafts (catalog_approvals db) @
      [\<lparr>ca_id = ?q, ca_plan = plan, ca_state = ''draft'', ca_error_message = None, ca_created_at = now\<rparr>]\<rparr>"
    by (auto simp: prepare_commit_def require_reconciled_catalog_def split: sum.splits if_splits)
  let ?old = "supersede_drafts (catalog_approvals db)"
  have old: "approvals_ok fin ?old"
    unfolding supersede_drafts_def using assms by (intro approvals_update) (auto simp: open_state_def pending_state_def)
  have closed: "\<not> open_state (ca_state c)" if "c \<in> set ?old" for c
  proof -
    from that obtain c0 where c0: "c0 \<in> set (catalog_approvals db)"
      "c = (if ca_state c0 = ''draft'' then c0\<lparr>ca_state := ''superseded''\<rparr> else c0)"
      by (auto simp: supersede_drafts_def in_update_where)
    with none show ?thesis by (cases "ca_state c0 = ''draft''") (simp_all add: open_state_def pending_state_def)
  qed
  have ids: "ca_id ` set ?old = ca_id ` set (catalog_approvals db)"
  proof -
    have "map ca_id ?old = map ca_id (catalog_approvals db)"
      unfolding supersede_drafts_def by (rule map_update_where) simp
    from arg_cong [OF this, of set] show ?thesis by simp
  qed
  have "jobs_pay fin (video_jobs db) ?old"
    unfolding supersede_drafts_def using assms by (intro jobs_pay_update) (auto simp: pending_state_def)
  with old closed ids new show ?thesis
    unfolding db' by (auto simp: approvals_ok_def jobs_pay_def image_iff)
qed

lemma approve_payments:
  assumes "payments_ok fin db"
  shows "payments_ok fin (snd (approve_catalog answer now m job_id request db))"
proof (cases "fst (approve_catalog answer now m job_id request db)")
  case (Inl e)
  then have "snd (approve_catalog answer now m job_id request db) = db"
    by (auto simp: approve_catalog_def Let_def split: option.splits sum.splits if_splits)
  with assms show ?thesis by simp
next
  case (Inr u)
  then obtain c where c: "fetch_optional (\<lambda>c. ca_id c = rq_quote_id request) (catalog_approvals db) = Some c"
    and draft: "ca_state c = ''draft''"
    and db': "snd (approve_catalog answer now m job_id request db) = db\<lparr>catalog_approvals :=
        set_approval (rq_quote_id request) ''approved'' None (catalog_approvals db),
      video_jobs := video_jobs db @ [new_job now job_id ''finalize_catalog'' None m (Some (rq_quote_id request))]\<rparr>"
    by (auto simp: approve_catalog_def Let_def split: option.splits sum.splits if_splits)
  from fetch_optional_SomeD [OF c] have "c \<in> set (catalog_approvals db)" "ca_id c = rq_quote_id request" by simp_all
  with set_approval_ok [OF assms this(1), of "''approved''" None] draft show ?thesis
    unfolding db' by (auto simp: jobs_pay_snoc new_job_def open_state_def pending_state_def [of "''approved''"])
      (metis)
qed

lemma begin_payments:
  assumes "payments_ok fin db"
  shows "payments_ok fin (snd (finalize_begin now lease db))"
proof -
  have "snd (finalize_begin now lease db) = db \<or> (\<exists>c \<in> set (catalog_approvals db).
      ca_state c \<in> {''approved'', ''uploading''} \<and> snd (finalize_begin now lease db) = db\<lparr>catalog_approvals :=
        set_approval (pa_quote_id (cp_approval (ca_plan c))) ''uploading'' None (catalog_approvals db)\<rparr>)"
    by (auto simp: finalize_begin_def execute_fenced_def split: option.splits sum.splits prod.splits
        dest!: bind_eq_Some_conv [THEN iffD1] fetch_optional_SomeD)
  then show ?thesis
  proof
    assume "\<exists>c \<in> set (catalog_approvals db). ca_state c \<in> {''approved'', ''uploading''} \<and>
      snd (finalize_begin now lease db) = db\<lparr>catalog_approvals :=
        set_approval (pa_quote_id (cp_approval (ca_plan c))) ''uploading'' None (catalog_approvals db)\<rparr>"
    then obtain c where c: "c \<in> set (catalog_approvals db)" "ca_state c \<in> {''approved'', ''uploading''}"
      and db': "snd (finalize_begin now lease db) = db\<lparr>catalog_approvals :=
        set_approval (pa_quote_id (cp_approval (ca_plan c))) ''uploading'' None (catalog_approvals db)\<rparr>" by blast
    have "pa_quote_id (cp_approval (ca_plan c)) = ca_id c" using assms c(1) by (auto simp: approvals_ok_def)
    with set_approval_ok [OF assms c(1), of "''uploading''" None] c(2) show ?thesis
      unfolding db' by (auto simp: open_state_def pending_state_def)
  qed (use assms in simp)
qed

lemma commit_payments:
  assumes "payments_ok fin db"
  shows "payments_ok (fin @ completed_by (now, FinalizeCommit lease plan) db) (snd (finalize_commit now lease plan db))"
proof (cases "fst (finalize_commit now lease plan db)")
  case (Inl e)
  then have "snd (finalize_commit now lease plan db) = db" by (auto simp: finalize_commit_def split: sum.splits)
  with assms show ?thesis by (simp add: approvals_ok_more jobs_pay_more)
next
  case (Inr u)
  let ?q = "pa_quote_id (cp_approval plan)"
  have "completed_by (now, FinalizeCommit lease plan) db = [?q]" using Inr by (simp add: completed_by_def)
  moreover have "catalog_approvals (snd (finalize_commit now lease plan db)) =
      set_approval ?q ''complete'' None (catalog_approvals db)"
    using Inr by (auto simp: finalize_commit_def paid_phase_def map_err_def split: sum.splits)
  moreover have "video_jobs (snd (finalize_commit now lease plan db)) = video_jobs db" by (simp add: change_quiet)
  moreover have "approvals_ok (fin @ [?q]) (set_approval ?q ''complete'' None (catalog_approvals db))"
    unfolding set_approval_simps using approvals_ok_more assms
    by (intro approvals_update) (auto simp: open_state_def pending_state_def)
  moreover have "jobs_pay (fin @ [?q]) (video_jobs db) (set_approval ?q ''complete'' None (catalog_approvals db))"
    unfolding set_approval_simps using jobs_pay_more assms by (intro jobs_pay_update) auto
  ultimately show ?thesis by simp
qed

lemma resume_payments:
  assumes "payments_ok fin db" "no_conflicts (video_jobs db)"
  shows "payments_ok fin (snd (resume_catalog now db))"
proof (cases "fst (resume_catalog now db)")
  case (Inl e)
  then have "snd (resume_catalog now db) = db" by (auto simp: resume_catalog_def split: option.splits sum.splits)
  with assms show ?thesis by simp
next
  case (Inr u)
  then obtain c jobs where c: "newest_approval (filter (\<lambda>c. ca_state c = ''payment_recovery_required'')
      (catalog_approvals db)) = Some c"
    and jobs: "requeue_failed now (\<lambda>r. jb_payment_quote_id r = Some (ca_id c) \<and> jb_kind r = ''finalize_catalog'')
      ''The original catalog job is unavailable; reconcile its payment journal'' (video_jobs db) = Inr jobs"
    and db': "snd (resume_catalog now db) = db\<lparr>video_jobs := jobs,
      catalog_approvals := set_approval (ca_id c) ''approved'' (Some None) (catalog_approvals db)\<rparr>"
    by (auto simp: resume_catalog_def split: option.splits sum.splits)
  have newest_in: "newest_approval cs = Some c \<Longrightarrow> c \<in> set cs" for cs c
    by (induction cs arbitrary: c) (auto split: option.splits if_splits)
  from newest_in [OF c] have in_c: "c \<in> set (catalog_approvals db)" "ca_state c = ''payment_recovery_required''" by simp_all
  from jobs obtain r where r: "newest (filter (\<lambda>r. (jb_payment_quote_id r = Some (ca_id c) \<and>
      jb_kind r = ''finalize_catalog'') \<and> jb_status r = ''failed'') (video_jobs db)) = Some r"
    and rows': "jobs = update_where (\<lambda>x. jb_id x = jb_id r) (requeued now) (video_jobs db)"
    by (auto simp: requeue_failed_def split: option.splits if_splits)
  from Admin_Runs.newest_in [OF r] have in_r: "r \<in> set (video_jobs db)" "jb_payment_quote_id r = Some (ca_id c)" by simp_all
  let ?rows = "set_approval (ca_id c) ''approved'' (Some None) (catalog_approvals db)"
  note set = set_approval_ok [OF assms(1) in_c(1), of "''approved''" "Some None"]
  have old: "jobs_pay fin (video_jobs db) ?rows" and ok: "approvals_ok fin ?rows"
    and new: "\<exists>c' \<in> set ?rows. ca_id c' = ca_id c \<and> pending_state (ca_state c')"
    using set in_c(2) by (simp_all add: open_state_def pending_state_def)
  have "jobs_pay fin jobs ?rows"
    unfolding jobs_pay_def
  proof (intro ballI impI)
    fix j'
    assume "j' \<in> set jobs" and paid: "finalizing j'"
    then obtain j where j: "j \<in> set (video_jobs db)" "j' = (if jb_id j = jb_id r then requeued now j else j)"
      by (auto simp: rows' in_update_where)
    show "\<exists>c \<in> set ?rows. jb_payment_quote_id j' = Some (ca_id c) \<and> (pending_state (ca_state c) \<or> ca_id c \<in> set fin)"
    proof (cases "jb_id j = jb_id r")
      case True
      with j in_r assms(2) have "j = r" by (auto simp: no_conflicts_def dest: distinct_ids_eq)
      with j in_r have "jb_payment_quote_id j' = Some (ca_id c)" by (simp add: requeued_def)
      with new show ?thesis by metis
    next
      case False
      with j paid old show ?thesis by (simp add: jobs_pay_def)
    qed
  qed
  with ok show ?thesis by (simp add: db')
qed

text \<open>The rows a final failure leaves.\<close>

lemma fail_finally_shape:
  assumes "snd (fail_finally cancel now job detail db) \<noteq> db"
  obtains r d st where "fetch_optional (owned now job) (video_jobs db) = Some r"
    "video_jobs (snd (fail_finally cancel now job detail db)) = update_where (owned now job)
      (\<lambda>x. x\<lparr>jb_status := ''failed'', jb_lease_owner := None, jb_lease_expires_at := None,
         jb_last_error := Some d, jb_updated_at := now\<rparr>) (video_jobs db)"
    "catalog_approvals (snd (fail_finally cancel now job detail db)) =
      (if lj_kind job = FinalizeCatalog
       then update_where (\<lambda>c. Some (ca_id c) = jb_payment_quote_id r)
         (\<lambda>c. c\<lparr>ca_state := st, ca_error_message := Some d\<rparr>) (catalog_approvals db)
       else catalog_approvals db)"
proof (cases "fetch_optional (owned now job) (video_jobs db)")
  case None
  with assms show ?thesis by (simp add: fail_finally_def)
next
  case (Some r)
  obtain recovery d where revoke: "revoke_approval cancel job detail r db = (recovery, d)" by (metis surj_pair)
  show ?thesis
  proof (rule that [OF Some, of d "if needs_approval detail \<and> \<not> recovery then ''approval_required''
      else ''payment_recovery_required''"])
  qed (use assms in \<open>simp_all add: fail_finally_def Some revoke Let_def split: option.splits\<close>)
qed

lemma fail_payments:
  assumes ok: "payments_ok fin db" and jobs: "no_conflicts (video_jobs db)" "paid_kinds_ok (video_jobs db)"
  shows "payments_ok fin (snd (fail_finally cancel now job detail db))"
proof (cases "snd (fail_finally cancel now job detail db) = db")
  case True
  with ok show ?thesis by simp
next
  case False
  let ?db' = "snd (fail_finally cancel now job detail db)"
  from False obtain r d st where r: "fetch_optional (owned now job) (video_jobs db) = Some r"
    and jobs': "video_jobs ?db' = update_where (owned now job) (\<lambda>x. x\<lparr>jb_status := ''failed'', jb_lease_owner := None,
      jb_lease_expires_at := None, jb_last_error := Some d, jb_updated_at := now\<rparr>) (video_jobs db)"
    and rows': "catalog_approvals ?db' = (if lj_kind job = FinalizeCatalog
       then update_where (\<lambda>c. Some (ca_id c) = jb_payment_quote_id r)
         (\<lambda>c. c\<lparr>ca_state := st, ca_error_message := Some d\<rparr>) (catalog_approvals db)
       else catalog_approvals db)" by (rule fail_finally_shape)
  from fetch_optional_SomeD [OF r] have r_in: "r \<in> set (video_jobs db)" "owned now job r" by simp_all
  have paid: "jobs_pay fin (video_jobs ?db') (catalog_approvals db)"
  proof (rule jobs_pay_from)
    show "paid_from (video_jobs db) (video_jobs ?db')"
      unfolding jobs' by (rule paid_from_update) (simp add: finalizing_def active_def)
  qed (use ok in simp)
  have pending: "pending_state (ca_state c) \<or> ca_id c \<in> set fin"
    if "c \<in> set (catalog_approvals db)" "Some (ca_id c) = jb_payment_quote_id r" for c
  proof -
    from that(2) have q: "jb_payment_quote_id r = Some (ca_id c)" by simp
    moreover from this have "finalizing r" using r_in by (simp add: finalizing_def active_def owned_def)
    ultimately obtain c' where "c' \<in> set (catalog_approvals db)" "ca_id c' = ca_id c"
      "pending_state (ca_state c') \<or> ca_id c' \<in> set fin" using ok r_in(1) by (auto simp: jobs_pay_def)
    with approval_eq [of fin] ok that(1) show ?thesis by blast
  qed
  have none: "jb_payment_quote_id j \<noteq> jb_payment_quote_id r" if j: "j \<in> set (video_jobs ?db')" "finalizing j" for j
  proof
    assume q: "jb_payment_quote_id j = jb_payment_quote_id r"
    from j(1) obtain j0 where j0: "j0 \<in> set (video_jobs db)" "j = (if owned now job j0 then
        j0\<lparr>jb_status := ''failed'', jb_lease_owner := None, jb_lease_expires_at := None,
          jb_last_error := Some d, jb_updated_at := now\<rparr> else j0)" by (auto simp: jobs' in_update_where)
    with j(2) have "j = j0" "\<not> owned now job j0" by (auto simp: finalizing_def active_def split: if_splits)
    moreover have "finalizing r" using q j(2) r_in by (simp add: finalizing_def active_def owned_def)
    ultimately have "j0 = r" using one_finalizing [OF jobs j0(1) r_in(1)] j(2) by simp
    with r_in \<open>\<not> owned now job j0\<close> show False by simp
  qed
  show ?thesis
  proof (cases "lj_kind job = FinalizeCatalog")
    case False
    with ok paid show ?thesis by (simp add: rows')
  next
    case True
    have "approvals_ok fin (catalog_approvals ?db')"
      unfolding rows' if_P [OF True]
    proof (rule approvals_update)
      fix c
      assume "Some (ca_id c) = jb_payment_quote_id r" "c \<in> set (catalog_approvals db)" "ca_id c \<notin> set fin"
      with pending [of c] show "open_state (ca_state c)" by (simp add: open_state_def)
    qed (use ok in simp_all)
    moreover have "jobs_pay fin (video_jobs ?db') (catalog_approvals ?db')"
      using True paid none by (auto simp: rows' intro!: jobs_pay_update)
    ultimately show ?thesis by simp
  qed
qed

text \<open>Every other event leaves the approvals alone and makes no job a paying one.\<close>

definition quiet_op :: "admin_op \<Rightarrow> bool" where
  "quiet_op op \<longleftrightarrow> (case op of
     Fail _ _ _ \<Rightarrow> False | PrepareCatalog _ _ \<Rightarrow> False | ApproveCatalog _ _ _ \<Rightarrow> False | FinalizeBegin _ \<Rightarrow> False
   | FinalizeCommit _ _ \<Rightarrow> False | ResumeCatalog \<Rightarrow> False | _ \<Rightarrow> True)"

lemma approvals_of_statements [simp]:
  "catalog_approvals (insert_video v db) = catalog_approvals db"
  "catalog_approvals (insert_variant r db) = catalog_approvals db"
  "catalog_approvals (delete_variants w db) = catalog_approvals db"
  "catalog_approvals (delete_video_rows w db) = catalog_approvals db"
  "catalog_approvals (set_catalog_addresses a b db) = catalog_approvals db"
  "catalog_approvals (enqueue_video_job now m i kind w db) = catalog_approvals db"
  "catalog_approvals (enqueue_catalog_publish_job now m i db) = catalog_approvals db"
  by (simp_all add: insert_video_def insert_variant_def delete_variants_def delete_video_rows_def Let_def
      set_catalog_addresses_def enqueue_video_job_def enqueue_catalog_publish_job_def)

lemma execute_fenced_approvals:
  "(\<And>db. catalog_approvals (query db) = catalog_approvals db) \<Longrightarrow>
   catalog_approvals (snd (execute_fenced now lease query db)) = catalog_approvals db"
  by (simp add: execute_fenced_def split: sum.splits)

lemma cleanup_approvals [simp]: "catalog_approvals (snd (cleanup_expired_approvals now db)) = catalog_approvals db"
  by (simp add: cleanup_expired_approvals_def Let_def)

lemma recover_approvals: "catalog_approvals (recover_interrupted_jobs now m ok fresh p pm pid db) = catalog_approvals db"
proof -
  have video: "catalog_approvals (recover_video now m ok fresh v db) = catalog_approvals db" for v db
    by (simp add: recover_video_def set_status_def execute_fenced_approvals)
  have "catalog_approvals (fold (recover_video now m ok fresh) vs db) = catalog_approvals db" for vs db
    by (induction vs arbitrary: db) (simp_all add: video)
  then show ?thesis by (simp add: recover_interrupted_jobs_def Let_def requeue_expired_def)
qed

lemma record_upload_approvals:
  "catalog_approvals (snd (record_upload verify now lease v file r db)) = catalog_approvals db"
  by (auto simp: record_upload_def split_beta split: sum.split option.split intro!: execute_fenced_approvals)

lemma quiet_approvals: "quiet_op op \<Longrightarrow> catalog_approvals (admin_exec cfg (now, op) db) = catalog_approvals db"
  by (cases op) (simp_all add: quiet_op_def acquire_next_job_def renew_lease_def mark_job_succeeded_def
      mark_job_interrupted_def Let_def recover_approvals record_upload_approvals set_status_def
      set_awaiting_approval_def execute_fenced_approvals approve_video_def requote_video_def resume_video_def
      refresh_local_catalog_from_db_def reset_variants_def insert_rendition_def upload_commit_def
      update_video_visibility_def update_video_publication_def delete_video_def accept_video_def
      split: option.split sum.split prod.split)

lemma leased_paid:
  "r \<in> set rows \<Longrightarrow> ready now r \<Longrightarrow> no_conflicts rows \<Longrightarrow>
   paid_from rows (update_where (\<lambda>x. jb_id x = jb_id r) (leased_row now secs worker) rows) \<and>
   (paid_kinds_ok rows \<longrightarrow> paid_kinds_ok (update_where (\<lambda>x. jb_id x = jb_id r) (leased_row now secs worker) rows))"
proof -
  assume r: "r \<in> set rows" "ready now r" "no_conflicts rows"
  have "x = r" if "x \<in> set rows" "jb_id x = jb_id r" for x
    using that r by (auto simp: no_conflicts_def dest: distinct_ids_eq)
  then have "finalizing (leased_row now secs worker x) \<Longrightarrow> finalizing x" if "x \<in> set rows" "jb_id x = jb_id r" for x
    using that r(2) by (auto simp: finalizing_def active_def ready_def leased_row_def)
  then have "paid_from rows (update_where (\<lambda>x. jb_id x = jb_id r) (leased_row now secs worker) rows)"
    by (intro paid_from_update) (auto simp: leased_row_def)
  moreover have "paid_kinds_ok (update_where (\<lambda>x. jb_id x = jb_id r) (leased_row now secs worker) rows)"
    if "paid_kinds_ok rows"
    using that by (auto simp: paid_kinds_ok_def in_update_where leased_row_def split: if_splits)
  ultimately show ?thesis by blast
qed

lemma exec_jobs_paid:
  assumes "no_conflicts (video_jobs db)" "paid_kinds_ok (video_jobs db)"
    and "\<forall>r \<in> set (video_jobs db). kind_parse (jb_kind r) \<noteq> None"
  shows "paid_kinds_ok (video_jobs (admin_exec cfg (now, op) db))"
    "\<not> pays_for_catalog op \<Longrightarrow> paid_from (video_jobs db) (video_jobs (admin_exec cfg (now, op) db))"
proof -
  let ?jobs = "video_jobs (admin_exec cfg (now, op) db)"
  have "paid_kinds_ok ?jobs \<and> (\<not> pays_for_catalog op \<longrightarrow> paid_from (video_jobs db) ?jobs)"
  proof (cases "(\<exists>worker. op = Acquire worker) \<or> (\<exists>video. op = DeleteVideo video)")
    case False
    then have "jobs_change (\<lambda>_. True) (video_jobs db) ?jobs"
      by (intro change_exec) auto
    then have "paid_kinds_ok ?jobs" using jobs_change_kinds assms by blast
    moreover have "paid_from (video_jobs db) ?jobs" if "\<not> pays_for_catalog op"
      using False that assms by (intro jobs_change_paid change_exec) auto
    ultimately show ?thesis by blast
  next
    case True
    then show ?thesis
    proof
      assume "\<exists>video. op = DeleteVideo video"
      then obtain video where op: "op = DeleteVideo video" by blast
      have "set ?jobs \<subseteq> set (video_jobs db)"
        by (auto simp: op delete_video_def delete_video_rows_def Let_def split: option.split)
      with assms show ?thesis by (fastforce simp: paid_kinds_ok_def paid_from_def)
    next
      assume "\<exists>worker. op = Acquire worker"
      then obtain worker where op: "op = Acquire worker" by blast
      show ?thesis
        by (rule acquire_cases [OF assms(3), of now "cfg_lease_seconds cfg" worker])
          (use assms leased_paid in \<open>simp_all add: op\<close>)
    qed
  qed
  then show "paid_kinds_ok ?jobs" "\<not> pays_for_catalog op \<Longrightarrow> paid_from (video_jobs db) ?jobs" by blast+
qed

lemma retry_payments:
  assumes "payments_ok fin db" "no_conflicts (video_jobs db)" "paid_kinds_ok (video_jobs db)"
    and "\<forall>r \<in> set (video_jobs db). kind_parse (jb_kind r) \<noteq> None"
  shows "payments_ok fin (admin_exec cfg (now, Fail job detail cancelled) db)"
proof (cases "lj_attempts job \<ge> lj_max_attempts job \<or> needs_recovery job detail \<or> needs_approval detail")
  case True
  with fail_payments [OF assms(1-3)] show ?thesis by (simp add: mark_job_failed_def)
next
  case False
  have "paid_from (video_jobs db) (video_jobs (admin_exec cfg (now, Fail job detail cancelled) db))"
    by (rule exec_jobs_paid(2) [OF assms(2-4)]) (simp add: pays_for_catalog_def)
  then have "jobs_pay fin (video_jobs (admin_exec cfg (now, Fail job detail cancelled) db)) (catalog_approvals db)"
    using assms(1) jobs_pay_from by blast
  moreover have "catalog_approvals (admin_exec cfg (now, Fail job detail cancelled) db) = catalog_approvals db"
    using False by (simp add: mark_job_failed_def)
  ultimately show ?thesis using assms(1) by simp
qed

lemma exec_payments:
  assumes "payments_ok fin db" "no_conflicts (video_jobs db)" "paid_kinds_ok (video_jobs db)"
    and "\<forall>r \<in> set (video_jobs db). kind_parse (jb_kind r) \<noteq> None"
  shows "payments_ok (fin @ completed_by (now, op) db) (admin_exec cfg (now, op) db)"
proof (cases "quiet_op op")
  case True
  then have "paid_from (video_jobs db) (video_jobs (admin_exec cfg (now, op) db))"
    by (intro exec_jobs_paid(2) assms) (auto simp: quiet_op_def pays_for_catalog_def split: admin_op.splits)
  with assms(1) have "jobs_pay fin (video_jobs (admin_exec cfg (now, op) db)) (catalog_approvals db)"
    using jobs_pay_from by blast
  with assms(1) True show ?thesis by (simp add: quiet_approvals approvals_ok_more jobs_pay_more)
next
  case False
  have other: "completed_by (now, op) db = []" if "\<forall>lease plan. op \<noteq> FinalizeCommit lease plan"
    using that by (auto simp: completed_by_def split: admin_op.split)
  from False show ?thesis
    using retry_payments [OF assms] prepare_payments [OF assms(1)] approve_payments [OF assms(1)]
      begin_payments [OF assms(1)] commit_payments [OF assms(1)] resume_payments [OF assms(1,2)] other
    by (cases op) (simp_all add: quiet_op_def)
qed

lemma pay_step_ok: "pay_ok s \<Longrightarrow> pay_ok (pay_step cfg ev s)"
proof -
  assume ok: "pay_ok s"
  obtain q fin where s: "s = (q, fin)" by (cases s)
  obtain now op where ev: "ev = (now, op)" by (cases ev)
  from ok have queue: "queue_ok q" and pay: "payments_ok fin (qs_db q)" and kinds: "paid_kinds_ok (video_jobs (qs_db q))"
    by (simp_all add: pay_ok_def s)
  from queue have jobs: "no_conflicts (video_jobs (qs_db q))"
    "\<forall>r \<in> set (video_jobs (qs_db q)). kind_parse (jb_kind r) \<noteq> None" by (auto simp: queue_ok_def row_ok_def)
  have step: "qs_db (queue_step cfg ev q) = qs_db q \<or> qs_db (queue_step cfg ev q) = admin_exec cfg ev (qs_db q)"
    by (simp add: queue_step_def Let_def)
  have "payments_ok (fin @ completed_by ev (qs_db q)) (qs_db q)"
    using pay by (simp add: approvals_ok_more jobs_pay_more)
  moreover have "payments_ok (fin @ completed_by ev (qs_db q)) (admin_exec cfg ev (qs_db q))"
    unfolding ev by (rule exec_payments [OF pay jobs(1) kinds jobs(2)])
  moreover have "paid_kinds_ok (video_jobs (admin_exec cfg ev (qs_db q)))"
    unfolding ev by (rule exec_jobs_paid(1) [OF jobs(1) kinds jobs(2)])
  ultimately show ?thesis
    using step kinds queue_step_ok [OF queue, of cfg ev] unfolding pay_ok_def pay_step_def s by auto
qed

interpretation payments: guarded_system "pay_step cfg" pay_ok for cfg
  by unfold_locales (rule pay_step_ok)

lemma pay_start_ok: "pay_ok (queue_start, [])"
  using queue_start_ok
  by (simp add: pay_ok_def approvals_ok_def jobs_pay_def paid_kinds_ok_def queue_start_def empty_db_def)

text \<open>C16. In every run, at most one catalog payment that was never completed is open: of the approvals
  that are drafts, approved, uploading or waiting for recovery, at most one has not completed before.\<close>

theorem one_open_catalog_payment:
  "rows_affected (\<lambda>c. (ca_state c = ''draft'' \<or> pending_state (ca_state c)) \<and>
       ca_id c \<notin> set (snd (run (pay_step cfg) evs (queue_start, []))))
     (catalog_approvals (qs_db (fst (run (pay_step cfg) evs (queue_start, []))))) \<le> 1"
proof -
  let ?s = "run (pay_step cfg) evs (queue_start, [])"
  have ok: "approvals_ok (snd ?s) (catalog_approvals (qs_db (fst ?s)))"
    using payments.run_inv [OF pay_start_ok, of cfg evs] by (simp add: pay_ok_def)
  then have "distinct (catalog_approvals (qs_db (fst ?s)))" by (auto simp: approvals_ok_def distinct_map)
  with ok show ?thesis
    unfolding rows_affected_def
    by (intro at_most_one distinct_filter) (auto simp: approvals_ok_def open_state_def)
qed

end
