(* ===== verification/Publication_Properties.thy ===== *)
theory Publication_Properties
  imports Catalog_Properties "HOL-Library.Multiset"
begin

text \<open>
  What a committed publication contains: the catalog of the database at that moment, and storage
  that the approval covers.
\<close>

section \<open>Publishing the catalog\<close>

lemma run_revision:
  assumes "d2 = run (admin_exec cfg) evs d1" "d3 = run (admin_exec cfg) evs' d2"
    and "catalog_generation d3 = catalog_generation d1"
  shows "catalog_generation d2 = catalog_generation d1 \<and> catalog_videos d3 = catalog_videos d2"
  using revised_run [of d1 cfg evs] revised_run [of d2 cfg evs'] assms by (auto simp: revised_def)

lemma set_catalog_addresses_videos [simp]:
  "catalog_videos (set_catalog_addresses a b db) = catalog_videos db"
  unfolding set_catalog_addresses_def
  by (rule catalog_videos_same_listing [where f = "\<lambda>v. if is_ready v
      then v\<lparr>vd_catalog_address := Some a, vd_all_catalog_address := Some b\<rparr> else v"])
    (auto simp: update_where_def same_listing_def)

lemma catalog_videos_with [simp]:
  "catalog_videos (db\<lparr>catalog_approvals := cs\<rparr>) = catalog_videos db"
  "catalog_videos (db\<lparr>catalog_snapshot_row := sn\<rparr>) = catalog_videos db"
  by (simp_all add: catalog_videos_eq)

lemma assert_revision_Inr [simp]:
  "assert_catalog_revision r db = Inr u \<longleftrightarrow> catalog_generation db = r"
  by (simp add: assert_catalog_revision_def)

lemma rbind_Inl: "rbind m f = Inl e \<longleftrightarrow> m = Inl e \<or> (\<exists>x. m = Inr x \<and> f x = Inl e)"
  by (cases m) (simp_all add: rbind_def)

lemma listed_entry_id [simp]: "pc_id (listed_entry vs v) = vd_id v"
  by (simp add: listed_entry_def catalog_entry_def)

lemma finalize_commit_Inr:
  assumes "finalize_commit now lease plan db = (Inr u, db')"
  shows "catalog_generation db = cp_revision plan"
    "db' = (set_catalog_addresses (cq_address (cp_catalog_quote plan)) (cq_address (cp_all_catalog_quote plan)) db)
       \<lparr>catalog_approvals := set_approval (pa_quote_id (cp_approval plan)) ''complete'' None (catalog_approvals db),
        catalog_snapshot_row := Some (snapshot_of (cp_catalog plan) (cp_catalog_quote plan)
          (cp_all_catalog plan) (cp_all_catalog_quote plan))\<rparr>"
  using assms by (auto simp: finalize_commit_def paid_phase_def map_err_def split: sum.splits)

text \<open>C10. A publication that commits is the catalog of the database at that moment: whatever ran since
  its quote was prepared, the snapshot it leaves lists exactly the videos that are ready then, the
  published part exactly the public ones, both documents under the addresses that were quoted for them,
  and every ready video names these two addresses.\<close>

theorem finalized_catalog_is_current:
  assumes "prepare_plan digest content_cost mode ttl quote_id now d1 d2 = Inr plan"
    and "d2 = run (admin_exec cfg) evs d1" "d3 = run (admin_exec cfg) evs' d2"
    and "finalize_commit t lease plan d3 = (Inr u, d4)"
  shows "\<exists>sn. catalog_snapshot_row d4 = Some sn \<and>
    mset (map pc_id (pd_videos (sn_all sn))) = mset (map vd_id
      (filter (\<lambda>v. vd_status v = ''ready'' \<and> vd_manifest_address v \<noteq> None) (videos d4))) \<and>
    pd_videos (sn_all sn) = pd_videos (build_all_catalog_from_db t d4) \<and>
    pd_videos (sn_published sn) = filter pc_is_public (pd_videos (build_all_catalog_from_db t d4)) \<and>
    sn_published_address sn = Some (cq_address (cp_catalog_quote plan)) \<and>
    sn_all_address sn = Some (cq_address (cp_all_catalog_quote plan)) \<and>
    list_all (\<lambda>v. vd_status v = ''ready'' \<longrightarrow>
        vd_catalog_address v = Some (cq_address (cp_catalog_quote plan)) \<and>
        vd_all_catalog_address v = Some (cq_address (cp_all_catalog_quote plan))) (videos d4) \<and>
    content_cost (sn_published sn) mode = Inr (cp_catalog_quote plan) \<and>
    content_cost (sn_all sn) mode = Inr (cp_all_catalog_quote plan)"
proof -
  from assms(1) have plan: "cp_revision plan = catalog_generation d1" "cp_all_catalog plan = build_all_catalog_from_db now d2"
    "cp_catalog plan = published_part (cp_all_catalog plan)"
    "content_cost (cp_catalog plan) mode = Inr (cp_catalog_quote plan)"
    "content_cost (cp_all_catalog plan) mode = Inr (cp_all_catalog_quote plan)"
    by (auto simp: prepare_plan_def Let_def split: if_splits)
  note commit = finalize_commit_Inr [OF assms(4)]
  have "catalog_videos d3 = catalog_videos d2"
    using run_revision [OF assms(2,3)] commit(1) plan(1) by simp
  then have "catalog_videos d4 = catalog_videos d2" unfolding commit(2) by simp
  then have "pd_videos (build_all_catalog_from_db t d4) = pd_videos (cp_all_catalog plan)"
    using plan by simp
  moreover have "mset (map pc_id (catalog_videos d4)) = mset (map vd_id (filter listed (videos d4)))"
    by (simp add: catalog_videos_eq listed_entry_id o_def)
  moreover have "list_all (\<lambda>v. vd_status v = ''ready'' \<longrightarrow>
      vd_catalog_address v = Some (cq_address (cp_catalog_quote plan)) \<and>
      vd_all_catalog_address v = Some (cq_address (cp_all_catalog_quote plan))) (videos d4)"
    by (auto simp: commit(2) set_catalog_addresses_def list_all_iff in_update_where is_ready_def)
  ultimately show ?thesis
    using plan \<open>catalog_videos d4 = catalog_videos d2\<close>
    by (simp add: commit(2) snapshot_of_def published_part_def listed_def is_ready_def)
qed

section \<open>Publishing a video\<close>

lemma upload_commit_Inr:
  assumes "upload_commit now lease video_id plan db = (Inr u, db')"
  shows "catalog_generation db = up_base_revision plan"
    "db' = (set_catalog_addresses (cq_address (up_catalog_quote plan)) (cq_address (up_all_catalog_quote plan))
         (update_videos (\<lambda>v. vd_id v = video_id)
           (\<lambda>v. v\<lparr>vd_status := ''ready'', vd_manifest_address := Some (cq_address (up_manifest_quote plan)),
              vd_is_public := up_publish plan, vd_approval_expires_at := None, vd_error_message := None,
              vd_updated_at := md_updated_at (up_manifest plan)\<rparr>) db))
       \<lparr>catalog_snapshot_row := Some (snapshot_of (up_catalog plan) (up_catalog_quote plan)
          (up_all_catalog plan) (up_all_catalog_quote plan))\<rparr>"
  using assms by (auto simp: upload_commit_def paid_phase_def map_err_def split: sum.splits)

text \<open>The other videos of the catalog.\<close>

definition others :: "string \<Rightarrow> public_catalog_video list \<Rightarrow> public_catalog_video list" where
  "others video_id = filter (\<lambda>e. pc_id e \<noteq> video_id)"

lemma others_update:
  assumes "\<And>v. vd_id (f v) = vd_id v"
  shows "others w (catalog_videos (update_videos (\<lambda>v. vd_id v = w) f db)) = others w (catalog_videos db)"
proof -
  have "filter (\<lambda>v. listed v \<and> vd_id v \<noteq> w) (update_where (\<lambda>v. vd_id v = w) f vs) =
      filter (\<lambda>v. listed v \<and> vd_id v \<noteq> w) vs" for vs
    using assms by (induction vs) auto
  then show ?thesis
    by (simp add: others_def catalog_videos_eq filter_map o_def filter_sort conj_commute)
qed

lemma build_final_plan:
  assumes "build_final_upload_quote env quote_id now video_id reads = Inr q" "fq_plan q = Some plan"
  obtains inputs entry where
    "up_base_revision plan = catalog_generation (qr_revision reads)"
    "catalog_generation (qr_end reads) = catalog_generation (qr_revision reads)"
    "map_res (quote_file env) inputs = Inr (up_files plan)"
    "build_catalog_entry_from_db (qr_entry reads) video_id (cq_address (up_manifest_quote plan)) = Inr entry"
    "up_all_catalog plan = planned_catalog (build_all_catalog_from_db now (qr_catalog reads)) video_id
       (entry\<lparr>pc_is_public := up_publish plan, pc_updated_at := md_updated_at (up_manifest plan)\<rparr>)"
    "up_catalog plan = published_part (up_all_catalog plan)"
    "qe_manifest_cost env (up_manifest plan) (qe_metadata_mode env) = Inr (up_manifest_quote plan)"
    "qe_catalog_cost env (up_catalog plan) (qe_metadata_mode env) = Inr (up_catalog_quote plan)"
    "qe_catalog_cost env (up_all_catalog plan) (qe_metadata_mode env) = Inr (up_all_catalog_quote plan)"
    "quote_approval env quote_id now (cq_network (up_manifest_quote plan)) (planned_quotes (up_files plan)
       (up_manifest_quote plan) (up_catalog_quote plan) (up_all_catalog_quote plan)) = Inr (up_approval plan)"
  using assms
  by (auto simp: build_final_upload_quote_def Let_def split: option.splits if_splits)

text \<open>When a video's upload commits, the snapshot it leaves lists the video first, under the
  approved manifest address and with the publication that was approved, and after it exactly the
  other videos that the catalog lists then, whatever ran since the quote was prepared.\<close>

theorem published_snapshot_is_current:
  assumes "build_final_upload_quote env quote_id now video_id reads = Inr q" "fq_plan q = Some plan"
    and "qr_catalog reads = run (admin_exec cfg) evs (qr_revision reads)"
    and "d3 = run (admin_exec cfg) evs' (qr_catalog reads)"
    and "upload_commit t lease video_id plan d3 = (Inr u, d4)"
  shows "\<exists>sn entry. catalog_snapshot_row d4 = Some sn \<and> pc_id entry = video_id \<and>
    pc_manifest_address entry = cq_address (up_manifest_quote plan) \<and> pc_is_public entry = up_publish plan \<and>
    pd_videos (sn_all sn) = entry # others video_id (pd_videos (build_all_catalog_from_db t d4)) \<and>
    pd_videos (sn_published sn) = filter pc_is_public (pd_videos (sn_all sn))"
proof -
  from build_final_plan [OF assms(1,2)] obtain entry where
    rev: "up_base_revision plan = catalog_generation (qr_revision reads)"
    and entry: "build_catalog_entry_from_db (qr_entry reads) video_id (cq_address (up_manifest_quote plan)) = Inr entry"
    and all: "up_all_catalog plan = planned_catalog (build_all_catalog_from_db now (qr_catalog reads)) video_id
       (entry\<lparr>pc_is_public := up_publish plan, pc_updated_at := md_updated_at (up_manifest plan)\<rparr>)"
    and pub: "up_catalog plan = published_part (up_all_catalog plan)" by metis
  note commit = upload_commit_Inr [OF assms(5)]
  have "catalog_videos d3 = catalog_videos (qr_catalog reads)"
    using run_revision [OF assms(3,4)] commit(1) rev by simp
  then have "others video_id (catalog_videos d4) = others video_id (catalog_videos (qr_catalog reads))"
    unfolding commit(2) by (simp add: others_update)
  moreover have "pc_id entry = video_id \<and> pc_manifest_address entry = cq_address (up_manifest_quote plan)"
    using entry by (auto simp: build_catalog_entry_from_db_def catalog_entry_def split: option.splits)
  ultimately show ?thesis
    by (intro exI [of _ "snapshot_of (up_catalog plan) (up_catalog_quote plan) (up_all_catalog plan) (up_all_catalog_quote plan)"]
          exI [of _ "entry\<lparr>pc_is_public := up_publish plan, pc_updated_at := md_updated_at (up_manifest plan)\<rparr>"])
      (simp add: commit(2) snapshot_of_def all pub planned_catalog_def published_part_def others_def)
qed

section \<open>What an approval covers\<close>













section \<open>Visibility of a video that is not ready\<close>

lemma update_where_cases:
  assumes "x \<in> set (update_where P f rows)"
  obtains r where "r \<in> set rows" "P r" "x = f r" | "x \<in> set rows" "\<not> P x"
  using assms unfolding in_update_where by (metis (full_types))

lemma videos_update_videos: "videos (update_videos P f db) = update_where P f (videos db)"
  by (simp add: update_videos_def)

definition shown :: "video_row \<Rightarrow> string \<times> bool" where
  "shown v = (vd_id v, vd_show_manifest_address v)"

text \<open>The visibility of a video may change between its quote and its publication: the video is not
  ready, so the revision does not count the change and no refresh is asked for. The publication then
  leaves the visibility of the quote in the snapshot while the row of the video has the new one.\<close>

theorem stale_visibility_published:
  assumes "build_final_upload_quote env quote_id now video_id reads = Inr q" "fq_plan q = Some plan"
    and "fetch_optional (\<lambda>v. vd_id v = video_id) (videos (qr_entry reads)) = Some quoted"
    and "\<forall>v \<in> set (videos d). vd_id v = video_id \<longrightarrow> \<not> is_ready v"
    and "update_video_visibility t video_id show_address d = (Inr refresh, d3)"
    and "upload_commit t' lease video_id plan d3 = (Inr u, d4)"
  shows "catalog_generation d3 = catalog_generation d \<and> \<not> refresh \<and>
    (\<forall>v \<in> set (videos d4). vd_id v = video_id \<longrightarrow> vd_show_manifest_address v = show_address) \<and>
    (\<exists>sn entry rest. catalog_snapshot_row d4 = Some sn \<and> pd_videos (sn_all sn) = entry # rest \<and>
      pc_id entry = video_id \<and> pc_show_manifest_address entry = vd_show_manifest_address quoted)"
proof -
  from build_final_plan [OF assms(1,2)] obtain entry where
    entry: "build_catalog_entry_from_db (qr_entry reads) video_id (cq_address (up_manifest_quote plan)) = Inr entry"
    and all: "up_all_catalog plan = planned_catalog (build_all_catalog_from_db now (qr_catalog reads)) video_id
       (entry\<lparr>pc_is_public := up_publish plan, pc_updated_at := md_updated_at (up_manifest plan)\<rparr>)" by metis
  have e: "pc_id entry = video_id" "pc_show_manifest_address entry = vd_show_manifest_address quoted"
    using entry assms(3) by (auto simp: build_catalog_entry_from_db_def catalog_entry_def)
  from assms(5) obtain v where v: "fetch_optional (\<lambda>v. vd_id v = video_id) (videos d) = Some v"
    and d3: "d3 = update_videos (\<lambda>v. vd_id v = video_id) (\<lambda>x. x\<lparr>vd_show_original_filename := False,
      vd_show_manifest_address := show_address, vd_updated_at := (if vd_show_original_filename v \<or>
        vd_show_manifest_address v \<noteq> show_address then t else vd_updated_at x)\<rparr>) d"
    and refresh: "refresh \<longleftrightarrow> (vd_show_original_filename v \<or> vd_show_manifest_address v \<noteq> show_address) \<and>
      is_ready v \<and> vd_is_public v"
    by (auto simp: update_video_visibility_def Let_def split: option.splits)
  have "\<not> refresh" using fetch_optional_SomeD [OF v] assms(4) refresh by auto
  moreover have "catalog_generation d3 = catalog_generation d"
    using assms(4) unfolding d3 update_videos_def by (auto simp: rows_affected_zero is_ready_def)
  moreover have "vd_show_manifest_address x = show_address" if x: "x \<in> set (videos d4)" "vd_id x = video_id" for x
  proof -
    have "map shown (videos d4) = map shown (videos d3)"
      unfolding upload_commit_Inr(2) [OF assms(6)]
      by (simp add: set_catalog_addresses_def map_update_where shown_def)
    then have "shown x \<in> shown ` set (videos d3)" using x(1) by (metis image_eqI image_set)
    then obtain x0 where x0: "x0 \<in> set (videos d3)" "vd_id x0 = video_id"
      "vd_show_manifest_address x0 = vd_show_manifest_address x" using x(2) by (auto simp: shown_def)
    show ?thesis
      using x0(1) unfolding d3 videos_update_videos
    proof (rule update_where_cases)
    qed (use x0(2,3) in simp_all)
  qed
  ultimately show ?thesis
    using e by (simp add: upload_commit_Inr(2) [OF assms(6)] snapshot_of_def all planned_catalog_def)
qed

end
