(* ===== verification/Publication_Examples.thy ===== *)
theory Publication_Examples
  imports Publication_Properties
begin

text \<open>
  Concrete publications: the hypotheses of the theorems about publications hold on a catalog with one
  public video and on an upload with one segment, and a completed publication is reopened.
\<close>

section \<open>Publishing the catalog\<close>

definition demo_quote :: content_quote where
  "demo_quote = \<lparr>cq_cost = ''1'', cq_estimated_gas_cost_wei = ''2'', cq_file_size = 5, cq_chunk_count = 3,
     cq_payment_mode = ''auto'', cq_address = ''addr'', cq_content_sha256 = replicate 64 (CHR ''a''),
     cq_network = ''net'', cq_confidence = ''high''\<rparr>"

definition demo_digest :: digest_fn where
  "demo_digest network contents = network @ concat (map ac_sha256 contents)"

lemma demo_quote_amounts [simp]: "amount ''1'' = Inr 1" "amount ''2'' = Inr 2"
  by (simp_all add: amount_eq_Inr is_ascii_digit_def digits_value_def)

lemma demo_quote_content [simp]: "check_content (content_of_quote demo_quote) = Inr ()"
  by (simp add: check_content_def content_of_quote_def demo_quote_def is_ascii_hexdigit_def is_ascii_digit_def
      is_ascii_uppercase_def payment_modes_def word_le_nat_alt list_all_iff)

definition demo_catalog_db :: admin_db where
  "demo_catalog_db = empty_db\<lparr>videos := [demo_video\<lparr>vd_status := ''ready'', vd_manifest_address := Some ''m'',
     vd_is_public := True\<rparr>]\<rparr>"

definition demo_approval :: "string \<Rightarrow> content_quote list \<Rightarrow> u128 \<Rightarrow> u128 \<Rightarrow> payment_approval" where
  "demo_approval q quotes storage gas = \<lparr>pa_quote_id = q,
     pa_content_digest = demo_digest ''net'' (map content_of_quote quotes), pa_network = ''net'',
     pa_expires_at = 600, pa_max_storage_atto = u128_to_string storage, pa_max_gas_wei = u128_to_string gas,
     pa_contents = map content_of_quote quotes\<rparr>"

definition demo_plan :: "string \<Rightarrow> admin_db \<Rightarrow> catalog_plan" where
  "demo_plan q db = \<lparr>cp_approval = demo_approval q [demo_quote, demo_quote] 2 4,
     cp_catalog = published_part (build_all_catalog_from_db 0 db), cp_all_catalog = build_all_catalog_from_db 0 db,
     cp_catalog_quote = demo_quote, cp_all_catalog_quote = demo_quote, cp_revision = catalog_generation db\<rparr>"

lemma demo_plan_sel [simp]: "cp_revision (demo_plan q db) = catalog_generation db"
  "pa_quote_id (cp_approval (demo_plan q db)) = q"
  "pa_max_storage_atto (cp_approval (demo_plan q db)) = u128_to_string 2"
  "pa_max_gas_wei (cp_approval (demo_plan q db)) = u128_to_string 4"
  by (simp_all add: demo_plan_def demo_approval_def)

lemma demo_plan_prepared:
  "prepare_plan demo_digest (\<lambda>_ _. Inr demo_quote) ''auto'' 600 q 0 db db = Inr (demo_plan q db)"
proof -
  have "cq_network demo_quote = ''net''" "cq_cost demo_quote = ''1''" "cq_estimated_gas_cost_wei demo_quote = ''2''"
    by (simp_all add: demo_quote_def)
  then show ?thesis
    by (simp add: prepare_plan_def Let_def demo_plan_def demo_approval_def checked_add_def map_err_def)
qed

theorem finalized_catalog_is_current_witness:
  "\<exists>sn. catalog_snapshot_row (snd (finalize_commit 9 None (demo_plan ''q'' demo_catalog_db) demo_catalog_db)) = Some sn \<and>
     pd_videos (sn_all sn) = pd_videos (build_all_catalog_from_db 9
       (snd (finalize_commit 9 None (demo_plan ''q'' demo_catalog_db) demo_catalog_db)))"
proof -
  have "finalize_commit 9 None (demo_plan ''q'' demo_catalog_db) demo_catalog_db =
      (Inr (), snd (finalize_commit 9 None (demo_plan ''q'' demo_catalog_db) demo_catalog_db))"
    by (simp add: finalize_commit_def begin_fenced_def assert_catalog_revision_def demo_plan_def)
  from finalized_catalog_is_current [OF demo_plan_prepared _ _ this, of _ "[]" "[]"] show ?thesis by auto
qed

section \<open>A completed publication is reopened\<close>

text \<open>The payment lease of an attempt is activated before the handler sees that its publication is
  complete. When the last attempt fails there, the completed approval waits for a recovery that has
  nothing to recover, and no catalog can be quoted until it is resumed.\<close>

theorem completed_publication_reopened:
  assumes "lj_kind job = FinalizeCatalog" "lj_video_id job = None" "lj_attempts job \<ge> lj_max_attempts job"
    and "fetch_optional (owned now job) (video_jobs db) = Some r" "jb_payment_quote_id r = Some q"
    and "c \<in> set (catalog_approvals db)" "ca_id c = q" "ca_state c = ''complete''"
    and "\<not> needs_approval detail"
  shows "\<exists>db'. mark_job_failed cancel now job detail db = (Inr (), db') \<and>
    (\<exists>c' \<in> set (catalog_approvals db'). ca_id c' = q \<and> ca_state c' = ''payment_recovery_required'') \<and>
    prepare_check t lease db' \<noteq> Inr ()"
proof -
  define cs where "cs = update_where (\<lambda>c. Some (ca_id c) = jb_payment_quote_id r)
    (\<lambda>c. c\<lparr>ca_state := ''payment_recovery_required'', ca_error_message := Some detail\<rparr>) (catalog_approvals db)"
  obtain db' where db': "mark_job_failed cancel now job detail db = (Inr (), db')" "catalog_approvals db' = cs"
    using assms by (simp add: mark_job_failed_def fail_finally_def Let_def revoke_approval_def cs_def)
  define c' where "c' = c\<lparr>ca_state := ''payment_recovery_required'', ca_error_message := Some detail\<rparr>"
  have "c' \<in> set cs"
    using assms(5-7) unfolding cs_def update_where_def c'_def by (auto intro!: image_eqI [of _ _ c])
  moreover have "ca_id c' = q" "ca_state c' = ''payment_recovery_required''"
    using assms(7) by (simp_all add: c'_def)
  ultimately have c': "\<exists>c' \<in> set cs. ca_id c' = q \<and> ca_state c' = ''payment_recovery_required''" by blast
  then have "exists_where (\<lambda>c. pending_state (ca_state c)) cs"
    by (auto simp: exists_where_iff pending_state_def)
  then have "prepare_check t lease db' \<noteq> Inr ()"
    by (simp add: prepare_check_def require_reconciled_catalog_def db'(2))
  with db' c' show ?thesis by blast
qed

text \<open>A job that commits, loses its worker twice and then fails for the last time.\<close>

definition demo_run :: "(int \<times> admin_op) list" where
  "demo_run = (let plan = demo_plan ''q'' demo_catalog_db; lease = Some \<lparr>jl_id = ''j'', jl_owner = ''a'', jl_generation = 1\<rparr> in
     [(0, PrepareCatalog None plan),
      (0, ApproveCatalog (Inr ()) ''j'' \<lparr>rq_quote_id = ''q'', rq_max_storage_atto = u128_to_string 2, rq_max_gas_wei = u128_to_string 4\<rparr>),
      (0, Acquire ''a''), (1000, FinalizeBegin lease), (2000, FinalizeCommit lease plan),
      (60000, Acquire ''b''), (120000, Acquire ''c'')])"

definition demo_job :: leased_job where
  "demo_job = \<lparr>lj_lease_owner = ''c'', lj_id = ''j'', lj_kind = FinalizeCatalog, lj_video_id = None,
     lj_attempts = 3, lj_max_attempts = 3\<rparr>"

lemma demo_run_eval:
  "video_jobs (run (admin_exec demo_cfg) demo_run demo_catalog_db) = [\<lparr>jb_id = ''j'', jb_kind = ''finalize_catalog'',
     jb_video_id = None, jb_status = ''running'', jb_attempts = 3, jb_max_attempts = 3, jb_lease_owner = Some ''c'',
     jb_lease_expires_at = Some 180000, jb_run_after = 0, jb_last_error = None, jb_created_at = 0,
     jb_updated_at = 120000, jb_payment_quote_id = Some ''q''\<rparr>] \<and>
   map (\<lambda>c. (ca_id c, ca_state c)) (catalog_approvals (run (admin_exec demo_cfg) demo_run demo_catalog_db)) =
     [(''q'', ''complete'')]"
  by (simp add: demo_run_def demo_cfg_def Let_def prepare_commit_def begin_fenced_def assert_catalog_revision_def demo_plan_sel
      require_reconciled_catalog_def pending_state_def supersede_drafts_def update_where_def approve_catalog_def
      fetch_optional_def demo_catalog_db_def empty_db_def index_conflict_def new_job_def set_approval_def
      acquire_next_job_def ready_def lease_expired_def kind_parse_def finalize_begin_def execute_fenced_def owns_lease_def lease_live_def
      finalize_commit_def)

theorem completed_publication_reopened_witness:
  "\<exists>db'. mark_job_failed (\<lambda>_ _. False) 121000 demo_job ''lease refused'' (run (admin_exec demo_cfg) demo_run demo_catalog_db) =
      (Inr (), db') \<and>
    (\<exists>c' \<in> set (catalog_approvals db'). ca_id c' = ''q'' \<and> ca_state c' = ''payment_recovery_required'')"
proof -
  let ?db = "run (admin_exec demo_cfg) demo_run demo_catalog_db"
  have "set (map (\<lambda>c. (ca_id c, ca_state c)) (catalog_approvals ?db)) = {(''q'', ''complete'')}"
    using conjunct2 [OF demo_run_eval] by simp
  then have "(''q'', ''complete'') \<in> (\<lambda>c. (ca_id c, ca_state c)) ` set (catalog_approvals ?db)" by simp
  then obtain c where c: "c \<in> set (catalog_approvals ?db)" "ca_id c = ''q''" "ca_state c = ''complete''" by auto
  obtain r where r: "fetch_optional (owned 121000 demo_job) (video_jobs ?db) = Some r" "jb_payment_quote_id r = Some ''q''"
    by (simp add: conjunct1 [OF demo_run_eval] fetch_optional_def owned_def demo_job_def lease_live_def)
  have job: "lj_kind demo_job = FinalizeCatalog" "lj_video_id demo_job = None"
    "lj_attempts demo_job \<ge> lj_max_attempts demo_job"
    by (simp_all add: demo_job_def)
  have detail: "\<not> needs_approval ''lease refused''" by code_simp
  show ?thesis
    using completed_publication_reopened [OF job(1-3) r c detail, of "\<lambda>_ _. False"] by blast
qed

section \<open>Publishing a video\<close>

definition demo_env :: quote_env where
  "demo_env = \<lparr>qe_digest = demo_digest, qe_videos_digest = concat \<circ> map pc_id, qe_assert_under = Inr,
     qe_sha256_file = (\<lambda>_. Inr (5, replicate 64 (CHR ''a''))), qe_file_cost = (\<lambda>_ _. Inr demo_quote),
     qe_manifest_cost = (\<lambda>_ _. Inr demo_quote), qe_catalog_cost = (\<lambda>_ _. Inr demo_quote),
     qe_payment_mode = ''auto'', qe_metadata_mode = ''auto'', qe_ttl = 600\<rparr>"

definition demo_variant :: variant_row where
  "demo_variant = \<lparr>vr_id = ''r'', vr_video_id = ''v'', vr_resolution = ''720p'', vr_width = 1280, vr_height = 720,
     vr_video_bitrate = 2500000, vr_audio_bitrate = 128000, vr_video_codec = ''h264'',
     vr_segment_container = ''mpegts'', vr_segment_duration = Fin 1, vr_total_duration = None,
     vr_segment_count = Some 1\<rparr>"

definition demo_segment :: segment_row where
  "demo_segment = \<lparr>sr_variant_id = ''r'', sr_segment_index = 0, sr_autonomi_address = None,
     sr_autonomi_cost_atto = None, sr_autonomi_payment_mode = None, sr_duration = Fin 1, sr_byte_size = Some 5,
     sr_local_path = Some ''p''\<rparr>"

definition demo_video_db :: admin_db where
  "demo_video_db = empty_db\<lparr>videos := [demo_video], video_variants := [demo_variant], video_segments := [demo_segment]\<rparr>"

definition demo_reads :: quote_reads where
  "demo_reads = \<lparr>qr_files = demo_video_db, qr_manifest = demo_video_db, qr_revision = demo_video_db,
     qr_catalog = demo_video_db, qr_entry = demo_video_db, qr_end = demo_video_db\<rparr>"

definition demo_file :: planned_file where
  "demo_file = \<lparr>pf_path = ''p'', pf_variant_id = Some ''r'', pf_segment_index = Some 0, pf_quote = demo_quote\<rparr>"

lemma demo_quote_sel [simp]: "cq_network demo_quote = ''net''" "cq_cost demo_quote = ''1''"
  "cq_estimated_gas_cost_wei demo_quote = ''2''" "cq_file_size demo_quote = 5" "cq_address demo_quote = ''addr''"
  "cq_content_sha256 demo_quote = replicate 64 (CHR ''a'')"
  by (simp_all add: demo_quote_def)

lemma demo_approval_quoted:
  "quote_approval demo_env ''q'' 0 ''net'' (planned_quotes [demo_file] demo_quote demo_quote demo_quote) =
   Inr (demo_approval ''q'' [demo_quote, demo_quote, demo_quote, demo_quote] 4 8)"
proof -
  have "validate demo_digest (demo_approval ''q'' [demo_quote, demo_quote, demo_quote, demo_quote] 4 8) 0 ''net'' = Inr ()"
    by (simp add: validate_ok demo_approval_def i64_saturating_add_def i64_min_def i64_max_def)
  then show ?thesis
    by (simp add: quote_approval_def planned_quotes_def demo_file_def demo_env_def demo_approval_def Let_def
        checked_add_def map_err_def)
qed

definition demo_manifest :: video_manifest_document where
  "demo_manifest = (case build_manifest_from_db demo_video_db ''v'' True of Inr m \<Rightarrow> m)"

lemma demo_final_quote:
  "\<exists>q plan. build_final_upload_quote demo_env ''q'' 0 ''v'' demo_reads = Inr q \<and> fq_plan q = Some plan \<and>
     up_base_revision plan = 0"
proof -
  let ?db = demo_video_db
  have db: "videos ?db = [demo_video]" "video_variants ?db = [demo_variant]" "video_segments ?db = [demo_segment]"
    "catalog_generation ?db = 0"
    by (simp_all add: demo_video_db_def empty_db_def)
  have v: "vd_id demo_video = ''v''" "\<not> vd_upload_original demo_video" "vd_publish_when_ready demo_video"
    by (simp_all add: demo_video_def accepted_video_def)
  have inputs: "quote_inputs ?db demo_video = Inr [(''p'', Some ''r'', Some 0)]"
    by (simp add: quote_inputs_def quote_segments_def segments_of_def db v demo_variant_def demo_segment_def segment_input_def Let_def)
  have quoted: "quote_file demo_env (''p'', Some ''r'', Some 0) = Inr demo_file"
    by (simp add: quote_file_def demo_env_def demo_file_def map_err_def)
  have segs: "segments_of ?db ''r'' = [demo_segment]"
    by (simp add: segments_of_def db demo_segment_def)
  obtain m where m: "build_manifest_from_db ?db ''v'' True = Inr m" "md_variants m = [manifest_variant_of ?db demo_variant]"
    by (simp add: build_manifest_from_db_def fetch_optional_def db v demo_variant_def Let_def)
  have "manifest_variant_of ?db demo_variant = \<lparr>mv_id = ''r'', mv_resolution = ''720p'', mv_video_codec = ''h264'',
      mv_segment_container = ''mpegts'', mv_width = 1280, mv_height = 720, mv_video_bitrate = 2500000,
      mv_audio_bitrate = 128000, mv_segment_duration = Fin 1, mv_total_duration = None, mv_segment_count = 1,
      mv_segments = [manifest_segment_of demo_segment]\<rparr>"
    by (simp add: manifest_variant_of_def demo_variant_def segs)
  moreover have "ms_segment_index (manifest_segment_of demo_segment) = 0"
    by (simp add: manifest_segment_of_def demo_segment_def)
  ultimately obtain m' w where m': "place_file demo_file (m\<lparr>md_updated_at := 0\<rparr>) = Inr m'" "md_variants m' = [w]"
    "mv_id w = ''r''"
    using m(2) by (simp add: place_file_def demo_file_def i64_of_u64_def)
  have w: "\<exists>vq. quote_variant [demo_file] w = Inr vq"
    by (simp add: quote_variant_def demo_file_def m'(3) checked_add_def Let_def)
  obtain e where e: "build_catalog_entry_from_db ?db ''v'' ''addr'' = Inr e"
    by (simp add: build_catalog_entry_from_db_def fetch_optional_def db v)
  have env: "qe_manifest_cost demo_env = (\<lambda>_ _. Inr demo_quote)" "qe_catalog_cost demo_env = (\<lambda>_ _. Inr demo_quote)"
    by (simp_all add: demo_env_def)
  from w obtain vq where vq: "quote_variant [demo_file] w = Inr vq" ..
  show ?thesis
    by (simp add: build_final_upload_quote_def demo_reads_def fetch_optional_def db v inputs quoted m(1) m'(1,2) e env
        demo_approval_quoted vq map_err_def Let_def demo_file_def [THEN arg_cong, of pf_variant_id])
qed

theorem published_snapshot_is_current_witness:
  "\<exists>plan d4 sn. upload_commit 9 None ''v'' plan demo_video_db = (Inr (), d4) \<and> catalog_snapshot_row d4 = Some sn \<and>
     map pc_manifest_address (pd_videos (sn_all sn)) =
       cq_address (up_manifest_quote plan) # map pc_manifest_address (others ''v'' (pd_videos (build_all_catalog_from_db 9 d4)))"
proof -
  from demo_final_quote obtain q plan where q: "build_final_upload_quote demo_env ''q'' 0 ''v'' demo_reads = Inr q"
    "fq_plan q = Some plan" and rev: "up_base_revision plan = 0" by blast
  obtain d4 where d4: "upload_commit 9 None ''v'' plan demo_video_db = (Inr (), d4)"
    using rev by (simp add: upload_commit_def begin_fenced_def assert_catalog_revision_def demo_video_db_def empty_db_def)
  from published_snapshot_is_current [OF q _ _ d4, of _ "[]" "[]"] d4 show ?thesis
    by (fastforce simp: demo_reads_def)
qed

theorem stale_visibility_published_witness:
  "\<exists>plan d3 d4 sn entry rest. update_video_visibility 5 ''v'' True demo_video_db = (Inr False, d3) \<and>
     upload_commit 9 None ''v'' plan d3 = (Inr (), d4) \<and>
     filter (\<lambda>v. vd_id v = ''v'' \<and> \<not> vd_show_manifest_address v) (videos d4) = [] \<and>
     catalog_snapshot_row d4 = Some sn \<and> pd_videos (sn_all sn) = entry # rest \<and>
     pc_id entry = ''v'' \<and> \<not> pc_show_manifest_address entry"
proof -
  from demo_final_quote obtain q plan where q: "build_final_upload_quote demo_env ''q'' 0 ''v'' demo_reads = Inr q"
    "fq_plan q = Some plan" and rev: "up_base_revision plan = 0" by blast
  have db: "videos demo_video_db = [demo_video]" "catalog_generation demo_video_db = 0"
    by (simp_all add: demo_video_db_def empty_db_def)
  have v: "vd_id demo_video = ''v''" "\<not> is_ready demo_video" "\<not> vd_show_manifest_address demo_video"
    by (simp_all add: demo_video_def accepted_video_def is_ready_def)
  obtain d3 where d3: "update_video_visibility 5 ''v'' True demo_video_db = (Inr False, d3)" "catalog_generation d3 = 0"
    using v by (simp add: update_video_visibility_def fetch_optional_def db update_videos_def rows_affected_def is_ready_def Let_def)
  obtain d4 where d4: "upload_commit 9 None ''v'' plan d3 = (Inr (), d4)"
    using rev d3(2) by (simp add: upload_commit_def begin_fenced_def assert_catalog_revision_def)
  have quoted: "fetch_optional (\<lambda>v. vd_id v = ''v'') (videos (qr_entry demo_reads)) = Some demo_video"
    by (simp add: demo_reads_def db fetch_optional_def v)
  have "\<forall>v \<in> set (videos demo_video_db). vd_id v = ''v'' \<longrightarrow> \<not> is_ready v"
    by (simp add: db v)
  note stale = stale_visibility_published [OF q quoted this d3(1) d4]
  have "\<forall>x \<in> set (videos d4). vd_id x = ''v'' \<longrightarrow> vd_show_manifest_address x = True"
    by (rule conjunct1 [OF conjunct2 [OF conjunct2 [OF stale]]])
  then have shown: "filter (\<lambda>v. vd_id v = ''v'' \<and> \<not> vd_show_manifest_address v) (videos d4) = []"
    by (simp add: filter_empty_conv)
  from conjunct2 [OF conjunct2 [OF conjunct2 [OF stale]]] obtain sn entry rest where
    "catalog_snapshot_row d4 = Some sn" "pd_videos (sn_all sn) = entry # rest" "pc_id entry = ''v''"
    "pc_show_manifest_address entry = vd_show_manifest_address demo_video" by blast
  with d3(1) d4 shown v(3) show ?thesis by blast
qed


end
