(* ===== verification/Admin_Auth.thy ===== *)
theory Admin_Auth
  imports Admin_Tables Rust_Text
begin

text \<open>
  Authentication of the admin service (\<open>crates/rust_admin/src/auth/\<close>) and the gate in front of its
  routes (\<open>crates/rust_admin/src/routes.rs\<close>): credentials in headers and cookies, access tokens,
  refresh sessions and their rotation, CSRF, the routing table and the throttling of logins. The token
  library, the hash and the random values are parameters or event data; times are instants in
  milliseconds.
\<close>

section \<open>Headers\<close>

type_synonym headers = "(string \<times> string) list"

text \<open>\<open>HeaderMap::get\<close> gives the first value of a name; \<open>to_str\<close> refuses all but visible ASCII.\<close>

definition header_text :: "string \<Rightarrow> headers \<Rightarrow> string option" where
  "header_text name hs =
     (case map_of hs name of
        None \<Rightarrow> None
      | Some v \<Rightarrow> if list_all (\<lambda>c. byte c = 9 \<or> (32 \<le> byte c \<and> byte c < 127)) v then Some v else None)"

definition non_empty :: "string option \<Rightarrow> string option" where
  "non_empty x = (case x of None \<Rightarrow> None | Some s \<Rightarrow> if s = [] then None else Some s)"

definition bearer_token :: "headers \<Rightarrow> string option" where
  "bearer_token hs =
     Option.bind (header_text ''authorization'' hs) (\<lambda>auth.
       non_empty (map_option trim
         (case strip_prefix ''Bearer '' auth of Some t \<Rightarrow> Some t | None \<Rightarrow> strip_prefix ''bearer '' auth)))"

definition cookie_pairs :: "string \<Rightarrow> (string \<times> string) list" where
  "cookie_pairs cookies =
     map (\<lambda>(n, v). (trim n, trim v)) (List.map_filter (\<lambda>part. split_once (CHR ''='') (trim part)) (split_on (CHR '';'') cookies))"

definition named_cookie_token :: "string \<Rightarrow> headers \<Rightarrow> string option" where
  "named_cookie_token cookie_name hs =
     Option.bind (header_text ''cookie'' hs) (\<lambda>cookies. non_empty (map_of (cookie_pairs cookies) cookie_name))"

definition admin_auth_cookie :: string where "admin_auth_cookie = ''autvid_admin''"
definition admin_refresh_cookie :: string where "admin_refresh_cookie = ''autvid_admin_refresh''"
definition admin_csrf_cookie :: string where "admin_csrf_cookie = ''autvid_csrf''"

definition access_cookie_token :: "headers \<Rightarrow> string option" where
  "access_cookie_token = named_cookie_token admin_auth_cookie"

definition refresh_cookie_token :: "headers \<Rightarrow> string option" where
  "refresh_cookie_token = named_cookie_token admin_refresh_cookie"

definition csrf_cookie_token :: "headers \<Rightarrow> string option" where
  "csrf_cookie_token = named_cookie_token admin_csrf_cookie"

definition csrf_header_token :: "headers \<Rightarrow> string option" where
  "csrf_header_token hs = non_empty (map_option trim (header_text ''x-csrf-token'' hs))"

definition api_ok_or :: "'a option \<Rightarrow> api_error \<Rightarrow> 'a api" where
  "api_ok_or x e = (case x of None \<Rightarrow> Inl e | Some y \<Rightarrow> Inr y)"

definition unauthorized :: "string \<Rightarrow> api_error" where "unauthorized detail = Api 401 detail"

text \<open>The comparison takes constant time; its result is that of an equality.\<close>

definition constant_time_eq :: "string \<Rightarrow> string \<Rightarrow> bool" where
  "constant_time_eq left right \<longleftrightarrow> left = right"

definition require_csrf :: "headers \<Rightarrow> unit api" where
  "require_csrf hs =
     rbind (api_ok_or (csrf_cookie_token hs) (Api 403 ''CSRF token required'')) (\<lambda>cookie.
     rbind (api_ok_or (csrf_header_token hs) (Api 403 ''CSRF token required'')) (\<lambda>header.
     if \<not> constant_time_eq cookie header then Inl (Api 403 ''CSRF token mismatch'') else Inr ()))"

section \<open>Tokens\<close>

record claims =
  cl_sub :: string
  cl_exp :: int
  cl_iat :: "int option"
  cl_jti :: "string option"

datatype same_site = Strict | Lax | NoneSite

fun as_cookie_value :: "same_site \<Rightarrow> string" where
  "as_cookie_value Strict = ''Strict''"
| "as_cookie_value Lax = ''Lax''"
| "as_cookie_value NoneSite = ''None''"

text \<open>
  The configuration, and what the libraries do: \<open>au_encode\<close> signs claims with a secret,
  \<open>au_decode\<close> verifies a token, its algorithm and its expiry at a time, \<open>au_hash\<close> is the SHA-256 of a
  token in hexadecimal, \<open>au_bad_header\<close> the text of the error for a value no header may have.
\<close>

record auth_env =
  au_username :: string
  au_password :: string
  au_secret :: string
  au_ttl_hours :: int
  au_refresh_ttl_hours :: int
  au_cookie_secure :: bool
  au_same_site :: same_site
  au_encode :: "string \<Rightarrow> claims \<Rightarrow> string + string"
  au_decode :: "string \<Rightarrow> string \<Rightarrow> int \<Rightarrow> claims option"
  au_hash :: "string \<Rightarrow> string"
  au_bad_header :: string

definition hours :: "int \<Rightarrow> int" where "hours n = n * 3600000"

definition require_admin :: "auth_env \<Rightarrow> int \<Rightarrow> headers \<Rightarrow> string api" where
  "require_admin env now hs =
     rbind (api_ok_or (case bearer_token hs of Some t \<Rightarrow> Some t | None \<Rightarrow> access_cookie_token hs)
              (unauthorized ''Login required'')) (\<lambda>token.
     rbind (api_ok_or (au_decode env token (au_secret env) now) (unauthorized ''Invalid or expired login'')) (\<lambda>c.
     if cl_sub c \<noteq> au_username env then Inl (unauthorized ''Invalid or expired login'') else Inr (cl_sub c)))"

record access_token =
  at_token :: string
  at_expires_at :: int

text \<open>The random values of one request: the identifier of the access token, the session and its token,
  and the CSRF token.\<close>

record fresh_values =
  fv_jti :: string
  fv_session :: string
  fv_refresh :: string
  fv_csrf :: string

definition issue_access_token :: "auth_env \<Rightarrow> int \<Rightarrow> fresh_values \<Rightarrow> access_token api" where
  "issue_access_token env now fresh =
     (let expires_at = now + hours (au_ttl_hours env)
      in case au_encode env (au_secret env) \<lparr>cl_sub = au_username env, cl_exp = expires_at div 1000,
             cl_iat = Some (now div 1000), cl_jti = Some (fv_jti fresh)\<rparr> of
           Inl e \<Rightarrow> Inl (Api 500 e)
         | Inr token \<Rightarrow> Inr \<lparr>at_token = token, at_expires_at = expires_at\<rparr>)"

section \<open>Refresh sessions\<close>

record refresh_session =
  rf_id :: string
  rf_username :: string
  rf_token_hash :: string
  rf_expires_at :: int
  rf_revoked_at :: "int option"
  rf_last_used_at :: "int option"
  rf_replaced_by :: "string option"

type_synonym sessions = "refresh_session list"

record refresh_token =
  rt_session_id :: string
  rt_token :: string
  rt_expires_at :: int

definition new_refresh_token :: "auth_env \<Rightarrow> int \<Rightarrow> fresh_values \<Rightarrow> refresh_token" where
  "new_refresh_token env now fresh =
     \<lparr>rt_session_id = fv_session fresh, rt_token = fv_refresh fresh, rt_expires_at = now + hours (au_refresh_ttl_hours env)\<rparr>"

text \<open>The primary key and the unique hash are checked by the insert.\<close>

definition insert_session :: "auth_env \<Rightarrow> string \<Rightarrow> refresh_token \<Rightarrow> sessions \<Rightarrow> sessions api" where
  "insert_session env username t s =
     (if exists_where (\<lambda>r. rf_id r = rt_session_id t \<or> rf_token_hash r = au_hash env (rt_token t)) s
      then Inl (db_error ''UNIQUE constraint failed'')
      else Inr (s @ [\<lparr>rf_id = rt_session_id t, rf_username = username, rf_token_hash = au_hash env (rt_token t),
             rf_expires_at = rt_expires_at t, rf_revoked_at = None, rf_last_used_at = None, rf_replaced_by = None\<rparr>]))"

definition create_refresh_session ::
  "auth_env \<Rightarrow> int \<Rightarrow> fresh_values \<Rightarrow> string \<Rightarrow> sessions \<Rightarrow> (refresh_token \<times> sessions) api"
where
  "create_refresh_session env now fresh username s =
     (let t = new_refresh_token env now fresh in rbind (insert_session env username t s) (\<lambda>s'. Inr (t, s')))"

definition usable :: "auth_env \<Rightarrow> int \<Rightarrow> string \<Rightarrow> refresh_session \<Rightarrow> bool" where
  "usable env now token r \<longleftrightarrow>
     rf_token_hash r = au_hash env token \<and> rf_revoked_at r = None \<and> rf_expires_at r > now"

text \<open>One transaction: an error leaves the table as it was.\<close>

definition rotate_refresh_session ::
  "auth_env \<Rightarrow> int \<Rightarrow> fresh_values \<Rightarrow> string \<Rightarrow> sessions \<Rightarrow> (refresh_token \<times> sessions) api"
where
  "rotate_refresh_session env now fresh token s =
     (let t = new_refresh_token env now fresh
      in rbind (api_ok_or (fetch_optional (usable env now token) s)
              (unauthorized ''Invalid or expired refresh token'')) (\<lambda>row.
         if rf_username row \<noteq> au_username env then Inl (unauthorized ''Invalid or expired refresh token'')
         else
           rbind (insert_session env (rf_username row) t s) (\<lambda>s'.
           Inr (t, update_where (\<lambda>r. rf_id r = rf_id row)
             (\<lambda>r. r\<lparr>rf_revoked_at := Some now, rf_last_used_at := Some now, rf_replaced_by := Some (rt_session_id t)\<rparr>) s'))))"

definition revoke_refresh_session :: "auth_env \<Rightarrow> int \<Rightarrow> string \<Rightarrow> sessions \<Rightarrow> sessions" where
  "revoke_refresh_session env now token s =
     update_where (\<lambda>r. rf_token_hash r = au_hash env token \<and> rf_revoked_at r = None)
       (\<lambda>r. r\<lparr>rf_revoked_at := Some (case rf_revoked_at r of None \<Rightarrow> now | Some t \<Rightarrow> t), rf_last_used_at := Some now\<rparr>) s"

section \<open>Cookies\<close>

definition header_value :: "string \<Rightarrow> string \<Rightarrow> string \<Rightarrow> string \<Rightarrow> string api" where
  "header_value doing cookie_name bad text =
     (if list_all (\<lambda>c. byte c = 9 \<or> (32 \<le> byte c \<and> byte c \<noteq> 127)) text then Inr text
      else Inl (Api 500 (''Could not '' @ doing @ '' '' @ cookie_name @ '' cookie: '' @ bad)))"

definition cookie_max_age_seconds :: "int \<Rightarrow> int \<Rightarrow> int" where
  "cookie_max_age_seconds expires_at now = max 0 ((expires_at - now) div 1000)"

definition secure_attribute :: "bool \<Rightarrow> string" where
  "secure_attribute secure = (if secure then ''; Secure'' else [])"

definition auth_cookie_header :: "auth_env \<Rightarrow> string \<Rightarrow> string \<Rightarrow> string \<Rightarrow> int \<Rightarrow> string api" where
  "auth_cookie_header env cookie_name token path max_age =
     header_value ''create'' cookie_name (au_bad_header env)
       (cookie_name @ ''='' @ token @ ''; HttpOnly; SameSite='' @ as_cookie_value (au_same_site env) @ ''; Path='' @ path @
        ''; Max-Age='' @ show_int max_age @ secure_attribute (au_cookie_secure env))"

definition csrf_cookie_header :: "auth_env \<Rightarrow> string \<Rightarrow> string \<Rightarrow> int \<Rightarrow> string api" where
  "csrf_cookie_header env token path max_age =
     header_value ''create'' admin_csrf_cookie (au_bad_header env)
       (admin_csrf_cookie @ ''='' @ token @ ''; SameSite='' @ as_cookie_value (au_same_site env) @ ''; Path='' @ path @
        ''; Max-Age='' @ show_int max_age @ secure_attribute (au_cookie_secure env))"

definition expired_suffix :: "auth_env \<Rightarrow> string \<Rightarrow> string" where
  "expired_suffix env path =
     ''; SameSite='' @ as_cookie_value (au_same_site env) @ ''; Path='' @ path @
     ''; Max-Age=0; Expires=Thu, 01 Jan 1970 00:00:00 GMT'' @ secure_attribute (au_cookie_secure env)"

definition expired_auth_cookie_header :: "auth_env \<Rightarrow> string \<Rightarrow> string \<Rightarrow> string api" where
  "expired_auth_cookie_header env cookie_name path =
     header_value ''clear'' cookie_name (au_bad_header env) (cookie_name @ ''=; HttpOnly'' @ expired_suffix env path)"

definition expired_plain_cookie_header :: "auth_env \<Rightarrow> string \<Rightarrow> string \<Rightarrow> string api" where
  "expired_plain_cookie_header env cookie_name path =
     header_value ''clear'' cookie_name (au_bad_header env) (cookie_name @ ''='' @ expired_suffix env path)"

definition auth_success_headers ::
  "auth_env \<Rightarrow> int \<Rightarrow> fresh_values \<Rightarrow> access_token \<Rightarrow> refresh_token \<Rightarrow> string list api"
where
  "auth_success_headers env now fresh access refresh =
     rbind (auth_cookie_header env admin_auth_cookie (at_token access) ''/api''
              (cookie_max_age_seconds (at_expires_at access) now)) (\<lambda>a.
     rbind (auth_cookie_header env admin_refresh_cookie (rt_token refresh) ''/api/auth''
              (cookie_max_age_seconds (rt_expires_at refresh) now)) (\<lambda>b.
     rbind (csrf_cookie_header env (fv_csrf fresh) ''/'' (cookie_max_age_seconds (rt_expires_at refresh) now)) (\<lambda>c.
     Inr [a, b, c])))"

definition expired_auth_cookie_headers :: "auth_env \<Rightarrow> string list api" where
  "expired_auth_cookie_headers env =
     rbind (expired_auth_cookie_header env admin_auth_cookie ''/api'') (\<lambda>a.
     rbind (expired_auth_cookie_header env admin_refresh_cookie ''/api/auth'') (\<lambda>b.
     rbind (expired_plain_cookie_header env admin_csrf_cookie ''/'') (\<lambda>c. Inr [a, b, c])))"

section \<open>Handlers\<close>

record auth_token_out =
  ao_expires_at :: int
  ao_refresh_token_expires_at :: int
  ao_username :: string

definition token_out :: "auth_env \<Rightarrow> access_token \<Rightarrow> refresh_token \<Rightarrow> auth_token_out" where
  "token_out env access refresh =
     \<lparr>ao_expires_at = at_expires_at access, ao_refresh_token_expires_at = rt_expires_at refresh,
      ao_username = au_username env\<rparr>"

text \<open>An answer comes with the sessions it leaves: what was committed stays when a later step fails.\<close>

type_synonym 'a handler = "sessions \<Rightarrow> 'a api \<times> sessions"

definition login ::
  "auth_env \<Rightarrow> int \<Rightarrow> fresh_values \<Rightarrow> string \<Rightarrow> string \<Rightarrow> (string list \<times> auth_token_out) handler"
where
  "login env now fresh username password s =
     (if \<not> constant_time_eq username (au_username env) \<or> \<not> constant_time_eq password (au_password env)
      then (Inl (Api 401 ''Invalid username or password''), s)
      else
        (case rbind (issue_access_token env now fresh) (\<lambda>access.
              rbind (create_refresh_session env now fresh (au_username env) s) (\<lambda>(t, s'). Inr (access, t, s'))) of
           Inl e \<Rightarrow> (Inl e, s)
         | Inr (access, t, s') \<Rightarrow>
             (rbind (auth_success_headers env now fresh access t) (\<lambda>hs. Inr (hs, token_out env access t)), s')))"

definition refresh ::
  "auth_env \<Rightarrow> int \<Rightarrow> fresh_values \<Rightarrow> headers \<Rightarrow> (string list \<times> auth_token_out) handler"
where
  "refresh env now fresh hs s =
     (case rbind (api_ok_or (refresh_cookie_token hs) (unauthorized ''Refresh token required'')) (\<lambda>token.
           rotate_refresh_session env now fresh token s) of
        Inl e \<Rightarrow> (Inl e, s)
      | Inr (t, s') \<Rightarrow>
          (rbind (issue_access_token env now fresh) (\<lambda>access.
           rbind (auth_success_headers env now fresh access t) (\<lambda>out. Inr (out, token_out env access t))), s'))"

definition auth_me :: "auth_env \<Rightarrow> int \<Rightarrow> headers \<Rightarrow> string api" where
  "auth_me env now hs = require_admin env now hs"

definition logout :: "auth_env \<Rightarrow> int \<Rightarrow> headers \<Rightarrow> string list handler" where
  "logout env now hs s =
     (case require_csrf hs of
        Inl e \<Rightarrow> (Inl e, s)
      | Inr _ \<Rightarrow>
          (expired_auth_cookie_headers env,
           (case refresh_cookie_token hs of None \<Rightarrow> s | Some token \<Rightarrow> revoke_refresh_session env now token s)))"

section \<open>The gate\<close>

definition safe_method :: "string \<Rightarrow> bool" where
  "safe_method m \<longleftrightarrow> m = ''GET'' \<or> m = ''HEAD''"

definition protected_path :: "string \<Rightarrow> string \<Rightarrow> bool" where
  "protected_path m path \<longleftrightarrow>
     prefix ''/admin/'' path \<or> prefix ''/videos/upload'' path \<or> (prefix ''/videos/'' path \<and> \<not> safe_method m)"

definition authenticate_request :: "auth_env \<Rightarrow> int \<Rightarrow> string \<Rightarrow> string \<Rightarrow> headers \<Rightarrow> unit api" where
  "authenticate_request env now m path hs =
     (if protected_path m path
      then rbind (require_admin env now hs) (\<lambda>_.
           if safe_method m \<or> m = ''OPTIONS'' then Inr () else require_csrf hs)
      else Inr ())"

section \<open>Routes\<close>

datatype route_handler =
    Livez | Health | Metrics | Login | Refresh | Logout | Me
  | GetCatalog | QuoteUpload | ListVideos
  | AdminCatalogs | ResumeCatalogs | ApproveCatalogs | PublishCatalogs
  | RequoteVideo string | ResumeVideo string | AdminListVideos | GetVideo string | DeleteVideo string
  | AdminGetVideo string | VideoStatus string | ApproveVideo string
  | UpdateVisibility string | UpdatePublication string | UploadVideo

text \<open>
  The routing table: the methods of a path, where a literal segment goes before a parameter and a
  parameter takes one non-empty segment. A \<open>GET\<close> route answers \<open>HEAD\<close> as well.
\<close>

definition video_routes :: "string list \<Rightarrow> (string \<times> route_handler) list" where
  "video_routes segments =
     (case segments of
        [v] \<Rightarrow> if v = [] then [] else [(''GET'', GetVideo v), (''DELETE'', DeleteVideo v)]
      | [v, action] \<Rightarrow>
          if v = [] then []
          else if action = ''status'' then [(''GET'', VideoStatus v)]
          else if action = ''approve'' then [(''POST'', ApproveVideo v)]
          else []
      | _ \<Rightarrow> [])"

definition admin_video_routes :: "string list \<Rightarrow> (string \<times> route_handler) list" where
  "admin_video_routes segments =
     (case segments of
        [] \<Rightarrow> [(''GET'', AdminListVideos)]
      | [v] \<Rightarrow> if v = [] then [] else [(''GET'', AdminGetVideo v), (''DELETE'', DeleteVideo v)]
      | [v, action] \<Rightarrow>
          if v = [] then []
          else if action = ''requote'' then [(''POST'', RequoteVideo v)]
          else if action = ''resume'' then [(''POST'', ResumeVideo v)]
          else if action = ''approve'' then [(''POST'', ApproveVideo v)]
          else if action = ''visibility'' then [(''PATCH'', UpdateVisibility v)]
          else if action = ''publication'' then [(''PATCH'', UpdatePublication v)]
          else []
      | _ \<Rightarrow> [])"

definition fixed_routes :: "(string \<times> (string \<times> route_handler) list) list" where
  "fixed_routes =
     [(''/livez'', [(''GET'', Livez)]), (''/health'', [(''GET'', Health)]), (''/metrics'', [(''GET'', Metrics)]),
      (''/auth/login'', [(''POST'', Login)]), (''/auth/refresh'', [(''POST'', Refresh)]),
      (''/auth/logout'', [(''POST'', Logout)]), (''/auth/me'', [(''GET'', Me)]),
      (''/catalog'', [(''GET'', GetCatalog)]), (''/videos/upload/quote'', [(''POST'', QuoteUpload)]),
      (''/videos/upload'', [(''POST'', UploadVideo)]), (''/videos'', [(''GET'', ListVideos)]),
      (''/admin/catalogs'', [(''GET'', AdminCatalogs)]), (''/admin/catalogs/resume'', [(''POST'', ResumeCatalogs)]),
      (''/admin/catalogs/approve'', [(''POST'', ApproveCatalogs)]), (''/admin/catalogs/publish'', [(''POST'', PublishCatalogs)])]"

definition path_routes :: "string \<Rightarrow> (string \<times> route_handler) list" where
  "path_routes path =
     (case map_of fixed_routes path of
        Some routes \<Rightarrow> routes
      | None \<Rightarrow>
          if path = ''/admin/videos'' then admin_video_routes []
          else (case strip_prefix ''/admin/videos/'' path of
                  Some rest \<Rightarrow> admin_video_routes (split_on (CHR ''/'') rest)
                | None \<Rightarrow>
                    (case strip_prefix ''/videos/'' path of
                       Some rest \<Rightarrow> video_routes (split_on (CHR ''/'') rest)
                     | None \<Rightarrow> [])))"

definition route :: "string \<Rightarrow> string \<Rightarrow> route_handler api" where
  "route m path =
     (case path_routes path of
        [] \<Rightarrow> Inl (Api 404 [])
      | routes \<Rightarrow>
          (case map_of routes (if m = ''HEAD'' \<and> map_of routes m = None then ''GET'' else m) of
             Some h \<Rightarrow> Inr h
           | None \<Rightarrow> Inl (Api 405 [])))"

text \<open>What a request reaches, behind the gate.\<close>

definition dispatch :: "auth_env \<Rightarrow> int \<Rightarrow> string \<Rightarrow> string \<Rightarrow> headers \<Rightarrow> route_handler api" where
  "dispatch env now m path hs = rbind (authenticate_request env now m path hs) (\<lambda>_. route m path)"

section \<open>Throttling of logins\<close>

record login_throttle =
  th_failures :: "int list"
  th_slots :: nat

definition new_throttle :: login_throttle where
  "new_throttle = \<lparr>th_failures = [], th_slots = 32\<rparr>"

text \<open>A login takes a slot and waits two seconds when twenty failures are at most a minute old.\<close>

definition throttle_begin :: "int \<Rightarrow> login_throttle \<Rightarrow> bool api \<times> login_throttle" where
  "throttle_begin now t =
     (if th_slots t = 0 then (Inl (Api 429 ''Authentication capacity busy; retry shortly''), t)
      else
        (let failures = dropWhile (\<lambda>f. (now - f) div 1000 \<ge> 60) (th_failures t)
         in (Inr (length failures \<ge> 20), t\<lparr>th_failures := failures, th_slots := th_slots t - 1\<rparr>)))"

definition throttle_end :: "int \<Rightarrow> nat \<Rightarrow> login_throttle \<Rightarrow> login_throttle" where
  "throttle_end now status t =
     (let t1 = t\<lparr>th_slots := th_slots t + 1\<rparr>
      in if 400 \<le> status \<and> status \<le> 499
         then t1\<lparr>th_failures := (if length (th_failures t1) = 20 then tl (th_failures t1) else th_failures t1) @ [now]\<rparr>
         else t1)"

end
