(* ===== verification/Float_Text.thy ===== *)
theory Float_Text
  imports Rust_Float Rust_Text
begin

text \<open>
  Floats as text and in JSON: \<open>str::parse::<f64>\<close>, the fixed-point formats, and the JSON
  values of \<open>serde_json\<close> with the conversions the repository uses.
\<close>

section \<open>Parsing\<close>

text \<open>
  Digits with an optional point and at least one digit, and an optional exponent; the value is the float
  nearest to the decimal. Otherwise only a NaN and an infinity, in letters of any case.
\<close>

definition parse_exponent :: "string \<Rightarrow> int option" where
  "parse_exponent s =
     (let digits = (case s of c # r \<Rightarrow> if c = CHR ''+'' \<or> c = CHR ''-'' then r else s | [] \<Rightarrow> s);
          e = int (digits_value digits)
      in if digits = [] \<or> \<not> list_all is_ascii_digit digits then None
         else Some (if s \<noteq> [] \<and> hd s = CHR ''-'' then - e else e))"

definition parse_decimal :: "string \<Rightarrow> rat option" where
  "parse_decimal s =
     (let whole = takeWhile is_ascii_digit s;
          r = dropWhile is_ascii_digit s;
          point = (r \<noteq> [] \<and> hd r = CHR ''.'');
          frac = (if point then takeWhile is_ascii_digit (tl r) else []);
          rest = (if point then dropWhile is_ascii_digit (tl r) else r);
          mantissa = of_nat (digits_value (whole @ frac)) / 10 ^ length frac
      in if whole = [] \<and> frac = [] then None
         else case rest of
                [] \<Rightarrow> Some mantissa
              | c # e \<Rightarrow>
                  if c = CHR ''e'' \<or> c = CHR ''E'' then map_option (\<lambda>k. mantissa * 10 powi k) (parse_exponent e) else None)"

definition parse_f64 :: "string \<Rightarrow> f64 option" where
  "parse_f64 s =
     (let negative = (s \<noteq> [] \<and> hd s = CHR ''-'');
          body = (case s of c # r \<Rightarrow> if c = CHR ''+'' \<or> c = CHR ''-'' then r else s | [] \<Rightarrow> s)
      in case parse_decimal body of
           Some q \<Rightarrow> Some (f64_of (if negative then - q else q))
         | None \<Rightarrow>
             (let word = to_ascii_lowercase body
              in if word = ''nan'' then Some Nan
                 else if word = ''inf'' \<or> word = ''infinity'' then Some (Infinite (\<not> negative))
                 else None))"

section \<open>Formatting\<close>

definition fixed :: "nat \<Rightarrow> rat \<Rightarrow> string" where
  "fixed digits q =
     (let n = nat (round_half_even (q * 10 ^ digits)); frac = show_nat (n mod 10 ^ digits)
      in show_nat (n div 10 ^ digits) @ ''.'' @ replicate (digits - length frac) (CHR ''0'') @ frac)"

fun format_fixed :: "nat \<Rightarrow> f64 \<Rightarrow> string" where
  "format_fixed digits Nan = ''NaN''"
| "format_fixed digits (Infinite b) = (if b then ''inf'' else ''-inf'')"
| "format_fixed digits (Fin q) = (if q < 0 then ''-'' @ fixed digits (- q) else fixed digits q)"

section \<open>Order\<close>

definition f64_lt :: "f64 \<Rightarrow> f64 \<Rightarrow> bool" where
  "f64_lt x y \<longleftrightarrow> f64_le x y \<and> \<not> f64_le y x"

definition positive_f64 :: "f64 \<Rightarrow> bool" where
  "positive_f64 x \<longleftrightarrow> is_finite x \<and> f64_lt (Fin 0) x"

lemma f64_max_Fin: "f64_max (Fin x) (Fin y) = Fin (max x y)"
  by (simp add: max_def)

lemma f64_min_Fin: "f64_min (Fin x) (Fin y) = Fin (min x y)"
  by (simp add: min_def)

section \<open>JSON values\<close>

datatype json =
    JNull
  | JBool bool
  | JInt int
  | JFloat f64
  | JString string
  | JArray "json list"
  | JObject "(string \<times> json) list"

fun json_get :: "string \<Rightarrow> json \<Rightarrow> json option" where
  "json_get key (JObject members) = map_of (rev members) key"
| "json_get key _ = None"

fun json_as_array :: "json \<Rightarrow> json list option" where
  "json_as_array (JArray xs) = Some xs"
| "json_as_array _ = None"

fun json_as_str :: "json \<Rightarrow> string option" where
  "json_as_str (JString s) = Some s"
| "json_as_str _ = None"

fun json_as_i64 :: "json \<Rightarrow> int option" where
  "json_as_i64 (JInt i) = (if i64_min \<le> i \<and> i \<le> i64_max then Some i else None)"
| "json_as_i64 _ = None"

fun json_as_f64 :: "json \<Rightarrow> f64 option" where
  "json_as_f64 (JInt i) = Some (f64_of_int i)"
| "json_as_f64 (JFloat x) = Some x"
| "json_as_f64 _ = None"

text \<open>\<open>as i32\<close> and \<open>as i64\<close> of an integer keep its low bits.\<close>

definition wrap_signed :: "nat \<Rightarrow> int \<Rightarrow> int" where
  "wrap_signed bits i = (i + 2 ^ (bits - 1)) mod 2 ^ bits - 2 ^ (bits - 1)"

lemma wrap_signed_id: "- (2 ^ (bits - 1)) \<le> i \<Longrightarrow> i < 2 ^ (bits - 1) \<Longrightarrow> 0 < bits \<Longrightarrow> wrap_signed bits i = i"
  by (cases bits) (simp_all add: wrap_signed_def)

end
