(* ===== verification/Service_Config.thy ===== *)
theory Service_Config
  imports Admin_Auth Float_Text
begin

text \<open>
  Configuration: variables of the environment (\<open>crates/common/src/env.rs\<close>), allowed origins
  (\<open>crates/common/src/security.rs\<close>), and the admin service's settings with their guards
  (\<open>crates/rust_admin/src/config.rs\<close>, \<open>config/validation.rs\<close>, \<open>config/cors.rs\<close>). The environment is a
  map; what a file holds and how the library words an error are parameters. An error is its text.
\<close>

section \<open>Variables\<close>

type_synonym 'a conf = "string + 'a"

record environment =
  en_var :: "string \<Rightarrow> string option"
  en_read_file :: "string \<Rightarrow> string + string"
  en_parse_error :: "string \<Rightarrow> string"

definition non_empty_env :: "environment \<Rightarrow> string \<Rightarrow> string option" where
  "non_empty_env en name = non_empty (map_option trim (en_var en name))"

definition secret_env :: "environment \<Rightarrow> string \<Rightarrow> string \<Rightarrow> string option conf" where
  "secret_env en name file_name =
     (case non_empty_env en file_name of
        None \<Rightarrow> Inr (non_empty_env en name)
      | Some path \<Rightarrow>
          (case en_read_file en path of
             Inl e \<Rightarrow> Inl (''could not read '' @ file_name @ '' at '' @ path @ '': '' @ e)
           | Inr content \<Rightarrow>
               (let value = trim content in if value \<noteq> [] then Inr (Some value) else Inr (non_empty_env en name))))"

definition parse_env :: "environment \<Rightarrow> (string \<Rightarrow> 'a option) \<Rightarrow> string \<Rightarrow> 'a \<Rightarrow> 'a conf" where
  "parse_env en parse name default_value =
     (case non_empty_env en name of
        None \<Rightarrow> Inr default_value
      | Some value \<Rightarrow>
          (case parse value of
             None \<Rightarrow> Inl (''invalid '' @ name @ '' '' @ [CHR 0x27] @ value @ [CHR 0x27] @ '': '' @ en_parse_error en value)
           | Some x \<Rightarrow> Inr x))"

definition parse_nonzero_env :: "environment \<Rightarrow> (string \<Rightarrow> nat option) \<Rightarrow> string \<Rightarrow> nat \<Rightarrow> nat conf" where
  "parse_nonzero_env en parse name default_value =
     rbind (parse_env en parse name default_value) (\<lambda>value.
     if value = 0 then Inl (name @ '' must be greater than zero'') else Inr value)"

text \<open>The seconds of a duration; the conversion panics (\<open>None\<close>) where they do not fit.\<close>

definition duration_secs_from_env :: "environment \<Rightarrow> string \<Rightarrow> f64 \<Rightarrow> f64 conf option" where
  "duration_secs_from_env en name default_value =
     (case parse_env en parse_f64 name default_value of
        Inl e \<Rightarrow> Some (Inl e)
      | Inr seconds \<Rightarrow>
          if \<not> is_finite seconds \<or> f64_lt seconds (Fin 0)
          then Some (Inl (''invalid '' @ name @ '': must be a non-negative number of seconds''))
          else if f64_le (Fin (2 ^ 64)) seconds then None
          else Some (Inr seconds))"

definition bool_from_env :: "environment \<Rightarrow> string \<Rightarrow> bool \<Rightarrow> bool conf" where
  "bool_from_env en name default_value =
     (case non_empty_env en name of
        None \<Rightarrow> Inr default_value
      | Some value \<Rightarrow>
          (let v = to_ascii_lowercase value
           in if v \<in> {''1'', ''true'', ''yes'', ''on''} then Inr True
              else if v \<in> {''0'', ''false'', ''no'', ''off''} then Inr False
              else Inl (''invalid '' @ name @ '' '' @ [CHR 0x27] @ v @ [CHR 0x27] @ '': expected a boolean'')))"

text \<open>A service listens on the loopback interface unless it is told otherwise.\<close>

definition bind_addr_from_env :: "environment \<Rightarrow> (string \<Rightarrow> 'ip option) \<Rightarrow> 'ip \<Rightarrow> string \<Rightarrow> nat \<Rightarrow> ('ip \<times> nat) conf" where
  "bind_addr_from_env en parse_ip localhost name default_port =
     rbind (parse_env en (parse_unsigned 16) (name @ ''_PORT'') default_port) (\<lambda>port.
     rbind (parse_env en parse_ip (name @ ''_BIND_ADDRESS'') localhost) (\<lambda>ip.
     Inr (ip, port)))"

definition duration_millis :: "f64 \<Rightarrow> nat" where
  "duration_millis seconds = nat (as_u64 (f64_ceil (f64_mul (f64_max seconds (f64_of (1 / 1000))) (Fin 1000))))"

section \<open>Origins\<close>

definition trim_slashes :: "string \<Rightarrow> string" where
  "trim_slashes s = rev (dropWhile (\<lambda>c. c = CHR ''/'') (rev s))"

definition normalize_cors_origin :: "string \<Rightarrow> string conf" where
  "normalize_cors_origin given =
     (let origin = trim_slashes (trim given)
      in if origin = ''*'' then
           Inl (''CORS_ALLOWED_ORIGINS must list explicit origins, not '' @ [CHR 0x27] @ ''*'' @ [CHR 0x27] @ ''.'')
         else
           (case (case strip_prefix ''http://'' origin of Some h \<Rightarrow> Some h | None \<Rightarrow> strip_prefix ''https://'' origin) of
              None \<Rightarrow> Inl ''CORS_ALLOWED_ORIGINS entries must start with http:// or https://''
            | Some host \<Rightarrow>
                if host = [] \<or> CHR ''/'' \<in> set host \<or> CHR ''?'' \<in> set host \<or> CHR 0x23 \<in> set host
                then Inl (''CORS_ALLOWED_ORIGINS entries must be origins like '' @ [CHR 0x27] @ ''https://example.com'' @
                       [CHR 0x27] @ '' with no path, query, or wildcard.'')
                else Inr origin))"

definition origin_header :: "environment \<Rightarrow> string \<Rightarrow> string conf" where
  "origin_header en origin =
     rbind (normalize_cors_origin origin) (\<lambda>o'.
     if list_all (\<lambda>c. byte c = 9 \<or> (32 \<le> byte c \<and> byte c \<noteq> 127)) o' then Inr o'
     else Inl (''invalid CORS origin '' @ [CHR 0x27] @ o' @ [CHR 0x27] @ '': '' @ en_parse_error en o'))"

fun collect_ok :: "('a \<Rightarrow> 'e + 'b) \<Rightarrow> 'a list \<Rightarrow> 'e + 'b list" where
  "collect_ok f [] = Inr []"
| "collect_ok f (x # xs) = rbind (f x) (\<lambda>y. rbind (collect_ok f xs) (\<lambda>ys. Inr (y # ys)))"

definition parse_cors_allowed_origins :: "environment \<Rightarrow> string \<Rightarrow> string list conf" where
  "parse_cors_allowed_origins en raw =
     collect_ok (origin_header en) (filter (\<lambda>r. r \<noteq> []) (map trim (split_on (CHR '','') raw)))"

definition cors_allowed_origins_from_env :: "environment \<Rightarrow> string \<Rightarrow> string list conf" where
  "cors_allowed_origins_from_env en name =
     (case non_empty_env en name of None \<Rightarrow> Inr [] | Some raw \<Rightarrow> parse_cors_allowed_origins en raw)"

definition cors_allowed_origins :: "environment \<Rightarrow> string list conf" where
  "cors_allowed_origins en =
     parse_cors_allowed_origins en
       (case en_var en ''CORS_ALLOWED_ORIGINS'' of Some raw \<Rightarrow> raw | None \<Rightarrow> ''http://localhost,http://127.0.0.1'')"

section \<open>Credentials\<close>

definition parse_same_site :: "string \<Rightarrow> same_site option" where
  "parse_same_site value =
     (let v = to_ascii_lowercase (trim value)
      in if v = ''strict'' then Some Strict else if v = ''lax'' then Some Lax else if v = ''none'' then Some NoneSite else None)"

definition parse_cookie_same_site_env :: "environment \<Rightarrow> string \<Rightarrow> same_site \<Rightarrow> same_site conf" where
  "parse_cookie_same_site_env en name default_value =
     (case parse_same_site (case en_var en name of Some raw \<Rightarrow> raw | None \<Rightarrow> as_cookie_value default_value) of
        None \<Rightarrow> Inl (name @ '' must be one of Strict, Lax, or None'')
      | Some s \<Rightarrow> Inr s)"

definition production_value :: "string option \<Rightarrow> bool" where
  "production_value v \<longleftrightarrow> to_ascii_lowercase (trim (case v of Some s \<Rightarrow> s | None \<Rightarrow> [])) \<in> {''prod'', ''production''}"

definition is_production_environment :: "environment \<Rightarrow> bool conf" where
  "is_production_environment en =
     rbind (bool_from_env en ''AUTVID_STRICT_AUTH'' False) (\<lambda>strict.
     Inr (strict \<or> production_value (en_var en ''APP_ENV'') \<or> production_value (en_var en ''ENVIRONMENT'')))"

definition unsafe_values :: "string list" where
  "unsafe_values =
     [[], ''admin'', ''administrator'', ''changeme'', ''change-me'', ''change_me'', ''default'', ''password'', ''please-change-me'',
      ''replace-me'', ''secret'', ''test'', ''test-secret'']"

definition placeholders :: "string list" where
  "placeholders =
     [''change-me'', ''change_me'', ''changeme'', ''change-this'', ''change_this'', ''changethis'', ''replace-me'', ''replace_me'',
      ''replace-this'', ''replace_this'']"

definition is_unsafe_admin_auth_value :: "string \<Rightarrow> bool" where
  "is_unsafe_admin_auth_value value \<longleftrightarrow>
     (let normalized = to_ascii_lowercase (trim value)
      in normalized \<in> set unsafe_values \<or> list_ex (contains normalized) placeholders)"

fun join_comma :: "string list \<Rightarrow> string" where
  "join_comma [] = []"
| "join_comma [x] = x"
| "join_comma (x # xs) = x @ '', '' @ join_comma xs"

definition unsafe_prefix :: string where
  "unsafe_prefix = ''Unsafe admin auth configuration for production: ''"

definition validate_admin_auth_config :: "environment \<Rightarrow> string \<Rightarrow> string \<Rightarrow> string \<Rightarrow> int \<Rightarrow> unit conf" where
  "validate_admin_auth_config en username password secret ttl_hours =
     (if ttl_hours \<le> 0 then Inl ''ADMIN_AUTH_TTL_HOURS must be greater than zero''
      else
        rbind (is_production_environment en) (\<lambda>production.
        if \<not> production then Inr ()
        else
          (let unsafe_fields = map fst (filter (\<lambda>(_, v). is_unsafe_admin_auth_value v)
                 [(''ADMIN_USERNAME'', username), (''ADMIN_PASSWORD'', password), (''ADMIN_AUTH_SECRET'', secret)])
           in if unsafe_fields \<noteq> [] then
                Inl (unsafe_prefix @ join_comma unsafe_fields @ '' must not use default, weak, or change-me values'')
              else if constant_time_eq secret password then
                Inl (unsafe_prefix @ ''ADMIN_AUTH_SECRET must not equal ADMIN_PASSWORD'')
              else if length password < 12 then
                Inl (unsafe_prefix @ ''ADMIN_PASSWORD must be at least 12 characters'')
              else if length secret < 32 then
                Inl (unsafe_prefix @ ''ADMIN_AUTH_SECRET must be at least 32 characters'')
              else Inr ())))"

end
