(* ===== verification/Service_Requests.thy ===== *)
theory Service_Requests
  imports Admin_Auth Service_Config
begin

text \<open>
  What the HTTP services share (\<open>crates/common/src/\<close>): the errors they answer with (\<open>error.rs\<close>), the check
  of the \<open>Host\<close> and \<open>Origin\<close> of a request to a local service (\<open>native.rs\<close>) and the health probe
  (\<open>health.rs\<close>). The rendering of an address is data; what the probed server does is event data.
\<close>

section \<open>Errors\<close>

record service_error =
  se_status :: nat
  se_code :: "string option"
  se_detail :: string
  se_authenticate :: bool

type_synonym 'a service = "service_error + 'a"

definition new_error :: "nat \<Rightarrow> string \<Rightarrow> service_error" where
  "new_error status detail = \<lparr>se_status = status, se_code = None, se_detail = detail, se_authenticate = False\<rparr>"

definition error_with_code :: "nat \<Rightarrow> string \<Rightarrow> string \<Rightarrow> service_error" where
  "error_with_code status code detail =
     \<lparr>se_status = status, se_code = Some code, se_detail = detail, se_authenticate = False\<rparr>"

definition bad_request_error :: "string \<Rightarrow> service_error" where
  "bad_request_error detail = error_with_code 400 ''BAD_REQUEST'' detail"

definition unauthorized_error :: "string \<Rightarrow> service_error" where
  "unauthorized_error detail = \<lparr>se_status = 401, se_code = None, se_detail = detail, se_authenticate = True\<rparr>"

definition wallet_error :: "string \<Rightarrow> service_error" where
  "wallet_error detail = error_with_code 503 ''WALLET_ERROR'' detail"

definition network_markers :: "string list" where
  "network_markers =
     [''InsufficientPeers'', ''Found 0 peers'', ''need 7'', ''DHT returned no peers'', ''Failed to connect'',
      ''bootstrap'', ''Timeout'', ''timeout'']"

definition is_network_error :: "string \<Rightarrow> bool" where
  "is_network_error message \<longleftrightarrow> list_ex (contains message) network_markers"

definition from_autonomi_message :: "string \<Rightarrow> service_error" where
  "from_autonomi_message message =
     (let code = (if is_network_error message then ''NETWORK_ERROR''
                  else if contains message ''InvalidData'' \<or> contains message ''invalid'' then ''BAD_REQUEST''
                  else ''AUTONOMI_ERROR'');
          status = (if code = ''NETWORK_ERROR'' then 502 else if code = ''BAD_REQUEST'' then 400 else 500)
      in error_with_code status code message)"

text \<open>Status, headers and body of the answer.\<close>

definition error_response :: "service_error \<Rightarrow> nat \<times> headers \<times> json" where
  "error_response e =
     (se_status e,
      (if se_authenticate e then [(''www-authenticate'', ''Bearer'')] else []),
      (case se_code e of
         Some code \<Rightarrow> JObject [(''detail'', JString (se_detail e)), (''code'', JString code)]
       | None \<Rightarrow> JObject [(''detail'', JString (se_detail e))]))"

section \<open>Requests to a local service\<close>

record native_policy =
  np_loopback :: bool
  np_address :: string
  np_port :: nat
  np_origins :: "string list"

definition eq_ignore_ascii_case :: "string \<Rightarrow> string \<Rightarrow> bool" where
  "eq_ignore_ascii_case s t \<longleftrightarrow> to_ascii_lowercase s = to_ascii_lowercase t"

definition native_allows :: "native_policy \<Rightarrow> headers \<Rightarrow> bool" where
  "native_allows p hs \<longleftrightarrow>
     (if \<not> np_loopback p then True
      else
        (case header_text ''host'' hs of
           None \<Rightarrow> False
         | Some host \<Rightarrow>
             if \<not> eq_ignore_ascii_case host (np_address p) \<and>
                \<not> eq_ignore_ascii_case host (''localhost:'' @ show_nat (np_port p))
             then False
             else (case map_of hs ''origin'' of None \<Rightarrow> True | Some origin \<Rightarrow> origin \<in> set (np_origins p))))"

definition enforce_native_request :: "native_policy \<Rightarrow> headers \<Rightarrow> 'a service \<Rightarrow> 'a service" where
  "enforce_native_request p hs next_answer =
     (if \<not> native_allows p hs then Inl (new_error 403 ''Unrecognized native Host or Origin'') else next_answer)"

section \<open>The health probe\<close>

text \<open>\<open>char::is_control\<close> and \<open>char::is_whitespace\<close> of a character's bytes.\<close>

definition control_char :: "string \<Rightarrow> bool" where
  "control_char ch \<longleftrightarrow>
     (case ch of [c] \<Rightarrow> byte c < 32 \<or> byte c = 127 | [c, d] \<Rightarrow> byte c = 0xC2 \<and> byte d < 0xA0 | _ \<Rightarrow> False)"

definition blank_or_control :: "string option \<Rightarrow> bool" where
  "blank_or_control ch \<longleftrightarrow> (case ch of None \<Rightarrow> False | Some c \<Rightarrow> control_char c \<or> c \<in> set white_space)"

definition validate_healthcheck_input :: "string \<Rightarrow> string \<Rightarrow> unit conf" where
  "validate_healthcheck_input name value =
     (if value = [] then Inl (''healthcheck '' @ name @ '' must not be empty'')
      else if list_ex blank_or_control (utf8_chars value)
      then Inl (''healthcheck '' @ name @ '' must not contain whitespace or control characters'')
      else Inr ())"

definition crlf :: string where "crlf = [CHR 0x0D, CHR 0x0A]"

definition position_crlf :: "string \<Rightarrow> nat option" where
  "position_crlf s = find (\<lambda>i. prefix crlf (drop i s)) [0..<length s]"

definition split_whitespace :: "string \<Rightarrow> string list" where
  "split_whitespace s =
     filter (\<lambda>w. w \<noteq> [])
       (foldr (\<lambda>ch ws. (case ch of
            None \<Rightarrow> ws
          | Some c \<Rightarrow> if c \<in> set white_space then [] # ws else (c @ hd ws) # tl ws)) (utf8_chars s) [[]])"

text \<open>The response is read until its first line is complete or 256 bytes are there; a read returns no more
  than the buffer holds.\<close>

fun read_status :: "(string + string) list \<Rightarrow> string \<Rightarrow> string conf" where
  "read_status [] response = Inr response"
| "read_status (r # rs) response =
     (if length response \<ge> 256 then Inr response
      else
        (case r of
           Inl e \<Rightarrow> Inl (''healthcheck could not read response: '' @ e)
         | Inr got \<Rightarrow>
             (let chunk = take (min (256 - length response) 64) got; response' = response @ chunk
              in if chunk = [] then Inr response
                 else if position_crlf response' \<noteq> None then Inr response'
                 else read_status rs response')))"

record probe_world =
  pw_connect :: "string option"
  pw_read_timeout :: "string option"
  pw_write_timeout :: "string option"
  pw_write :: "string option"
  pw_reads :: "(string + string) list"
  pw_show_debug :: "string \<Rightarrow> string"

definition fails_with :: "string option \<Rightarrow> string \<Rightarrow> unit conf" where
  "fails_with outcome what = (case outcome of None \<Rightarrow> Inr () | Some e \<Rightarrow> Inl (what @ '': '' @ e))"

definition judge_status :: "probe_world \<Rightarrow> string \<Rightarrow> string \<Rightarrow> string \<Rightarrow> unit conf" where
  "judge_status w addr path response =
     (case position_crlf response of
        None \<Rightarrow> Inl ''healthcheck response did not include a status line''
      | Some n \<Rightarrow>
          (let status_line = take n response
           in if \<not> valid_utf8 status_line then Inl (''healthcheck status line was not UTF-8: '' @ utf8_error_text status_line)
              else
                (let fields = split_whitespace status_line;
                     status = (if length fields > 1 then fields ! 1 else [])
                 in if prefix ''2'' status then Inr ()
                    else Inl (''healthcheck '' @ addr @ path @ '' returned '' @ pw_show_debug w status_line))))"

definition probe_request :: "string \<Rightarrow> string \<Rightarrow> string" where
  "probe_request addr path =
     ''GET '' @ path @ '' HTTP/1.1'' @ crlf @ ''Host: '' @ addr @ crlf @ ''Connection: close'' @ crlf @ crlf"

text \<open>What is written, and the outcome.\<close>

definition run_http_healthcheck :: "probe_world \<Rightarrow> string \<Rightarrow> string \<Rightarrow> string option \<times> unit conf" where
  "run_http_healthcheck w addr given_path =
     (case rbind (validate_healthcheck_input ''addr'' addr) (\<lambda>_. validate_healthcheck_input ''path'' given_path) of
        Inl e \<Rightarrow> (None, Inl e)
      | Inr _ \<Rightarrow>
          (let path = (if prefix ''/'' given_path then given_path else ''/'' @ given_path)
           in case rbind (fails_with (pw_connect w) (''healthcheck could not connect to '' @ addr)) (\<lambda>_.
                   rbind (fails_with (pw_read_timeout w) ''healthcheck could not set read timeout'') (\<lambda>_.
                   fails_with (pw_write_timeout w) ''healthcheck could not set write timeout'')) of
                Inl e \<Rightarrow> (None, Inl e)
              | Inr _ \<Rightarrow>
                  (Some (probe_request addr path),
                   rbind (fails_with (pw_write w) ''healthcheck could not write request'') (\<lambda>_.
                   rbind (read_status (pw_reads w) []) (judge_status w addr path)))))"

definition run_healthcheck_from_args :: "probe_world \<Rightarrow> string list \<Rightarrow> string option \<times> bool conf" where
  "run_healthcheck_from_args w args =
     (case args of
        _ # command # rest \<Rightarrow>
          if command \<noteq> ''--healthcheck'' then (None, Inr False)
          else
            (case rest of
               [] \<Rightarrow> (None, Inl ''usage: --healthcheck <addr> [path]'')
             | addr # more_args \<Rightarrow>
                 (let path = (case more_args of [] \<Rightarrow> ''/livez'' | p # _ \<Rightarrow> p)
                  in if length more_args > 1 then (None, Inl ''usage: --healthcheck <addr> [path]'')
                     else (case run_http_healthcheck w addr path of (sent, r) \<Rightarrow> (sent, rbind r (\<lambda>_. Inr True)))))
      | _ \<Rightarrow> (None, Inr False))"

section \<open>What a probe sends\<close>

text \<open>An ASCII byte is a character of its own.\<close>

lemma take_takeWhile_take: "take (length (takeWhile P (take n s))) s = takeWhile P (take n s)"
proof -
  have "length (takeWhile P (take n s)) \<le> n" using length_takeWhile_le [of P "take n s"] by simp
  then have "take (length (takeWhile P (take n s))) s = take (length (takeWhile P (take n s))) (take n s)"
    by (simp add: min_absorb1)
  then show ?thesis by (metis takeWhile_eq_take)
qed

lemma matching_high: "d \<in> set (take (matching n c s) s) \<Longrightarrow> 128 \<le> byte d"
  by (induction n c s rule: matching.induct)
    (auto simp: second_ok_def continuation_def take_takeWhile_take dest: set_takeWhileD split: if_splits)

lemma ascii_char_listed:
  assumes "byte c < 128" "c \<in> set s"
  shows "Some [c] \<in> set (utf8_chars s)"
  using assms(2)
proof (induction s rule: utf8_chars.induct)
  case (2 b s)
  obtain ok n where step: "utf8_step b s = (ok, n)" by fastforce
  show ?case
  proof (cases "c = b")
    case True
    then have "utf8_step b s = (True, 1)" using assms(1) by (simp add: utf8_step_def utf8_width_def Let_def)
    then show ?thesis using True by (simp add: utf8_chars.simps)
  next
    case False
    have "c \<notin> set (take (n - 1) s)"
      using step assms(1) matching_high [of c "utf8_width b - 1" b s]
      by (auto simp: utf8_step_def Let_def split: if_splits)
    moreover have "c \<in> set s" "0 < n" using 2(2) False step utf8_step_pos [of b s] by auto
    ultimately have "c \<in> set (drop n (b # s))"
      using append_take_drop_id [of "n - 1" s] by (metis Un_iff drop_Cons' not_gr_zero set_append)
    then have "Some [c] \<in> set (utf8_chars (drop n (b # s)))"
      using 2(1) [OF _ step [symmetric]] step by simp
    then show ?thesis by (simp add: utf8_chars.simps step Let_def)
  qed
qed simp

lemma accepted_input_is_one_word:
  assumes "validate_healthcheck_input name s = Inr u"
  shows "s \<noteq> [] \<and> CHR 0x0D \<notin> set s \<and> CHR 0x0A \<notin> set s \<and> CHR 0x20 \<notin> set s"
proof -
  from assms have "s \<noteq> []" and none: "\<not> list_ex blank_or_control (utf8_chars s)"
    by (auto simp: validate_healthcheck_input_def split: if_splits)
  have "c \<notin> set s" if "c \<in> {CHR 0x0D, CHR 0x0A, CHR 0x20}" for c
  proof
    assume "c \<in> set s"
    moreover from that have "byte c < 128" "blank_or_control (Some [c])"
      by (auto simp: blank_or_control_def white_space_def)
    ultimately show False using none ascii_char_listed by (auto simp: list_ex_iff)
  qed
  with \<open>s \<noteq> []\<close> show ?thesis by blast
qed

text \<open>Nothing in the arguments of a probe can add a header or a second request: what is sent is one request
  for the given path to the given host.\<close>

theorem probe_sends_one_request:
  "case fst (run_healthcheck_from_args w args) of
     None \<Rightarrow> True
   | Some q \<Rightarrow> \<exists>addr path. q = probe_request addr path \<and> addr = args ! 2 \<and> prefix ''/'' path \<and>
       CHR 0x0D \<notin> set (addr @ path) \<and> CHR 0x0A \<notin> set (addr @ path) \<and> CHR 0x20 \<notin> set (addr @ path)"
proof (cases "fst (run_healthcheck_from_args w args)")
  case (Some q)
  then obtain a0 addr rest given where args: "args = a0 # ''--healthcheck'' # addr # rest"
      and sent: "fst (run_http_healthcheck w addr given) = Some q"
    by (auto simp: run_healthcheck_from_args_def Let_def split: list.splits if_splits prod.splits) (metis fst_conv)+
  then have ok: "rbind (validate_healthcheck_input ''addr'' addr) (\<lambda>_. validate_healthcheck_input ''path'' given) = Inr ()"
      and q: "q = probe_request addr (if prefix ''/'' given then given else ''/'' @ given)"
    by (auto simp: run_http_healthcheck_def Let_def split: sum.splits)
  from ok obtain u v where "validate_healthcheck_input ''addr'' addr = Inr u" "validate_healthcheck_input ''path'' given = Inr v"
    by auto
  from this [THEN accepted_input_is_one_word] have
    "q = probe_request addr (if prefix ''/'' given then given else ''/'' @ given) \<and> addr = args ! 2 \<and>
     prefix ''/'' (if prefix ''/'' given then given else ''/'' @ given) \<and>
     CHR 0x0D \<notin> set (addr @ (if prefix ''/'' given then given else ''/'' @ given)) \<and>
     CHR 0x0A \<notin> set (addr @ (if prefix ''/'' given then given else ''/'' @ given)) \<and>
     CHR 0x20 \<notin> set (addr @ (if prefix ''/'' given then given else ''/'' @ given))"
    using q args by simp
  then show ?thesis unfolding Some option.case by blast
qed simp

end
