(* ===== verification/Gateway_Service.thy ===== *)
theory Gateway_Service
  imports Service_Requests Payment_Uploads
begin

text \<open>
  The gateway's HTTP side (\<open>crates/antd_service/src/routes.rs\<close>, \<open>routes/\<close>, \<open>state.rs\<close>): who may call what,
  the cache of prices, the resolution of a public address into a validated map of chunks, downloads, and the
  reception of a file. The storage network, the encryption library and the decoders are parameters.
\<close>

section \<open>Who may call what\<close>

definition internal_token_authorized :: "headers \<Rightarrow> string \<Rightarrow> bool" where
  "internal_token_authorized hs expected \<longleftrightarrow>
     (case Option.bind (header_text ''authorization'' hs) (\<lambda>value.
        case strip_prefix ''Bearer '' value of Some t \<Rightarrow> Some t | None \<Rightarrow> strip_prefix ''bearer '' value) of
        None \<Rightarrow> False
      | Some token \<Rightarrow> constant_time_eq (trim token) expected)"

record gateway_tokens =
  gt_internal :: "string option"
  gt_read :: "string option"

definition read_only_request :: "string \<Rightarrow> string \<Rightarrow> bool" where
  "read_only_request m path \<longleftrightarrow>
     m = ''GET'' \<and> (prefix ''/v1/data/public/'' path \<or> prefix ''/v1/file/public/'' path)"

definition require_internal_token :: "gateway_tokens \<Rightarrow> string \<Rightarrow> string \<Rightarrow> headers \<Rightarrow> unit service" where
  "require_internal_token t m path hs =
     (case gt_internal t of
        None \<Rightarrow> Inr ()
      | Some expected \<Rightarrow>
          if internal_token_authorized hs expected \<or>
             (read_only_request m path \<and>
              (case gt_read t of None \<Rightarrow> False | Some token \<Rightarrow> internal_token_authorized hs token))
          then Inr () else Inl (new_error 401 ''internal bearer token required''))"

datatype gateway_handler =
    GwLivez | GwHealth | GwMetrics
  | FileRaw string | WalletAddress | WalletBalance | WalletApprove | ActivateLease | ApprovePayment
  | CancelUnpaid string | ResumeUpload string | UploadStatus string
  | DataCost | DataPutPublic | DataGetPublicRaw string | DataGetPublic string | FileCost | FilePutPublic

text \<open>The routes: those before the gate, and those behind it by their path after \<open>/v1/\<close>.\<close>

definition open_routes :: "string \<Rightarrow> (string \<times> gateway_handler) list" where
  "open_routes path =
     (if path = ''/livez'' then [(''GET'', GwLivez)] else if path = ''/health'' then [(''GET'', GwHealth)]
      else if path = ''/metrics'' then [(''GET'', GwMetrics)] else [])"

definition v1_routes :: "string list \<Rightarrow> (string \<times> gateway_handler) list" where
  "v1_routes segments =
     (case segments of
        [a, b] \<Rightarrow>
          if a = ''wallet'' then
            (if b = ''address'' then [(''GET'', WalletAddress)] else if b = ''balance'' then [(''GET'', WalletBalance)]
             else if b = ''approve'' then [(''POST'', WalletApprove)] else [])
          else if a = ''payments'' then
            (if b = ''lease'' then [(''POST'', ActivateLease)] else if b = ''approvals'' then [(''POST'', ApprovePayment)] else [])
          else if a = ''data'' then
            (if b = ''cost'' then [(''POST'', DataCost)] else if b = ''public'' then [(''POST'', DataPutPublic)] else [])
          else if a = ''file'' then
            (if b = ''cost'' then [(''POST'', FileCost)] else if b = ''public'' then [(''POST'', FilePutPublic)] else [])
          else []
      | [a, b, x] \<Rightarrow>
          if x = [] then []
          else if a = ''data'' \<and> b = ''public'' then [(''GET'', DataGetPublic x)]
          else if a = ''payments'' \<and> b = ''uploads'' then [(''GET'', UploadStatus x)] else []
      | [a, b, x, action] \<Rightarrow>
          if x = [] then []
          else if a = ''file'' \<and> b = ''public'' \<and> action = ''raw'' then [(''GET'', FileRaw x)]
          else if a = ''data'' \<and> b = ''public'' \<and> action = ''raw'' then [(''GET'', DataGetPublicRaw x)]
          else if a = ''payments'' \<and> b = ''approvals'' \<and> action = ''cancel-unpaid'' then [(''POST'', CancelUnpaid x)]
          else if a = ''payments'' \<and> b = ''uploads'' \<and> action = ''resume'' then [(''POST'', ResumeUpload x)] else []
      | _ \<Rightarrow> [])"

definition pick_method :: "string \<Rightarrow> (string \<times> 'h) list \<Rightarrow> 'h service" where
  "pick_method m routes =
     (case map_of routes (if m = ''HEAD'' \<and> map_of routes m = None then ''GET'' else m) of
        Some h \<Rightarrow> Inr h
      | None \<Rightarrow> Inl (new_error (if routes = [] then 404 else 405) []))"

text \<open>File requests share four slots.\<close>

definition limit_file_requests :: "nat \<Rightarrow> 'a service \<Rightarrow> 'a service" where
  "limit_file_requests free_slots next_answer =
     (if free_slots = 0 then Inl (new_error 503 ''file request capacity exhausted'') else next_answer)"

definition file_route :: "string \<Rightarrow> bool" where
  "file_route path \<longleftrightarrow> path = ''/v1/file/cost'' \<or> path = ''/v1/file/public''"

text \<open>The routes with their layers: the check of the listener around everything, the slots around the
  token around the file routes, the token around the others.\<close>

definition gateway_routed :: "gateway_tokens \<Rightarrow> nat \<Rightarrow> string \<Rightarrow> string \<Rightarrow> headers \<Rightarrow> gateway_handler service" where
  "gateway_routed t free_slots m path hs =
     (if open_routes path \<noteq> [] then pick_method m (open_routes path)
      else
        (let routes = (case strip_prefix ''/v1/'' path of None \<Rightarrow> [] | Some rest \<Rightarrow> v1_routes (split_on (CHR ''/'') rest));
             gated = rbind (require_internal_token t m path hs) (\<lambda>_. pick_method m routes)
         in if routes = [] then Inl (new_error 404 [])
            else if file_route path then limit_file_requests free_slots gated else gated))"

definition gateway_dispatch ::
  "native_policy \<Rightarrow> gateway_tokens \<Rightarrow> nat \<Rightarrow> string \<Rightarrow> string \<Rightarrow> headers \<Rightarrow> gateway_handler service"
where
  "gateway_dispatch p t free_slots m path hs =
     enforce_native_request p hs (gateway_routed t free_slots m path hs)"

definition approval_header :: "headers \<Rightarrow> string service" where
  "approval_header hs =
     (case header_text ''x-payment-approval'' hs of
        Some v \<Rightarrow> if v \<noteq> [] \<and> length v \<le> 128 then Inr v
          else Inl (error_with_code 409 ''APPROVAL_REQUIRED'' ''A content-bound storage and gas approval is required'')
      | None \<Rightarrow> Inl (error_with_code 409 ''APPROVAL_REQUIRED'' ''A content-bound storage and gas approval is required''))"

definition payment_failure :: "string \<Rightarrow> service_error" where
  "payment_failure detail = error_with_code 409 (payment_error_code detail) detail"

definition lease_header :: "headers \<Rightarrow> string service" where
  "lease_header hs =
     (case header_text ''x-payment-lease'' hs of
        Some v \<Rightarrow> if v \<noteq> [] \<and> length v \<le> 256 then Inr v
          else Inl (payment_failure ''payment_recovery_required: payment execution lease required'')
      | None \<Rightarrow> Inl (payment_failure ''payment_recovery_required: payment execution lease required''))"

section \<open>The cache of prices\<close>

record cost_cache_key =
  ck_sha256 :: string
  ck_byte_len :: nat
  ck_payment_mode :: string

text \<open>Entries expire and leave in the order in which they came; times are in milliseconds.\<close>

record 'v price_cache =
  pc_ttl :: nat
  pc_max_entries :: nat
  pc_entries :: "(cost_cache_key \<times> 'v \<times> nat) list"
  pc_order :: "cost_cache_key list"

definition new_price_cache :: "nat \<Rightarrow> nat \<Rightarrow> 'v price_cache" where
  "new_price_cache ttl max_entries = \<lparr>pc_ttl = ttl, pc_max_entries = max_entries, pc_entries = [], pc_order = []\<rparr>"

definition cache_disabled :: "'v price_cache \<Rightarrow> bool" where
  "cache_disabled c \<longleftrightarrow> pc_ttl c = 0 \<or> pc_max_entries c = 0"

definition price_get :: "nat \<Rightarrow> cost_cache_key \<Rightarrow> 'v price_cache \<Rightarrow> 'v option \<times> 'v price_cache" where
  "price_get now key c =
     (if cache_disabled c then (None, c)
      else
        (case map_of (pc_entries c) key of
           None \<Rightarrow> (None, c)
         | Some (v, expires_at) \<Rightarrow>
             if expires_at > now then (Some v, c)
             else (None, c\<lparr>pc_entries := filter (\<lambda>e. fst e \<noteq> key) (pc_entries c),
                     pc_order := filter (\<lambda>k. k \<noteq> key) (pc_order c)\<rparr>)))"

fun evict_oldest :: "nat \<Rightarrow> cost_cache_key list \<Rightarrow> (cost_cache_key \<times> 'v \<times> nat) list \<Rightarrow>
    cost_cache_key list \<times> (cost_cache_key \<times> 'v \<times> nat) list" where
  "evict_oldest limit [] entries = ([], entries)"
| "evict_oldest limit (oldest # order) entries =
     (if length entries > limit then evict_oldest limit order (filter (\<lambda>e. fst e \<noteq> oldest) entries)
      else (oldest # order, entries))"

definition price_insert :: "nat \<Rightarrow> cost_cache_key \<Rightarrow> 'v \<Rightarrow> 'v price_cache \<Rightarrow> 'v price_cache" where
  "price_insert now key v c =
     (if cache_disabled c then c
      else
        (let order = (if key \<in> fst ` set (pc_entries c) then filter (\<lambda>k. k \<noteq> key) (pc_order c) else pc_order c) @ [key];
             entries = (key, v, now + pc_ttl c) # filter (\<lambda>e. fst e \<noteq> key) (pc_entries c);
             (order', entries') = evict_oldest (pc_max_entries c) order entries
         in c\<lparr>pc_entries := entries', pc_order := order'\<rparr>))"

section \<open>Reading the body of a request\<close>

record gateway_env =
  ge_decode_base64 :: "string \<Rightarrow> string + string"
  ge_decode_hex :: "string \<Rightarrow> string + string"
  ge_sha256 :: "string \<Rightarrow> string"
  ge_show_debug :: "string \<Rightarrow> string"
  ge_file_upload_max_bytes :: nat

definition decode_base64 :: "gateway_env \<Rightarrow> string \<Rightarrow> string service" where
  "decode_base64 env value =
     (case ge_decode_base64 env value of
        Inl e \<Rightarrow> Inl (bad_request_error (''invalid base64 data: '' @ e))
      | Inr data \<Rightarrow> Inr data)"

text \<open>\<open>str::to_lowercase\<close>, as far as its result is compared with ASCII words: the Kelvin sign becomes a
  letter, no other character does.\<close>

fun lowercase :: "string \<Rightarrow> string" where
  "lowercase (a # b # c # s) =
     (if a = CHR 0xE2 \<and> b = CHR 0x84 \<and> c = CHR 0xAA then CHR ''k'' # lowercase s
      else ascii_lower a # lowercase (b # c # s))"
| "lowercase s = map ascii_lower s"

definition parse_payment_mode :: "gateway_env \<Rightarrow> string \<Rightarrow> payment_mode service" where
  "parse_payment_mode env mode =
     (let m = lowercase (trim mode)
      in if m = ''auto'' then Inr AutoMode else if m = ''merkle'' then Inr MerkleMode
         else if m = ''single'' then Inr SingleMode
         else Inl (bad_request_error (''invalid payment_mode '' @ ge_show_debug env m @ ''; use auto, merkle, or single'')))"

definition hex_to_address :: "gateway_env \<Rightarrow> string \<Rightarrow> string service" where
  "hex_to_address env value =
     (case ge_decode_hex env (trim value) of
        Inl e \<Rightarrow> Inl (bad_request_error (''invalid hex address: '' @ e))
      | Inr bytes \<Rightarrow> if length bytes = 32 then Inr bytes else Inl (bad_request_error ''address must be 32 bytes''))"

record data_request =
  dr_data :: string
  dr_payment_mode :: "string option"

definition given_mode :: "string option \<Rightarrow> string" where
  "given_mode mode = (case mode of None \<Rightarrow> ''auto'' | Some m \<Rightarrow> m)"

definition price_key :: "gateway_env \<Rightarrow> string \<Rightarrow> string \<Rightarrow> cost_cache_key" where
  "price_key env data mode = \<lparr>ck_sha256 = ge_sha256 env data, ck_byte_len = length data, ck_payment_mode = mode\<rparr>"

text \<open>
  A price is looked up when the request is read and stored when the answer is there, with the cache as other
  requests left it meanwhile; \<open>quote\<close> is what the temporary file and the network give.
\<close>

definition data_cost_begin ::
  "gateway_env \<Rightarrow> nat \<Rightarrow> data_request \<Rightarrow> 'v price_cache \<Rightarrow> (cost_cache_key \<times> payment_mode \<times> 'v option) service \<times> 'v price_cache"
where
  "data_cost_begin env now req c =
     (case rbind (decode_base64 env (dr_data req)) (\<lambda>data.
             rbind (parse_payment_mode env (given_mode (dr_payment_mode req))) (\<lambda>mode. Inr (data, mode))) of
        Inl e \<Rightarrow> (Inl e, c)
      | Inr (data, mode) \<Rightarrow>
          (let key = price_key env data (to_ascii_lowercase (trim (given_mode (dr_payment_mode req))));
               (found, c') = price_get now key c
           in (Inr (key, mode, found), c')))"

definition data_cost_end :: "nat \<Rightarrow> cost_cache_key \<Rightarrow> string + 'v \<Rightarrow> 'v price_cache \<Rightarrow> 'v service \<times> 'v price_cache" where
  "data_cost_end now key quote c =
     (case quote of
        Inl e \<Rightarrow> (Inl (from_autonomi_message e), c)
      | Inr v \<Rightarrow> (Inr v, price_insert now key v c))"

record gateway_upload =
  gu_approval :: string
  gu_lease_key :: string
  gu_sha256 :: string
  gu_size :: nat
  gu_mode :: payment_mode
  gu_verify :: bool

definition data_put_request :: "gateway_env \<Rightarrow> headers \<Rightarrow> data_request \<Rightarrow> gateway_upload service" where
  "data_put_request env hs req =
     rbind (approval_header hs) (\<lambda>approval.
     rbind (lease_header hs) (\<lambda>lease.
     rbind (decode_base64 env (dr_data req)) (\<lambda>data.
     rbind (parse_payment_mode env (given_mode (dr_payment_mode req))) (\<lambda>mode.
     Inr \<lparr>gu_approval = approval, gu_lease_key = lease, gu_sha256 = ge_sha256 env data, gu_size = length data,
       gu_mode = mode, gu_verify = True\<rparr>))))"

section \<open>Receiving a file\<close>

definition is_ascii_hexdigit :: "char \<Rightarrow> bool" where
  "is_ascii_hexdigit c \<longleftrightarrow> is_ascii_digit c \<or> (65 \<le> byte c \<and> byte c \<le> 70) \<or> (97 \<le> byte c \<and> byte c \<le> 102)"

definition expected_sha256 :: "headers \<Rightarrow> string option service" where
  "expected_sha256 hs =
     (let expected = non_empty (map_option (\<lambda>v. to_ascii_lowercase (trim v)) (header_text ''x-content-sha256'' hs))
      in case expected of
           None \<Rightarrow> Inr None
         | Some v \<Rightarrow>
             if length v \<noteq> 64 \<or> \<not> list_all is_ascii_hexdigit v
             then Inl (bad_request_error ''x-content-sha256 must be a lowercase or uppercase hex SHA-256 digest'')
             else Inr (Some v))"

text \<open>A chunk of the body, or the error of the connection; and what writing it gives.\<close>

fun receive_chunks :: "gateway_env \<Rightarrow> ((string + string) \<times> string option) list \<Rightarrow> string \<Rightarrow> string service" where
  "receive_chunks env [] content = Inr content"
| "receive_chunks env ((chunk, written) # rs) content =
     (case chunk of
        Inl e \<Rightarrow> Inl (bad_request_error (''invalid body: '' @ e))
      | Inr data \<Rightarrow>
          if length content + length data > ge_file_upload_max_bytes env
          then Inl (bad_request_error (''file exceeds ANTD_FILE_UPLOAD_MAX_BYTES ('' @
                 show_nat (ge_file_upload_max_bytes env) @ '')''))
          else (case written of
                  Some e \<Rightarrow> Inl (from_autonomi_message e)
                | None \<Rightarrow> receive_chunks env rs (content @ data)))"

text \<open>The content, its size and digest. An error of the file system is classified by its text.\<close>

record receive_world =
  rv_create :: "string option"
  rv_body :: "((string + string) \<times> string option) list"
  rv_flush :: "string option"

definition io_ok :: "string option \<Rightarrow> unit service" where
  "io_ok outcome = (case outcome of None \<Rightarrow> Inr () | Some e \<Rightarrow> Inl (from_autonomi_message e))"

definition receive_file :: "gateway_env \<Rightarrow> headers \<Rightarrow> receive_world \<Rightarrow> (string \<times> nat \<times> string) service" where
  "receive_file env hs w =
     rbind (expected_sha256 hs) (\<lambda>expected.
     rbind (io_ok (rv_create w)) (\<lambda>_.
     rbind (receive_chunks env (rv_body w) []) (\<lambda>content.
     rbind (io_ok (rv_flush w)) (\<lambda>_.
     if length content < 3 then Inl (bad_request_error ''file too small: self-encryption requires at least 3 bytes'')
     else
       (let computed = ge_sha256 env content
        in if (case expected of None \<Rightarrow> False | Some v \<Rightarrow> v \<noteq> computed)
           then Inl (bad_request_error ''x-content-sha256 did not match request body'')
           else Inr (content, length content, computed))))))"

definition file_put_request ::
  "gateway_env \<Rightarrow> headers \<Rightarrow> string option \<Rightarrow> bool \<Rightarrow> receive_world \<Rightarrow> (string \<times> gateway_upload) service"
where
  "file_put_request env hs payment_mode verify w =
     rbind (parse_payment_mode env (given_mode payment_mode)) (\<lambda>mode.
     rbind (approval_header hs) (\<lambda>approval.
     rbind (lease_header hs) (\<lambda>lease.
     rbind (receive_file env hs w) (\<lambda>(content, byte_size, sha256).
     Inr (content, \<lparr>gu_approval = approval, gu_lease_key = lease, gu_sha256 = sha256, gu_size = byte_size,
       gu_mode = mode, gu_verify = verify\<rparr>)))))"

text \<open>The price of a file is asked each time; \<open>quote\<close> is what the network gives for the content.\<close>

definition gateway_file_cost ::
  "gateway_env \<Rightarrow> headers \<Rightarrow> string option \<Rightarrow> receive_world \<Rightarrow> (string \<Rightarrow> payment_mode \<Rightarrow> string + 'v) \<Rightarrow> 'v service"
where
  "gateway_file_cost env hs payment_mode w quote =
     rbind (parse_payment_mode env (given_mode payment_mode)) (\<lambda>mode.
     rbind (receive_file env hs w) (\<lambda>(content, _, _).
     (case quote content mode of Inl e \<Rightarrow> Inl (from_autonomi_message e) | Inr v \<Rightarrow> Inr v)))"

end
