(* ===== verification/Gateway_Downloads.thy ===== *)
theory Gateway_Downloads
  imports Gateway_Service
begin

text \<open>
  Downloads through the gateway (\<open>crates/antd_service/src/routes/download.rs\<close>, \<open>routes/data.rs\<close>): a public
  address leads to a map of chunks, which may be wrapped in further maps; each is checked before anything is
  fetched or decrypted for it. The network and the encryption library are parameters.
\<close>

section \<open>Maps of chunks\<close>

record chunk_info =
  ci_index :: nat
  ci_dst_hash :: string
  ci_src_hash :: string
  ci_src_size :: nat

record data_map =
  dm_chunk_identifiers :: "chunk_info list"
  dm_child :: "nat option"

definition max_chunk_size :: nat where "max_chunk_size = 4190208"

definition mebibytes :: "nat \<Rightarrow> nat" where "mebibytes n = n * (1024 * 1024)"

fun sum_chunks :: "nat \<Rightarrow> nat \<Rightarrow> chunk_info list \<Rightarrow> nat \<Rightarrow> nat service" where
  "sum_chunks maximum index [] acc = Inr acc"
| "sum_chunks maximum index (info # infos) acc =
     (if ci_index info \<noteq> index \<or> ci_src_size info = 0 \<or> ci_src_size info > max_chunk_size
      then Inl (bad_request_error ''invalid DataMap chunk index or size'')
      else if acc + ci_src_size info < 2 ^ 64 \<and> acc + ci_src_size info \<le> maximum
      then sum_chunks maximum (index + 1) infos (acc + ci_src_size info)
      else Inl (bad_request_error ''download exceeds size limit''))"

definition validate_map :: "data_map \<Rightarrow> nat \<Rightarrow> nat service" where
  "validate_map dm maximum =
     (if length (dm_chunk_identifiers dm) < 3 \<or> length (dm_chunk_identifiers dm) > 65536 \<or>
         (case dm_child dm of None \<Rightarrow> False | Some depth \<Rightarrow> depth > 8 \<or> depth = 0)
      then Inl (bad_request_error ''invalid DataMap depth or chunk count'')
      else sum_chunks maximum 0 (dm_chunk_identifiers dm) 0)"

section \<open>Resolving a map\<close>

text \<open>The network's answer for a chunk may depend on the level and the position it is asked for.\<close>

record node_env =
  nd_gateway :: gateway_env
  nd_data_map_fetch :: "string \<Rightarrow> string + data_map"
  nd_chunk_get :: "nat \<Rightarrow> nat \<Rightarrow> string \<Rightarrow> string + string option"
  nd_content_hash :: "string \<Rightarrow> string"
  nd_decrypt_chunk :: "nat \<Rightarrow> string \<Rightarrow> string list \<Rightarrow> nat \<Rightarrow> string + string"
  nd_map_from_bytes :: "string \<Rightarrow> string + data_map"

definition wrapper_chunk :: "node_env \<Rightarrow> nat \<Rightarrow> string list \<Rightarrow> chunk_info \<Rightarrow> string service" where
  "wrapper_chunk nd depth hashes info =
     (case nd_chunk_get nd depth (ci_index info) (ci_dst_hash info) of
        Inl e \<Rightarrow> Inl (from_autonomi_message e)
      | Inr None \<Rightarrow> Inl (bad_request_error ''missing DataMap wrapper chunk'')
      | Inr (Some content) \<Rightarrow>
          if length content > mebibytes 4 \<or> nd_content_hash nd content \<noteq> ci_dst_hash info
          then Inl (bad_request_error ''invalid DataMap wrapper chunk'')
          else (case nd_decrypt_chunk nd (ci_index info) content hashes depth of
                  Inl e \<Rightarrow> Inl (bad_request_error e)
                | Inr plain \<Rightarrow>
                    if length plain \<noteq> ci_src_size info \<or> nd_content_hash nd plain \<noteq> ci_src_hash info
                    then Inl (bad_request_error ''invalid DataMap wrapper plaintext'')
                    else Inr plain))"

text \<open>Beside the bytes, the number of chunks asked for is counted; the properties speak of it.\<close>

fun wrapper_bytes :: "node_env \<Rightarrow> nat \<Rightarrow> string list \<Rightarrow> chunk_info list \<Rightarrow> string \<Rightarrow> nat \<Rightarrow> string service \<times> nat" where
  "wrapper_bytes nd depth hashes [] bytes asked = (Inr bytes, asked)"
| "wrapper_bytes nd depth hashes (info # infos) bytes asked =
     (case wrapper_chunk nd depth hashes info of
        Inl e \<Rightarrow> (Inl e, asked + 1)
      | Inr plain \<Rightarrow> wrapper_bytes nd depth hashes infos (bytes @ plain) (asked + 1))"

function resolve_map :: "node_env \<Rightarrow> nat \<Rightarrow> data_map \<Rightarrow> nat \<Rightarrow> (data_map \<times> nat) service \<times> nat" where
  "resolve_map nd maximum dm asked =
     (case dm_child dm of
        None \<Rightarrow> (rbind (validate_map dm maximum) (\<lambda>len. Inr (dm, len)), asked)
      | Some depth \<Rightarrow>
          (case validate_map dm (mebibytes 4) of
             Inl e \<Rightarrow> (Inl e, asked)
           | Inr _ \<Rightarrow>
               (case wrapper_bytes nd depth (map ci_src_hash (dm_chunk_identifiers dm))
                       (dm_chunk_identifiers dm) [] asked of
                  (Inl e, asked') \<Rightarrow> (Inl e, asked')
                | (Inr bytes, asked') \<Rightarrow>
                    (case nd_map_from_bytes nd bytes of
                       Inl e \<Rightarrow> (Inl (bad_request_error e), asked')
                     | Inr parent \<Rightarrow>
                         if (case dm_child parent of None \<Rightarrow> False | Some level \<Rightarrow> level \<ge> depth)
                         then (Inl (bad_request_error ''DataMap wrapper depth did not decrease''), asked')
                         else resolve_map nd maximum parent asked'))))"
  by pat_completeness auto

termination
  by (relation "measure (\<lambda>(nd, maximum, dm, asked). case dm_child dm of None \<Rightarrow> 0 | Some depth \<Rightarrow> depth + 1)")
    (auto split: option.splits)

declare resolve_map.simps [simp del]

definition root_map :: "node_env \<Rightarrow> string \<Rightarrow> nat \<Rightarrow> (data_map \<times> nat) service \<times> nat" where
  "root_map nd address maximum =
     (case hex_to_address (nd_gateway nd) address of
        Inl e \<Rightarrow> (Inl e, 0)
      | Inr raw \<Rightarrow>
          (case nd_data_map_fetch nd raw of
             Inl e \<Rightarrow> (Inl (from_autonomi_message e), 0)
           | Inr dm \<Rightarrow> resolve_map nd maximum dm 0))"

section \<open>Downloads\<close>

definition no_download_slot :: service_error where
  "no_download_slot = new_error 503 ''download capacity exhausted''"

text \<open>Small data come whole; \<open>downloaded\<close> is what the network's client gives for the root map.\<close>

definition fetch_public_bytes :: "node_env \<Rightarrow> nat \<Rightarrow> string \<Rightarrow> (data_map \<Rightarrow> string + string) \<Rightarrow> string service" where
  "fetch_public_bytes nd free_slots address downloaded =
     (if free_slots = 0 then Inl no_download_slot
      else rbind (fst (root_map nd address (mebibytes 32))) (\<lambda>(dm, _).
        case downloaded dm of Inl e \<Rightarrow> Inl (from_autonomi_message e) | Inr bytes \<Rightarrow> Inr bytes))"

text \<open>A file is streamed: its length is announced first, and an error follows the chunks unless as much
  arrived. No result is the end of ten minutes.\<close>

record raw_file =
  rx_content_length :: nat
  rx_chunks :: "string list"
  rx_error :: "string option"

definition file_raw ::
  "node_env \<Rightarrow> nat \<Rightarrow> string \<Rightarrow> (data_map \<Rightarrow> string list \<times> (string + nat) option) \<Rightarrow> raw_file service"
where
  "file_raw nd free_slots address downloaded =
     (if free_slots = 0 then Inl no_download_slot
      else rbind (fst (root_map nd address (ge_file_upload_max_bytes (nd_gateway nd)))) (\<lambda>(dm, len).
        let (chunks, result) = downloaded dm
        in Inr \<lparr>rx_content_length = len, rx_chunks = chunks,
             rx_error = (case result of
                 Some (Inr n) \<Rightarrow> if n = len then None else Some ''download deadline or size mismatch''
               | Some (Inl e) \<Rightarrow> Some e
               | None \<Rightarrow> Some ''download deadline or size mismatch'')\<rparr>))"

end
