(* ===== verification/Gateway_Properties.thy ===== *)
theory Gateway_Properties
  imports Gateway_Downloads
begin

text \<open>
  The properties of the gateway's HTTP side: its gate is an access policy with three levels, a price comes
  from the latest insertion and is never older than its lifetime, a file is received whole or not at all, and
  resolving an address asks a bounded number of chunks, however the maps are nested.
\<close>

section \<open>Access levels\<close>

datatype access = Anyone | ReadAccess | WriteAccess

fun access_rank :: "access \<Rightarrow> nat" where
  "access_rank Anyone = 0"
| "access_rank ReadAccess = 1"
| "access_rank WriteAccess = 2"

lemma access_rank_inject: "access_rank a = access_rank b \<Longrightarrow> a = b"
  by (cases a; cases b) simp_all

instantiation access :: linorder
begin

definition less_eq_access :: "access \<Rightarrow> access \<Rightarrow> bool" where
  "less_eq_access a b \<longleftrightarrow> access_rank a \<le> access_rank b"

definition less_access :: "access \<Rightarrow> access \<Rightarrow> bool" where
  "less_access a b \<longleftrightarrow> access_rank a < access_rank b"

instance
  by standard (auto simp: less_eq_access_def less_access_def intro: access_rank_inject)

end

lemmas access_order = less_eq_access_def less_access_def

text \<open>What a handler needs, what the tokens of a request grant, and the routes without the gate. The read
  token serves \<open>GET\<close> only, so a \<open>HEAD\<close> of public data needs the other one.\<close>

fun needs :: "gateway_handler \<Rightarrow> access" where
  "needs GwLivez = Anyone"
| "needs GwHealth = Anyone"
| "needs GwMetrics = Anyone"
| "needs (FileRaw address) = ReadAccess"
| "needs (DataGetPublicRaw address) = ReadAccess"
| "needs (DataGetPublic address) = ReadAccess"
| "needs _ = WriteAccess"

definition needed :: "string \<Rightarrow> gateway_handler \<Rightarrow> access" where
  "needed m h = (if needs h = ReadAccess \<and> m \<noteq> ''GET'' then WriteAccess else needs h)"

definition granted :: "gateway_tokens \<Rightarrow> headers \<Rightarrow> access" where
  "granted t hs =
     (case gt_internal t of
        None \<Rightarrow> WriteAccess
      | Some expected \<Rightarrow>
          if internal_token_authorized hs expected then WriteAccess
          else (case gt_read t of
                  None \<Rightarrow> Anyone
                | Some token \<Rightarrow> if internal_token_authorized hs token then ReadAccess else Anyone))"

definition gateway_routes :: "string \<Rightarrow> (string \<times> gateway_handler) list" where
  "gateway_routes path =
     (if open_routes path \<noteq> [] then open_routes path
      else (case strip_prefix ''/v1/'' path of None \<Rightarrow> [] | Some rest \<Rightarrow> v1_routes (split_on (CHR ''/'') rest)))"

lemma split_on_Cons2D:
  "split_on d s = a # b # parts \<Longrightarrow> \<exists>rest. s = a @ d # rest \<and> split_on d rest = b # parts"
proof (induction s arbitrary: a)
  case (Cons c s)
  show ?case
  proof (cases "c = d")
    case True
    then show ?thesis using Cons.prems by auto
  next
    case False
    obtain x xs where s: "split_on d s = x # xs" using split_on_join [of d s] by (cases "split_on d s") auto
    with False Cons.prems have "a = c # x" "xs = b # parts" by auto
    with Cons.IH [of x] s obtain rest where "s = x @ d # rest" "split_on d rest = b # parts" by auto
    with \<open>a = c # x\<close> show ?thesis by auto
  qed
qed simp

lemma prefix_two_segments:
  assumes "d \<notin> set a" "d \<notin> set b"
  shows "prefix (a @ d # b @ [d]) s \<longleftrightarrow> (\<exists>c parts. split_on d s = a # b # c # parts)"
proof
  assume "prefix (a @ d # b @ [d]) s"
  then obtain rest where s: "s = a @ d # b @ d # rest" by (auto simp: prefix_def)
  obtain c parts where "split_on d rest = c # parts"
    using split_on_join [of d rest] by (cases "split_on d rest") auto
  then show "\<exists>c parts. split_on d s = a # b # c # parts" using assms by (simp add: s split_on_append)
next
  assume "\<exists>c parts. split_on d s = a # b # c # parts"
  then obtain c parts where split: "split_on d s = a # b # c # parts" by blast
  then obtain r where "s = a @ d # r" "split_on d r = b # c # parts" by (blast dest: split_on_Cons2D)
  moreover from this(2) obtain r' where "r = b @ d # r'" by (blast dest: split_on_Cons2D)
  ultimately show "prefix (a @ d # b @ [d]) s" by (simp add: prefix_def)
qed

lemma read_paths:
  assumes "strip_prefix ''/v1/'' path = Some rest"
  shows "prefix ''/v1/data/public/'' path \<or> prefix ''/v1/file/public/'' path \<longleftrightarrow>
    (\<exists>a c parts. split_on (CHR ''/'') rest = a # ''public'' # c # parts \<and> (a = ''data'' \<or> a = ''file''))"
proof -
  from assms have path: "path = ''/v1/'' @ rest"
    by (auto simp: strip_prefix_def prefix_def split: if_splits)
  have "prefix ''/v1/data/public/'' path \<longleftrightarrow> prefix (''data'' @ CHR ''/'' # ''public'' @ [CHR ''/'']) rest"
    "prefix ''/v1/file/public/'' path \<longleftrightarrow> prefix (''file'' @ CHR ''/'' # ''public'' @ [CHR ''/'']) rest"
    by (simp_all add: path)
  moreover have "prefix (''data'' @ CHR ''/'' # ''public'' @ [CHR ''/'']) rest \<longleftrightarrow>
      (\<exists>c parts. split_on (CHR ''/'') rest = ''data'' # ''public'' # c # parts)"
    by (rule prefix_two_segments) simp_all
  moreover have "prefix (''file'' @ CHR ''/'' # ''public'' @ [CHR ''/'']) rest \<longleftrightarrow>
      (\<exists>c parts. split_on (CHR ''/'') rest = ''file'' # ''public'' # c # parts)"
    by (rule prefix_two_segments) simp_all
  ultimately show ?thesis by blast
qed

text \<open>Behind the gate, the reading handlers are those at the reading paths.\<close>

lemma v1_shape:
  "v1_routes segments = [] \<or> (\<exists>a b. segments = [a, b]) \<or> (\<exists>a b x. segments = [a, b, x]) \<or>
    (\<exists>a b x y. segments = [a, b, x, y])"
proof (cases segments)
  case (Cons a s1)
  show ?thesis
  proof (cases s1)
    case s1: (Cons b s2)
    show ?thesis
    proof (cases s2)
      case s2: (Cons x s3)
      show ?thesis
      proof (cases s3)
        case s3: (Cons y s4)
        then show ?thesis using Cons s1 s2 by (cases s4) (simp_all add: v1_routes_def)
      qed (use Cons s1 s2 in simp)
    qed (use Cons s1 in simp)
  qed (use Cons in \<open>simp add: v1_routes_def\<close>)
qed (simp add: v1_routes_def)

lemma segments_cases:
  obtains (two) a b where "segments = [a, b]" | (three) a b x where "segments = [a, b, x]"
    | (four) a b x y where "segments = [a, b, x, y]" | (none) "v1_routes segments = []"
  using v1_shape [of segments] by (elim disjE exE) (rule that(4), assumption, rule that(1), assumption, rule that(2), assumption, rule that(3), assumption)

lemma reading_handlers:
  assumes "(m, h) \<in> set (v1_routes segments)"
  shows "needs h \<noteq> Anyone \<and> (needs h = ReadAccess \<longleftrightarrow>
    (m = ''GET'' \<and> (\<exists>a c parts. segments = a # ''public'' # c # parts \<and> (a = ''data'' \<or> a = ''file''))))"
proof -
  consider (two) a b where "segments = [a, b]" | (three) a b x where "segments = [a, b, x]"
    | (four) a b x y where "segments = [a, b, x, y]" | (none) "v1_routes segments = []"
    by (cases segments rule: segments_cases)
  then show ?thesis
  proof cases
    case two
    with assms show ?thesis by (simp add: v1_routes_def split: if_splits)
  next
    case (three a b x)
    with assms show ?thesis by (simp add: v1_routes_def split: if_splits)
  next
    case (four a b x y)
    with assms show ?thesis by (simp add: v1_routes_def split: if_splits)
  next
    case none
    with assms show ?thesis by simp
  qed
qed

lemma gate_grants:
  "require_internal_token t m path hs = Inr () \<longleftrightarrow>
     (if read_only_request m path then ReadAccess else WriteAccess) \<le> granted t hs"
  by (auto simp: require_internal_token_def granted_def access_order split: option.splits)

lemma open_handlers: "(m, h) \<in> set (open_routes path) \<Longrightarrow> needs h = Anyone"
  by (auto simp: open_routes_def split: if_splits)

lemma pick_methodD: "pick_method m routes = Inr h \<Longrightarrow> (m, h) \<in> set routes \<or> (m = ''HEAD'' \<and> (''GET'', h) \<in> set routes)"
  by (auto simp: pick_method_def dest: map_of_SomeD split: option.splits if_splits)

text \<open>The slots a handler needs: one of four for the two that take a file.\<close>

definition slots_needed :: "gateway_handler \<Rightarrow> nat" where
  "slots_needed h = (if h = FileCost \<or> h = FilePutPublic then 1 else 0)"

text \<open>A request to a loopback listener names it, and comes from no web page or from a configured one.\<close>

definition names_listener :: "native_policy \<Rightarrow> headers \<Rightarrow> bool" where
  "names_listener p hs \<longleftrightarrow> \<not> np_loopback p \<or>
     (\<exists>host. header_text ''host'' hs = Some host \<and>
        to_ascii_lowercase host \<in> {to_ascii_lowercase (np_address p), to_ascii_lowercase (''localhost:'' @ show_nat (np_port p))}) \<and>
     (map_of hs ''origin'' = None \<or> the (map_of hs ''origin'') \<in> set (np_origins p))"

lemma native_allows_iff: "native_allows p hs \<longleftrightarrow> names_listener p hs"
  by (auto simp: native_allows_def names_listener_def eq_ignore_ascii_case_def split: option.splits)

lemma open_slots: "(m, h) \<in> set (open_routes path) \<Longrightarrow> slots_needed h = 0"
  by (auto simp: open_routes_def slots_needed_def split: if_splits)

lemma split_one: "split_on c s = [b] \<Longrightarrow> s = b"
  by (induction s arbitrary: b) (auto split: list.splits if_splits dest: split_on_join)

lemma split_two: "split_on c s = [a, b] \<Longrightarrow> s = a @ c # b"
  using split_on_Cons2D [of c s a b "[]"] split_one by blast

lemma file_slots:
  assumes "strip_prefix ''/v1/'' path = Some rest" "(m, h) \<in> set (v1_routes (split_on (CHR ''/'') rest))"
  shows "slots_needed h = (if file_route path then 1 else 0)"
proof -
  let ?segments = "split_on (CHR ''/'') rest"
  have path: "path = ''/v1/'' @ rest"
    using assms(1) by (auto simp: strip_prefix_def prefix_def split: if_splits)
  consider (two) a b where "?segments = [a, b]" | (three) a b x where "?segments = [a, b, x]"
    | (four) a b x y where "?segments = [a, b, x, y]" | (none) "v1_routes ?segments = []"
    by (cases ?segments rule: segments_cases)
  then show ?thesis
  proof cases
    case (two a b)
    then have "rest = a @ CHR ''/'' # b" by (rule split_two)
    with assms(2) two show ?thesis
      by (auto simp: v1_routes_def slots_needed_def file_route_def path split: if_splits)
  next
    case (three a b x)
    then have "\<not> file_route path" by (auto simp: file_route_def path)
    with assms(2) three show ?thesis by (auto simp: v1_routes_def slots_needed_def split: if_splits)
  next
    case (four a b x y)
    then have "\<not> file_route path" by (auto simp: file_route_def path)
    with assms(2) four show ?thesis by (auto simp: v1_routes_def slots_needed_def split: if_splits)
  next
    case none
    with assms show ?thesis by simp
  qed
qed

lemma gate_policy:
  "gateway_routed t free_slots m path hs = Inr h \<longleftrightarrow>
     pick_method m (gateway_routes path) = Inr h \<and> needed m h \<le> granted t hs \<and> slots_needed h \<le> free_slots"
proof (cases "open_routes path = []")
  case False
  have "needed m h \<le> granted t hs \<and> slots_needed h \<le> free_slots" if "pick_method m (open_routes path) = Inr h"
    using pick_methodD [OF that] open_handlers open_slots by (auto simp: needed_def access_order)
  then show ?thesis using False by (auto simp: gateway_routed_def gateway_routes_def)
next
  case True
  define routes where "routes = gateway_routes path"
  define gated where "gated = rbind (require_internal_token t m path hs) (\<lambda>_. pick_method m routes)"
  have dispatch: "gateway_routed t free_slots m path hs =
      (if routes = [] then Inl (new_error 404 [])
       else if file_route path then limit_file_requests free_slots gated else gated)"
    using True by (simp add: gateway_routed_def gateway_routes_def routes_def gated_def Let_def)
  have "(require_internal_token t m path hs = Inr () \<longleftrightarrow> needed m h \<le> granted t hs) \<and>
      slots_needed h = (if file_route path then 1 else 0)"
    if picked: "pick_method m routes = Inr h"
  proof -
    from picked have "routes \<noteq> []" by (auto simp: pick_method_def)
    then obtain rest where rest: "strip_prefix ''/v1/'' path = Some rest"
        and routes: "routes = v1_routes (split_on (CHR ''/'') rest)"
      using True by (auto simp: routes_def gateway_routes_def split: option.splits)
    have reads: "read_only_request m path \<longleftrightarrow> m = ''GET'' \<and> (\<exists>a c parts.
        split_on (CHR ''/'') rest = a # ''public'' # c # parts \<and> (a = ''data'' \<or> a = ''file''))"
      using read_paths [OF rest] by (simp only: read_only_request_def)
    have "needed m h = (if read_only_request m path then ReadAccess else WriteAccess)"
      using pick_methodD [OF picked]
    proof
      assume "(m, h) \<in> set routes"
      from reading_handlers [OF this [unfolded routes]] show ?thesis
        unfolding needed_def reads by (cases "needs h") auto
    next
      assume head: "m = ''HEAD'' \<and> (''GET'', h) \<in> set routes"
      then have "(''GET'', h) \<in> set routes" by simp
      from reading_handlers [OF this [unfolded routes]] head show ?thesis
        unfolding needed_def reads by (cases "needs h") simp_all
    qed
    moreover have "slots_needed h = (if file_route path then 1 else 0)"
      using pick_methodD [OF picked] file_slots [OF rest] unfolding routes by blast
    ultimately show ?thesis by (simp add: gate_grants)
  qed
  note answers = this
  have "pick_method m routes \<noteq> Inr h" if "routes = []" using that by (simp add: pick_method_def)
  moreover have "gated = Inr h \<longleftrightarrow> require_internal_token t m path hs = Inr () \<and> pick_method m routes = Inr h"
    by (cases "require_internal_token t m path hs") (auto simp: gated_def)
  ultimately show ?thesis using answers unfolding dispatch routes_def [symmetric] limit_file_requests_def by auto
qed

lemma dispatch_policy:
  "gateway_dispatch p t free_slots m path hs = Inr h \<longleftrightarrow>
     names_listener p hs \<and> pick_method m (gateway_routes path) = Inr h \<and> needed m h \<le> granted t hs \<and>
     slots_needed h \<le> free_slots"
  by (auto simp: gateway_dispatch_def enforce_native_request_def native_allows_iff gate_policy)

text \<open>C24. The gateway's gate is an access policy: a request reaches a handler exactly when it names the
  listener (where that is a loopback address; its host, and its origin if it has one), its path and
  method lead to the handler, its tokens grant at least what the handler needs - nothing for the three
  status pages, the read token for a \<open>GET\<close> of public data, the internal token for everything that
  pays, stores or administers and for a \<open>HEAD\<close> behind the gate - and one of the four slots is free if
  the handler takes a file. Without a configured internal token every request is granted everything.\<close>

theorem gate_is_policy:
  "gateway_dispatch p t free_slots m path hs = Inr h \<longleftrightarrow>
     names_listener p hs \<and> pick_method m (gateway_routes path) = Inr h \<and> needed m h \<le> granted t hs \<and>
     slots_needed h \<le> free_slots"
  by (rule dispatch_policy)

section \<open>Prices\<close>

datatype 'v price_op = PriceGet nat cost_cache_key | PriceInsert nat cost_cache_key 'v

fun price_step :: "'v price_op \<Rightarrow> 'v price_cache \<Rightarrow> 'v price_cache" where
  "price_step (PriceGet now key) c = snd (price_get now key c)"
| "price_step (PriceInsert now key v) c = price_insert now key v c"

text \<open>The latest insertion for a key.\<close>

fun latest_price :: "cost_cache_key \<Rightarrow> 'v price_op list \<Rightarrow> (nat \<times> 'v) option" where
  "latest_price key [] = None"
| "latest_price key (PriceInsert now k v # ops) =
     (case latest_price key ops of Some p \<Rightarrow> Some p | None \<Rightarrow> if k = key then Some (now, v) else None)"
| "latest_price key (PriceGet now k # ops) = latest_price key ops"

lemma latest_price_append:
  "latest_price key (xs @ ys) = (case latest_price key ys of Some p \<Rightarrow> Some p | None \<Rightarrow> latest_price key xs)"
  by (induction key xs rule: latest_price.induct) (auto split: option.splits)

definition price_ok :: "'v price_cache \<Rightarrow> bool" where
  "price_ok c \<longleftrightarrow> distinct (map fst (pc_entries c)) \<and> distinct (pc_order c) \<and>
     set (pc_order c) = fst ` set (pc_entries c) \<and> length (pc_entries c) \<le> pc_max_entries c"

lemma keys_filter: "fst ` set (filter (\<lambda>e. fst e \<noteq> k) es) = fst ` set es - {k}"
  by auto

lemma distinct_keys_filter: "distinct (map fst es) \<Longrightarrow> distinct (map fst (filter (\<lambda>e. fst e \<noteq> k) es))"
  by (simp add: distinct_map inj_on_def)

lemma evict_oldest_ok:
  assumes "distinct (map fst entries)" "distinct order" "set order = fst ` set entries"
    "evict_oldest limit order entries = (order', entries')"
  shows "distinct (map fst entries') \<and> distinct order' \<and> set order' = fst ` set entries' \<and>
    length entries' \<le> limit \<and> set entries' \<subseteq> set entries"
  using assms
proof (induction limit order entries rule: evict_oldest.induct)
  case (2 limit k order entries)
  show ?case
  proof (cases "length entries > limit")
    case True
    have "distinct (map fst (filter (\<lambda>e. fst e \<noteq> k) entries))" "set order = fst ` set (filter (\<lambda>e. fst e \<noteq> k) entries)"
      using 2(2-4) by (simp_all only: distinct_keys_filter keys_filter) auto
    with 2(1) [OF True] 2(3,5) True show ?thesis by auto
  next
    case False
    with 2(5) have "order' = k # order" "entries' = entries" by simp_all
    with 2(2-4) False show ?thesis by simp
  qed
next
  case (1 limit entries)
  then show ?case by (cases entries) auto
qed

lemma price_insert_ok: "price_ok c \<Longrightarrow> price_ok (price_insert now key v c)"
  and price_insert_subset: "price_ok c \<Longrightarrow> set (pc_entries (price_insert now key v c)) \<subseteq>
    insert (key, v, now + pc_ttl c) (set (filter (\<lambda>e. fst e \<noteq> key) (pc_entries c)))
      \<or> cache_disabled c \<and> price_insert now key v c = c"
proof -
  assume ok: "price_ok c"
  define order where "order = (if key \<in> fst ` set (pc_entries c) then filter (\<lambda>k. k \<noteq> key) (pc_order c) else pc_order c) @ [key]"
  define entries where "entries = (key, v, now + pc_ttl c) # filter (\<lambda>e. fst e \<noteq> key) (pc_entries c)"
  obtain order' entries' where ev: "evict_oldest (pc_max_entries c) order entries = (order', entries')" by fastforce
  have "distinct (map fst entries)" "distinct order" "set order = fst ` set entries"
    using ok by (auto simp: price_ok_def order_def entries_def distinct_map inj_on_def)
  from evict_oldest_ok [OF this ev] have good: "distinct (map fst entries') \<and> distinct order' \<and>
      set order' = fst ` set entries' \<and> length entries' \<le> pc_max_entries c \<and> set entries' \<subseteq> set entries" .
  have step: "price_insert now key v c = (if cache_disabled c then c else c\<lparr>pc_entries := entries', pc_order := order'\<rparr>)"
    using ev by (simp add: price_insert_def Let_def order_def entries_def)
  show "price_ok (price_insert now key v c)" using ok good by (auto simp: step price_ok_def)
  show "set (pc_entries (price_insert now key v c)) \<subseteq>
    insert (key, v, now + pc_ttl c) (set (filter (\<lambda>e. fst e \<noteq> key) (pc_entries c)))
      \<or> cache_disabled c \<and> price_insert now key v c = c"
    using good by (auto simp: step entries_def)
qed

lemma price_get_ok: "price_ok c \<Longrightarrow> price_ok (snd (price_get now key c))"
  using le_trans [OF length_filter_le, of "pc_entries c" "pc_max_entries c" "\<lambda>e. fst e \<noteq> key"]
  by (auto simp: price_get_def price_ok_def distinct_keys_filter split: option.splits)

interpretation prices: guarded_system price_step price_ok
proof
  fix c :: "'v price_cache" and op
  assume "price_ok c"
  then show "price_ok (price_step op c)" by (cases op) (simp_all add: price_insert_ok price_get_ok)
qed

lemma price_step_config [simp]:
  "pc_ttl (price_step op c) = pc_ttl c" "pc_max_entries (price_step op c) = pc_max_entries c"
  by (cases op; simp add: price_get_def price_insert_def Let_def split: option.splits prod.splits)+

lemma price_run_config [simp]:
  "pc_ttl (run price_step ops c) = pc_ttl c" "pc_max_entries (run price_step ops c) = pc_max_entries c"
  by (induction ops arbitrary: c) simp_all

lemma new_price_ok: "price_ok (new_price_cache ttl max_entries)"
  by (simp add: price_ok_def new_price_cache_def)

lemma disabled_cache_empty:
  assumes "ttl = 0 \<or> max_entries = 0"
  shows "pc_entries (run price_step ops (new_price_cache ttl max_entries)) = []"
proof (induction ops rule: rev_induct)
  case (snoc op ops)
  have "cache_disabled (run price_step ops (new_price_cache ttl max_entries))"
    using assms by (simp add: cache_disabled_def new_price_cache_def)
  with snoc show ?case by (cases op) (simp_all add: price_get_def price_insert_def)
qed (simp add: new_price_cache_def)

lemma held_price_is_latest:
  "(key, v, expires) \<in> set (pc_entries (run price_step ops (new_price_cache ttl max_entries))) \<Longrightarrow>
     \<exists>t. latest_price key ops = Some (t, v) \<and> expires = t + ttl"
proof (induction ops arbitrary: key v expires rule: rev_induct)
  case Nil
  then show ?case by (simp add: new_price_cache_def)
next
  case (snoc op ops)
  define c where "c = run price_step ops (new_price_cache ttl max_entries)"
  have ok: "price_ok c" and ttl: "pc_ttl c = ttl"
    using prices.run_inv [OF new_price_ok] by (simp_all add: c_def new_price_cache_def)
  have held: "(key, v, expires) \<in> set (pc_entries (price_step op c))" using snoc.prems by (simp add: c_def)
  note old = snoc.IH [folded c_def]
  show ?case
  proof (cases op)
    case (PriceGet now k)
    then have "(key, v, expires) \<in> set (pc_entries c)"
      using held by (auto simp: price_get_def split: option.splits if_splits)
    from old [OF this] show ?thesis by (auto simp: PriceGet latest_price_append)
  next
    case (PriceInsert now k w)
    show ?thesis
    proof (cases "cache_disabled c")
      case True
      then have "pc_entries c = []"
        using disabled_cache_empty [of ttl max_entries ops] by (simp add: c_def cache_disabled_def new_price_cache_def)
      then show ?thesis using held True PriceInsert by (simp add: price_insert_def)
    next
      case False
      then have "(key, v, expires) = (k, w, now + ttl) \<or> (key, v, expires) \<in> set (pc_entries c) \<and> key \<noteq> k"
        using price_insert_subset [OF ok, of now k w] held by (auto simp: PriceInsert ttl)
      then show ?thesis using old [of key v expires] by (auto simp: PriceInsert latest_price_append)
    qed
  qed
qed

text \<open>C38. Whatever lookups and insertions the cache of prices serves, in whatever order and with whatever clock, a
  price it gives for a content and a mode is the one that was inserted for them last, at a time less than
  the lifetime ago, and it never holds more prices than its limit, nor two for one key.\<close>

theorem price_is_latest_and_fresh:
  "length (pc_entries (run price_step ops (new_price_cache ttl max_entries))) \<le> max_entries \<and>
   distinct (map fst (pc_entries (run price_step ops (new_price_cache ttl max_entries)))) \<and>
   (case fst (price_get now key (run price_step ops (new_price_cache ttl max_entries))) of
      None \<Rightarrow> True
    | Some v \<Rightarrow> \<exists>t. latest_price key ops = Some (t, v) \<and> now < t + ttl)"
proof -
  define c where "c = run price_step ops (new_price_cache ttl max_entries)"
  have "price_ok c" "pc_max_entries c = max_entries"
    using prices.run_inv [OF new_price_ok] by (simp_all add: c_def new_price_cache_def)
  moreover have "\<exists>t. latest_price key ops = Some (t, v) \<and> now < t + ttl" if "fst (price_get now key c) = Some v" for v
  proof -
    from that obtain expires where "map_of (pc_entries c) key = Some (v, expires)" "now < expires"
      by (auto simp: price_get_def split: if_splits option.splits)
    then show ?thesis using held_price_is_latest [of key v expires ops ttl max_entries]
      by (auto simp: c_def dest: map_of_SomeD)
  qed
  ultimately show ?thesis unfolding c_def [symmetric] by (auto simp: price_ok_def split: option.splits)
qed

section \<open>Downloads\<close>

lemma sum_chunks_Inr:
  "sum_chunks maximum i infos acc = Inr n \<Longrightarrow> n = acc + sum_list (map ci_src_size infos) \<and> (infos \<noteq> [] \<longrightarrow> n \<le> maximum)"
proof (induction maximum i infos acc rule: sum_chunks.induct)
  case (2 maximum i info infos acc)
  then show ?case by (cases infos) (auto split: if_splits)
qed simp

lemma validate_map_Inr:
  "validate_map dm maximum = Inr n \<Longrightarrow>
     3 \<le> length (dm_chunk_identifiers dm) \<and> length (dm_chunk_identifiers dm) \<le> 65536 \<and>
     (case dm_child dm of None \<Rightarrow> True | Some depth \<Rightarrow> 0 < depth \<and> depth \<le> 8) \<and>
     n = sum_list (map ci_src_size (dm_chunk_identifiers dm)) \<and> n \<le> maximum"
  by (auto simp: validate_map_def dest!: sum_chunks_Inr split: if_splits option.splits)

lemma wrapper_bytes_asked: "snd (wrapper_bytes nd depth hashes infos bytes asked) \<le> asked + length infos"
  by (induction nd depth hashes infos bytes asked rule: wrapper_bytes.induct) (auto split: sum.splits)

definition levels :: "data_map \<Rightarrow> nat" where
  "levels dm = (case dm_child dm of None \<Rightarrow> 0 | Some depth \<Rightarrow> min depth 8)"

text \<open>Each level asks for at most 65536 chunks, and the levels decrease.\<close>

lemma resolve_map_asked: "snd (resolve_map nd maximum dm asked) \<le> asked + 65536 * levels dm"
proof (induction nd maximum dm asked rule: resolve_map.induct)
  case (1 nd maximum dm asked)
  show ?case
  proof (cases "dm_child dm")
    case None
    then show ?thesis by (subst resolve_map.simps) simp
  next
    case child: (Some depth)
    show ?thesis
    proof (cases "validate_map dm (mebibytes 4)")
      case (Inl e)
      then show ?thesis by (subst resolve_map.simps) (simp add: child)
    next
      case valid: (Inr n)
      from validate_map_Inr [OF valid] child
      have depth: "0 < depth" "depth \<le> 8" and len: "length (dm_chunk_identifiers dm) \<le> 65536" by simp_all
      obtain r asked' where w: "wrapper_bytes nd depth (map ci_src_hash (dm_chunk_identifiers dm))
          (dm_chunk_identifiers dm) [] asked = (r, asked')" by fastforce
      have asked': "asked' \<le> asked + 65536"
        using wrapper_bytes_asked [of nd depth "map ci_src_hash (dm_chunk_identifiers dm)" "dm_chunk_identifiers dm" "[]" asked]
          len by (simp add: w)
      have levels: "levels dm = depth" using depth by (simp add: levels_def child)
      with depth have stop: "asked' \<le> asked + 65536 * levels dm" using asked' by (cases depth) simp_all
      show ?thesis
      proof (cases r)
        case (Inl e)
        then show ?thesis using stop by (subst resolve_map.simps) (simp add: child valid w)
      next
        case r: (Inr bytes)
        show ?thesis
        proof (cases "nd_map_from_bytes nd bytes")
          case (Inl e)
          then show ?thesis using stop by (subst resolve_map.simps) (simp add: child valid w r)
        next
          case parent: (Inr parent)
          define stuck where "stuck \<longleftrightarrow> (case dm_child parent of None \<Rightarrow> False | Some level \<Rightarrow> level \<ge> depth)"
          have unfold: "resolve_map nd maximum dm asked =
              (if stuck then (Inl (bad_request_error ''DataMap wrapper depth did not decrease''), asked')
               else resolve_map nd maximum parent asked')"
            by (subst resolve_map.simps) (simp add: child valid w r parent stuck_def)
          show ?thesis
          proof (cases stuck)
            case True
            then show ?thesis using stop by (simp add: unfold)
          next
            case False
            then have less: "levels parent + 1 \<le> levels dm"
              unfolding levels using depth by (auto simp: levels_def stuck_def split: option.splits)
            have "snd (resolve_map nd maximum parent asked') \<le> asked' + 65536 * levels parent"
              using "1.IH" [OF child valid w [symmetric] r parent] False by (simp add: stuck_def)
            also have "\<dots> \<le> asked + 65536 * (levels parent + 1)" using asked' by simp
            also have "\<dots> \<le> asked + 65536 * levels dm" using less by (simp only: add_le_cancel_left mult_le_mono2)
            finally show ?thesis using False by (simp add: unfold)
          qed
        qed
      qed
    qed
  qed
qed

lemma resolve_map_result:
  "fst (resolve_map nd maximum dm asked) = Inr (result, len) \<Longrightarrow> dm_child result = None \<and> validate_map result maximum = Inr len"
proof (induction nd maximum dm asked rule: resolve_map.induct)
  case (1 nd maximum dm asked)
  show ?case
  proof (cases "dm_child dm")
    case None
    then show ?thesis using "1.prems" by (subst (asm) resolve_map.simps) auto
  next
    case child: (Some depth)
    with "1.prems" obtain n where valid: "validate_map dm (mebibytes 4) = Inr n"
      by (subst (asm) resolve_map.simps) (cases "validate_map dm (mebibytes 4)"; simp)
    obtain r asked' where w: "wrapper_bytes nd depth (map ci_src_hash (dm_chunk_identifiers dm))
        (dm_chunk_identifiers dm) [] asked = (r, asked')" by fastforce
    from "1.prems" obtain bytes where r: "r = Inr bytes"
      by (subst (asm) resolve_map.simps) (cases r; simp add: child valid w)
    from "1.prems" obtain parent where parent: "nd_map_from_bytes nd bytes = Inr parent"
      by (subst (asm) resolve_map.simps) (cases "nd_map_from_bytes nd bytes"; simp add: child valid w r)
    define stuck where "stuck \<longleftrightarrow> (case dm_child parent of None \<Rightarrow> False | Some level \<Rightarrow> level \<ge> depth)"
    have unfold: "resolve_map nd maximum dm asked =
        (if stuck then (Inl (bad_request_error ''DataMap wrapper depth did not decrease''), asked')
         else resolve_map nd maximum parent asked')"
      by (subst resolve_map.simps) (simp add: child valid w r parent stuck_def)
    with "1.prems" have "\<not> stuck" "fst (resolve_map nd maximum parent asked') = Inr (result, len)"
      by (simp_all split: if_splits)
    then show ?thesis using "1.IH" [OF child valid w [symmetric] r parent] by (simp add: stuck_def)
  qed
qed

text \<open>C26. Resolving a public address ends after asking for at most eight times 65536 chunks, whatever the network
  serves and however its maps are nested; and the map that comes out refers to content and not to another
  map, has between 3 and 65536 chunks, and announces a length that is the sum of its chunks' sizes and
  within the limit of the request.\<close>

theorem downloads_bounded:
  "snd (root_map nd address maximum) \<le> 8 * 65536 \<and>
   (case fst (root_map nd address maximum) of
      Inl e \<Rightarrow> True
    | Inr (dm, len) \<Rightarrow> dm_child dm = None \<and>
        3 \<le> length (dm_chunk_identifiers dm) \<and> length (dm_chunk_identifiers dm) \<le> 65536 \<and>
        len = sum_list (map ci_src_size (dm_chunk_identifiers dm)) \<and> len \<le> maximum)"
proof
  have "snd (resolve_map nd maximum dm 0) \<le> 8 * 65536" for dm
  proof -
    have "levels dm \<le> 8" by (simp add: levels_def split: option.splits)
    then show ?thesis using resolve_map_asked [of nd maximum dm 0] by linarith
  qed
  then show "snd (root_map nd address maximum) \<le> 8 * 65536"
    by (simp add: root_map_def split: sum.splits)
  show "case fst (root_map nd address maximum) of
      Inl e \<Rightarrow> True
    | Inr (dm, len) \<Rightarrow> dm_child dm = None \<and>
        3 \<le> length (dm_chunk_identifiers dm) \<and> length (dm_chunk_identifiers dm) \<le> 65536 \<and>
        len = sum_list (map ci_src_size (dm_chunk_identifiers dm)) \<and> len \<le> maximum"
  proof (cases "fst (root_map nd address maximum)")
    case (Inr r)
    obtain dm len where r: "r = (dm, len)" by fastforce
    with Inr obtain dm' where "fst (resolve_map nd maximum dm' 0) = Inr (dm, len)"
      by (auto simp: root_map_def split: sum.splits)
    from resolve_map_result [OF this] show ?thesis by (auto simp: Inr r dest: validate_map_Inr)
  qed simp
qed

section \<open>Receiving a file\<close>

lemma received_eq [simp]:
  "map (\<lambda>c. (Inr c, None)) xs = map (\<lambda>c. (Inr c, None)) ys \<longleftrightarrow> xs = ys"
  by (rule inj_map_eq_map) (simp add: inj_on_def)

lemma receive_chunks_Inr:
  "receive_chunks env body acc = Inr content \<longleftrightarrow>
     (\<exists>chunks. body = map (\<lambda>c. (Inr c, None)) chunks \<and> content = acc @ concat chunks \<and>
        (body = [] \<or> length content \<le> ge_file_upload_max_bytes env))"
proof (induction env body acc rule: receive_chunks.induct)
  case (2 env chunk written rs acc)
  show ?case
  proof (cases chunk)
    case chunk: (Inr data)
    show ?thesis
    proof (cases written)
      case None
      then show ?thesis
        using 2 [OF chunk _ None] by (cases rs) (auto simp: chunk Cons_eq_map_conv)
    qed (auto simp: chunk Cons_eq_map_conv)
  qed (auto simp: Cons_eq_map_conv)
qed auto

text \<open>C27. A file is received whole or not at all: an answer of success means that the temporary file was created,
  that every chunk of the body arrived and was written, that it was flushed, that the content is these
  chunks in order, at least three bytes and at most the limit, and that it has the digest of the header,
  where there is one.\<close>

theorem received_file_is_whole:
  "receive_file env hs w = Inr (content, byte_size, digest) \<longleftrightarrow>
     rv_create w = None \<and> rv_flush w = None \<and>
     (\<exists>chunks. rv_body w = map (\<lambda>c. (Inr c, None)) chunks \<and> content = concat chunks) \<and>
     3 \<le> length content \<and> length content \<le> ge_file_upload_max_bytes env \<and>
     byte_size = length content \<and> digest = ge_sha256 env content \<and>
     (expected_sha256 hs = Inr None \<or> expected_sha256 hs = Inr (Some digest))"
proof -
  have io: "io_ok r = Inr u \<longleftrightarrow> r = None" for r u by (cases r) (simp_all add: io_ok_def)
  have body: "receive_chunks env (rv_body w) [] = Inr content \<and> 3 \<le> length content \<longleftrightarrow>
      (\<exists>chunks. rv_body w = map (\<lambda>c. (Inr c, None)) chunks \<and> content = concat chunks) \<and>
      3 \<le> length content \<and> length content \<le> ge_file_upload_max_bytes env" for content
    by (auto simp: receive_chunks_Inr)
  have check: "(case expected of None \<Rightarrow> False | Some v \<Rightarrow> v \<noteq> d) \<longleftrightarrow> \<not> (expected = None \<or> expected = Some d)"
    for expected and d :: string
    by (cases expected) auto
  have "receive_file env hs w = Inr (content, byte_size, digest) \<longleftrightarrow>
     (\<exists>expected. expected_sha256 hs = Inr expected \<and> rv_create w = None \<and> rv_flush w = None \<and>
        (receive_chunks env (rv_body w) [] = Inr content \<and> 3 \<le> length content) \<and>
        byte_size = length content \<and> digest = ge_sha256 env content \<and> (expected = None \<or> expected = Some digest))"
    by (auto simp: receive_file_def io check Let_def intro!: exI [of _ content] split: if_splits)
  then show ?thesis unfolding body by blast
qed

end
