(* ===== verification/Catalog_Views.thy ===== *)
theory Catalog_Views
  imports Catalog_Payments Admin_Auth Float_Text
begin

text \<open>
  The file that holds the local catalogs (\<open>crates/rust_admin/src/catalog/state_file.rs\<close>), reading a catalog
  from it or from the network (\<open>catalog/sync.rs\<close>), and what viewers and administrators are shown
  (\<open>catalog/db_document/video_out.rs\<close>, \<open>routes/public.rs\<close>, \<open>routes/admin.rs\<close>). The JSON library, the network
  and the rendering of an instant are parameters; a request finds the file as it is at one instant. A panic
  is \<open>None\<close>.
\<close>

section \<open>JSON\<close>

definition json_put :: "string \<Rightarrow> json \<Rightarrow> (string \<times> json) list \<Rightarrow> (string \<times> json) list" where
  "json_put key value members = filter (\<lambda>m. fst m \<noteq> key) members @ [(key, value)]"

text \<open>\<open>value[key] = x\<close> makes an object of a null and panics on anything else that is no object.\<close>

definition json_index_set :: "string \<Rightarrow> json \<Rightarrow> json \<Rightarrow> json option" where
  "json_index_set key x value =
     (case value of
        JObject members \<Rightarrow> Some (JObject (json_put key x members))
      | JNull \<Rightarrow> Some (JObject [(key, x)])
      | _ \<Rightarrow> None)"

definition is_object :: "json \<Rightarrow> bool" where
  "is_object value = (case value of JObject _ \<Rightarrow> True | _ \<Rightarrow> False)"

definition json_as_bool :: "json \<Rightarrow> bool option" where
  "json_as_bool value = (case value of JBool b \<Rightarrow> Some b | _ \<Rightarrow> None)"

definition opt_string_field :: "json \<Rightarrow> string \<Rightarrow> string option" where
  "opt_string_field value key = Option.bind (json_get key value) json_as_str"

definition string_field :: "json \<Rightarrow> string \<Rightarrow> string" where
  "string_field value key = (case opt_string_field value key of Some s \<Rightarrow> s | None \<Rightarrow> [])"

definition int_field :: "json \<Rightarrow> string \<Rightarrow> int" where
  "int_field value key =
     wrap_signed 32 (case Option.bind (json_get key value) json_as_i64 of Some i \<Rightarrow> i | None \<Rightarrow> 0)"

definition bool_field :: "json \<Rightarrow> string \<Rightarrow> bool \<Rightarrow> bool" where
  "bool_field value key fallback =
     (case Option.bind (json_get key value) json_as_bool of Some b \<Rightarrow> b | None \<Rightarrow> fallback)"

definition array_field :: "json \<Rightarrow> string \<Rightarrow> json list" where
  "array_field value key =
     (case Option.bind (json_get key value) json_as_array of Some xs \<Rightarrow> xs | None \<Rightarrow> [])"

section \<open>The state file\<close>

record catalog_env =
  ce_parse :: "string \<Rightarrow> string + json"
  ce_print :: "json \<Rightarrow> string"
  ce_time :: "int \<Rightarrow> string"
  ce_data_get :: "string \<Rightarrow> string + string"
  ce_bootstrap :: "string option"
  ce_all_bootstrap :: "string option"

text \<open>The file, the one a broken state is moved to, and the one a new state is first written to.\<close>

record state_files =
  sf_file :: "string option"
  sf_broken :: "string option"
  sf_tmp :: "string option"

record read_world =
  rd_readable :: bool
  rd_renames :: bool

definition read_catalog_state_value ::
  "catalog_env \<Rightarrow> read_world \<Rightarrow> state_files \<Rightarrow> json option \<times> state_files"
where
  "read_catalog_state_value env w files =
     (case sf_file files of
        None \<Rightarrow> (None, files)
      | Some raw \<Rightarrow>
          if \<not> rd_readable w \<or> \<not> valid_utf8 raw then (None, files)
          else (case ce_parse env raw of
                  Inr value \<Rightarrow> (Some value, files)
                | Inl e \<Rightarrow> (None, if rd_renames w then files\<lparr>sf_file := None, sf_broken := Some raw\<rparr> else files)))"

definition string_value :: "json \<Rightarrow> string \<Rightarrow> string option" where
  "string_value value key = non_empty (map_option trim (Option.bind (json_get key value) json_as_str))"

definition published_catalog_address_from_state :: "json \<Rightarrow> string option" where
  "published_catalog_address_from_state value =
     (case string_value value ''published_catalog_address'' of
        Some a \<Rightarrow> Some a
      | None \<Rightarrow> string_value value ''catalog_address'')"

definition all_catalog_address_from_state :: "json \<Rightarrow> string option" where
  "all_catalog_address_from_state value = string_value value ''all_catalog_address''"

definition or_given :: "'a option \<Rightarrow> 'a option \<Rightarrow> 'a option" where
  "or_given x y = (case x of None \<Rightarrow> y | Some _ \<Rightarrow> x)"

definition state_catalog_address :: "catalog_env \<Rightarrow> read_world \<Rightarrow> state_files \<Rightarrow> string option \<times> state_files" where
  "state_catalog_address env w files =
     (case read_catalog_state_value env w files of (value, files') \<Rightarrow>
        (or_given (Option.bind value published_catalog_address_from_state) (ce_bootstrap env), files'))"

definition read_all_catalog_address :: "catalog_env \<Rightarrow> read_world \<Rightarrow> state_files \<Rightarrow> string option \<times> state_files" where
  "read_all_catalog_address env w files =
     (case read_catalog_state_value env w files of (value, files') \<Rightarrow>
        (or_given (Option.bind value all_catalog_address_from_state) (ce_all_bootstrap env), files'))"

definition has_videos :: "json \<Rightarrow> bool" where
  "has_videos catalog \<longleftrightarrow> Option.bind (json_get ''videos'' catalog) json_as_array \<noteq> None"

definition normalize_catalog_value :: "json \<Rightarrow> json option" where
  "normalize_catalog_value catalog =
     (if \<not> is_object catalog then None
      else if has_videos catalog then Some catalog else json_index_set ''videos'' (JArray []) catalog)"

definition published_document :: "json \<Rightarrow> json option" where
  "published_document value = or_given (json_get ''published_catalog'' value) (json_get ''catalog'' value)"

definition read_catalog_snapshot ::
  "catalog_env \<Rightarrow> read_world \<Rightarrow> state_files \<Rightarrow> (json \<times> string option) option \<times> state_files"
where
  "read_catalog_snapshot env w files =
     (case read_catalog_state_value env w files of (value, files') \<Rightarrow>
        (Option.bind value (\<lambda>v. Option.bind (published_document v) (\<lambda>catalog.
           map_option (\<lambda>c. (c, or_given (published_catalog_address_from_state v) (ce_bootstrap env)))
             (normalize_catalog_value catalog))), files'))"

definition read_catalog_documents ::
  "catalog_env \<Rightarrow> read_world \<Rightarrow> state_files \<Rightarrow> (json option \<times> json option) \<times> state_files"
where
  "read_catalog_documents env w files =
     (case read_catalog_state_value env w files of
        (None, files') \<Rightarrow> ((None, None), files')
      | (Some value, files') \<Rightarrow>
          ((Option.bind (published_document value) normalize_catalog_value,
            Option.bind (json_get ''all_catalog'' value) normalize_catalog_value), files'))"

definition empty_catalog_kind :: "catalog_env \<Rightarrow> int \<Rightarrow> string \<Rightarrow> json" where
  "empty_catalog_kind env now kind =
     JObject [(''schema_version'', JInt 2), (''content_type'', JString catalog_content_type),
       (''catalog_kind'', JString kind), (''generated_at'', JString (ce_time env now)),
       (''updated_at'', JString (ce_time env now)), (''videos'', JArray [])]"

definition empty_catalog :: "catalog_env \<Rightarrow> int \<Rightarrow> json" where
  "empty_catalog env now = empty_catalog_kind env now ''published''"

text \<open>The outcomes of the three calls of the file system; a failed write may leave part of the new text.\<close>

record write_world =
  ww_create_dir :: "string option"
  ww_write :: "(string \<times> string option) option"
  ww_rename :: "string option"

definition state_payload ::
  "catalog_env \<Rightarrow> int \<Rightarrow> string option \<Rightarrow> string option \<Rightarrow> json option \<Rightarrow> json option \<Rightarrow> bool \<Rightarrow> json"
where
  "state_payload env now published_address all_address published_catalog all_catalog publish_pending =
     (let address = (\<lambda>a. JString (case a of Some s \<Rightarrow> s | None \<Rightarrow> []));
          payload = [(''catalog_address'', address published_address),
            (''published_catalog_address'', address published_address),
            (''all_catalog_address'', address all_address),
            (''updated_at'', JString (ce_time env now)), (''publish_pending'', JBool publish_pending),
            (''note'', JString ''Local catalog snapshots plus the latest network-hosted catalog addresses.'')];
          payload = (case published_catalog of
              Some c \<Rightarrow> json_put ''published_catalog'' c (json_put ''catalog'' c payload) | None \<Rightarrow> payload);
          payload = (case all_catalog of Some c \<Rightarrow> json_put ''all_catalog'' c payload | None \<Rightarrow> payload)
      in JObject payload)"

definition write_catalog_state ::
  "catalog_env \<Rightarrow> int \<Rightarrow> write_world \<Rightarrow> string option \<Rightarrow> string option \<Rightarrow> json option \<Rightarrow> json option \<Rightarrow> bool \<Rightarrow>
    state_files \<Rightarrow> unit api \<times> state_files"
where
  "write_catalog_state env now w published_address all_address published_catalog all_catalog publish_pending files =
     (let text = ce_print env
            (state_payload env now published_address all_address published_catalog all_catalog publish_pending)
      in case ww_create_dir w of
           Some e \<Rightarrow> (Inl (Api 500 (''Could not create catalog state directory: '' @ e)), files)
         | None \<Rightarrow>
             (case ww_write w of
                Some (e, partial) \<Rightarrow> (Inl (Api 500 (''Could not write catalog state: '' @ e)), files\<lparr>sf_tmp := partial\<rparr>)
              | None \<Rightarrow>
                  (case ww_rename w of
                     Some e \<Rightarrow> (Inl (Api 500 (''Could not update catalog state: '' @ e)), files\<lparr>sf_tmp := Some text\<rparr>)
                   | None \<Rightarrow> (Inr (), files\<lparr>sf_file := Some text, sf_tmp := None\<rparr>))))"

section \<open>Documents as JSON\<close>

definition opt_json :: "('a \<Rightarrow> json) \<Rightarrow> 'a option \<Rightarrow> json" where
  "opt_json f x = (case x of None \<Rightarrow> JNull | Some y \<Rightarrow> f y)"

definition f64_json :: "f64 \<Rightarrow> json" where
  "f64_json x = (if is_finite x then JFloat x else JNull)"

definition catalog_variant_json :: "public_catalog_variant \<Rightarrow> json" where
  "catalog_variant_json v =
     JObject [(''resolution'', JString (pv_resolution v)), (''width'', JInt (pv_width v)),
       (''height'', JInt (pv_height v)), (''segment_count'', JInt (pv_segment_count v)),
       (''total_duration'', opt_json f64_json (pv_total_duration v))]"

definition catalog_video_json :: "catalog_env \<Rightarrow> public_catalog_video \<Rightarrow> json" where
  "catalog_video_json env v =
     JObject [(''id'', JString (pc_id v)), (''title'', JString (pc_title v)),
       (''original_filename'', opt_json JString (pc_original_filename v)),
       (''description'', opt_json JString (pc_description v)), (''status'', JString (pc_status v)),
       (''created_at'', JString (ce_time env (pc_created_at v))),
       (''updated_at'', JString (ce_time env (pc_updated_at v))),
       (''manifest_address'', JString (pc_manifest_address v)), (''is_public'', JBool (pc_is_public v)),
       (''show_original_filename'', JBool (pc_show_original_filename v)),
       (''show_manifest_address'', JBool (pc_show_manifest_address v)),
       (''variants'', JArray (map catalog_variant_json (pc_variants v)))]"

definition catalog_json :: "catalog_env \<Rightarrow> public_catalog_document \<Rightarrow> json" where
  "catalog_json env d =
     JObject [(''schema_version'', JInt (pd_schema_version d)), (''content_type'', JString (pd_content_type d)),
       (''catalog_kind'', JString (pd_catalog_kind d)), (''generated_at'', JString (ce_time env (pd_generated_at d))),
       (''updated_at'', JString (ce_time env (pd_updated_at d))),
       (''videos'', JArray (map (catalog_video_json env) (pd_videos d)))]"

text \<open>The committed snapshot becomes the file.\<close>

definition restore_snapshot ::
  "catalog_env \<Rightarrow> int \<Rightarrow> write_world \<Rightarrow> admin_db \<Rightarrow> state_files \<Rightarrow> unit api \<times> state_files"
where
  "restore_snapshot env now w db files =
     (case catalog_snapshot_row db of
        None \<Rightarrow> (Inr (), files)
      | Some s \<Rightarrow> write_catalog_state env now w (sn_published_address s) (sn_all_address s)
          (Some (catalog_json env (sn_published s))) (Some (catalog_json env (sn_all s))) (sn_publish_pending s) files)"

section \<open>Loading\<close>

definition load_json_from_autonomi :: "catalog_env \<Rightarrow> string \<Rightarrow> json api" where
  "load_json_from_autonomi env address =
     (case ce_data_get env address of
        Inl e \<Rightarrow> Inl (Api 502 e)
      | Inr data \<Rightarrow>
          (case ce_parse env data of
             Inl e \<Rightarrow> Inl (Api 502 (''invalid JSON from Autonomi: '' @ e))
           | Inr value \<Rightarrow> Inr value))"

definition load_admin_catalog ::
  "catalog_env \<Rightarrow> int \<Rightarrow> read_world \<Rightarrow> state_files \<Rightarrow> (json \<times> string option) option \<times> state_files"
where
  "load_admin_catalog env now w files =
     (case read_catalog_snapshot env w files of
        (Some snapshot, files') \<Rightarrow> (Some snapshot, files')
      | (None, files') \<Rightarrow>
          (case state_catalog_address env w files' of
             (None, files'') \<Rightarrow> (Some (empty_catalog env now, None), files'')
           | (Some address, files'') \<Rightarrow>
               (case load_json_from_autonomi env address of
                  Inl _ \<Rightarrow> (Some (empty_catalog env now, Some address), files'')
                | Inr catalog \<Rightarrow>
                    (map_option (\<lambda>c. (c, Some address))
                       (if has_videos catalog then Some catalog else json_index_set ''videos'' (JArray []) catalog),
                     files''))))"

definition find_entry :: "string \<Rightarrow> json \<Rightarrow> json option" where
  "find_entry video_id catalog =
     find (\<lambda>entry. opt_string_field entry ''id'' = Some video_id) (array_field catalog ''videos'')"

definition load_video_manifest_by_id ::
  "catalog_env \<Rightarrow> int \<Rightarrow> read_world \<Rightarrow> string \<Rightarrow> state_files \<Rightarrow> (json \<times> string) option api option \<times> state_files"
where
  "load_video_manifest_by_id env now w video_id files =
     (case load_admin_catalog env now w files of
        (None, files') \<Rightarrow> (None, files')
      | (Some (catalog, _), files') \<Rightarrow>
          (Some (case Option.bind (find_entry video_id catalog) (\<lambda>entry. opt_string_field entry ''manifest_address'') of
             None \<Rightarrow> Inr None
           | Some address \<Rightarrow>
               rbind (load_json_from_autonomi env address) (\<lambda>manifest. Inr (Some (manifest, address)))), files'))"

definition ensure_video_manifest_address :: "string \<Rightarrow> admin_db \<Rightarrow> string api" where
  "ensure_video_manifest_address video_id db =
     (case fetch_optional (\<lambda>v. vd_id v = video_id) (videos db) of
        None \<Rightarrow> Inl (Api 404 ''Video not found'')
      | Some v \<Rightarrow>
          (case vd_manifest_address v of
             Some address \<Rightarrow> Inr address
           | None \<Rightarrow> Inl (Api 409 ''This legacy video has no stored manifest. Regenerate and approve its content quote before publication.'')))"

section \<open>What is shown of a video\<close>

record segment_out =
  sgo_segment_index :: int
  sgo_autonomi_address :: "string option"
  sgo_duration :: f64

record video_variant_out =
  vvo_id :: string
  vvo_resolution :: string
  vvo_video_codec :: string
  vvo_segment_container :: string
  vvo_video_bitrate :: int
  vvo_audio_bitrate :: int
  vvo_width :: int
  vvo_height :: int
  vvo_total_duration :: "f64 option"
  vvo_segment_count :: "int option"
  vvo_segments :: "segment_out list"

text \<open>A quote is shown without its plan, and its approval without the list of contents.\<close>

record shown_quote =
  sq_quote :: final_quote
  sq_approval :: "payment_approval option"

record video_out =
  vdo_id :: string
  vdo_title :: string
  vdo_original_filename :: "string option"
  vdo_description :: "string option"
  vdo_status :: string
  vdo_created_at :: string
  vdo_manifest_address :: "string option"
  vdo_catalog_address :: "string option"
  vdo_is_public :: bool
  vdo_show_original_filename :: bool
  vdo_show_manifest_address :: bool
  vdo_upload_original :: bool
  vdo_original_file_address :: "string option"
  vdo_original_file_byte_size :: "int option"
  vdo_publish_when_ready :: bool
  vdo_error_message :: "string option"
  vdo_final_quote :: "shown_quote option"
  vdo_final_quote_created_at :: "string option"
  vdo_approval_expires_at :: "string option"
  vdo_variants :: "video_variant_out list"

definition show_quote :: "final_quote \<Rightarrow> shown_quote" where
  "show_quote q = \<lparr>sq_quote = q\<lparr>fq_plan := None\<rparr>,
     sq_approval = map_option (\<lambda>plan. (up_approval plan)\<lparr>pa_contents := []\<rparr>) (fq_plan q)\<rparr>"

definition segment_view :: "segment_row \<Rightarrow> segment_out" where
  "segment_view s = \<lparr>sgo_segment_index = sr_segment_index s, sgo_autonomi_address = sr_autonomi_address s,
     sgo_duration = sr_duration s\<rparr>"

definition variant_view :: "admin_db \<Rightarrow> bool \<Rightarrow> variant_row \<Rightarrow> video_variant_out" where
  "variant_view db include_segments r =
     \<lparr>vvo_id = vr_id r, vvo_resolution = vr_resolution r, vvo_video_codec = vr_video_codec r,
      vvo_segment_container = vr_segment_container r, vvo_video_bitrate = vr_video_bitrate r,
      vvo_audio_bitrate = vr_audio_bitrate r, vvo_width = vr_width r, vvo_height = vr_height r,
      vvo_total_duration = vr_total_duration r, vvo_segment_count = vr_segment_count r,
      vvo_segments = (if include_segments then map segment_view (segments_of db (vr_id r)) else [])\<rparr>"

definition db_video_to_out ::
  "catalog_env \<Rightarrow> read_world \<Rightarrow> admin_db \<Rightarrow> video_row \<Rightarrow> bool \<Rightarrow> state_files \<Rightarrow> video_out \<times> state_files"
where
  "db_video_to_out env w db v include_segments files =
     (let variants = map (variant_view db include_segments)
            (sort_key (\<lambda>r. - vr_height r) (filter (\<lambda>r. vr_video_id r = vd_id v) (video_variants db)));
          (catalog_address, files') = (case vd_catalog_address v of
             Some a \<Rightarrow> (Some a, files) | None \<Rightarrow> state_catalog_address env w files)
      in (\<lparr>vdo_id = vd_id v, vdo_title = vd_title v, vdo_original_filename = Some (vd_original_filename v),
           vdo_description = vd_description v, vdo_status = vd_status v, vdo_created_at = ce_time env (vd_created_at v),
           vdo_manifest_address = vd_manifest_address v, vdo_catalog_address = catalog_address,
           vdo_is_public = vd_is_public v, vdo_show_original_filename = vd_show_original_filename v,
           vdo_show_manifest_address = vd_show_manifest_address v, vdo_upload_original = vd_upload_original v,
           vdo_original_file_address = vd_original_file_address v,
           vdo_original_file_byte_size = vd_original_file_byte_size v,
           vdo_publish_when_ready = vd_publish_when_ready v, vdo_error_message = vd_error_message v,
           vdo_final_quote = map_option show_quote (vd_final_quote v),
           vdo_final_quote_created_at = map_option (ce_time env) (vd_final_quote_created_at v),
           vdo_approval_expires_at = map_option (ce_time env) (vd_approval_expires_at v),
           vdo_variants = variants\<rparr>, files'))"

definition get_db_video ::
  "catalog_env \<Rightarrow> read_world \<Rightarrow> admin_db \<Rightarrow> string \<Rightarrow> bool \<Rightarrow> state_files \<Rightarrow> video_out api \<times> state_files"
where
  "get_db_video env w db video_id include_segments files =
     (case fetch_optional (\<lambda>v. vd_id v = video_id) (videos db) of
        None \<Rightarrow> (Inl (Api 404 ''Video not found''), files)
      | Some v \<Rightarrow> (case db_video_to_out env w db v include_segments files of (out, files') \<Rightarrow> (Inr out, files')))"

text \<open>The variants of a catalog entry or a manifest, without segments.\<close>

definition json_variant :: "string \<Rightarrow> json \<Rightarrow> video_variant_out" where
  "json_variant video_id variant =
     \<lparr>vvo_id = video_id @ '':'' @ string_field variant ''resolution'',
      vvo_resolution = string_field variant ''resolution'',
      vvo_video_codec = (case opt_string_field variant ''video_codec'' of Some s \<Rightarrow> s | None \<Rightarrow> ''h264''),
      vvo_segment_container = (case opt_string_field variant ''segment_container'' of Some s \<Rightarrow> s | None \<Rightarrow> ''mpegts''),
      vvo_video_bitrate = int_field variant ''video_bitrate'', vvo_audio_bitrate = int_field variant ''audio_bitrate'',
      vvo_width = int_field variant ''width'', vvo_height = int_field variant ''height'',
      vvo_total_duration = Option.bind (json_get ''total_duration'' variant) json_as_f64,
      vvo_segment_count = map_option (wrap_signed 32) (Option.bind (json_get ''segment_count'' variant) json_as_i64),
      vvo_segments = []\<rparr>"

definition status_field :: "json \<Rightarrow> string" where
  "status_field value = (case opt_string_field value ''status'' of Some s \<Rightarrow> s | None \<Rightarrow> ''ready'')"

definition catalog_entry_to_video_out :: "json \<Rightarrow> string option \<Rightarrow> video_out" where
  "catalog_entry_to_video_out entry catalog_address =
     (let show_manifest_address = bool_field entry ''show_manifest_address'' False
      in \<lparr>vdo_id = string_field entry ''id'', vdo_title = string_field entry ''title'',
          vdo_original_filename = None, vdo_description = opt_string_field entry ''description'',
          vdo_status = status_field entry, vdo_created_at = string_field entry ''created_at'',
          vdo_manifest_address = (if show_manifest_address then opt_string_field entry ''manifest_address'' else None),
          vdo_catalog_address = catalog_address, vdo_is_public = bool_field entry ''is_public'' True,
          vdo_show_original_filename = False, vdo_show_manifest_address = show_manifest_address,
          vdo_upload_original = False, vdo_original_file_address = None, vdo_original_file_byte_size = None,
          vdo_publish_when_ready = False, vdo_error_message = None, vdo_final_quote = None,
          vdo_final_quote_created_at = None, vdo_approval_expires_at = None,
          vdo_variants = map (json_variant (string_field entry ''id'')) (array_field entry ''variants'')\<rparr>)"

definition json_segment :: "json \<Rightarrow> segment_out" where
  "json_segment segment =
     \<lparr>sgo_segment_index = int_field segment ''segment_index'',
      sgo_autonomi_address = opt_string_field segment ''autonomi_address'',
      sgo_duration = (case Option.bind (json_get ''duration'' segment) json_as_f64 of Some x \<Rightarrow> x | None \<Rightarrow> Fin 0)\<rparr>"

definition original_object :: "json \<Rightarrow> json option" where
  "original_object manifest =
     (case json_get ''original_file'' manifest of
        Some value \<Rightarrow> if is_object value then Some value else None
      | None \<Rightarrow> None)"

text \<open>\<open>catalog_address\<close> is what \<open>state_catalog_address\<close> gives; only administrators are shown it.\<close>

definition manifest_to_video_out :: "string option \<Rightarrow> json \<Rightarrow> string option \<Rightarrow> bool \<Rightarrow> video_out" where
  "manifest_to_video_out catalog_address manifest manifest_address is_public_view =
     (let show_original_filename = bool_field manifest ''show_original_filename'' False;
          show_manifest_address = bool_field manifest ''show_manifest_address'' False;
          original_file = original_object manifest;
          video_id = string_field manifest ''id''
      in \<lparr>vdo_id = video_id, vdo_title = string_field manifest ''title'',
          vdo_original_filename = (if \<not> is_public_view then opt_string_field manifest ''original_filename'' else None),
          vdo_description = opt_string_field manifest ''description'', vdo_status = status_field manifest,
          vdo_created_at = string_field manifest ''created_at'',
          vdo_manifest_address =
            (if \<not> is_public_view \<or> show_manifest_address
             then or_given manifest_address (opt_string_field manifest ''manifest_address'') else None),
          vdo_catalog_address = (if is_public_view then None else catalog_address),
          vdo_is_public = is_public_view,
          vdo_show_original_filename = (if is_public_view then False else show_original_filename),
          vdo_show_manifest_address = show_manifest_address,
          vdo_upload_original = (original_file \<noteq> None),
          vdo_original_file_address =
            (if is_public_view then None
             else Option.bind original_file (\<lambda>value. opt_string_field value ''autonomi_address'')),
          vdo_original_file_byte_size =
            (if is_public_view then None
             else Option.bind original_file (\<lambda>value. Option.bind (json_get ''byte_size'' value) json_as_i64)),
          vdo_publish_when_ready = False, vdo_error_message = None, vdo_final_quote = None,
          vdo_final_quote_created_at = None, vdo_approval_expires_at = None,
          vdo_variants = map (\<lambda>variant. (json_variant video_id variant)
              \<lparr>vvo_segments := (if is_public_view then [] else map json_segment (array_field variant ''segments''))\<rparr>)
            (array_field manifest ''variants'')\<rparr>)"

definition apply_catalog_visibility :: "json \<Rightarrow> string \<Rightarrow> video_out \<Rightarrow> video_out" where
  "apply_catalog_visibility entry manifest_address video =
     (let show_manifest_address = bool_field entry ''show_manifest_address'' False
      in video\<lparr>vdo_show_original_filename := False, vdo_show_manifest_address := show_manifest_address,
           vdo_original_filename := None,
           vdo_manifest_address := (if show_manifest_address then Some manifest_address else None),
           vdo_original_file_address := None, vdo_original_file_byte_size := None\<rparr>)"

section \<open>Viewers\<close>

definition list_videos ::
  "catalog_env \<Rightarrow> int \<Rightarrow> read_world \<Rightarrow> state_files \<Rightarrow> video_out list option \<times> state_files"
where
  "list_videos env now w files =
     (case load_admin_catalog env now w files of
        (None, files') \<Rightarrow> (None, files')
      | (Some (catalog, catalog_address), files') \<Rightarrow>
          (Some (map (\<lambda>entry. catalog_entry_to_video_out entry catalog_address)
             (filter (\<lambda>entry. status_field entry = ''ready'') (array_field catalog ''videos''))), files'))"

definition get_video ::
  "catalog_env \<Rightarrow> int \<Rightarrow> read_world \<Rightarrow> string \<Rightarrow> state_files \<Rightarrow> video_out api option \<times> state_files"
where
  "get_video env now w video_id files =
     (case load_admin_catalog env now w files of
        (None, files') \<Rightarrow> (None, files')
      | (Some (catalog, _), files') \<Rightarrow>
          (Some (case find_entry video_id catalog of
             None \<Rightarrow> Inl (Api 404 ''Video not found'')
           | Some entry \<Rightarrow>
               (case opt_string_field entry ''manifest_address'' of
                  None \<Rightarrow> Inl (Api 404 ''Video not found'')
                | Some address \<Rightarrow>
                    rbind (load_json_from_autonomi env address) (\<lambda>manifest.
                    Inr (apply_catalog_visibility entry address
                      (manifest_to_video_out None manifest (Some address) True))))), files'))"

text \<open>\<open>video_uuid\<close> is what \<open>Uuid::parse_str\<close> makes of the identifier; a \<open>NULL\<close> finds no row.\<close>

definition video_status ::
  "catalog_env \<Rightarrow> int \<Rightarrow> read_world \<Rightarrow> admin_db \<Rightarrow> string \<Rightarrow> string option \<Rightarrow> state_files \<Rightarrow> json api option \<times> state_files"
where
  "video_status env now w db video_id video_uuid files =
     (case fetch_optional (\<lambda>v. video_uuid = Some (vd_id v)) (videos db) of
        Some v \<Rightarrow>
          (Some (Inr (JObject [(''video_id'', JString video_id), (''status'', JString (vd_status v)),
             (''manifest_address'', opt_json JString (if vd_show_manifest_address v then vd_manifest_address v else None)),
             (''catalog_address'', JNull), (''error_message'', opt_json JString (vd_error_message v))])), files)
      | None \<Rightarrow>
          (case load_video_manifest_by_id env now w video_id files of
             (None, files') \<Rightarrow> (None, files')
           | (Some loaded, files') \<Rightarrow>
               (Some (rbind loaded (\<lambda>found.
                  case found of
                    None \<Rightarrow> Inl (Api 404 ''Video not found'')
                  | Some (manifest, manifest_address) \<Rightarrow>
                      Inr (JObject [(''video_id'', JString video_id), (''status'', JString ''ready''),
                        (''manifest_address'', if bool_field manifest ''show_manifest_address'' False
                           then JString manifest_address else JNull),
                        (''catalog_address'', JNull)]))), files')))"

section \<open>Administrators\<close>

definition get_catalog ::
  "auth_env \<Rightarrow> headers \<Rightarrow> catalog_env \<Rightarrow> int \<Rightarrow> read_world \<Rightarrow> state_files \<Rightarrow> json api option \<times> state_files"
where
  "get_catalog auth hs env now w files =
     (case require_admin auth now hs of
        Inl e \<Rightarrow> (Some (Inl e), files)
      | Inr _ \<Rightarrow>
          (case load_admin_catalog env now w files of
             (None, files') \<Rightarrow> (None, files')
           | (Some (catalog, catalog_address), files') \<Rightarrow>
               (Some (Inr (JObject [(''catalog_address'', opt_json JString catalog_address), (''catalog'', catalog)])), files')))"

fun videos_to_out ::
  "catalog_env \<Rightarrow> read_world \<Rightarrow> admin_db \<Rightarrow> video_row list \<Rightarrow> state_files \<Rightarrow> video_out list \<times> state_files"
where
  "videos_to_out env w db [] files = ([], files)"
| "videos_to_out env w db (v # vs) files =
     (let (out, files') = db_video_to_out env w db v False files;
          (outs, files'') = videos_to_out env w db vs files'
      in (out # outs, files''))"

definition admin_list_videos ::
  "auth_env \<Rightarrow> headers \<Rightarrow> catalog_env \<Rightarrow> int \<Rightarrow> read_world \<Rightarrow> admin_db \<Rightarrow> state_files \<Rightarrow> video_out list api \<times> state_files"
where
  "admin_list_videos auth hs env now w db files =
     (case require_admin auth now hs of
        Inl e \<Rightarrow> (Inl e, files)
      | Inr _ \<Rightarrow>
          (case videos_to_out env w db (sort_key (\<lambda>v. - vd_created_at v) (videos db)) files of
             (outs, files') \<Rightarrow> (Inr outs, files')))"

text \<open>\<open>video_uuid\<close> is what the parser of identifiers gives.\<close>

definition admin_get_video ::
  "auth_env \<Rightarrow> headers \<Rightarrow> catalog_env \<Rightarrow> int \<Rightarrow> read_world \<Rightarrow> admin_db \<Rightarrow> string api \<Rightarrow> state_files \<Rightarrow> video_out api \<times> state_files"
where
  "admin_get_video auth hs env now w db video_uuid files =
     (case rbind (require_admin auth now hs) (\<lambda>_. video_uuid) of
        Inl e \<Rightarrow> (Inl e, files)
      | Inr video_id \<Rightarrow> get_db_video env w db video_id True files)"

record admin_catalogs =
  ac_publication :: "(string \<times> payment_approval \<times> string option) option"
  ac_preparing :: bool
  ac_published_catalog_address :: "string option"
  ac_all_catalog_address :: "string option"
  ac_published_catalog :: "json option"
  ac_all_catalog :: "json option"

definition admin_catalogs_payload ::
  "catalog_env \<Rightarrow> read_world \<Rightarrow> admin_db \<Rightarrow> state_files \<Rightarrow> admin_catalogs \<times> state_files"
where
  "admin_catalogs_payload env w db files =
     (let ((published_catalog, all_catalog), files1) = read_catalog_documents env w files;
          (published_address, files2) = state_catalog_address env w files1;
          (all_address, files3) = read_all_catalog_address env w files2
      in (\<lparr>ac_publication = summary db,
           ac_preparing = exists_where (\<lambda>j. jb_kind j = ''publish_catalog'' \<and> jb_status j \<in> {''queued'', ''running''}) (video_jobs db),
           ac_published_catalog_address = published_address, ac_all_catalog_address = all_address,
           ac_published_catalog = published_catalog, ac_all_catalog = all_catalog\<rparr>, files3))"

definition admin_get_catalogs ::
  "auth_env \<Rightarrow> headers \<Rightarrow> catalog_env \<Rightarrow> int \<Rightarrow> read_world \<Rightarrow> admin_db \<Rightarrow> state_files \<Rightarrow> admin_catalogs api \<times> state_files"
where
  "admin_get_catalogs auth hs env now w db files =
     (case require_admin auth now hs of
        Inl e \<Rightarrow> (Inl e, files)
      | Inr _ \<Rightarrow> (case admin_catalogs_payload env w db files of (payload, files') \<Rightarrow> (Inr payload, files')))"

end
