(* ===== verification/View_Properties.thy ===== *)
theory View_Properties
  imports Catalog_Views "HOL-Library.Multiset"
begin

text \<open>
  The properties of the local catalog file and of what is shown from it: writing and reading agree, a failed
  write changes nothing that is read, the public listing is the public part of the database, and a viewer
  never learns what a video's owner hides.
\<close>

section \<open>The state file\<close>

lemma map_of_json_put [simp]: "map_of (rev (json_put key x ms)) key' = (if key' = key then Some x else map_of (rev ms) key')"
proof -
  have "map_of (filter (\<lambda>m. fst m \<noteq> key) xs) key' = map_of xs key'" if "key' \<noteq> key" for xs :: "(string \<times> json) list"
    using that by (induction xs) auto
  then show ?thesis by (simp add: json_put_def rev_filter)
qed

lemma map_of_init [simp]: "map_of (rev ms @ [(k, x)]) key = (case map_of (rev ms) key of Some y \<Rightarrow> Some y | None \<Rightarrow> if key = k then Some x else None)"
  by (simp add: map_add_def map_of_append split: option.split)

text \<open>The members of a written state.\<close>

lemma payload_members:
  "json_get ''published_catalog_address'' (state_payload env now a b p all_doc pending) = Some (JString (case a of Some s \<Rightarrow> s | None \<Rightarrow> []))"
  "json_get ''catalog_address'' (state_payload env now a b p all_doc pending) = Some (JString (case a of Some s \<Rightarrow> s | None \<Rightarrow> []))"
  "json_get ''all_catalog_address'' (state_payload env now a b p all_doc pending) = Some (JString (case b of Some s \<Rightarrow> s | None \<Rightarrow> []))"
  "json_get ''published_catalog'' (state_payload env now a b p all_doc pending) = p" "json_get ''catalog'' (state_payload env now a b p all_doc pending) = p"
  "json_get ''all_catalog'' (state_payload env now a b p all_doc pending) = all_doc"
  by (cases p; cases all_doc; simp add: state_payload_def Let_def)+

definition given_address :: "string option \<Rightarrow> string option" where
  "given_address a = non_empty (map_option trim a)"

lemma trim_empty: "trim [] = []"
  by code_simp

lemma given_address_text:
  "non_empty (Some (trim (case a of Some s \<Rightarrow> s | None \<Rightarrow> []))) = given_address a"
  by (cases a) (simp_all add: given_address_def trim_empty non_empty_def)

lemma payload_addresses:
  "published_catalog_address_from_state (state_payload env now a b p all_doc pending) = given_address a"
  "all_catalog_address_from_state (state_payload env now a b p all_doc pending) = given_address b"
  by (simp_all add: published_catalog_address_from_state_def all_catalog_address_from_state_def
    string_value_def payload_members given_address_text split: option.split)

lemma payload_document: "published_document (state_payload env now a b p all_doc pending) = p"
  by (cases p) (simp_all add: published_document_def payload_members or_given_def)

text \<open>The text of a state reads back as what was printed.\<close>

definition reads_back :: "catalog_env \<Rightarrow> json \<Rightarrow> bool" where
  "reads_back env payload \<longleftrightarrow> ce_parse env (ce_print env payload) = Inr payload \<and> valid_utf8 (ce_print env payload)"

definition writes_succeed :: "write_world \<Rightarrow> bool" where
  "writes_succeed w \<longleftrightarrow> ww_create_dir w = None \<and> ww_write w = None \<and> ww_rename w = None"

lemma written_file:
  "writes_succeed w \<Longrightarrow> write_catalog_state env now w a b p all_doc pending files =
     (Inr (), files\<lparr>sf_file := Some (ce_print env (state_payload env now a b p all_doc pending)), sf_tmp := None\<rparr>)"
  by (simp add: write_catalog_state_def writes_succeed_def)

lemma read_written:
  "reads_back env payload \<Longrightarrow> rd_readable w \<Longrightarrow> sf_file files = Some (ce_print env payload) \<Longrightarrow>
     read_catalog_state_value env w files = (Some payload, files)"
  by (simp add: read_catalog_state_value_def reads_back_def)

text \<open>C30. Writing the state file and reading it agree: after a successful write the readers give the addresses that
  were written - an empty one stands for the configured one - and the two documents, and reading leaves
  the file alone.\<close>

theorem state_file_round_trip:
  assumes "reads_back env (state_payload env now a b p all_doc pending)" "writes_succeed ww" "rd_readable w"
    and "files' = snd (write_catalog_state env now ww a b p all_doc pending files)"
  shows "state_catalog_address env w files' = (or_given (given_address a) (ce_bootstrap env), files') \<and>
    read_all_catalog_address env w files' = (or_given (given_address b) (ce_all_bootstrap env), files') \<and>
    read_catalog_documents env w files' =
      ((Option.bind p normalize_catalog_value, Option.bind all_doc normalize_catalog_value), files')"
proof -
  have "read_catalog_state_value env w files' = (Some (state_payload env now a b p all_doc pending), files')"
    using assms by (intro read_written) (simp_all add: written_file)
  then show ?thesis
    by (simp add: state_catalog_address_def read_all_catalog_address_def read_catalog_documents_def
      payload_addresses payload_document payload_members)
qed

definition view_demo_write :: write_world where
  "view_demo_write = \<lparr>ww_create_dir = None, ww_write = None, ww_rename = None\<rparr>"

definition demo_read :: read_world where "demo_read = \<lparr>rd_readable = True, rd_renames = True\<rparr>"

definition no_files :: state_files where "no_files = \<lparr>sf_file = None, sf_broken = None, sf_tmp = None\<rparr>"

text \<open>A catalog service whose JSON library knows one document.\<close>

definition view_demo_env :: "json \<Rightarrow> catalog_env" where
  "view_demo_env document = \<lparr>ce_parse = (\<lambda>_. Inr document), ce_print = (\<lambda>_. ''state''), ce_time = (\<lambda>_. ''2024''),
     ce_data_get = (\<lambda>_. Inr ''data''), ce_bootstrap = Some ''boot'', ce_all_bootstrap = None\<rparr>"

lemma demo_reads_back: "reads_back (view_demo_env payload) payload"
  by (simp add: reads_back_def view_demo_env_def ascii_valid)

lemma demo_payload: "state_payload (view_demo_env d) now = state_payload (view_demo_env JNull) now"
  by (simp add: state_payload_def view_demo_env_def fun_eq_iff)

theorem state_file_round_trip_witness:
  "state_catalog_address (view_demo_env (state_payload (view_demo_env JNull) 0 (Some '' net '') None (Some (JObject [])) None True)) demo_read
     \<lparr>sf_file = Some ''state'', sf_broken = None, sf_tmp = None\<rparr> =
   (Some ''net'', \<lparr>sf_file = Some ''state'', sf_broken = None, sf_tmp = None\<rparr>)"
proof -
  let ?p = "state_payload (view_demo_env JNull) 0 (Some '' net '') None (Some (JObject [])) None True"
  have trim: "given_address (Some '' net '') = Some ''net''" by code_simp
  have "snd (write_catalog_state (view_demo_env ?p) 0 view_demo_write (Some '' net '') None (Some (JObject [])) None True no_files) =
      \<lparr>sf_file = Some ''state'', sf_broken = None, sf_tmp = None\<rparr>"
    by (simp add: written_file writes_succeed_def view_demo_write_def no_files_def view_demo_env_def)
  from state_file_round_trip [OF _ _ _ this [symmetric], of demo_read] show ?thesis
    by (simp add: demo_reads_back demo_payload [of ?p] writes_succeed_def view_demo_write_def demo_read_def trim or_given_def)
qed

text \<open>A write that fails, whether at the directory, at the text or at the renaming, leaves the state file as it
  was, so the catalogs that are served are those of the last write that succeeded; and a write that
  succeeds replaces the whole file. The quarantined file is left alone.\<close>

theorem failed_write_keeps_catalog:
  "case write_catalog_state env now w a b p all_doc pending files of
     (r, files') \<Rightarrow> sf_broken files' = sf_broken files \<and>
       sf_file files' = (if is_ok r then Some (ce_print env (state_payload env now a b p all_doc pending)) else sf_file files) \<and>
       (is_ok r \<longleftrightarrow> writes_succeed w)"
  by (auto simp: write_catalog_state_def writes_succeed_def Let_def split: option.split)

section \<open>The public listing\<close>

lemma json_get_video [simp]:
  "opt_string_field (catalog_video_json env v) ''id'' = Some (pc_id v)"
  "opt_string_field (catalog_video_json env v) ''title'' = Some (pc_title v)"
  "opt_string_field (catalog_video_json env v) ''manifest_address'' = Some (pc_manifest_address v)"
  "status_field (catalog_video_json env v) = pc_status v"
  "bool_field (catalog_video_json env v) ''show_manifest_address'' b = pc_show_manifest_address v"
  by (simp_all add: opt_string_field_def status_field_def bool_field_def catalog_video_json_def json_as_bool_def)

lemma catalog_json_videos [simp]:
  "array_field (catalog_json env d) ''videos'' = map (catalog_video_json env) (pd_videos d)"
  "normalize_catalog_value (catalog_json env d) = Some (catalog_json env d)"
  by (simp_all add: array_field_def catalog_json_def normalize_catalog_value_def is_object_def has_videos_def)

definition snapshot_payload :: "catalog_env \<Rightarrow> int \<Rightarrow> catalog_snapshot \<Rightarrow> json" where
  "snapshot_payload env now s = state_payload env now (sn_published_address s) (sn_all_address s)
     (Some (catalog_json env (sn_published s))) (Some (catalog_json env (sn_all s))) (sn_publish_pending s)"

lemma list_restored:
  assumes "catalog_snapshot_row db = Some s" "reads_back env (snapshot_payload env now s)"
    "writes_succeed ww" "rd_readable w"
  shows "fst (list_videos env later w (snd (restore_snapshot env now ww db files))) =
    Some (map (\<lambda>v. catalog_entry_to_video_out (catalog_video_json env v)
        (or_given (given_address (sn_published_address s)) (ce_bootstrap env)))
      (filter (\<lambda>v. pc_status v = ''ready'') (pd_videos (sn_published s))))"
proof -
  define files' where "files' = snd (restore_snapshot env now ww db files)"
  have "files' = files\<lparr>sf_file := Some (ce_print env (snapshot_payload env now s)), sf_tmp := None\<rparr>"
    by (simp add: files'_def restore_snapshot_def assms written_file snapshot_payload_def)
  then have "read_catalog_state_value env w files' = (Some (snapshot_payload env now s), files')"
    using assms by (intro read_written) simp_all
  then have "load_admin_catalog env later w files' = (Some (catalog_json env (sn_published s),
      or_given (given_address (sn_published_address s)) (ce_bootstrap env)), files')"
    by (simp add: load_admin_catalog_def read_catalog_snapshot_def snapshot_payload_def payload_document payload_addresses)
  then show ?thesis by (simp add: list_videos_def files'_def [symmetric] filter_map o_def)
qed

definition public_videos :: "admin_db \<Rightarrow> video_row list" where
  "public_videos db = filter vd_is_public (sort_key catalog_order (filter listed (videos db)))"

definition refreshed :: "int \<Rightarrow> string option \<times> string option \<Rightarrow> admin_db \<Rightarrow> catalog_snapshot" where
  "refreshed now previous db = the (catalog_snapshot_row (refresh_local_catalog_from_db now previous db))"

lemma refreshed_row: "catalog_snapshot_row (refresh_local_catalog_from_db now previous db) = Some (refreshed now previous db)"
  by (simp add: refreshed_def refresh_local_catalog_from_db_def Let_def split: prod.split)

lemma refreshed_videos:
  "pd_videos (sn_published (refreshed now previous db)) = map (listed_entry (video_variants db)) (public_videos db)"
proof -
  have "sn_published (refreshed now previous db) = published_part (build_all_catalog_from_db now db)"
    by (simp add: refreshed_def refresh_local_catalog_from_db_def Let_def split: prod.split)
  moreover have "pc_is_public (listed_entry vs v) = vd_is_public v" for vs v
    by (simp add: listed_entry_def catalog_entry_def)
  ultimately show ?thesis
    by (simp add: published_part_def catalog_videos_eq public_videos_def filter_map o_def)
qed

lemma listing_restored:
  assumes "reads_back env (snapshot_payload env later (refreshed now previous db))" "writes_succeed ww" "rd_readable w"
  shows "map_option (map (\<lambda>v. (vdo_id v, vdo_title v, vdo_manifest_address v)))
      (fst (list_videos env t w (snd (restore_snapshot env later ww (refresh_local_catalog_from_db now previous db) files)))) =
    Some (map (\<lambda>v. (vd_id v, vd_title v, if vd_show_manifest_address v then vd_manifest_address v else None)) (public_videos db))"
proof -
  have "listed v" if "v \<in> set (public_videos db)" for v using that by (auto simp: public_videos_def)
  then have address: "vd_manifest_address v = Some (the (vd_manifest_address v))" if "v \<in> set (public_videos db)" for v
    using that by (auto simp: listed_def)
  have ready: "filter (\<lambda>v. pc_status v = ''ready'') (map (listed_entry vs) xs) = map (listed_entry vs) xs" for vs xs
    by (induction xs) (simp_all add: listed_entry_def catalog_entry_def)
  show ?thesis
    unfolding list_restored [OF refreshed_row assms] refreshed_videos ready
    using address
    by (auto simp: catalog_entry_to_video_out_def string_field_def Let_def listed_entry_def catalog_entry_def)
qed

text \<open>The most recently changed comes first; of two changed at the same time the one that was created
  later, and then the one whose identifier is smaller.\<close>

definition newer_first :: "video_row \<Rightarrow> video_row \<Rightarrow> bool" where
  "newer_first v w \<longleftrightarrow> vd_updated_at w < vd_updated_at v \<or>
     vd_updated_at w = vd_updated_at v \<and>
       (vd_created_at w < vd_created_at v \<or> vd_created_at w = vd_created_at v \<and> vd_id v \<le> vd_id w)"

lemma newer_first_order: "newer_first v w \<longleftrightarrow> catalog_order v \<le> catalog_order w"
  by (auto simp: newer_first_def catalog_order_def less_eq_prod_def)

lemma mset_two: "mset xs = {#x, y#} \<Longrightarrow> xs = [x, y] \<or> xs = [y, x]"
proof -
  assume *: "mset xs = {#x, y#}"
  then have "length xs = 2" by (metis size_mset size_add_mset size_empty numeral_2_eq_2)
  then obtain u v where "xs = [u, v]" by (metis (no_types) Suc_1 length_Suc_conv length_0_conv numeral_2_eq_2)
  with * show ?thesis by (auto simp: add_eq_conv_diff split: if_splits)
qed

lemma public_videos_newer_first: "sorted_wrt newer_first (public_videos db)"
proof -
  have "sorted_wrt newer_first (sort_key catalog_order vs)" for vs
    using sorted_sort_key [of catalog_order vs] unfolding sorted_map
    by (rule sorted_wrt_mono_rel [rotated]) (simp add: newer_first_order)
  then show ?thesis unfolding public_videos_def by (intro sorted_wrt_filter)
qed

lemma mset_public_videos:
  "mset (public_videos db) =
     filter_mset (\<lambda>v. vd_status v = ''ready'' \<and> vd_manifest_address v \<noteq> None \<and> vd_is_public v) (mset (videos db))"
  by (simp add: public_videos_def listed_def is_ready_def filter_filter_mset conj_assoc conj_commute)

text \<open>C28. From the database to the viewer: once the local catalog was rebuilt and its file written, the
  public listing shows exactly the videos that are ready, have a manifest and are public, each once and
  the most recently changed first (of two changed at the same time the one created later), each under its
  title, and the address of its manifest only where the owner shows it.\<close>

theorem public_listing_is_current:
  assumes "reads_back env (snapshot_payload env later (refreshed now previous db))" "writes_succeed ww" "rd_readable w"
  shows "\<exists>rows. sorted_wrt newer_first rows \<and>
    mset rows = filter_mset (\<lambda>v. vd_status v = ''ready'' \<and> vd_manifest_address v \<noteq> None \<and> vd_is_public v) (mset (videos db)) \<and>
    map_option (map (\<lambda>v. (vdo_id v, vdo_title v, vdo_manifest_address v)))
      (fst (list_videos env t w (snd (restore_snapshot env later ww (refresh_local_catalog_from_db now previous db) files)))) =
    Some (map (\<lambda>v. (vd_id v, vd_title v, if vd_show_manifest_address v then vd_manifest_address v else None)) rows)"
  using listing_restored [OF assms] public_videos_newer_first mset_public_videos by blast

text \<open>An example: of two public videos and a private one, all ready, the public ones are listed, the
  one that was changed last first.\<close>

definition view_demo_video :: "string \<Rightarrow> bool \<Rightarrow> int \<Rightarrow> video_row" where
  "view_demo_video video_id is_public updated_at =
     \<lparr>vd_id = video_id, vd_title = ''T'', vd_original_filename = ''f.mp4'', vd_description = None, vd_status = ''ready'',
      vd_manifest_address = Some ''m'', vd_catalog_address = None, vd_all_catalog_address = None, vd_error_message = None,
      vd_job_dir = None, vd_job_source_path = None, vd_requested_resolutions = None, vd_encode_settings = None,
      vd_final_quote = None, vd_final_quote_created_at = None, vd_approval_expires_at = None, vd_is_public = is_public,
      vd_show_original_filename = False, vd_show_manifest_address = False, vd_upload_original = False,
      vd_original_file_address = None, vd_original_file_byte_size = None, vd_original_file_cost = None,
      vd_original_file_payment_mode = None, vd_publish_when_ready = False, vd_created_at = 0, vd_updated_at = updated_at,
      vd_user_id = None, vd_approved_quote_id = None\<rparr>"

definition demo_db :: admin_db where
  "demo_db = empty_db\<lparr>videos := [view_demo_video ''a'' True 1, view_demo_video ''b'' False 2, view_demo_video ''c'' True 3]\<rparr>"

definition demo_snapshot :: catalog_snapshot where
  "demo_snapshot = refreshed 0 (None, None) demo_db"

theorem public_listing_is_current_witness:
  "map_option (map (\<lambda>v. (vdo_id v, vdo_title v, vdo_manifest_address v)))
    (fst (list_videos (view_demo_env (snapshot_payload (view_demo_env JNull) 0 demo_snapshot)) 0 demo_read
     (snd (restore_snapshot (view_demo_env (snapshot_payload (view_demo_env JNull) 0 demo_snapshot)) 0 view_demo_write
        (refresh_local_catalog_from_db 0 (None, None) demo_db) no_files)))) =
   Some [(''c'', ''T'', None), (''a'', ''T'', None)]"
proof -
  let ?env = "view_demo_env (snapshot_payload (view_demo_env JNull) 0 demo_snapshot)"
  have same: "snapshot_payload ?env 0 s = snapshot_payload (view_demo_env JNull) 0 s" for s
    by (simp add: snapshot_payload_def state_payload_def catalog_json_def catalog_video_json_def view_demo_env_def
      cong: map_cong)
  have round: "reads_back ?env (snapshot_payload ?env 0 demo_snapshot)"
    unfolding same by (rule demo_reads_back)
  from public_listing_is_current [OF round [unfolded demo_snapshot_def], of view_demo_write demo_read 0 no_files]
  obtain rows where rows: "sorted_wrt newer_first rows"
      "mset rows = filter_mset (\<lambda>v. vd_status v = ''ready'' \<and> vd_manifest_address v \<noteq> None \<and> vd_is_public v) (mset (videos demo_db))"
    and listing: "map_option (map (\<lambda>v. (vdo_id v, vdo_title v, vdo_manifest_address v)))
      (fst (list_videos ?env 0 demo_read (snd (restore_snapshot ?env 0 view_demo_write
        (refresh_local_catalog_from_db 0 (None, None) demo_db) no_files)))) =
      Some (map (\<lambda>v. (vd_id v, vd_title v, if vd_show_manifest_address v then vd_manifest_address v else None)) rows)"
    unfolding demo_snapshot_def by (auto simp: writes_succeed_def view_demo_write_def demo_read_def)
  let ?a = "view_demo_video ''a'' True 1" and ?c = "view_demo_video ''c'' True 3"
  have "mset rows = {#?a, ?c#}"
    unfolding rows(2) by (simp add: demo_db_def view_demo_video_def empty_db_def)
  then have "rows = [?a, ?c] \<or> rows = [?c, ?a]" by (rule mset_two)
  moreover have "\<not> newer_first ?a ?c" by (simp add: newer_first_def view_demo_video_def)
  ultimately have "rows = [?c, ?a]" using rows(1) by auto
  then show ?thesis using listing by (simp add: view_demo_video_def)
qed

section \<open>What viewers are not shown\<close>

definition hides :: "video_out \<Rightarrow> bool" where
  "hides v \<longleftrightarrow> vdo_original_filename v = None \<and> vdo_original_file_address v = None \<and>
     vdo_original_file_byte_size v = None \<and> vdo_error_message v = None \<and> vdo_final_quote v = None \<and>
     list_all (\<lambda>r. vvo_segments r = []) (vdo_variants v) \<and>
     (vdo_show_manifest_address v \<or> vdo_manifest_address v = None)"

lemma entry_view_hides: "hides (catalog_entry_to_video_out entry address)"
  by (simp add: hides_def catalog_entry_to_video_out_def Let_def list_all_iff json_variant_def)

lemma manifest_view_hides: "hides (apply_catalog_visibility entry address (manifest_to_video_out c manifest a True))"
  by (simp add: hides_def apply_catalog_visibility_def manifest_to_video_out_def Let_def list_all_iff json_variant_def)

text \<open>Nobody who only views is shown, in the list or for one video, the name, address or size of the original
  file, an error, a quote, the addresses of the segments, or the address of a manifest that is not to be
  shown - whatever the state file and the network hold.\<close>

theorem public_views_hide:
  "(case fst (list_videos env now w files) of None \<Rightarrow> True | Some vs \<Rightarrow> list_all hides vs) \<and>
   (case fst (get_video env now w video_id files) of Some (Inr v) \<Rightarrow> hides v | _ \<Rightarrow> True)"
proof
  show "case fst (list_videos env now w files) of None \<Rightarrow> True | Some vs \<Rightarrow> list_all hides vs"
    by (auto simp: list_videos_def list_all_iff entry_view_hides split: option.splits prod.splits)
  show "case fst (get_video env now w video_id files) of Some (Inr v) \<Rightarrow> hides v | _ \<Rightarrow> True"
  proof (cases "fst (get_video env now w video_id files)")
    case (Some r)
    then show ?thesis
      by (cases r) (auto simp: get_video_def manifest_view_hides split: option.splits prod.splits)
  qed simp
qed

text \<open>What a viewer can learn of a manifest: without the name of the original file, the content of its entry, the
  addresses and flags of the manifest itself, and the segments.\<close>

definition redact_variant :: "json \<Rightarrow> json" where
  "redact_variant variant =
     (case variant of JObject ms \<Rightarrow> JObject (filter (\<lambda>m. fst m \<noteq> ''segments'') ms) | _ \<Rightarrow> variant)"

definition redact_value :: "string \<Rightarrow> json \<Rightarrow> json" where
  "redact_value key x =
     (if key = ''original_file'' then (if is_object x then JObject [] else x)
      else if key = ''variants'' then (case x of JArray vs \<Rightarrow> JArray (map redact_variant vs) | _ \<Rightarrow> x) else x)"

definition private_keys :: "string list" where
  "private_keys = [''original_filename'', ''show_original_filename'', ''show_manifest_address'', ''manifest_address'']"

definition redact_manifest :: "json \<Rightarrow> json" where
  "redact_manifest manifest =
     (case manifest of
        JObject ms \<Rightarrow> JObject (map (\<lambda>(k, x). (k, redact_value k x)) (filter (\<lambda>m. fst m \<notin> set private_keys) ms))
      | _ \<Rightarrow> manifest)"

lemma map_of_filter_keys: "P key \<Longrightarrow> map_of (filter (\<lambda>m. P (fst m)) xs) key = map_of xs key"
  by (induction xs) auto

lemma map_of_map_keyed: "map_of (map (\<lambda>(k, x). (k, f k x)) xs) key = map_option (f key) (map_of xs key)"
  by (induction xs) auto

lemma redacted_member:
  assumes "key \<notin> set private_keys"
  shows "json_get key (redact_manifest manifest) = map_option (redact_value key) (json_get key manifest)"
proof (cases manifest)
  case (JObject ms)
  then show ?thesis
    using assms map_of_filter_keys [of "\<lambda>k. k \<notin> set private_keys" key "rev ms"]
    by (simp add: redact_manifest_def rev_map rev_filter map_of_map_keyed)
qed (simp_all add: redact_manifest_def)

lemma redacted_variant_member: "key \<noteq> ''segments'' \<Longrightarrow> json_get key (redact_variant variant) = json_get key variant"
  using map_of_filter_keys [of "\<lambda>k. k \<noteq> ''segments''" key]
  by (cases variant) (simp_all add: redact_variant_def rev_filter)

lemma redacted_variant: "json_variant video_id (redact_variant variant) = json_variant video_id variant"
  by (simp add: json_variant_def string_field_def opt_string_field_def int_field_def redacted_variant_member)

lemma redacted_variants:
  "array_field (redact_manifest manifest) ''variants'' = map redact_variant (array_field manifest ''variants'')"
proof -
  have "json_get ''variants'' (redact_manifest manifest) = map_option (redact_value ''variants'') (json_get ''variants'' manifest)"
    by (rule redacted_member) (simp add: private_keys_def)
  then show ?thesis
    by (cases "json_get ''variants'' manifest"; cases "the (json_get ''variants'' manifest)")
      (simp_all add: array_field_def redact_value_def)
qed

lemma redacted_text:
  "key \<in> {''id'', ''title'', ''description'', ''status'', ''created_at''} \<Longrightarrow>
     opt_string_field (redact_manifest manifest) key = opt_string_field manifest key"
proof -
  assume key: "key \<in> {''id'', ''title'', ''description'', ''status'', ''created_at''}"
  then have "json_get key (redact_manifest manifest) = map_option (redact_value key) (json_get key manifest)"
    by (intro redacted_member) (auto simp: private_keys_def)
  moreover from key have "redact_value key = (\<lambda>x. x)" by (auto simp: redact_value_def fun_eq_iff)
  ultimately show ?thesis by (simp add: opt_string_field_def option.map_ident)
qed

lemma redacted_original: "original_object (redact_manifest manifest) = None \<longleftrightarrow> original_object manifest = None"
proof -
  have "json_get ''original_file'' (redact_manifest manifest) =
      map_option (redact_value ''original_file'') (json_get ''original_file'' manifest)"
    by (rule redacted_member) (simp add: private_keys_def)
  moreover have "is_object (JObject [])" by (simp add: is_object_def)
  ultimately show ?thesis by (auto simp: original_object_def redact_value_def split: option.splits)
qed

text \<open>C29. What a viewer is shown of one video does not depend on the private parts of its manifest: with the name of
  the original file, what its entry holds, the manifest's own address and flags, and every segment cut
  out of the manifest, the answer is the same.\<close>

theorem private_parts_do_not_show:
  "apply_catalog_visibility entry address (manifest_to_video_out c (redact_manifest manifest) (Some address) True) =
   apply_catalog_visibility entry address (manifest_to_video_out c manifest (Some address) True)"
proof -
  have fields: "opt_string_field (redact_manifest manifest) ''id'' = opt_string_field manifest ''id''"
    "opt_string_field (redact_manifest manifest) ''title'' = opt_string_field manifest ''title''"
    "opt_string_field (redact_manifest manifest) ''description'' = opt_string_field manifest ''description''"
    "opt_string_field (redact_manifest manifest) ''status'' = opt_string_field manifest ''status''"
    "opt_string_field (redact_manifest manifest) ''created_at'' = opt_string_field manifest ''created_at''"
    by (simp_all add: redacted_text)
  show ?thesis
    by (simp add: apply_catalog_visibility_def manifest_to_video_out_def Let_def string_field_def status_field_def
      fields redacted_variants redacted_variant redacted_original o_def del: not_None_eq)
qed

section \<open>Two surprises\<close>

text \<open>A catalog from the network that is valid JSON but neither an object nor null makes every route that loads it
  panic, and nothing else does: the check that the state file's catalog is an object is missing there.\<close>

theorem network_catalog_panics:
  "fst (load_admin_catalog env now w files) = None \<longleftrightarrow>
     fst (read_catalog_snapshot env w files) = None \<and>
     (case fst (state_catalog_address env w (snd (read_catalog_snapshot env w files))) of
        None \<Rightarrow> False
      | Some address \<Rightarrow>
          (case load_json_from_autonomi env address of
             Inl _ \<Rightarrow> False
           | Inr catalog \<Rightarrow> \<not> is_object catalog \<and> catalog \<noteq> JNull))"
  by (auto simp: load_admin_catalog_def json_index_set_def is_object_def has_videos_def
    split: prod.splits option.splits sum.splits json.splits)

text \<open>For a video that is not in the database, as after a catalog was restored from the network, the status
  answers with the address of a manifest whose own flag shows it, although the catalog's newer entry hides
  it and the page of the video respects that.\<close>

theorem status_ignores_visibility:
  assumes "fst (load_admin_catalog env now w files) = Some (catalog, a)" "find_entry video_id catalog = Some entry"
    "opt_string_field entry ''manifest_address'' = Some address" "load_json_from_autonomi env address = Inr manifest"
    "bool_field entry ''show_manifest_address'' False = False" "bool_field manifest ''show_manifest_address'' False = True"
    "fetch_optional (\<lambda>v. video_uuid = Some (vd_id v)) (videos db) = None"
  shows "(case fst (get_video env now w video_id files) of Some (Inr v) \<Rightarrow> vdo_manifest_address v = None | _ \<Rightarrow> False) \<and>
    (case fst (video_status env now w db video_id video_uuid files) of
       Some (Inr answer) \<Rightarrow> opt_string_field answer ''manifest_address'' = Some address | _ \<Rightarrow> False)"
proof -
  obtain after where loaded: "load_admin_catalog env now w files = (Some (catalog, a), after)"
    using assms(1) by (cases "load_admin_catalog env now w files") auto
  show ?thesis
    using assms(2-)
    by (simp add: get_video_def video_status_def load_video_manifest_by_id_def loaded apply_catalog_visibility_def
      Let_def opt_string_field_def)
qed

definition hiding_entry :: json where
  "hiding_entry = JObject [(''id'', JString ''v''), (''manifest_address'', JString ''m''), (''show_manifest_address'', JBool False)]"

definition showing_env :: catalog_env where
  "showing_env = \<lparr>ce_parse = (\<lambda>s. if s = ''catalog'' then Inr (JObject [(''videos'', JArray [hiding_entry])])
       else Inr (JObject [(''show_manifest_address'', JBool True)])),
     ce_print = (\<lambda>_. []), ce_time = (\<lambda>_. []),
     ce_data_get = (\<lambda>address. Inr (if address = ''boot'' then ''catalog'' else ''manifest'')),
     ce_bootstrap = Some ''boot'', ce_all_bootstrap = None\<rparr>"

theorem status_ignores_visibility_witness:
  "case fst (video_status showing_env 0 demo_read empty_db ''v'' None no_files) of
     Some (Inr answer) \<Rightarrow> opt_string_field answer ''manifest_address'' = Some ''m'' | _ \<Rightarrow> False"
proof -
  have "fst (load_admin_catalog showing_env 0 demo_read no_files) = Some (JObject [(''videos'', JArray [hiding_entry])], Some ''boot'')"
    by code_simp
  from status_ignores_visibility [OF this, of "''v''" hiding_entry "''m''" "JObject [(''show_manifest_address'', JBool True)]" None empty_db]
  show ?thesis
    by (simp add: find_entry_def array_field_def opt_string_field_def hiding_entry_def bool_field_def json_as_bool_def
      load_json_from_autonomi_def showing_env_def empty_db_def fetch_optional_def)
qed

end
