(* ===== verification/Media_Encoding.thy ===== *)
theory Media_Encoding
  imports Admin_Tables Float_Text
begin

text \<open>
  Encoding choices of the admin service (\<open>crates/rust_admin/src/media/encoding.rs\<close>): presets, checked
  settings, the dimensions and bitrates a source is encoded to, size estimates and upload limits. An
  \<open>i32\<close> or \<open>i64\<close> is an integer, wrapped where its type wraps.
\<close>

section \<open>Presets and settings\<close>

definition min_video_bitrate_kbps :: int where "min_video_bitrate_kbps = 64"
definition max_video_bitrate_kbps :: int where "max_video_bitrate_kbps = 200000"
definition min_audio_bitrate_kbps :: int where "min_audio_bitrate_kbps = 32"
definition max_audio_bitrate_kbps :: int where "max_audio_bitrate_kbps = 1024"

definition supported_resolutions :: "string list" where
  "supported_resolutions =
     [''8k'', ''4k'', ''1440p'', ''1080p'', ''720p'', ''540p'', ''480p'', ''360p'', ''240p'', ''144p'']"

text \<open>Width, height, video and audio bitrate of a resolution.\<close>

definition presets :: "(string \<times> int \<times> int \<times> int \<times> int) list" where
  "presets =
     [(''8k'', 7680, 4320, 80000, 320), (''4k'', 3840, 2160, 45000, 320), (''1440p'', 2560, 1440, 24000, 320),
      (''1080p'', 1920, 1080, 12000, 256), (''720p'', 1280, 720, 7500, 192), (''540p'', 960, 540, 4500, 160),
      (''480p'', 854, 480, 3000, 160), (''360p'', 640, 360, 1500, 128), (''240p'', 426, 240, 800, 96),
      (''144p'', 256, 144, 350, 64)]"

definition resolution_preset :: "string \<Rightarrow> (int \<times> int \<times> int \<times> int) option" where
  "resolution_preset resolution = map_of presets resolution"

definition supported_resolutions_error :: string where
  "supported_resolutions_error =
     ''No valid resolutions. Choose from: ['' @
     concat (map2 (\<lambda>i r. (if i = 0 then [] else '', '') @ [CHR 0x27] @ r @ [CHR 0x27])
       [0..<length supported_resolutions] supported_resolutions) @ '']''"

definition max_video_bitrate_override_kbps :: "string \<Rightarrow> int" where
  "max_video_bitrate_override_kbps resolution =
     (case resolution_preset resolution of
        None \<Rightarrow> max_video_bitrate_kbps
      | Some (_, _, video_kbps, _) \<Rightarrow> min (video_kbps * 4) max_video_bitrate_kbps)"

definition default_video_bitrate_for_codec :: "int \<Rightarrow> video_codec \<Rightarrow> int" where
  "default_video_bitrate_for_codec base codec =
     (case codec of
        H264 \<Rightarrow> base
      | Hevc \<Rightarrow> max (let v = wrap_signed 32 (base * 7) in sgn v * (\<bar>v\<bar> div 10)) min_video_bitrate_kbps)"

definition bad_request :: "string \<Rightarrow> api_error" where "bad_request detail = Api 400 detail"

definition quoted :: "string \<Rightarrow> string" where "quoted s = [CHR 0x27] @ s @ [CHR 0x27]"

text \<open>The overrides are checked one by one, in the order of the map.\<close>

definition validate_override :: "string list \<Rightarrow> string \<times> int \<Rightarrow> unit api" where
  "validate_override selected ov =
     (let (resolution, video_kbps) = ov; limit = max_video_bitrate_override_kbps resolution
      in if resolution \<notin> set selected
         then Inl (bad_request (''video bitrate override references unselected resolution '' @ quoted resolution))
         else if resolution_preset resolution = None
         then Inl (bad_request (''video bitrate override references unsupported resolution '' @ quoted resolution @
                     ''. '' @ supported_resolutions_error))
         else if \<not> (min_video_bitrate_kbps \<le> video_kbps \<and> video_kbps \<le> limit)
         then Inl (bad_request (''video bitrate for '' @ resolution @ '' must be between '' @
                     show_int min_video_bitrate_kbps @ '' and '' @ show_int limit @ '' kbps''))
         else Inr ())"

fun each_ok :: "('a \<Rightarrow> 'e + unit) \<Rightarrow> 'a list \<Rightarrow> 'e + unit" where
  "each_ok f [] = Inr ()"
| "each_ok f (x # xs) = rbind (f x) (\<lambda>_. each_ok f xs)"

definition validate_encode_settings :: "encode_settings \<Rightarrow> string list \<Rightarrow> unit api" where
  "validate_encode_settings settings selected =
     rbind (case es_audio_bitrate_kbps settings of
              None \<Rightarrow> Inr ()
            | Some kbps \<Rightarrow>
                if min_audio_bitrate_kbps \<le> kbps \<and> kbps \<le> max_audio_bitrate_kbps then Inr ()
                else Inl (bad_request (''audio_bitrate_kbps must be between '' @ show_int min_audio_bitrate_kbps @
                            '' and '' @ show_int max_audio_bitrate_kbps))) (\<lambda>_.
     each_ok (validate_override selected) (es_video_bitrate_overrides settings))"

section \<open>Dimensions and bitrates\<close>

definition even_floor :: "f64 \<Rightarrow> int" where
  "even_floor value =
     (let floored = as_i32 (f64_max (f64_floor value) (Fin 2)); even = floored - floored mod 2 in max even 2)"

definition fit_within_source :: "int \<Rightarrow> int \<Rightarrow> int \<Rightarrow> int \<Rightarrow> int \<times> int" where
  "fit_within_source width height source_width source_height =
     (if width \<le> source_width \<and> height \<le> source_height then (width, height)
      else
        (let scale = f64_min (f64_min (f64_div (f64_of_int source_width) (f64_of_int width))
               (f64_div (f64_of_int source_height) (f64_of_int height))) (Fin 1)
         in (even_floor (f64_mul (f64_of_int width) scale), even_floor (f64_mul (f64_of_int height) scale))))"

definition target_dimensions_for_source :: "int \<Rightarrow> int \<Rightarrow> (int \<times> int) option \<Rightarrow> int \<times> int" where
  "target_dimensions_for_source preset_width preset_height source =
     (let short_edge = min preset_width preset_height
      in case source of
           None \<Rightarrow> (preset_width, preset_height)
         | Some (source_width, source_height) \<Rightarrow>
             if source_height > source_width then
               fit_within_source short_edge
                 (even_floor (f64_div (f64_mul (f64_of_int short_edge) (f64_of_int source_height)) (f64_of_int source_width)))
                 source_width source_height
             else if source_width > source_height then
               fit_within_source
                 (even_floor (f64_div (f64_mul (f64_of_int short_edge) (f64_of_int source_width)) (f64_of_int source_height)))
                 short_edge source_width source_height
             else fit_within_source short_edge short_edge source_width source_height)"

definition target_video_bitrate_kbps :: "int \<Rightarrow> int \<Rightarrow> int \<Rightarrow> int \<Rightarrow> int \<Rightarrow> int" where
  "target_video_bitrate_kbps base preset_width preset_height width height =
     (let base_pixels = preset_width * preset_height
      in if base_pixels \<le> 0 then base
         else
           (let target_pixels = width * height;
                scaled = f64_round (f64_div (f64_mul (f64_of_int base) (f64_of_int target_pixels)) (f64_of_int base_pixels))
            in even_floor (f64_max scaled (Fin 64))))"

definition estimate_transcoded_bytes :: "f64 \<Rightarrow> int \<Rightarrow> int \<Rightarrow> f64 \<Rightarrow> int" where
  "estimate_transcoded_bytes seconds video_kbps audio_kbps overhead =
     (if f64_le seconds (Fin 0) then 0
      else
        (let bitrate_bps = f64_mul (f64_of_int (wrap_signed 32 (video_kbps + audio_kbps))) (Fin 1000);
             media_bytes = f64_div (f64_mul seconds bitrate_bps) (Fin 8)
         in as_i64 (f64_max (f64_ceil (f64_mul media_bytes overhead)) (Fin 1))))"

text \<open>The bitrate an encoding starts from: the override, or the default of the codec.\<close>

definition base_video_kbps :: "encode_settings \<Rightarrow> string \<Rightarrow> int \<Rightarrow> int" where
  "base_video_kbps settings resolution preset_kbps =
     (case map_of (es_video_bitrate_overrides settings) resolution of
        Some kbps \<Rightarrow> kbps
      | None \<Rightarrow> default_video_bitrate_for_codec preset_kbps (es_video_codec settings))"

section \<open>Limits\<close>

record media_limits =
  ml_max_duration_seconds :: f64
  ml_max_source_pixels :: int
  ml_max_source_long_edge :: int

definition enforce_upload_media_limits :: "media_limits \<Rightarrow> f64 \<Rightarrow> int \<Rightarrow> int \<Rightarrow> unit api" where
  "enforce_upload_media_limits ml duration_seconds width height =
     (if f64_lt (ml_max_duration_seconds ml) duration_seconds
      then Inl (Api 413 ''Video duration exceeds upload limit'')
      else if max width height > ml_max_source_long_edge ml \<or> width * height > ml_max_source_pixels ml
      then Inl (Api 413 ''Video resolution exceeds upload limit'')
      else Inr ())"

end
