(* ===== verification/Media_Tools.thy ===== *)
theory Media_Tools
  imports Media_Encoding
begin

text \<open>
  Running the media tools (\<open>crates/rust_admin/src/media/\<close>: \<open>probe.rs\<close>, \<open>transcode.rs\<close>, \<open>paths.rs\<close>,
  \<open>segments.rs\<close>): paths kept in the workspace, captured output, probes and their JSON, FFmpeg's arguments,
  one rendition and all of them. What a tool does, what a directory holds and what a path resolves to are
  data. A panic is \<open>None\<close>.
\<close>

section \<open>Paths\<close>

type_synonym path = "string list"

datatype canonical = Resolved path | Missing string | Unreadable string

definition internal :: "string \<Rightarrow> api_error" where "internal detail = Api 500 detail"

definition show_path :: "path \<Rightarrow> string" where
  "show_path p = (if p = [] then ''/'' else concat (map (\<lambda>c. CHR ''/'' # c) p))"

definition assert_under :: "(path \<Rightarrow> canonical) \<Rightarrow> path \<Rightarrow> path \<Rightarrow> path api" where
  "assert_under canonicalize path workspace =
     rbind (case canonicalize workspace of
              Resolved r \<Rightarrow> Inr r
            | Missing e \<Rightarrow> Inl (internal (''Could not inspect upload temp directory: '' @ e))
            | Unreadable e \<Rightarrow> Inl (internal (''Could not inspect upload temp directory: '' @ e))) (\<lambda>root'.
     rbind (case canonicalize path of
              Resolved t \<Rightarrow> Inr t
            | Missing _ \<Rightarrow>
                if path = [] then Inl (internal ''Media path has no parent directory'')
                else (case canonicalize (butlast path) of
                        Resolved parent \<Rightarrow>
                          if last path = ''..'' then Inl (internal ''Media path has no file name'')
                          else Inr (parent @ [last path])
                      | Missing e \<Rightarrow> Inl (internal (''Could not inspect media path parent: '' @ e))
                      | Unreadable e \<Rightarrow> Inl (internal (''Could not inspect media path parent: '' @ e)))
            | Unreadable e \<Rightarrow> Inl (internal (''Could not inspect media path: '' @ e))) (\<lambda>target.
     if \<not> prefix root' target then Inl (internal ''Media path is outside the configured upload workspace'')
     else Inr target))"

section \<open>Running a tool\<close>

record command_output =
  co_status_code :: "int option"
  co_stdout :: string
  co_stderr :: string

text \<open>A run of a tool: it may not start, overrun its time, fail to be read, or end with a status (none
  for a signal) after the chunks read from its two pipes.\<close>

datatype tool_run =
    NotStarted string
  | Overran
  | Broken string
  | Ended "int option" "string list" "string list"

text \<open>The first chunk that is empty is the end of the pipe; a chunk has at most 8192 bytes.\<close>

fun capture_output :: "bool \<Rightarrow> string list \<Rightarrow> string \<Rightarrow> string + string" where
  "capture_output tail [] result = Inr result"
| "capture_output tail (chunk # chunks) result =
     (let limit = (if tail then 64 * 1024 else 1024 * 1024); n = length chunk
      in if n = 0 then Inr result
         else if length result + n > limit then
           if \<not> tail then Inl ''media output exceeds limit''
           else capture_output tail chunks (drop (length result + n - limit) result @ chunk)
         else capture_output tail chunks (result @ chunk))"

definition run_command_output :: "tool_run \<Rightarrow> command_output api" where
  "run_command_output tool =
     (case tool of
        NotStarted e \<Rightarrow> Inl (internal (''Could not start media tool: '' @ e))
      | Overran \<Rightarrow> Inl (bad_request ''Media tool exceeded the configured runtime limit'')
      | Broken e \<Rightarrow> Inl (internal (''Media tool failed: '' @ e))
      | Ended status out err \<Rightarrow>
          (case (capture_output False out [], capture_output True err []) of
             (Inr stdout, Inr stderr) \<Rightarrow> Inr \<lparr>co_status_code = status, co_stdout = stdout, co_stderr = stderr\<rparr>
           | (Inl e, _) \<Rightarrow> Inl (internal (''Media tool failed: '' @ e))
           | (_, Inl e) \<Rightarrow> Inl (internal (''Media tool failed: '' @ e))))"

text \<open>The last bytes of what a tool wrote to its error pipe: a slice of a text, which panics inside of a
  character.\<close>

definition stderr_tail :: "string \<Rightarrow> nat \<Rightarrow> string option" where
  "stderr_tail stderr limit =
     (let text = from_utf8_lossy stderr; start = length text - limit in map_option trim (slice_from text start))"

section \<open>Probes\<close>

definition input_options :: "string list" where
  "input_options =
     [''-protocol_whitelist'', ''file,pipe'', ''-format_whitelist'',
      ''mov,matroska,webm,avi,mpegts,mpegvideo,flv,ogg,asf'']"

definition probe_upload_args :: "path \<Rightarrow> string list" where
  "probe_upload_args src =
     input_options @ [''-v'', ''error'', ''-show_streams'', ''-show_format'', ''-of'', ''json'', show_path src]"

definition probe_duration_args :: "path \<Rightarrow> string list" where
  "probe_duration_args src =
     input_options @ [''-v'', ''quiet'', ''-show_entries'', ''format=duration'', ''-of'',
       ''default=noprint_wrappers=1:nokey=1'', show_path src]"

definition probe_dimensions_args :: "path \<Rightarrow> string list" where
  "probe_dimensions_args src =
     input_options @ [''-v'', ''quiet'', ''-select_streams'', ''v:0'', ''-show_streams'', ''-of'', ''json'', show_path src]"

definition value_to_i32 :: "json \<Rightarrow> int option" where
  "value_to_i32 value =
     (case json_as_i64 value of
        Some i \<Rightarrow> Some (wrap_signed 32 i)
      | None \<Rightarrow>
          (case json_as_f64 value of
             Some x \<Rightarrow> Some (as_i32 x)
           | None \<Rightarrow> map_option as_i32 (Option.bind (json_as_str value) parse_f64)))"

definition find_map :: "('a \<Rightarrow> 'b option) \<Rightarrow> 'a list \<Rightarrow> 'b option" where
  "find_map f xs = (case List.map_filter f xs of [] \<Rightarrow> None | y # _ \<Rightarrow> Some y)"

definition stream_rotation_degrees :: "json \<Rightarrow> int" where
  "stream_rotation_degrees stream =
     (let tagged = Option.bind (Option.bind (json_get ''tags'' stream) (json_get ''rotate'')) value_to_i32;
          listed = Option.bind (Option.bind (json_get ''side_data_list'' stream) json_as_array)
            (find_map (\<lambda>item. Option.bind (json_get ''rotation'' item) value_to_i32));
          rotation = (case tagged of Some r \<Rightarrow> r | None \<Rightarrow> (case listed of Some r \<Rightarrow> r | None \<Rightarrow> 0))
      in rotation mod 360)"

definition rotated :: "json \<Rightarrow> int \<times> int \<Rightarrow> int \<times> int" where
  "rotated stream d =
     (if stream_rotation_degrees stream = 90 \<or> stream_rotation_degrees stream = 270 then (snd d, fst d) else d)"

definition filter_option :: "('a \<Rightarrow> bool) \<Rightarrow> 'a option \<Rightarrow> 'a option" where
  "filter_option P x = Option.bind x (\<lambda>a. if P a then Some a else None)"

definition parse_probe_duration :: "json \<Rightarrow> json \<Rightarrow> f64 option" where
  "parse_probe_duration data stream =
     find_map (\<lambda>source.
       filter_option positive_f64
         (Option.bind (json_get ''duration'' source) (\<lambda>value.
            case json_as_f64 value of Some x \<Rightarrow> Some x | None \<Rightarrow> Option.bind (json_as_str value) parse_f64)))
       [stream, (case json_get ''format'' data of Some f \<Rightarrow> f | None \<Rightarrow> JNull)]"

record upload_media_metadata =
  um_duration_seconds :: f64
  um_dimensions :: "int \<times> int"

record media_env =
  me_canonicalize :: "path \<Rightarrow> canonical"
  me_upload_temp_dir :: path
  me_parse_json :: "string \<Rightarrow> json option"
  me_limits :: media_limits
  me_ffmpeg_threads :: nat
  me_ffmpeg_filter_threads :: nat
  me_hls_segment_duration :: f64

definition under :: "media_env \<Rightarrow> path \<Rightarrow> path api" where
  "under env p = assert_under (me_canonicalize env) p (me_upload_temp_dir env)"

definition stream_side :: "json \<Rightarrow> string \<Rightarrow> int option" where
  "stream_side stream name = map_option (wrap_signed 32) (Option.bind (json_get name stream) json_as_i64)"

definition ok_or_bad :: "'a option \<Rightarrow> string \<Rightarrow> 'a api" where
  "ok_or_bad x detail = (case x of None \<Rightarrow> Inl (bad_request detail) | Some y \<Rightarrow> Inr y)"

definition read_metadata :: "media_limits \<Rightarrow> json option \<Rightarrow> upload_media_metadata api" where
  "read_metadata limits parsed =
     rbind (ok_or_bad parsed ''Uploaded file probe returned invalid metadata'') (\<lambda>data.
     rbind (ok_or_bad (Option.bind (Option.bind (json_get ''streams'' data) json_as_array)
              (find (\<lambda>stream. Option.bind (json_get ''codec_type'' stream) json_as_str = Some ''video'')))
            ''Uploaded file does not contain a video stream'') (\<lambda>stream.
     rbind (ok_or_bad (stream_side stream ''width'') ''Uploaded video stream has no usable dimensions'') (\<lambda>width.
     rbind (ok_or_bad (stream_side stream ''height'') ''Uploaded video stream has no usable dimensions'') (\<lambda>height.
     if width \<le> 0 \<or> height \<le> 0 then Inl (bad_request ''Uploaded video stream has invalid dimensions'')
     else
       (let dimensions = rotated stream (width, height)
        in rbind (ok_or_bad (parse_probe_duration data stream) ''Uploaded video has no usable duration'') (\<lambda>duration.
           rbind (enforce_upload_media_limits limits duration (fst dimensions) (snd dimensions)) (\<lambda>_.
           Inr \<lparr>um_duration_seconds = duration, um_dimensions = dimensions\<rparr>)))))))"

definition probe_upload_media :: "media_env \<Rightarrow> path \<Rightarrow> tool_run \<Rightarrow> upload_media_metadata api option" where
  "probe_upload_media env src tool =
     (case rbind (under env src) (\<lambda>_. run_command_output tool) of
        Inl e \<Rightarrow> Some (Inl e)
      | Inr output \<Rightarrow>
          if co_status_code output \<noteq> Some 0 then
            map_option (\<lambda>detail. Inl (bad_request
                (if detail = [] then ''Uploaded file is not a readable video''
                 else ''Uploaded file is not a readable video: '' @ detail)))
              (stderr_tail (co_stderr output) 500)
          else Some (read_metadata (me_limits env) (me_parse_json env (co_stdout output))))"

definition probe_duration :: "media_env \<Rightarrow> path \<Rightarrow> tool_run \<Rightarrow> f64 option api" where
  "probe_duration env src tool =
     rbind (under env src) (\<lambda>_.
     rbind (run_command_output tool) (\<lambda>output.
     if co_status_code output \<noteq> Some 0 then Inr None
     else Inr (filter_option positive_f64 (parse_f64 (trim (from_utf8_lossy (co_stdout output)))))))"

definition probe_video_dimensions :: "media_env \<Rightarrow> path \<Rightarrow> tool_run \<Rightarrow> (int \<times> int) option api" where
  "probe_video_dimensions env src tool =
     rbind (under env src) (\<lambda>_.
     rbind (run_command_output tool) (\<lambda>output.
     if co_status_code output \<noteq> Some 0 then Inr None
     else
       (case me_parse_json env (co_stdout output) of
          None \<Rightarrow> Inr None
        | Some data \<Rightarrow>
            (case Option.bind (json_get ''streams'' data) json_as_array of
               Some (stream # _) \<Rightarrow>
                 (case (stream_side stream ''width'', stream_side stream ''height'') of
                    (Some width, Some height) \<Rightarrow> Inr (Some (rotated stream (width, height)))
                  | _ \<Rightarrow> Inr None)
             | _ \<Rightarrow> Inr None))))"

section \<open>Segments\<close>

text \<open>\<open>Path::file_stem\<close> and \<open>Path::extension\<close>: the name before and after its last dot, if it does not
  start the name.\<close>

definition split_name :: "string \<Rightarrow> string \<times> string option" where
  "split_name name =
     (let after = rev (takeWhile (\<lambda>c. c \<noteq> CHR ''.'') (rev name));
          before = take (length name - length after - 1) name
      in if name = ''..'' \<or> CHR ''.'' \<notin> set name \<or> before = [] then (name, None) else (before, Some after))"

definition segment_index_from_path :: "string \<Rightarrow> int option" where
  "segment_index_from_path name =
     Option.bind (strip_prefix ''seg_'' (fst (split_name name))) (parse_signed 32)"

definition collect_segment_files :: "string + string list \<Rightarrow> string list api" where
  "collect_segment_files listing =
     (case listing of
        Inl e \<Rightarrow> Inl (internal e)
      | Inr names \<Rightarrow>
          Inr (sort_key (\<lambda>n. case segment_index_from_path n of Some i \<Rightarrow> i | None \<Rightarrow> 2 ^ 31 - 1)
            (filter (\<lambda>n. snd (split_name n) = Some ''ts'' \<and> prefix ''seg_'' (fst (split_name n))) names)))"

section \<open>Encoding a rendition\<close>

record ffmpeg_options =
  fo_src :: path
  fo_segment_pattern :: path
  fo_filter_threads :: nat
  fo_ffmpeg_threads :: nat
  fo_hls_segment_duration :: f64
  fo_video_codec :: video_codec
  fo_width :: int
  fo_height :: int
  fo_video_kbps :: int
  fo_audio_kbps :: int

text \<open>A whole number without a fraction; otherwise six digits with the trailing zeros dropped.\<close>

definition drop_zeros :: "string \<Rightarrow> string" where
  "drop_zeros s = (if CHR ''.'' \<in> set s then rev (dropWhile (\<lambda>c. c = CHR ''0'') (rev s)) else s)"

definition f64_display :: "f64 \<Rightarrow> string" where
  "f64_display x =
     (case x of
        Fin q \<Rightarrow>
          if \<bar>q - of_int (if 0 \<le> q then \<lfloor>q\<rfloor> else \<lceil>q\<rceil>)\<bar> < 2 powi (- 52) then show_int (as_i64 x)
          else drop_zeros (format_fixed 6 x)
      | _ \<Rightarrow> format_fixed 6 x)"

definition kbps :: "int \<Rightarrow> string" where "kbps n = show_int n @ ''k''"

definition codec_args :: "video_codec \<Rightarrow> nat \<Rightarrow> string list" where
  "codec_args codec threads =
     (case codec of
        H264 \<Rightarrow> [''-c:v'', ''libx264'', ''-threads'', show_nat threads, ''-preset'', ''veryfast'', ''-profile:v'', ''high'',
          ''-pix_fmt'', ''yuv420p'']
      | Hevc \<Rightarrow> [''-c:v'', ''libx265'', ''-threads'', show_nat threads, ''-preset'', ''medium'', ''-tag:v'', ''hvc1'',
          ''-pix_fmt'', ''yuv420p'', ''-x265-params'', ''log-level=error''])"

definition trunc_half :: "int \<Rightarrow> int" where "trunc_half i = sgn i * (\<bar>i\<bar> div 2)"

definition ffmpeg_transcode_args :: "ffmpeg_options \<Rightarrow> string list" where
  "ffmpeg_transcode_args fo =
     (let segment_time = f64_display (fo_hls_segment_duration fo);
          w = show_int (fo_width fo); h = show_int (fo_height fo); v = fo_video_kbps fo
      in input_options @
         [''-hide_banner'', ''-nostats'', ''-loglevel'', ''warning'', ''-y'', ''-filter_threads'',
          show_nat (fo_filter_threads fo), ''-i'', show_path (fo_src fo), ''-map'', ''0:v:0'', ''-map'', ''0:a?'', ''-sn''] @
         codec_args (fo_video_codec fo) (fo_ffmpeg_threads fo) @
         [''-vf'', ''scale='' @ w @ '':'' @ h @ '':force_original_aspect_ratio=decrease,pad='' @ w @ '':'' @ h @
            '':(ow-iw)/2:(oh-ih)/2'',
          ''-b:v'', kbps v, ''-maxrate'', kbps (trunc_half (wrap_signed 32 (v * 3))), ''-bufsize'', kbps (wrap_signed 32 (v * 2)),
          ''-force_key_frames'', ''expr:gte(t,n_forced*'' @ segment_time @ '')'', ''-sc_threshold'', ''0'',
          ''-c:a'', ''aac'', ''-b:a'', kbps (fo_audio_kbps fo), ''-ar'', ''44100'', ''-f'', ''segment'',
          ''-segment_time'', segment_time, ''-segment_time_delta'', ''0.05'', ''-segment_format'', ''mpegts'',
          ''-reset_timestamps'', ''0'', show_path (fo_segment_pattern fo)])"

record rendition_target =
  rt_video_codec :: video_codec
  rt_width :: int
  rt_height :: int
  rt_video_kbps :: int
  rt_audio_kbps :: int

definition show_status :: "int option \<Rightarrow> string" where
  "show_status status = (case status of None \<Rightarrow> ''None'' | Some n \<Rightarrow> ''Some('' @ show_int n @ '')'')"

text \<open>What FFmpeg is asked, and what its run gives.\<close>

definition ffmpeg_command :: "media_env \<Rightarrow> path \<Rightarrow> path \<Rightarrow> rendition_target \<Rightarrow> string list api" where
  "ffmpeg_command env src seg_dir target =
     rbind (under env src) (\<lambda>src'. rbind (under env seg_dir) (\<lambda>seg_dir'.
     rbind (under env (seg_dir' @ [''seg_%05d.ts''])) (\<lambda>segment_pattern.
     Inr (ffmpeg_transcode_args
       \<lparr>fo_src = src', fo_segment_pattern = segment_pattern, fo_filter_threads = me_ffmpeg_filter_threads env,
        fo_ffmpeg_threads = me_ffmpeg_threads env, fo_hls_segment_duration = me_hls_segment_duration env,
        fo_video_codec = rt_video_codec target, fo_width = rt_width target, fo_height = rt_height target,
        fo_video_kbps = rt_video_kbps target, fo_audio_kbps = rt_audio_kbps target\<rparr>))))"

definition run_ffmpeg :: "media_env \<Rightarrow> path \<Rightarrow> path \<Rightarrow> rendition_target \<Rightarrow> tool_run \<Rightarrow> unit api option" where
  "run_ffmpeg env src seg_dir target tool =
     (case rbind (ffmpeg_command env src seg_dir target) (\<lambda>_. run_command_output tool) of
        Inl e \<Rightarrow> Some (Inl e)
      | Inr output \<Rightarrow>
          if co_status_code output = Some 0 then Some (Inr ())
          else map_option (\<lambda>tail.
            (let detail = (if co_status_code output = Some 137
                then ''FFmpeg was killed, which usually means the container ran out of memory while transcoding. FFMPEG_THREADS='' @
                  show_nat (me_ffmpeg_threads env) @ '', FFMPEG_FILTER_THREADS='' @ show_nat (me_ffmpeg_filter_threads env) @
                  ''. '' @ tail
                else tail)
             in Inl (internal (''FFmpeg failed with exit code '' @ show_status (co_status_code output) @ '': '' @ detail))))
            (stderr_tail (co_stderr output) 2000))"

record transcoded_segment =
  ts_segment_index :: int
  ts_duration :: f64
  ts_byte_size :: int
  ts_local_path :: path

record transcoded_rendition =
  tr_order :: nat
  tr_resolution :: string
  tr_width :: int
  tr_height :: int
  tr_video_kbps :: int
  tr_audio_kbps :: int
  tr_video_codec :: video_codec
  tr_segment_container :: string
  tr_segments :: "transcoded_segment list"

text \<open>What happens outside while one rendition is made: the directory, FFmpeg, the listing, and for each
  file its probe and its size.\<close>

record rendition_world =
  rw_create_dir :: "string option"
  rw_ffmpeg :: tool_run
  rw_listing :: "string + string list"
  rw_probe :: "string \<Rightarrow> tool_run"
  rw_size :: "string \<Rightarrow> nat option"

definition rendition_target_of :: "encode_settings \<Rightarrow> string \<Rightarrow> (int \<times> int) option \<Rightarrow> rendition_target api" where
  "rendition_target_of settings resolution source =
     (case resolution_preset resolution of
        None \<Rightarrow> Inl (bad_request supported_resolutions_error)
      | Some (pw, ph, video, audio) \<Rightarrow>
          (let (w, h) = target_dimensions_for_source pw ph source
           in Inr \<lparr>rt_video_codec = es_video_codec settings, rt_width = w, rt_height = h,
                rt_video_kbps = target_video_bitrate_kbps (base_video_kbps settings resolution video) pw ph w h,
                rt_audio_kbps = (case es_audio_bitrate_kbps settings of Some k \<Rightarrow> k | None \<Rightarrow> audio)\<rparr>))"

definition min_antd_self_encryption_bytes :: nat where "min_antd_self_encryption_bytes = 3"

fun measure_segments :: "media_env \<Rightarrow> rendition_world \<Rightarrow> path \<Rightarrow> nat \<Rightarrow> string list \<Rightarrow> transcoded_segment list api" where
  "measure_segments env rw seg_dir idx [] = Inr []"
| "measure_segments env rw seg_dir idx (name # names) =
     rbind (probe_duration env (seg_dir @ [name]) (rw_probe rw name)) (\<lambda>probed.
     (let duration = (case probed of Some d \<Rightarrow> d | None \<Rightarrow> me_hls_segment_duration env);
          byte_size = (case rw_size rw name of Some n \<Rightarrow> n | None \<Rightarrow> 0)
      in if byte_size < min_antd_self_encryption_bytes
         then Inl (internal (''FFmpeg produced a segment too small for Autonomi storage: '' @
                show_path (seg_dir @ [name]) @ '' ('' @ show_nat byte_size @ '' bytes)''))
         else rbind (measure_segments env rw seg_dir (idx + 1) names) (\<lambda>rest.
           Inr (\<lparr>ts_segment_index = wrap_signed 32 (int idx), ts_duration = duration,
                ts_byte_size = wrap_signed 64 (int byte_size), ts_local_path = seg_dir @ [name]\<rparr> # rest))))"

definition transcode_one_rendition ::
  "media_env \<Rightarrow> path \<Rightarrow> path \<Rightarrow> nat \<Rightarrow> string \<Rightarrow> (int \<times> int) option \<Rightarrow> encode_settings \<Rightarrow> rendition_world \<Rightarrow>
     transcoded_rendition api option"
where
  "transcode_one_rendition env source_path job_dir order resolution source settings rw =
     (case rendition_target_of settings resolution source of
        Inl e \<Rightarrow> Some (Inl e)
      | Inr target \<Rightarrow>
          (let seg_dir = job_dir @ [resolution]
           in case rw_create_dir rw of
                Some e \<Rightarrow> Some (Inl (Api 507 (''Could not create segment directory: '' @ e)))
              | None \<Rightarrow>
                  map_option (\<lambda>ran.
                    rbind ran (\<lambda>_.
                    rbind (collect_segment_files (rw_listing rw)) (\<lambda>names.
                    if names = [] then Inl (internal (''FFmpeg produced no segments for '' @ resolution))
                    else rbind (measure_segments env rw seg_dir 0 names) (\<lambda>segs.
                      Inr \<lparr>tr_order = order, tr_resolution = resolution, tr_width = rt_width target, tr_height = rt_height target,
                        tr_video_kbps = rt_video_kbps target, tr_audio_kbps = rt_audio_kbps target,
                        tr_video_codec = rt_video_codec target, tr_segment_container = ''mpegts'', tr_segments = segs\<rparr>))))
                    (run_ffmpeg env source_path seg_dir target (rw_ffmpeg rw))))"

section \<open>All renditions\<close>

text \<open>The renditions run as tasks and are joined as they end; the first error stops the rest. A task may
  also be cancelled.\<close>

datatype completion = Finished "transcoded_rendition api" | Cancelled string

definition scheduled_renditions :: "string list \<Rightarrow> (nat \<times> string) list" where
  "scheduled_renditions resolutions = filter (\<lambda>(_, r). resolution_preset r \<noteq> None) (enumerate 0 resolutions)"

fun join_renditions :: "completion list \<Rightarrow> transcoded_rendition list api" where
  "join_renditions [] = Inr []"
| "join_renditions (Finished (Inr r) # cs) = rbind (join_renditions cs) (\<lambda>rs. Inr (r # rs))"
| "join_renditions (Finished (Inl e) # cs) = Inl e"
| "join_renditions (Cancelled e # cs) = Inl (internal (''Transcode task failed: '' @ e))"

definition transcode_renditions :: "string list \<Rightarrow> completion list \<Rightarrow> transcoded_rendition list api" where
  "transcode_renditions resolutions completions =
     (if scheduled_renditions resolutions = [] then Inl (bad_request supported_resolutions_error)
      else rbind (join_renditions completions) (\<lambda>rs. Inr (sort_key tr_order rs)))"

end
