(* ===== verification/Upload_Intake.thy ===== *)
theory Upload_Intake
  imports Media_Tools Admin_Auth Video_Publication "HOL-Library.AList"
begin

text \<open>
  Taking in an upload (\<open>crates/rust_admin/src/upload.rs\<close>): the name a file is stored under, the fields of
  the form, the file written chunk by chunk under a size limit and a reserve of disk space, and the row
  that is inserted. What the connection and the disk do is data; a panic is \<open>None\<close>.
\<close>

section \<open>File names\<close>

text \<open>\<open>Path::file_name\<close>: the last component, unless there is none or it is the parent.\<close>

definition file_name :: "string \<Rightarrow> string option" where
  "file_name p =
     (let parts = filter (\<lambda>c. c \<noteq> [] \<and> c \<noteq> ''.'') (split_on (CHR ''/'') p)
      in if parts = [] \<or> last parts = ''..'' then None else Some (last parts))"

definition safe_mark :: "char \<Rightarrow> bool" where
  "safe_mark c \<longleftrightarrow> c = CHR ''.'' \<or> c = CHR ''_'' \<or> c = CHR ''-''"

text \<open>A character of several bytes is one character.\<close>

definition safe_char :: "string option \<Rightarrow> char" where
  "safe_char ch =
     (case ch of
        Some [c] \<Rightarrow> if is_ascii_alphanumeric c \<or> safe_mark c then c else CHR ''_''
      | _ \<Rightarrow> CHR ''_'')"

definition trim_marks :: "string \<Rightarrow> string" where
  "trim_marks s = rev (dropWhile safe_mark (rev (dropWhile safe_mark s)))"

definition sanitize_upload_filename :: "string option \<Rightarrow> string" where
  "sanitize_upload_filename filename =
     (let basename = (case Option.bind filename file_name of Some n \<Rightarrow> n | None \<Rightarrow> ''upload'');
          (raw_stem, ext) = split_name basename;
          raw_suffix = (case ext of Some e \<Rightarrow> e | None \<Rightarrow> []);
          trimmed = trim_marks (map safe_char (utf8_chars raw_stem));
          safe_stem = (if trimmed = [] then ''upload'' else trimmed);
          kept = to_ascii_lowercase (take 15 (filter is_ascii_alphanumeric raw_suffix));
          safe_suffix = (if kept = [] then [] else CHR ''.'' # kept);
          max_stem_length = max (128 - length safe_suffix) 1
      in take max_stem_length safe_stem @ safe_suffix)"

section \<open>Sizes\<close>

definition size_units :: "string list" where
  "size_units = [''B'', ''KiB'', ''MiB'', ''GiB'', ''TiB'']"

fun format_bytes_from :: "nat \<Rightarrow> f64 \<Rightarrow> string list \<Rightarrow> string" where
  "format_bytes_from byte_count value [] = show_nat byte_count @ '' B''"
| "format_bytes_from byte_count value (unit # units) =
     (if f64_lt value (Fin 1024) \<or> unit = ''TiB''
      then if unit = ''B'' then show_nat byte_count @ '' B'' else format_fixed 1 value @ '' '' @ unit
      else format_bytes_from byte_count (f64_div value (Fin 1024)) units)"

definition format_bytes :: "nat \<Rightarrow> string" where
  "format_bytes byte_count = format_bytes_from byte_count (f64_of_int (int byte_count)) size_units"

record intake_env =
  ie_max_file_bytes :: nat
  ie_min_free_bytes :: nat
  ie_media :: media_env

definition ensure_upload_disk_space :: "intake_env \<Rightarrow> string + nat \<Rightarrow> nat \<Rightarrow> unit api" where
  "ensure_upload_disk_space env available additional_bytes =
     (case available of
        Inl e \<Rightarrow> Inl (Api 507 (''Could not inspect upload disk space: '' @ e))
      | Inr free_bytes \<Rightarrow>
          (let required_free = min (2 ^ 64 - 1) (ie_min_free_bytes env + additional_bytes)
           in if free_bytes < required_free
              then Inl (Api 507 (''Not enough upload disk space (free='' @ format_bytes free_bytes @ '', required='' @
                     format_bytes required_free @ '')''))
              else Inr ()))"

definition too_large :: "intake_env \<Rightarrow> 'a api" where
  "too_large env = Inl (Api 413 (''Upload exceeds max file size ('' @ format_bytes (ie_max_file_bytes env) @ '')''))"

section \<open>Fields\<close>

definition content_length :: "headers \<Rightarrow> nat option" where
  "content_length hs = Option.bind (header_text ''content-length'' hs) (parse_unsigned 64)"

definition parse_form_bool :: "string \<Rightarrow> bool" where
  "parse_form_bool value \<longleftrightarrow> to_ascii_lowercase (trim value) \<in> {''1'', ''true'', ''yes'', ''on''}"

definition parse_resolutions :: "string \<Rightarrow> string list" where
  "parse_resolutions value = filter (\<lambda>r. resolution_preset r \<noteq> None) (map trim (split_on (CHR '','') value))"

definition parse_video_codec :: "string \<Rightarrow> video_codec option" where
  "parse_video_codec value =
     (let v = to_ascii_lowercase (trim value)
      in if v \<in> {''h264'', ''h.264'', ''avc''} then Some H264
         else if v \<in> {''hevc'', ''h265'', ''h.265''} then Some Hevc else None)"

definition parse_kbps_field :: "string \<Rightarrow> string \<Rightarrow> int api" where
  "parse_kbps_field value field_name =
     ok_or_bad (parse_signed 32 (trim value)) (field_name @ '' must be an integer kbps value'')"

definition overrides_error :: api_error where
  "overrides_error = bad_request ''video_bitrate_overrides must be a JSON object of resolution to kbps''"

fun read_overrides :: "(string \<times> json) list \<Rightarrow> (string \<times> int) list \<Rightarrow> (string \<times> int) list api" where
  "read_overrides [] acc = Inr acc"
| "read_overrides ((k, JInt i) # members) acc =
     (if - (2 ^ 31) \<le> i \<and> i < 2 ^ 31 then read_overrides members (AList.update k i acc) else Inl overrides_error)"
| "read_overrides (_ # members) acc = Inl overrides_error"

definition parse_video_bitrate_overrides :: "(string \<Rightarrow> json option) \<Rightarrow> string \<Rightarrow> (string \<times> int) list api" where
  "parse_video_bitrate_overrides parse_json value =
     (let trimmed = trim value
      in if trimmed = [] then Inr []
         else (case parse_json trimmed of Some (JObject members) \<Rightarrow> read_overrides members [] | _ \<Rightarrow> Inl overrides_error))"

section \<open>The form\<close>

text \<open>A read of the multipart body gives something, overruns the idle limit, or is malformed.\<close>

datatype 'a mread = Got 'a | Idle | Malformed string

definition timeout_multipart_read :: "'a mread \<Rightarrow> string \<Rightarrow> 'a api" where
  "timeout_multipart_read r action =
     (case r of
        Got x \<Rightarrow> Inr x
      | Idle \<Rightarrow> Inl (Api 408 (''Timed out while '' @ action))
      | Malformed e \<Rightarrow> Inl (bad_request (''Invalid upload: '' @ e)))"

text \<open>
  A chunk of the file comes with the free space that is found before it is written and the error of the
  write, if any. A file comes with its name, the error of creating it, its chunks to the end, the errors
  of flushing and renaming, and the run of the probe.
\<close>

record chunk_event =
  ck_data :: string
  ck_free :: "string + nat"
  ck_write :: "string option"

record file_event =
  fe_name :: "string option"
  fe_create :: "string option"
  fe_chunks :: "chunk_event mread list"
  fe_flush :: "string option"
  fe_probe :: tool_run
  fe_rename :: "string option"

datatype form_field = Unnamed | FileField file_event | TextField string "string mread"

definition store_error :: "string option \<Rightarrow> unit api" where
  "store_error e = (case e of None \<Rightarrow> Inr () | Some t \<Rightarrow> Inl (Api 507 (''Could not store upload safely: '' @ t)))"

fun store_chunks :: "intake_env \<Rightarrow> nat \<Rightarrow> chunk_event mread list \<Rightarrow> nat api" where
  "store_chunks env written [] = Inr written"
| "store_chunks env written (r # rs) =
     rbind (timeout_multipart_read r ''reading upload file'') (\<lambda>c.
     (let next_size = written + length (ck_data c)
      in if next_size > ie_max_file_bytes env then too_large env
         else rbind (ensure_upload_disk_space env (ck_free c) (length (ck_data c))) (\<lambda>_.
              rbind (store_error (ck_write c)) (\<lambda>_. store_chunks env next_size rs))))"

definition store_file :: "intake_env \<Rightarrow> file_event \<Rightarrow> nat api" where
  "store_file env fe =
     rbind (store_error (fe_create fe)) (\<lambda>_.
     rbind (store_chunks env 0 (fe_chunks fe)) (\<lambda>written.
     rbind (store_error (fe_flush fe)) (\<lambda>_.
     if written = 0 then Inl (bad_request ''Uploaded file is empty'') else Inr written)))"

record upload_form =
  uf_title :: "string option"
  uf_description :: string
  uf_resolutions :: string
  uf_show_manifest_address :: bool
  uf_upload_original :: bool
  uf_publish_when_ready :: bool
  uf_video_codec :: video_codec
  uf_audio_bitrate_kbps :: "int option"
  uf_video_bitrate_overrides :: "(string \<times> int) list"
  uf_file :: "(string \<times> path \<times> upload_media_metadata) option"

definition new_form :: upload_form where
  "new_form =
     \<lparr>uf_title = None, uf_description = [], uf_resolutions = ''720p'', uf_show_manifest_address = False,
      uf_upload_original = False, uf_publish_when_ready = False, uf_video_codec = H264, uf_audio_bitrate_kbps = None,
      uf_video_bitrate_overrides = [], uf_file = None\<rparr>"

definition set_field :: "intake_env \<Rightarrow> string \<Rightarrow> string \<Rightarrow> upload_form \<Rightarrow> upload_form api" where
  "set_field env name value f =
     (if name = ''title'' then Inr (f\<lparr>uf_title := Some (trim value)\<rparr>)
      else if name = ''description'' then Inr (f\<lparr>uf_description := trim value\<rparr>)
      else if name = ''resolutions'' then Inr (f\<lparr>uf_resolutions := value\<rparr>)
      else if name = ''show_manifest_address'' then Inr (f\<lparr>uf_show_manifest_address := parse_form_bool value\<rparr>)
      else if name = ''upload_original'' then Inr (f\<lparr>uf_upload_original := parse_form_bool value\<rparr>)
      else if name = ''publish_when_ready'' then Inr (f\<lparr>uf_publish_when_ready := parse_form_bool value\<rparr>)
      else if name = ''video_codec'' then
        rbind (ok_or_bad (parse_video_codec value) ''video_codec must be h264 or hevc'') (\<lambda>c. Inr (f\<lparr>uf_video_codec := c\<rparr>))
      else if name = ''audio_bitrate_kbps'' then
        rbind (parse_kbps_field value ''audio_bitrate_kbps'') (\<lambda>k. Inr (f\<lparr>uf_audio_bitrate_kbps := Some k\<rparr>))
      else if name = ''video_bitrate_overrides'' then
        rbind (parse_video_bitrate_overrides (me_parse_json (ie_media env)) value)
          (\<lambda>os. Inr (f\<lparr>uf_video_bitrate_overrides := os\<rparr>))
      else Inr f)"

definition take_file :: "intake_env \<Rightarrow> path \<Rightarrow> file_event \<Rightarrow> upload_form \<Rightarrow> upload_form api option" where
  "take_file env job_dir fe f =
     (if uf_file f \<noteq> None then Some (Inl (bad_request ''Only one upload file is supported''))
      else
        (let safe_filename = sanitize_upload_filename (fe_name fe);
             stored = ''original_'' @ safe_filename;
             tmp_src_path = job_dir @ [stored @ ''.uploading'']
         in case store_file env fe of
              Inl e \<Rightarrow> Some (Inl e)
            | Inr _ \<Rightarrow>
                map_option (\<lambda>probed.
                  rbind probed (\<lambda>metadata.
                  rbind (store_error (fe_rename fe)) (\<lambda>_.
                  Inr (f\<lparr>uf_file := Some (safe_filename, job_dir @ [stored], metadata)\<rparr>))))
                  (probe_upload_media (ie_media env) tmp_src_path (fe_probe fe))))"

fun read_form :: "intake_env \<Rightarrow> path \<Rightarrow> form_field mread list \<Rightarrow> upload_form \<Rightarrow> upload_form api option" where
  "read_form env job_dir [] f = Some (Inr f)"
| "read_form env job_dir (r # rs) f =
     (case timeout_multipart_read r ''reading multipart upload'' of
        Inl e \<Rightarrow> Some (Inl e)
      | Inr Unnamed \<Rightarrow> read_form env job_dir rs f
      | Inr (FileField fe) \<Rightarrow>
          (case take_file env job_dir fe f of
             None \<Rightarrow> None
           | Some (Inl e) \<Rightarrow> Some (Inl e)
           | Some (Inr f') \<Rightarrow> read_form env job_dir rs f')
      | Inr (TextField name value) \<Rightarrow>
          (case rbind (timeout_multipart_read value (''reading form field '' @ name)) (\<lambda>t. set_field env name t f) of
             Inl e \<Rightarrow> Some (Inl e)
           | Inr f' \<Rightarrow> read_form env job_dir rs f'))"

definition accepted_of_form :: "intake_env \<Rightarrow> path \<Rightarrow> string \<Rightarrow> upload_form \<Rightarrow> accepted_fields api" where
  "accepted_of_form env job_dir username f =
     rbind (ok_or_bad (filter_option (\<lambda>t. t \<noteq> []) (uf_title f)) ''title is required'') (\<lambda>title.
     rbind (ok_or_bad (uf_file f) ''file is required'') (\<lambda>(name, source, metadata).
     (let selected = parse_resolutions (uf_resolutions f);
          settings = \<lparr>es_video_codec = uf_video_codec f, es_video_bitrate_overrides = uf_video_bitrate_overrides f,
            es_audio_bitrate_kbps = uf_audio_bitrate_kbps f\<rparr>
      in if selected = [] then Inl (bad_request supported_resolutions_error)
         else
           rbind (validate_encode_settings settings selected) (\<lambda>_.
           rbind (enforce_upload_media_limits (me_limits (ie_media env)) (um_duration_seconds metadata)
                    (fst (um_dimensions metadata)) (snd (um_dimensions metadata))) (\<lambda>_.
           Inr \<lparr>af_title = title, af_original_filename = name, af_description = uf_description f,
             af_job_dir = show_path job_dir, af_source_path = show_path source, af_resolutions = selected,
             af_encode_settings = settings, af_show_manifest_address = uf_show_manifest_address f,
             af_upload_original = uf_upload_original f, af_publish_when_ready = uf_publish_when_ready f,
             af_username = username\<rparr>)))))"

text \<open>
  What happens to an upload from outside: the free slots, the new identifier, the directory, the disk,
  the fields, the insertion (a duplicate identifier apart, which the table decides) and reading the row
  back, and whether removing the directory fails.
\<close>

record intake_world =
  iw_slots :: nat
  iw_video_id :: string
  iw_create_dir :: "string option"
  iw_free :: "string + nat"
  iw_form :: "form_field mread list"
  iw_insert :: "unit api"
  iw_read_back :: "unit api"
  iw_remove_fails :: bool

text \<open>Whether the upload's directory is there in the end: the guard removes it again unless the upload is
  accepted, and ignores an error of the removal; it was not made when the first checks fail. A panic
  unwinds through the guard as well, where it does not abort.\<close>

record intake_result =
  ir_answer :: "accepted_fields api"
  ir_directory :: bool
  ir_db :: admin_db

definition multipart_overhead_allowance :: nat where "multipart_overhead_allowance = 2 * 1024 * 1024"

definition receive_upload :: "intake_env \<Rightarrow> headers \<Rightarrow> string \<Rightarrow> path \<Rightarrow> intake_world \<Rightarrow> accepted_fields api option" where
  "receive_upload env hs username job_dir w =
     (case ensure_upload_disk_space env (iw_free w) (case content_length hs of Some n \<Rightarrow> n | None \<Rightarrow> 0) of
        Inl e \<Rightarrow> Some (Inl e)
      | Inr _ \<Rightarrow> map_option (\<lambda>r. rbind r (accepted_of_form env job_dir username)) (read_form env job_dir (iw_form w) new_form))"

definition accept_upload ::
  "intake_env \<Rightarrow> headers \<Rightarrow> string \<Rightarrow> int \<Rightarrow> intake_world \<Rightarrow> admin_db \<Rightarrow> intake_result option"
where
  "accept_upload env hs username now w db =
     (let refused = (\<lambda>e. Some \<lparr>ir_answer = Inl e, ir_directory = False, ir_db = db\<rparr>);
          dropped = (\<lambda>e db'. Some \<lparr>ir_answer = Inl e, ir_directory = iw_remove_fails w, ir_db = db'\<rparr>);
          job_dir = me_upload_temp_dir (ie_media env) @ [iw_video_id w]
      in if (case content_length hs of
               Some n \<Rightarrow> n > (ie_max_file_bytes env + multipart_overhead_allowance) mod 2 ^ 64 | None \<Rightarrow> False)
         then Some \<lparr>ir_answer = too_large env, ir_directory = False, ir_db = db\<rparr>
         else if iw_slots w = 0 then refused (Api 429 ''Too many uploads are in progress; try again shortly'')
         else
           (case iw_create_dir w of
              Some e \<Rightarrow> refused (Api 507 (''Could not create upload directory: '' @ e))
            | None \<Rightarrow>
                (case receive_upload env hs username job_dir w of
                   None \<Rightarrow> None
                 | Some (Inl e) \<Rightarrow> dropped e db
                 | Some (Inr a) \<Rightarrow>
                     (case (case iw_insert w of Inl e \<Rightarrow> (Inl e, db) | Inr _ \<Rightarrow> accept_video now (iw_video_id w) a db) of
                        (Inl e, db') \<Rightarrow> dropped e db'
                      | (Inr _, db') \<Rightarrow>
                          (case iw_read_back w of
                             Inl e \<Rightarrow> dropped e db'
                           | Inr _ \<Rightarrow> Some \<lparr>ir_answer = Inr a, ir_directory = True, ir_db = db'\<rparr>)))))"

end
