(* ===== verification/Gateway_Client.thy ===== *)
theory Gateway_Client
  imports Rust_Text Rust_Float
begin

text \<open>
  The HTTP client through which the admin and the streaming service reach the gateway
  (\<open>crates/common/src/resilience.rs\<close>, \<open>crates/common/src/antd/mod.rs\<close>): errors and which of them are
  worth a retry, the circuit breaker, bounded responses, single requests and the retry loops. The
  network's answers, the clock, the random factor of a delay, the JSON decoders and the hash are
  parameters.
\<close>

section \<open>Errors\<close>

record http_status_error =
  he_method :: string
  he_path :: string
  he_status :: nat
  he_body :: string

text \<open>An error of the HTTP library: whether it is one of connecting, of a timeout or of the body.\<close>

record request_error =
  re_connect :: bool
  re_timeout :: bool
  re_body :: bool
  re_text :: string

datatype client_error =
    HttpStatus http_status_error
  | Request request_error
  | Message string

type_synonym 'a answer = "client_error + 'a"

text \<open>\<open>show_status\<close> is how the HTTP library writes a status, \<open>404 Not Found\<close> for one.\<close>

fun client_error_text :: "(nat \<Rightarrow> string) \<Rightarrow> client_error \<Rightarrow> string" where
  "client_error_text show_status (HttpStatus e) =
     he_method e @ '' '' @ he_path e @ '' failed: '' @ show_status (he_status e) @ '' '' @ he_body e"
| "client_error_text show_status (Request e) = re_text e"
| "client_error_text show_status (Message s) = s"

fun is_retryable_antd_error :: "client_error \<Rightarrow> bool" where
  "is_retryable_antd_error (HttpStatus e) \<longleftrightarrow>
     he_status e = 408 \<or> he_status e = 429 \<or> (500 \<le> he_status e \<and> he_status e \<le> 599)"
| "is_retryable_antd_error (Request e) \<longleftrightarrow> re_connect e \<or> re_timeout e \<or> re_body e"
| "is_retryable_antd_error (Message s) \<longleftrightarrow> False"

section \<open>The circuit breaker\<close>

record circuit_breaker =
  consecutive_failures :: nat
  opened_until_epoch_ms :: nat
  last_retryable_error :: "string option"

definition new_breaker :: circuit_breaker where
  "new_breaker = \<lparr>consecutive_failures = 0, opened_until_epoch_ms = 0, last_retryable_error = None\<rparr>"

definition failure_threshold :: nat where "failure_threshold = 5"
definition open_duration :: nat where "open_duration = 30000"

text \<open>Milliseconds since the epoch, saturating at 64 bits.\<close>

definition saturating_u64 :: "nat \<Rightarrow> nat" where
  "saturating_u64 n = min (2 ^ 64 - 1) n"

definition circuit_check :: "nat \<Rightarrow> circuit_breaker \<Rightarrow> unit answer" where
  "circuit_check now cb =
     (if opened_until_epoch_ms cb > now
      then Inl (Message (''Autonomi request circuit is open for '' @ show_nat (opened_until_epoch_ms cb - now) @ ''ms'' @
             (case last_retryable_error cb of None \<Rightarrow> [] | Some e \<Rightarrow> ''; last retryable error: '' @ e)))
      else Inr ())"

definition record_result :: "(nat \<Rightarrow> string) \<Rightarrow> nat \<Rightarrow> 'a answer \<Rightarrow> circuit_breaker \<Rightarrow> circuit_breaker" where
  "record_result show_status now result cb =
     (case result of
        Inr _ \<Rightarrow> cb\<lparr>consecutive_failures := 0, opened_until_epoch_ms := 0, last_retryable_error := None\<rparr>
      | Inl e \<Rightarrow>
          if \<not> is_retryable_antd_error e then cb\<lparr>consecutive_failures := 0, last_retryable_error := None\<rparr>
          else
            (let failures = consecutive_failures cb + 1;
                 cb' = cb\<lparr>last_retryable_error := Some (client_error_text show_status e), consecutive_failures := failures\<rparr>
             in if failures \<ge> failure_threshold
                then cb'\<lparr>opened_until_epoch_ms := saturating_u64 (now + open_duration)\<rparr>
                else cb'))"

section \<open>Delays\<close>

text \<open>Durations are in milliseconds; \<open>factor\<close> is drawn between 0.8 and 1.2.\<close>

definition jitter_duration :: "f64 \<Rightarrow> nat \<Rightarrow> nat" where
  "jitter_duration factor base =
     (if base = 0 then 0
      else nat (as_u64 (f64_max (f64_round (f64_mul (f64_of_int (int base)) factor)) (Fin 1))))"

definition duration_max_ms :: nat where "duration_max_ms = (2 ^ 64 - 1) * 1000 + 999"

definition retry_delay :: "f64 \<Rightarrow> nat \<Rightarrow> nat \<Rightarrow> nat" where
  "retry_delay factor base_delay attempt =
     jitter_duration factor (min duration_max_ms (base_delay * 2 ^ min (attempt - 1) 4))"

section \<open>Responses\<close>

text \<open>A response whose body arrives in chunks and may break off.\<close>

record http_response =
  hr_status :: nat
  hr_content_length :: "nat option"
  hr_chunks :: "string list"
  hr_broken :: "client_error option"

definition too_long :: "nat \<Rightarrow> client_error" where
  "too_long limit = Message (''gateway response exceeds '' @ show_nat limit @ '' byte limit'')"

fun read_chunks :: "nat \<Rightarrow> string \<Rightarrow> string list \<Rightarrow> client_error option \<Rightarrow> string answer" where
  "read_chunks limit received [] broken = (case broken of None \<Rightarrow> Inr received | Some e \<Rightarrow> Inl e)"
| "read_chunks limit received (chunk # chunks) broken =
     (if length chunk > limit - length received then Inl (too_long limit)
      else read_chunks limit (received @ chunk) chunks broken)"

definition read_response_limited :: "nat \<Rightarrow> http_response \<Rightarrow> string answer" where
  "read_response_limited limit r =
     (if (case hr_content_length r of None \<Rightarrow> False | Some n \<Rightarrow> n > limit) then Inl (too_long limit)
      else read_chunks limit [] (hr_chunks r) (hr_broken r))"

definition is_success :: "nat \<Rightarrow> bool" where
  "is_success status \<longleftrightarrow> 200 \<le> status \<and> status \<le> 299"

definition mib :: nat where "mib = 1024 * 1024"

text \<open>What \<open>request_json\<close> and \<open>send_file\<close> make of a response: the body as text, then its status, then
  its JSON, whose decoder answers with a value or the text of its error.\<close>

definition json_answer ::
  "(string \<Rightarrow> string + 'a) \<Rightarrow> string \<Rightarrow> string \<Rightarrow> http_response answer \<Rightarrow> 'a answer"
where
  "json_answer decode http_method path response =
     rbind response (\<lambda>r.
     rbind (read_response_limited (32 * mib) r) (\<lambda>body.
     if \<not> valid_utf8 body then Inl (Message (utf8_error_text body))
     else if \<not> is_success (hr_status r)
     then Inl (HttpStatus \<lparr>he_method = http_method, he_path = path, he_status = hr_status r, he_body = body\<rparr>)
     else (case decode body of
             Inl e \<Rightarrow> Inl (Message (http_method @ '' '' @ path @ '' returned invalid JSON: '' @ e))
           | Inr v \<Rightarrow> Inr v)))"

definition bytes_answer :: "string \<Rightarrow> http_response answer \<Rightarrow> string answer" where
  "bytes_answer path response =
     rbind response (\<lambda>r.
     if \<not> is_success (hr_status r)
     then rbind (read_response_limited (64 * 1024) r) (\<lambda>body.
            Inl (HttpStatus \<lparr>he_method = ''GET'', he_path = path, he_status = hr_status r,
              he_body = from_utf8_lossy body\<rparr>))
     else read_response_limited (32 * mib) r)"

section \<open>The client\<close>

record antd_client =
  ac_base_url :: string
  ac_internal_token :: "string option"
  ac_payment_approval :: "string option"
  ac_payment_lease :: "string option"

definition trim_end_slashes :: "string \<Rightarrow> string" where
  "trim_end_slashes s = rev (dropWhile (\<lambda>c. c = CHR ''/'') (rev s))"

definition new_client :: "string \<Rightarrow> string option \<Rightarrow> antd_client" where
  "new_client base_url internal_token =
     \<lparr>ac_base_url = trim_end_slashes base_url, ac_internal_token = internal_token,
      ac_payment_approval = None, ac_payment_lease = None\<rparr>"

definition with_lease :: "string \<Rightarrow> antd_client \<Rightarrow> antd_client" where
  "with_lease key client = client\<lparr>ac_payment_lease := Some key\<rparr>"

definition with_approval :: "string \<Rightarrow> antd_client \<Rightarrow> antd_client" where
  "with_approval quote_id client = client\<lparr>ac_payment_approval := Some quote_id\<rparr>"

record http_request =
  hq_method :: string
  hq_url :: string
  hq_headers :: "(string \<times> string) list"
  hq_body :: "string option"

definition optional_header :: "string \<Rightarrow> string option \<Rightarrow> (string \<times> string) list" where
  "optional_header name value = (case value of None \<Rightarrow> [] | Some v \<Rightarrow> [(name, v)])"

definition apply_internal_auth :: "antd_client \<Rightarrow> http_request \<Rightarrow> http_request" where
  "apply_internal_auth client q =
     q\<lparr>hq_headers := hq_headers q @ optional_header ''x-payment-lease'' (ac_payment_lease client) @
        optional_header ''x-payment-approval'' (ac_payment_approval client) @
        optional_header ''authorization'' (map_option (\<lambda>t. ''Bearer '' @ t) (ac_internal_token client))\<rparr>"

definition metrics_path :: "string \<Rightarrow> string" where
  "metrics_path path = (if prefix ''/v1/data/public/'' path then ''/v1/data/public/:address'' else path)"

text \<open>
  The breaker is shared by the clones of a client. What it was told, the requests sent (each with the
  clock of its check and the number of reports before it), the calls made, the metrics recorded and the
  delays slept are ghosts that the properties speak of.
\<close>

type_synonym history = "(nat \<times> unit answer) list"

record sent_request =
  sn_request :: http_request
  sn_at :: nat
  sn_after :: nat

record net =
  nt_breaker :: circuit_breaker
  nt_history :: history
  nt_sent :: "sent_request list"
  nt_calls :: nat
  nt_recorded :: "(string \<times> bool) list"
  nt_upload_retries :: nat
  nt_slept :: "nat list"

type_synonym 'a call = "net \<Rightarrow> 'a answer \<times> net"

text \<open>
  What a call meets: the clock when it checks the breaker and when it reports its result, the answer of
  the network, and what other calls report in between.
\<close>

record http_answer =
  ha_check_at :: nat
  ha_response :: "http_response answer"
  ha_others :: history
  ha_record_at :: nat

record world =
  wd_answer :: "nat \<Rightarrow> http_answer"
  wd_factor :: "nat \<Rightarrow> f64"
  wd_show_status :: "nat \<Rightarrow> string"

definition report :: "world \<Rightarrow> nat \<times> unit answer \<Rightarrow> net \<Rightarrow> net" where
  "report w event s =
     s\<lparr>nt_breaker := record_result (wd_show_status w) (fst event) (snd event) (nt_breaker s),
       nt_history := nt_history s @ [event]\<rparr>"

text \<open>One request, when the breaker lets it through and its body can be opened.\<close>

definition exchange ::
  "world \<Rightarrow> unit answer \<Rightarrow> http_request \<Rightarrow> string \<Rightarrow> (http_response answer \<Rightarrow> 'a answer) \<Rightarrow> 'a call"
where
  "exchange w body_opened q metric interpret s =
     (let a = wd_answer w (nt_calls s); s1 = s\<lparr>nt_calls := nt_calls s + 1\<rparr>
      in case rbind (circuit_check (ha_check_at a) (nt_breaker s1)) (\<lambda>_. body_opened) of
           Inl e \<Rightarrow> (Inl e, s1)
         | Inr _ \<Rightarrow>
             (let result = interpret (ha_response a);
                  s2 = fold (report w) (ha_others a) (s1\<lparr>nt_sent := nt_sent s1 @
                    [\<lparr>sn_request = q, sn_at = ha_check_at a, sn_after = length (nt_history s1)\<rparr>]\<rparr>);
                  s3 = report w (ha_record_at a, map_sum id (\<lambda>_. ()) result) s2
              in (result, s3\<lparr>nt_recorded := nt_recorded s3 @ [(metric, is_ok result)]\<rparr>)))"

definition request_json ::
  "world \<Rightarrow> antd_client \<Rightarrow> (string \<Rightarrow> string + 'a) \<Rightarrow> string \<Rightarrow> string \<Rightarrow> string option \<Rightarrow> 'a call"
where
  "request_json w client decode http_method path json_body =
     exchange w (Inr ())
       (let q = apply_internal_auth client
              \<lparr>hq_method = http_method, hq_url = ac_base_url client @ path, hq_headers = [], hq_body = json_body\<rparr>
        in q\<lparr>hq_headers := hq_headers q @
               (case json_body of None \<Rightarrow> [] | Some _ \<Rightarrow> [(''content-type'', ''application/json'')])\<rparr>)
       (metrics_path path) (json_answer decode http_method path)"

definition get_bytes_once :: "world \<Rightarrow> antd_client \<Rightarrow> string \<Rightarrow> string call" where
  "get_bytes_once w client path =
     exchange w (Inr ())
       (apply_internal_auth client \<lparr>hq_method = ''GET'', hq_url = ac_base_url client @ path, hq_headers = [],
          hq_body = None\<rparr>)
       (metrics_path path) (bytes_answer path)"

definition show_bool :: "bool \<Rightarrow> string" where
  "show_bool b = (if b then ''true'' else ''false'')"

text \<open>The file is opened after the check of the breaker; \<open>content\<close> is what opening it gives.\<close>

definition send_file ::
  "world \<Rightarrow> antd_client \<Rightarrow> (string \<Rightarrow> string + 'a) \<Rightarrow> string answer \<Rightarrow> string \<Rightarrow> bool \<Rightarrow> string \<Rightarrow> string \<Rightarrow> 'a call"
where
  "send_file w client decode content payment_mode verify sha256 endpoint =
     exchange w (map_sum id (\<lambda>_. ()) content)
       (let q = apply_internal_auth client
              \<lparr>hq_method = ''POST'', hq_url = ac_base_url client @ endpoint @ ''?payment_mode='' @ payment_mode @
                 ''&verify='' @ show_bool verify, hq_headers = [],
               hq_body = (case content of Inl _ \<Rightarrow> None | Inr c \<Rightarrow> Some c)\<rparr>
        in q\<lparr>hq_headers := hq_headers q @
               [(''content-type'', ''application/octet-stream''), (''x-content-sha256'', sha256)]\<rparr>)
       endpoint (json_answer decode ''POST'' endpoint)"

section \<open>Hashing a file\<close>

definition hex_digit :: "nat \<Rightarrow> char" where
  "hex_digit n = ''0123456789abcdef'' ! n"

definition hex_lower :: "8 word list \<Rightarrow> string" where
  "hex_lower bs = concat (map (\<lambda>b. [hex_digit (unat b div 16), hex_digit (unat b mod 16)]) bs)"

text \<open>\<open>sha256_file_async\<close>, read in chunks; \<open>sha256\<close> is the hash of the crate.\<close>

definition sha256_file :: "(string \<Rightarrow> 8 word list) \<Rightarrow> string list answer \<Rightarrow> (u64 \<times> string) answer" where
  "sha256_file sha256 chunks =
     rbind chunks (\<lambda>cs. Inr (fold (\<lambda>c n. n + of_nat (length c)) cs 0, hex_lower (sha256 (concat cs))))"

section \<open>Retries\<close>

definition sleep :: "nat \<Rightarrow> net \<Rightarrow> net" where
  "sleep d s = s\<lparr>nt_slept := nt_slept s @ [d]\<rparr>"

text \<open>
  The body of a \<open>for attempt in 1..=attempts\<close> that retries what \<open>once\<close> does; \<open>pause\<close> is what it does
  before the next attempt, \<open>exhausted\<close> what follows the loop.
\<close>

fun retry_from ::
  "nat \<Rightarrow> 'a call \<Rightarrow> (nat \<Rightarrow> net \<Rightarrow> net) \<Rightarrow> client_error \<Rightarrow> nat list \<Rightarrow> 'a call"
where
  "retry_from attempts once pause exhausted [] s = (Inl exhausted, s)"
| "retry_from attempts once pause exhausted (attempt # rest) s =
     (case once s of
        (Inr v, s') \<Rightarrow> (Inr v, s')
      | (Inl e, s') \<Rightarrow>
          if attempt < attempts \<and> is_retryable_antd_error e
          then retry_from attempts once pause exhausted rest (pause attempt s')
          else (Inl e, s'))"

definition next_factor :: "world \<Rightarrow> net \<Rightarrow> f64" where
  "next_factor w s = wd_factor w (length (nt_slept s))"

definition retry_pause :: "world \<Rightarrow> nat \<Rightarrow> nat \<Rightarrow> net \<Rightarrow> net" where
  "retry_pause w base_delay attempt s = sleep (retry_delay (next_factor w s) base_delay attempt) s"

definition get_json_retry ::
  "world \<Rightarrow> antd_client \<Rightarrow> (string \<Rightarrow> string + 'a) \<Rightarrow> string \<Rightarrow> nat \<Rightarrow> nat \<Rightarrow> 'a call"
where
  "get_json_retry w client decode path attempts base_delay =
     retry_from attempts (request_json w client decode ''GET'' path None) (retry_pause w base_delay)
       (Message (''Autonomi JSON fetch failed for '' @ path)) [1..<attempts + 1]"

definition get_bytes_retry :: "world \<Rightarrow> antd_client \<Rightarrow> string \<Rightarrow> nat \<Rightarrow> nat \<Rightarrow> string call" where
  "get_bytes_retry w client path attempts base_delay =
     retry_from attempts (get_bytes_once w client path) (retry_pause w base_delay)
       (Message (''Autonomi byte fetch failed for '' @ path)) [1..<attempts + 1]"

definition upload_pause :: "world \<Rightarrow> nat \<Rightarrow> net \<Rightarrow> net" where
  "upload_pause w attempt s =
     sleep (jitter_duration (next_factor w s) (2 ^ min (attempt - 1) 4 * 1000))
       (s\<lparr>nt_upload_retries := nt_upload_retries s + 1\<rparr>)"

text \<open>The loop of \<open>file_put_public\<close> always returns from its last attempt, so what would follow it has
  no error to report.\<close>

definition file_put_public ::
  "world \<Rightarrow> antd_client \<Rightarrow> (string \<Rightarrow> string + 'a) \<Rightarrow> (u64 \<times> string) answer \<Rightarrow> string answer \<Rightarrow> string \<Rightarrow> bool \<Rightarrow>
     nat \<Rightarrow> 'a call"
where
  "file_put_public w client decode hashed content payment_mode verify upload_retries s =
     (case hashed of
        Inl e \<Rightarrow> (Inl e, s)
      | Inr (_, sha256) \<Rightarrow>
          (let attempts = max upload_retries 1
           in retry_from attempts (send_file w client decode content payment_mode verify sha256 ''/v1/file/public'')
                (upload_pause w)
                (Message (''Autonomi file upload failed after '' @ show_nat attempts @ '' attempt(s)''))
                [1..<attempts + 1] s))"

definition file_cost ::
  "world \<Rightarrow> antd_client \<Rightarrow> (string \<Rightarrow> string + 'a) \<Rightarrow> (u64 \<times> string) answer \<Rightarrow> string answer \<Rightarrow> string \<Rightarrow> 'a call"
where
  "file_cost w client decode hashed content payment_mode s =
     (case hashed of
        Inl e \<Rightarrow> (Inl e, s)
      | Inr (_, sha256) \<Rightarrow> send_file w client decode content payment_mode False sha256 ''/v1/file/cost'' s)"

section \<open>Older gateways\<close>

fun raw_endpoint_unavailable :: "client_error \<Rightarrow> bool" where
  "raw_endpoint_unavailable (HttpStatus e) \<longleftrightarrow>
     suffix ''/raw'' (he_path e) \<and> (he_status e = 404 \<or> he_status e = 405)"
| "raw_endpoint_unavailable _ \<longleftrightarrow> False"

definition is_missing_file_upload_endpoint :: "(nat \<Rightarrow> string) \<Rightarrow> client_error \<Rightarrow> bool" where
  "is_missing_file_upload_endpoint show_status e =
     (case e of
        HttpStatus h \<Rightarrow> he_status h = 404 \<or> he_status h = 405 \<or> he_status h = 501
      | _ \<Rightarrow>
          (let msg = client_error_text show_status e
           in contains msg ''/v1/file/public'' \<and>
              (contains msg '' 404 '' \<or> contains msg '' 405 '' \<or> contains msg '' 501 '')))"

end
