(* ===== verification/Service_Metrics.thy ===== *)
theory Service_Metrics
  imports Gateway_Client Stream_Cache
begin

text \<open>
  The counters and histograms of the services (\<open>crates/common/src/metrics.rs\<close>, \<open>rust_admin/src/metrics.rs\<close>,
  \<open>rust_stream/src/metrics.rs\<close>) and their rendering for a scrape. Atomic counters are 64-bit words that
  wrap; the numbers of a histogram saturate. A duration is given in nanoseconds; a map of histograms is
  an association list in the order in which the code iterates over it.
\<close>

section \<open>Histograms\<close>

definition default_latency_buckets_ms :: "nat list" where
  "default_latency_buckets_ms = [5, 10, 25, 50, 100, 250, 500, 1000, 2500, 5000, 10000, 30000, 60000]"

record latency_histogram =
  hg_buckets_ms :: "nat list"
  hg_cumulative_counts :: "nat list"
  hg_count :: nat
  hg_sum_ms :: nat

definition new_histogram :: "nat list \<Rightarrow> latency_histogram" where
  "new_histogram buckets =
     \<lparr>hg_buckets_ms = buckets, hg_cumulative_counts = replicate (length buckets) 0, hg_count = 0, hg_sum_ms = 0\<rparr>"

definition duration_ms :: "nat \<Rightarrow> nat" where
  "duration_ms d = saturating_u64 (d div 1000000)"

definition record_ms :: "nat \<Rightarrow> latency_histogram \<Rightarrow> latency_histogram" where
  "record_ms millis h =
     h\<lparr>hg_count := saturating_u64 (hg_count h + 1), hg_sum_ms := saturating_u64 (hg_sum_ms h + millis),
       hg_cumulative_counts := fold
         (\<lambda>i counts. if millis \<le> hg_buckets_ms h ! i then counts[i := saturating_u64 (counts ! i + 1)] else counts)
         [0..<length (hg_buckets_ms h)] (hg_cumulative_counts h)\<rparr>"

definition record_duration :: "nat \<Rightarrow> latency_histogram \<Rightarrow> latency_histogram" where
  "record_duration d = record_ms (duration_ms d)"

text \<open>\<open>entry(key).or_default().record_duration(duration)\<close>.\<close>

fun record_labelled ::
  "string \<Rightarrow> nat \<Rightarrow> (string \<times> latency_histogram) list \<Rightarrow> (string \<times> latency_histogram) list"
where
  "record_labelled key d [] = [(key, record_duration d (new_histogram default_latency_buckets_ms))]"
| "record_labelled key d ((k, h) # hs) =
     (if k = key then (k, record_duration d h) # hs else (k, h) # record_labelled key d hs)"

section \<open>Lines of a scrape\<close>

definition replace_char :: "char \<Rightarrow> string \<Rightarrow> string \<Rightarrow> string" where
  "replace_char c by s = concat (map (\<lambda>x. if x = c then by else [x]) s)"

definition newline_char :: char where "newline_char = CHR 0x0A"

definition escape_label_value :: "string \<Rightarrow> string" where
  "escape_label_value value =
     replace_char newline_char [CHR 0x5C, CHR ''n'']
       (replace_char (CHR 0x22) [CHR 0x5C, CHR 0x22]
         (replace_char (CHR 0x5C) [CHR 0x5C, CHR 0x5C] value))"

definition writeln :: "string \<Rightarrow> string list \<Rightarrow> string" where
  "writeln out parts = out @ concat parts @ [newline_char]"

definition label :: "string \<Rightarrow> string \<Rightarrow> string" where
  "label name value = name @ ''='' @ [CHR 0x22] @ value @ [CHR 0x22]"

definition prometheus_labels :: "string \<Rightarrow> (string \<times> string) list \<Rightarrow> nat option \<Rightarrow> string" where
  "prometheus_labels service extra le =
     label ''service'' (escape_label_value service) @
     concat (map (\<lambda>(name, value). '','' @ label name (escape_label_value value)) extra) @
     (case le of None \<Rightarrow> [] | Some b \<Rightarrow> '','' @ label ''le'' (show_nat b))"

definition push_value :: "string \<Rightarrow> string \<Rightarrow> string \<Rightarrow> string \<Rightarrow> string \<Rightarrow> u64 \<Rightarrow> string" where
  "push_value kind out name help service value =
     writeln (writeln (writeln out [''# HELP '', name, '' '', help]) [''# TYPE '', name, '' '', kind])
       [name, ''{'', label ''service'' service, ''} '', show_nat (unat value)]"

definition push_counter :: "string \<Rightarrow> string \<Rightarrow> string \<Rightarrow> string \<Rightarrow> u64 \<Rightarrow> string" where
  "push_counter = push_value ''counter''"

definition push_gauge :: "string \<Rightarrow> string \<Rightarrow> string \<Rightarrow> string \<Rightarrow> u64 \<Rightarrow> string" where
  "push_gauge = push_value ''gauge''"

definition push_histogram_header :: "string \<Rightarrow> string \<Rightarrow> string \<Rightarrow> string" where
  "push_histogram_header out name help =
     writeln (writeln out [''# HELP '', name, '' '', help]) [''# TYPE '', name, '' histogram'']"

definition push_histogram_samples ::
  "string \<Rightarrow> string \<Rightarrow> string \<Rightarrow> (string \<times> string) list \<Rightarrow> latency_histogram \<Rightarrow> string"
where
  "push_histogram_samples out name service extra h =
     (let buckets = fold (\<lambda>(bucket, count) out.
            writeln out [name, ''_bucket{'', prometheus_labels service extra (Some bucket), ''} '', show_nat count])
            (zip (hg_buckets_ms h) (hg_cumulative_counts h)) out;
          labels = prometheus_labels service extra None;
          inf = writeln buckets [name, ''_bucket{'', labels, '','', label ''le'' ''+Inf'', ''} '', show_nat (hg_count h)]
      in writeln (writeln inf [name, ''_sum{'', labels, ''} '', show_nat (hg_sum_ms h)])
           [name, ''_count{'', labels, ''} '', show_nat (hg_count h)])"

definition push_histogram ::
  "string \<Rightarrow> string \<Rightarrow> string \<Rightarrow> string \<Rightarrow> (string \<times> string) list \<Rightarrow> latency_histogram \<Rightarrow> string"
where
  "push_histogram out name help service extra h =
     push_histogram_samples (push_histogram_header out name help) name service extra h"

text \<open>The histograms of one family, each under its label.\<close>

definition push_family ::
  "string \<Rightarrow> string \<Rightarrow> string \<Rightarrow> string \<Rightarrow> (string \<times> latency_histogram) list \<Rightarrow> string \<Rightarrow> string"
where
  "push_family name help service label_name hs out =
     fold (\<lambda>(key, h) out. push_histogram_samples out name service [(label_name, key)] h) hs
       (if hs = [] then out else push_histogram_header out name help)"

section \<open>Requests\<close>

record http_metrics =
  hm_request_total :: u64
  hm_request_error_total :: u64
  hm_request_latency_ms_total :: u64
  hm_request_latency :: latency_histogram

definition new_http_metrics :: http_metrics where
  "new_http_metrics = \<lparr>hm_request_total = 0, hm_request_error_total = 0, hm_request_latency_ms_total = 0,
     hm_request_latency = new_histogram default_latency_buckets_ms\<rparr>"

definition record_request :: "nat \<Rightarrow> nat \<Rightarrow> http_metrics \<Rightarrow> http_metrics" where
  "record_request status latency m =
     m\<lparr>hm_request_total := hm_request_total m + 1,
       hm_request_latency_ms_total := hm_request_latency_ms_total m + of_nat (duration_ms latency),
       hm_request_latency := record_duration latency (hm_request_latency m),
       hm_request_error_total := hm_request_error_total m + (if status \<ge> 500 then 1 else 0)\<rparr>"

definition render_http :: "http_metrics \<Rightarrow> string \<Rightarrow> string" where
  "render_http m service =
     push_histogram
       (push_counter
         (push_counter
           (push_counter [] ''autvid_http_requests_total'' ''Total HTTP requests handled by service.'' service
             (hm_request_total m))
           ''autvid_http_request_errors_total'' ''Total HTTP requests with 5xx responses.'' service
           (hm_request_error_total m))
         ''autvid_http_request_latency_ms_total'' ''Cumulative HTTP response latency in milliseconds.'' service
         (hm_request_latency_ms_total m))
       ''autvid_http_request_latency_ms'' ''HTTP response latency in milliseconds.'' service [] (hm_request_latency m)"

section \<open>The streaming service\<close>

record stream_metrics =
  sm_http :: http_metrics
  sm_cache_hits :: u64
  sm_cache_misses :: u64
  sm_coalesced :: u64
  sm_fetch_latency :: "(string \<times> latency_histogram) list"

definition new_stream_metrics :: stream_metrics where
  "new_stream_metrics = \<lparr>sm_http = new_http_metrics, sm_cache_hits = 0, sm_cache_misses = 0, sm_coalesced = 0,
     sm_fetch_latency = []\<rparr>"

definition record_segment_cache_hit :: "stream_metrics \<Rightarrow> stream_metrics" where
  "record_segment_cache_hit m = m\<lparr>sm_cache_hits := sm_cache_hits m + 1\<rparr>"

definition record_segment_cache_miss :: "stream_metrics \<Rightarrow> stream_metrics" where
  "record_segment_cache_miss m = m\<lparr>sm_cache_misses := sm_cache_misses m + 1\<rparr>"

definition record_segment_fetch_coalesced :: "stream_metrics \<Rightarrow> stream_metrics" where
  "record_segment_fetch_coalesced m = m\<lparr>sm_coalesced := sm_coalesced m + 1\<rparr>"

definition record_segment_fetch_latency :: "string \<Rightarrow> nat \<Rightarrow> stream_metrics \<Rightarrow> stream_metrics" where
  "record_segment_fetch_latency cache_state d m =
     m\<lparr>sm_fetch_latency := record_labelled cache_state d (sm_fetch_latency m)\<rparr>"

definition render_with_cache :: "stream_metrics \<Rightarrow> segment_cache_snapshot option \<Rightarrow> string" where
  "render_with_cache m segment_cache =
     (let service = ''rust_stream'';
          out = push_counter (render_http (sm_http m) service) ''autvid_stream_segment_cache_hits_total''
            ''Total stream segment cache hits.'' service (sm_cache_hits m);
          out = push_counter out ''autvid_stream_segment_cache_misses_total''
            ''Total stream segment cache misses.'' service (sm_cache_misses m);
          out = push_counter out ''autvid_stream_segment_fetch_coalesced_total''
            ''Total stream segment requests joined to an in-flight fetch.'' service (sm_coalesced m);
          out = push_family ''autvid_stream_segment_fetch_latency_ms''
            ''Stream segment fetch latency in milliseconds.'' service ''cache_state'' (sm_fetch_latency m) out
      in case segment_cache of
           None \<Rightarrow> out
         | Some s \<Rightarrow>
             push_gauge
               (push_gauge
                 (push_counter out ''autvid_stream_segment_cache_evictions_total''
                   ''Total stream segment cache evictions.'' service (of_nat (ss_evictions_total s)))
                 ''autvid_stream_segment_cache_bytes_resident'' ''Current stream segment cache resident bytes.''
                 service (of_nat (ss_bytes_resident s)))
               ''autvid_stream_segment_cache_entries'' ''Current stream segment cache entry count.'' service
               (of_nat (ss_entries s)))"

section \<open>The admin service\<close>

record job_metrics_snapshot =
  jm_queued :: u64
  jm_running :: u64
  jm_failed :: u64
  jm_succeeded :: u64
  jm_oldest_queued_age_seconds :: u64

record admin_metrics =
  am_http :: http_metrics
  am_jobs_started :: u64
  am_jobs_succeeded :: u64
  am_jobs_failed :: u64
  am_ffmpeg_runs :: u64
  am_ffmpeg_duration_ms :: u64
  am_antd_requests :: u64
  am_antd_request_errors :: u64
  am_antd_request_latency_ms :: u64
  am_upload_retries :: u64
  am_ffmpeg_duration :: "(string \<times> latency_histogram) list"
  am_antd_request_latency :: "(string \<times> latency_histogram) list"
  am_job_pickup_latency :: latency_histogram

definition new_admin_metrics :: admin_metrics where
  "new_admin_metrics = \<lparr>am_http = new_http_metrics, am_jobs_started = 0, am_jobs_succeeded = 0, am_jobs_failed = 0,
     am_ffmpeg_runs = 0, am_ffmpeg_duration_ms = 0, am_antd_requests = 0, am_antd_request_errors = 0,
     am_antd_request_latency_ms = 0, am_upload_retries = 0, am_ffmpeg_duration = [], am_antd_request_latency = [],
     am_job_pickup_latency = new_histogram default_latency_buckets_ms\<rparr>"

definition record_job_started :: "admin_metrics \<Rightarrow> admin_metrics" where
  "record_job_started m = m\<lparr>am_jobs_started := am_jobs_started m + 1\<rparr>"

definition record_job_succeeded :: "admin_metrics \<Rightarrow> admin_metrics" where
  "record_job_succeeded m = m\<lparr>am_jobs_succeeded := am_jobs_succeeded m + 1\<rparr>"

definition record_job_failed :: "admin_metrics \<Rightarrow> admin_metrics" where
  "record_job_failed m = m\<lparr>am_jobs_failed := am_jobs_failed m + 1\<rparr>"

definition record_ffmpeg_duration :: "string \<Rightarrow> nat \<Rightarrow> admin_metrics \<Rightarrow> admin_metrics" where
  "record_ffmpeg_duration resolution d m =
     m\<lparr>am_ffmpeg_runs := am_ffmpeg_runs m + 1,
       am_ffmpeg_duration_ms := am_ffmpeg_duration_ms m + of_nat (duration_ms d),
       am_ffmpeg_duration := record_labelled resolution d (am_ffmpeg_duration m)\<rparr>"

definition record_antd_request :: "string \<Rightarrow> nat \<Rightarrow> bool \<Rightarrow> admin_metrics \<Rightarrow> admin_metrics" where
  "record_antd_request endpoint d ok m =
     m\<lparr>am_antd_requests := am_antd_requests m + 1,
       am_antd_request_latency_ms := am_antd_request_latency_ms m + of_nat (duration_ms d),
       am_antd_request_latency := record_labelled endpoint d (am_antd_request_latency m),
       am_antd_request_errors := am_antd_request_errors m + (if ok then 0 else 1)\<rparr>"

definition record_job_pickup_latency :: "nat \<Rightarrow> admin_metrics \<Rightarrow> admin_metrics" where
  "record_job_pickup_latency d m = m\<lparr>am_job_pickup_latency := record_duration d (am_job_pickup_latency m)\<rparr>"

definition record_upload_retry :: "admin_metrics \<Rightarrow> admin_metrics" where
  "record_upload_retry m = m\<lparr>am_upload_retries := am_upload_retries m + 1\<rparr>"

definition render_with_jobs :: "admin_metrics \<Rightarrow> job_metrics_snapshot option \<Rightarrow> string" where
  "render_with_jobs m jobs =
     (let service = ''rust_admin'';
          out = render_http (am_http m) service;
          out = push_counter out ''autvid_admin_jobs_started_total''
            ''Total durable admin jobs started by workers.'' service (am_jobs_started m);
          out = push_counter out ''autvid_admin_jobs_succeeded_total''
            ''Total durable admin jobs completed successfully.'' service (am_jobs_succeeded m);
          out = push_counter out ''autvid_admin_jobs_failed_total''
            ''Total durable admin job attempts that returned an error.'' service (am_jobs_failed m);
          out = push_counter out ''autvid_admin_ffmpeg_runs_total''
            ''Total FFmpeg rendition runs.'' service (am_ffmpeg_runs m);
          out = push_counter out ''autvid_admin_ffmpeg_duration_ms_total''
            ''Cumulative FFmpeg rendition runtime in milliseconds.'' service (am_ffmpeg_duration_ms m);
          out = push_counter out ''autvid_admin_antd_requests_total''
            ''Total outbound requests from rust_admin to antd.'' service (am_antd_requests m);
          out = push_counter out ''autvid_admin_antd_request_errors_total''
            ''Total outbound antd requests that failed before returning usable data.'' service
            (am_antd_request_errors m);
          out = push_counter out ''autvid_admin_antd_request_latency_ms_total''
            ''Cumulative outbound antd request latency in milliseconds.'' service (am_antd_request_latency_ms m);
          out = push_counter out ''autvid_admin_upload_retries_total''
            ''Total retry attempts scheduled for Autonomi uploads and cost quotes by rust_admin.'' service
            (am_upload_retries m);
          out = push_family ''autvid_admin_ffmpeg_duration_ms'' ''FFmpeg rendition runtime in milliseconds.''
            service ''resolution'' (am_ffmpeg_duration m) out;
          out = push_family ''autvid_admin_antd_request_latency_ms''
            ''Outbound antd request latency in milliseconds.'' service ''endpoint'' (am_antd_request_latency m) out;
          out = push_histogram out ''autvid_admin_job_pickup_latency_ms''
            ''Time queued jobs waited before a worker picked them up, in milliseconds.'' service []
            (am_job_pickup_latency m)
      in case jobs of
           None \<Rightarrow> out
         | Some j \<Rightarrow>
             push_gauge
               (push_gauge
                 (push_gauge
                   (push_gauge
                     (push_gauge out ''autvid_admin_jobs_queued'' ''Current queued durable admin jobs.'' service
                       (jm_queued j))
                     ''autvid_admin_jobs_running'' ''Current running durable admin jobs.'' service (jm_running j))
                   ''autvid_admin_jobs_failed'' ''Current failed durable admin jobs.'' service (jm_failed j))
                 ''autvid_admin_jobs_succeeded'' ''Current succeeded durable admin jobs.'' service (jm_succeeded j))
               ''autvid_admin_oldest_queued_job_age_seconds''
               ''Age in seconds of the oldest queued durable admin job.'' service (jm_oldest_queued_age_seconds j))"

section \<open>What a histogram counts\<close>

lemma saturating_add: "saturating_u64 (saturating_u64 a + b) = saturating_u64 (a + b)"
  "saturating_u64 (Suc (saturating_u64 a)) = saturating_u64 (Suc a)"
  by (simp_all add: saturating_u64_def)

lemma fold_buckets:
  "length counts = length bs \<Longrightarrow> n \<le> length bs \<Longrightarrow>
   fold (\<lambda>i cs. if millis \<le> bs ! i then cs[i := saturating_u64 (cs ! i + 1)] else cs) [0..<n] counts =
   map (\<lambda>i. if i < n \<and> millis \<le> bs ! i then saturating_u64 (counts ! i + 1) else counts ! i) [0..<length bs]"
proof (induction n)
  case 0
  then show ?case by (auto intro!: nth_equalityI)
next
  case (Suc n)
  then show ?case by (auto intro!: nth_equalityI simp: nth_list_update less_Suc_eq)
qed

definition counted :: "nat list \<Rightarrow> nat list \<Rightarrow> latency_histogram" where
  "counted bs ms =
     \<lparr>hg_buckets_ms = bs,
      hg_cumulative_counts = map (\<lambda>b. saturating_u64 (length (filter (\<lambda>m. m \<le> b) ms))) bs,
      hg_count = saturating_u64 (length ms), hg_sum_ms = saturating_u64 (sum_list ms)\<rparr>"

lemma counted_Nil: "new_histogram bs = counted bs []"
  by (simp add: new_histogram_def counted_def saturating_u64_def map_replicate_const)

lemma record_counted: "record_ms m (counted bs ms) = counted bs (ms @ [m])"
proof -
  have "fold (\<lambda>i cs. if m \<le> bs ! i then cs[i := saturating_u64 (cs ! i + 1)] else cs) [0..<length bs]
      (map (\<lambda>b. saturating_u64 (length (filter (\<lambda>m. m \<le> b) ms))) bs) =
      map (\<lambda>b. saturating_u64 (length (filter (\<lambda>m. m \<le> b) (ms @ [m])))) bs"
    by (subst fold_buckets) (auto intro!: nth_equalityI simp: saturating_add)
  then show ?thesis
    by (simp add: record_ms_def counted_def saturating_add)
qed

text \<open>
  A histogram counts exactly: after any sequence of durations its cumulative counts are, bucket by
  bucket, the number of durations whose milliseconds do not exceed the bucket, its count is their
  number and its sum their sum, each saturating at 64 bits.
\<close>

theorem histogram_counts_durations:
  "fold record_duration ds (new_histogram bs) = counted bs (map duration_ms ds)"
proof -
  have "fold record_duration ds (counted bs ms) = counted bs (ms @ map duration_ms ds)" for ms
    by (induction ds arbitrary: ms) (simp_all add: record_duration_def record_counted)
  from this [of "[]"] show ?thesis by (simp add: counted_Nil)
qed

section \<open>What a label says\<close>

text \<open>The value of a label as a scraper reads it, up to the closing quote.\<close>

fun read_label :: "string \<Rightarrow> (string \<times> string) option" where
  "read_label [] = None"
| "read_label (c # s) =
     (if c = CHR 0x22 then Some ([], s)
      else if c = CHR 0x5C then
        (case s of
           [] \<Rightarrow> None
         | d # s' \<Rightarrow>
             map_option (\<lambda>(value, rest).
               ((if d = CHR ''n'' then newline_char else d) # value, rest)) (read_label s'))
      else map_option (\<lambda>(value, rest). (c # value, rest)) (read_label s))"

lemma replace_char_simps:
  "replace_char c by [] = []"
  "replace_char c by (x # s) = (if x = c then by else [x]) @ replace_char c by s"
  "replace_char c by (s @ t) = replace_char c by s @ replace_char c by t"
  by (simp_all add: replace_char_def)

lemma escape_simps:
  "escape_label_value [] = []"
  "escape_label_value (c # s) =
     (if c = CHR 0x5C then [CHR 0x5C, CHR 0x5C] else if c = CHR 0x22 then [CHR 0x5C, CHR 0x22]
      else if c = newline_char then [CHR 0x5C, CHR ''n''] else [c]) @ escape_label_value s"
  by (simp_all add: escape_label_value_def replace_char_simps newline_char_def)

text \<open>
  Labels cannot break a scrape: whatever text a label value is, its escaped form contains no line
  feed, and a scraper that reads the quoted form gets the text back and stops at the closing quote.
\<close>

theorem label_reads_back:
  "read_label (escape_label_value v @ CHR 0x22 # rest) = Some (v, rest) \<and>
   newline_char \<notin> set (escape_label_value v)"
  by (induction v) (auto simp: escape_simps newline_char_def)

end
