(* ===== verification/Job_Worker.thy ===== *)
theory Job_Worker
  imports Admin_Runs Media_Tools Upload_Intake Service_Metrics
begin

text \<open>
  The workers of the admin service (\<open>crates/rust_admin/src/jobs/lease_worker.rs\<close>, \<open>recovery.rs\<close>,
  \<open>pipeline/process.rs\<close>): what each kind of job does between its acquisition and its outcome, as a
  sequence of transactions. An attempt carries the database; before each of its steps everybody else
  commits what the world says, and the attempt may be dropped there, because its lease is lost or the
  service stops. The transactions an attempt commits are kept in a log.
  Files that a job removes or writes are not modelled.
\<close>

section \<open>Attempts\<close>

record attempt =
  at_db :: admin_db
  at_steps :: nat
  at_writes :: "(int \<times> admin_db \<times> admin_db) list"
  at_metrics :: admin_metrics

record attempt_world =
  aw_at :: "nat \<Rightarrow> int"
  aw_others :: "nat \<Rightarrow> admin_db \<Rightarrow> admin_db"
  aw_stops :: "nat \<Rightarrow> bool"

text \<open>A stopped task is dropped where it waits: nothing after that point runs.\<close>

datatype 'a outcome = Stopped | Ended "'a api"

type_synonym 'a task = "attempt \<Rightarrow> 'a outcome \<times> attempt"

definition give :: "'a api \<Rightarrow> 'a task" where
  "give r s = (Ended r, s)"

definition tbind :: "'a task \<Rightarrow> ('a \<Rightarrow> 'b task) \<Rightarrow> 'b task" where
  "tbind m f s = (case m s of
     (Stopped, s') \<Rightarrow> (Stopped, s') | (Ended (Inl e), s') \<Rightarrow> (Ended (Inl e), s') | (Ended (Inr x), s') \<Rightarrow> f x s')"

text \<open>A transaction, a transaction that no longer waits for the lease or the shutdown, and a read.\<close>

definition commit :: "attempt_world \<Rightarrow> (int \<Rightarrow> admin_db \<Rightarrow> 'a api \<times> admin_db) \<Rightarrow> attempt \<Rightarrow> 'a api \<times> attempt" where
  "commit w f s =
     (let now = aw_at w (at_steps s); db = aw_others w (at_steps s) (at_db s); (r, db') = f now db
      in (r, s\<lparr>at_db := db', at_steps := at_steps s + 1, at_writes := at_writes s @ [(now, db, db')]\<rparr>))"

definition transact_fenced :: "attempt_world \<Rightarrow> (int \<Rightarrow> admin_db \<Rightarrow> 'a api \<times> admin_db) \<Rightarrow> 'a task" where
  "transact_fenced w f s =
     (if aw_stops w (at_steps s) then (Stopped, s) else (let (r, s') = commit w f s in (Ended r, s')))"

definition look :: "attempt_world \<Rightarrow> (int \<Rightarrow> admin_db \<Rightarrow> 'a api) \<Rightarrow> 'a task" where
  "look w f s =
     (if aw_stops w (at_steps s) then (Stopped, s)
      else (let db = aw_others w (at_steps s) (at_db s)
            in (Ended (f (aw_at w (at_steps s)) db), s\<lparr>at_db := db, at_steps := at_steps s + 1\<rparr>)))"

fun each_task :: "('a \<Rightarrow> unit task) \<Rightarrow> 'a list \<Rightarrow> unit task" where
  "each_task f [] = give (Inr ())"
| "each_task f (x # xs) = tbind (f x) (\<lambda>_. each_task f xs)"

section \<open>What an attempt works with\<close>

text \<open>
  \<open>jt_renditions\<close> gives, for the scheduled renditions, the order in which their tasks end and what each
  met; \<open>jt_uploads\<close> the order in which the uploads end and their answers.
\<close>

record job_tools =
  jt_path :: "string \<Rightarrow> path"
  jt_exists :: "string \<Rightarrow> bool"
  jt_read_dir :: "string \<Rightarrow> (string \<times> bool) list option"
  jt_media :: media_env
  jt_duration :: tool_run
  jt_dimensions :: tool_run
  jt_renditions :: "(nat \<times> string) list \<Rightarrow> (nat \<times> string \<times> (string + rendition_world)) list"
  jt_variant_id :: "nat \<Rightarrow> string"
  jt_quote :: quote_env
  jt_quote_id :: string
  jt_uploads :: "planned_file list \<Rightarrow> (planned_file \<times> (string + file_result)) list"
  jt_put_manifest :: "video_manifest_document \<Rightarrow> string \<Rightarrow> string + string"
  jt_put_document :: put_fn
  jt_upload_verify :: bool
  jt_activate_lease :: "payment_lease \<Rightarrow> string + unit"

definition decode_requested_resolutions :: "json option \<Rightarrow> string list" where
  "decode_requested_resolutions value =
     (case value of
        Some (JArray items) \<Rightarrow> filter (\<lambda>i. resolution_preset i \<noteq> None) (List.map_filter json_as_str items)
      | Some (JString s) \<Rightarrow> parse_resolutions s
      | _ \<Rightarrow> [])"

text \<open>An entry of a directory is its name and whether it is a file.\<close>

definition recover_source_path :: "job_tools \<Rightarrow> string option \<Rightarrow> string option \<Rightarrow> string option" where
  "recover_source_path t job_dir job_source_path =
     (case filter_option (jt_exists t) job_source_path of
        Some p \<Rightarrow> Some p
      | None \<Rightarrow>
          Option.bind job_dir (\<lambda>dir.
          Option.bind (jt_read_dir t dir) (\<lambda>entries.
          (case sort (map fst (filter (\<lambda>(name, is_file). is_file \<and> valid_utf8 name \<and> prefix ''original_'' name) entries)) of
             [] \<Rightarrow> None | name # _ \<Rightarrow> Some (dir @ ''/'' @ name)))))"

section \<open>Processing a video\<close>

definition rendition_completion ::
  "job_tools \<Rightarrow> path \<Rightarrow> path \<Rightarrow> encode_settings \<Rightarrow> (int \<times> int) option \<Rightarrow>
     nat \<times> string \<times> (string + rendition_world) \<Rightarrow> completion option"
where
  "rendition_completion t source_path job_dir settings dimensions made =
     (case made of (order, resolution, how) \<Rightarrow>
        (case how of
           Inl e \<Rightarrow> Some (Cancelled e)
         | Inr rw \<Rightarrow> map_option Finished
             (transcode_one_rendition (jt_media t) source_path job_dir order resolution dimensions settings rw)))"

text \<open>A task that panics ends the process: the attempt is dropped with everything else.\<close>

definition make_renditions ::
  "job_tools \<Rightarrow> path \<Rightarrow> path \<Rightarrow> encode_settings \<Rightarrow> string list \<Rightarrow> (int \<times> int) option \<Rightarrow> transcoded_rendition list task"
where
  "make_renditions t source_path job_dir settings resolutions dimensions s =
     (case those (map (rendition_completion t source_path job_dir settings dimensions)
         (jt_renditions t (scheduled_renditions resolutions))) of
        None \<Rightarrow> (Stopped, s)
      | Some completions \<Rightarrow> (Ended (transcode_renditions resolutions completions), s))"

definition codec_as_str :: "video_codec \<Rightarrow> string" where
  "codec_as_str c = (case c of H264 \<Rightarrow> ''h264'' | Hevc \<Rightarrow> ''hevc'')"

definition variant_of_rendition ::
  "job_tools \<Rightarrow> string \<Rightarrow> f64 \<Rightarrow> nat \<times> transcoded_rendition \<Rightarrow> variant_row \<times> rendition_segment list"
where
  "variant_of_rendition t video_id total_duration made =
     (case made of (k, r) \<Rightarrow>
        (\<lparr>vr_id = jt_variant_id t k, vr_video_id = video_id, vr_resolution = tr_resolution r, vr_width = tr_width r,
          vr_height = tr_height r, vr_video_bitrate = wrap_signed 32 (tr_video_kbps r * 1000),
          vr_audio_bitrate = wrap_signed 32 (tr_audio_kbps r * 1000), vr_video_codec = codec_as_str (tr_video_codec r),
          vr_segment_container = tr_segment_container r,
          vr_segment_duration = me_hls_segment_duration (jt_media t), vr_total_duration = Some total_duration,
          vr_segment_count = Some (wrap_signed 32 (int (length (tr_segments r))))\<rparr>,
         map (\<lambda>g. \<lparr>rs_segment_index = ts_segment_index g, rs_duration = ts_duration g, rs_byte_size = ts_byte_size g,
           rs_local_path = show_path (ts_local_path g)\<rparr>) (tr_segments r)))"

text \<open>The final quote reads the database where the code does; other transactions run in between.\<close>

definition build_quote :: "attempt_world \<Rightarrow> job_tools \<Rightarrow> string \<Rightarrow> final_quote task" where
  "build_quote w t video_id =
     (let snap = look w (\<lambda>now db. Inr (now, db))
      in tbind snap (\<lambda>(_, d1). tbind snap (\<lambda>(_, d2). tbind snap (\<lambda>(_, d3). tbind snap (\<lambda>(_, d4).
         tbind snap (\<lambda>(now, d5). tbind snap (\<lambda>(_, d6).
         give (build_final_upload_quote (jt_quote t) (jt_quote_id t) now video_id
           \<lparr>qr_files = d1, qr_manifest = d2, qr_revision = d3, qr_catalog = d4, qr_entry = d5, qr_end = d6\<rparr>))))))))"

definition processing_expiry :: "int \<Rightarrow> int \<Rightarrow> int" where
  "processing_expiry now ttl = now + 1000 * ttl"

definition require_video :: "string \<Rightarrow> int \<Rightarrow> admin_db \<Rightarrow> unit api" where
  "require_video video_id now db =
     (if exists_where (\<lambda>v. vd_id v = video_id) (videos db) then Inr ()
      else Inl (Api 500 (''Video row '' @ video_id @ '' disappeared before processing'')))"

definition process_video_inner ::
  "attempt_world \<Rightarrow> job_tools \<Rightarrow> job_lease option \<Rightarrow> string \<Rightarrow> string \<Rightarrow> string list \<Rightarrow> string \<Rightarrow> bool \<Rightarrow>
     encode_settings \<Rightarrow> unit task"
where
  "process_video_inner w t lease video_id source_path resolutions job_dir reset_existing settings =
     tbind (if reset_existing then transact_fenced w (\<lambda>now. reset_variants now lease video_id) else give (Inr ())) (\<lambda>_.
     tbind (transact_fenced w (\<lambda>now. set_status now lease video_id ''processing'' None)) (\<lambda>_.
     tbind (look w (require_video video_id)) (\<lambda>_.
     tbind (give (probe_duration (jt_media t) (jt_path t source_path) (jt_duration t))) (\<lambda>probed.
     tbind (give (probe_video_dimensions (jt_media t) (jt_path t source_path) (jt_dimensions t))) (\<lambda>dimensions.
     tbind (make_renditions t (jt_path t source_path) (jt_path t job_dir) settings resolutions dimensions) (\<lambda>renditions.
     tbind (each_task (\<lambda>(variant, segments). transact_fenced w (\<lambda>now. insert_rendition now lease variant segments))
       (map (variant_of_rendition t video_id (case probed of Some d \<Rightarrow> d | None \<Rightarrow> Fin 0)) (enumerate 0 renditions))) (\<lambda>_.
     tbind (build_quote w t video_id) (\<lambda>quote.
     transact_fenced w (\<lambda>now. set_awaiting_approval now lease video_id quote (processing_expiry now (qe_ttl (jt_quote t))))))))))))"

definition missing_video_id :: "string \<Rightarrow> api_error" where
  "missing_video_id name = Api 500 (name @ '' job is missing video_id'')"

definition default_encode_settings :: encode_settings where
  "default_encode_settings =
     \<lparr>es_video_codec = H264, es_video_bitrate_overrides = [], es_audio_bitrate_kbps = None\<rparr>"

definition run_process_video_job ::
  "attempt_world \<Rightarrow> job_tools \<Rightarrow> job_lease option \<Rightarrow> string option \<Rightarrow> unit task"
where
  "run_process_video_job w t lease video =
     (case video of
        None \<Rightarrow> give (Inl (missing_video_id ''Process video''))
      | Some video_id \<Rightarrow>
          tbind (look w (\<lambda>now db. Inr (fetch_optional (\<lambda>v. vd_id v = video_id) (videos db)))) (\<lambda>row.
          (case row of
             None \<Rightarrow> give (Inr ())
           | Some v \<Rightarrow>
               if vd_status v \<notin> {''pending'', ''processing''} then give (Inr ())
               else
                 (case vd_job_dir v of
                    None \<Rightarrow> give (Inl (Api 500 ''Processing job is missing job_dir''))
                  | Some job_dir \<Rightarrow>
                      (let resolutions = decode_requested_resolutions
                             (map_option (\<lambda>rs. JArray (map JString rs)) (vd_requested_resolutions v))
                       in case recover_source_path t (Some job_dir) (vd_job_source_path v) of
                            None \<Rightarrow> give (Inl (Api 500 ''Processing job is missing its source file''))
                          | Some source_path \<Rightarrow>
                              if resolutions = []
                              then give (Inl (Api 500 ''Processing job has no supported requested resolutions''))
                              else process_video_inner w t lease video_id source_path resolutions job_dir True
                                (case vd_encode_settings v of Some settings \<Rightarrow> settings
                                 | None \<Rightarrow> default_encode_settings))))))"

section \<open>Uploading a video\<close>

definition check_catalog_paid :: "quote_env \<Rightarrow> upload_plan \<Rightarrow> string \<Rightarrow> int \<Rightarrow> admin_db \<Rightarrow> unit api" where
  "check_catalog_paid env plan video_id now db = paid_phase (check_catalog env plan video_id db)"

definition store_upload_catalogs :: "put_fn \<Rightarrow> upload_plan \<Rightarrow> unit api" where
  "store_upload_catalogs put plan = paid_phase
     (rbind (store_planned put (up_catalog plan) (up_catalog_quote plan)) (\<lambda>_.
      store_planned put (up_all_catalog plan) (up_all_catalog_quote plan)))"

definition record_answer ::
  "attempt_world \<Rightarrow> job_tools \<Rightarrow> job_lease option \<Rightarrow> string \<Rightarrow> planned_file \<times> (string + file_result) \<Rightarrow> unit task"
where
  "record_answer w t lease video_id done =
     (case snd done of
        Inl e \<Rightarrow> give (paid_phase (Inl (payment_api e)))
      | Inr r \<Rightarrow> transact_fenced w (\<lambda>now. record_upload (jt_upload_verify t) now lease video_id (fst done) r))"

definition upload_approved_video_inner ::
  "attempt_world \<Rightarrow> job_tools \<Rightarrow> job_lease option \<Rightarrow> string \<Rightarrow> unit task"
where
  "upload_approved_video_inner w t lease video_id =
     tbind (look w (\<lambda>now db. Inr (now, db))) (\<lambda>(now, d1).
     tbind (look w (\<lambda>_ d2. upload_begin (jt_quote t) now video_id d1 d2)) (\<lambda>plan.
     tbind (each_task (record_answer w t lease video_id) (jt_uploads t (up_files plan))) (\<lambda>_.
     tbind (give (store_manifest (jt_put_manifest t) plan)) (\<lambda>_.
     tbind (look w (check_catalog_paid (jt_quote t) plan video_id)) (\<lambda>_.
     tbind (give (store_upload_catalogs (jt_put_document t) plan)) (\<lambda>_.
     transact_fenced w (\<lambda>now. upload_commit now lease video_id plan)))))))"

definition run_upload_video_job ::
  "attempt_world \<Rightarrow> job_tools \<Rightarrow> job_lease option \<Rightarrow> string option \<Rightarrow> unit task"
where
  "run_upload_video_job w t lease video =
     (case video of
        None \<Rightarrow> give (Inl (missing_video_id ''Upload video''))
      | Some video_id \<Rightarrow>
          tbind (look w (\<lambda>now db. Inr (fetch_optional (\<lambda>v. vd_id v = video_id) (videos db)))) (\<lambda>row.
          (case row of
             None \<Rightarrow> give (Inr ())
           | Some v \<Rightarrow> if vd_status v \<noteq> ''uploading'' then give (Inr ())
                       else upload_approved_video_inner w t lease video_id)))"

section \<open>The other kinds\<close>

definition run_catalog_publish_job :: "attempt_world \<Rightarrow> job_tools \<Rightarrow> job_lease option \<Rightarrow> unit task" where
  "run_catalog_publish_job w t lease =
     tbind (look w (\<lambda>now db. prepare_check now lease db)) (\<lambda>_.
     tbind (look w (\<lambda>now d1. Inr d1)) (\<lambda>d1.
     tbind (look w (\<lambda>now d2. prepare_plan (qe_digest (jt_quote t)) (qe_catalog_cost (jt_quote t))
              (qe_metadata_mode (jt_quote t)) (qe_ttl (jt_quote t)) (jt_quote_id t) now d1 d2)) (\<lambda>plan.
     transact_fenced w (\<lambda>now. prepare_commit now lease plan))))"

definition run_finalize_catalog_job :: "attempt_world \<Rightarrow> job_tools \<Rightarrow> job_lease option \<Rightarrow> unit task" where
  "run_finalize_catalog_job w t lease =
     tbind (transact_fenced w (\<lambda>now. finalize_begin now lease)) (\<lambda>begun.
     (case begun of
        None \<Rightarrow> give (Inr ())
      | Some plan \<Rightarrow>
          tbind (give (store_catalog (jt_put_document t) plan)) (\<lambda>_.
          transact_fenced w (\<lambda>now. finalize_commit now lease plan))))"

definition run_quote_video_job ::
  "attempt_world \<Rightarrow> job_tools \<Rightarrow> job_lease option \<Rightarrow> string option \<Rightarrow> unit task"
where
  "run_quote_video_job w t lease video =
     (case video of
        None \<Rightarrow> give (Inl (Api 409 ''Quote job has no video''))
      | Some video_id \<Rightarrow>
          tbind (build_quote w t video_id) (\<lambda>quote.
          (case fq_plan quote of
             None \<Rightarrow> give (Inl (Api 409 ''Quote expiry missing''))
           | Some plan \<Rightarrow> transact_fenced w (\<lambda>now. set_awaiting_approval now lease video_id quote
               (1000 * pa_expires_at (up_approval plan))))))"

definition lease_of_job :: "leased_job \<Rightarrow> job_lease" where
  "lease_of_job job = \<lparr>jl_id = lj_id job, jl_owner = lj_lease_owner job, jl_generation = lj_attempts job\<rparr>"

definition run_leased_job :: "attempt_world \<Rightarrow> job_tools \<Rightarrow> leased_job \<Rightarrow> unit task" where
  "run_leased_job w t job =
     (let lease = Some (lease_of_job job)
      in tbind (look w (\<lambda>now. update_payment_lease (jt_activate_lease t) now job)) (\<lambda>_.
         (case lj_kind job of
            ProcessVideo \<Rightarrow> run_process_video_job w t lease (lj_video_id job)
          | job_kind.UploadVideo \<Rightarrow> run_upload_video_job w t lease (lj_video_id job)
          | PublishCatalog \<Rightarrow> run_catalog_publish_job w t lease
          | FinalizeCatalog \<Rightarrow> run_finalize_catalog_job w t lease
          | QuoteVideo \<Rightarrow> run_quote_video_job w t lease (lj_video_id job))))"

section \<open>The worker\<close>

definition count_metrics :: "(admin_metrics \<Rightarrow> admin_metrics) \<Rightarrow> attempt \<Rightarrow> attempt" where
  "count_metrics f s = s\<lparr>at_metrics := f (at_metrics s)\<rparr>"

text \<open>The outcome of an attempt is recorded even when the service stops meanwhile.\<close>

definition conclude ::
  "attempt_world \<Rightarrow> (string \<Rightarrow> string \<Rightarrow> bool) \<Rightarrow> leased_job \<Rightarrow> unit api \<Rightarrow> attempt \<Rightarrow> attempt"
where
  "conclude w cancel job result s =
     (case result of
        Inr _ \<Rightarrow> snd (commit w (\<lambda>now db. map_prod Inr id (mark_job_succeeded now job db))
          (count_metrics record_job_succeeded s))
      | Inl e \<Rightarrow> snd (commit w (\<lambda>now. mark_job_failed cancel now job (api_detail e))
          (count_metrics record_job_failed s)))"

datatype turn_end = Waits | Continues | Stops

text \<open>\<open>shutting_down\<close> says why an attempt that was dropped was dropped.\<close>

definition worker_turn ::
  "attempt_world \<Rightarrow> int \<Rightarrow> job_tools \<Rightarrow> (string \<Rightarrow> string \<Rightarrow> bool) \<Rightarrow> bool \<Rightarrow> string \<Rightarrow> attempt \<Rightarrow> turn_end \<times> attempt"
where
  "worker_turn w lease_seconds t cancel shutting_down worker_id s =
     (case commit w (\<lambda>now. acquire_next_job now lease_seconds worker_id) s of
        (Inl e, s1) \<Rightarrow> (Waits, s1)
      | (Inr None, s1) \<Rightarrow> (Waits, s1)
      | (Inr (Some job), s1) \<Rightarrow>
          (case run_leased_job w t job (count_metrics record_job_started s1) of
             (Ended result, s2) \<Rightarrow> (Continues, conclude w cancel job result s2)
           | (Stopped, s2) \<Rightarrow>
               if shutting_down
               then (Stops, snd (commit w (\<lambda>now db. (Inr (), mark_job_interrupted now (lj_id job) worker_id db)) s2))
               else (Continues, s2)))"

text \<open>The turns of a worker until it is told to stop.\<close>

fun job_worker_loop ::
  "int \<Rightarrow> string \<Rightarrow> (bool \<times> attempt_world \<times> job_tools \<times> (string \<Rightarrow> string \<Rightarrow> bool) \<times> bool) list \<Rightarrow> attempt \<Rightarrow> attempt"
where
  "job_worker_loop lease_seconds worker_id [] s = s"
| "job_worker_loop lease_seconds worker_id ((cancelled, w, t, cancel, shutting_down) # turns) s =
     (if cancelled then s
      else
        (case worker_turn w lease_seconds t cancel shutting_down worker_id s of
           (Stops, s') \<Rightarrow> s'
         | (_, s') \<Rightarrow> job_worker_loop lease_seconds worker_id turns s'))"

section \<open>Keeping the lease\<close>

text \<open>Milliseconds; the product is taken in 64 bits.\<close>

definition renewal_interval :: "int \<Rightarrow> int" where
  "renewal_interval lease_seconds = max 100 ((max 1 lease_seconds * 1000) mod 2 ^ 64 div 3)"

definition maintain_round ::
  "(payment_lease \<Rightarrow> string + unit) \<Rightarrow> int \<Rightarrow> int \<Rightarrow> int \<Rightarrow> leased_job \<Rightarrow> admin_db \<Rightarrow> unit api \<times> admin_db"
where
  "maintain_round activate_lease now later lease_seconds job db =
     (case renew_lease now lease_seconds job db of
        (True, db') \<Rightarrow>
          (case update_payment_lease activate_lease later job db' of Inl e \<Rightarrow> (Inl e, db') | Inr _ \<Rightarrow> (Inr (), db'))
      | (False, db') \<Rightarrow> (Inl (Api 409 ''Job lease ownership lost''), db'))"

end
