(* ===== verification/Worker_Properties.thy ===== *)
theory Worker_Properties
  imports Job_Properties Job_Worker
begin

text \<open>
  What the workers guarantee: an attempt writes only while its lease lives, a worker that renews in time
  keeps its job, and the expiry a processed video shows.
\<close>

section \<open>An attempt writes under its lease\<close>

definition under_lease :: "job_lease \<Rightarrow> int \<times> admin_db \<times> admin_db \<Rightarrow> bool" where
  "under_lease l write = (case write of (now, db, db') \<Rightarrow> db' = db \<or> owns_lease now l db)"

definition fenced_op :: "job_lease \<Rightarrow> (int \<Rightarrow> admin_db \<Rightarrow> 'a api \<times> admin_db) \<Rightarrow> bool" where
  "fenced_op l f \<longleftrightarrow> (\<forall>now db. snd (f now db) = db \<or> owns_lease now l db)"

definition fenced :: "job_lease \<Rightarrow> 'a task \<Rightarrow> bool" where
  "fenced l m \<longleftrightarrow> (\<forall>s. list_all (under_lease l) (at_writes s) \<longrightarrow> list_all (under_lease l) (at_writes (snd (m s))))"

named_theorems fenced_intros

lemma fenced_give [fenced_intros]: "fenced l (give r)"
  by (simp add: fenced_def give_def)

lemma fenced_look [fenced_intros]: "fenced l (look w f)"
  by (simp add: fenced_def look_def Let_def)

lemma fenced_renditions [fenced_intros]: "fenced l (make_renditions t src dir settings rs dims)"
  by (simp add: fenced_def make_renditions_def split: option.split)

lemma fenced_tbind [fenced_intros]:
  assumes "fenced l m" "\<And>x. fenced l (f x)"
  shows "fenced l (tbind m f)"
  unfolding fenced_def
proof (intro allI impI)
  fix s :: attempt
  assume "list_all (under_lease l) (at_writes s)"
  with assms(1) have m: "list_all (under_lease l) (at_writes (snd (m s)))" by (simp add: fenced_def)
  obtain r s' where ms: "m s = (r, s')" by (cases "m s")
  with m have "list_all (under_lease l) (at_writes s')" by simp
  with assms(2) ms show "list_all (under_lease l) (at_writes (snd (tbind m f s)))"
    by (cases r) (auto simp: tbind_def fenced_def split: sum.split)
qed

lemma commit_fenced:
  "fenced_op l f \<Longrightarrow> list_all (under_lease l) (at_writes s) \<Longrightarrow> list_all (under_lease l) (at_writes (snd (commit w f s)))"
  by (auto simp: commit_def fenced_op_def under_lease_def Let_def split_beta)

lemma fenced_transact [fenced_intros]: "fenced_op l f \<Longrightarrow> fenced l (transact_fenced w f)"
  by (simp add: fenced_def transact_fenced_def split_beta Let_def commit_fenced)

lemma fenced_each [fenced_intros]: "(\<And>x. fenced l (f x)) \<Longrightarrow> fenced l (each_task f xs)"
  by (induction xs) (auto intro: fenced_intros)

lemma fenced_case_prod [fenced_intros]: "(\<And>a b. fenced l (f a b)) \<Longrightarrow> fenced l (case x of (a, b) \<Rightarrow> f a b)"
  and fenced_if [fenced_intros]: "fenced l a \<Longrightarrow> fenced l b \<Longrightarrow> fenced l (if c then a else b)"
  and fenced_option [fenced_intros]:
    "fenced l a \<Longrightarrow> (\<And>y. fenced l (g y)) \<Longrightarrow> fenced l (case z of None \<Rightarrow> a | Some y \<Rightarrow> g y)"
  and fenced_Let [fenced_intros]: "(\<And>y. fenced l (g' y)) \<Longrightarrow> fenced l (Let v g')"
  by (auto split: option.split prod.split simp: Let_def)

lemma begin_fenced_Inr: "begin_fenced now (Some l) db = Inr u \<Longrightarrow> owns_lease now l db"
  by (simp add: begin_fenced_def split: if_splits)

lemma execute_fenced_op: "fenced_op l (\<lambda>now. execute_fenced now (Some l) (query now))"
  by (auto simp: fenced_op_def execute_fenced_def dest: begin_fenced_Inr split: sum.split)

lemma fenced_ops [fenced_intros]:
  "fenced_op l (\<lambda>now. reset_variants now (Some l) v)"
  "fenced_op l (\<lambda>now. set_status now (Some l) v st m)"
  "fenced_op l (\<lambda>now. set_awaiting_approval now (Some l) v q (e now))"
  by (simp_all add: reset_variants_def set_status_def set_awaiting_approval_def execute_fenced_op)

lemma fenced_insert [fenced_intros]: "fenced_op l (\<lambda>now. insert_rendition now (Some l) variant segments)"
  and fenced_upload_commit [fenced_intros]: "fenced_op l (\<lambda>now. upload_commit now (Some l) v plan)"
  and fenced_prepare [fenced_intros]: "fenced_op l (\<lambda>now. prepare_commit now (Some l) cplan)"
  and fenced_finalize [fenced_intros]: "fenced_op l (\<lambda>now. finalize_commit now (Some l) cplan)"
  by (auto simp: fenced_op_def insert_rendition_def upload_commit_def prepare_commit_def finalize_commit_def
      dest: begin_fenced_Inr split: sum.split)

lemma fenced_finalize_begin [fenced_intros]: "fenced_op l (\<lambda>now. finalize_begin now (Some l))"
proof -
  have "snd (execute_fenced now (Some l) q db) = db \<or> owns_lease now l db" for now q db
    using execute_fenced_op [of l "\<lambda>_. q"] by (simp add: fenced_op_def)
  then have "execute_fenced now (Some l) q db = (r, db') \<Longrightarrow> db' = db \<or> owns_lease now l db" for now q db r db'
    by (metis snd_conv)
  then show ?thesis
    by (fastforce simp: fenced_op_def finalize_begin_def split: option.split prod.split sum.split)
qed

lemma fenced_record [fenced_intros]: "fenced_op l (\<lambda>now. record_upload verify now (Some l) v file r)"
proof -
  have "snd (execute_fenced now (Some l) q db) = db \<or> owns_lease now l db" for now q db
    using execute_fenced_op [of l "\<lambda>_. q"] by (simp add: fenced_op_def)
  then show ?thesis
    by (auto simp: fenced_op_def record_upload_def split_beta split: sum.split)
qed

lemma fenced_quote [fenced_intros]: "fenced l (build_quote w t v)"
  unfolding build_quote_def Let_def split_beta by (intro fenced_intros)

lemma fenced_process [fenced_intros]: "fenced l (process_video_inner w t (Some l) v src rs dir reset settings)"
  unfolding process_video_inner_def by (intro fenced_intros)

lemma fenced_process_job [fenced_intros]: "fenced l (run_process_video_job w t (Some l) v)"
  unfolding run_process_video_job_def by (intro fenced_intros)

lemma fenced_answer [fenced_intros]: "fenced l (record_answer w t (Some l) v done)"
  unfolding record_answer_def by (auto split: sum.split intro: fenced_intros)

lemma fenced_upload [fenced_intros]: "fenced l (run_upload_video_job w t (Some l) v)"
  unfolding run_upload_video_job_def upload_approved_video_inner_def by (intro fenced_intros)

lemma fenced_publish [fenced_intros]: "fenced l (run_catalog_publish_job w t (Some l))"
  unfolding run_catalog_publish_job_def by (intro fenced_intros)

lemma fenced_finalize_job [fenced_intros]: "fenced l (run_finalize_catalog_job w t (Some l))"
  unfolding run_finalize_catalog_job_def by (intro fenced_intros)

lemma fenced_quote_job [fenced_intros]: "fenced l (run_quote_video_job w t (Some l) v)"
  unfolding run_quote_video_job_def by (intro fenced_intros)

lemma fenced_job: "fenced (lease_of_job job) (run_leased_job w t job)"
  unfolding run_leased_job_def Let_def
  by (cases "lj_kind job") (simp_all, (intro fenced_intros)+)

lemma lease_of_job_eq: "lease_of_job job = active_lease job"
  by (simp add: lease_of_job_def active_lease_def)

lemma fenced_outcome:
  "fenced_op (lease_of_job job) (\<lambda>now. mark_job_failed cancel now job detail)"
  "fenced_op (lease_of_job job) (\<lambda>now db. map_prod Inr id (mark_job_succeeded now job db))"
proof -
  have "owns_lease now (lease_of_job job) db" if "\<not> (\<forall>r \<in> set (video_jobs db). \<not> owned now job r)" for now db
    using that by (auto simp: lease_of_job_eq owns_lease_owned)
  then show "fenced_op (lease_of_job job) (\<lambda>now. mark_job_failed cancel now job detail)"
    "fenced_op (lease_of_job job) (\<lambda>now db. map_prod Inr id (mark_job_succeeded now job db))"
    unfolding fenced_op_def by (metis snd_conv unowned_changes_nothing(3), metis map_prod_simp id_apply snd_conv unowned_changes_nothing(2))
qed

lemma conclude_fenced:
  "list_all (under_lease (lease_of_job job)) (at_writes s) \<Longrightarrow>
   list_all (under_lease (lease_of_job job)) (at_writes (conclude w cancel job r s))"
  by (cases r) (simp_all add: conclude_def count_metrics_def commit_fenced fenced_outcome)

lemma interrupted_nothing:
  "\<not> exists_where (\<lambda>r. jb_id r = job_id \<and> jb_status r = ''running'' \<and> jb_lease_owner r = Some worker) (video_jobs db) \<Longrightarrow>
   mark_job_interrupted now job_id worker db = db"
  by (auto simp: mark_job_interrupted_def update_where_def intro!: admin_db.equality map_idI)

text \<open>One attempt of a leased job: its work, and the outcome it records unless it was dropped.\<close>

definition leased_attempt ::
  "attempt_world \<Rightarrow> job_tools \<Rightarrow> (string \<Rightarrow> string \<Rightarrow> bool) \<Rightarrow> bool \<Rightarrow> leased_job \<Rightarrow> admin_db \<Rightarrow> attempt"
where
  "leased_attempt w t cancel shutting_down job db =
     (case run_leased_job w t job
         \<lparr>at_db = db, at_steps = 0, at_writes = [], at_metrics = new_admin_metrics\<rparr> of
        (Stopped, s) \<Rightarrow>
          if shutting_down
          then snd (commit w (\<lambda>now db. (Inr (), mark_job_interrupted now (lj_id job) (lj_lease_owner job) db)) s)
          else s
      | (Ended r, s) \<Rightarrow> conclude w cancel job r s)"

text \<open>C9. Every transaction that an attempt commits, whatever its kind, at whatever step it is dropped, and
  whatever everybody else commits between its steps, leaves the database as it is unless the attempt
  owns its lease at that instant: from the first write of its work to the outcome it records. The one
  exception is the release of the job when the service stops, which needs no live lease: it queues the
  job again while it still runs under the name of this worker.
\<close>

theorem attempt_writes_under_its_lease:
  "list_all (\<lambda>(now, db, db'). db' = db \<or> owns_lease now (lease_of_job job) db \<or>
       shutting_down \<and> db' = mark_job_interrupted now (lj_id job) (lj_lease_owner job) db \<and>
       exists_where (\<lambda>r. jb_id r = lj_id job \<and> jb_status r = ''running'' \<and> jb_lease_owner r = Some (lj_lease_owner job))
         (video_jobs db))
     (at_writes (leased_attempt w t cancel shutting_down job db0))"
proof -
  let ?s = "\<lparr>at_db = db0, at_steps = 0, at_writes = [], at_metrics = new_admin_metrics\<rparr>"
  obtain r s where run: "run_leased_job w t job ?s = (r, s)" by (cases "run_leased_job w t job ?s")
  with fenced_job [of job w t] have work: "list_all (under_lease (lease_of_job job)) (at_writes s)"
    unfolding fenced_def by (drule_tac spec [where x = ?s]) simp
  show ?thesis
  proof (cases "r = Stopped \<and> shutting_down")
    case True
    with work show ?thesis
      by (auto simp: leased_attempt_def run commit_def Let_def under_lease_def list_all_iff interrupted_nothing)
  next
    case False
    then have "list_all (under_lease (lease_of_job job)) (at_writes (leased_attempt w t cancel shutting_down job db0))"
      using work by (cases r) (auto simp: leased_attempt_def run conclude_fenced)
    then show ?thesis by (auto simp: under_lease_def list_all_iff)
  qed
qed

section \<open>A lease that is renewed is kept\<close>

text \<open>The row of the job under the lease, which runs out at \<open>e\<close>.\<close>

definition leased_until :: "leased_job \<Rightarrow> int \<Rightarrow> job_row \<Rightarrow> bool" where
  "leased_until job e r \<longleftrightarrow> jb_id r = lj_id job \<and> jb_video_id r = lj_video_id job \<and> jb_status r = ''running'' \<and>
     jb_lease_owner r = Some (lj_lease_owner job) \<and> jb_attempts r = lj_attempts job \<and> jb_lease_expires_at r = Some e"

definition holds_lease :: "leased_job \<Rightarrow> int \<Rightarrow> admin_db \<Rightarrow> bool" where
  "holds_lease job e db = exists_where (leased_until job e) (video_jobs db)"

text \<open>Operations that are no business of the worker that holds the job, nor the deletion of its video.\<close>

definition foreign :: "leased_job \<Rightarrow> admin_op \<Rightarrow> bool" where
  "foreign job op =
     (case op of
        Renew j \<Rightarrow> lj_id j \<noteq> lj_id job
      | Succeed j \<Rightarrow> lj_id j \<noteq> lj_id job
      | Fail j _ _ \<Rightarrow> lj_id j \<noteq> lj_id job
      | Interrupt i _ \<Rightarrow> i \<noteq> lj_id job
      | admin_op.DeleteVideo v \<Rightarrow> Some v \<noteq> lj_video_id job
      | _ \<Rightarrow> True)"

definition renews :: "leased_job \<Rightarrow> admin_op \<Rightarrow> bool" where
  "renews job op = (case op of Renew j \<Rightarrow> j = job | _ \<Rightarrow> False)"

text \<open>When the lease runs out after the events, if each happens before it runs out.\<close>

fun expiry_after :: "admin_config \<Rightarrow> leased_job \<Rightarrow> int \<Rightarrow> (int \<times> admin_op) list \<Rightarrow> int option" where
  "expiry_after cfg job e [] = Some e"
| "expiry_after cfg job e ((now, op) # evs) =
     (if e \<le> now then None
      else if renews job op then expiry_after cfg job (now + 1000 * cfg_lease_seconds cfg) evs
      else if foreign job op then expiry_after cfg job e evs else None)"

lemma survives_update:
  "r \<in> set rows \<Longrightarrow> \<not> P r \<Longrightarrow> r \<in> set (update_where P f rows)"
  by (auto simp: in_update_where)

lemma survives_ignore: "r \<in> set rows \<Longrightarrow> r \<in> set (insert_or_ignore x rows)"
  by (simp add: insert_or_ignore_def)

lemma survives_enqueue: "r \<in> set (video_jobs db) \<Longrightarrow> r \<in> set (video_jobs (enqueue_video_job now m i k v db))"
  and survives_publish: "r \<in> set (video_jobs db) \<Longrightarrow> r \<in> set (video_jobs (enqueue_catalog_publish_job now m i db))"
  by (simp_all add: enqueue_video_job_def enqueue_catalog_publish_job_def survives_ignore)

lemma survives_recover_video:
  "r \<in> set (video_jobs db) \<Longrightarrow> r \<in> set (video_jobs (recover_video now m ok fresh v db))"
  by (simp add: recover_video_def set_status_jobs survives_enqueue)

lemma survives_recover:
  assumes "r \<in> set (video_jobs db)" "jb_lease_expires_at r = Some e" "now < e"
  shows "r \<in> set (video_jobs (recover_interrupted_jobs now m ok fresh pending pm pid db))"
proof -
  have "r \<in> set (video_jobs (requeue_expired now db))"
    using assms by (simp add: requeue_expired_def survives_update lease_expired_def)
  moreover have "r \<in> set (video_jobs d) \<Longrightarrow> r \<in> set (video_jobs (fold (recover_video now m ok fresh) vs d))" for vs d
    by (induction vs arbitrary: d) (simp_all add: survives_recover_video)
  ultimately show ?thesis by (simp add: recover_interrupted_jobs_def Let_def survives_publish)
qed

lemma survives_requeue:
  assumes "requeue_failed now P e rows = Inr rows'" "r \<in> set rows" "jb_status r = ''running''" "distinct (map jb_id rows)"
  shows "r \<in> set rows'"
proof -
  from assms(1) obtain x where x: "newest (filter (\<lambda>r. P r \<and> jb_status r = ''failed'') rows) = Some x"
    and rows': "rows' = update_where (\<lambda>y. jb_id y = jb_id x) (requeued now) rows"
    by (auto simp: requeue_failed_def split: option.splits if_splits)
  from newest_in [OF x] have "x \<in> set rows" "jb_status x = ''failed''" by simp_all
  moreover have "jb_id r = jb_id x \<Longrightarrow> r = x" using distinct_ids_eq [OF assms(4,2) \<open>x \<in> set rows\<close>] .
  ultimately have "jb_id r \<noteq> jb_id x" using assms(3) by auto
  then show ?thesis unfolding rows' using assms(2) by (simp add: survives_update)
qed

lemma survives_acquire:
  assumes "r \<in> set (video_jobs db)" "jb_status r = ''running''" "jb_lease_expires_at r = Some e" "now < e"
    and "distinct (map jb_id (video_jobs db))"
  shows "r \<in> set (video_jobs (snd (acquire_next_job now secs worker db)))"
proof (cases "soonest (filter (ready now) (video_jobs db))")
  case None
  then show ?thesis using assms(1) by (simp add: acquire_next_job_def)
next
  case (Some x)
  from soonest_in [OF this] have "x \<in> set (video_jobs db)" "ready now x" by simp_all
  moreover have "\<not> ready now r" using assms(2-4) by (simp add: ready_def lease_expired_def)
  moreover have "jb_id r = jb_id x \<Longrightarrow> r = x" using distinct_ids_eq [OF assms(5,1) \<open>x \<in> set (video_jobs db)\<close>] .
  ultimately have "jb_id r \<noteq> jb_id x" by auto
  then have "r \<in> set (update_where (\<lambda>y. jb_id y = jb_id x) f (video_jobs db))" for f
    using assms(1) by (simp add: survives_update)
  then show ?thesis by (simp add: acquire_next_job_def Some Let_def split: option.split)
qed

lemma survives_foreign:
  assumes "r \<in> set (video_jobs db)" "leased_until job e r" "now < e" "no_conflicts (video_jobs db)" "foreign job op"
  shows "r \<in> set (video_jobs (admin_exec cfg (now, op) db))"
proof -
  note r = assms(1) assms(2) [unfolded leased_until_def]
  have distinct: "distinct (map jb_id (video_jobs db))" using assms(4) by (simp add: no_conflicts_def)
  have owned: "\<not> owned now j r" if "lj_id j \<noteq> lj_id job" for j using that r by (simp add: owned_def)
  show ?thesis
  proof (cases op)
    case (ResumeVideo v)
    have "r \<in> set rows" if "requeue_failed now P x (video_jobs db) = Inr rows" for P x rows
      using survives_requeue [OF that] r distinct by simp
    then show ?thesis using r by (auto simp: ResumeVideo resume_video_def Let_def split: sum.split)
  next
    case ResumeCatalog
    have "r \<in> set rows" if "requeue_failed now P x (video_jobs db) = Inr rows" for P x rows
      using survives_requeue [OF that] r distinct by simp
    then show ?thesis using r by (auto simp: ResumeCatalog resume_catalog_def split: sum.split option.split)
  next
    case (Fail j d c)
    then have "\<not> owned now j r" using assms(5) owned by (simp add: foreign_def)
    then show ?thesis using r
      by (simp add: Fail mark_job_failed_def fail_finally_def Let_def split_beta survives_update split: option.split)
  next
    case (Succeed j)
    then have "\<not> owned now j r" using assms(5) owned by (simp add: foreign_def)
    then show ?thesis using r by (simp add: Succeed mark_job_succeeded_def Let_def survives_update)
  next
    case (Renew j)
    then have "\<not> owned now j r" using assms(5) owned by (simp add: foreign_def)
    then show ?thesis using r by (simp add: Renew renew_lease_def survives_update)
  next
    case (Interrupt i worker)
    then show ?thesis using r assms(5) by (simp add: mark_job_interrupted_def survives_update foreign_def)
  next
    case (DeleteVideo v)
    then show ?thesis using r assms(5)
      by (auto simp: delete_video_def delete_video_rows_def Let_def foreign_def split: option.split)
  next
    case (ApproveVideo env v request)
    then show ?thesis using r by (simp add: ApproveVideo approve_video_def split: option.split sum.split)
  next
    case (Requote v)
    then show ?thesis using r by (simp add: Requote requote_video_def Let_def)
  next
    case (ApproveCatalog answer i request)
    then show ?thesis using r by (auto simp: approve_catalog_def Let_def split: option.split sum.split)
  qed (use r distinct assms(3) in \<open>simp_all add: survives_acquire survives_enqueue survives_publish survives_recover
      cleanup_jobs set_status_jobs set_awaiting_jobs change_quiet change_finalize_begin change_record_upload\<close>)
qed

lemma renewed_holds:
  assumes "holds_lease job e db" "now < e"
  shows "holds_lease job (now + 1000 * secs) (snd (renew_lease now secs job db))"
proof -
  from assms(1) obtain r where r: "r \<in> set (video_jobs db)" "leased_until job e r"
    by (auto simp: holds_lease_def)
  then have "owned now job r" using assms(2) by (simp add: owned_def leased_until_def lease_live_def)
  with r have "r\<lparr>jb_lease_expires_at := Some (now + 1000 * secs), jb_updated_at := now\<rparr>
      \<in> set (video_jobs (snd (renew_lease now secs job db)))"
    by (auto simp: renew_lease_def in_update_where)
  moreover have "leased_until job (now + 1000 * secs)
      (r\<lparr>jb_lease_expires_at := Some (now + 1000 * secs), jb_updated_at := now\<rparr>)"
    using r(2) by (simp add: leased_until_def)
  ultimately show ?thesis by (auto simp: holds_lease_def)
qed

lemma kept_run:
  "queue_ok s \<Longrightarrow> holds_lease job e (qs_db s) \<Longrightarrow> expiry_after cfg job e evs = Some e' \<Longrightarrow>
     holds_lease job e' (qs_db (run (queue_step cfg) evs s))"
proof (induction evs arbitrary: s e)
  case Nil
  then show ?case by simp
next
  case (Cons ev evs)
  obtain now op where ev: "ev = (now, op)" by (cases ev)
  let ?s = "queue_step cfg ev s"
  have ok: "queue_ok ?s" using Cons.prems(1) by (rule queue_step_ok)
  have live: "now < e" using Cons.prems(3) by (simp add: ev split: if_splits)
  have db: "qs_db ?s = qs_db s \<or> qs_db ?s = admin_exec cfg ev (qs_db s)" by (simp add: queue_step_def Let_def)
  show ?case
  proof (cases "renews job op")
    case True
    then have op: "op = Renew job" by (auto simp: renews_def split: admin_op.splits)
    have "qs_db ?s = admin_exec cfg ev (qs_db s)"
      by (auto simp: queue_step_def Let_def ev op renew_lease_def in_update_where list_ex_iff split: if_splits)
    then have "holds_lease job (now + 1000 * cfg_lease_seconds cfg) (qs_db ?s)"
      using renewed_holds [OF Cons.prems(2) live] by (simp add: ev op)
    with Cons.IH [OF ok] Cons.prems(3) True live show ?thesis by (simp add: ev)
  next
    case False
    then have foreign: "foreign job op" and rest: "expiry_after cfg job e evs = Some e'"
      using Cons.prems(3) live by (simp_all add: ev split: if_splits)
    have "no_conflicts (video_jobs (qs_db s))" using Cons.prems(1) by (simp add: queue_ok_def)
    then have "holds_lease job e (admin_exec cfg ev (qs_db s))"
      using survives_foreign [OF _ _ live _ foreign] Cons.prems(2) by (auto simp: holds_lease_def ev)
    with db Cons.prems(2) have "holds_lease job e (qs_db ?s)" by auto
    with Cons.IH [OF ok] rest show ?thesis by (simp add: ev)
  qed
qed

text \<open>C13. A worker keeps its job: in every run, as long as each renewal comes before the lease runs out, no
  acquisition by another worker, no recovery at the start of another process and no request but the
  deletion of the video takes the job away, the transactions of the attempt are admitted, and the
  next renewal succeeds.
\<close>

theorem renewed_lease_is_kept:
  assumes "s = run (queue_step cfg) evs queue_start" "holds_lease job e (qs_db s)"
    and "expiry_after cfg job e later = Some e'" "now < e'"
  shows "begin_fenced now (Some (lease_of_job job)) (qs_db (run (queue_step cfg) later s)) = Inr () \<and>
    fst (renew_lease now secs job (qs_db (run (queue_step cfg) later s)))"
proof -
  let ?db = "qs_db (run (queue_step cfg) later s)"
  have ok: "queue_ok s" unfolding assms(1) by (rule queue_run_ok)
  then have later: "queue_ok (run (queue_step cfg) later s)" by (rule queue.run_inv)
  from kept_run [OF ok assms(2,3)] obtain r where r: "r \<in> set (video_jobs ?db)" "leased_until job e' r"
    by (auto simp: holds_lease_def)
  then have owned: "owned now job r" using assms(4) by (simp add: owned_def leased_until_def lease_live_def)
  then have "owns_lease now (lease_of_job job) ?db" using r(1) by (auto simp: lease_of_job_eq owns_lease_owned)
  moreover have distinct: "distinct (map jb_id (video_jobs ?db))" using later by (simp add: queue_ok_def no_conflicts_def)
  have "rows_affected (owned now job) (video_jobs ?db) = 1"
    using rows_affected_key [OF distinct, of "owned now job" "lj_id job"] owned r(1) by (auto simp: owned_def)
  ultimately show ?thesis by (simp add: begin_fenced_def renew_lease_def)
qed

text \<open>Another worker asks for a job, and another process recovers, while the lease is renewed.\<close>

definition kept_job :: leased_job where
  "kept_job = \<lparr>lj_lease_owner = ''b'', lj_id = ''j'', lj_kind = PublishCatalog, lj_video_id = None,
     lj_attempts = 2, lj_max_attempts = 3\<rparr>"

definition busy_hour :: "(int \<times> admin_op) list" where
  "busy_hour = [(80000, Acquire ''c''), (90000, Renew kept_job),
     (140000, Recover (\<lambda>_. True) (\<lambda>v. v) True ''k''), (145000, Acquire ''c'')]"

theorem renewed_lease_is_kept_witness:
  "begin_fenced 149999 (Some (lease_of_job kept_job)) (qs_db (run (queue_step demo_cfg) busy_hour demo_queue)) = Inr ()"
proof -
  have "holds_lease kept_job 130000 (qs_db demo_queue)"
    by (simp add: demo_queue_eval holds_lease_def leased_until_def kept_job_def empty_db_def)
  moreover have "expiry_after demo_cfg kept_job 130000 busy_hour = Some 150000"
    by (simp add: busy_hour_def demo_cfg_def renews_def foreign_def)
  ultimately show ?thesis
    using renewed_lease_is_kept [OF demo_queue_def, of kept_job 130000 busy_hour 150000 149999] by simp
qed

text \<open>
  The interval leaves room for two more renewals: three of them do not exceed the lease, as long as its
  milliseconds fit 64 bits.
\<close>

theorem renewal_comes_in_time:
  "3 * renewal_interval (if 1 \<le> secs \<and> secs < 2 ^ 54 then secs else 1) \<le>
     1000 * (if 1 \<le> secs \<and> secs < 2 ^ 54 then secs else 1)"
  by (auto simp: renewal_interval_def)

section \<open>The expiry of a processed video\<close>

text \<open>
  The gateway accepts an approval for a day at most. With a longer window configured, the row of a video
  that was just processed shows an expiry after that of the approval it offers: the request to approve
  it fails although the window is open. A quote made again shows the right one.
\<close>

theorem processing_expiry_outlives_approval:
  assumes "build_final_upload_quote env quote_id now video_id reads = Inr q" "fq_plan q = Some plan"
    and "86400 < qe_ttl env" "now \<le> later"
  shows "1000 * pa_expires_at (up_approval plan) < processing_expiry later (qe_ttl env)"
proof -
  from assms(1,2) obtain network quotes where
    "quote_approval env quote_id now network quotes = Inr (up_approval plan)"
    by (auto simp: build_final_upload_quote_def rbind_eq_Inr Let_def split: option.splits if_splits)
  then have "pa_expires_at (up_approval plan) = now div 1000 + 86400"
    using assms(3)
    by (auto simp: quote_approval_def rbind_eq_Inr Let_def split: if_splits dest: arg_cong [where f = pa_expires_at])
  then show ?thesis using assms(3,4) by (simp add: processing_expiry_def)
qed

end
