(* ===== verification/Service_Clients.thy ===== *)
theory Service_Clients
  imports Gateway_Client
begin

text \<open>
  How the two services use the client: the streaming service's reads with their fallback
  (\<open>crates/rust_stream/src/antd_client.rs\<close>) and the admin service's requests, with the retried cost
  estimate (\<open>crates/rust_admin/src/antd_client.rs\<close>). Base64 and the JSON of the documents are parameters.
\<close>

section \<open>The streaming service\<close>

definition fetch_attempts :: nat where "fetch_attempts = 3"
definition fetch_base_delay :: nat where "fetch_base_delay = 250"

definition stream_health :: "world \<Rightarrow> antd_client \<Rightarrow> (string \<Rightarrow> string + 'h) \<Rightarrow> 'h call" where
  "stream_health w client decode = get_json_retry w client decode ''/health'' fetch_attempts fetch_base_delay"

definition data_get_public_raw :: "world \<Rightarrow> antd_client \<Rightarrow> string \<Rightarrow> string call" where
  "data_get_public_raw w client address =
     get_bytes_retry w client (''/v1/data/public/'' @ trim address @ ''/raw'') fetch_attempts fetch_base_delay"

definition base64_answer :: "(string \<Rightarrow> string + string) \<Rightarrow> string answer \<Rightarrow> string answer" where
  "base64_answer decode64 payload =
     rbind payload (\<lambda>data.
       case decode64 data of
         Inl e \<Rightarrow> Inl (Message (''antd returned invalid base64 public data: '' @ e))
       | Inr content \<Rightarrow> Inr content)"

definition data_get_public_json ::
  "world \<Rightarrow> antd_client \<Rightarrow> (string \<Rightarrow> string + string) \<Rightarrow> (string \<Rightarrow> string + string) \<Rightarrow> string \<Rightarrow> string call"
where
  "data_get_public_json w client decode decode64 address s =
     (let (payload, s') = get_json_retry w client decode (''/v1/data/public/'' @ trim address)
            fetch_attempts fetch_base_delay s
      in (base64_answer decode64 payload, s'))"

definition data_get_public ::
  "world \<Rightarrow> antd_client \<Rightarrow> (string \<Rightarrow> string + string) \<Rightarrow> (string \<Rightarrow> string + string) \<Rightarrow> string \<Rightarrow> string call"
where
  "data_get_public w client decode decode64 address s =
     (case data_get_public_raw w client address s of
        (Inr content, s') \<Rightarrow> (Inr content, s')
      | (Inl e, s') \<Rightarrow>
          if raw_endpoint_unavailable e then data_get_public_json w client decode decode64 address s'
          else (Inl e, s'))"

section \<open>The admin service\<close>

definition activate_payment_lease ::
  "world \<Rightarrow> antd_client \<Rightarrow> (string \<Rightarrow> string + unit) \<Rightarrow> string \<Rightarrow> unit call"
where
  "activate_payment_lease w client decode lease_json =
     request_json w client decode ''POST'' ''/v1/payments/lease'' (Some lease_json)"

definition approve_payment ::
  "world \<Rightarrow> antd_client \<Rightarrow> (string \<Rightarrow> string + unit) \<Rightarrow> string \<Rightarrow> unit call"
where
  "approve_payment w client decode approval_json =
     request_json w client decode ''POST'' ''/v1/payments/approvals'' (Some approval_json)"

text \<open>\<open>cancelled\<close> reads the Boolean field of the answer, if it has one.\<close>

definition cancel_unpaid_approval ::
  "world \<Rightarrow> antd_client \<Rightarrow> (string \<Rightarrow> string + 'j) \<Rightarrow> ('j \<Rightarrow> bool option) \<Rightarrow> string \<Rightarrow> bool call"
where
  "cancel_unpaid_approval w client decode cancelled quote_id s =
     (let (answer, s') = request_json w client decode ''POST''
            (''/v1/payments/approvals/'' @ quote_id @ ''/cancel-unpaid'') None s
      in (rbind answer (\<lambda>j. Inr (case cancelled j of None \<Rightarrow> False | Some b \<Rightarrow> b)), s'))"

definition content_cost ::
  "world \<Rightarrow> antd_client \<Rightarrow> (string \<Rightarrow> string + 'q) \<Rightarrow> (string \<Rightarrow> string \<Rightarrow> string) \<Rightarrow> string \<Rightarrow> string \<Rightarrow> 'q call"
where
  "content_cost w client decode body_json content mode =
     request_json w client decode ''POST'' ''/v1/data/cost'' (Some (body_json content mode))"

record antd_health =
  ah_status :: string
  ah_network :: "string option"
  ah_protocol_version :: "string option"
  ah_read_ready :: "bool option"
  ah_write_ready :: "bool option"

definition wrong_gateway :: client_error where
  "wrong_gateway = Message (''ANTD_URL must select the application gateway (autvid-gateway-v2); '' @
     ''upstream SDK tooling uses a separate port'')"

definition admin_health :: "world \<Rightarrow> antd_client \<Rightarrow> (string \<Rightarrow> string + antd_health) \<Rightarrow> antd_health call" where
  "admin_health w client decode s =
     (let (answer, s') = request_json w client decode ''GET'' ''/health'' None s
      in (rbind answer (\<lambda>h. if ah_protocol_version h = Some ''autvid-gateway-v2'' then Inr h else Inl wrong_gateway), s'))"

definition admin_data_get_public ::
  "world \<Rightarrow> antd_client \<Rightarrow> (string \<Rightarrow> string + string) \<Rightarrow> (string \<Rightarrow> string + string) \<Rightarrow> string \<Rightarrow> string call"
where
  "admin_data_get_public w client decode decode64 address s =
     (let (payload, s') = request_json w client decode ''GET'' (''/v1/data/public/'' @ trim address) None s
      in (base64_answer decode64 payload, s'))"

definition data_put_public ::
  "world \<Rightarrow> antd_client \<Rightarrow> (string \<Rightarrow> string + 'p) \<Rightarrow> (string \<Rightarrow> string \<Rightarrow> string) \<Rightarrow> string \<Rightarrow> string \<Rightarrow> 'p call"
where
  "data_put_public w client decode body_json content payment_mode =
     request_json w client decode ''POST'' ''/v1/data/public'' (Some (body_json content payment_mode))"

section \<open>Cost estimates\<close>

definition min_self_encryption_bytes :: nat where "min_self_encryption_bytes = 3"
definition cost_estimate_attempts :: nat where "cost_estimate_attempts = 5"

definition estimate_failed :: "nat \<Rightarrow> string \<Rightarrow> client_error" where
  "estimate_failed quote_size reason =
     Message (''Autonomi cost estimate failed for '' @ show_nat quote_size @ '' quote bytes'' @ reason)"

definition estimate_pause :: "world \<Rightarrow> nat \<Rightarrow> net \<Rightarrow> net" where
  "estimate_pause w attempt s =
     sleep (jitter_duration (next_factor w s) (250 * 2 ^ min (attempt - 1) 3))
       (s\<lparr>nt_upload_retries := nt_upload_retries s + 1\<rparr>)"

fun estimate_from ::
  "world \<Rightarrow> nat \<Rightarrow> 'a call \<Rightarrow> client_error option \<Rightarrow> nat list \<Rightarrow> 'a call"
where
  "estimate_from w quote_size once last_error [] s =
     (Inl (estimate_failed quote_size
        (case last_error of None \<Rightarrow> [] | Some e \<Rightarrow> '': '' @ client_error_text (wd_show_status w) e)), s)"
| "estimate_from w quote_size once last_error (attempt # rest) s =
     (case once s of
        (Inr v, s') \<Rightarrow> (Inr v, s')
      | (Inl e, s') \<Rightarrow>
          if \<not> is_retryable_antd_error e
          then (Inl (estimate_failed quote_size ('': '' @ client_error_text (wd_show_status w) e)), s')
          else estimate_from w quote_size once (Some e) rest
                 (if attempt < cost_estimate_attempts then estimate_pause w attempt s' else s'))"

text \<open>\<open>sample_json\<close> is the request for a random sample of the given size, drawn once.\<close>

definition data_cost_for_size ::
  "world \<Rightarrow> antd_client \<Rightarrow> (string \<Rightarrow> string + 'a) \<Rightarrow> (nat \<Rightarrow> string) \<Rightarrow> nat \<Rightarrow> 'a call"
where
  "data_cost_for_size w client decode sample_json byte_size s =
     (let quote_size = max byte_size min_self_encryption_bytes
      in if quote_size > 16 * mib then (Inl (Message ''preliminary quote sample exceeds 16 MiB''), s)
         else estimate_from w quote_size
                (request_json w client decode ''POST'' ''/v1/data/cost'' (Some (sample_json quote_size)))
                None [1..<cost_estimate_attempts + 1] s)"

end
