(* ===== verification/Service_Health.thy ===== *)
theory Service_Health
  imports Service_Clients Gateway_Service Stream_Hls Catalog_Payments Service_Metrics
begin

text \<open>
  The pages on which the services report about themselves: health and wallet of the gateway
  (\<open>crates/antd_service/src/routes/health.rs\<close>, \<open>wallet.rs\<close>), the routes and the health of the streaming
  service (\<open>rust_stream/src/routes.rs\<close>), health and job gauges of the admin service
  (\<open>rust_admin/src/routes/health.rs\<close>). What the network, the wallet and the database answer is data.
\<close>

section \<open>The gateway\<close>

record network_health =
  nh_connected_peers :: nat
  nh_routing_table_size :: nat
  nh_write_ready :: bool

text \<open>\<open>signing\<close> is what the journal answers; without a key it is not asked.\<close>

definition can_write :: "string option \<Rightarrow> string + bool \<Rightarrow> bool" where
  "can_write key signing = (key \<noteq> None \<and> (case signing of Inl _ \<Rightarrow> False | Inr b \<Rightarrow> b))"

definition gateway_health :: "network_health \<Rightarrow> string \<Rightarrow> bool \<Rightarrow> json" where
  "gateway_health h network writable =
     (let read_ready = (nh_connected_peers h > 0 \<or> nh_routing_table_size h > 0)
      in JObject
        [(''status'', JString (if read_ready then ''ok'' else ''degraded'')),
         (''network'', JString network),
         (''peer_count'', JInt (int (nh_connected_peers h))),
         (''read_ready'', JBool read_ready),
         (''write_ready'', JBool (nh_write_ready h \<and> writable)),
         (''routing_table_size'', JInt (int (nh_routing_table_size h))),
         (''protocol_version'', JString ''autvid-gateway-v2'')])"

text \<open>The wallet as its address in hexadecimal; its balances are answers of the chain.\<close>

definition wallet_address :: "string option \<Rightarrow> json service" where
  "wallet_address wallet =
     (case wallet of
        None \<Rightarrow> Inl (wallet_error ''wallet is not configured'')
      | Some a \<Rightarrow> Inr (JObject [(''address'', JString a)]))"

definition wallet_balance :: "string option \<Rightarrow> string + string \<Rightarrow> string + string \<Rightarrow> json service" where
  "wallet_balance wallet tokens gas =
     (case wallet of
        None \<Rightarrow> Inl (wallet_error ''wallet is not configured'')
      | Some _ \<Rightarrow>
          rbind (map_sum wallet_error id tokens) (\<lambda>b.
          rbind (map_sum wallet_error id gas) (\<lambda>g.
          Inr (JObject [(''balance'', JString b), (''gas_balance'', JString g)]))))"

definition wallet_approve :: "json service" where
  "wallet_approve = Inl (error_with_code 409 ''APPROVAL_REQUIRED''
     ''Unlimited token allowances are disabled. Approve a content-bound storage and gas budget.'')"

text \<open>\<open>Deserialize\<close> of the answer: an optional field may be absent or null, a field may not come twice.\<close>

definition optional_field :: "(json \<Rightarrow> 'a option) \<Rightarrow> json option \<Rightarrow> 'a option option" where
  "optional_field read value =
     (case value of None \<Rightarrow> Some None | Some JNull \<Rightarrow> Some None | Some v \<Rightarrow> map_option Some (read v))"

fun json_as_bool :: "json \<Rightarrow> bool option" where
  "json_as_bool (JBool b) = Some b"
| "json_as_bool _ = None"

definition health_fields :: "string list" where
  "health_fields = [''status'', ''network'', ''protocol_version'', ''read_ready'', ''write_ready'']"

definition antd_health_of_json :: "json \<Rightarrow> antd_health option" where
  "antd_health_of_json value =
     (case value of
        JObject members \<Rightarrow>
          if \<not> distinct (filter (\<lambda>k. k \<in> set health_fields) (map fst members)) then None
          else
            Option.bind (Option.bind (json_get ''status'' value) json_as_str) (\<lambda>status.
            Option.bind (optional_field json_as_str (json_get ''network'' value)) (\<lambda>network.
            Option.bind (optional_field json_as_str (json_get ''protocol_version'' value)) (\<lambda>version.
            Option.bind (optional_field json_as_bool (json_get ''read_ready'' value)) (\<lambda>reads.
            Option.bind (optional_field json_as_bool (json_get ''write_ready'' value)) (\<lambda>writes.
            Some \<lparr>ah_status = status, ah_network = network, ah_protocol_version = version,
              ah_read_ready = reads, ah_write_ready = writes\<rparr>)))))
      | _ \<Rightarrow> None)"

section \<open>The streaming service\<close>

datatype stream_handler =
    StLivez | StHealth | StMetrics
  | StPlaylist string string | StSegment string string string
  | StPlaylistByAddress string string | StSegmentByAddress string string string

text \<open>The route of a path, given by its parts; a parameter is not empty, a fixed part comes first.\<close>

definition stream_route :: "string list \<Rightarrow> stream_handler option" where
  "stream_route parts =
     (case parts of
        [a] \<Rightarrow>
          (if a = ''livez'' then Some StLivez else if a = ''health'' then Some StHealth
           else if a = ''metrics'' then Some StMetrics else None)
      | [a, b] \<Rightarrow>
          (if a \<noteq> ''stream'' then None
           else if b = ''livez'' then Some StLivez else if b = ''health'' then Some StHealth
           else if b = ''metrics'' then Some StMetrics else None)
      | [a, b, c, d] \<Rightarrow>
          (if a \<noteq> ''stream'' \<or> b = [] \<or> c = [] \<or> d = [] then None
           else if d = ''playlist.m3u8'' then Some (StPlaylist b c) else Some (StSegment b c d))
      | [a, b, c, d, e] \<Rightarrow>
          (if a \<noteq> ''stream'' \<or> b \<noteq> ''manifest'' \<or> c = [] \<or> d = [] \<or> e = [] then None
           else if e = ''playlist.m3u8'' then Some (StPlaylistByAddress c d) else Some (StSegmentByAddress c d e))
      | _ \<Rightarrow> None)"

definition stream_dispatch :: "string \<Rightarrow> string \<Rightarrow> stream_handler service" where
  "stream_dispatch m path =
     (case Option.bind (strip_prefix ''/'' path) (\<lambda>rest. stream_route (split_on (CHR ''/'') rest)) of
        None \<Rightarrow> Inl (new_error 404 [])
      | Some h \<Rightarrow> if m = ''GET'' \<or> m = ''HEAD'' then Inr h else Inl (new_error 405 []))"

record autonomi_health =
  au_ok :: bool
  au_network :: "string option"
  au_error :: "string option"

definition stream_health_page :: "(nat \<Rightarrow> string) \<Rightarrow> antd_health answer \<Rightarrow> nat \<times> autonomi_health" where
  "stream_health_page show_status answer =
     (let autonomi = (case answer of
            Inr h \<Rightarrow> \<lparr>au_ok = eq_ignore_ascii_case (ah_status h) ''ok'', au_network = ah_network h, au_error = None\<rparr>
          | Inl e \<Rightarrow> \<lparr>au_ok = False, au_network = None, au_error = Some (client_error_text show_status e)\<rparr>)
      in (if au_ok autonomi then 200 else 503, autonomi))"

section \<open>The admin service\<close>

record health_response =
  hr_ok :: bool
  hr_autonomi :: autonomi_health
  hr_database :: "bool \<times> string option"
  hr_write_ready :: bool
  hr_payment_mode :: string
  hr_approval_ttl :: int

text \<open>
  \<open>cost\<close> is the answer to a quote for the smallest content; it is asked only when the gateway can write
  and the settings require it.
\<close>

definition admin_health_page ::
  "(nat \<Rightarrow> string) \<Rightarrow> bool \<Rightarrow> string \<Rightarrow> int \<Rightarrow> antd_health answer \<Rightarrow> string + unit \<Rightarrow> 'q answer \<Rightarrow> nat \<times> health_response"
where
  "admin_health_page show_status require_cost payment_mode ttl answer database cost =
     (let (autonomi, gateway_write_ready) = (case answer of
            Inr h \<Rightarrow>
              (\<lparr>au_ok = (eq_ignore_ascii_case (ah_status h) ''ok'' \<and> ah_read_ready h = Some True),
                au_network = ah_network h, au_error = None\<rparr>, ah_write_ready h = Some True)
          | Inl e \<Rightarrow>
              (\<lparr>au_ok = False, au_network = None, au_error = Some (client_error_text show_status e)\<rparr>, False));
          db = (case database of Inr _ \<Rightarrow> (True, None) | Inl e \<Rightarrow> (False, Some e));
          write_ready = (gateway_write_ready \<and> (if require_cost then is_ok cost else au_ok autonomi));
          ok = (au_ok autonomi \<and> fst db \<and> write_ready)
      in (if ok then 200 else 503,
          \<lparr>hr_ok = ok, hr_autonomi = autonomi, hr_database = db, hr_write_ready = write_ready,
            hr_payment_mode = payment_mode, hr_approval_ttl = ttl\<rparr>))"

text \<open>The check of the protocol in the client.\<close>

definition accepted_health :: "antd_health answer \<Rightarrow> antd_health answer" where
  "accepted_health answer =
     rbind answer (\<lambda>h. if ah_protocol_version h = Some ''autvid-gateway-v2'' then Inr h else Inl wrong_gateway)"

text \<open>The service starts only against a gateway that is well and has a wallet.\<close>

definition ensure_autonomi_ready ::
  "bool \<Rightarrow> antd_health answer \<Rightarrow> 'a answer \<Rightarrow> 'b answer \<Rightarrow> 'q answer \<Rightarrow> unit answer"
where
  "ensure_autonomi_ready require_cost answer address balance cost =
     rbind answer (\<lambda>h.
     if \<not> eq_ignore_ascii_case (ah_status h) ''ok'' then Inl (Message ''antd health check returned not ok'')
     else rbind address (\<lambda>_. rbind balance (\<lambda>_.
       if require_cost then rbind cost (\<lambda>_. Inr ()) else Inr ())))"

section \<open>Gauges of the queue\<close>

definition status_count :: "string \<Rightarrow> admin_db \<Rightarrow> u64" where
  "status_count status db = of_nat (rows_affected (\<lambda>r. jb_status r = status) (video_jobs db))"

definition load_job_metrics_uncached :: "int \<Rightarrow> string + admin_db \<Rightarrow> job_metrics_snapshot option" where
  "load_job_metrics_uncached now answer =
     (case answer of
        Inl _ \<Rightarrow> None
      | Inr db \<Rightarrow>
          (let created = map jb_created_at (filter (\<lambda>r. jb_status r = ''queued'') (video_jobs db))
           in Some \<lparr>jm_queued = status_count ''queued'' db, jm_running = status_count ''running'' db,
                jm_failed = status_count ''failed'' db, jm_succeeded = status_count ''succeeded'' db,
                jm_oldest_queued_age_seconds =
                  (if created = [] then 0 else of_nat (nat (max 0 (now - Min (set created)) div 1000)))\<rparr>))"

definition job_metrics_ttl :: nat where "job_metrics_ttl = 5000"

text \<open>The cache holds a snapshot and when it expires; the monotonic clock is read before and after the query.\<close>

definition load_job_metrics ::
  "nat \<Rightarrow> nat \<Rightarrow> job_metrics_snapshot option \<Rightarrow> (job_metrics_snapshot \<times> nat) option \<Rightarrow>
     job_metrics_snapshot option \<times> (job_metrics_snapshot \<times> nat) option"
where
  "load_job_metrics now later loaded cache =
     (case (case cache of Some (s, expires_at) \<Rightarrow> if expires_at > now then Some s else None | None \<Rightarrow> None) of
        Some s \<Rightarrow> (Some s, cache)
      | None \<Rightarrow>
          (case loaded of
             None \<Rightarrow> (None, cache)
           | Some s \<Rightarrow> (Some s, Some (s, later + job_metrics_ttl))))"

section \<open>The pages tell the truth\<close>

lemma gateway_answer_decodes:
  "antd_health_of_json (gateway_health h network writable) =
     Some \<lparr>ah_status = (if nh_connected_peers h > 0 \<or> nh_routing_table_size h > 0 then ''ok'' else ''degraded''),
       ah_network = Some network, ah_protocol_version = Some ''autvid-gateway-v2'',
       ah_read_ready = Some (nh_connected_peers h > 0 \<or> nh_routing_table_size h > 0),
       ah_write_ready = Some (nh_write_ready h \<and> writable)\<rparr>"
  by (simp add: gateway_health_def antd_health_of_json_def Let_def health_fields_def optional_field_def)

lemma degraded_is_not_ok: "\<not> eq_ignore_ascii_case ''degraded'' ''ok''" "eq_ignore_ascii_case ''ok'' ''ok''"
  by (simp_all add: eq_ignore_ascii_case_def to_ascii_lowercase_def)

text \<open>
  What the gateway says of itself is what the services report of it: its answer decodes, passes the
  check of the protocol, makes the streaming service healthy exactly when the gateway has a peer or a
  routing table, and the admin service healthy exactly when it also can sign and store, the database
  answers, and the probe quote succeeds where it is required.
\<close>

theorem health_pages_agree:
  "map_option (\<lambda>h. (fst (stream_health_page show_status (Inr h)),
       fst (admin_health_page show_status require_cost mode ttl (accepted_health (Inr h)) database cost)))
     (antd_health_of_json (gateway_health nh network (can_write key signing))) =
   Some (if nh_connected_peers nh > 0 \<or> nh_routing_table_size nh > 0 then 200 else 503,
     if (nh_connected_peers nh > 0 \<or> nh_routing_table_size nh > 0) \<and> nh_write_ready nh \<and> key \<noteq> None \<and>
        signing = Inr True \<and> is_ok database \<and> (if require_cost then is_ok cost else True)
     then 200 else 503)"
  by (auto simp: gateway_answer_decodes stream_health_page_def admin_health_page_def accepted_health_def can_write_def
      degraded_is_not_ok Let_def split: sum.split)

section \<open>The URLs of a playlist are routed\<close>

lemma split_part: "CHR ''/'' \<notin> set s \<Longrightarrow> split_on (CHR ''/'') (s @ CHR ''/'' # rest) = s # split_on (CHR ''/'') rest"
  by (induction s) auto

lemma split_last: "CHR ''/'' \<notin> set s \<Longrightarrow> split_on (CHR ''/'') s = [s]"
  by (induction s) auto

lemma show_nat_no_slash: "CHR ''/'' \<notin> set (show_nat n)"
  using show_nat_digits [of n] by (auto simp: list_all_iff is_ascii_digit_def)

lemma show_int_no_slash: "CHR ''/'' \<notin> set (show_int i)"
  using show_nat_no_slash by (simp add: show_int_def)

lemma file_name_routes: "show_int i @ ''.ts'' \<noteq> [] \<and> show_int i @ ''.ts'' \<noteq> ''playlist.m3u8''"
proof -
  have "last (show_int i @ ''.ts'') \<noteq> last ''playlist.m3u8''" by simp
  then show ?thesis by auto
qed

lemma dispatch_manifest_url:
  assumes "CHR ''/'' \<notin> set address" "CHR ''/'' \<notin> set resolution" "address \<noteq> []" "resolution \<noteq> []"
  shows "stream_dispatch ''GET'' (manifest_segment_url address resolution i) =
    Inr (StSegmentByAddress address resolution (show_int i @ ''.ts''))"
proof -
  have "manifest_segment_url address resolution i = CHR ''/'' # ''stream'' @ CHR ''/'' # ''manifest'' @ CHR ''/'' #
      address @ CHR ''/'' # resolution @ CHR ''/'' # (show_int i @ ''.ts'')"
    by (simp add: manifest_segment_url_def)
  moreover have "split_on (CHR ''/'') (''stream'' @ CHR ''/'' # ''manifest'' @ CHR ''/'' # address @ CHR ''/'' #
      resolution @ CHR ''/'' # (show_int i @ ''.ts'')) = [''stream'', ''manifest'', address, resolution, show_int i @ ''.ts'']"
    by (simp add: split_part split_last assms show_int_no_slash)
  ultimately show ?thesis using assms file_name_routes [of i]
    by (simp add: stream_dispatch_def strip_prefix_def stream_route_def)
qed

text \<open>What a player requests: the lines of the playlist that are neither empty nor a tag.\<close>

definition player_urls :: "string \<Rightarrow> string list" where
  "player_urls playlist = filter (\<lambda>line. line \<noteq> [] \<and> hd line \<noteq> CHR ''#'') (split_on (CHR 0x0A) playlist)"

lemma player_line:
  "CHR 0x0A \<notin> set line \<Longrightarrow> player_urls (line @ nl @ rest) =
     (if line \<noteq> [] \<and> hd line \<noteq> CHR ''#'' then line # player_urls rest else player_urls rest)"
  using split_on_append [of "CHR 0x0A" line rest] by (simp add: player_urls_def nl_def)

lemma player_tag: "CHR 0x0A \<notin> set line \<Longrightarrow> player_urls ((CHR ''#'' # line) @ nl @ rest) = player_urls rest"
  using player_line [of "CHR ''#'' # line" rest] by simp

lemma digit_no_newline: "n < 10 \<Longrightarrow> digit_char n \<noteq> CHR 0x0A"
proof
  assume n: "n < 10" and c: "digit_char n = CHR 0x0A"
  from of_char_digit [OF n] show False unfolding c by simp
qed

lemma show_nat_no_newline: "CHR 0x0A \<notin> set (show_nat n)"
  using show_nat_digits [of n] by (auto simp: list_all_iff is_ascii_digit_def)

lemma show_int_no_newline: "CHR 0x0A \<notin> set (show_int i)"
  using show_nat_no_newline by (simp add: show_int_def)

lemma format3_no_newline: "CHR 0x0A \<notin> set (format3 x)"
proof -
  have digit: "CHR 0x0A \<noteq> digit_char (n mod 10)" for n using digit_no_newline [of "n mod 10"] by simp
  have pad: "CHR 0x0A \<notin> set (pad3 n)" for n by (simp add: pad3_def digit)
  have "CHR 0x0A \<notin> set (fixed3 q)" for q
    by (simp add: fixed3_def Let_def show_nat_no_newline pad)
  then show ?thesis by (cases x) simp_all
qed

lemma player_start: "player_urls (playlist_start v @ rest) = player_urls rest"
proof -
  have parts: "playlist_start v @ rest = (CHR ''#'' # ''EXTM3U'') @ nl @ (CHR ''#'' # ''EXT-X-VERSION:3'') @ nl @
      (CHR ''#'' # ''EXT-X-PLAYLIST-TYPE:VOD'') @ nl @ (CHR ''#'' # ''EXT-X-INDEPENDENT-SEGMENTS'') @ nl @
      (CHR ''#'' # ''EXT-X-TARGETDURATION:'' @ show_nat (target_duration v)) @ nl @
      (CHR ''#'' # ''EXT-X-MEDIA-SEQUENCE:0'') @ nl @ rest"
    by (simp add: playlist_start_def)
  have "player_urls ((CHR ''#'' # ''EXT-X-TARGETDURATION:'' @ show_nat (target_duration v)) @ nl @ t) = player_urls t" for t
    by (rule player_tag) (simp add: show_nat_no_newline)
  moreover have "player_urls ((CHR ''#'' # ''EXTM3U'') @ nl @ t) = player_urls t"
    "player_urls ((CHR ''#'' # ''EXT-X-VERSION:3'') @ nl @ t) = player_urls t"
    "player_urls ((CHR ''#'' # ''EXT-X-PLAYLIST-TYPE:VOD'') @ nl @ t) = player_urls t"
    "player_urls ((CHR ''#'' # ''EXT-X-INDEPENDENT-SEGMENTS'') @ nl @ t) = player_urls t"
    "player_urls ((CHR ''#'' # ''EXT-X-MEDIA-SEQUENCE:0'') @ nl @ t) = player_urls t" for t
    by (rule player_tag, simp)+
  ultimately show ?thesis unfolding parts by (simp only:)
qed

lemma player_entries:
  assumes "\<And>i. CHR 0x0A \<notin> set (url i)" "\<And>i. url i \<noteq> []" "\<And>i. hd (url i) \<noteq> CHR ''#''"
  shows "player_urls (concat (map (playlist_entry url) ss) @ ''#EXT-X-ENDLIST'' @ nl) = map (\<lambda>s. url (vs_segment_index s)) ss"
proof (induction ss)
  case Nil
  have "player_urls ((CHR ''#'' # ''EXT-X-ENDLIST'') @ nl @ []) = player_urls []" by (rule player_tag) simp
  then show ?case by (simp add: player_urls_def)
next
  case (Cons s ss)
  let ?rest = "concat (map (playlist_entry url) ss) @ ''#EXT-X-ENDLIST'' @ nl"
  have "playlist_entry url s @ ?rest =
      (CHR ''#'' # ''EXTINF:'' @ format3 (vs_duration s) @ '','') @ nl @ url (vs_segment_index s) @ nl @ ?rest"
    by (simp add: playlist_entry_def)
  moreover have "player_urls ((CHR ''#'' # ''EXTINF:'' @ format3 (vs_duration s) @ '','') @ nl @ t) = player_urls t" for t
    by (rule player_tag) (simp add: format3_no_newline)
  ultimately show ?case
    using player_line [OF assms(1), of "vs_segment_index s" ?rest] assms(2,3) Cons.IH by simp
qed

text \<open>A manifest that is loaded, whatever was loaded before.\<close>

lemma loaded_manifest:
  assumes "0 < slots"
  shows "fst (load_manifest env cfg now later address (run (manifest_step env cfg) requests (empty_app_cache slots))) =
    fetch_manifest env address"
proof -
  have "manifests_sound env (empty_app_cache slots)"
    by (simp add: manifests_sound_def empty_app_cache_def metadata_ok_def metadata_bytes_def metadata_holds_def)
  then show ?thesis
    using manifests.run_inv [of env "empty_app_cache slots" cfg requests] assms
    by (simp add: empty_app_cache_def load_manifest_sound)
qed

lemma indexed_segment:
  assumes "fetch_manifest env address = Inr m" "find_variant m resolution = Some v" "s \<in> set (vv_segments v)"
  shows "segment_index_of (show_int (vs_segment_index s) @ ''.ts'') = Some (vs_segment_index s)"
    "resolve_segment m resolution (vs_segment_index s) = Inr (vs_autonomi_address s)"
proof -
  from assms(1) obtain raw where "index_segments raw = Inr m"
    by (auto simp: fetch_manifest_def split: sum.splits if_splits)
  moreover have "v \<in> set (vm_variants m)" using assms(2) by (auto simp: find_variant_def find_Some_iff)
  ultimately have indexed: "variant_indexed v" using index_segments_ok(2) by (simp add: list_all_iff)
  then have ok: "segment_ok s" using assms(3) by (simp add: variant_indexed_def list_all_iff)
  then show "segment_index_of (show_int (vs_segment_index s) @ ''.ts'') = Some (vs_segment_index s)"
    by (intro segment_index_of_show) (auto simp: segment_ok_def)
  have "distinct (map vs_segment_index (vv_segments v))" using indexed by (simp add: variant_indexed_def)
  with assms(3) have "segment_address v (vs_segment_index s) = Some (vs_autonomi_address s)"
    unfolding segment_address_map_of [OF indexed] by (intro map_of_is_SomeI) (auto simp: comp_def)
  with assms(2) show "resolve_segment m resolution (vs_segment_index s) = Inr (vs_autonomi_address s)"
    by (simp add: resolve_segment_def ok_or_else_def)
qed

text \<open>A part of a path that needs no encoding.\<close>

definition plain_part :: "string \<Rightarrow> bool" where
  "plain_part s \<longleftrightarrow> s \<noteq> [] \<and> CHR ''/'' \<notin> set s \<and> CHR 0x0A \<notin> set s"

text \<open>C34. A player that follows a playlist is served. The lines of the playlist of a manifest address that
  are no tags are one URL for each segment of the asked variant of the manifest that the network holds
  there, in the manifest's order; each is dispatched to the handler of segments by address, with that
  address and resolution and a file name that is read as the segment's index, and that handler - whatever
  manifests were loaded before either request - resolves it to exactly that segment's data.
\<close>

theorem playlist_urls_are_served:
  assumes "0 < slots" "0 < slots'" "plain_part address" "plain_part resolution"
    and "fst (build_manifest_from_address env cfg now later address resolution
      (run (manifest_step env cfg) requests (empty_app_cache slots))) = Inr playlist"
  shows "\<exists>m v. fetch_manifest env address = Inr m \<and> find_variant m resolution = Some v \<and>
    list_all2 (\<lambda>url s.
      stream_dispatch ''GET'' url = Inr (StSegmentByAddress address resolution (show_int (vs_segment_index s) @ ''.ts'')) \<and>
      segment_index_of (show_int (vs_segment_index s) @ ''.ts'') = Some (vs_segment_index s) \<and>
      fst (segment_request_from_address env cfg now' later' address resolution (vs_segment_index s)
        (run (manifest_step env cfg) requests' (empty_app_cache slots'))) = Inr (vs_autonomi_address s))
      (player_urls playlist) (vv_segments v)"
proof -
  let ?c = "run (manifest_step env cfg) requests (empty_app_cache slots)"
  let ?url = "manifest_segment_url address resolution"
  obtain loaded c' where "load_manifest env cfg now later address ?c = (loaded, c')" by fastforce
  with loaded_manifest [OF assms(1), of env cfg now later address requests] assms(5)
  obtain m where m: "fetch_manifest env address = Inr m" "render_manifest m resolution ?url = Inr playlist"
    by (auto simp: build_manifest_from_address_def rbind_eq_Inr)
  then obtain v where v: "find_variant m resolution = Some v"
    "playlist = playlist_start v @ concat (map (playlist_entry ?url) (vv_segments v)) @ ''#EXT-X-ENDLIST'' @ nl"
    by (auto simp: render_manifest_def ok_or_else_def split: if_splits option.splits)
  have "CHR 0x0A \<notin> set (?url i)" "?url i \<noteq> []" "hd (?url i) \<noteq> CHR ''#''" for i
    using assms(3,4) show_int_no_newline by (simp_all add: manifest_segment_url_def plain_part_def)
  from player_entries [OF this] have "player_urls playlist = map (\<lambda>s. ?url (vs_segment_index s)) (vv_segments v)"
    unfolding v(2) player_start .
  moreover have "stream_dispatch ''GET'' (?url i) = Inr (StSegmentByAddress address resolution (show_int i @ ''.ts''))" for i
    using assms(3,4) by (intro dispatch_manifest_url) (simp_all add: plain_part_def)
  moreover have "fst (segment_request_from_address env cfg now' later' address resolution i
      (run (manifest_step env cfg) requests' (empty_app_cache slots'))) = resolve_segment m resolution i" for i
    using loaded_manifest [OF assms(2), of env cfg now' later' address requests'] m(1)
    by (simp add: segment_request_from_address_def split_beta)
  ultimately have "list_all2 (\<lambda>url s.
      stream_dispatch ''GET'' url = Inr (StSegmentByAddress address resolution (show_int (vs_segment_index s) @ ''.ts'')) \<and>
      segment_index_of (show_int (vs_segment_index s) @ ''.ts'') = Some (vs_segment_index s) \<and>
      fst (segment_request_from_address env cfg now' later' address resolution (vs_segment_index s)
        (run (manifest_step env cfg) requests' (empty_app_cache slots'))) = Inr (vs_autonomi_address s))
      (player_urls playlist) (vv_segments v)"
    using indexed_segment [OF m(1) v(1)] by (auto simp: list_all2_map1 list_all2_same)
  with m(1) v(1) show ?thesis by blast
qed

theorem playlist_urls_are_served_witness:
  "\<exists>playlist. fst (build_manifest_from_address demo_env demo_config 3 4 ''m'' ''720p'' (empty_app_cache 16)) = Inr playlist \<and>
    list_all2 (\<lambda>url s.
      stream_dispatch ''GET'' url = Inr (StSegmentByAddress ''m'' ''720p'' (show_int (vs_segment_index s) @ ''.ts'')))
      (player_urls playlist) (vv_segments (the (find_variant demo_indexed ''720p'')))"
proof -
  have fetched: "fetch_manifest demo_env ''m'' = Inr demo_indexed"
    by (simp add: fetch_manifest_def demo_env_def document_limit_def demo_index)
  have "is_ok (render_manifest demo_indexed ''720p'' url)" for url
    by (simp add: render_manifest_def demo_indexed_def find_variant_def ok_or_else_def)
  with loaded_manifest [of 16 demo_env demo_config 3 4 "''m''" "[]"] fetched
  obtain playlist where playlist: "fst (build_manifest_from_address demo_env demo_config 3 4 ''m'' ''720p'' (empty_app_cache 16)) = Inr playlist"
    by (auto simp: build_manifest_from_address_def split_beta is_ok_iff)
  have parts: "plain_part ''m''" "plain_part ''720p''" by (simp_all add: plain_part_def)
  have "fst (build_manifest_from_address demo_env demo_config 3 4 ''m'' ''720p''
      (run (manifest_step demo_env demo_config) [] (empty_app_cache 16))) = Inr playlist" using playlist by simp
  from playlist_urls_are_served [OF _ _ parts this, of 16 5 6 "[]"] fetched
  obtain m v where "m = demo_indexed" and v: "find_variant m ''720p'' = Some v" and urls: "list_all2 (\<lambda>url s.
      stream_dispatch ''GET'' url = Inr (StSegmentByAddress ''m'' ''720p'' (show_int (vs_segment_index s) @ ''.ts'')) \<and>
      segment_index_of (show_int (vs_segment_index s) @ ''.ts'') = Some (vs_segment_index s) \<and>
      fst (segment_request_from_address demo_env demo_config 5 6 ''m'' ''720p'' (vs_segment_index s)
        (run (manifest_step demo_env demo_config) [] (empty_app_cache 16))) = Inr (vs_autonomi_address s))
      (player_urls playlist) (vv_segments v)"
    by (simp only: zero_less_numeral simp_thms sum.inject) blast
  from urls have "list_all2 (\<lambda>url s.
      stream_dispatch ''GET'' url = Inr (StSegmentByAddress ''m'' ''720p'' (show_int (vs_segment_index s) @ ''.ts'')))
      (player_urls playlist) (vv_segments v)"
    by (rule list_all2_mono) simp
  with playlist v \<open>m = demo_indexed\<close> show ?thesis by auto
qed

end
