(* ===== verification/Admin_Config.thy ===== *)
theory Admin_Config
  imports Service_Config Media_Encoding
begin

text \<open>
  The settings of the admin service (\<open>Config::from_env\<close> of \<open>crates/rust_admin/src/config.rs\<close>): every
  variable in the order it is read, its parser, its default and its guard. The fields of the source's one
  structure are grouped by the part of the service that uses them.
\<close>

section \<open>Settings\<close>

definition setting :: "environment \<Rightarrow> (string \<Rightarrow> 'a option) \<Rightarrow> string \<Rightarrow> 'a \<Rightarrow> ('a \<Rightarrow> bool) \<Rightarrow> string \<Rightarrow> 'a conf" where
  "setting en parse name default_value accepted complaint =
     rbind (parse_env en parse name default_value) (\<lambda>v. if accepted v then Inr v else Inl (name @ complaint))"

definition var_or :: "environment \<Rightarrow> string \<Rightarrow> string \<Rightarrow> string" where
  "var_or en name default_value = (case en_var en name of Some v \<Rightarrow> v | None \<Rightarrow> default_value)"

definition join_path :: "string \<Rightarrow> string \<Rightarrow> string" where
  "join_path dir name = (if dir = [] then name else if last dir = CHR ''/'' then dir @ name else dir @ ''/'' @ name)"

definition positive_msg :: string where "positive_msg = '' must be greater than zero''"
definition one_msg :: string where "one_msg = '' must be at least 1''"

text \<open>The guard \<open>x <= 0.0\<close> of a float, and \<open>x <= 0\<close>, \<open>x == 0\<close> and \<open>x < 1\<close> of the integers.\<close>

definition seconds_setting :: "environment \<Rightarrow> string \<Rightarrow> rat \<Rightarrow> f64 conf" where
  "seconds_setting en name default_value =
     setting en parse_f64 name (Fin default_value) (\<lambda>v. \<not> f64_le v (Fin 0)) positive_msg"

definition int_setting :: "environment \<Rightarrow> string \<Rightarrow> int \<Rightarrow> int conf" where
  "int_setting en name default_value = setting en (parse_signed 64) name default_value (\<lambda>v. \<not> v \<le> 0) positive_msg"

definition nonzero_setting :: "environment \<Rightarrow> nat \<Rightarrow> string \<Rightarrow> nat \<Rightarrow> nat conf" where
  "nonzero_setting en bits name default_value = setting en (parse_unsigned bits) name default_value (\<lambda>v. v \<noteq> 0) positive_msg"

definition count_setting :: "environment \<Rightarrow> string \<Rightarrow> nat \<Rightarrow> nat conf" where
  "count_setting en name default_value = setting en (parse_unsigned 64) name default_value (\<lambda>v. \<not> v < 1) one_msg"

definition attempts_setting :: "environment \<Rightarrow> string \<Rightarrow> int \<Rightarrow> int conf" where
  "attempts_setting en name default_value = setting en (parse_signed 32) name default_value (\<lambda>v. \<not> v < 1) one_msg"

section \<open>Database\<close>

record database_config =
  dc_db_path :: string
  dc_min_connections :: nat
  dc_max_connections :: nat
  dc_connect_timeout_seconds :: f64

definition data_dir :: "environment \<Rightarrow> string" where
  "data_dir en = var_or en ''AUTVID_DATA_DIR'' ''.autvid''"

definition read_database :: "environment \<Rightarrow> database_config conf" where
  "read_database en =
     rbind (parse_env en (parse_unsigned 32) ''ADMIN_DB_MIN_CONNECTIONS'' 1) (\<lambda>min_c.
     rbind (nonzero_setting en 32 ''ADMIN_DB_MAX_CONNECTIONS'' 5) (\<lambda>max_c.
     if min_c > max_c
     then Inl ''ADMIN_DB_MIN_CONNECTIONS must be less than or equal to ADMIN_DB_MAX_CONNECTIONS''
     else
       rbind (seconds_setting en ''ADMIN_DB_CONNECT_TIMEOUT_SECONDS'' 30) (\<lambda>timeout.
       Inr \<lparr>dc_db_path = var_or en ''ADMIN_DB_PATH'' (join_path (data_dir en) ''autvid.sqlite3''),
         dc_min_connections = min_c, dc_max_connections = max_c, dc_connect_timeout_seconds = timeout\<rparr>)))"

section \<open>Access\<close>

record access_config =
  xc_username :: string
  xc_password :: string
  xc_secret :: string
  xc_ttl_hours :: int
  xc_cookie_secure :: bool
  xc_refresh_ttl_hours :: int
  xc_same_site :: same_site
  xc_request_timeout_seconds :: f64
  xc_upload_request_timeout_seconds :: f64
  xc_shutdown_grace_seconds :: f64

definition default_refresh_ttl_hours :: int where "default_refresh_ttl_hours = 24 * 30"

definition read_access :: "environment \<Rightarrow> access_config conf" where
  "read_access en =
     rbind (secret_env en ''ADMIN_PASSWORD'' ''ADMIN_PASSWORD_FILE'') (\<lambda>given_password.
     let username = var_or en ''ADMIN_USERNAME'' ''admin'';
         password = (case given_password of Some p \<Rightarrow> p | None \<Rightarrow> ''admin'')
     in rbind (secret_env en ''ADMIN_AUTH_SECRET'' ''ADMIN_AUTH_SECRET_FILE'') (\<lambda>given_secret.
     let secret = (case given_secret of Some s \<Rightarrow> s | None \<Rightarrow> password)
     in rbind (int_setting en ''ADMIN_AUTH_TTL_HOURS'' 12) (\<lambda>ttl.
     rbind (is_production_environment en) (\<lambda>production.
     rbind (bool_from_env en ''ADMIN_AUTH_COOKIE_SECURE'' production) (\<lambda>secure.
     rbind (int_setting en ''ADMIN_REFRESH_TOKEN_TTL_HOURS'' default_refresh_ttl_hours) (\<lambda>refresh_ttl.
     rbind (parse_cookie_same_site_env en ''ADMIN_AUTH_COOKIE_SAME_SITE'' Lax) (\<lambda>same_site.
     if same_site = NoneSite \<and> \<not> secure
     then Inl ''ADMIN_AUTH_COOKIE_SAME_SITE=None requires ADMIN_AUTH_COOKIE_SECURE=true''
     else
       rbind (seconds_setting en ''ADMIN_REQUEST_TIMEOUT_SECONDS'' 120) (\<lambda>request.
       rbind (seconds_setting en ''ADMIN_UPLOAD_REQUEST_TIMEOUT_SECONDS'' 3600) (\<lambda>upload_request.
       rbind (seconds_setting en ''ADMIN_SHUTDOWN_GRACE_SECONDS'' 15) (\<lambda>grace.
       rbind (validate_admin_auth_config en username password secret ttl) (\<lambda>_.
       Inr \<lparr>xc_username = username, xc_password = password, xc_secret = secret, xc_ttl_hours = ttl,
         xc_cookie_secure = secure, xc_refresh_ttl_hours = refresh_ttl, xc_same_site = same_site,
         xc_request_timeout_seconds = request, xc_upload_request_timeout_seconds = upload_request,
         xc_shutdown_grace_seconds = grace\<rparr>)))))))))))"

text \<open>Two settings are read again at each use; what is wrong by then falls back to the default.\<close>

definition admin_refresh_token_ttl_hours :: "environment \<Rightarrow> int" where
  "admin_refresh_token_ttl_hours en =
     (case parse_env en (parse_signed 64) ''ADMIN_REFRESH_TOKEN_TTL_HOURS'' default_refresh_ttl_hours of
        Inl _ \<Rightarrow> default_refresh_ttl_hours
      | Inr ttl \<Rightarrow> if ttl > 0 then ttl else default_refresh_ttl_hours)"

definition admin_auth_cookie_same_site :: "environment \<Rightarrow> same_site" where
  "admin_auth_cookie_same_site en =
     (case parse_cookie_same_site_env en ''ADMIN_AUTH_COOKIE_SAME_SITE'' Lax of Inl _ \<Rightarrow> Lax | Inr s \<Rightarrow> s)"

section \<open>Media\<close>

record media_config =
  mc_ffmpeg_bin :: string
  mc_ffprobe_bin :: string
  mc_hls_segment_duration :: f64
  mc_ffmpeg_threads :: nat
  mc_ffmpeg_filter_threads :: nat
  mc_ffmpeg_max_parallel_renditions :: nat
  mc_ffmpeg_rendition_timeout_seconds :: f64

definition read_media :: "environment \<Rightarrow> media_config conf" where
  "read_media en =
     rbind (seconds_setting en ''HLS_SEGMENT_DURATION'' 6) (\<lambda>hls.
     rbind (count_setting en ''FFMPEG_THREADS'' 2) (\<lambda>threads.
     rbind (count_setting en ''FFMPEG_FILTER_THREADS'' 1) (\<lambda>filter_threads.
     rbind (count_setting en ''FFMPEG_MAX_PARALLEL_RENDITIONS'' 1) (\<lambda>parallel.
     rbind (seconds_setting en ''FFMPEG_RENDITION_TIMEOUT_SECONDS'' (6 * 60 * 60)) (\<lambda>timeout.
     Inr \<lparr>mc_ffmpeg_bin = var_or en ''FFMPEG_BIN'' ''ffmpeg'', mc_ffprobe_bin = var_or en ''FFPROBE_BIN'' ''ffprobe'',
       mc_hls_segment_duration = hls, mc_ffmpeg_threads = threads, mc_ffmpeg_filter_threads = filter_threads,
       mc_ffmpeg_max_parallel_renditions = parallel, mc_ffmpeg_rendition_timeout_seconds = timeout\<rparr>)))))"

section \<open>Uploads\<close>

record intake_config =
  ic_quote_transcoded_overhead :: f64
  ic_quote_max_sample_bytes :: nat
  ic_max_file_bytes :: nat
  ic_min_free_bytes :: nat
  ic_max_concurrent_saves :: nat
  ic_read_idle_timeout_seconds :: f64
  ic_ffprobe_timeout_seconds :: f64
  ic_max_duration_seconds :: f64
  ic_max_source_pixels :: int
  ic_max_source_long_edge :: int

definition read_intake :: "environment \<Rightarrow> intake_config conf" where
  "read_intake en =
     rbind (setting en parse_f64 ''UPLOAD_QUOTE_TRANSCODED_OVERHEAD'' (f64_of (108 / 100)) (\<lambda>v. \<not> f64_lt v (Fin 1)) one_msg) (\<lambda>overhead.
     rbind (count_setting en ''UPLOAD_QUOTE_MAX_SAMPLE_BYTES'' (16 * 1024 * 1024)) (\<lambda>sample.
     rbind (nonzero_setting en 64 ''UPLOAD_MAX_FILE_BYTES'' (20 * 1024 * 1024 * 1024)) (\<lambda>max_file.
     rbind (parse_env en (parse_unsigned 64) ''UPLOAD_MIN_FREE_BYTES'' (5 * 1024 * 1024 * 1024)) (\<lambda>min_free.
     rbind (count_setting en ''UPLOAD_MAX_CONCURRENT_SAVES'' 2) (\<lambda>saves.
     rbind (seconds_setting en ''UPLOAD_READ_IDLE_TIMEOUT_SECONDS'' 30) (\<lambda>idle.
     rbind (seconds_setting en ''UPLOAD_FFPROBE_TIMEOUT_SECONDS'' 30) (\<lambda>probe.
     rbind (seconds_setting en ''UPLOAD_MAX_DURATION_SECONDS'' (4 * 60 * 60)) (\<lambda>duration.
     rbind (int_setting en ''UPLOAD_MAX_SOURCE_PIXELS'' (7680 * 4320)) (\<lambda>pixels.
     rbind (int_setting en ''UPLOAD_MAX_SOURCE_LONG_EDGE'' 7680) (\<lambda>edge.
     Inr \<lparr>ic_quote_transcoded_overhead = overhead, ic_quote_max_sample_bytes = sample, ic_max_file_bytes = max_file,
       ic_min_free_bytes = min_free, ic_max_concurrent_saves = saves, ic_read_idle_timeout_seconds = idle,
       ic_ffprobe_timeout_seconds = probe, ic_max_duration_seconds = duration, ic_max_source_pixels = pixels,
       ic_max_source_long_edge = edge\<rparr>))))))))))"

definition limits_of :: "intake_config \<Rightarrow> media_limits" where
  "limits_of ic =
     \<lparr>ml_max_duration_seconds = ic_max_duration_seconds ic, ml_max_source_pixels = ic_max_source_pixels ic,
      ml_max_source_long_edge = ic_max_source_long_edge ic\<rparr>"

section \<open>Gateway and jobs\<close>

definition accepted_modes :: "string list" where "accepted_modes = [''auto'', ''merkle'', ''single'']"

definition read_mode :: "environment \<Rightarrow> string \<Rightarrow> string \<Rightarrow> string conf" where
  "read_mode en name default_value =
     (let mode = var_or en name default_value
      in if mode \<notin> set accepted_modes then Inl (name @ '' must be one of auto, merkle, single'') else Inr mode)"

record gateway_config =
  gc_final_quote_approval_ttl_seconds :: int
  gc_approval_cleanup_interval_seconds :: nat
  gc_upload_retries :: nat
  gc_upload_timeout_seconds :: f64
  gc_quote_concurrency :: nat
  gc_upload_concurrency :: nat
  gc_direct_upload_max_bytes :: nat

definition read_gateway :: "environment \<Rightarrow> gateway_config conf" where
  "read_gateway en =
     rbind (int_setting en ''FINAL_QUOTE_APPROVAL_TTL_SECONDS'' (4 * 60 * 60)) (\<lambda>ttl.
     rbind (nonzero_setting en 64 ''APPROVAL_CLEANUP_INTERVAL_SECONDS'' 300) (\<lambda>cleanup.
     rbind (count_setting en ''ANTD_UPLOAD_RETRIES'' 3) (\<lambda>retries.
     rbind (seconds_setting en ''ANTD_UPLOAD_TIMEOUT_SECONDS'' 120) (\<lambda>timeout.
     rbind (count_setting en ''ANTD_QUOTE_CONCURRENCY'' 2) (\<lambda>quotes.
     rbind (count_setting en ''ANTD_UPLOAD_CONCURRENCY'' 4) (\<lambda>uploads.
     rbind (setting en (parse_unsigned 64) ''ANTD_DIRECT_UPLOAD_MAX_BYTES'' (16 * 1024 * 1024) (\<lambda>v. \<not> v < 3)
              '' must be at least 3'') (\<lambda>direct.
     Inr \<lparr>gc_final_quote_approval_ttl_seconds = ttl, gc_approval_cleanup_interval_seconds = cleanup,
       gc_upload_retries = retries, gc_upload_timeout_seconds = timeout, gc_quote_concurrency = quotes,
       gc_upload_concurrency = uploads, gc_direct_upload_max_bytes = direct\<rparr>)))))))"

record job_config =
  jc_workers :: nat
  jc_poll_interval_seconds :: nat
  jc_lease_seconds :: int
  jc_max_attempts :: int
  jc_catalog_publish_max_attempts :: int

text \<open>A longer lease is cut to what the gateway renews.\<close>

definition read_jobs :: "environment \<Rightarrow> job_config conf" where
  "read_jobs en =
     rbind (count_setting en ''ADMIN_JOB_WORKERS'' 1) (\<lambda>workers.
     rbind (nonzero_setting en 64 ''ADMIN_JOB_POLL_INTERVAL_SECONDS'' 2) (\<lambda>poll.
     rbind (parse_env en (parse_signed 64) ''ADMIN_JOB_LEASE_SECONDS'' 120) (\<lambda>requested.
     let lease = min requested 300
     in if lease \<le> 0 then Inl (''ADMIN_JOB_LEASE_SECONDS'' @ positive_msg)
        else
          rbind (attempts_setting en ''ADMIN_JOB_MAX_ATTEMPTS'' 3) (\<lambda>attempts.
          rbind (attempts_setting en ''CATALOG_PUBLISH_JOB_MAX_ATTEMPTS'' 12) (\<lambda>catalog_attempts.
          Inr \<lparr>jc_workers = workers, jc_poll_interval_seconds = poll, jc_lease_seconds = lease, jc_max_attempts = attempts,
            jc_catalog_publish_max_attempts = catalog_attempts\<rparr>)))))"

section \<open>All of it\<close>

record 'ip service_settings =
  fc_bind_addr :: "'ip \<times> nat"
  fc_database :: database_config
  fc_access :: access_config
  fc_payment_mode :: string
  fc_metadata_payment_mode :: string
  fc_media :: media_config
  fc_intake :: intake_config
  fc_gateway :: gateway_config
  fc_jobs :: job_config
  fc_antd_url :: string
  fc_antd_internal_token :: "string option"
  fc_catalog_state_path :: string
  fc_catalog_bootstrap_address :: "string option"
  fc_all_catalog_bootstrap_address :: "string option"
  fc_cors_allowed_origins :: "string list"
  fc_upload_temp_dir :: string
  fc_upload_verify :: bool
  fc_approve_on_startup :: bool
  fc_require_cost_ready :: bool

definition config_from_env :: "environment \<Rightarrow> (string \<Rightarrow> 'ip option) \<Rightarrow> 'ip \<Rightarrow> 'ip service_settings conf" where
  "config_from_env en parse_ip localhost =
     rbind (bind_addr_from_env en parse_ip localhost ''RUST_ADMIN'' 8000) (\<lambda>addr.
     rbind (read_database en) (\<lambda>database.
     rbind (read_access en) (\<lambda>access.
     rbind (read_mode en ''ANTD_PAYMENT_MODE'' ''auto'') (\<lambda>mode.
     rbind (read_mode en ''ANTD_METADATA_PAYMENT_MODE'' ''merkle'') (\<lambda>metadata_mode.
     rbind (read_media en) (\<lambda>media.
     rbind (read_intake en) (\<lambda>intake.
     rbind (read_gateway en) (\<lambda>gateway.
     rbind (read_jobs en) (\<lambda>jobs.
     rbind (secret_env en ''ANTD_INTERNAL_TOKEN'' ''ANTD_INTERNAL_TOKEN_FILE'') (\<lambda>token.
     rbind (cors_allowed_origins en) (\<lambda>origins.
     rbind (bool_from_env en ''ANTD_UPLOAD_VERIFY'' True) (\<lambda>verify.
     rbind (bool_from_env en ''ANTD_APPROVE_ON_STARTUP'' False) (\<lambda>approve.
     rbind (bool_from_env en ''ANTD_REQUIRE_COST_READY'' False) (\<lambda>cost_ready.
     Inr \<lparr>fc_bind_addr = addr, fc_database = database, fc_access = access, fc_payment_mode = mode,
       fc_metadata_payment_mode = metadata_mode, fc_media = media, fc_intake = intake, fc_gateway = gateway, fc_jobs = jobs,
       fc_antd_url = var_or en ''ANTD_URL'' ''http://localhost:8082'', fc_antd_internal_token = token,
       fc_catalog_state_path = var_or en ''CATALOG_STATE_PATH'' (join_path (join_path (data_dir en) ''catalog'') ''catalog.json''),
       fc_catalog_bootstrap_address =
         (case non_empty_env en ''PUBLISHED_CATALOG_ADDRESS'' of Some a \<Rightarrow> Some a | None \<Rightarrow> non_empty_env en ''CATALOG_ADDRESS''),
       fc_all_catalog_bootstrap_address = non_empty_env en ''ALL_CATALOG_ADDRESS'', fc_cors_allowed_origins = origins,
       fc_upload_temp_dir = var_or en ''UPLOAD_TEMP_DIR'' (join_path (data_dir en) ''processing''), fc_upload_verify = verify,
       fc_approve_on_startup = approve, fc_require_cost_ready = cost_ready\<rparr>))))))))))))))"

end
