(* ===== verification/Launcher_Setup.thy ===== *)
theory Launcher_Setup
  imports Admin_Config
begin

text \<open>
  The first-run setup of the launcher and its small helpers (\<open>crates/launcher_core/src/setup.rs\<close>,
  \<open>options.rs\<close>, \<open>util.rs\<close>, \<open>tools.rs\<close>): what it asks for, what it writes, and how it finds ports and tools.
  Files are a map from paths to contents; the outcome of each write, the random secret and the JSON library
  are parameters. Modes of files are not modelled.
\<close>

section \<open>Options\<close>

datatype network_mode = Configured | LocalDevnet

record first_run_setup =
  fs_admin_username :: string
  fs_admin_password :: string
  fs_wallet_key :: "string option"
  fs_wallet_key_file :: "string option"

record setup_status =
  su_configured :: bool
  su_data_dir :: string

record desktop_config =
  dk_schema_version :: nat
  dk_admin_username :: string
  dk_admin_password_file :: string
  dk_admin_auth_secret_file :: string
  dk_wallet_key_file :: "string option"

type_synonym disk = "string \<Rightarrow> string option"

text \<open>What a write to a path comes to: an error may leave another content behind.\<close>

datatype write_outcome = Written | WriteFails string "string option"

record setup_world =
  sw_create_dir :: "string \<Rightarrow> string option"
  sw_write :: "string \<Rightarrow> write_outcome"
  sw_secret :: string
  sw_encode :: "desktop_config \<Rightarrow> string"
  sw_decode :: "string \<Rightarrow> string + desktop_config"

section \<open>Checking the answers\<close>

text \<open>The launcher has its own copy of the admin service's test for weak values.\<close>

definition launcher_unsafe_value :: "string \<Rightarrow> bool" where
  "launcher_unsafe_value value \<longleftrightarrow>
     (let normalized = to_ascii_lowercase (trim value)
      in normalized \<in> {[], ''admin'', ''administrator'', ''changeme'', ''change-me'', ''change_me'', ''default'',
           ''password'', ''please-change-me'', ''replace-me'', ''secret'', ''test'', ''test-secret''} \<or>
         list_ex (contains normalized)
           [''change-me'', ''change_me'', ''changeme'', ''change-this'', ''change_this'', ''changethis'',
            ''replace-me'', ''replace_me'', ''replace-this'', ''replace_this''])"

definition blank_answer :: "string option \<Rightarrow> bool" where
  "blank_answer x = (case x of None \<Rightarrow> True | Some s \<Rightarrow> trim s = [])"

definition validate_setup :: "disk \<Rightarrow> first_run_setup \<Rightarrow> unit conf" where
  "validate_setup disk setup =
     (let username = trim (fs_admin_username setup); password = trim (fs_admin_password setup)
      in if username = [] \<or> launcher_unsafe_value username then Inl ''choose a non-default admin username''
         else if length password < 12 \<or> launcher_unsafe_value password
         then Inl ''admin password must be at least 12 characters and non-default''
         else if blank_answer (fs_wallet_key setup) \<and> blank_answer (fs_wallet_key_file setup)
         then Inl ''provide an Autonomi wallet key or wallet key file path''
         else (case non_empty (map_option trim (fs_wallet_key_file setup)) of
                 Some path \<Rightarrow> if disk path = None then Inl ''Autonomi wallet key file does not exist or is not a file'' else Inr ()
               | None \<Rightarrow> Inr ()))"

section \<open>Writing the setup\<close>

definition write_private_file :: "setup_world \<Rightarrow> string \<Rightarrow> string \<Rightarrow> disk \<Rightarrow> unit conf \<times> disk" where
  "write_private_file w path bytes disk =
     (case sw_write w path of
        Written \<Rightarrow> (Inr (), disk(path \<mapsto> bytes))
      | WriteFails e content \<Rightarrow> (Inl e, disk(path := content)))"

definition newline :: string where "newline = [CHR 0x0A]"

definition write_secret_file :: "setup_world \<Rightarrow> string \<Rightarrow> string \<Rightarrow> disk \<Rightarrow> unit conf \<times> disk" where
  "write_secret_file w path bytes disk = write_private_file w path (bytes @ newline) disk"

definition dir_ok :: "setup_world \<Rightarrow> string \<Rightarrow> unit conf" where
  "dir_ok w path = (case sw_create_dir w path of None \<Rightarrow> Inr () | Some e \<Rightarrow> Inl e)"

definition read_desktop_config :: "setup_world \<Rightarrow> string \<Rightarrow> disk \<Rightarrow> desktop_config conf" where
  "read_desktop_config w data_path disk =
     (case disk (join_path data_path ''desktop-config.json'') of
        None \<Rightarrow> Inl (''could not read desktop config at '' @ join_path data_path ''desktop-config.json'')
      | Some raw \<Rightarrow>
          rbind (sw_decode w raw) (\<lambda>c.
          if dk_schema_version c \<noteq> 1 then Inl ''unsupported desktop config schema''
          else if disk (dk_admin_password_file c) = None \<or> disk (dk_admin_auth_secret_file c) = None
          then Inl ''desktop setup secret files are missing''
          else Inr c))"

definition setup_status_of :: "setup_world \<Rightarrow> string \<Rightarrow> disk \<Rightarrow> setup_status" where
  "setup_status_of w data_path disk = \<lparr>su_configured = is_ok (read_desktop_config w data_path disk), su_data_dir = data_path\<rparr>"

definition store_wallet_key ::
  "setup_world \<Rightarrow> string \<Rightarrow> first_run_setup \<Rightarrow> disk \<Rightarrow> string option conf \<times> disk"
where
  "store_wallet_key w secrets_dir setup disk =
     (case non_empty (map_option trim (fs_wallet_key setup)) of
        Some key \<Rightarrow>
          (let path = join_path secrets_dir ''autonomi-wallet-key''
           in case write_secret_file w path key disk of
                (Inl e, disk') \<Rightarrow> (Inl e, disk')
              | (Inr _, disk') \<Rightarrow> (Inr (Some path), disk'))
      | None \<Rightarrow> (Inr (non_empty (map_option trim (fs_wallet_key_file setup))), disk))"

definition save_first_run_config ::
  "setup_world \<Rightarrow> string \<Rightarrow> first_run_setup \<Rightarrow> disk \<Rightarrow> setup_status conf \<times> disk"
where
  "save_first_run_config w data_path setup disk =
     (let secrets_dir = join_path data_path ''secrets'';
          password_file = join_path secrets_dir ''admin-password'';
          auth_secret_file = join_path secrets_dir ''admin-auth-secret''
      in case rbind (validate_setup disk setup) (\<lambda>_. rbind (dir_ok w data_path) (\<lambda>_. dir_ok w secrets_dir)) of
           Inl e \<Rightarrow> (Inl e, disk)
         | Inr _ \<Rightarrow>
             (case write_secret_file w password_file (fs_admin_password setup) disk of
                (Inl e, disk1) \<Rightarrow> (Inl e, disk1)
              | (Inr _, disk1) \<Rightarrow>
                  (case write_secret_file w auth_secret_file (sw_secret w) disk1 of
                     (Inl e, disk2) \<Rightarrow> (Inl e, disk2)
                   | (Inr _, disk2) \<Rightarrow>
                       (case store_wallet_key w secrets_dir setup disk2 of
                          (Inl e, disk3) \<Rightarrow> (Inl e, disk3)
                        | (Inr wallet_key_file, disk3) \<Rightarrow>
                            (let c = \<lparr>dk_schema_version = 1, dk_admin_username = trim (fs_admin_username setup),
                                   dk_admin_password_file = password_file, dk_admin_auth_secret_file = auth_secret_file,
                                   dk_wallet_key_file = wallet_key_file\<rparr>
                             in case write_private_file w (join_path data_path ''desktop-config.json'') (sw_encode w c) disk3 of
                                  (Inl e, disk4) \<Rightarrow> (Inl e, disk4)
                                | (Inr _, disk4) \<Rightarrow> (Inr (setup_status_of w data_path disk4), disk4))))))"

text \<open>\<open>bytes\<close> are the 32 random bytes.\<close>

definition hex_digit :: "nat \<Rightarrow> char" where
  "hex_digit n = (if n < 10 then char_of (48 + n) else char_of (87 + n))"

definition random_hex_secret :: "nat list \<Rightarrow> string" where
  "random_hex_secret bytes = concat (map (\<lambda>b. [hex_digit (b div 16), hex_digit (b mod 16)]) bytes)"

section \<open>Helpers\<close>

fun replace_all :: "nat \<Rightarrow> string \<Rightarrow> string \<Rightarrow> string \<Rightarrow> string" where
  "replace_all 0 from by s = s"
| "replace_all (Suc n) from by [] = []"
| "replace_all (Suc n) from by (c # s) =
     (if prefix from (c # s) then by @ replace_all n from by (drop (length from) (c # s))
      else c # replace_all n from by s)"

definition linux_name :: "string \<Rightarrow> string" where
  "linux_name app_name =
     (let dashed = map (\<lambda>c. if c = CHR '' '' then CHR ''-'' else c) (to_ascii_lowercase app_name)
      in replace_all (length dashed) ''--'' ''-'' dashed)"

definition resolve_data_dir :: "environment \<Rightarrow> bool \<Rightarrow> string \<Rightarrow> string conf" where
  "resolve_data_dir en macos app_name =
     (case en_var en ''AUTVID_DATA_DIR'' of
        Some value \<Rightarrow> Inr value
      | None \<Rightarrow>
          (case en_var en ''HOME'' of
             None \<Rightarrow> Inl ''HOME is required when AUTVID_DATA_DIR is unset''
           | Some home \<Rightarrow>
               if macos then Inr (join_path (join_path (join_path home ''Library'') ''Application Support'') app_name)
               else Inr (join_path (case en_var en ''XDG_DATA_HOME'' of
                        Some d \<Rightarrow> d | None \<Rightarrow> join_path (join_path home ''.local'') ''share'') (linux_name app_name))))"

text \<open>\<open>bound\<close> is the port the system gives when the default one is taken.\<close>

definition env_port_or_available :: "environment \<Rightarrow> (nat \<Rightarrow> bool) \<Rightarrow> nat conf \<Rightarrow> string \<Rightarrow> nat \<Rightarrow> nat conf" where
  "env_port_or_available en port_available bound name default_port =
     (case en_var en name of
        Some value \<Rightarrow> (case parse_unsigned 16 value of None \<Rightarrow> Inl (name @ '' must be a valid TCP port'') | Some p \<Rightarrow> Inr p)
      | None \<Rightarrow> if port_available default_port then Inr default_port else bound)"

text \<open>The conversion to a duration panics (\<open>None\<close>) where the seconds do not fit.\<close>

definition env_duration :: "environment \<Rightarrow> string \<Rightarrow> f64 \<Rightarrow> f64 option" where
  "env_duration en name default_value =
     (case Option.bind (en_var en name) parse_f64 of
        None \<Rightarrow> Some default_value
      | Some v \<Rightarrow>
          if \<not> is_finite v \<or> \<not> f64_le (Fin 0) v then Some default_value
          else if f64_le (Fin (2 ^ 64)) v then None else Some v)"

text \<open>\<open>entries\<close> are the names in the directory in the order they are read.\<close>

definition binary_candidate :: "(string \<Rightarrow> bool) \<Rightarrow> string list option \<Rightarrow> string \<Rightarrow> string \<Rightarrow> string option" where
  "binary_candidate is_file entries dir name =
     (if is_file (join_path dir name) then Some (join_path dir name)
      else Option.bind entries (\<lambda>names.
        map_option (join_path dir) (find (\<lambda>n. is_file (join_path dir n) \<and> prefix (name @ ''-'') n) names)))"

definition resolve_tool ::
  "environment \<Rightarrow> (string \<Rightarrow> bool) \<Rightarrow> (string \<Rightarrow> string list option) \<Rightarrow> string \<Rightarrow> string \<Rightarrow> string option \<Rightarrow> string option"
where
  "resolve_tool en is_file entries env_name fallback binary_dir =
     (case en_var en env_name of
        Some path \<Rightarrow> Some path
      | None \<Rightarrow> Option.bind binary_dir (\<lambda>dir. binary_candidate is_file (entries dir) dir fallback))"

end
