(* ===== verification/Service_Startup.thy ===== *)
theory Service_Startup
  imports Gateway_Service Admin_Config Stream_Hls
begin

text \<open>
  How the gateway and the streaming service are set up (\<open>crates/antd_service/src/config.rs\<close>, \<open>main.rs\<close>,
  \<open>crates/rust_stream/src/config.rs\<close>, \<open>main.rs\<close>): their settings, in the order they are read, and the guard
  that keeps a gateway without a token on the loopback interface. The parser of addresses and the test for
  the loopback interface are parameters; the gateway's durations are in milliseconds, the streaming
  service's in nanoseconds, as its caches count them.
\<close>

section \<open>The gateway\<close>

record 'ip gateway_settings =
  gz_bind_addr :: "'ip \<times> nat"
  gz_payment_db_path :: string
  gz_network :: string
  gz_tokens :: gateway_tokens
  gz_cors_allowed_origins :: "string list"
  gz_request_timeout :: nat
  gz_file_upload_request_timeout :: nat
  gz_json_body_limit_bytes :: nat
  gz_file_upload_max_bytes :: nat
  gz_upload_temp_dir :: string
  gz_cost_cache_ttl :: nat
  gz_cost_cache_max_entries :: nat

definition nonzero_millis :: "environment \<Rightarrow> string \<Rightarrow> nat \<Rightarrow> nat conf" where
  "nonzero_millis en name default_seconds =
     rbind (parse_nonzero_env en (parse_unsigned 64) name default_seconds) (\<lambda>seconds. Inr (1000 * seconds))"

definition gateway_config_from_env ::
  "environment \<Rightarrow> (string \<Rightarrow> ('ip \<times> nat) option) \<Rightarrow> 'ip gateway_settings conf"
where
  "gateway_config_from_env en parse_addr =
     (let rest_addr = var_or en ''ANTD_REST_ADDR'' ''127.0.0.1:8082''
      in case parse_addr rest_addr of
           None \<Rightarrow> Inl (en_parse_error en rest_addr)
         | Some bind_addr \<Rightarrow>
             rbind (secret_env en ''ANTD_INTERNAL_TOKEN'' ''ANTD_INTERNAL_TOKEN_FILE'') (\<lambda>internal_token.
             rbind (secret_env en ''ANTD_READ_TOKEN'' ''ANTD_READ_TOKEN_FILE'') (\<lambda>read_token.
             rbind (cors_allowed_origins_from_env en ''ANTD_CORS_ALLOWED_ORIGINS'') (\<lambda>origins.
             rbind (nonzero_millis en ''ANTD_REQUEST_TIMEOUT_SECONDS'' 150) (\<lambda>request_timeout.
             rbind (nonzero_millis en ''ANTD_FILE_UPLOAD_REQUEST_TIMEOUT_SECONDS'' 3600) (\<lambda>file_timeout.
             rbind (parse_nonzero_env en (parse_unsigned 64) ''ANTD_JSON_BODY_LIMIT_BYTES'' (32 * 1024 * 1024)) (\<lambda>body_limit.
             rbind (parse_nonzero_env en (parse_unsigned 64) ''ANTD_FILE_UPLOAD_MAX_BYTES'' (20 * 1024 * 1024 * 1024)) (\<lambda>max_bytes.
             rbind (nonzero_millis en ''ANTD_COST_CACHE_TTL_SECONDS'' 60) (\<lambda>ttl.
             rbind (parse_nonzero_env en (parse_unsigned 64) ''ANTD_COST_CACHE_MAX_ENTRIES'' 512) (\<lambda>max_entries.
             Inr \<lparr>gz_bind_addr = bind_addr,
               gz_payment_db_path = var_or en ''ANTD_PAYMENT_DB_PATH'' ''.autvid/antd-payments.sqlite3'',
               gz_network = var_or en ''ANTD_NETWORK'' ''default'',
               gz_tokens = \<lparr>gt_internal = internal_token, gt_read = read_token\<rparr>,
               gz_cors_allowed_origins = origins, gz_request_timeout = request_timeout,
               gz_file_upload_request_timeout = file_timeout, gz_json_body_limit_bytes = body_limit,
               gz_file_upload_max_bytes = max_bytes, gz_upload_temp_dir = var_or en ''ANTD_UPLOAD_TEMP_DIR'' ''/tmp'',
               gz_cost_cache_ttl = ttl, gz_cost_cache_max_entries = max_entries\<rparr>))))))))))"

text \<open>The gateway goes on to connect only with settings that pass this guard.\<close>

definition gateway_start ::
  "environment \<Rightarrow> (string \<Rightarrow> ('ip \<times> nat) option) \<Rightarrow> ('ip \<Rightarrow> bool) \<Rightarrow> ('ip \<times> nat \<Rightarrow> string) \<Rightarrow> 'ip gateway_settings conf"
where
  "gateway_start en parse_addr is_loopback show_addr =
     rbind (gateway_config_from_env en parse_addr) (\<lambda>c.
     if gt_internal (gz_tokens c) = None \<and> \<not> is_loopback (fst (gz_bind_addr c))
     then Inl (''ANTD_INTERNAL_TOKEN or ANTD_INTERNAL_TOKEN_FILE is required when ANTD_REST_ADDR ('' @
            show_addr (gz_bind_addr c) @ '') is non-loopback'')
     else Inr c)"

definition gateway_policy :: "('ip \<Rightarrow> bool) \<Rightarrow> ('ip \<times> nat \<Rightarrow> string) \<Rightarrow> 'ip gateway_settings \<Rightarrow> native_policy" where
  "gateway_policy is_loopback show_addr c =
     \<lparr>np_loopback = is_loopback (fst (gz_bind_addr c)), np_address = show_addr (gz_bind_addr c),
      np_port = snd (gz_bind_addr c), np_origins = gz_cors_allowed_origins c\<rparr>"

section \<open>The streaming service\<close>

record 'ip stream_settings =
  sz_antd_url :: string
  sz_internal_token :: "string option"
  sz_catalog_state_path :: string
  sz_catalog_bootstrap_address :: "string option"
  sz_cache_config :: cache_config
  sz_request_timeout :: nat
  sz_cors_allowed_origins :: "string list"
  sz_bind_addr :: "'ip \<times> nat"

definition seconds_nanos :: "environment \<Rightarrow> string \<Rightarrow> nat \<Rightarrow> nat conf" where
  "seconds_nanos en name default_seconds =
     rbind (parse_env en (parse_unsigned 64) name default_seconds) (\<lambda>seconds. Inr (1000000000 * seconds))"

definition cache_config_from_env :: "environment \<Rightarrow> cache_config conf" where
  "cache_config_from_env en =
     rbind (seconds_nanos en ''STREAM_CATALOG_CACHE_TTL_SECONDS'' 10) (\<lambda>catalog_ttl.
     rbind (seconds_nanos en ''STREAM_MANIFEST_CACHE_TTL_SECONDS'' 300) (\<lambda>manifest_ttl.
     rbind (seconds_nanos en ''STREAM_SEGMENT_CACHE_TTL_SECONDS'' 3600) (\<lambda>segment_ttl.
     rbind (parse_env en (parse_unsigned 64) ''STREAM_SEGMENT_CACHE_MAX_BYTES'' (64 * 1024 * 1024)) (\<lambda>max_bytes.
     Inr \<lparr>cc_catalog_ttl = catalog_ttl, cc_manifest_ttl = manifest_ttl, cc_segment_ttl = segment_ttl,
       cc_segment_max_bytes = max_bytes\<rparr>))))"

definition stream_request_timeout :: "environment \<Rightarrow> nat conf" where
  "stream_request_timeout en = seconds_nanos en ''STREAM_REQUEST_TIMEOUT_SECONDS'' 60"

definition stream_start ::
  "environment \<Rightarrow> (string \<Rightarrow> 'ip option) \<Rightarrow> 'ip \<Rightarrow> 'ip stream_settings conf"
where
  "stream_start en parse_ip localhost =
     rbind (secret_env en ''ANTD_INTERNAL_TOKEN'' ''ANTD_INTERNAL_TOKEN_FILE'') (\<lambda>internal_token.
     rbind (cache_config_from_env en) (\<lambda>caches.
     rbind (stream_request_timeout en) (\<lambda>request_timeout.
     rbind (cors_allowed_origins en) (\<lambda>origins.
     rbind (bind_addr_from_env en parse_ip localhost ''RUST_STREAM'' 8081) (\<lambda>bind_addr.
     Inr \<lparr>sz_antd_url = var_or en ''ANTD_URL'' ''http://localhost:8082'', sz_internal_token = internal_token,
       sz_catalog_state_path = var_or en ''CATALOG_STATE_PATH'' ''/tmp/video_catalog/catalog.json'',
       sz_catalog_bootstrap_address = non_empty (map_option trim
         (case en_var en ''PUBLISHED_CATALOG_ADDRESS'' of Some v \<Rightarrow> Some v | None \<Rightarrow> en_var en ''CATALOG_ADDRESS'')),
       sz_cache_config = caches, sz_request_timeout = request_timeout,
       sz_cors_allowed_origins = origins, sz_bind_addr = bind_addr\<rparr>)))))"

end
