(* ===== verification/Launcher_Stack.thy ===== *)
theory Launcher_Stack
  imports Launcher_Setup Service_Startup
begin

text \<open>
  The launcher (\<open>crates/launcher_core/src/stack.rs\<close>, \<open>process.rs\<close>, \<open>proxy.rs\<close>,
  \<open>crates/standalone_launcher/src/main.rs\<close>): stale processes, the variables each child is started with, the
  start of the three services and what happens when a step fails, stopping them, and the local proxy in
  front of them. What the operating system and the children do is event data; locks, logs and permissions
  are outcomes of the steps that need them.
\<close>

section \<open>Stale processes\<close>

definition managed_child_names :: "string list" where
  "managed_child_names = [''antd'', ''local-devnet'', ''rust_admin'', ''rust_stream'']"

definition process_name_is_expected :: "string \<Rightarrow> string \<Rightarrow> bool" where
  "process_name_is_expected candidate expected_name \<longleftrightarrow>
     candidate = expected_name \<or>
     (case strip_prefix expected_name candidate of None \<Rightarrow> False | Some rest \<Rightarrow> prefix ''-'' rest)"

text \<open>The processes that exist, and what the kernel says each one is called.\<close>

record process_table =
  pt_alive :: "nat \<Rightarrow> bool"
  pt_comm :: "nat \<Rightarrow> string option"

definition stale_child_running :: "process_table \<Rightarrow> nat \<Rightarrow> string \<Rightarrow> bool" where
  "stale_child_running pt pid expected_name \<longleftrightarrow>
     pt_alive pt pid \<and>
     (case pt_comm pt pid of None \<Rightarrow> False | Some comm \<Rightarrow> process_name_is_expected (trim comm) expected_name)"

datatype pid_file = NoPidFile | UnreadablePid | PidText string

text \<open>The signalled processes with the name they were taken for, and the files afterwards.\<close>

definition cleanup_child ::
  "process_table \<Rightarrow> string \<Rightarrow> (nat \<times> string) list \<times> (string \<Rightarrow> pid_file) \<Rightarrow> (nat \<times> string) list \<times> (string \<Rightarrow> pid_file)"
where
  "cleanup_child pt name s =
     (case snd s name of
        NoPidFile \<Rightarrow> s
      | UnreadablePid \<Rightarrow> s
      | PidText raw \<Rightarrow>
          (case parse_unsigned 32 (trim raw) of
             None \<Rightarrow> (fst s, (snd s)(name := NoPidFile))
           | Some pid \<Rightarrow>
               (fst s @ (if stale_child_running pt pid name then [(pid, name)] else []), (snd s)(name := NoPidFile))))"

definition cleanup_stale_children ::
  "process_table \<Rightarrow> (string \<Rightarrow> pid_file) \<Rightarrow> (nat \<times> string) list \<times> (string \<Rightarrow> pid_file)"
where
  "cleanup_stale_children pt pid_files = foldl (\<lambda>s name. cleanup_child pt name s) ([], pid_files) managed_child_names"

section \<open>The variables of the children\<close>

text \<open>A child inherits the launcher's variables; those it is given come first.\<close>

definition child_environment :: "environment \<Rightarrow> (string \<times> string) list \<Rightarrow> environment" where
  "child_environment en vars =
     en\<lparr>en_var := (\<lambda>name. case map_of vars name of Some v \<Rightarrow> Some v | None \<Rightarrow> en_var en name)\<rparr>"

definition loopback :: "nat \<Rightarrow> string" where "loopback port = ''127.0.0.1:'' @ show_nat port"

definition antd_variables :: "string \<Rightarrow> string \<Rightarrow> nat \<Rightarrow> desktop_config option \<Rightarrow> (string \<times> string) list" where
  "antd_variables data_path run_dir port c =
     [(''ANTD_REST_ADDR'', loopback port), (''ANTD_UPLOAD_TEMP_DIR'', join_path data_path ''antd-temp''),
      (''ANTD_PAYMENT_DB_PATH'', join_path data_path ''antd-payments.sqlite3''),
      (''ANTD_PEER_CACHE_PATH'', join_path data_path ''peer-cache.json''),
      (''ANTD_INTERNAL_TOKEN_FILE'', join_path run_dir ''gateway-write-token''),
      (''ANTD_READ_TOKEN_FILE'', join_path run_dir ''gateway-read-token'')] @
     (case Option.bind c dk_wallet_key_file of Some f \<Rightarrow> [(''AUTONOMI_WALLET_KEY_FILE'', f)] | None \<Rightarrow> [])"

definition devnet_variables :: "string \<Rightarrow> string \<Rightarrow> nat \<Rightarrow> string \<Rightarrow> (string \<times> string) list" where
  "devnet_variables data_path run_dir port gateway_program =
     [(''ANTD_REST_ADDR'', loopback port),
      (''ANT_DEVNET_DATA_DIR'', join_path (join_path data_path ''devnet'') ''nodes''),
      (''ANT_DEVNET_MANIFEST'', join_path (join_path data_path ''devnet'') ''manifest.json''),
      (''AUTVID_GATEWAY_BIN'', gateway_program),
      (''ANTD_PAYMENT_DB_PATH'', join_path data_path ''antd-payments.sqlite3''),
      (''ANTD_PEER_CACHE_PATH'', join_path data_path ''peer-cache.json''),
      (''ANTD_UPLOAD_TEMP_DIR'', join_path data_path ''antd-temp''),
      (''LOG_DIR'', join_path (join_path data_path ''devnet'') ''logs''),
      (''ANTD_INTERNAL_TOKEN_FILE'', join_path run_dir ''gateway-write-token''),
      (''ANTD_READ_TOKEN_FILE'', join_path run_dir ''gateway-read-token'')]"

definition desktop_admin_auth_env :: "(string \<times> string) list" where
  "desktop_admin_auth_env =
     [(''APP_ENV'', ''production''), (''ADMIN_AUTH_COOKIE_SECURE'', ''false''), (''AUTVID_STRICT_AUTH'', ''true'')]"

record tool_paths =
  tp_ffmpeg :: "string option"
  tp_ffprobe :: "string option"

definition admin_variables ::
  "environment \<Rightarrow> string \<Rightarrow> string \<Rightarrow> nat \<Rightarrow> string \<Rightarrow> string \<Rightarrow> desktop_config option \<Rightarrow> tool_paths \<Rightarrow> (string \<times> string) list"
where
  "admin_variables en data_path run_dir port antd_url launcher_url c tools =
     (let processing_dir = join_path data_path ''processing''
      in [(''AUTVID_DATA_DIR'', data_path), (''ADMIN_DB_PATH'', join_path data_path ''autvid.sqlite3''),
          (''CATALOG_STATE_PATH'', join_path (join_path data_path ''catalog'') ''catalog.json''),
          (''UPLOAD_TEMP_DIR'', processing_dir), (''TMPDIR'', processing_dir), (''TMP'', processing_dir),
          (''TEMP'', processing_dir), (''ANTD_URL'', antd_url), (''RUST_ADMIN_PORT'', show_nat port),
          (''RUST_ADMIN_BIND_ADDRESS'', ''127.0.0.1''),
          (''ANTD_INTERNAL_TOKEN_FILE'', join_path run_dir ''gateway-write-token''),
          (''CORS_ALLOWED_ORIGINS'', launcher_url)] @ desktop_admin_auth_env @
         [(''ADMIN_DB_MIN_CONNECTIONS'', var_or en ''ADMIN_DB_MIN_CONNECTIONS'' ''1''),
          (''ADMIN_DB_MAX_CONNECTIONS'', var_or en ''ADMIN_DB_MAX_CONNECTIONS'' ''5'')] @
         (case c of
            None \<Rightarrow> []
          | Some config \<Rightarrow> [(''ADMIN_USERNAME'', dk_admin_username config),
              (''ADMIN_PASSWORD_FILE'', dk_admin_password_file config),
              (''ADMIN_AUTH_SECRET_FILE'', dk_admin_auth_secret_file config)]) @
         (case tp_ffmpeg tools of Some f \<Rightarrow> [(''FFMPEG_BIN'', f)] | None \<Rightarrow> []) @
         (case tp_ffprobe tools of Some f \<Rightarrow> [(''FFPROBE_BIN'', f)] | None \<Rightarrow> []))"

definition stream_variables :: "string \<Rightarrow> string \<Rightarrow> nat \<Rightarrow> string \<Rightarrow> string \<Rightarrow> (string \<times> string) list" where
  "stream_variables data_path run_dir port antd_url launcher_url =
     [(''ANTD_URL'', antd_url), (''CATALOG_STATE_PATH'', join_path (join_path data_path ''catalog'') ''catalog.json''),
      (''RUST_STREAM_PORT'', show_nat port), (''RUST_STREAM_BIND_ADDRESS'', ''127.0.0.1''),
      (''ANTD_INTERNAL_TOKEN_FILE'', join_path run_dir ''gateway-read-token''),
      (''CORS_ALLOWED_ORIGINS'', launcher_url)]"

definition child_program ::
  "environment \<Rightarrow> (string \<Rightarrow> bool) \<Rightarrow> (string \<Rightarrow> string list option) \<Rightarrow> string option \<Rightarrow> string \<Rightarrow> string \<Rightarrow> string option \<Rightarrow> string"
where
  "child_program en is_file entries exe_dir env_name fallback binary_dir =
     (case en_var en env_name of
        Some path \<Rightarrow> path
      | None \<Rightarrow>
          (case Option.bind binary_dir (\<lambda>dir. binary_candidate is_file (entries dir) dir fallback) of
             Some candidate \<Rightarrow> candidate
           | None \<Rightarrow>
               (case exe_dir of
                  Some dir \<Rightarrow> if is_file (join_path dir fallback) then join_path dir fallback else fallback
                | None \<Rightarrow> fallback)))"

section \<open>Stopping\<close>

datatype wait_result = Exited | StillRunning | WaitError

text \<open>A round asks every child not yet seen to have stopped; the rounds end with the grace period.\<close>

definition poll_round :: "(string \<Rightarrow> wait_result) \<Rightarrow> (string \<times> bool) list \<Rightarrow> (string \<times> bool) list" where
  "poll_round ask running = map (\<lambda>(name, r). (name, r \<and> ask name = StillRunning)) running"

fun poll_children :: "(string \<Rightarrow> wait_result) list \<Rightarrow> (string \<times> bool) list \<Rightarrow> nat" where
  "poll_children [] running = 0"
| "poll_children (ask # rounds) running =
     (if list_ex snd running then 1 + poll_children rounds (poll_round ask running) else 0)"

text \<open>What is done to the children: who is asked to terminate, who is killed, who is waited for, and whose pid
  file is removed; and how many rounds it took.\<close>

record stopping =
  sp_terminated :: "string list"
  sp_killed :: "string list"
  sp_waited :: "string list"
  sp_removed :: "string list"
  sp_rounds :: nat

definition no_stopping :: stopping where
  "no_stopping = \<lparr>sp_terminated = [], sp_killed = [], sp_waited = [], sp_removed = [], sp_rounds = 0\<rparr>"

text \<open>\<open>so_now\<close> is the monotonic clock in whole seconds when the deadline is computed.\<close>

record stop_world =
  so_now :: nat
  so_rounds :: "(string \<Rightarrow> wait_result) list"
  so_at_last :: "string \<Rightarrow> wait_result"

text \<open>An instant holds signed 64-bit seconds; a sum that does not fit panics. Grace periods that come near
  have no fraction left.\<close>

definition deadline_fits :: "nat \<Rightarrow> f64 \<Rightarrow> bool" where
  "deadline_fits now grace \<longleftrightarrow> (case grace of Fin q \<Rightarrow> int now + \<lfloor>q\<rfloor> < 2 ^ 63 | _ \<Rightarrow> False)"

text \<open>Whether the stop returns, and what it did to the children. Reading the grace period may panic before
  anything was done, and computing the deadline after every child was asked to terminate.\<close>

definition stop_children :: "environment \<Rightarrow> stop_world \<Rightarrow> string list \<Rightarrow> bool \<times> stopping" where
  "stop_children en w children =
     (case env_duration en ''ADMIN_SHUTDOWN_GRACE_SECONDS'' (Fin 15) of
        None \<Rightarrow> (False, no_stopping)
      | Some grace \<Rightarrow>
          if \<not> deadline_fits (so_now w) grace then (False, no_stopping\<lparr>sp_terminated := children\<rparr>)
          else
            (True, \<lparr>sp_terminated = children, sp_killed = filter (\<lambda>name. so_at_last w name = StillRunning) children,
               sp_waited = children, sp_removed = children,
               sp_rounds = poll_children (so_rounds w) (map (\<lambda>name. (name, True)) children)\<rparr>))"

section \<open>Starting\<close>

text \<open>A health check asks until it is answered, at most 120 times; the count of requests is beside the answer.\<close>

fun ask_health :: "nat \<Rightarrow> bool list \<Rightarrow> nat \<Rightarrow> bool \<times> nat" where
  "ask_health 0 answers asked = (False, asked)"
| "ask_health (Suc n) [] asked = ask_health n [] (asked + 1)"
| "ask_health (Suc n) (healthy # answers) asked =
     (if healthy then (True, asked + 1) else ask_health n answers (asked + 1))"

definition wait_for_health :: "string \<Rightarrow> string \<Rightarrow> bool list \<Rightarrow> unit conf \<times> nat" where
  "wait_for_health url name answers =
     (case ask_health 120 answers 0 of
        (True, asked) \<Rightarrow> (Inr (), asked)
      | (False, asked) \<Rightarrow> (Inl (name @ '' did not become healthy at '' @ url), asked))"

record launch_options =
  lo_mode :: network_mode
  lo_app_name :: string
  lo_data_dir :: "string option"
  lo_require_setup :: bool

text \<open>The outcomes of the steps: before the first child (directories, permissions, the lock, the tokens), the
  ports, each spawn, each health check, the frontend's directory, the proxy's client and its socket.\<close>

record launch_world =
  la_environment :: environment
  la_macos :: bool
  la_setup_complete :: bool
  la_prepare :: "unit conf"
  la_port :: "string \<Rightarrow> nat \<Rightarrow> nat conf"
  la_spawn :: "string \<Rightarrow> unit conf"
  la_healthy :: "string \<Rightarrow> bool list"
  la_frontend :: "unit conf"
  la_client :: "unit conf"
  la_bind :: "unit conf"
  la_stop :: stop_world

text \<open>What a launch leaves: the answer, the children whose processes were started, those of them that run,
  how children were stopped, and those that were only dropped, which kills them and leaves their pid
  files. A panic is no answer, and aborts the launcher.\<close>

record launched =
  ld_answer :: "string conf option"
  ld_spawned :: "string list"
  ld_running :: "string list"
  ld_stopped :: stopping
  ld_dropped :: "string list"

definition not_started :: "string \<Rightarrow> launched" where
  "not_started e = \<lparr>ld_answer = Some (Inl e), ld_spawned = [], ld_running = [], ld_stopped = no_stopping, ld_dropped = []\<rparr>"

text \<open>An error after the first child: the children of the vector are stopped, and the vector is dropped. The
  processes that were started are given beside the vector: one that is not in it keeps running.\<close>

definition give_up :: "launch_world \<Rightarrow> string list \<Rightarrow> string list \<Rightarrow> string \<Rightarrow> launched" where
  "give_up w spawned children e =
     (let (returned, s) = stop_children (la_environment w) (la_stop w) children;
          left = filter (\<lambda>name. name \<notin> set (sp_waited s)) spawned
      in if returned
         then \<lparr>ld_answer = Some (Inl e), ld_spawned = spawned, ld_running = filter (\<lambda>name. name \<notin> set children) left,
           ld_stopped = s, ld_dropped = filter (\<lambda>name. name \<in> set children) left\<rparr>
         else \<lparr>ld_answer = None, ld_spawned = spawned, ld_running = left, ld_stopped = s, ld_dropped = []\<rparr>)"

definition drop_children :: "string list \<Rightarrow> string list \<Rightarrow> string \<Rightarrow> launched" where
  "drop_children spawned children e =
     \<lparr>ld_answer = Some (Inl e), ld_spawned = spawned, ld_running = filter (\<lambda>name. name \<notin> set children) spawned,
      ld_stopped = no_stopping, ld_dropped = children\<rparr>"

definition cleanup_try ::
  "launch_world \<Rightarrow> string list \<times> string list \<Rightarrow> unit conf \<Rightarrow> launched \<Rightarrow> launched"
where
  "cleanup_try w state outcome continue =
     (case outcome of Inl e \<Rightarrow> give_up w (fst state) (snd state) e | Inr _ \<Rightarrow> continue)"

text \<open>\<open>children.push(cleanup_try!(start_...))\<close>: the started process, and the vector it is put into.\<close>

definition push_child ::
  "launch_world \<Rightarrow> string \<Rightarrow> string list \<times> string list \<Rightarrow> (string list \<times> string list \<Rightarrow> launched) \<Rightarrow> launched"
where
  "push_child w name state continue =
     cleanup_try w state (la_spawn w name) (continue (fst state @ [name], snd state @ [name]))"

definition first_child :: "network_mode \<Rightarrow> string" where
  "first_child mode = (case mode of Configured \<Rightarrow> ''antd'' | LocalDevnet \<Rightarrow> ''local-devnet'')"

definition health_of :: "launch_world \<Rightarrow> nat \<Rightarrow> string \<Rightarrow> unit conf" where
  "health_of w port name = fst (wait_for_health (''http://'' @ loopback port @ ''/livez'') name (la_healthy w name))"

text \<open>The directory of the platform is resolved even when another one is given.\<close>

definition launch_dir :: "launch_world \<Rightarrow> launch_options \<Rightarrow> string conf" where
  "launch_dir w opts =
     rbind (resolve_data_dir (la_environment w) (la_macos w) (lo_app_name opts)) (\<lambda>fallback.
     Inr (case lo_data_dir opts of Some d \<Rightarrow> d | None \<Rightarrow> fallback))"

definition launch_services :: "launch_world \<Rightarrow> launch_options \<Rightarrow> nat \<Rightarrow> nat \<Rightarrow> nat \<Rightarrow> nat \<Rightarrow> launched" where
  "launch_services w opts admin_port stream_port antd_port launcher_port =
     (case la_spawn w (first_child (lo_mode opts)) of
        Inl e \<Rightarrow> not_started e
      | Inr _ \<Rightarrow>
          (let s1 = ([first_child (lo_mode opts)], [first_child (lo_mode opts)])
           in cleanup_try w s1 (health_of w antd_port ''antd'')
             (push_child w ''rust_admin'' s1 (\<lambda>s2.
              push_child w ''rust_stream'' s2 (\<lambda>s3.
              cleanup_try w s3 (health_of w admin_port ''rust_admin'')
             (cleanup_try w s3 (health_of w stream_port ''rust_stream'')
             (cleanup_try w s3 (la_frontend w)
             (case la_client w of
                Inl e \<Rightarrow> drop_children (fst s3) (snd s3) e
              | Inr _ \<Rightarrow>
                  cleanup_try w s3 (la_bind w)
                    \<lparr>ld_answer = Some (Inr (''http://'' @ loopback launcher_port)), ld_spawned = fst s3,
                     ld_running = snd s3, ld_stopped = no_stopping, ld_dropped = []\<rparr>))))))))"

definition launch_stack :: "launch_world \<Rightarrow> launch_options \<Rightarrow> launched" where
  "launch_stack w opts =
     (case rbind (launch_dir w opts) (\<lambda>_.
           rbind (if lo_require_setup opts \<and> \<not> la_setup_complete w
                  then Inl ''desktop first-run setup has not been completed'' else Inr ()) (\<lambda>_.
           rbind (la_prepare w) (\<lambda>_.
           rbind (la_port w ''RUST_ADMIN_PORT'' 8000) (\<lambda>admin_port.
           rbind (la_port w ''RUST_STREAM_PORT'' 8081) (\<lambda>stream_port.
           rbind (la_port w ''ANTD_REST_PORT'' 8082) (\<lambda>antd_port.
           rbind (la_port w ''AUTVID_LAUNCHER_PORT'' 8080) (\<lambda>launcher_port.
           Inr (admin_port, stream_port, antd_port, launcher_port)))))))) of
        Inl e \<Rightarrow> not_started e
      | Inr (admin_port, stream_port, antd_port, launcher_port) \<Rightarrow>
          launch_services w opts admin_port stream_port antd_port launcher_port)"

text \<open>The command line; asking for help ends the process.\<close>

datatype cli = CliOptions network_mode bool bool | CliHelp

datatype cli_arg = ModeFlag network_mode | ModeValue | SetupFlag | NoOpenFlag | HelpFlag | UnknownArg

definition classify_arg :: "string \<Rightarrow> cli_arg" where
  "classify_arg arg =
     (if arg = ''--configured-network'' then ModeFlag Configured
      else if arg = ''--local-devnet'' then ModeFlag LocalDevnet
      else if arg = ''--require-setup'' then SetupFlag
      else if arg = ''--mode'' then ModeValue
      else if arg = ''--no-open'' then NoOpenFlag
      else if arg = ''-h'' \<or> arg = ''--help'' then HelpFlag
      else UnknownArg)"

definition mode_value :: "string \<Rightarrow> network_mode option" where
  "mode_value value =
     (if value = ''configured'' \<or> value = ''configured-network'' then Some Configured
      else if value = ''local'' \<or> value = ''local-devnet'' \<or> value = ''devnet'' then Some LocalDevnet
      else None)"

fun parse_options_from :: "string list \<Rightarrow> network_mode \<Rightarrow> bool \<Rightarrow> bool \<Rightarrow> cli conf" where
  "parse_options_from [] mode no_open require_setup = Inr (CliOptions mode no_open require_setup)"
| "parse_options_from [arg] mode no_open require_setup =
     (case classify_arg arg of
        ModeFlag m \<Rightarrow> Inr (CliOptions m no_open require_setup)
      | SetupFlag \<Rightarrow> Inr (CliOptions mode no_open True)
      | ModeValue \<Rightarrow> Inl ''--mode needs a value''
      | NoOpenFlag \<Rightarrow> Inr (CliOptions mode True require_setup)
      | HelpFlag \<Rightarrow> Inr CliHelp
      | UnknownArg \<Rightarrow> Inl (''unknown argument: '' @ arg))"
| "parse_options_from (arg # value # args) mode no_open require_setup =
     (case classify_arg arg of
        ModeFlag m \<Rightarrow> parse_options_from (value # args) m no_open require_setup
      | SetupFlag \<Rightarrow> parse_options_from (value # args) mode no_open True
      | ModeValue \<Rightarrow>
          (case mode_value value of
             Some m \<Rightarrow> parse_options_from args m no_open require_setup
           | None \<Rightarrow> Inl (''unknown launcher mode: '' @ value))
      | NoOpenFlag \<Rightarrow> parse_options_from (value # args) mode True require_setup
      | HelpFlag \<Rightarrow> Inr CliHelp
      | UnknownArg \<Rightarrow> Inl (''unknown argument: '' @ arg))"

definition parse_options :: "string list \<Rightarrow> cli conf" where
  "parse_options args = parse_options_from (drop 1 args) Configured False False"

section \<open>The proxy\<close>

definition header_value_text :: "string \<Rightarrow> string option" where
  "header_value_text v = (if list_all (\<lambda>c. byte c = 9 \<or> (32 \<le> byte c \<and> byte c < 127)) v then Some v else None)"

definition native_headers_allowed :: "headers \<Rightarrow> string \<Rightarrow> bool \<Rightarrow> bool" where
  "native_headers_allowed hs origin navigation \<longleftrightarrow>
     header_text ''host'' hs = Some (case strip_prefix ''http://'' origin of Some h \<Rightarrow> h | None \<Rightarrow> []) \<and>
     (case map_of hs ''origin'' of
        None \<Rightarrow> True
      | Some h \<Rightarrow>
          (case header_value_text h of
             None \<Rightarrow> False
           | Some value \<Rightarrow> value = origin \<or>
               (navigation \<and> (value = ''tauri://localhost'' \<or> value = ''http://tauri.localhost'')))) \<and>
     (case map_of hs ''sec-fetch-site'' of None \<Rightarrow> True | Some h \<Rightarrow> h \<noteq> ''cross-site'' \<or> navigation)"

definition is_navigation :: "string \<Rightarrow> string \<Rightarrow> headers \<Rightarrow> bool" where
  "is_navigation m path hs \<longleftrightarrow>
     m = ''GET'' \<and> \<not> prefix ''/api'' path \<and> \<not> prefix ''/stream'' path \<and> map_of hs ''sec-fetch-dest'' = Some ''document''"

definition hop_headers :: "string list" where
  "hop_headers =
     [''connection'', ''keep-alive'', ''proxy-authenticate'', ''proxy-authorization'', ''te'', ''trailer'',
      ''transfer-encoding'', ''upgrade'', ''host'', ''forwarded'', ''x-forwarded-for'', ''x-forwarded-host'',
      ''x-forwarded-proto'']"

text \<open>The names the connection headers nominate; a header map looks a name up in lower case.\<close>

definition nominated :: "headers \<Rightarrow> string list" where
  "nominated hs = concat (map (\<lambda>(name, value).
     if name = ''connection'' then
       (case header_value_text value of
          None \<Rightarrow> []
        | Some v \<Rightarrow> map (\<lambda>n. to_ascii_lowercase (trim n)) (split_on (CHR '','') v))
     else []) hs)"

definition sanitized_headers :: "headers \<Rightarrow> headers" where
  "sanitized_headers hs = filter (\<lambda>h. fst h \<notin> set (nominated hs) \<and> fst h \<notin> set hop_headers) hs"

record proxy_state =
  px_origin :: string
  px_admin_base :: string
  px_stream_base :: string
  px_runtime_config_js :: string

type_synonym answer = "nat \<times> headers \<times> string"

definition text_response :: "nat \<Rightarrow> string \<Rightarrow> answer" where
  "text_response status body = (status, [(''content-type'', ''text/plain; charset=utf-8'')], body)"

text \<open>\<open>upstream\<close> is what the client's request for a URL with given headers comes to.\<close>

definition proxy_to ::
  "proxy_state \<Rightarrow> (string \<Rightarrow> string \<Rightarrow> headers \<Rightarrow> string \<Rightarrow> string + answer) \<Rightarrow> string \<Rightarrow> headers \<Rightarrow> string \<Rightarrow> string option \<Rightarrow>
    string \<Rightarrow> bool \<Rightarrow> answer"
where
  "proxy_to p upstream m hs body query path admin =
     (let base = (if admin then px_admin_base p else px_stream_base p);
          url = base @ path @ (case query of Some q \<Rightarrow> ''?'' @ q | None \<Rightarrow> [])
      in case upstream m url (sanitized_headers hs) body of
           Inl e \<Rightarrow> text_response 502 (''proxy error: '' @ e)
         | Inr (status, answer_headers, answer_body) \<Rightarrow>
             (status, filter (\<lambda>h. fst h \<noteq> ''content-length'') (sanitized_headers answer_headers), answer_body))"

definition stream_proxy_path :: "string \<Rightarrow> string" where
  "stream_proxy_path path = ''/stream/'' @ path"

definition security_headers :: headers where
  "security_headers =
     [(''content-security-policy'', ''default-src '' @ [CHR 0x27] @ ''self'' @ [CHR 0x27] @ ''; script-src '' @ [CHR 0x27] @
        ''self'' @ [CHR 0x27] @ ''; style-src '' @ [CHR 0x27] @ ''self'' @ [CHR 0x27] @ '' '' @ [CHR 0x27] @ ''unsafe-inline'' @
        [CHR 0x27] @ ''; img-src '' @ [CHR 0x27] @ ''self'' @ [CHR 0x27] @ '' data:; media-src '' @ [CHR 0x27] @ ''self'' @
        [CHR 0x27] @ '' blob:; connect-src '' @ [CHR 0x27] @ ''self'' @ [CHR 0x27] @ ''; worker-src '' @ [CHR 0x27] @ ''self'' @
        [CHR 0x27] @ '' blob:; object-src '' @ [CHR 0x27] @ ''none'' @ [CHR 0x27] @ ''; base-uri '' @ [CHR 0x27] @ ''none'' @
        [CHR 0x27] @ ''; frame-ancestors '' @ [CHR 0x27] @ ''none'' @ [CHR 0x27]),
      (''x-content-type-options'', ''nosniff'')]"

definition set_header :: "string \<times> string \<Rightarrow> headers \<Rightarrow> headers" where
  "set_header h hs = filter (\<lambda>x. fst x \<noteq> fst h) hs @ [h]"

definition validate_native_request :: "proxy_state \<Rightarrow> string \<Rightarrow> string \<Rightarrow> headers \<Rightarrow> answer \<Rightarrow> answer" where
  "validate_native_request p m path hs next_answer =
     (if \<not> native_headers_allowed hs (px_origin p) (is_navigation m path hs)
      then text_response 403 ''invalid native Host or Origin''
      else (case next_answer of (status, answer_headers, body) \<Rightarrow>
              (status, foldr set_header (rev security_headers) answer_headers, body)))"

text \<open>The two mounts; \<open>decoded\<close> is the rest of the path, as the router decodes it, and \<open>assets\<close> answers for
  everything else.\<close>

definition proxy_request ::
  "proxy_state \<Rightarrow> (string \<Rightarrow> string \<Rightarrow> headers \<Rightarrow> string \<Rightarrow> string + answer) \<Rightarrow> (string \<Rightarrow> string) \<Rightarrow> (string \<Rightarrow> answer) \<Rightarrow>
    string \<Rightarrow> string \<Rightarrow> string option \<Rightarrow> headers \<Rightarrow> string \<Rightarrow> answer"
where
  "proxy_request p upstream decoded assets m path query hs body =
     validate_native_request p m path hs
       (case strip_prefix ''/api/'' path of
          Some rest \<Rightarrow> if rest \<noteq> [] then proxy_to p upstream m hs body query (''/'' @ decoded rest) True else assets path
        | None \<Rightarrow>
            (case strip_prefix ''/stream/'' path of
               Some rest \<Rightarrow> if rest \<noteq> [] then proxy_to p upstream m hs body query (stream_proxy_path (decoded rest)) False else assets path
             | None \<Rightarrow> assets path))"

end
