(* ===== verification/Launcher_Properties.thy ===== *)
theory Launcher_Properties
  imports Launcher_Stack Gateway_Properties
begin

text \<open>
  The properties of the launcher: what it sets up is accepted by the services it starts, the tokens it hands
  out grant each service what it needs and no more, a failed launch leaves no process behind, only the
  launcher's own stale processes are signalled, and the proxy forwards no header that speaks of the
  connection.
\<close>

section \<open>Trimming a line\<close>

lemma white_space_newline:
  "list_all (\<lambda>w. (last w = CHR 0x0A \<longrightarrow> w = [CHR 0x0A])) white_space \<and> [CHR 0x0A] \<in> set white_space"
  by code_simp

lemma trailing_newline: "trailing_space (s @ newline) = Some newline"
proof (cases "trailing_space (s @ newline)")
  case None
  with white_space_newline show ?thesis by (auto simp: trailing_space_def find_None_iff newline_def)
next
  case (Some w)
  then have w: "w \<in> set white_space" "suffix w (s @ newline)" by (auto simp: trailing_space_def find_Some_iff)
  with white_space_nonempty have "w \<noteq> []" by blast
  with w(2) have "last w = CHR 0x0A" by (auto simp: suffix_def newline_def) (metis append_is_Nil_conv last_appendR last_snoc)
  with w(1) white_space_newline Some show ?thesis by (simp add: list_all_iff newline_def)
qed

lemma trim_end_newline: "trim_end (s @ newline) = trim_end s"
  by (subst trim_end.simps) (simp add: trailing_newline)

lemma leading_newline:
  assumes "s \<noteq> []"
  shows "leading_space (s @ newline) = leading_space s"
proof -
  have "prefix w (s @ newline) \<longleftrightarrow> prefix w s" if "w \<in> set white_space" for w
  proof
    assume "prefix w (s @ newline)"
    then consider "prefix w s" | "w = s @ newline" by (auto simp: newline_def prefix_snoc)
    then show "prefix w s"
    proof cases
      case 2
      then have "last w = CHR 0x0A" by (simp add: newline_def)
      then have "w = newline" using that white_space_newline by (simp add: list_all_iff newline_def)
      then show ?thesis using 2 assms by simp
    qed
  qed (simp add: prefix_prefix)
  then show ?thesis unfolding leading_space_def by (intro find_cong) simp_all
qed

lemma trim_end_empty: "trim_end [] = []"
  by code_simp

lemma trim_line:
  assumes "trim s \<noteq> []"
  shows "trim (s @ newline) = trim s"
proof -
  have "trim_start s \<noteq> []" using assms by (auto simp: trim_def trim_end_empty)
  then have "trim_start (s @ newline) = trim_start s @ newline"
  proof (induction s rule: trim_start.induct)
    case (1 s)
    show ?case
    proof (cases "leading_space s")
      case None
      moreover from None 1(2) have "s \<noteq> []" by (simp add: trim_start.simps)
      ultimately show ?thesis by (simp add: trim_start.simps [of "s @ newline"] trim_start.simps [of s] leading_newline)
    next
      case (Some w)
      then have len: "length w \<le> length s" and ne: "s \<noteq> []" using leading_space_length by fastforce+
      from 1(2) have "trim_start (drop (length w) s) \<noteq> []" by (simp add: trim_start.simps [of s] Some)
      from 1(1) [OF Some this] show ?thesis
        using len by (simp add: trim_start.simps [of "s @ newline"] trim_start.simps [of s] leading_newline [OF ne] Some)
    qed
  qed
  then show ?thesis by (simp add: trim_def trim_end_newline)
qed

section \<open>Secrets\<close>

definition hex_text :: "string \<Rightarrow> bool" where
  "hex_text s \<longleftrightarrow> list_all (\<lambda>c. (48 \<le> byte c \<and> byte c \<le> 57) \<or> (97 \<le> byte c \<and> byte c \<le> 102)) s"

lemma hex_digit: "n < 16 \<Longrightarrow> (48 \<le> byte (hex_digit n) \<and> byte (hex_digit n) \<le> 57) \<or> (97 \<le> byte (hex_digit n) \<and> byte (hex_digit n) \<le> 102)"
  by (simp add: hex_digit_def)

lemma secret_hex: "list_all (\<lambda>b. b < 256) bytes \<Longrightarrow> hex_text (random_hex_secret bytes)"
  by (induction bytes) (simp_all add: hex_text_def random_hex_secret_def hex_digit less_mult_imp_div_less)

lemma secret_length: "length (random_hex_secret bytes) = 2 * length bytes"
  by (induction bytes) (simp_all add: random_hex_secret_def)

lemma hex_visible: "hex_text s \<Longrightarrow> visible s"
  by (auto simp: hex_text_def visible_def list_all_iff)

lemma hex_trim [simp]: "hex_text s \<Longrightarrow> trim s = s"
  by (simp add: trim_id visible_no_space hex_visible)

lemma hex_lower: "hex_text s \<Longrightarrow> to_ascii_lowercase s = s"
  by (induction s) (auto simp: hex_text_def to_ascii_lowercase_def ascii_lower_def)

lemma contains_set: "contains s t \<Longrightarrow> set t \<subseteq> set s"
  by (auto simp: contains_def list_ex_iff dest!: set_mono_prefix dest: in_set_dropD)

lemma placeholder_not_hex: "list_all (\<lambda>p. \<not> hex_text p) placeholders"
  by code_simp

lemma unsafe_short: "list_all (\<lambda>v. length v < 32) unsafe_values"
  by code_simp

lemma hex_safe: "hex_text s \<Longrightarrow> 32 \<le> length s \<Longrightarrow> \<not> is_unsafe_admin_auth_value s"
proof -
  assume s: "hex_text s" "32 \<le> length s"
  have "s \<notin> set unsafe_values" using unsafe_short s(2) by (auto simp: list_all_iff)
  moreover have "\<not> contains s p" if "p \<in> set placeholders" for p
  proof
    assume "contains s p"
    from contains_set [OF this] s(1) have "hex_text p" by (auto simp: hex_text_def list_all_iff)
    then show False using placeholder_not_hex that by (simp add: list_all_iff)
  qed
  ultimately show ?thesis
    using s(1) by (simp add: is_unsafe_admin_auth_value_def hex_lower list_ex_iff)
qed

lemma launcher_unsafe_iff: "launcher_unsafe_value v \<longleftrightarrow> is_unsafe_admin_auth_value v"
  by (simp add: launcher_unsafe_value_def is_unsafe_admin_auth_value_def unsafe_values_def placeholders_def Let_def)

section \<open>Setting up\<close>

definition secrets_path :: "string \<Rightarrow> string \<Rightarrow> string" where
  "secrets_path dir name = join_path (join_path dir ''secrets'') name"

definition config_path :: "string \<Rightarrow> string" where
  "config_path dir = join_path dir ''desktop-config.json''"

lemma secrets_path_eq: "secrets_path dir name = join_path dir (''secrets/'' @ name)"
  by (simp add: secrets_path_def join_path_def)

lemma join_path_inject [simp]: "join_path dir a = join_path dir b \<longleftrightarrow> a = b"
  by (simp add: join_path_def)

lemma secret_paths [simp]:
  "secrets_path dir a = secrets_path dir b \<longleftrightarrow> a = b"
  "secrets_path dir a \<noteq> config_path dir" "config_path dir \<noteq> secrets_path dir a"
  by (simp_all add: secrets_path_eq config_path_def)

definition stored_config :: "string \<Rightarrow> first_run_setup \<Rightarrow> string option \<Rightarrow> desktop_config" where
  "stored_config dir setup wallet =
     \<lparr>dk_schema_version = 1, dk_admin_username = trim (fs_admin_username setup),
      dk_admin_password_file = secrets_path dir ''admin-password'',
      dk_admin_auth_secret_file = secrets_path dir ''admin-auth-secret'', dk_wallet_key_file = wallet\<rparr>"

lemma written_private: "write_private_file w path bytes disk = (Inr u, disk') \<Longrightarrow> disk' = disk(path \<mapsto> bytes)"
  by (auto simp: write_private_file_def split: write_outcome.splits)

lemma stored_wallet:
  assumes "store_wallet_key w (join_path dir ''secrets'') setup disk = (Inr wallet, disk')"
  shows "disk' = disk \<or> (\<exists>text. disk' = disk(secrets_path dir ''autonomi-wallet-key'' \<mapsto> text))"
  using assms
  by (auto simp: store_wallet_key_def write_secret_file_def Let_def secrets_path_def
    split: option.splits prod.splits sum.splits dest: written_private)

lemma saved_setup:
  assumes "save_first_run_config w dir setup disk = (Inr status, disk')"
  obtains wallet where "validate_setup disk setup = Inr ()"
    "disk' (secrets_path dir ''admin-password'') = Some (fs_admin_password setup @ newline)"
    "disk' (secrets_path dir ''admin-auth-secret'') = Some (sw_secret w @ newline)"
    "disk' (config_path dir) = Some (sw_encode w (stored_config dir setup wallet))"
    "status = setup_status_of w dir disk'"
proof -
  from assms have valid: "validate_setup disk setup = Inr ()"
    by (auto simp: save_first_run_config_def Let_def split: sum.splits)
  from assms obtain disk1 disk2 disk3 wallet where
      d1: "write_secret_file w (secrets_path dir ''admin-password'') (fs_admin_password setup) disk = (Inr (), disk1)"
      and d2: "write_secret_file w (secrets_path dir ''admin-auth-secret'') (sw_secret w) disk1 = (Inr (), disk2)"
      and d3: "store_wallet_key w (join_path dir ''secrets'') setup disk2 = (Inr wallet, disk3)"
      and d4: "write_private_file w (config_path dir) (sw_encode w (stored_config dir setup wallet)) disk3 = (Inr (), disk')"
      and status: "status = setup_status_of w dir disk'"
    by (auto simp: save_first_run_config_def Let_def secrets_path_def config_path_def stored_config_def
      split: sum.splits prod.splits)
  note writes = d1 [unfolded write_secret_file_def, THEN written_private] d2 [unfolded write_secret_file_def, THEN written_private]
    d4 [THEN written_private]
  from stored_wallet [OF d3] that [OF valid _ _ _ status] show thesis
    by (auto simp: writes)
qed

text \<open>The launcher's service environment: its own variables, the files of the disk, and what it sets.\<close>

definition reading :: "environment \<Rightarrow> disk \<Rightarrow> environment" where
  "reading en disk = en\<lparr>en_read_file := (\<lambda>path. case disk path of Some text \<Rightarrow> Inr text | None \<Rightarrow> Inl ''not found'')\<rparr>"

definition admin_environment ::
  "environment \<Rightarrow> setup_world \<Rightarrow> string \<Rightarrow> nat \<Rightarrow> string \<Rightarrow> string \<Rightarrow> tool_paths \<Rightarrow> disk \<Rightarrow> environment"
where
  "admin_environment en w dir port antd_url launcher_url tools disk =
     child_environment (reading en disk)
       (admin_variables en dir (join_path dir ''run'') port antd_url launcher_url
          (case read_desktop_config w dir disk of Inr c \<Rightarrow> Some c | Inl _ \<Rightarrow> None) tools)"

text \<open>The variables of the admin service's access settings that the launcher does not set.\<close>

definition inherited_access :: "string list" where
  "inherited_access =
     [''ADMIN_AUTH_TTL_HOURS'', ''ADMIN_REFRESH_TOKEN_TTL_HOURS'', ''ADMIN_AUTH_COOKIE_SAME_SITE'',
      ''ADMIN_REQUEST_TIMEOUT_SECONDS'', ''ADMIN_UPLOAD_REQUEST_TIMEOUT_SECONDS'', ''ADMIN_SHUTDOWN_GRACE_SECONDS'']"

lemma setup_valid:
  assumes "validate_setup disk setup = Inr ()"
  shows "\<not> is_unsafe_admin_auth_value (trim (fs_admin_username setup))"
    "12 \<le> length (trim (fs_admin_password setup))" "\<not> is_unsafe_admin_auth_value (trim (fs_admin_password setup))"
  using assms by (auto simp: validate_setup_def launcher_unsafe_iff Let_def not_less split: if_splits)

lemma defaults_accepted:
  "\<not> f64_le (Fin 120) (Fin 0)" "\<not> f64_le (Fin 3600) (Fin 0)" "\<not> f64_le (Fin 15) (Fin 0)"
  "\<not> default_refresh_ttl_hours \<le> 0" "parse_same_site ''Lax'' = Some Lax"
  by code_simp+

lemma flags: "bool_from_env en name d = Inr b" if "en_var en name = Some (if b then ''true'' else ''false'')"
proof -
  have "trim ''true'' = ''true''" "trim ''false'' = ''false''" "to_ascii_lowercase ''true'' = ''true''"
    "to_ascii_lowercase ''false'' = ''false''" by code_simp+
  then show ?thesis using that by (cases b) (simp_all add: bool_from_env_def non_empty_env_def non_empty_def)
qed

lemma secret_from_file:
  assumes "en_var en file_name = Some path" "trim path = path" "path \<noteq> []" "en_read_file en path = Inr (text @ newline)"
    "trim text \<noteq> []"
  shows "secret_env en name file_name = Inr (Some (trim text))"
  using assms by (simp add: secret_env_def non_empty_env_def non_empty_def trim_line)

lemma unset_setting:
  "en_var en name = None \<Longrightarrow> accepted d \<Longrightarrow> setting en parse name d accepted complaint = Inr d"
  by (simp add: setting_def parse_env_def non_empty_env_def non_empty_def)

lemma access_from_setup:
  assumes "en_var en ''ADMIN_USERNAME'' = Some username" "\<not> is_unsafe_admin_auth_value username"
    "secret_env en ''ADMIN_PASSWORD'' ''ADMIN_PASSWORD_FILE'' = Inr (Some password)"
    "secret_env en ''ADMIN_AUTH_SECRET'' ''ADMIN_AUTH_SECRET_FILE'' = Inr (Some secret)"
    "en_var en ''AUTVID_STRICT_AUTH'' = Some ''true''" "en_var en ''ADMIN_AUTH_COOKIE_SECURE'' = Some ''false''"
    "list_all (\<lambda>name. en_var en name = None) inherited_access"
    "\<not> is_unsafe_admin_auth_value password" "12 \<le> length password"
    "\<not> is_unsafe_admin_auth_value secret" "32 \<le> length secret" "secret \<noteq> password"
  shows "\<exists>xc. read_access en = Inr xc \<and> xc_username xc = username \<and> xc_password xc = password \<and>
    xc_secret xc = secret \<and> \<not> xc_cookie_secure xc"
proof -
  have strict: "is_production_environment en = Inr True"
    using flags [of en "''AUTVID_STRICT_AUTH''" True False] assms(5) by (simp add: is_production_environment_def)
  have secure: "bool_from_env en ''ADMIN_AUTH_COOKIE_SECURE'' d = Inr False" for d
    using flags [of en "''ADMIN_AUTH_COOKIE_SECURE''" False] assms(6) by simp
  have none: "en_var en ''ADMIN_AUTH_TTL_HOURS'' = None" "en_var en ''ADMIN_REFRESH_TOKEN_TTL_HOURS'' = None"
    "en_var en ''ADMIN_AUTH_COOKIE_SAME_SITE'' = None" "en_var en ''ADMIN_REQUEST_TIMEOUT_SECONDS'' = None"
    "en_var en ''ADMIN_UPLOAD_REQUEST_TIMEOUT_SECONDS'' = None" "en_var en ''ADMIN_SHUTDOWN_GRACE_SECONDS'' = None"
    using assms(7) by (simp_all add: inherited_access_def)
  have same_site: "parse_cookie_same_site_env en ''ADMIN_AUTH_COOKIE_SAME_SITE'' Lax = Inr Lax"
    by (simp add: parse_cookie_same_site_env_def none defaults_accepted)
  have seconds: "seconds_setting en ''ADMIN_REQUEST_TIMEOUT_SECONDS'' 120 = Inr (Fin 120)"
    "seconds_setting en ''ADMIN_UPLOAD_REQUEST_TIMEOUT_SECONDS'' 3600 = Inr (Fin 3600)"
    "seconds_setting en ''ADMIN_SHUTDOWN_GRACE_SECONDS'' 15 = Inr (Fin 15)"
    "int_setting en ''ADMIN_AUTH_TTL_HOURS'' 12 = Inr 12"
    "int_setting en ''ADMIN_REFRESH_TOKEN_TTL_HOURS'' default_refresh_ttl_hours = Inr default_refresh_ttl_hours"
    by (simp_all only: seconds_setting_def int_setting_def none unset_setting defaults_accepted not_False_eq_True simp_thms)
  have "validate_admin_auth_config en username password secret 12 = Inr ()"
    using assms(2,8-) by (simp add: validate_admin_auth_config_def strict constant_time_eq_def)
  then show ?thesis
    by (simp add: read_access_def assms(3,4) var_or_def assms(1) seconds strict secure same_site)
qed

text \<open>C31. From the setup to the service: once the first-run setup is saved, the admin service that the launcher starts
  accepts its access settings in production, with the name and the password that were chosen - both
  without surrounding white space - and the random secret. This holds for every answer the setup
  accepts, as long as the launcher's own environment does not set the remaining access settings; the
  secret, 32 random bytes, differs from the password, the paths have no white space at their ends, and
  what the JSON library encoded it decodes to the same.\<close>

theorem setup_starts_in_production:
  assumes "save_first_run_config w dir setup disk = (Inr status, disk')"
    and "sw_secret w = random_hex_secret bytes" "length bytes = 32" "list_all (\<lambda>b. b < 256) bytes"
    and "sw_secret w \<noteq> trim (fs_admin_password setup)"
    and "trim (secrets_path dir ''admin-password'') = secrets_path dir ''admin-password''"
    and "trim (secrets_path dir ''admin-auth-secret'') = secrets_path dir ''admin-auth-secret''"
    and "sw_decode w \<circ> sw_encode w = Inr"
    and "list_all (\<lambda>name. en_var en name = None) inherited_access"
  shows "su_configured status \<and>
    (\<exists>xc. read_access (admin_environment en w dir port antd_url launcher_url tools disk') = Inr xc \<and>
       xc_username xc = trim (fs_admin_username setup) \<and> xc_password xc = trim (fs_admin_password setup) \<and>
       xc_secret xc = sw_secret w \<and> \<not> xc_cookie_secure xc)"
proof -
  from assms(1) obtain wallet where valid: "validate_setup disk setup = Inr ()"
    and files: "disk' (secrets_path dir ''admin-password'') = Some (fs_admin_password setup @ newline)"
      "disk' (secrets_path dir ''admin-auth-secret'') = Some (sw_secret w @ newline)"
      "disk' (config_path dir) = Some (sw_encode w (stored_config dir setup wallet))"
    and status: "status = setup_status_of w dir disk'"
    by (rule saved_setup)
  have hex: "hex_text (sw_secret w)" "length (sw_secret w) = 64"
    using assms(3,4) by (simp_all add: assms(2) secret_hex secret_length)
  have decode: "sw_decode w (sw_encode w c) = Inr c" for c using assms(8) by (simp add: fun_eq_iff)
  have config: "read_desktop_config w dir disk' = Inr (stored_config dir setup wallet)"
    using files by (simp add: read_desktop_config_def config_path_def [symmetric] decode stored_config_def)
  define vars where "vars = admin_variables en dir (join_path dir ''run'') port antd_url launcher_url
    (Some (stored_config dir setup wallet)) tools"
  define en' where "en' = admin_environment en w dir port antd_url launcher_url tools disk'"
  have en': "en' = child_environment (reading en disk') vars"
    by (simp add: en'_def admin_environment_def config vars_def)
  have lookups: "map_of vars ''ADMIN_USERNAME'' = Some (trim (fs_admin_username setup))"
    "map_of vars ''ADMIN_PASSWORD_FILE'' = Some (secrets_path dir ''admin-password'')"
    "map_of vars ''ADMIN_AUTH_SECRET_FILE'' = Some (secrets_path dir ''admin-auth-secret'')"
    "map_of vars ''AUTVID_STRICT_AUTH'' = Some ''true''" "map_of vars ''ADMIN_AUTH_COOKIE_SECURE'' = Some ''false''"
    by (simp_all add: vars_def admin_variables_def desktop_admin_auth_env_def stored_config_def Let_def)
  have absent: "list_all (\<lambda>name. map_of vars name = None) inherited_access"
    by (cases "tp_ffmpeg tools"; cases "tp_ffprobe tools")
      (simp_all add: vars_def admin_variables_def desktop_admin_auth_env_def inherited_access_def Let_def)
  have var: "en_var en' name = (case map_of vars name of Some v \<Rightarrow> Some v | None \<Rightarrow> en_var en name)" for name
    by (simp add: en' child_environment_def reading_def split: option.split)
  have content: "en_read_file en' path = Inr body" if "disk' path = Some body" for path body
    using that by (simp add: en' child_environment_def reading_def)
  have unset: "list_all (\<lambda>name. en_var en' name = None) inherited_access"
    using absent assms(9) by (simp add: var list_all_iff)
  have nonempty: "secrets_path dir name \<noteq> []" for name by (simp add: secrets_path_eq join_path_def)
  have password: "trim (fs_admin_password setup) \<noteq> []" using setup_valid(2) [OF valid] by auto
  have "secret_env en' ''ADMIN_PASSWORD'' ''ADMIN_PASSWORD_FILE'' = Inr (Some (trim (fs_admin_password setup)))"
    by (rule secret_from_file [OF _ assms(6) nonempty content [OF files(1)] password]) (simp add: var lookups)
  moreover have "secret_env en' ''ADMIN_AUTH_SECRET'' ''ADMIN_AUTH_SECRET_FILE'' = Inr (Some (trim (sw_secret w)))"
    by (rule secret_from_file [OF _ assms(7) nonempty content [OF files(2)]])
      (use hex in \<open>auto simp: var lookups\<close>)
  ultimately have "\<exists>xc. read_access en' = Inr xc \<and> xc_username xc = trim (fs_admin_username setup) \<and>
      xc_password xc = trim (fs_admin_password setup) \<and> xc_secret xc = sw_secret w \<and> \<not> xc_cookie_secure xc"
    using setup_valid [OF valid] hex assms(5) unset
    by (intro access_from_setup) (simp_all add: var lookups hex_safe)
  then show ?thesis by (simp add: en'_def [symmetric] status setup_status_of_def config)
qed

section \<open>Tokens\<close>

text \<open>The tokens the launcher writes: each service reads the one it is given.\<close>

definition tokens_written :: "string \<Rightarrow> string \<Rightarrow> string \<Rightarrow> disk \<Rightarrow> bool" where
  "tokens_written dir write_token read_token disk \<longleftrightarrow>
     disk (join_path (join_path dir ''run'') ''gateway-write-token'') = Some (write_token @ newline) \<and>
     disk (join_path (join_path dir ''run'') ''gateway-read-token'') = Some (read_token @ newline) \<and>
     trim (join_path (join_path dir ''run'') ''gateway-write-token'') = join_path (join_path dir ''run'') ''gateway-write-token'' \<and>
     trim (join_path (join_path dir ''run'') ''gateway-read-token'') = join_path (join_path dir ''run'') ''gateway-read-token'' \<and>
     hex_text write_token \<and> hex_text read_token \<and> write_token \<noteq> [] \<and> read_token \<noteq> [] \<and> write_token \<noteq> read_token"

definition bearer :: "string \<Rightarrow> headers" where
  "bearer token = [(''authorization'', ''Bearer '' @ token)]"

lemma bearer_authorized:
  assumes "hex_text token"
  shows "internal_token_authorized (bearer token) expected \<longleftrightarrow> token = expected"
proof -
  have "list_all (\<lambda>c. byte c = 9 \<or> (32 \<le> byte c \<and> byte c < 127)) (''Bearer '' @ token)"
    using assms by (auto simp: hex_text_def list_all_iff)
  then have "header_text ''authorization'' (bearer token) = Some (''Bearer '' @ token)"
    by (simp add: header_text_def bearer_def)
  moreover have "strip_prefix ''Bearer '' (''Bearer '' @ token) = Some token"
    by (simp add: strip_prefix_def)
  ultimately show ?thesis
    using assms by (simp add: internal_token_authorized_def constant_time_eq_def)
qed

definition serves_public_data :: "gateway_handler \<Rightarrow> bool" where
  "serves_public_data h = (case h of FileRaw _ \<Rightarrow> True | DataGetPublicRaw _ \<Rightarrow> True | DataGetPublic _ \<Rightarrow> True | _ \<Rightarrow> False)"

lemma reading_is_public:
  "needed m h \<le> ReadAccess \<longleftrightarrow> h \<in> {GwLivez, GwHealth, GwMetrics} \<or> m = ''GET'' \<and> serves_public_data h"
  "needed m h \<le> Anyone \<longleftrightarrow> h \<in> {GwLivez, GwHealth, GwMetrics}"
  by (cases h; simp add: needed_def serves_public_data_def access_order)+

lemma reading_needs_no_slot: "needed m h \<le> ReadAccess \<Longrightarrow> slots_needed h = 0"
  by (cases h) (simp_all add: needed_def slots_needed_def access_order)

lemma authorized_append: "internal_token_authorized (bearer token @ hs) = internal_token_authorized (bearer token)"
  by (simp add: fun_eq_iff internal_token_authorized_def header_text_def bearer_def)

text \<open>C25. Least privilege: with the tokens the launcher hands out, the gateway grants a request with the
  streaming service's token reading and nothing else, one with the admin service's token everything, and
  one without a token nothing. So the requests of the streaming service, whatever other headers they
  have, reach exactly the three handlers that serve public data, by \<open>GET\<close>, and the three status pages
  that are open to everybody; a request without a token reaches exactly the status pages.\<close>

theorem tokens_grant_what_is_needed:
  assumes "tokens_written dir write_token read_token disk"
    and "gateway_config_from_env (child_environment (reading en disk) (antd_variables dir (join_path dir ''run'') antd_port c)) parse_addr = Inr g"
    and "stream_start (child_environment (reading en disk)
      (stream_variables dir (join_path dir ''run'') stream_port antd_url launcher_url)) parse_ip localhost = Inr s"
    and "secret_env (child_environment (reading en disk) (admin_variables en' dir (join_path dir ''run'') admin_port antd_url launcher_url c tools))
      ''ANTD_INTERNAL_TOKEN'' ''ANTD_INTERNAL_TOKEN_FILE'' = Inr admin_token"
  shows "granted (gz_tokens g) (bearer (the (sz_internal_token s)) @ hs) = ReadAccess \<and>
    granted (gz_tokens g) (bearer (the admin_token) @ hs) = WriteAccess \<and> granted (gz_tokens g) [] = Anyone \<and>
    (gateway_dispatch p (gz_tokens g) free_slots m path (bearer (the (sz_internal_token s)) @ hs) = Inr h \<longleftrightarrow>
       names_listener p (bearer (the (sz_internal_token s)) @ hs) \<and> pick_method m (gateway_routes path) = Inr h \<and>
       (h \<in> {GwLivez, GwHealth, GwMetrics} \<or> m = ''GET'' \<and> serves_public_data h)) \<and>
    (gateway_dispatch p (gz_tokens g) free_slots m path [(''host'', host)] = Inr h \<longleftrightarrow>
       names_listener p [(''host'', host)] \<and> pick_method m (gateway_routes path) = Inr h \<and>
       h \<in> {GwLivez, GwHealth, GwMetrics})"
proof -
  let ?run = "join_path dir ''run''"
  note written = assms(1) [unfolded tokens_written_def]
  have nonempty: "join_path d name \<noteq> []" if "name \<noteq> []" for d name using that by (simp add: join_path_def)
  have write_file: "map_of (antd_variables dir ?run antd_port c) ''ANTD_INTERNAL_TOKEN_FILE'' = Some (join_path ?run ''gateway-write-token'')"
    and read_file: "map_of (antd_variables dir ?run antd_port c) ''ANTD_READ_TOKEN_FILE'' = Some (join_path ?run ''gateway-read-token'')"
    and stream_file: "map_of (stream_variables dir ?run stream_port antd_url launcher_url) ''ANTD_INTERNAL_TOKEN_FILE'' =
      Some (join_path ?run ''gateway-read-token'')"
    and admin_file: "map_of (admin_variables en' dir ?run admin_port antd_url launcher_url c tools) ''ANTD_INTERNAL_TOKEN_FILE'' =
      Some (join_path ?run ''gateway-write-token'')"
    by (simp_all add: antd_variables_def stream_variables_def admin_variables_def Let_def)
  have secret: "secret_env (child_environment (reading en disk) vars) name file_name = Inr (Some token)"
    if "map_of vars file_name = Some (join_path ?run base)" "base \<noteq> []" "trim (join_path ?run base) = join_path ?run base"
      "disk (join_path ?run base) = Some (token @ newline)" "hex_text token" "token \<noteq> []" for vars name file_name base token
    using that secret_from_file [of "child_environment (reading en disk) vars" file_name "join_path ?run base" token name] nonempty
    by (simp add: child_environment_def reading_def)
  have "gz_tokens g = \<lparr>gt_internal = Some write_token, gt_read = Some read_token\<rparr>"
    using assms(2) written secret [OF write_file] secret [OF read_file]
    by (auto simp: gateway_config_from_env_def Let_def split: option.splits)
  moreover have "sz_internal_token s = Some read_token"
    using assms(3) written secret [OF stream_file] by (auto simp: stream_start_def)
  moreover have "admin_token = Some write_token"
    using assms(4) written secret [OF admin_file] by auto
  moreover have "\<not> internal_token_authorized [] token" "\<not> internal_token_authorized [(''host'', host)] token" for token
    by (simp_all add: internal_token_authorized_def header_text_def)
  ultimately have "granted (gz_tokens g) (bearer (the (sz_internal_token s)) @ hs) = ReadAccess"
    "granted (gz_tokens g) (bearer (the admin_token) @ hs) = WriteAccess" "granted (gz_tokens g) [] = Anyone"
    "granted (gz_tokens g) [(''host'', host)] = Anyone"
    using written by (auto simp: granted_def bearer_authorized authorized_append)
  note grants = this
  have free: "slots_needed h \<le> free_slots" if "h \<in> {GwLivez, GwHealth, GwMetrics} \<or> m = ''GET'' \<and> serves_public_data h"
    using reading_needs_no_slot [of m h] that unfolding reading_is_public by simp
  show ?thesis unfolding dispatch_policy grants reading_is_public using free by blast
qed

text \<open>An example: a machine with no variables set, and the two tokens in their files.\<close>

definition bare_environment :: environment where
  "bare_environment = \<lparr>en_var = (\<lambda>_. None), en_read_file = (\<lambda>_. Inl ''not found''), en_parse_error = (\<lambda>_. ''invalid'')\<rparr>"

definition token_disk :: disk where
  "token_disk = [''/d/run/gateway-write-token'' \<mapsto> ''aa'' @ newline, ''/d/run/gateway-read-token'' \<mapsto> ''bb'' @ newline]"

definition demo_tools :: tool_paths where "demo_tools = \<lparr>tp_ffmpeg = None, tp_ffprobe = None\<rparr>"

lemma no_variable:
  "en_var en name = None \<Longrightarrow> parse_env en parse name d = Inr d"
  "en_var en name = None \<Longrightarrow> non_empty_env en name = None"
  "en_var en name = None \<Longrightarrow> d \<noteq> 0 \<Longrightarrow> parse_nonzero_env en parse_number name d = Inr d"
  by (simp_all add: parse_env_def non_empty_env_def non_empty_def parse_nonzero_env_def)

lemma demo_trims:
  "trim ''/d/run/gateway-write-token'' = ''/d/run/gateway-write-token''"
  "trim ''/d/run/gateway-read-token'' = ''/d/run/gateway-read-token''"
  "trim (CHR ''a'' # CHR ''a'' # newline) = ''aa''" "trim (CHR ''b'' # CHR ''b'' # newline) = ''bb''"
  "trim ''9'' = ''9''" "trim ''127.0.0.1'' = ''127.0.0.1''"
  by code_simp+

lemma demo_child:
  "en_var (child_environment (reading bare_environment disk) vars) name = map_of vars name"
  "en_read_file (child_environment (reading bare_environment disk) vars) path =
    (case disk path of Some body \<Rightarrow> Inr body | None \<Rightarrow> Inl ''not found'')"
  by (simp_all add: child_environment_def reading_def bare_environment_def split: option.split)

lemma demo_secrets:
  "map_of vars file_name = Some ''/d/run/gateway-write-token'' \<Longrightarrow>
     secret_env (child_environment (reading bare_environment token_disk) vars) name file_name = Inr (Some ''aa'')"
  "map_of vars file_name = Some ''/d/run/gateway-read-token'' \<Longrightarrow>
     secret_env (child_environment (reading bare_environment token_disk) vars) name file_name = Inr (Some ''bb'')"
  by (simp_all add: secret_env_def non_empty_env_def non_empty_def demo_child demo_trims token_disk_def Let_def)

lemma demo_gateway:
  "\<exists>g. gateway_config_from_env (child_environment (reading bare_environment token_disk)
    (antd_variables ''/d'' (join_path ''/d'' ''run'') 8082 None)) (\<lambda>_. Some (''127.0.0.1'', 8082)) = Inr g"
  by (simp add: gateway_config_from_env_def Let_def antd_variables_def join_path_def demo_secrets
    cors_allowed_origins_from_env_def nonzero_millis_def no_variable demo_child)

lemma demo_origin: "is_ok (parse_cors_allowed_origins en ''http://127.0.0.1:8080'')"
proof -
  have parts: "map trim (split_on (CHR '','') ''http://127.0.0.1:8080'') = [''http://127.0.0.1:8080'']"
    "normalize_cors_origin ''http://127.0.0.1:8080'' = Inr ''http://127.0.0.1:8080''"
    by code_simp+
  then show ?thesis by (simp add: parse_cors_allowed_origins_def origin_header_def)
qed

lemma demo_stream:
  "\<exists>s. stream_start (child_environment (reading bare_environment token_disk)
    (stream_variables ''/d'' (join_path ''/d'' ''run'') 9 ''u'' ''http://127.0.0.1:8080'')) (\<lambda>_. Some ''127.0.0.1'') ''127.0.0.1'' = Inr s"
proof -
  have nine: "show_nat 9 = ''9''" by code_simp
  then have port: "parse_unsigned 16 ''9'' = Some 9" using parse_unsigned_show [of 9 16] by simp
  obtain origins where "parse_cors_allowed_origins en ''http://127.0.0.1:8080'' = Inr (origins en)" for en
    using demo_origin unfolding is_ok_iff by metis
  then show ?thesis
    by (simp add: stream_start_def stream_variables_def join_path_def demo_secrets cache_config_from_env_def
      seconds_nanos_def stream_request_timeout_def cors_allowed_origins_def bind_addr_from_env_def no_variable demo_child
      parse_env_def non_empty_env_def non_empty_def port nine demo_trims)
qed

theorem tokens_grant_what_is_needed_witness:
  "\<exists>g (s :: string stream_settings). gateway_config_from_env (child_environment (reading bare_environment token_disk)
      (antd_variables ''/d'' (join_path ''/d'' ''run'') 8082 None)) (\<lambda>_. Some (''127.0.0.1'', 8082)) = Inr g \<and>
    granted (gz_tokens g) (bearer (the (sz_internal_token s)) @ [(''host'', ''127.0.0.1:8082'')]) = ReadAccess"
proof -
  from demo_gateway obtain g where g: "gateway_config_from_env (child_environment (reading bare_environment token_disk)
      (antd_variables ''/d'' (join_path ''/d'' ''run'') 8082 None)) (\<lambda>_. Some (''127.0.0.1'', 8082)) = Inr g" by blast
  from demo_stream obtain s where s: "stream_start (child_environment (reading bare_environment token_disk)
      (stream_variables ''/d'' (join_path ''/d'' ''run'') 9 ''u'' ''http://127.0.0.1:8080'')) (\<lambda>_. Some ''127.0.0.1'') ''127.0.0.1'' = Inr s"
    by blast
  have written: "tokens_written ''/d'' ''aa'' ''bb'' token_disk"
    by (simp add: tokens_written_def token_disk_def join_path_def demo_trims hex_text_def)
  have admin: "secret_env (child_environment (reading bare_environment token_disk)
      (admin_variables bare_environment ''/d'' (join_path ''/d'' ''run'') 8000 ''u'' ''http://127.0.0.1:8080'' None demo_tools))
      ''ANTD_INTERNAL_TOKEN'' ''ANTD_INTERNAL_TOKEN_FILE'' = Inr (Some ''aa'')"
    by (rule demo_secrets) (simp add: admin_variables_def Let_def join_path_def)
  have "granted (gz_tokens g) (bearer (the (sz_internal_token s)) @ [(''host'', ''127.0.0.1:8082'')]) = ReadAccess"
    using tokens_grant_what_is_needed [OF written g s admin] by blast
  with g show ?thesis by blast
qed

definition demo_setup :: first_run_setup where
  "demo_setup = \<lparr>fs_admin_username = ''keeper'', fs_admin_password = ''correct horse'', fs_wallet_key = Some ''k'', fs_wallet_key_file = None\<rparr>"

text \<open>A small encoding of a configuration: every text behind its length in unary.\<close>

definition measured :: "string \<Rightarrow> string" where
  "measured s = replicate (length s) (CHR ''1'') @ CHR ''0'' # s"

definition unmeasured :: "string \<Rightarrow> string \<times> string" where
  "unmeasured raw =
     (let n = length (takeWhile (\<lambda>c. c = CHR ''1'') raw) in (take n (drop (n + 1) raw), drop (2 * n + 1) raw))"

lemma unmeasured_measured [simp]: "unmeasured (measured s @ rest) = (s, rest)"
proof -
  have "takeWhile (\<lambda>c. c = CHR ''1'') (replicate n (CHR ''1'') @ CHR ''0'' # u) = replicate n (CHR ''1'')" for n u
    by (induction n) simp_all
  then show ?thesis by (simp add: unmeasured_def measured_def Let_def)
qed

definition demo_encode :: "desktop_config \<Rightarrow> string" where
  "demo_encode c = measured (replicate (dk_schema_version c) (CHR ''v'')) @ measured (dk_admin_username c) @
     measured (dk_admin_password_file c) @ measured (dk_admin_auth_secret_file c) @
     (case dk_wallet_key_file c of None \<Rightarrow> [] | Some path \<Rightarrow> measured path)"

definition demo_decode :: "string \<Rightarrow> string + desktop_config" where
  "demo_decode raw =
     (let (version, raw1) = unmeasured raw; (username, raw2) = unmeasured raw1; (password_file, raw3) = unmeasured raw2;
          (secret_file, raw4) = unmeasured raw3
      in Inr \<lparr>dk_schema_version = length version, dk_admin_username = username, dk_admin_password_file = password_file,
           dk_admin_auth_secret_file = secret_file,
           dk_wallet_key_file = (if raw4 = [] then None else Some (fst (unmeasured raw4)))\<rparr>)"

lemma demo_round_trip: "demo_decode \<circ> demo_encode = Inr"
proof -
  have "unmeasured (measured s) = (s, [])" "measured s \<noteq> []" for s
    using unmeasured_measured [of s "[]"] by (simp, simp add: measured_def)
  then show ?thesis
    by (intro ext) (simp add: demo_decode_def demo_encode_def split: option.split)
qed

definition demo_setup_world :: setup_world where
  "demo_setup_world = \<lparr>sw_create_dir = (\<lambda>_. None), sw_write = (\<lambda>_. Written), sw_secret = random_hex_secret (replicate 32 0),
     sw_encode = demo_encode, sw_decode = demo_decode\<rparr>"

lemma k_is_trimmed: "trim ''k'' = ''k''"
  by code_simp

lemma demo_setup_valid: "validate_setup Map.empty demo_setup = Inr ()"
proof -
  have "trim ''keeper'' = ''keeper''" "\<not> launcher_unsafe_value ''keeper''" "trim ''correct horse'' = ''correct horse''"
    "\<not> launcher_unsafe_value ''correct horse''" "trim ''k'' = ''k''"
    by code_simp+
  then show ?thesis by (simp add: validate_setup_def demo_setup_def blank_answer_def non_empty_def)
qed

theorem setup_starts_in_production_witness:
  "\<exists>xc disk. read_access (admin_environment bare_environment demo_setup_world ''/d'' 8000 ''u'' ''o'' demo_tools disk) = Inr xc \<and>
     xc_username xc = ''keeper'' \<and> xc_password xc = ''correct horse''"
proof -
  have writes: "write_private_file demo_setup_world path bytes disk = (Inr (), disk(path \<mapsto> bytes))"
    "dir_ok demo_setup_world path = Inr ()" for path bytes disk
    by (simp_all add: write_private_file_def dir_ok_def demo_setup_world_def)
  have key: "non_empty (map_option trim (fs_wallet_key demo_setup)) = Some (trim ''k'')"
    using k_is_trimmed by (simp add: demo_setup_def non_empty_def)
  obtain status disk' where saved: "save_first_run_config demo_setup_world ''/d'' demo_setup Map.empty = (Inr status, disk')"
    by (simp add: save_first_run_config_def Let_def demo_setup_valid write_secret_file_def writes store_wallet_key_def key)
  have trims: "trim ''keeper'' = ''keeper''" "trim ''correct horse'' = ''correct horse''"
    "trim (secrets_path ''/d'' ''admin-password'') = secrets_path ''/d'' ''admin-password''"
    "trim (secrets_path ''/d'' ''admin-auth-secret'') = secrets_path ''/d'' ''admin-auth-secret''"
    by code_simp+
  have differs: "sw_secret demo_setup_world \<noteq> trim (fs_admin_password demo_setup)"
    using secret_length [of "replicate 32 0"] by (auto simp: demo_setup_world_def demo_setup_def trims)
  have secret: "sw_secret demo_setup_world = random_hex_secret (replicate 32 0)" "length (replicate 32 (0 :: nat)) = 32"
    "list_all (\<lambda>b. b < 256) (replicate 32 (0 :: nat))"
    by (simp_all add: demo_setup_world_def list_all_iff)
  have decode: "sw_decode demo_setup_world \<circ> sw_encode demo_setup_world = Inr"
    using demo_round_trip by (simp add: demo_setup_world_def)
  have unset: "list_all (\<lambda>name. en_var bare_environment name = None) inherited_access"
    by (simp add: bare_environment_def list_all_iff)
  from setup_starts_in_production [OF saved secret differs trims(3,4) decode unset, of 8000 "''u''" "''o''" demo_tools]
  show ?thesis by (auto simp: demo_setup_def trims)
qed

section \<open>Processes\<close>

text \<open>What the launcher may signal: a process that its pid file names and that is called as that child is.\<close>

definition own_stale_child :: "process_table \<Rightarrow> (string \<Rightarrow> pid_file) \<Rightarrow> nat \<times> string \<Rightarrow> bool" where
  "own_stale_child pt files signal \<longleftrightarrow>
     snd signal \<in> set managed_child_names \<and> stale_child_running pt (fst signal) (snd signal) \<and>
     (case files (snd signal) of PidText raw \<Rightarrow> parse_unsigned 32 (trim raw) = Some (fst signal) | _ \<Rightarrow> False)"

definition cleaned :: "string list \<Rightarrow> (string \<Rightarrow> pid_file) \<Rightarrow> string \<Rightarrow> pid_file" where
  "cleaned names files name =
     (if name \<in> set names then (case files name of PidText _ \<Rightarrow> NoPidFile | other \<Rightarrow> other) else files name)"

lemma cleanup_names:
  assumes "set names \<subseteq> set managed_child_names" "distinct names"
  shows "(case foldl (\<lambda>s name. cleanup_child pt name s) ([], files) names of
     (signals, files') \<Rightarrow> list_all (own_stale_child pt files) signals \<and> distinct (map snd signals) \<and>
       set (map snd signals) \<subseteq> set names \<and> files' = cleaned names files)"
  using assms
proof (induction names rule: rev_induct)
  case Nil
  then show ?case by (simp add: cleaned_def fun_eq_iff)
next
  case (snoc name names)
  obtain signals files' where so_far: "foldl (\<lambda>s name. cleanup_child pt name s) ([], files) names = (signals, files')"
    by fastforce
  with snoc have signals: "list_all (own_stale_child pt files) signals" "distinct (map snd signals)"
    "set (map snd signals) \<subseteq> set names" and files': "files' = cleaned names files"
    and fresh: "name \<notin> set names" "name \<in> set managed_child_names"
    by simp_all
  have same: "files' name = files name" using fresh by (simp add: files' cleaned_def)
  have extended: "cleaned (names @ [name]) files =
      (case files name of PidText _ \<Rightarrow> files'(name := NoPidFile) | _ \<Rightarrow> files')"
    using fresh by (auto simp: files' cleaned_def fun_eq_iff split: pid_file.split)
  define after where "after = cleanup_child pt name (signals, files')"
  have step: "foldl (\<lambda>s name. cleanup_child pt name s) ([], files) (names @ [name]) = after"
    by (simp add: so_far after_def)
  have "case after of (signals, files') \<Rightarrow> list_all (own_stale_child pt files) signals \<and> distinct (map snd signals) \<and>
      set (map snd signals) \<subseteq> set (names @ [name]) \<and> files' = cleaned (names @ [name]) files"
  proof (cases "files name")
    case NoPidFile
    then show ?thesis using signals by (auto simp: after_def cleanup_child_def same extended)
  next
    case UnreadablePid
    then show ?thesis using signals by (auto simp: after_def cleanup_child_def same extended)
  next
    case raw: (PidText raw)
    show ?thesis
    proof (cases "parse_unsigned 32 (trim raw)")
      case None
      then show ?thesis using signals raw by (auto simp: after_def cleanup_child_def same extended)
    next
      case (Some pid)
      have "own_stale_child pt files (pid, name)" if "stale_child_running pt pid name"
        using that fresh raw Some by (simp add: own_stale_child_def)
      then show ?thesis using signals fresh raw Some by (auto simp: after_def cleanup_child_def same extended)
    qed
  qed
  then show ?case unfolding step .
qed

text \<open>Only the launcher's own stale processes are signalled: each was named by the pid file of one of the managed
  children, is alive, and is called as that child is; none is signalled twice for one file. Afterwards
  every pid file that could be read is gone, and no other file was touched.\<close>

theorem only_own_processes_are_signalled:
  "case cleanup_stale_children pt files of
     (signals, files') \<Rightarrow> list_all (own_stale_child pt files) signals \<and> distinct (map snd signals) \<and>
       files' = cleaned managed_child_names files"
  using cleanup_names [of managed_child_names pt files]
  by (auto simp: cleanup_stale_children_def managed_child_names_def split: prod.splits)

text \<open>A local network that a crashed launcher left behind is not stopped: it is a script, which the kernel calls by
  the first fifteen characters of its name, and those are not the child's name.\<close>

theorem stale_devnet_survives:
  assumes "pt_comm pt pid = Some ''start-local-dev''"
  shows "\<not> stale_child_running pt pid ''local-devnet''"
proof -
  have "trim ''start-local-dev'' = ''start-local-dev''" "\<not> process_name_is_expected ''start-local-dev'' ''local-devnet''"
    by code_simp+
  with assms show ?thesis by (simp add: stale_child_running_def)
qed

text \<open>The health of a child is asked for at most 120 times, and it is found healthy exactly when one of the first
  120 answers is.\<close>

lemma ask_health_bounds: "snd (ask_health n answers asked) \<le> asked + n"
  by (induction n answers asked rule: ask_health.induct) auto

lemma ask_health_iff: "fst (ask_health n answers asked) \<longleftrightarrow> True \<in> set (take n answers)"
  by (induction n answers asked rule: ask_health.induct) auto

lemma health_wait:
  "snd (wait_for_health url name answers) \<le> 120 \<and>
   (fst (wait_for_health url name answers) = Inr () \<longleftrightarrow> True \<in> set (take 120 answers))"
proof -
  obtain healthy asked where ask: "ask_health 120 answers 0 = (healthy, asked)" by fastforce
  with ask_health_bounds [of 120 answers 0] ask_health_iff [of 120 answers 0] show ?thesis
    by (cases healthy) (simp_all add: wait_for_health_def)
qed

text \<open>The grace period is a duration, and the deadline an instant.\<close>

definition grace_fits :: "environment \<Rightarrow> nat \<Rightarrow> bool" where
  "grace_fits en now \<longleftrightarrow>
     (case env_duration en ''ADMIN_SHUTDOWN_GRACE_SECONDS'' (Fin 15) of
        None \<Rightarrow> False
      | Some grace \<Rightarrow> deadline_fits now grace)"

lemma stop_returns: "fst (stop_children en w children) \<longleftrightarrow> grace_fits en (so_now w)"
  by (simp add: stop_children_def grace_fits_def split: option.split)











text \<open>The two ways in which stopping ends the launcher itself while children run: a grace period that is a
  finite number but no duration, and one whose end the clock cannot represent; the second after the
  children were asked to stop.\<close>

theorem huge_grace_panics:
  "fst (stop_children en w children) \<longleftrightarrow>
     (case Option.bind (en_var en ''ADMIN_SHUTDOWN_GRACE_SECONDS'') parse_f64 of
        Some (Fin q) \<Rightarrow> q < 0 \<and> int (so_now w) + 15 < 2 ^ 63 \<or> 0 \<le> q \<and> q < 2 ^ 64 \<and> int (so_now w) + \<lfloor>q\<rfloor> < 2 ^ 63
      | _ \<Rightarrow> int (so_now w) + 15 < 2 ^ 63)"
  unfolding stop_returns
  by (auto simp: grace_fits_def env_duration_def deadline_fits_def is_finite_def split: option.splits f64.splits)

text \<open>A directory given on the command line is no use where the platform's own cannot be found.\<close>

theorem given_directory_needs_home:
  assumes "en_var (la_environment w) ''AUTVID_DATA_DIR'' = None" "en_var (la_environment w) ''HOME'' = None"
  shows "launch_stack w (opts\<lparr>lo_data_dir := Some dir\<rparr>) = not_started ''HOME is required when AUTVID_DATA_DIR is unset''"
  using assms by (simp add: launch_stack_def launch_dir_def resolve_data_dir_def)

section \<open>The proxy\<close>

lemma nominated_sanitized: "nominated (sanitized_headers hs) = []"
proof -
  have "fst h \<noteq> ''connection''" if "h \<in> set (sanitized_headers hs)" for h
    using that by (auto simp: sanitized_headers_def hop_headers_def)
  then show ?thesis by (auto simp: nominated_def split: prod.splits) (metis fst_conv)
qed

lemma sanitized_idempotent: "sanitized_headers (sanitized_headers hs) = sanitized_headers hs"
proof -
  have "sanitized_headers (sanitized_headers hs) = filter (\<lambda>h. fst h \<notin> set hop_headers) (sanitized_headers hs)"
    by (simp add: sanitized_headers_def [of "sanitized_headers hs"] nominated_sanitized)
  then show ?thesis by (simp add: sanitized_headers_def)
qed

text \<open>The proxy forwards the message and not the connection: a service's answer is the same when the headers that
  are only about the hop, and those the connection header nominates, are left out of the request, and
  neither they nor a length come back.\<close>

theorem hop_headers_stay:
  "proxy_to p upstream m hs body query path admin = proxy_to p upstream m (sanitized_headers hs) body query path admin \<and>
   (case upstream m ((if admin then px_admin_base p else px_stream_base p) @ path @ (case query of Some q \<Rightarrow> ''?'' @ q | None \<Rightarrow> []))
       (sanitized_headers hs) body of
      Inl e \<Rightarrow> True
    | Inr (status, answer_headers, answer_body) \<Rightarrow>
        list_all (\<lambda>h. fst h \<notin> set hop_headers \<and> fst h \<notin> set (nominated answer_headers) \<and> fst h \<noteq> ''content-length'')
          (fst (snd (proxy_to p upstream m hs body query path admin))))"
  by (simp add: proxy_to_def sanitized_idempotent sanitized_headers_def [of "fst (snd _)"] list_all_iff split: sum.split prod.split)
    (simp add: sanitized_headers_def)

text \<open>A page of another site cannot use the proxy: a request for a service that names another origin, or that the
  browser marks as coming from another site, is refused whatever the service would answer.\<close>

theorem foreign_pages_stay_out:
  assumes "prefix ''/api'' path \<or> prefix ''/stream'' path"
    and "(\<exists>origin. map_of hs ''origin'' = Some origin \<and> origin \<noteq> px_origin p) \<or> map_of hs ''sec-fetch-site'' = Some ''cross-site''"
  shows "proxy_request p upstream decoded assets m path query hs body = text_response 403 ''invalid native Host or Origin''"
proof -
  have "\<not> is_navigation m path hs" using assms(1) by (auto simp: is_navigation_def)
  then have "\<not> native_headers_allowed hs (px_origin p) (is_navigation m path hs)"
    using assms(2) by (auto simp: native_headers_allowed_def header_value_text_def split: option.splits if_splits)
  then show ?thesis by (simp add: proxy_request_def validate_native_request_def)
qed

theorem foreign_pages_stay_out_witness:
  "proxy_request \<lparr>px_origin = ''http://127.0.0.1:8080'', px_admin_base = ''a'', px_stream_base = ''s'', px_runtime_config_js = []\<rparr>
     (\<lambda>_ _ _ _. Inr (200, [], ''secret'')) (\<lambda>x. x) (\<lambda>_. (404, [], [])) ''GET'' ''/api/videos'' None
     [(''host'', ''127.0.0.1:8080''), (''origin'', ''https://elsewhere'')] [] = text_response 403 ''invalid native Host or Origin''"
  by (rule foreign_pages_stay_out) simp_all

lemma show_nat_ascii: "list_all (\<lambda>c. byte c = 9 \<or> (32 \<le> byte c \<and> byte c < 127)) (show_nat n)"
proof (induction n rule: show_nat.induct)
  case (1 n)
  have "n mod 10 < 79" by (rule less_trans [OF mod_less_divisor]) simp_all
  with 1 show ?case
    by (simp add: show_nat.simps [of n] digit_char_def)
qed

lemma map_of_filter_name:
  "map_of (filter (\<lambda>h. fst h \<notin> A \<and> fst h \<notin> B) hs) name = (if name \<in> A \<or> name \<in> B then None else map_of hs name)"
  by (induction hs) auto

text \<open>What the proxy admits for a service, the service admits: its own check of host and origin accepts the
  forwarded request, whose host is the service's address.\<close>

theorem admitted_by_proxy_and_service:
  assumes "native_headers_allowed hs (px_origin p) False"
  shows "native_allows \<lparr>np_loopback = True, np_address = loopback port, np_port = port, np_origins = [px_origin p]\<rparr>
    ((''host'', loopback port) # sanitized_headers hs)"
proof -
  have "header_text ''host'' ((''host'', loopback port) # sanitized_headers hs) = Some (loopback port)"
    using show_nat_ascii [of port] by (simp add: header_text_def loopback_def)
  moreover have "map_of ((''host'', loopback port) # sanitized_headers hs) ''origin'' \<in> {None, Some (px_origin p)}"
  proof -
    have "map_of (sanitized_headers hs) ''origin'' = (if ''origin'' \<in> set (nominated hs) then None else map_of hs ''origin'')"
      unfolding sanitized_headers_def map_of_filter_name by (simp add: hop_headers_def)
    moreover have "map_of hs ''origin'' \<in> {None, Some (px_origin p)}"
      using assms by (auto simp: native_headers_allowed_def header_value_text_def split: option.splits if_splits)
    ultimately show ?thesis by auto
  qed
  ultimately show ?thesis by (auto simp: native_allows_def eq_ignore_ascii_case_def)
qed

theorem admitted_by_proxy_and_service_witness:
  "native_allows \<lparr>np_loopback = True, np_address = loopback 8000, np_port = 8000, np_origins = [''http://127.0.0.1:8080'']\<rparr>
     ((''host'', loopback 8000) # sanitized_headers [(''host'', ''127.0.0.1:8080''), (''origin'', ''http://127.0.0.1:8080'')])"
proof -
  let ?p = "\<lparr>px_origin = ''http://127.0.0.1:8080'', px_admin_base = [], px_stream_base = [], px_runtime_config_js = []\<rparr>"
  have "native_headers_allowed [(''host'', ''127.0.0.1:8080''), (''origin'', ''http://127.0.0.1:8080'')] (px_origin ?p) False"
    by code_simp
  from admitted_by_proxy_and_service [OF this, of 8000] show ?thesis by (simp only: proxy_state.select_convs)
qed

end
