(* ===== verification/Gateway_Node.thy ===== *)
theory Gateway_Node
  imports Service_Requests Payment_Contract
begin

text \<open>
  How the gateway joins the network (\<open>crates/antd_service/src/client.rs\<close>): the payment network and the
  wallet key from the settings, the peers to start from, the assembly of the client and the wait for
  the first peer. URLs, addresses, the peer cache, the node and the wallet belong to libraries: what they
  answer is a parameter.
\<close>

section \<open>The payment network\<close>

datatype evm_network = ArbitrumOne | ArbitrumSepoliaTest | CustomEvm string string string

record url_parts =
  ur_scheme :: string
  ur_host :: "string option"
  ur_username :: string
  ur_password :: "string option"

definition evm_names :: "string list" where
  "evm_names =
     [''custom'', ''local'', ''arbitrum-one'', ''arbitrum-sepolia'', ''arbitrum-sepolia-test'',
      ''evm-arbitrum-sepolia-test'']"

definition sound_rpc :: "url_parts \<Rightarrow> bool" where
  "sound_rpc url \<longleftrightarrow> ur_scheme url \<in> {''http'', ''https''} \<and> ur_host url \<noteq> None \<and> ur_username url = [] \<and>
     ur_password url = None"

definition contract_address :: "string \<Rightarrow> bool" where
  "contract_address a \<longleftrightarrow> length a = 42 \<and> prefix ''0x'' a \<and> list_all is_ascii_hexdigit (drop 2 a)"

definition parse_evm_network ::
  "(string \<Rightarrow> string + url_parts) \<Rightarrow> string \<Rightarrow> string option \<Rightarrow> string option \<Rightarrow> string option \<Rightarrow> evm_network conf"
where
  "parse_evm_network parse_url name rpc token vault =
     (if name \<notin> set evm_names then Inl (''unsupported EVM_NETWORK: '' @ name)
      else if rpc \<noteq> None \<or> token \<noteq> None \<or> vault \<noteq> None then
        (case (rpc, token, vault) of
           (Some rpc, Some token, Some vault) \<Rightarrow>
             rbind (parse_url rpc) (\<lambda>url.
             if \<not> sound_rpc url
             then Inl ''EVM RPC URL must use HTTP(S) with a valid host and no embedded credentials''
             else if \<not> (contract_address token \<and> contract_address vault) then Inl ''invalid EVM contract address''
             else Inr (CustomEvm rpc token vault))
         | _ \<Rightarrow> Inl ''custom EVM settings require RPC URL, token and vault together'')
      else if name = ''arbitrum-one'' then Inr ArbitrumOne
      else if name \<in> {''arbitrum-sepolia'', ''arbitrum-sepolia-test'', ''evm-arbitrum-sepolia-test''}
      then Inr ArbitrumSepoliaTest
      else Inl (''unsupported EVM_NETWORK: '' @ name))"

fun first_env :: "environment \<Rightarrow> string list \<Rightarrow> string option" where
  "first_env en [] = None"
| "first_env en (name # names) =
     (case non_empty_env en name of Some v \<Rightarrow> Some v | None \<Rightarrow> first_env en names)"

definition evm_network_of :: "environment \<Rightarrow> (string \<Rightarrow> string + url_parts) \<Rightarrow> evm_network conf" where
  "evm_network_of en parse_url =
     parse_evm_network parse_url
       (case non_empty_env en ''EVM_NETWORK'' of Some n \<Rightarrow> n | None \<Rightarrow> ''arbitrum-one'')
       (first_env en [''EVM_RPC_URL'', ''PROD_EVM_RPC_URL''])
       (first_env en [''EVM_PAYMENT_TOKEN_ADDRESS'', ''PROD_EVM_PAYMENT_TOKEN_ADDRESS''])
       (first_env en [''EVM_PAYMENT_VAULT_ADDRESS'', ''PROD_EVM_PAYMENT_VAULT_ADDRESS''])"

section \<open>The wallet key\<close>

definition read_wallet_key_file :: "environment \<Rightarrow> string \<Rightarrow> string conf" where
  "read_wallet_key_file en path =
     rbind (en_read_file en path) (\<lambda>content.
     if trim content = [] then Inl ''AUTONOMI_WALLET_KEY_FILE is empty'' else Inr (trim content))"

definition wallet_key :: "environment \<Rightarrow> string option conf" where
  "wallet_key en =
     (case non_empty_env en ''AUTONOMI_WALLET_KEY_FILE'' of
        Some path \<Rightarrow> rbind (read_wallet_key_file en path) (\<lambda>key. Inr (Some key))
      | None \<Rightarrow> Inr (non_empty_env en ''AUTONOMI_WALLET_KEY''))"

definition prefixed_key :: "string \<Rightarrow> string" where
  "prefixed_key key = (if prefix ''0x'' key then key else ''0x'' @ key)"

section \<open>Peers\<close>

definition default_peers :: "string list" where
  "default_peers =
     [''207.148.94.42:10000'', ''45.77.50.10:10000'', ''66.135.23.83:10000'', ''149.248.9.2:10000'',
      ''49.12.119.240:10000'', ''5.161.25.133:10000'', ''18.228.202.183:10000'']"

definition is_local_network_name :: "string \<Rightarrow> bool" where
  "is_local_network_name network \<longleftrightarrow>
     to_ascii_lowercase (trim network) \<in> {''local'', ''devnet'', ''development''}"

definition is_local_network :: "environment \<Rightarrow> bool" where
  "is_local_network en = (case en_var en ''ANTD_NETWORK'' of None \<Rightarrow> False | Some n \<Rightarrow> is_local_network_name n)"

text \<open>The text before and after the last occurrence of a character.\<close>

definition rsplit_once :: "char \<Rightarrow> string \<Rightarrow> (string \<times> string) option" where
  "rsplit_once d s = map_option (\<lambda>(a, b). (rev b, rev a)) (split_once d (rev s))"

definition normalize_multiaddr :: "string \<Rightarrow> string" where
  "normalize_multiaddr peer =
     (if prefix ''/'' peer then peer
      else
        (case rsplit_once (CHR '':'') peer of
           Some (host, port) \<Rightarrow>
             if host \<noteq> [] \<and> port \<noteq> [] then ''/ip4/'' @ host @ ''/udp/'' @ port @ ''/quic'' else peer
         | None \<Rightarrow> peer))"

text \<open>The list is cut at commas and at white space.\<close>

definition bootstrap_peers :: "environment \<Rightarrow> (string \<Rightarrow> string + 'm) \<Rightarrow> 'm list conf" where
  "bootstrap_peers en parse_addr =
     (let raw = (case first_env en [''PROD_AUTONOMI_PEERS'', ''ANTD_PEERS'', ''ANT_PEERS''] of
            Some v \<Rightarrow> v | None \<Rightarrow> []);
          peers = (if trim raw = [] then default_peers
                   else concat (map split_whitespace (split_on (CHR '','') raw)))
      in collect_ok (\<lambda>p. parse_addr (normalize_multiaddr p)) peers)"

definition env_u64 :: "environment \<Rightarrow> string \<Rightarrow> nat \<Rightarrow> nat" where
  "env_u64 en name default_value =
     (case Option.bind (en_var en name) (parse_unsigned 64) of Some n \<Rightarrow> n | None \<Rightarrow> default_value)"

section \<open>Waiting for the first peer\<close>

definition start_deadline :: nat where "start_deadline = 10000"
definition warmup_poll :: nat where "warmup_poll = 250"

text \<open>
  One look at the node: whether it has a peer, whether its start has ended and how, and how late the
  clock is read. \<open>None\<close> means that it still waits after the given looks.
\<close>

fun warm_up :: "nat \<Rightarrow> nat \<Rightarrow> (bool \<times> unit conf option \<times> nat) list \<Rightarrow> unit conf option" where
  "warm_up deadline now [] = None"
| "warm_up deadline now ((has_peer, finished, late) # looks) =
     (if has_peer then Some (Inr ())
      else
        (case finished of
           Some r \<Rightarrow> Some r
         | None \<Rightarrow>
             if deadline \<le> now + late then Some (Inr ())
             else warm_up deadline (now + late + warmup_poll) looks))"

definition start_node_with_warmup :: "nat \<Rightarrow> (bool \<times> unit conf option \<times> nat) list \<Rightarrow> unit conf option" where
  "start_node_with_warmup now looks = warm_up (now + start_deadline) now looks"

section \<open>Connecting\<close>

record ('m, 'w) node_world =
  nw_parse_url :: "string \<Rightarrow> string + url_parts"
  nw_parse_addr :: "string \<Rightarrow> string + 'm"
  nw_cached :: "string \<Rightarrow> 'm list"
  nw_select :: "'m list \<Rightarrow> 'm list \<Rightarrow> 'm list"
  nw_build :: "bool \<Rightarrow> 'm list \<Rightarrow> unit conf"
  nw_node :: "unit conf"
  nw_started_at :: nat
  nw_looks :: "(bool \<times> unit conf option \<times> nat) list"
  nw_wallet :: "evm_network \<Rightarrow> string \<Rightarrow> string + 'w"

record ('m, 'w) core_client =
  co_peers :: "'m list"
  co_local :: bool
  co_quote_timeout_secs :: nat
  co_store_timeout_secs :: nat
  co_peer_cache_path :: "string option"
  co_evm_network :: evm_network
  co_wallet :: "'w option"

definition cached_peers :: "('m, 'w) node_world \<Rightarrow> string option \<Rightarrow> 'm list" where
  "cached_peers w path = (case path of Some p \<Rightarrow> nw_cached w p | None \<Rightarrow> [])"

text \<open>A node that neither connects nor ends nor meets the deadline within the looks gives no client yet.\<close>

definition connect_client :: "environment \<Rightarrow> ('m, 'w) node_world \<Rightarrow> ('m, 'w) core_client conf option" where
  "connect_client en w =
     (case rbind (evm_network_of en (nw_parse_url w)) (\<lambda>evm.
           rbind (wallet_key en) (\<lambda>key.
           rbind (bootstrap_peers en (nw_parse_addr w)) (\<lambda>configured.
           (let local_network = is_local_network en;
                cache_path = (if local_network then None else non_empty_env en ''ANTD_PEER_CACHE_PATH'');
                peers = nw_select w (cached_peers w cache_path) configured
            in rbind (nw_build w local_network peers) (\<lambda>_.
               rbind (nw_node w) (\<lambda>_.
               Inr (evm, key, local_network, cache_path, peers))))))) of
        Inl e \<Rightarrow> Some (Inl e)
      | Inr (evm, key, local_network, cache_path, peers) \<Rightarrow>
          map_option (\<lambda>started. rbind started (\<lambda>_.
            let client = \<lparr>co_peers = peers, co_local = local_network,
                  co_quote_timeout_secs = env_u64 en ''ANTD_QUOTE_TIMEOUT_SECS'' 60,
                  co_store_timeout_secs = env_u64 en ''ANTD_STORE_TIMEOUT_SECS'' 120,
                  co_peer_cache_path = cache_path, co_evm_network = evm, co_wallet = None\<rparr>
            in case key of
                 None \<Rightarrow> Inr client
               | Some k \<Rightarrow> rbind (nw_wallet w evm (prefixed_key k)) (\<lambda>wallet. Inr (client\<lparr>co_wallet := Some wallet\<rparr>))))
            (start_node_with_warmup (nw_started_at w) (nw_looks w)))"

section \<open>Payments go to the configured network\<close>

text \<open>
  The network that payments use is one the settings name: the public ones only under their names and
  without any contract setting, a custom one only with all three settings, a plain HTTP(S) URL without
  credentials, and two well-formed contract addresses. Everything else is an error.
\<close>

theorem payment_network_is_configured:
  "case parse_evm_network parse_url name rpc token vault of
     Inl _ \<Rightarrow> True
   | Inr ArbitrumOne \<Rightarrow> name = ''arbitrum-one'' \<and> rpc = None \<and> token = None \<and> vault = None
   | Inr ArbitrumSepoliaTest \<Rightarrow>
       name \<in> {''arbitrum-sepolia'', ''arbitrum-sepolia-test'', ''evm-arbitrum-sepolia-test''} \<and>
       rpc = None \<and> token = None \<and> vault = None
   | Inr (CustomEvm r t v) \<Rightarrow>
       name \<in> set evm_names \<and> rpc = Some r \<and> token = Some t \<and> vault = Some v \<and>
       (\<exists>url. parse_url r = Inr url \<and> sound_rpc url) \<and> contract_address t \<and> contract_address v"
  by (auto simp: parse_evm_network_def rbind_def split: sum.split option.split)

section \<open>Peers and the first connection\<close>

lemma normalized_multiaddr: "normalize_multiaddr (normalize_multiaddr peer) = normalize_multiaddr peer"
  by (auto simp: normalize_multiaddr_def split: option.split prod.split)

lemma warm_up_before:
  "looks \<noteq> [] \<Longrightarrow> deadline + warmup_poll \<le> now + warmup_poll * length looks \<Longrightarrow> warm_up deadline now looks \<noteq> None"
proof (induction looks arbitrary: now)
  case Nil
  then show ?case by simp
next
  case (Cons l looks)
  obtain c f late where l: "l = (c, f, late)" by (cases l)
  show ?case
  proof (cases "looks = []")
    case True
    then show ?thesis using Cons.prems by (simp add: l split: option.split)
  next
    case False
    then have "warm_up deadline (now + late + warmup_poll) looks \<noteq> None"
      using Cons.prems by (intro Cons.IH) simp_all
    then show ?thesis by (simp add: l split: option.split)
  qed
qed

text \<open>
  Waiting for the first peer ends: whatever the node does, and however late the clock is read, at most
  41 looks at it bring an answer, and without a peer or an end of the start it is a success at the
  deadline.
\<close>

theorem warm_up_ends:
  "start_node_with_warmup now (map looks [0..<41]) \<noteq> None \<and>
   start_node_with_warmup now (map (\<lambda>i. (False, None, lateness i)) [0..<41]) = Some (Inr ())"
proof -
  have ends: "start_node_with_warmup now (map f [0..<41]) \<noteq> None" for f :: "nat \<Rightarrow> bool \<times> unit conf option \<times> nat"
    unfolding start_node_with_warmup_def
    by (rule warm_up_before) (simp_all add: start_deadline_def warmup_poll_def)
  have "warm_up d n (map (\<lambda>i. (False, None, lateness i)) xs) \<in> {None, Some (Inr ())}" for d n xs
    by (induction xs arbitrary: n) auto
  then have "start_node_with_warmup now (map (\<lambda>i. (False, None, lateness i)) [0..<41]) \<in> {None, Some (Inr ())}"
    by (simp only: start_node_with_warmup_def)
  with ends [of "\<lambda>i. (False, None, lateness i)"] ends [of looks] show ?thesis by auto
qed

text \<open>
  A client that connects has a wallet exactly when the settings hold a key, pays on the network of the
  settings, and reads a peer cache only when it is not told to stay on a local network.
\<close>

theorem connected_client_matches_settings:
  assumes "connect_client en w = Some (Inr client)"
  shows "evm_network_of en (nw_parse_url w) = Inr (co_evm_network client) \<and>
    (\<exists>key. wallet_key en = Inr key \<and> (co_wallet client = None \<longleftrightarrow> key = None)) \<and>
    co_local client = is_local_network en \<and> \<not> (co_local client \<and> co_peer_cache_path client \<noteq> None)"
  using assms
  by (auto simp: connect_client_def rbind_eq_Inr Let_def split: sum.splits option.splits)

end
