(* ===== verification/Desktop_Shell.thy ===== *)
theory Desktop_Shell
  imports Launcher_Properties Gateway_Node
begin

text \<open>
  The desktop window around the launcher (\<open>apps/desktop/src-tauri/src/main.rs\<close>): its commands and its
  closing as steps of tasks that share a mutex. The mutex admits the tasks in the order in which they
  asked for it. A task that panics unwinds: it gives the mutex back, and children it owns are killed.
\<close>

section \<open>Addresses and directories\<close>

record launcher_url = url_parts +
  lu_port :: "nat option"

definition validate_launcher_url :: "(string \<Rightarrow> launcher_url option) \<Rightarrow> string \<Rightarrow> unit conf" where
  "validate_launcher_url parse_url value =
     (case parse_url value of
        None \<Rightarrow> Inl ''launcher URL is invalid''
      | Some url \<Rightarrow>
          if ur_scheme url = ''http'' \<and> ur_host url \<in> Some ` {''127.0.0.1'', ''localhost'', ''::1'', ''[::1]''} \<and>
             lu_port url \<noteq> None \<and> ur_username url = [] \<and> ur_password url = None
          then Inr () else Inl ''launcher URL must be a loopback HTTP URL'')"

text \<open>The candidates in the order of the code; one that cannot be resolved is no candidate.\<close>

fun first_candidate :: "(string \<Rightarrow> bool) \<Rightarrow> string option list \<Rightarrow> string option" where
  "first_candidate ok [] = None"
| "first_candidate ok (c # cs) = 
     (case c of Some p \<Rightarrow> if ok p then Some p else first_candidate ok cs | None \<Rightarrow> first_candidate ok cs)"

definition resolve_frontend_dir :: "(string \<Rightarrow> bool) \<Rightarrow> string option \<Rightarrow> string option \<Rightarrow> string option" where
  "resolve_frontend_dir is_file resource web_build =
     first_candidate (\<lambda>p. is_file (p @ ''/index.html'')) [resource, web_build]"

definition resolve_binary_dir ::
  "environment \<Rightarrow> (string \<Rightarrow> bool) \<Rightarrow> string option \<Rightarrow> string option \<Rightarrow> string option \<Rightarrow> string option"
where
  "resolve_binary_dir en is_dir resource beside_program target_release =
     first_candidate is_dir [en_var en ''AUTVID_SIDECAR_DIR'', resource, beside_program, target_release]"

section \<open>Commands and closing\<close>

datatype desktop_call = StartStack | ShutStack

text \<open>\<open>ds_now\<close> is the monotonic clock in seconds.\<close>

record desktop_state =
  ds_data_dir :: string
  ds_now :: nat
  ds_closing :: bool
  ds_shutdown_complete :: bool
  ds_running :: "launched option"
  ds_holder :: "desktop_call option"
  ds_waiting :: "desktop_call list"
  ds_started :: nat
  ds_stopped :: nat
  ds_exited :: bool

definition desktop_init :: "string \<Rightarrow> desktop_state" where
  "desktop_init dir = \<lparr>ds_data_dir = dir, ds_now = 0, ds_closing = False, ds_shutdown_complete = False, ds_running = None,
     ds_holder = None, ds_waiting = [], ds_started = 0, ds_stopped = 0, ds_exited = False\<rparr>"

definition desktop_options :: "string \<Rightarrow> launch_options" where
  "desktop_options dir = \<lparr>lo_mode = Configured, lo_app_name = ''Autonomi Video Management'',
     lo_data_dir = Some dir, lo_require_setup = True\<rparr>"

text \<open>Asking for the shutdown; only the first request starts the task.\<close>

definition request_shutdown :: "desktop_state \<Rightarrow> desktop_state" where
  "request_shutdown s =
     (if ds_closing s then s else s\<lparr>ds_closing := True, ds_waiting := ds_waiting s @ [ShutStack]\<rparr>)"

text \<open>What a start does under the mutex; a stack that runs already only answers its URL.\<close>

definition desktop_start_stack :: "launch_world \<Rightarrow> desktop_state \<Rightarrow> string conf option \<times> desktop_state" where
  "desktop_start_stack w s =
     (case ds_running s of
        Some l \<Rightarrow> (ld_answer l, s)
      | None \<Rightarrow>
          (let l = launch_stack w (desktop_options (ds_data_dir s))
           in (ld_answer l,
               (case ld_answer l of
                  Some (Inr url) \<Rightarrow> s\<lparr>ds_running := Some l, ds_started := ds_started s + 1\<rparr>
                | _ \<Rightarrow> s))))"

text \<open>The shutdown under the mutex; when stopping the children panics, it is not completed.\<close>

definition desktop_shutdown :: "environment \<Rightarrow> stop_world \<Rightarrow> desktop_state \<Rightarrow> desktop_state" where
  "desktop_shutdown en w s =
     (case ds_running s of
        None \<Rightarrow> s\<lparr>ds_shutdown_complete := True\<rparr>
      | Some l \<Rightarrow>
          (let s' = s\<lparr>ds_running := None, ds_stopped := ds_stopped s + 1\<rparr>
           in if fst (stop_children en (w\<lparr>so_now := ds_now s\<rparr>) (ld_running l))
              then s'\<lparr>ds_shutdown_complete := True\<rparr> else s'))"

definition release :: "desktop_state \<Rightarrow> desktop_state" where
  "release s = s\<lparr>ds_holder := None\<rparr>"

inductive desktop_step :: "environment \<Rightarrow> desktop_state \<Rightarrow> desktop_state \<Rightarrow> bool" for en where
  start_asked: "desktop_step en s (s\<lparr>ds_waiting := ds_waiting s @ [StartStack]\<rparr>)" if "\<not> ds_exited s"
| close_asked: "desktop_step en s (request_shutdown s)" if "\<not> ds_exited s"
| locked: "desktop_step en s (s\<lparr>ds_holder := Some c, ds_waiting := cs\<rparr>)"
    if "\<not> ds_exited s" "ds_holder s = None" "ds_waiting s = c # cs"
| started: "desktop_step en s (release (snd (desktop_start_stack w s)))"
    if "\<not> ds_exited s" "ds_holder s = Some StartStack"
| shut: "desktop_step en s (release (desktop_shutdown en w s))"
    if "\<not> ds_exited s" "ds_holder s = Some ShutStack"
| passed: "desktop_step en s (s\<lparr>ds_now := ds_now s + seconds\<rparr>)"
| exited: "desktop_step en s (s\<lparr>ds_exited := True\<rparr>)" if "\<not> ds_exited s" "ds_shutdown_complete s"

inductive desktop_reachable :: "environment \<Rightarrow> string \<Rightarrow> desktop_state \<Rightarrow> bool" for en dir where
  initial: "desktop_reachable en dir (desktop_init dir)"
| next_step: "desktop_reachable en dir s \<Longrightarrow> desktop_step en s s' \<Longrightarrow> desktop_reachable en dir s'"

section \<open>The invariant\<close>

text \<open>The tasks that wait for the mutex or hold it.\<close>

definition pending :: "desktop_state \<Rightarrow> desktop_call list" where
  "pending s = (case ds_holder s of None \<Rightarrow> [] | Some c \<Rightarrow> [c]) @ ds_waiting s"

definition shutdowns :: "desktop_state \<Rightarrow> nat" where
  "shutdowns s = length (filter (\<lambda>c. c = ShutStack) (pending s))"

definition desktop_ok :: "desktop_state \<Rightarrow> bool" where
  "desktop_ok s \<longleftrightarrow> ds_started s = ds_stopped s + (if ds_running s = None then 0 else 1) \<and>
     ds_stopped s + shutdowns s \<le> 1 \<and>
     (ds_shutdown_complete s \<longrightarrow> ds_closing s \<and> shutdowns s = 0) \<and>
     (shutdowns s \<noteq> 0 \<longrightarrow> ds_closing s \<and> ds_stopped s = 0) \<and> (\<not> ds_closing s \<longrightarrow> ds_stopped s = 0) \<and>
     (ds_exited s \<longrightarrow> ds_shutdown_complete s)"

lemma shutdowns_simps [simp]:
  "shutdowns (s\<lparr>ds_waiting := ds_waiting s @ [c]\<rparr>) = shutdowns s + (if c = ShutStack then 1 else 0)"
  "shutdowns (s\<lparr>ds_closing := b\<rparr>) = shutdowns s" "shutdowns (s\<lparr>ds_now := n\<rparr>) = shutdowns s" "shutdowns (s\<lparr>ds_exited := b\<rparr>) = shutdowns s"
  by (simp_all add: shutdowns_def pending_def)

lemma shutdowns_asked:
  "\<not> ds_closing s \<Longrightarrow> shutdowns (s\<lparr>ds_closing := True, ds_waiting := ds_waiting s @ [ShutStack]\<rparr>) = shutdowns s + 1"
  by (simp add: shutdowns_def pending_def)

text \<open>What a start leaves of everything but the stack.\<close>

lemma start_keeps:
  "shutdowns (snd (desktop_start_stack w s)) = shutdowns s"
  "ds_closing (snd (desktop_start_stack w s)) = ds_closing s"
  "ds_shutdown_complete (snd (desktop_start_stack w s)) = ds_shutdown_complete s"
  "ds_stopped (snd (desktop_start_stack w s)) = ds_stopped s"
  "ds_exited (snd (desktop_start_stack w s)) = ds_exited s"
  "ds_holder (snd (desktop_start_stack w s)) = ds_holder s"
  "ds_waiting (snd (desktop_start_stack w s)) = ds_waiting s"
  "ds_now (snd (desktop_start_stack w s)) = ds_now s"
  by (simp_all add: desktop_start_stack_def shutdowns_def pending_def Let_def split: option.split sum.split)

lemma start_books:
  "ds_started (snd (desktop_start_stack w s)) + (if ds_running s = None then 0 else 1) =
   ds_started s + (if ds_running (snd (desktop_start_stack w s)) = None then 0 else 1)"
  by (simp add: desktop_start_stack_def Let_def split: option.split sum.split)

lemma shutdown_keeps:
  "shutdowns (desktop_shutdown en w s) = shutdowns s" "ds_closing (desktop_shutdown en w s) = ds_closing s"
  "ds_exited (desktop_shutdown en w s) = ds_exited s" "ds_holder (desktop_shutdown en w s) = ds_holder s"
  "ds_waiting (desktop_shutdown en w s) = ds_waiting s" "ds_now (desktop_shutdown en w s) = ds_now s" "ds_started (desktop_shutdown en w s) = ds_started s"
  "ds_running (desktop_shutdown en w s) = None"
  "ds_stopped (desktop_shutdown en w s) = ds_stopped s + (if ds_running s = None then 0 else 1)"
  by (simp_all add: desktop_shutdown_def shutdowns_def pending_def Let_def split: option.split)

lemma release_keeps:
  "ds_holder s = Some c \<Longrightarrow> shutdowns s = shutdowns (release s) + (if c = ShutStack then 1 else 0)"
  "ds_closing (release s) = ds_closing s" "ds_shutdown_complete (release s) = ds_shutdown_complete s"
  "ds_stopped (release s) = ds_stopped s" "ds_started (release s) = ds_started s"
  "ds_running (release s) = ds_running s" "ds_exited (release s) = ds_exited s" "ds_now (release s) = ds_now s"
  by (simp_all add: release_def shutdowns_def pending_def)

lemma desktop_step_ok:
  assumes "desktop_step en s s'" "desktop_ok s"
  shows "desktop_ok s'"
  using assms
proof cases
  case close_asked
  then show ?thesis using assms(2) shutdowns_asked [of s]
    by (auto simp: desktop_ok_def request_shutdown_def split: if_splits)
next
  case (locked c cs)
  then have "shutdowns s' = shutdowns s" by (simp add: shutdowns_def pending_def)
  with locked show ?thesis using assms(2) by (simp add: desktop_ok_def)
next
  case (started w)
  have "shutdowns s = shutdowns s'"
    using release_keeps(1) [of "snd (desktop_start_stack w s)" StartStack] started by (simp add: start_keeps)
  with started start_books [of w s] show ?thesis using assms(2)
    by (simp add: desktop_ok_def release_keeps start_keeps split: if_splits)
next
  case (shut w)
  have "shutdowns s = shutdowns s' + 1"
    using release_keeps(1) [of "desktop_shutdown en w s" ShutStack] shut by (simp add: shutdown_keeps)
  with shut show ?thesis using assms(2)
    by (simp add: desktop_ok_def release_keeps shutdown_keeps split: if_splits)
qed (use assms(2) in \<open>simp_all add: desktop_ok_def\<close>)

lemma desktop_invariant: "desktop_reachable en dir s \<Longrightarrow> desktop_ok s"
proof (induction rule: desktop_reachable.induct)
  case initial
  then show ?case by (simp add: desktop_init_def desktop_ok_def shutdowns_def pending_def)
next
  case (next_step s s')
  from desktop_step_ok [OF next_step.hyps(2) next_step.IH] show ?case .
qed

section \<open>What the user sees\<close>

text \<open>
  The window runs at most one stack, and the shutdown is asked for at most once: whatever the order of
  commands and of requests to close, the stacks started and not yet stopped are the one that is kept,
  and the process ends only when a shutdown has been completed.
\<close>

theorem desktop_runs_one_stack:
  assumes "desktop_reachable en dir s"
  shows "ds_started s - ds_stopped s \<le> 1 \<and> (ds_started s > ds_stopped s \<longleftrightarrow> ds_running s \<noteq> None) \<and>
    ds_stopped s + shutdowns s \<le> 1 \<and> \<not> (ds_exited s \<and> \<not> (ds_closing s \<and> ds_shutdown_complete s))"
  using desktop_invariant [OF assms] by (auto simp: desktop_ok_def)

lemma demo_closing: "desktop_reachable en dir (request_shutdown (desktop_init dir))"
  by (rule next_step [OF initial desktop_step.close_asked]) (simp add: desktop_init_def)

theorem desktop_runs_one_stack_witness:
  "ds_stopped (request_shutdown (desktop_init ''/d'')) + shutdowns (request_shutdown (desktop_init ''/d'')) \<le> 1"
  using desktop_runs_one_stack [OF demo_closing [of bare_environment "''/d''"]] by simp

text \<open>A step of the tasks brings the shutdown nearer; the last one completes it.\<close>

lemma mutex_round:
  assumes "\<not> ds_exited s" "ds_holder s = None" "ds_waiting s = StartStack # cs"
  obtains s' where "(desktop_step en)\<^sup>*\<^sup>* s s'" "\<not> ds_exited s'" "ds_holder s' = None" "ds_waiting s' = cs"
    "ds_closing s' = ds_closing s" "ds_now s' = ds_now s"
proof -
  let ?t = "s\<lparr>ds_holder := Some StartStack, ds_waiting := cs\<rparr>"
  let ?u = "release (snd (desktop_start_stack undefined ?t))"
  have "desktop_step en s ?t" using assms by (rule desktop_step.locked)
  moreover have "desktop_step en ?t ?u" using assms by (intro desktop_step.started) simp_all
  ultimately have "(desktop_step en)\<^sup>*\<^sup>* s ?u" by (blast intro: rtranclp.intros)
  moreover have "ds_holder ?u = None \<and> ds_waiting ?u = cs \<and> \<not> ds_exited ?u \<and> ds_closing ?u = ds_closing s \<and>
      ds_now ?u = ds_now s"
    using assms by (simp add: release_def start_keeps)
  ultimately show thesis using that by blast
qed

lemma shutdown_completes: "grace_fits en (ds_now s) \<Longrightarrow> ds_shutdown_complete (desktop_shutdown en w s)"
  using stop_returns [of en "w\<lparr>so_now := ds_now s\<rparr>"]
  by (simp add: desktop_shutdown_def Let_def split: option.split)

lemma grace_fits_earlier: "grace_fits en later \<Longrightarrow> now \<le> later \<Longrightarrow> grace_fits en now"
  by (auto simp: grace_fits_def deadline_fits_def split: option.splits f64.splits)

lemma clock_forward: "desktop_step en s s' \<Longrightarrow> ds_now s \<le> ds_now s'"
  by (induction rule: desktop_step.induct) (simp_all add: request_shutdown_def release_keeps start_keeps shutdown_keeps)

lemma shut_then_exit:
  assumes "grace_fits en (ds_now s)" "\<not> ds_exited s" "ds_holder s = Some ShutStack"
  shows "\<exists>s'. (desktop_step en)\<^sup>*\<^sup>* s s' \<and> ds_exited s'"
proof -
  let ?u = "release (desktop_shutdown en undefined s)"
  have "desktop_step en s ?u" using assms(2,3) by (rule desktop_step.shut)
  moreover have "desktop_step en ?u (?u\<lparr>ds_exited := True\<rparr>)"
    by (rule desktop_step.exited) (simp_all add: release_keeps shutdown_keeps shutdown_completes assms)
  ultimately have "(desktop_step en)\<^sup>*\<^sup>* s (?u\<lparr>ds_exited := True\<rparr>)"
    by (meson converse_rtranclp_into_rtranclp rtranclp.rtrancl_refl)
  then show ?thesis by (intro exI [of _ "?u\<lparr>ds_exited := True\<rparr>"]) simp
qed

lemma waiting_shutdown_ends:
  "grace_fits en (ds_now s) \<Longrightarrow> \<not> ds_exited s \<Longrightarrow> ds_holder s = None \<Longrightarrow> ShutStack \<in> set (ds_waiting s) \<Longrightarrow>
    \<exists>s'. (desktop_step en)\<^sup>*\<^sup>* s s' \<and> ds_exited s'"
proof (induction "ds_waiting s" arbitrary: s)
  case Nil
  then show ?case by simp
next
  case (Cons c cs)
  show ?case
  proof (cases c)
    case ShutStack
    let ?t = "s\<lparr>ds_holder := Some ShutStack, ds_waiting := cs\<rparr>"
    have "desktop_step en s ?t" using Cons.prems Cons.hyps(2) ShutStack by (intro desktop_step.locked) simp_all
    with shut_then_exit [of en ?t] Cons.prems show ?thesis
      by (auto intro: converse_rtranclp_into_rtranclp)
  next
    case StartStack
    then obtain t where t: "(desktop_step en)\<^sup>*\<^sup>* s t" "\<not> ds_exited t" "ds_holder t = None" "ds_waiting t = cs"
      "ds_now t = ds_now s"
      using Cons.prems Cons.hyps(2) by (metis mutex_round)
    moreover from StartStack Cons.prems(4) have "ShutStack \<in> set cs" by (simp flip: Cons.hyps(2))
    ultimately show ?thesis using Cons.hyps(1) [of t] Cons.prems(1) by (metis rtranclp_trans)
  qed
qed

lemma closing_keeps_shutdown:
  assumes "desktop_reachable en dir s"
  shows "grace_fits en (ds_now s) \<Longrightarrow> ds_closing s \<Longrightarrow> ds_shutdown_complete s \<or> shutdowns s \<noteq> 0"
  using assms
proof (induction rule: desktop_reachable.induct)
  case initial
  then show ?case by (simp add: desktop_init_def)
next
  case (next_step s s')
  have fits: "grace_fits en (ds_now s)"
    using grace_fits_earlier [OF next_step.prems(1) clock_forward [OF next_step.hyps(2)]] .
  note next_step = next_step fits
  from next_step.hyps(2) show ?case
  proof cases
    case close_asked
    with next_step show ?thesis using shutdowns_asked [of s] by (simp add: request_shutdown_def split: if_splits)
  next
    case (locked c cs)
    then have "shutdowns s' = shutdowns s" by (simp add: shutdowns_def pending_def)
    with locked next_step show ?thesis by simp
  next
    case (started w)
    have "shutdowns s = shutdowns s'"
      using release_keeps(1) [of "snd (desktop_start_stack w s)" StartStack] started by (simp add: start_keeps)
    with started next_step show ?thesis by (simp add: release_keeps start_keeps)
  next
    case (shut w)
    then have "ds_shutdown_complete s'"
      using shutdown_completes [OF fits] by (simp add: release_keeps)
    then show ?thesis ..
  qed (use next_step in simp_all)
qed

text \<open>C40. A window that is told to close can close: from every state after the request, whatever commands came in
  before it, the tasks can go on to the end of the process, provided the grace period is a duration and
  its end an instant that the clock can represent.
\<close>

theorem closing_window_can_exit:
  assumes "desktop_reachable en dir s" "ds_closing s" and "grace_fits en (ds_now s)"
  shows "\<exists>s'. (desktop_step en)\<^sup>*\<^sup>* s s' \<and> ds_exited s'"
proof (cases "ds_exited s \<or> ds_shutdown_complete s")
  case True
  then show ?thesis
  proof
    assume "ds_exited s"
    then show ?thesis by (intro exI [of _ s]) simp
  next
    assume "ds_shutdown_complete s"
    then have "\<not> ds_exited s \<Longrightarrow> desktop_step en s (s\<lparr>ds_exited := True\<rparr>)" by (simp add: desktop_step.exited)
    then show ?thesis by (cases "ds_exited s") (auto intro: exI [of _ "s\<lparr>ds_exited := True\<rparr>"])
  qed
next
  case False
  from closing_keeps_shutdown [OF assms(1,3,2)] False have left: "shutdowns s \<noteq> 0" by simp
  show ?thesis
  proof (cases "ds_holder s")
    case None
    with left have "ShutStack \<in> set (ds_waiting s)" by (auto simp: shutdowns_def pending_def filter_empty_conv)
    with None False show ?thesis by (intro waiting_shutdown_ends [OF assms(3)]) simp_all
  next
    case (Some c)
    show ?thesis
    proof (cases c)
      case ShutStack
      with Some False show ?thesis by (intro shut_then_exit [OF assms(3)]) simp_all
    next
      case StartStack
      let ?u = "release (snd (desktop_start_stack undefined s))"
      have "desktop_step en s ?u" using Some False StartStack by (intro desktop_step.started) simp_all
      moreover have "ShutStack \<in> set (ds_waiting ?u) \<and> ds_holder ?u = None \<and> \<not> ds_exited ?u \<and> ds_now ?u = ds_now s"
        using left Some StartStack False
        by (auto simp: shutdowns_def pending_def filter_empty_conv release_def start_keeps)
      moreover from this have "\<exists>s'. (desktop_step en)\<^sup>*\<^sup>* ?u s' \<and> ds_exited s'"
        using waiting_shutdown_ends [of en ?u] assms(3) by simp
      ultimately show ?thesis by (blast intro: converse_rtranclp_into_rtranclp)
    qed
  qed
qed

theorem closing_window_can_exit_witness:
  "\<exists>s'. (desktop_step bare_environment)\<^sup>*\<^sup>* (request_shutdown (desktop_init ''/d'')) s' \<and> ds_exited s'"
  by (rule closing_window_can_exit [OF demo_closing])
    (simp_all add: request_shutdown_def desktop_init_def grace_fits_def deadline_fits_def env_duration_def
      bare_environment_def)

text \<open>
  A start that waits behind the shutdown still runs: the stack it starts is left running when the process
  ends.
\<close>

theorem late_start_is_left_running:
  assumes "ld_answer (launch_stack w (desktop_options dir)) = Some (Inr url)"
  shows "\<exists>s. desktop_reachable en dir s \<and> ds_exited s \<and> ds_running s = Some (launch_stack w (desktop_options dir))"
proof -
  let ?i = "desktop_init dir"
  let ?a = "request_shutdown ?i"
  let ?b = "?a\<lparr>ds_waiting := ds_waiting ?a @ [StartStack]\<rparr>"
  let ?c = "?b\<lparr>ds_holder := Some ShutStack, ds_waiting := [StartStack]\<rparr>"
  let ?d = "release (desktop_shutdown en undefined ?c)"
  let ?e = "?d\<lparr>ds_holder := Some StartStack, ds_waiting := []\<rparr>"
  let ?f = "release (snd (desktop_start_stack w ?e))"
  note simps = desktop_init_def request_shutdown_def release_def desktop_shutdown_def
  have a: "desktop_reachable en dir ?a"
    by (rule next_step [OF initial desktop_step.close_asked]) (simp add: simps)
  have b: "desktop_reachable en dir ?b" by (rule next_step [OF a desktop_step.start_asked]) (simp add: simps)
  have c: "desktop_reachable en dir ?c" by (rule next_step [OF b desktop_step.locked]) (simp_all add: simps)
  have d: "desktop_reachable en dir ?d" by (rule next_step [OF c desktop_step.shut]) (simp_all add: simps)
  have e: "desktop_reachable en dir ?e" by (rule next_step [OF d desktop_step.locked]) (simp_all add: simps)
  have f: "desktop_reachable en dir ?f" by (rule next_step [OF e desktop_step.started]) (simp_all add: simps)
  have running: "ds_running ?f = Some (launch_stack w (desktop_options dir))" "\<not> ds_exited ?f" "ds_shutdown_complete ?f"
    using assms by (simp_all add: desktop_start_stack_def simps)
  have "desktop_reachable en dir (?f\<lparr>ds_exited := True\<rparr>)"
    by (rule next_step [OF f desktop_step.exited]) (rule running)+
  with running(1) show ?thesis by (intro exI [of _ "?f\<lparr>ds_exited := True\<rparr>"]) simp
qed

text \<open>
  After a shutdown that panicked in its grace period no request closes the window any more: the window is
  told that it is closing, nothing waits that would complete the shutdown, and the process never ends.
\<close>

theorem panicked_shutdown_stays:
  assumes "(desktop_step en)\<^sup>*\<^sup>* s s'"
    and "ds_closing s" "\<not> ds_shutdown_complete s" "shutdowns s = 0" "\<not> ds_exited s"
  shows "ds_closing s' \<and> \<not> ds_shutdown_complete s' \<and> shutdowns s' = 0 \<and> \<not> ds_exited s'"
  using assms
proof (induction rule: rtranclp_induct)
  case base
  then show ?case by simp
next
  case (step t u)
  then have t: "ds_closing t" "\<not> ds_shutdown_complete t" "shutdowns t = 0" "\<not> ds_exited t" by simp_all
  from step.hyps(2) show ?case
  proof cases
    case close_asked
    with t show ?thesis by (simp add: request_shutdown_def)
  next
    case (locked c cs)
    then have "shutdowns u = shutdowns t" by (simp add: shutdowns_def pending_def)
    with locked t show ?thesis by simp
  next
    case (started w)
    have "shutdowns t = shutdowns u"
      using release_keeps(1) [of "snd (desktop_start_stack w t)" StartStack] started by (simp add: start_keeps)
    with started t show ?thesis by (simp add: release_keeps start_keeps)
  next
    case (shut w)
    with t show ?thesis by (simp add: shutdowns_def pending_def)
  qed (use t in simp_all)
qed

end
