(* ===== verification/Gateway_Payments.thy ===== *)
theory Gateway_Payments
  imports Gateway_Service Admin_Tables
begin

text \<open>
  The payment endpoints of the gateway (\<open>crates/antd_service/src/payments/mod.rs\<close>): what a request does to
  the journal and what it answers. The journal reads the clock once; a failure leaves it as it was.
\<close>

section \<open>Requests and answers\<close>

definition journal_error :: "perror \<Rightarrow> service_error" where
  "journal_error e = payment_failure (perror_text e)"

definition approve_endpoint :: "digest_fn \<Rightarrow> int \<Rightarrow> payment_approval \<Rightarrow> journal \<Rightarrow> json service \<times> journal" where
  "approve_endpoint digest now approval j =
     (case approve digest now approval j of
        Inl e \<Rightarrow> (Inl (journal_error e), j)
      | Inr j' \<Rightarrow> (Inr (JObject [(''quote_id'', JString (pa_quote_id approval)), (''approved'', JBool True)]), j'))"

definition activate_endpoint :: "int \<Rightarrow> payment_lease \<Rightarrow> journal \<Rightarrow> json service \<times> journal" where
  "activate_endpoint now lease j =
     (case activate now lease j of
        Inl e \<Rightarrow> (Inl (journal_error e), j)
      | Inr j' \<Rightarrow> (Inr (JObject [(''active'', JBool True)]), j'))"

definition cancel_unpaid_endpoint :: "int \<Rightarrow> string \<Rightarrow> headers \<Rightarrow> journal \<Rightarrow> json service \<times> journal" where
  "cancel_unpaid_endpoint now approval_id hs j =
     (case lease_header hs of
        Inl e \<Rightarrow> (Inl e, j)
      | Inr lease \<Rightarrow>
          (case cancel_unpaid now approval_id lease j of
             Inl e \<Rightarrow> (Inl (journal_error e), j)
           | Inr (cancelled, j') \<Rightarrow> (Inr (JObject [(''cancelled_unpaid'', JBool cancelled)]), j')))"

text \<open>A stored result is the text of its JSON value; \<open>parse\<close> reads it back.\<close>

definition optional_text :: "string option \<Rightarrow> json" where
  "optional_text s = (case s of None \<Rightarrow> JNull | Some t \<Rightarrow> JString t)"

definition status_endpoint :: "(string \<Rightarrow> json option) \<Rightarrow> string \<Rightarrow> journal \<Rightarrow> json service" where
  "status_endpoint parse upload_id j =
     (case upload_status_of upload_id j of
        Inl e \<Rightarrow> Inl (journal_error e)
      | Inr u \<Rightarrow> Inr (JObject
          [(''upload_id'', JString (us_upload_id u)), (''state'', JString (us_state u)),
           (''transaction_count'', JInt (int (us_transaction_count u))),
           (''result'', (case Option.bind (us_result u) parse of None \<Rightarrow> JNull | Some v \<Rightarrow> v)),
           (''detail'', optional_text (us_detail u)), (''updated_at'', JInt (us_updated_at u))]))"

text \<open>What the client of the admin service makes of the answer to a revocation; any failure counts as no.\<close>

definition revocation_confirmed :: "json service \<Rightarrow> bool" where
  "revocation_confirmed answer =
     (case answer of Inl _ \<Rightarrow> False | Inr v \<Rightarrow> json_get ''cancelled_unpaid'' v = Some (JBool True))"

definition revoke_at_gateway :: "int \<Rightarrow> journal \<Rightarrow> string \<Rightarrow> string \<Rightarrow> json service \<times> journal" where
  "revoke_at_gateway now j key quote_id =
     cancel_unpaid_endpoint now quote_id [(''x-payment-lease'', key)] j"

end
