(* ===== verification/System_Properties.thy ===== *)
theory System_Properties
  imports Job_Properties Journal_Properties Gateway_Payments
begin

text \<open>
  What holds of the services together: the outcome that the admin service records for a failed payment,
  decided by the answer of the gateway, and what the gateway's journal does from then on.
\<close>

section \<open>A new quote never doubles a payment\<close>

lemma confirmed_revocation:
  assumes "revocation_confirmed (fst (revoke_at_gateway now j key quote_id))"
  obtains j' where "cancel_unpaid now quote_id key j = Inr (True, j')"
    "snd (revoke_at_gateway now j key quote_id) = j'"
  using assms
  by (auto simp: revocation_confirmed_def revoke_at_gateway_def cancel_unpaid_endpoint_def lease_header_def
      header_text_def split: sum.splits option.splits if_splits)

lemma video_rows: "videos (db\<lparr>videos := rows, catalog_generation := n\<rparr>) = rows"
  by simp

lemma failed_status:
  assumes "fetch_optional (owned now job) (video_jobs db) = Some r" "needs_approval detail" "paid_kind (lj_kind job)"
    and "job_quote db r = Some q" "fail_finally cancel now job detail db = (Inr u, db')"
    and "v \<in> set (videos db')" "Some (vd_id v) = lj_video_id job" "vd_status v = ''approval_required''"
  shows "cancel (lease_key_of (lj_id job) (lj_lease_owner job) (lj_attempts job)) q"
proof (rule ccontr)
  assume no: "\<not> cancel (lease_key_of (lj_id job) (lj_lease_owner job) (lj_attempts job)) q"
  define w where "w = vd_id v"
  with assms(7) have w: "lj_video_id job = Some w" "vd_id v = w" by simp_all
  from assms(1-5) no w obtain x d where "db' = update_videos (\<lambda>v. vd_id v = w)
      (\<lambda>y. y\<lparr>vd_status := ''payment_recovery_required'', vd_error_message := Some d, vd_updated_at := now\<rparr>) x"
    by (auto simp: fail_finally_def revoke_approval_def failed_video_status_def Let_def split: option.splits)
  from assms(6) [unfolded this] obtain y where "v = (if vd_id y = w
      then y\<lparr>vd_status := ''payment_recovery_required'', vd_error_message := Some d, vd_updated_at := now\<rparr> else y)"
    unfolding update_videos_def by (auto simp only: in_update_where video_rows)
  with assms(8) w(2) show False by (cases "vd_id y = w") simp_all
qed

text \<open>C8. When a paid attempt fails for want of an approval and its video is offered a new quote, the gateway
  has revoked the old approval before anything was paid under it, and whatever it does afterwards, its
  restarts included, it never records a transaction for the old approval: the video is not paid twice.
\<close>

theorem requoted_video_is_not_paid_twice:
  assumes "fetch_optional (owned now job) (video_jobs db) = Some r" "needs_approval detail" "paid_kind (lj_kind job)"
    and "job_quote db r = Some q"
    and "fail_finally (\<lambda>key q. revocation_confirmed (fst (revoke_at_gateway asked (after digest net evs) key q)))
      now job detail db = (Inr u, db')"
    and "v \<in> set (videos db')" "Some (vd_id v) = lj_video_id job" "vd_status v = ''approval_required''"
  shows "list_all (\<lambda>t. tr_approval_id t \<noteq> q) (payment_transactions (run (journal_step digest) evs'
    (snd (revoke_at_gateway asked (after digest net evs)
      (lease_key_of (lj_id job) (lj_lease_owner job) (lj_attempts job)) q))))"
proof -
  from failed_status [OF assms] obtain j' where
    "cancel_unpaid asked q (lease_key_of (lj_id job) (lj_lease_owner job) (lj_attempts job)) (after digest net evs) = Inr (True, j')"
    "snd (revoke_at_gateway asked (after digest net evs)
      (lease_key_of (lj_id job) (lj_lease_owner job) (lj_attempts job)) q) = j'"
    by (rule confirmed_revocation)
  with cancelled_stays_unpaid show ?thesis by metis
qed

text \<open>An attempt whose approval the gateway admitted but never charged.\<close>

definition failing_job :: leased_job where
  "failing_job = Job_Properties.demo_lease\<lparr>lj_id := ''job'', lj_lease_owner := ''w''\<rparr>"

definition failing_db :: admin_db where
  "failing_db = demo_upload_db\<lparr>video_jobs := [demo_upload_job\<lparr>jb_id := ''job'', jb_lease_owner := Some ''w''\<rparr>]\<rparr>"

theorem requoted_video_is_not_paid_twice_witness:
  "list_all (\<lambda>t. tr_approval_id t \<noteq> ''q'') (payment_transactions
     (run (journal_step demo_digest) [(2, Reserve (demo_reservation ''t'' 0 30 20))]
       (snd (revoke_at_gateway 1 (after demo_digest ''net'' demo_admitted) ''job:w:1'' ''q''))))"
proof -
  let ?says = "\<lambda>key q. revocation_confirmed (fst (revoke_at_gateway 1 (after demo_digest ''net'' demo_admitted) key q))"
  have key: "lease_key_of (lj_id failing_job) (lj_lease_owner failing_job) (lj_attempts failing_job) = ''job:w:1''"
    by (simp add: failing_job_def Job_Properties.demo_lease_def demo_key)
  have yes: "?says ''job:w:1'' ''q''"
    by (simp add: revocation_confirmed_def revoke_at_gateway_def cancel_unpaid_endpoint_def lease_header_def
        header_text_def demo_admitted_state cancel_unpaid_def demo_simps cong: rbind_weak_cong)
  define out where "out = fail_finally ?says 1000 failing_job ''approval_required: changed'' failing_db"
  have row: "fetch_optional (owned 1000 failing_job) (video_jobs failing_db) =
      Some (demo_upload_job\<lparr>jb_id := ''job'', jb_lease_owner := Some ''w''\<rparr>)"
    by (simp add: failing_db_def failing_job_def demo_upload_defs fetch_optional_def owned_def lease_live_def)
  have approval: "needs_approval ''approval_required: changed''"
    by (simp add: needs_approval_def str_contains_def)
  have paid: "paid_kind (lj_kind failing_job)" by (simp add: failing_job_def demo_upload_defs paid_kind_def)
  have quote: "job_quote failing_db (demo_upload_job\<lparr>jb_id := ''job'', jb_lease_owner := Some ''w''\<rparr>) = Some ''q''"
    by (simp add: failing_db_def demo_upload_defs job_quote_def fetch_optional_def)
  have revoke: "revoke_approval ?says failing_job ''approval_required: changed''
      (demo_upload_job\<lparr>jb_id := ''job'', jb_lease_owner := Some ''w''\<rparr>) failing_db =
      (False, cancelled_prefix @ ''approval_required: changed'')"
    using yes by (simp add: revoke_approval_def approval paid quote key Let_def)
  have video: "fetch_optional (\<lambda>v. vd_id v = ''v'') [demo_video] = Some demo_video"
    "lj_video_id failing_job = Some ''v''" "videos failing_db = [demo_video]" "vd_id demo_video = ''v''"
    by (simp_all add: failing_db_def failing_job_def demo_upload_defs fetch_optional_def)
  have outcome: "fst out = Inr ()"
    and vs: "videos (snd out) = [demo_video\<lparr>vd_status := ''approval_required'',
      vd_error_message := Some (cancelled_prefix @ ''approval_required: changed''), vd_updated_at := 1000\<rparr>]"
    unfolding out_def fail_finally_def row
    by (simp_all add: revoke video approval paid failed_video_status_def update_videos_def update_where_def Let_def)
  from outcome have result: "out = (Inr (), snd out)" by (cases out) simp
  show ?thesis
    using requoted_video_is_not_paid_twice [OF row approval paid quote result [unfolded out_def], of
      "demo_video\<lparr>vd_status := ''approval_required'',
        vd_error_message := Some (cancelled_prefix @ ''approval_required: changed''), vd_updated_at := 1000\<rparr>"
      "[(2, Reserve (demo_reservation ''t'' 0 30 20))]"]
    by (simp add: vs [unfolded out_def] video key)
qed

end
