(* ===== verification/Client_Properties.thy ===== *)
theory Client_Properties
  imports Service_Clients
begin

text \<open>
  The properties of the gateway client: the breaker's counters are a function of what it was told, no
  request leaves while the circuit is open, retry loops end and return the first final answer, and a
  response never exceeds its limit.
\<close>

section \<open>The breaker as a function of its history\<close>

definition failed_again :: "unit answer \<Rightarrow> bool" where
  "failed_again r \<longleftrightarrow> (case r of Inl e \<Rightarrow> is_retryable_antd_error e | Inr _ \<Rightarrow> False)"

text \<open>The newest event comes first: the retryable failures at the head, and the last one of them that
  completed five, unless a success followed.\<close>

fun newest_streak :: "history \<Rightarrow> nat" where
  "newest_streak [] = 0"
| "newest_streak ((t, r) # h) = (if failed_again r then newest_streak h + 1 else 0)"

fun newest_opening :: "history \<Rightarrow> nat option" where
  "newest_opening [] = None"
| "newest_opening ((t, r) # h) =
     (if is_ok r then None
      else if failed_again r \<and> 5 \<le> newest_streak ((t, r) # h) then Some t
      else newest_opening h)"

definition streak :: "history \<Rightarrow> nat" where "streak h = newest_streak (rev h)"
definition last_opening :: "history \<Rightarrow> nat option" where "last_opening h = newest_opening (rev h)"

text \<open>The error that the most recent report was, when it was one that a retry may cure.\<close>

definition latest_trouble :: "history \<Rightarrow> client_error option" where
  "latest_trouble h =
     (case rev h of
        (_, Inl e) # _ \<Rightarrow> if is_retryable_antd_error e then Some e else None
      | _ \<Rightarrow> None)"

lemma latest_trouble_snoc:
  "latest_trouble (h @ [(t, Inl e)]) = (if is_retryable_antd_error e then Some e else None)"
  "latest_trouble (h @ [(t, Inr u)]) = None"
  by (simp_all add: latest_trouble_def)

text \<open>A request may leave at a time unless a streak opened the circuit less than 30 seconds before.\<close>

definition allowed :: "history \<Rightarrow> nat \<Rightarrow> bool" where
  "allowed h now \<longleftrightarrow> (case last_opening h of None \<Rightarrow> True | Some t \<Rightarrow> saturating_u64 (t + 30000) \<le> now)"

definition told :: "(nat \<Rightarrow> string) \<Rightarrow> history \<Rightarrow> circuit_breaker" where
  "told show_status h = fold (\<lambda>(t, r). record_result show_status t r) h new_breaker"

lemma told_snoc: "told show_status (h @ [(t, r)]) = record_result show_status t r (told show_status h)"
  by (simp add: told_def)

lemma streak_snoc: "streak (h @ [(t, r)]) = (if failed_again r then streak h + 1 else 0)"
  by (simp add: streak_def)

lemma last_opening_snoc:
  "last_opening (h @ [(t, r)]) =
     (if is_ok r then None else if failed_again r \<and> 4 \<le> streak h then Some t else last_opening h)"
  by (simp add: last_opening_def streak_def)

lemma last_opening_Some_bound: "last_opening h = Some t \<Longrightarrow> 0 < saturating_u64 (t + 30000)"
  by (simp add: saturating_u64_def)

lemma breaker_counts:
  "consecutive_failures (told show_status h) = streak h"
  "opened_until_epoch_ms (told show_status h) =
     (case last_opening h of None \<Rightarrow> 0 | Some t \<Rightarrow> saturating_u64 (t + 30000))"
  "last_retryable_error (told show_status h) = map_option (client_error_text show_status) (latest_trouble h)"
proof -
  have "consecutive_failures (told show_status h) = streak h \<and>
     opened_until_epoch_ms (told show_status h) =
       (case last_opening h of None \<Rightarrow> 0 | Some t \<Rightarrow> saturating_u64 (t + 30000)) \<and>
     last_retryable_error (told show_status h) = map_option (client_error_text show_status) (latest_trouble h)"
  proof (induction h rule: rev_induct)
    case Nil
    show ?case by (simp add: told_def new_breaker_def streak_def last_opening_def latest_trouble_def)
  next
    case (snoc event h)
    obtain t r where event: "event = (t, r)" by fastforce
    show ?case
    proof (cases r)
      case (Inl e)
      with snoc event show ?thesis
        by (auto simp: told_snoc streak_snoc last_opening_snoc latest_trouble_snoc record_result_def failed_again_def
            failure_threshold_def open_duration_def Let_def)
    next
      case (Inr u)
      then show ?thesis
        by (simp add: event told_snoc streak_snoc last_opening_snoc latest_trouble_snoc record_result_def failed_again_def)
    qed
  qed
  then show "consecutive_failures (told show_status h) = streak h"
    "opened_until_epoch_ms (told show_status h) =
       (case last_opening h of None \<Rightarrow> 0 | Some t \<Rightarrow> saturating_u64 (t + 30000))"
    "last_retryable_error (told show_status h) = map_option (client_error_text show_status) (latest_trouble h)"
    by simp_all
qed

lemma circuit_check_allowed: "circuit_check now (told show_status h) = Inr () \<longleftrightarrow> allowed h now"
  by (auto simp: circuit_check_def allowed_def breaker_counts not_le split: option.splits)

text \<open>C23. The breaker's counters are exactly what the history of reported results says: the retryable
  failures in a row, the text of the most recent report when that is a retryable failure and none
  otherwise, and 30 seconds after the failure that last completed five in a row with no success since.
  A call is let through exactly when that time has passed, and a refusal names the milliseconds that
  are left and the text of that failure.\<close>

theorem breaker_refines_history:
  "consecutive_failures (told show_status h) = streak h \<and>
   opened_until_epoch_ms (told show_status h) =
     (case last_opening h of None \<Rightarrow> 0 | Some t \<Rightarrow> saturating_u64 (t + 30000)) \<and>
   last_retryable_error (told show_status h) = map_option (client_error_text show_status) (latest_trouble h) \<and>
   (last_retryable_error (told show_status h) = None \<longleftrightarrow> streak h = 0) \<and>
   circuit_check now (told show_status h) =
     (if allowed h now then Inr ()
      else Inl (Message (''Autonomi request circuit is open for '' @
        show_nat ((case last_opening h of None \<Rightarrow> 0 | Some t \<Rightarrow> saturating_u64 (t + 30000)) - now) @ ''ms'' @
        (case latest_trouble h of None \<Rightarrow> []
         | Some e \<Rightarrow> ''; last retryable error: '' @ client_error_text show_status e))))"
proof -
  have "latest_trouble h = None \<longleftrightarrow> streak h = 0"
    by (cases h rule: rev_cases)
      (auto simp: latest_trouble_def streak_def failed_again_def split: sum.splits prod.splits)
  moreover have "circuit_check now (told show_status h) =
     (if allowed h now then Inr ()
      else Inl (Message (''Autonomi request circuit is open for '' @
        show_nat (opened_until_epoch_ms (told show_status h) - now) @ ''ms'' @
        (case last_retryable_error (told show_status h) of None \<Rightarrow> []
         | Some e \<Rightarrow> ''; last retryable error: '' @ e))))"
    using circuit_check_allowed [of now show_status h] by (simp add: circuit_check_def split: if_splits)
  ultimately show ?thesis by (simp add: breaker_counts option.case_eq_if option.map_sel)
qed

section \<open>What every call keeps\<close>

definition sent_allowed :: "net \<Rightarrow> bool" where
  "sent_allowed s \<longleftrightarrow>
     list_all (\<lambda>q. sn_after q \<le> length (nt_history s) \<and> allowed (take (sn_after q) (nt_history s)) (sn_at q)) (nt_sent s)"

definition net_ok :: "world \<Rightarrow> net \<Rightarrow> bool" where
  "net_ok w s \<longleftrightarrow> nt_breaker s = told (wd_show_status w) (nt_history s) \<and> sent_allowed s"

definition new_net :: net where
  "new_net = \<lparr>nt_breaker = new_breaker, nt_history = [], nt_sent = [], nt_calls = 0, nt_recorded = [],
     nt_upload_retries = 0, nt_slept = []\<rparr>"

text \<open>The value of a result leaves no trace in the net.\<close>

lemma snd_exchange:
  "snd (exchange w body_opened q metric interpret s) =
     snd (exchange w body_opened q metric
       (\<lambda>_. map_sum id (\<lambda>_. ()) (interpret (ha_response (wd_answer w (nt_calls s))))) s)"
  by (cases "interpret (ha_response (wd_answer w (nt_calls s)))") (simp_all add: exchange_def Let_def split: sum.split)

text \<open>
  An invariant of the net that single exchanges keep and that does not look at the counters is kept by
  everything the clients do.
\<close>

locale net_invariant =
  fixes w :: world and P :: "net \<Rightarrow> bool"
  assumes single_kept: "P s \<Longrightarrow> P (snd (exchange w body_opened q metric (\<lambda>_. r :: unit answer) s))"
    and counters_kept: "P s \<Longrightarrow> P (s\<lparr>nt_slept := ds\<rparr>)" "P s \<Longrightarrow> P (s\<lparr>nt_upload_retries := n\<rparr>)"
begin

lemma exchange_kept: "P s \<Longrightarrow> P (snd (exchange w body_opened q metric interpret s))"
  by (subst snd_exchange) (rule single_kept)

lemma json_kept: "P s \<Longrightarrow> P (snd (request_json w client decode m path body s))"
  by (simp add: request_json_def exchange_kept)

lemma bytes_kept: "P s \<Longrightarrow> P (snd (get_bytes_once w client path s))"
  by (simp add: get_bytes_once_def exchange_kept)

lemma send_kept: "P s \<Longrightarrow> P (snd (send_file w client decode content mode verify sha endpoint s))"
  by (simp add: send_file_def exchange_kept)

lemma sleep_kept: "P s \<Longrightarrow> P (sleep d s)"
  by (simp add: sleep_def counters_kept)

lemma retry_pause_kept: "P s \<Longrightarrow> P (retry_pause w base attempt s)"
  by (simp add: retry_pause_def sleep_kept)

lemma upload_pause_kept: "P s \<Longrightarrow> P (upload_pause w attempt s)"
  by (simp add: upload_pause_def sleep_kept counters_kept)

lemma estimate_pause_kept: "P s \<Longrightarrow> P (estimate_pause w attempt s)"
  by (simp add: estimate_pause_def sleep_kept counters_kept)

lemma retry_kept:
  assumes "\<And>s. P s \<Longrightarrow> P (snd (once s))" "\<And>n s. P s \<Longrightarrow> P (pause n s)"
  shows "P s \<Longrightarrow> P (snd (retry_from attempts once pause exhausted ns s))"
proof (induction ns arbitrary: s)
  case (Cons n ns)
  show ?case using Cons.IH [of "pause n (snd (once s))"] assms Cons.prems
    by (auto split: prod.split sum.split) (metis snd_conv)+
qed simp

lemma estimate_kept:
  assumes "\<And>s. P s \<Longrightarrow> P (snd (once s))"
  shows "P s \<Longrightarrow> P (snd (estimate_from w sample once last_error ns s))"
proof (induction ns arbitrary: s last_error)
  case (Cons n ns)
  then have "P (snd (once s))" using assms by simp
  with Cons show ?case using estimate_pause_kept by (auto split: prod.split sum.split)
qed simp

lemma json_retry_kept: "P s \<Longrightarrow> P (snd (get_json_retry w client decode path attempts base s))"
  unfolding get_json_retry_def by (rule retry_kept [OF json_kept retry_pause_kept])

lemma bytes_retry_kept: "P s \<Longrightarrow> P (snd (get_bytes_retry w client path attempts base s))"
  unfolding get_bytes_retry_def by (rule retry_kept [OF bytes_kept retry_pause_kept])

lemma put_kept: "P s \<Longrightarrow> P (snd (file_put_public w client decode hashed content mode verify retries s))"
  by (auto simp: file_put_public_def Let_def retry_kept [OF send_kept upload_pause_kept] split: sum.split)

lemma file_cost_kept: "P s \<Longrightarrow> P (snd (file_cost w client decode hashed content mode s))"
  by (auto simp: file_cost_def send_kept split: sum.split)

lemma size_cost_kept: "P s \<Longrightarrow> P (snd (data_cost_for_size w client decode sample n s))"
  by (auto simp: data_cost_for_size_def Let_def estimate_kept [OF json_kept])

lemma stream_fetch_kept:
  assumes "P s"
  shows "P (snd (data_get_public w client decode decode64 address s))"
proof -
  obtain r s' where raw: "data_get_public_raw w client address s = (r, s')" by fastforce
  moreover have "P (snd (data_get_public_raw w client address s))"
    using assms by (simp add: data_get_public_raw_def bytes_retry_kept)
  ultimately have "P s'" by simp
  then show ?thesis
    using json_retry_kept [of s' client decode] raw
    by (cases r) (auto simp: data_get_public_def data_get_public_json_def case_prod_beta)
qed

lemmas calls_kept = json_kept json_retry_kept bytes_retry_kept put_kept file_cost_kept size_cost_kept stream_fetch_kept

end

section \<open>Runs of a client\<close>

datatype client_op =
    JsonCall string string "string option"
  | JsonRetry string nat nat
  | BytesRetry string nat nat
  | PutFile "(u64 \<times> string) answer" "string answer" string bool nat
  | CostOfFile "(u64 \<times> string) answer" "string answer" string
  | CostOfSize nat
  | StreamFetch string
  | OtherReport "nat \<times> unit answer"

text \<open>The decoders and the text of a sample stand for any.\<close>

record codecs =
  co_json :: "string \<Rightarrow> string + string"
  co_base64 :: "string \<Rightarrow> string + string"
  co_sample :: "nat \<Rightarrow> string"

fun client_step :: "world \<Rightarrow> codecs \<Rightarrow> antd_client \<times> client_op \<Rightarrow> net \<Rightarrow> net" where
  "client_step w co (client, JsonCall m path body) s = snd (request_json w client (co_json co) m path body s)"
| "client_step w co (client, JsonRetry path attempts base) s =
     snd (get_json_retry w client (co_json co) path attempts base s)"
| "client_step w co (client, BytesRetry path attempts base) s = snd (get_bytes_retry w client path attempts base s)"
| "client_step w co (client, PutFile hashed content mode verify retries) s =
     snd (file_put_public w client (co_json co) hashed content mode verify retries s)"
| "client_step w co (client, CostOfFile hashed content mode) s =
     snd (file_cost w client (co_json co) hashed content mode s)"
| "client_step w co (client, CostOfSize n) s = snd (data_cost_for_size w client (co_json co) (co_sample co) n s)"
| "client_step w co (client, StreamFetch address) s =
     snd (data_get_public w client (co_json co) (co_base64 co) address s)"
| "client_step w co (client, OtherReport event) s = report w event s"

lemma net_ok_report: "net_ok w s \<Longrightarrow> net_ok w (report w event s)"
  by (cases event) (auto simp: net_ok_def sent_allowed_def report_def told_snoc list_all_iff)

lemma net_ok_reports: "net_ok w s \<Longrightarrow> net_ok w (fold (report w) events s)"
  by (induction events arbitrary: s) (simp_all add: net_ok_report)

lemma net_ok_exchange: "net_ok w s \<Longrightarrow> net_ok w (snd (exchange w body_opened q metric interpret s))"
proof -
  assume ok: "net_ok w s"
  define a where "a = wd_answer w (nt_calls s)"
  show ?thesis
  proof (cases "rbind (circuit_check (ha_check_at a) (nt_breaker s)) (\<lambda>_. body_opened)")
    case (Inl e)
    with ok show ?thesis by (simp add: exchange_def Let_def a_def [symmetric] net_ok_def sent_allowed_def)
  next
    case (Inr u)
    then have "circuit_check (ha_check_at a) (nt_breaker s) = Inr ()" by simp
    then have "allowed (nt_history s) (ha_check_at a)"
      using ok circuit_check_allowed by (auto simp: net_ok_def)
    with ok have "net_ok w (s\<lparr>nt_calls := nt_calls s + 1, nt_sent := nt_sent s @
        [\<lparr>sn_request = q, sn_at = ha_check_at a, sn_after = length (nt_history s)\<rparr>]\<rparr>)"
      by (simp add: net_ok_def sent_allowed_def)
    from net_ok_report [OF net_ok_reports [OF this]] Inr show ?thesis
      by (simp add: exchange_def Let_def a_def [symmetric] net_ok_def sent_allowed_def)
  qed
qed

interpretation honest_net: net_invariant w "net_ok w" for w
  by unfold_locales (auto simp: net_ok_exchange, simp_all add: net_ok_def sent_allowed_def)

lemma net_ok_step: "net_ok w s \<Longrightarrow> net_ok w (client_step w co op s)"
  by (cases "(w, co, op, s)" rule: client_step.cases) (simp_all add: net_ok_report honest_net.calls_kept)

interpretation client: guarded_system "client_step w co" "net_ok w" for w co
  by unfold_locales (rule net_ok_step)

text \<open>In every run of the services' calls, whatever the network answers and other clients report, no
  request leaves while the circuit is open: at the time of its check, the history reported so far had
  no failure that completed five in a row within the last 30 seconds without a success since.\<close>

theorem open_circuit_sends_nothing:
  "list_all (\<lambda>q. allowed (take (sn_after q) (nt_history (run (client_step w co) ops new_net))) (sn_at q))
     (nt_sent (run (client_step w co) ops new_net))"
proof -
  have "net_ok w new_net" by (simp add: net_ok_def sent_allowed_def new_net_def told_def)
  from client.run_inv [OF this, of co ops] show ?thesis by (simp add: net_ok_def sent_allowed_def list_all_iff)
qed

section \<open>Retries end\<close>

text \<open>The state before an attempt, when every earlier one failed.\<close>

fun before_attempt :: "'a call \<Rightarrow> (nat \<Rightarrow> net \<Rightarrow> net) \<Rightarrow> nat \<Rightarrow> net \<Rightarrow> net" where
  "before_attempt once pause 0 s = s"
| "before_attempt once pause (Suc n) s = pause (n + 1) (snd (once (before_attempt once pause n s)))"

definition worth_retrying :: "'a answer \<Rightarrow> bool" where
  "worth_retrying r \<longleftrightarrow> (case r of Inl e \<Rightarrow> is_retryable_antd_error e | Inr _ \<Rightarrow> False)"

lemma retry_from_at:
  assumes "n < attempts" "\<forall>i<n. worth_retrying (fst (once (before_attempt once pause i s)))"
  shows "\<exists>k<attempts. retry_from attempts once pause exhausted [n + 1..<attempts + 1] (before_attempt once pause n s) =
      once (before_attempt once pause k s) \<and>
    (\<forall>i<k. worth_retrying (fst (once (before_attempt once pause i s)))) \<and>
    (k + 1 = attempts \<or> \<not> worth_retrying (fst (once (before_attempt once pause k s))))"
  using assms
proof (induction "attempts - n" arbitrary: n)
  case (Suc d)
  let ?r = "once (before_attempt once pause n s)"
  have list: "[n + 1..<attempts + 1] = (n + 1) # [Suc n + 1..<attempts + 1]" using Suc.prems(1) by (simp add: upt_rec)
  show ?case
  proof (cases "n + 1 < attempts \<and> worth_retrying (fst ?r)")
    case True
    then have next_attempt: "retry_from attempts once pause exhausted [n + 1..<attempts + 1] (before_attempt once pause n s) =
        retry_from attempts once pause exhausted [Suc n + 1..<attempts + 1] (before_attempt once pause (Suc n) s)"
      unfolding list by (cases ?r) (auto simp: worth_retrying_def split: sum.splits)
    have "d = attempts - Suc n" "Suc n < attempts" using Suc.hyps(2) True by simp_all
    moreover have "\<forall>i<Suc n. worth_retrying (fst (once (before_attempt once pause i s)))"
      using Suc.prems(2) True less_Suc_eq by auto
    ultimately show ?thesis unfolding next_attempt by (rule Suc.hyps(1))
  next
    case False
    then have "retry_from attempts once pause exhausted [n + 1..<attempts + 1] (before_attempt once pause n s) = ?r"
      unfolding list by (cases ?r) (auto simp: worth_retrying_def split: sum.splits)
    moreover have "n + 1 = attempts \<or> \<not> worth_retrying (fst ?r)" using False Suc.prems(1) by auto
    ultimately show ?thesis using Suc.prems by blast
  qed
qed simp

text \<open>What a retried call counts: one call an attempt, one delay between two attempts.\<close>

definition counts_once :: "'a call \<Rightarrow> bool" where
  "counts_once once \<longleftrightarrow> (\<forall>s. nt_calls (snd (once s)) = nt_calls s + 1 \<and> nt_slept (snd (once s)) = nt_slept s)"

definition pauses_once :: "(nat \<Rightarrow> net \<Rightarrow> net) \<Rightarrow> bool" where
  "pauses_once pause \<longleftrightarrow>
     (\<forall>n s. nt_calls (pause n s) = nt_calls s \<and> length (nt_slept (pause n s)) = length (nt_slept s) + 1)"

definition ends_after :: "'a call \<Rightarrow> (nat \<Rightarrow> net \<Rightarrow> net) \<Rightarrow> nat \<Rightarrow> net \<Rightarrow> 'a answer \<times> net \<Rightarrow> nat \<Rightarrow> bool" where
  "ends_after once pause attempts s outcome k \<longleftrightarrow>
     k < attempts \<and> outcome = once (before_attempt once pause k s) \<and>
     (\<forall>i<k. worth_retrying (fst (once (before_attempt once pause i s)))) \<and>
     (k + 1 = attempts \<or> \<not> worth_retrying (fst outcome)) \<and>
     nt_calls (snd outcome) = nt_calls s + k + 1 \<and> length (nt_slept (snd outcome)) = length (nt_slept s) + k"

lemma before_attempt_counts:
  assumes "counts_once once" "pauses_once pause"
  shows "nt_calls (before_attempt once pause n s) = nt_calls s + n \<and>
    length (nt_slept (before_attempt once pause n s)) = length (nt_slept s) + n"
  using assms by (induction n) (simp_all add: counts_once_def pauses_once_def)

lemma retry_ends:
  assumes "0 < attempts" "counts_once once" "pauses_once pause"
  shows "\<exists>k. ends_after once pause attempts s (retry_from attempts once pause exhausted [1..<attempts + 1] s) k"
proof -
  obtain k where k: "k < attempts"
    "retry_from attempts once pause exhausted [1..<attempts + 1] s = once (before_attempt once pause k s)"
    "\<forall>i<k. worth_retrying (fst (once (before_attempt once pause i s)))"
    "k + 1 = attempts \<or> \<not> worth_retrying (fst (once (before_attempt once pause k s)))"
    using retry_from_at [of 0 attempts once pause s exhausted] assms(1) by auto
  with before_attempt_counts [OF assms(2,3), of k s] assms(2) show ?thesis
    unfolding ends_after_def k(2) by (intro exI [of _ k]) (simp add: counts_once_def)
qed

lemma reports_count: "nt_calls (fold (report w) events s) = nt_calls s \<and> nt_slept (fold (report w) events s) = nt_slept s"
  by (induction events arbitrary: s) (simp_all add: report_def)

lemma exchange_counts: "counts_once (exchange w body_opened q metric interpret)"
  by (auto simp: counts_once_def exchange_def Let_def reports_count report_def split: sum.split)

lemma calls_count: "counts_once (request_json w client decode m path body)" "counts_once (get_bytes_once w client path)"
  "counts_once (send_file w client decode content mode verify sha endpoint)"
  using exchange_counts by (simp_all add: counts_once_def request_json_def get_bytes_once_def send_file_def)

lemma pauses_count: "pauses_once (retry_pause w base)" "pauses_once (upload_pause w)" "pauses_once (estimate_pause w)"
  by (simp_all add: pauses_once_def retry_pause_def upload_pause_def estimate_pause_def sleep_def)

text \<open>The loop of the size-only estimate is the loop of the other requests, with its errors renamed.\<close>

definition renamed_error :: "world \<Rightarrow> nat \<Rightarrow> client_error \<Rightarrow> client_error" where
  "renamed_error w quote_size e = estimate_failed quote_size ('': '' @ client_error_text (wd_show_status w) e)"

lemma estimate_retries:
  assumes "n < cost_estimate_attempts"
  shows "estimate_from w quote_size once last_error [n + 1..<cost_estimate_attempts + 1] s =
    map_prod (map_sum (renamed_error w quote_size) (\<lambda>v. v)) (\<lambda>s. s)
      (retry_from cost_estimate_attempts once (estimate_pause w) exhausted [n + 1..<cost_estimate_attempts + 1] s)"
  using assms
proof (induction "cost_estimate_attempts - n" arbitrary: n last_error s)
  case (Suc d)
  have list: "[n + 1..<cost_estimate_attempts + 1] = (n + 1) # [Suc n + 1..<cost_estimate_attempts + 1]"
    using Suc.prems by (simp add: upt_rec)
  show ?case
  proof (cases "n + 1 < cost_estimate_attempts")
    case True
    moreover from True Suc.hyps(2) have "d = cost_estimate_attempts - Suc n" by simp
    ultimately show ?thesis unfolding list
      using Suc.hyps(1) [of "Suc n"] by (auto simp: renamed_error_def split: prod.split sum.split)
  next
    case False
    then have "[Suc n + 1..<cost_estimate_attempts + 1] = []" by simp
    with False show ?thesis unfolding list
      by (auto simp: renamed_error_def split: prod.split sum.split)
  qed
qed simp

text \<open>C36. The retry loops of the gateway clients end. With at least one configured attempt, a fetch of
  JSON or of bytes returns the outcome of the first attempt that succeeds or fails for a reason not worth
  a retry, and of the last attempt otherwise, with one delay between two attempts; so does an upload,
  which is attempted at least once whatever is configured, and the size-only estimate of the admin
  service, which is attempted at most five times and reports an error under its own name, or which is
  refused without a request when its sample exceeds 16 MiB.\<close>

theorem retries_end:
  assumes "0 < attempts"
  shows "(\<exists>k. ends_after (request_json w client decode ''GET'' path None) (retry_pause w base) attempts s
      (get_json_retry w client decode path attempts base s) k) \<and>
    (\<exists>k. ends_after (get_bytes_once w client path) (retry_pause w base) attempts s
      (get_bytes_retry w client path attempts base s) k) \<and>
    (\<exists>k. ends_after (send_file w client decode' content mode verify sha ''/v1/file/public'') (upload_pause w)
      (max retries 1) s (file_put_public w client decode' (Inr (len, sha)) content mode verify retries s) k) \<and>
    (if max byte_size min_self_encryption_bytes > 16 * mib
     then data_cost_for_size w client decode'' sample byte_size s =
       (Inl (Message ''preliminary quote sample exceeds 16 MiB''), s)
     else \<exists>k r s'. ends_after
         (request_json w client decode'' ''POST'' ''/v1/data/cost'' (Some (sample (max byte_size min_self_encryption_bytes))))
         (estimate_pause w) 5 s (r, s') k \<and>
       data_cost_for_size w client decode'' sample byte_size s =
         (map_sum (renamed_error w (max byte_size min_self_encryption_bytes)) (\<lambda>v. v) r, s'))"
proof -
  let ?n = "max byte_size min_self_encryption_bytes"
  let ?once = "request_json w client decode'' ''POST'' ''/v1/data/cost'' (Some (sample ?n))"
  have "\<exists>k r s'. ends_after ?once (estimate_pause w) 5 s (r, s') k \<and>
      data_cost_for_size w client decode'' sample byte_size s = (map_sum (renamed_error w ?n) (\<lambda>v. v) r, s')"
    if "\<not> ?n > 16 * mib"
  proof -
    let ?loop = "retry_from cost_estimate_attempts ?once (estimate_pause w) (Message []) [1..<cost_estimate_attempts + 1] s"
    have "0 < cost_estimate_attempts" by (simp add: cost_estimate_attempts_def)
    from retry_ends [OF this calls_count(1) pauses_count(3)]
    obtain k where "ends_after ?once (estimate_pause w) cost_estimate_attempts s ?loop k" by blast
    then have "ends_after ?once (estimate_pause w) 5 s (fst ?loop, snd ?loop) k" by (simp add: cost_estimate_attempts_def)
    moreover have "data_cost_for_size w client decode'' sample byte_size s =
        (map_sum (renamed_error w ?n) (\<lambda>v. v) (fst ?loop), snd ?loop)"
      using that estimate_retries [of 0 w ?n ?once None s "Message []"]
      by (simp add: data_cost_for_size_def cost_estimate_attempts_def Let_def map_prod_def split_beta)
    ultimately show ?thesis by blast
  qed
  moreover have "data_cost_for_size w client decode'' sample byte_size s =
      (Inl (Message ''preliminary quote sample exceeds 16 MiB''), s)" if "?n > 16 * mib"
    using that by (simp add: data_cost_for_size_def Let_def)
  moreover have "\<exists>k. ends_after (request_json w client decode ''GET'' path None) (retry_pause w base) attempts s
      (get_json_retry w client decode path attempts base s) k"
    unfolding get_json_retry_def by (rule retry_ends [OF assms calls_count(1) pauses_count(1)])
  moreover have "\<exists>k. ends_after (get_bytes_once w client path) (retry_pause w base) attempts s
      (get_bytes_retry w client path attempts base s) k"
    unfolding get_bytes_retry_def by (rule retry_ends [OF assms calls_count(2) pauses_count(1)])
  moreover have "\<exists>k. ends_after (send_file w client decode' content mode verify sha ''/v1/file/public'') (upload_pause w)
      (max retries 1) s (file_put_public w client decode' (Inr (len, sha)) content mode verify retries s) k"
    unfolding file_put_public_def Let_def sum.case prod.case
    by (rule retry_ends [OF _ calls_count(3) pauses_count(2)]) simp
  ultimately show ?thesis by (simp only: if_split) blast
qed

definition demo_world :: world where
  "demo_world = \<lparr>wd_answer = (\<lambda>n. \<lparr>ha_check_at = n,
       ha_response = Inr \<lparr>hr_status = (if n = 0 then 503 else 200), hr_content_length = None, hr_chunks = [''ok''],
         hr_broken = None\<rparr>, ha_others = [], ha_record_at = n\<rparr>),
     wd_factor = (\<lambda>_. Fin 1), wd_show_status = show_nat\<rparr>"

theorem retries_end_witness:
  "fst (get_bytes_retry demo_world (new_client ''http://gateway/'' None) ''/health'' 3 250 new_net) = Inr ''ok'' \<and>
   (\<exists>k. ends_after (get_bytes_once demo_world (new_client ''http://gateway/'' None) ''/health'') (retry_pause demo_world 250) 3
      new_net (get_bytes_retry demo_world (new_client ''http://gateway/'' None) ''/health'' 3 250 new_net) k)"
proof
  show "fst (get_bytes_retry demo_world (new_client ''http://gateway/'' None) ''/health'' 3 250 new_net) = Inr ''ok''"
  proof -
    have "[1..<3 + 1] = [1, 2, 3 :: nat]" by (simp add: upt_rec)
    then show ?thesis
      by (simp add: get_bytes_retry_def get_bytes_once_def exchange_def demo_world_def new_net_def new_breaker_def Let_def
          circuit_check_def bytes_answer_def read_response_limited_def is_success_def mib_def report_def record_result_def
          failure_threshold_def retry_pause_def sleep_def del: upt_Suc)
  qed
qed (rule retries_end [THEN conjunct2, THEN conjunct1], simp)

section \<open>Responses are bounded\<close>

lemma read_chunks_Inr:
  "length received \<le> limit \<Longrightarrow>
   read_chunks limit received cs broken = Inr body \<longleftrightarrow>
     broken = None \<and> body = received @ concat cs \<and> length body \<le> limit"
proof (induction limit received cs broken rule: read_chunks.induct)
  case (2 limit received c cs broken)
  then show ?case by (cases "length c > limit - length received") auto
qed (auto split: option.split)

definition bounded_response :: "nat \<Rightarrow> http_response \<Rightarrow> bool" where
  "bounded_response limit r \<longleftrightarrow>
     hr_broken r = None \<and> length (concat (hr_chunks r)) \<le> limit \<and>
     (case hr_content_length r of None \<Rightarrow> True | Some n \<Rightarrow> n \<le> limit)"

lemma read_response_Inr: "read_response_limited limit r = Inr body \<longleftrightarrow> bounded_response limit r \<and> body = concat (hr_chunks r)"
  by (auto simp: read_response_limited_def read_chunks_Inr bounded_response_def split: option.split)

text \<open>A response is accepted exactly when it arrived whole and neither its advertised nor its actual
  length exceeds the limit, and then its chunks in order are the result; so a segment or a JSON document
  of more than 32 MiB is never accepted, whatever the gateway advertises.\<close>

theorem response_is_bounded:
  "(read_response_limited limit r = Inr body \<longleftrightarrow> bounded_response limit r \<and> body = concat (hr_chunks r)) \<and>
   (bytes_answer path (Inr r) = Inr body \<longleftrightarrow>
     is_success (hr_status r) \<and> bounded_response (32 * mib) r \<and> body = concat (hr_chunks r)) \<and>
   (json_answer decode m path (Inr r) = Inr v \<longleftrightarrow>
     is_success (hr_status r) \<and> bounded_response (32 * mib) r \<and> valid_utf8 (concat (hr_chunks r)) \<and>
     decode (concat (hr_chunks r)) = Inr v)"
  by (auto simp: read_response_Inr bytes_answer_def json_answer_def split: if_splits sum.splits)

end
