(* ===== verification/Auth_Properties.thy ===== *)
theory Auth_Properties
  imports Admin_Auth
begin

text \<open>
  The properties of authentication: a refresh token works once, sessions come from logins only, no
  request changes anything without an admin's token and a CSRF token, and cookies are read back as sent.
\<close>

section \<open>Runs of the sessions\<close>

datatype auth_op =
    LoginOp string string fresh_values
  | RefreshOp headers fresh_values
  | LogoutOp headers

fun auth_step :: "auth_env \<Rightarrow> int \<times> auth_op \<Rightarrow> sessions \<Rightarrow> sessions" where
  "auth_step env (now, LoginOp username password fresh) s = snd (login env now fresh username password s)"
| "auth_step env (now, RefreshOp hs fresh) s = snd (refresh env now fresh hs s)"
| "auth_step env (now, LogoutOp hs) s = snd (logout env now hs s)"

definition live :: "refresh_session \<Rightarrow> bool" where
  "live r \<longleftrightarrow> rf_revoked_at r = None"

text \<open>A session keeps its identity, and once revoked it stays revoked.\<close>

definition session_kept :: "refresh_session \<Rightarrow> refresh_session \<Rightarrow> bool" where
  "session_kept r r' \<longleftrightarrow> rf_id r' = rf_id r \<and> rf_token_hash r' = rf_token_hash r \<and> (live r' \<longrightarrow> live r)"

definition sessions_ok :: "sessions \<Rightarrow> bool" where
  "sessions_ok s \<longleftrightarrow> distinct (map rf_id s) \<and> distinct (map rf_token_hash s)"

abbreviation later :: "sessions \<Rightarrow> sessions \<Rightarrow> bool" where
  "later \<equiv> kept session_kept"

lemma session_kept_refl: "session_kept r r"
  by (simp add: session_kept_def)

lemma session_kept_trans: "session_kept r r' \<Longrightarrow> session_kept r' r'' \<Longrightarrow> session_kept r r''"
  by (simp add: session_kept_def)

lemma later_refl: "later s s"
  by (rule kept_refl) (rule session_kept_refl)

lemma later_append: "later s (s @ t)"
  by (rule kept_append) (rule session_kept_refl)

lemma later_update: "(\<And>r. P r \<Longrightarrow> session_kept r (f r)) \<Longrightarrow> later s (update_where P f s)"
  by (rule kept_update) (rule session_kept_refl)

lemma later_trans: "later s t \<Longrightarrow> later t u \<Longrightarrow> later s u"
  by (rule kept_trans [of session_kept]) (rule session_kept_trans)

lemma sessions_ok_update:
  assumes "\<And>r. rf_id (f r) = rf_id r \<and> rf_token_hash (f r) = rf_token_hash r"
  shows "sessions_ok (update_where P f s) = sessions_ok s"
proof -
  have "map rf_id (update_where P f s) = map rf_id s" "map rf_token_hash (update_where P f s) = map rf_token_hash s"
    using assms by (simp_all add: update_where_def)
  then show ?thesis by (simp add: sessions_ok_def)
qed

lemma insert_session_Inr:
  assumes "insert_session env username t s = Inr s'"
  shows "\<exists>r. s' = s @ [r] \<and> live r \<and> rf_token_hash r = au_hash env (rt_token t) \<and>
    (sessions_ok s \<longrightarrow> sessions_ok s')"
proof (cases "exists_where (\<lambda>r. rf_id r = rt_session_id t \<or> rf_token_hash r = au_hash env (rt_token t)) s")
  case True
  with assms show ?thesis by (simp add: insert_session_def)
next
  case False
  then have "rt_session_id t \<notin> rf_id ` set s" "au_hash env (rt_token t) \<notin> rf_token_hash ` set s"
    by (auto simp: exists_where_iff)
  with assms False show ?thesis by (auto simp: insert_session_def live_def sessions_ok_def)
qed

lemma rotate_Inr:
  assumes "rotate_refresh_session env now fresh token s = Inr (t, s')"
  obtains row s1 where "fetch_optional (usable env now token) s = Some row" "insert_session env (rf_username row) t s = Inr s1"
    "s' = update_where (\<lambda>r. rf_id r = rf_id row)
       (\<lambda>r. r\<lparr>rf_revoked_at := Some now, rf_last_used_at := Some now, rf_replaced_by := Some (rt_session_id t)\<rparr>) s1"
  using assms by (auto simp: rotate_refresh_session_def api_ok_or_def Let_def split: if_splits option.splits)

lemma rotate_later:
  assumes "rotate_refresh_session env now fresh token s = Inr (t, s')"
  shows "later s s'"
  using assms
proof (rule rotate_Inr)
  fix row s1 assume "insert_session env (rf_username row) t s = Inr s1"
    "s' = update_where (\<lambda>r. rf_id r = rf_id row)
       (\<lambda>r. r\<lparr>rf_revoked_at := Some now, rf_last_used_at := Some now, rf_replaced_by := Some (rt_session_id t)\<rparr>) s1"
  moreover from this obtain r where "s1 = s @ [r]" by (blast dest: insert_session_Inr)
  ultimately show ?thesis
    by (simp only:) (rule later_trans [OF later_append later_update], simp add: session_kept_def live_def)
qed

lemma rotate_ok:
  assumes "rotate_refresh_session env now fresh token s = Inr (t, s')" "sessions_ok s"
  shows "sessions_ok s'"
  using assms(1)
proof (rule rotate_Inr)
  fix row s1 assume "insert_session env (rf_username row) t s = Inr s1"
    "s' = update_where (\<lambda>r. rf_id r = rf_id row)
       (\<lambda>r. r\<lparr>rf_revoked_at := Some now, rf_last_used_at := Some now, rf_replaced_by := Some (rt_session_id t)\<rparr>) s1"
  then show ?thesis using insert_session_Inr assms(2) by (simp add: sessions_ok_update) blast
qed

lemma revoke_kept: "later s (revoke_refresh_session env now token s)"
  unfolding revoke_refresh_session_def by (rule later_update) (auto simp: session_kept_def live_def)

lemma revoke_ok: "sessions_ok (revoke_refresh_session env now token s) = sessions_ok s"
  unfolding revoke_refresh_session_def by (rule sessions_ok_update) simp

lemma refresh_cases:
  obtains "snd (refresh env now fresh hs s) = s"
  | token t s' where "refresh_cookie_token hs = Some token" "rotate_refresh_session env now fresh token s = Inr (t, s')"
      "snd (refresh env now fresh hs s) = s'"
proof (cases "refresh_cookie_token hs")
  case None
  then show ?thesis using that(1) by (simp add: refresh_def api_ok_or_def)
next
  case (Some token)
  show ?thesis
  proof (cases "rotate_refresh_session env now fresh token s")
    case (Inl e)
    then show ?thesis using that(1) Some by (simp add: refresh_def api_ok_or_def)
  next
    case (Inr x)
    then show ?thesis using that(2) [of token "fst x" "snd x"] Some by (simp add: refresh_def api_ok_or_def split_beta)
  qed
qed

definition login_accepted :: "auth_env \<Rightarrow> int \<times> auth_op \<Rightarrow> bool" where
  "login_accepted env ev \<longleftrightarrow>
     (case snd ev of LoginOp username password _ \<Rightarrow> username = au_username env \<and> password = au_password env | _ \<Rightarrow> False)"

lemma login_cases:
  obtains "snd (login env now fresh username password s) = s"
  | t s' where "username = au_username env" "password = au_password env"
      "insert_session env username t s = Inr s'" "snd (login env now fresh username password s) = s'"
proof (cases "username = au_username env \<and> password = au_password env")
  case False
  then show ?thesis using that(1) by (simp add: login_def constant_time_eq_def)
next
  case valid: True
  show ?thesis
  proof (cases "issue_access_token env now fresh")
    case (Inl e)
    then show ?thesis using that(1) by (simp add: login_def constant_time_eq_def)
  next
    case access: (Inr access)
    show ?thesis
    proof (cases "insert_session env username (new_refresh_token env now fresh) s")
      case (Inl e)
      then show ?thesis using that(1) valid access
        by (simp add: login_def constant_time_eq_def create_refresh_session_def Let_def)
    next
      case (Inr s')
      then show ?thesis using that(2) [OF _ _ Inr] valid access
        by (simp add: login_def constant_time_eq_def create_refresh_session_def Let_def)
    qed
  qed
qed

lemma logout_cases:
  obtains "snd (logout env now hs s) = s"
  | token where "refresh_cookie_token hs = Some token" "snd (logout env now hs s) = revoke_refresh_session env now token s"
  by (cases "require_csrf hs"; cases "refresh_cookie_token hs") (auto simp: logout_def)

lemma auth_step_kept: "(sessions_ok s \<longrightarrow> sessions_ok (auth_step env ev s)) \<and> later s (auth_step env ev s)"
proof (cases "(env, ev, s)" rule: auth_step.cases)
  case (1 env now username password fresh s)
  then show ?thesis
    by (cases rule: login_cases [of env now fresh username password s])
      (auto simp: later_refl later_append dest: insert_session_Inr)
next
  case (2 env now hs fresh s)
  then show ?thesis
    by (cases rule: refresh_cases [of env now fresh hs s]) (auto simp: later_refl dest: rotate_later rotate_ok)
next
  case (3 env now hs s)
  then show ?thesis
    by (cases rule: logout_cases [of env now hs s]) (auto simp: later_refl revoke_kept revoke_ok)
qed

lemma auth_step_ok: "sessions_ok s \<Longrightarrow> sessions_ok (auth_step env ev s)"
  and auth_step_later: "later s (auth_step env ev s)"
  using auth_step_kept by blast+

interpretation auth: guarded_system "auth_step env" sessions_ok for env
  by unfold_locales (rule auth_step_ok)

lemma run_later: "sessions_ok s \<Longrightarrow> later s (run (auth_step env) evs s)"
  by (rule auth.run_rel [of later]) (auto intro: later_refl later_trans auth_step_later)

section \<open>A refresh token is spent once\<close>

definition spent :: "string \<Rightarrow> sessions \<Rightarrow> bool" where
  "spent h s \<longleftrightarrow> exists_where (\<lambda>r. rf_token_hash r = h \<and> \<not> live r) s"

lemma spent_later: "later s s' \<Longrightarrow> spent h s \<Longrightarrow> spent h s'"
  unfolding spent_def kept_def exists_where_iff session_kept_def by metis

lemma spent_refused:
  assumes "sessions_ok s" "spent (au_hash env token) s"
  shows "rotate_refresh_session env now fresh token s = Inl (unauthorized ''Invalid or expired refresh token'')"
proof -
  from assms(2) obtain r where r: "r \<in> set s" "rf_token_hash r = au_hash env token" "\<not> live r"
    by (auto simp: spent_def)
  have "\<not> usable env now token x" if x: "x \<in> set s" for x
  proof
    assume u: "usable env now token x"
    then have "rf_token_hash x = rf_token_hash r" using r by (simp add: usable_def)
    then have "x = r" using assms(1) x r(1) by (auto simp: sessions_ok_def distinct_map inj_on_def)
    with u r(3) show False by (simp add: usable_def live_def)
  qed
  then have "fetch_optional (usable env now token) s = None" by (simp add: fetch_optional_None)
  then show ?thesis by (simp add: rotate_refresh_session_def api_ok_or_def)
qed

lemma rotate_spends:
  assumes "rotate_refresh_session env now fresh token s = Inr (t, s')"
  shows "spent (au_hash env token) s'"
  using assms
proof (rule rotate_Inr)
  fix row s1
  let ?f = "\<lambda>r. r\<lparr>rf_revoked_at := Some now, rf_last_used_at := Some now, rf_replaced_by := Some (rt_session_id t)\<rparr>"
  assume row: "fetch_optional (usable env now token) s = Some row"
    and s1: "insert_session env (rf_username row) t s = Inr s1"
    and s': "s' = update_where (\<lambda>r. rf_id r = rf_id row) ?f s1"
  have "row \<in> set s1" "rf_token_hash row = au_hash env token"
    using row insert_session_Inr [OF s1] by (auto dest!: fetch_optional_SomeD simp: usable_def)
  moreover from this have "?f row \<in> set s'" by (auto simp: s' set_update_where)
  ultimately show ?thesis by (auto simp: spent_def live_def intro!: bexI [of _ "?f row"])
qed

lemma revoke_spends:
  assumes "r \<in> set s" "rf_token_hash r = au_hash env token"
  shows "spent (au_hash env token) (revoke_refresh_session env now token s)"
proof -
  let ?P = "\<lambda>r. rf_token_hash r = au_hash env token \<and> rf_revoked_at r = None"
  let ?f = "\<lambda>r. r\<lparr>rf_revoked_at := Some (case rf_revoked_at r of None \<Rightarrow> now | Some t \<Rightarrow> t), rf_last_used_at := Some now\<rparr>"
  have "(if ?P r then ?f r else r) \<in> set (revoke_refresh_session env now token s)"
    unfolding revoke_refresh_session_def set_update_where using assms(1) by (rule imageI)
  then show ?thesis using assms(2)
    by (auto simp: spent_def live_def intro!: bexI [of _ "if ?P r then ?f r else r"])
qed

text \<open>The two answers that spend the token a request brings.\<close>

definition spends :: "auth_env \<Rightarrow> int \<Rightarrow> headers \<Rightarrow> auth_op \<Rightarrow> sessions \<Rightarrow> bool" where
  "spends env now hs op s \<longleftrightarrow>
     (case op of
        LoginOp _ _ _ \<Rightarrow> False
      | RefreshOp hs' fresh \<Rightarrow> hs' = hs \<and> is_ok (fst (refresh env now fresh hs s))
      | LogoutOp hs' \<Rightarrow> hs' = hs \<and> is_ok (fst (logout env now hs s)))"

lemma spends_spent:
  assumes "spends env now hs op s" "refresh_cookie_token hs = Some token" "r \<in> set s" "rf_token_hash r = au_hash env token"
  shows "spent (au_hash env token) (auth_step env (now, op) s)"
proof (cases op)
  case (LoginOp u p f)
  then show ?thesis using assms(1) by (simp add: spends_def)
next
  case (RefreshOp hs' fresh)
  with assms(1,2) obtain t s' where "rotate_refresh_session env now fresh token s = Inr (t, s')" "hs' = hs"
    by (auto simp: spends_def refresh_def api_ok_or_def split: sum.splits)
  with RefreshOp assms(2) show ?thesis by (simp add: refresh_def api_ok_or_def rotate_spends)
next
  case (LogoutOp hs')
  with assms show ?thesis
    by (cases "require_csrf hs") (simp_all add: spends_def logout_def revoke_spends)
qed

lemma refused_refresh:
  "refresh_cookie_token hs = Some token \<Longrightarrow> rotate_refresh_session env now fresh token s = Inl e \<Longrightarrow>
    refresh env now fresh hs s = (Inl e, s)"
  by (simp add: refresh_def api_ok_or_def)

text \<open>C18. A refresh token works once: after a refresh or a logout with it was answered well, whatever other
  logins, refreshes and logouts follow, a refresh that presents it again is refused and changes nothing.
\<close>

theorem refresh_token_single_use:
  assumes "sessions_ok s" "refresh_cookie_token hs = Some token"
    and "exists_where (\<lambda>r. rf_token_hash r = au_hash env token) s"
    and "spends env now hs op s" "refresh_cookie_token hs' = Some token"
  shows "refresh env now' fresh' hs' (run (auth_step env) ((now, op) # evs) s) =
    (Inl (unauthorized ''Invalid or expired refresh token''), run (auth_step env) ((now, op) # evs) s)"
proof -
  let ?s = "auth_step env (now, op) s"
  from assms(3) obtain r where r: "r \<in> set s" "rf_token_hash r = au_hash env token" by auto
  have ok: "sessions_ok ?s" using assms(1) by (rule auth_step_ok)
  have "spent (au_hash env token) (run (auth_step env) evs ?s)"
    using run_later [OF ok] spends_spent [OF assms(4,2) r] by (rule spent_later)
  then show ?thesis
    using spent_refused [OF auth.run_inv [OF ok]] by (simp add: refused_refresh [OF assms(5)])
qed

section \<open>Sessions come from logins\<close>

definition live_count :: "sessions \<Rightarrow> nat" where
  "live_count s = sum_where live (\<lambda>_. 1) s"

lemma rotate_live_count:
  assumes "sessions_ok s" "rotate_refresh_session env now fresh token s = Inr (t, s')"
  shows "live_count s' = live_count s"
  using assms(2)
proof (rule rotate_Inr)
  fix row s1
  let ?f = "\<lambda>r. r\<lparr>rf_revoked_at := Some now, rf_last_used_at := Some now, rf_replaced_by := Some (rt_session_id t)\<rparr>"
  assume row: "fetch_optional (usable env now token) s = Some row"
    and s1: "insert_session env (rf_username row) t s = Inr s1"
    and s': "s' = update_where (\<lambda>r. rf_id r = rf_id row) ?f s1"
  from s1 obtain r where r: "s1 = s @ [r]" "live r" "sessions_ok s1" using assms(1) by (blast dest: insert_session_Inr)
  have "row \<in> set s1" "live row" using row r(1) by (auto dest!: fetch_optional_SomeD simp: usable_def live_def)
  then have "sum_where live (\<lambda>_. 1) s' + 1 = sum_where live (\<lambda>_. 1) s1"
    unfolding s' using r(3)
    by (intro sum_where_drop_key [where key = rf_id and r = row]) (auto simp: sessions_ok_def live_def)
  then show ?thesis using r(1,2) by (simp add: live_count_def)
qed

lemma revoke_live_count: "live_count (revoke_refresh_session env now token s) \<le> live_count s"
  unfolding revoke_refresh_session_def live_count_def by (induction s) (auto simp: live_def)

lemma auth_step_live_count:
  assumes "sessions_ok s"
  shows "live_count (auth_step env ev s) \<le> live_count s + (if login_accepted env ev then 1 else 0)"
proof (cases "(env, ev, s)" rule: auth_step.cases)
  case (1 env now username password fresh s)
  then show ?thesis
    by (cases rule: login_cases [of env now fresh username password s])
      (auto simp: login_accepted_def live_count_def dest!: insert_session_Inr)
next
  case (2 env now hs fresh s)
  then show ?thesis using assms
    by (cases rule: refresh_cases [of env now fresh hs s]) (auto simp: rotate_live_count)
next
  case (3 env now hs s)
  then show ?thesis
    by (cases rule: logout_cases [of env now hs s]) (auto simp: revoke_live_count intro: le_SucI)
qed

lemma run_live_count:
  "sessions_ok s \<Longrightarrow>
    live_count (run (auth_step env) evs s) \<le> live_count s + length (filter (login_accepted env) evs)"
proof (induction evs arbitrary: s)
  case Nil
  then show ?case by simp
next
  case (Cons ev evs)
  have "live_count (run (auth_step env) (ev # evs) s) \<le>
      live_count (auth_step env ev s) + length (filter (login_accepted env) evs)"
    using Cons.IH [OF auth_step_ok [OF Cons.prems]] by simp
  also have "\<dots> \<le> live_count s + length (filter (login_accepted env) (ev # evs))"
    using auth_step_live_count [OF Cons.prems, of env ev] by auto
  finally show ?case .
qed

text \<open>From an empty table, whatever requests are made in whatever order, there are never more live
  refresh sessions than logins with the administrator's credentials: a refresh replaces a session and
  never adds one.
\<close>

theorem live_sessions_from_logins:
  "live_count (run (auth_step env) evs []) \<le> length (filter (login_accepted env) evs)"
  using run_live_count [of "[]" env evs] by (simp add: sessions_ok_def live_count_def)

section \<open>The gate\<close>

fun admin_only :: "route_handler \<Rightarrow> bool" where
  "admin_only Livez = False"
| "admin_only Health = False"
| "admin_only Metrics = False"
| "admin_only Login = False"
| "admin_only Refresh = False"
| "admin_only Logout = False"
| "admin_only Me = False"
| "admin_only GetCatalog = False"
| "admin_only ListVideos = False"
| "admin_only (GetVideo _) = False"
| "admin_only (VideoStatus _) = False"
| "admin_only _ = True"

text \<open>The handlers that change a video, a catalog or a session of a signed-in user's browser.\<close>

fun mutating :: "route_handler \<Rightarrow> bool" where
  "mutating QuoteUpload = True"
| "mutating UploadVideo = True"
| "mutating ResumeCatalogs = True"
| "mutating ApproveCatalogs = True"
| "mutating PublishCatalogs = True"
| "mutating (RequoteVideo _) = True"
| "mutating (ResumeVideo _) = True"
| "mutating (DeleteVideo _) = True"
| "mutating (ApproveVideo _) = True"
| "mutating (UpdateVisibility _) = True"
| "mutating (UpdatePublication _) = True"
| "mutating _ = False"

lemma mutating_admin_only: "mutating h \<Longrightarrow> admin_only h"
  by (cases h) simp_all

definition changes_method :: "string \<Rightarrow> bool" where
  "changes_method m \<longleftrightarrow> \<not> safe_method m \<and> m \<noteq> ''OPTIONS''"

lemma video_routes_gate: "list_all (\<lambda>(m, h). admin_only h \<longrightarrow> changes_method m) (video_routes segments)"
  by (simp add: video_routes_def changes_method_def safe_method_def split: list.split)

lemma admin_video_routes_gate: "list_all (\<lambda>(m, h). mutating h \<longrightarrow> changes_method m) (admin_video_routes segments)"
  by (simp add: admin_video_routes_def changes_method_def safe_method_def split: list.split)

definition gated :: "string \<Rightarrow> string \<times> route_handler \<Rightarrow> bool" where
  "gated path mh \<longleftrightarrow>
     (admin_only (snd mh) \<longrightarrow> protected_path (fst mh) path) \<and>
     (mutating (snd mh) \<longrightarrow> changes_method (fst mh))"

lemma fixed_routes_gated: "list_all (\<lambda>(path, routes). list_all (gated path) routes) fixed_routes"
  by (simp add: fixed_routes_def gated_def protected_path_def safe_method_def changes_method_def)

lemma strip_prefix_Some: "strip_prefix p s = Some r \<Longrightarrow> prefix p s"
  by (auto simp: strip_prefix_def split: if_splits)

lemma path_routes_gated:
  assumes "(m, h) \<in> set (path_routes path)"
  shows "gated path (m, h)"
proof (cases "map_of fixed_routes path")
  case (Some routes)
  then have "(path, routes) \<in> set fixed_routes" by (rule map_of_SomeD)
  with assms Some fixed_routes_gated show ?thesis by (auto simp: path_routes_def list_all_iff)
next
  case fixed: None
  show ?thesis
  proof (cases "path = ''/admin/videos''")
    case True
    with assms fixed show ?thesis
      by (simp add: path_routes_def admin_video_routes_def gated_def protected_path_def)
  next
    case False
    note rest = this
    show ?thesis
    proof (cases "strip_prefix ''/admin/videos/'' path")
      case (Some r)
      then have "prefix ''/admin/'' path"
        using strip_prefix_Some prefix_order.trans [of "''/admin/''" "''/admin/videos/''" path] by fastforce
      moreover from assms fixed rest Some have "(m, h) \<in> set (admin_video_routes (split_on (CHR ''/'') r))"
        by (simp add: path_routes_def)
      then have "mutating h \<longrightarrow> changes_method m" using admin_video_routes_gate by (fastforce simp: list_all_iff)
      ultimately show ?thesis by (simp add: gated_def protected_path_def)
    next
      case None
      show ?thesis
      proof (cases "strip_prefix ''/videos/'' path")
        case video: (Some r)
        with assms fixed rest None have "(m, h) \<in> set (video_routes (split_on (CHR ''/'') r))"
          by (simp add: path_routes_def)
        then have "admin_only h \<longrightarrow> changes_method m" using video_routes_gate by (fastforce simp: list_all_iff)
        then show ?thesis using strip_prefix_Some [OF video] mutating_admin_only [of h]
          by (auto simp: gated_def protected_path_def changes_method_def)
      next
        case no_video: None
        with assms fixed rest None show ?thesis by (simp add: path_routes_def)
      qed
    qed
  qed
qed

lemma route_gated:
  assumes "route m path = Inr h"
  shows "\<exists>m'. (m' = m \<or> m = ''HEAD'' \<and> m' = ''GET'') \<and> gated path (m', h)"
proof -
  let ?m = "if m = ''HEAD'' \<and> map_of (path_routes path) m = None then ''GET'' else m"
  from assms have "map_of (path_routes path) ?m = Some h"
    unfolding route_def by (cases "path_routes path") (simp_all del: map_of.simps split: option.splits if_splits)
  then have "gated path (?m, h)" by (rule path_routes_gated [OF map_of_SomeD])
  then show ?thesis by (cases "m = ''HEAD'' \<and> map_of (path_routes path) m = None") auto
qed

lemma gated_safe: "gated path (''GET'', h) \<Longrightarrow> gated path (''HEAD'', h)"
  by (simp add: gated_def protected_path_def safe_method_def changes_method_def)

lemma dispatch_gated:
  assumes "dispatch env now m path hs = Inr h"
  shows "gated path (m, h)" "authenticate_request env now m path hs = Inr ()"
proof -
  from assms have r: "route m path = Inr h" and a: "authenticate_request env now m path hs = Inr ()"
    by (simp_all add: dispatch_def)
  from route_gated [OF r] show "gated path (m, h)" using gated_safe by blast
  from a show "authenticate_request env now m path hs = Inr ()" .
qed

text \<open>C19. No request changes a video or a catalog from outside: a request that reaches a handler that
  changes state carries a token that the verifier accepts for the administrator, and a CSRF header equal
  to its CSRF cookie; any route that shows the administrator's data wants the token as well.
\<close>

theorem mutations_are_authenticated:
  assumes "dispatch env now m path hs = Inr h" "admin_only h"
  shows "(\<exists>token c. (bearer_token hs = Some token \<or> access_cookie_token hs = Some token) \<and>
      au_decode env token (au_secret env) now = Some c \<and> cl_sub c = au_username env) \<and>
    (if mutating h then \<exists>csrf. csrf_cookie_token hs = Some csrf \<and> csrf_header_token hs = Some csrf else True)"
proof -
  note gate = dispatch_gated [OF assms(1)]
  then have p: "protected_path m path" "mutating h \<longrightarrow> changes_method m"
    using assms(2) by (simp_all add: gated_def)
  from gate(2) p(1) obtain u where u: "require_admin env now hs = Inr u"
    by (auto simp: authenticate_request_def)
  have "\<exists>csrf. csrf_cookie_token hs = Some csrf \<and> csrf_header_token hs = Some csrf" if "mutating h"
  proof -
    have "require_csrf hs = Inr ()"
      using gate(2) p that u by (simp add: authenticate_request_def changes_method_def)
    then show ?thesis
      by (auto simp: require_csrf_def constant_time_eq_def api_ok_or_def split: option.splits if_splits)
  qed
  moreover have "\<exists>token c. (bearer_token hs = Some token \<or> access_cookie_token hs = Some token) \<and>
      au_decode env token (au_secret env) now = Some c \<and> cl_sub c = au_username env"
    using u by (auto simp: require_admin_def api_ok_or_def split: option.splits if_splits)
  ultimately show ?thesis by simp
qed

section \<open>Cookies\<close>

text \<open>How a browser sends its cookies back, one pair after another.\<close>

fun join_cookies :: "(string \<times> string) list \<Rightarrow> string" where
  "join_cookies [] = []"
| "join_cookies [(n, v)] = n @ CHR ''='' # v"
| "join_cookies ((n, v) # ps) = n @ CHR ''='' # v @ CHR '';'' # CHR '' '' # join_cookies ps"

definition clean_cookie :: "string \<times> string \<Rightarrow> bool" where
  "clean_cookie p \<longleftrightarrow> visible (fst p) \<and> visible (snd p) \<and> CHR ''='' \<notin> set (fst p) \<and>
     CHR '';'' \<notin> set (fst p) \<and> CHR '';'' \<notin> set (snd p)"

lemma visible_append: "visible (s @ t) \<longleftrightarrow> visible s \<and> visible t"
  by (simp add: visible_def)

lemma trim_visible: "visible s \<Longrightarrow> trim s = s"
  by (simp add: trim_id visible_no_space)

lemma clean_cookie_parts:
  assumes "clean_cookie (n, v)"
  shows "trim n = n" "trim v = v" "trim (n @ CHR ''='' # v) = n @ CHR ''='' # v"
    "split_once (CHR ''='') (n @ CHR ''='' # v) = Some (n, v)" "CHR '';'' \<notin> set (n @ CHR ''='' # v)"
proof -
  have "visible (n @ ''='' @ v)" using assms by (simp add: clean_cookie_def visible_def)
  then show "trim (n @ CHR ''='' # v) = n @ CHR ''='' # v" using trim_visible by fastforce
qed (use assms in \<open>simp_all add: clean_cookie_def trim_visible split_once_append\<close>)

lemma split_on_blank:
  "split_on (CHR '';'') (CHR '' '' # s) = (CHR '' '' # hd (split_on (CHR '';'') s)) # tl (split_on (CHR '';'') s)"
  by (simp split: list.split) (use split_on_join in blast)

lemma cookie_pairs_blank: "cookie_pairs (CHR '' '' # s) = cookie_pairs s"
proof -
  obtain p ps where "split_on (CHR '';'') s = p # ps"
    using split_on_join by (cases "split_on (CHR '';'') s") blast+
  moreover from this have "split_on (CHR '';'') (CHR '' '' # s) = (CHR '' '' # p) # ps"
    by (simp add: split_on_blank)
  ultimately show ?thesis by (simp add: cookie_pairs_def trim_space map_filter_simps)
qed

lemma cookie_pairs_join: "list_all clean_cookie ps \<Longrightarrow> cookie_pairs (join_cookies ps) = ps"
proof (induction ps rule: join_cookies.induct)
  case 1
  show ?case by code_simp
next
  case (2 n v)
  then have "clean_cookie (n, v)" by simp
  note parts = clean_cookie_parts [OF this]
  then show ?case by (simp add: cookie_pairs_def split_on_free map_filter_simps)
next
  case (3 n v p ps)
  then have "clean_cookie (n, v)" by simp
  note parts = clean_cookie_parts [OF this]
  have "split_on (CHR '';'') (join_cookies ((n, v) # p # ps)) =
      (n @ CHR ''='' # v) # split_on (CHR '';'') (CHR '' '' # join_cookies (p # ps))"
    using split_on_append [OF parts(5), of "CHR '' '' # join_cookies (p # ps)"] by simp
  then have "cookie_pairs (join_cookies ((n, v) # p # ps)) = (n, v) # cookie_pairs (CHR '' '' # join_cookies (p # ps))"
    using parts by (simp add: cookie_pairs_def map_filter_simps del: split_on.simps)
  then show ?case using 3 by (simp add: cookie_pairs_blank del: join_cookies.simps)
qed

lemma visible_header: "list_all clean_cookie ps \<Longrightarrow>
    list_all (\<lambda>c. byte c = 9 \<or> (32 \<le> byte c \<and> byte c < 127)) (join_cookies ps)"
  by (induction ps rule: join_cookies.induct) (auto simp: clean_cookie_def visible_def list_all_iff)

text \<open>Cookies are read back as they were sent: from the pairs a browser joins into one header, the
  service takes the value of the first pair of the wanted name, and nothing when that value is empty or
  the name is missing.
\<close>

theorem cookie_round_trip:
  assumes "list_all clean_cookie ps"
  shows "named_cookie_token n [(''cookie'', join_cookies ps)] = non_empty (map_of ps n)"
  using assms by (simp add: named_cookie_token_def header_text_def visible_header cookie_pairs_join)

theorem cookie_round_trip_witness:
  "named_cookie_token admin_csrf_cookie
     [(''cookie'', join_cookies [(admin_auth_cookie, ''a=b''), (admin_csrf_cookie, ''token''), (admin_csrf_cookie, ''other'')])] =
   Some ''token''"
proof -
  have "list_all clean_cookie [(admin_auth_cookie, ''a=b''), (admin_csrf_cookie, ''token''), (admin_csrf_cookie, ''other'')]"
    by code_simp
  from cookie_round_trip [OF this, of admin_csrf_cookie] show ?thesis
    by (simp add: admin_csrf_cookie_def admin_auth_cookie_def non_empty_def del: join_cookies.simps)
qed

section \<open>Examples\<close>

text \<open>A configuration whose verifier knows one token.\<close>

definition example_env :: auth_env where
  "example_env =
     \<lparr>au_username = ''admin'', au_password = ''secret'', au_secret = ''key'', au_ttl_hours = 8, au_refresh_ttl_hours = 720,
      au_cookie_secure = True, au_same_site = Strict, au_encode = (\<lambda>_ _. Inr ''jwt''),
      au_decode = (\<lambda>t _ _. if t = ''jwt'' then Some \<lparr>cl_sub = ''admin'', cl_exp = 28800, cl_iat = Some 0, cl_jti = None\<rparr> else None),
      au_hash = (\<lambda>t. ''h'' @ t), au_bad_header = ''failed to parse header value''\<rparr>"

definition example_fresh :: "string \<Rightarrow> fresh_values" where
  "example_fresh t = \<lparr>fv_jti = ''j'', fv_session = ''s'' @ t, fv_refresh = t, fv_csrf = ''c'' @ t\<rparr>"

definition example_cookies :: "string \<Rightarrow> headers" where
  "example_cookies t =
     [(''cookie'', join_cookies [(admin_auth_cookie, ''jwt''), (admin_refresh_cookie, t), (admin_csrf_cookie, ''x'')]),
      (''x-csrf-token'', ''x'')]"

text \<open>After a login, a refresh rotates the session; the browser's old token is then refused.\<close>

theorem refresh_token_single_use_witness:
  "let s = snd (login example_env 0 (example_fresh ''a'') ''admin'' ''secret'' []);
       s' = run (auth_step example_env)
              [(5, RefreshOp (example_cookies ''a'') (example_fresh ''b'')), (6, LogoutOp (example_cookies ''b''))] s
   in refresh example_env 7 (example_fresh ''c'') (example_cookies ''a'') s' =
      (Inl (unauthorized ''Invalid or expired refresh token''), s')"
proof -
  let ?s = "snd (login example_env 0 (example_fresh ''a'') ''admin'' ''secret'' [])"
  have s: "?s = [\<lparr>rf_id = ''sa'', rf_username = ''admin'', rf_token_hash = ''ha'', rf_expires_at = 2592000000,
      rf_revoked_at = None, rf_last_used_at = None, rf_replaced_by = None\<rparr>]" (is "_ = ?r")
    by code_simp
  have ok: "sessions_ok ?r" "exists_where (\<lambda>r. rf_token_hash r = au_hash example_env ''a'') ?r"
    by code_simp+
  have token: "refresh_cookie_token (example_cookies ''a'') = Some ''a''"
    by code_simp
  have spent: "spends example_env 5 (example_cookies ''a'') (RefreshOp (example_cookies ''a'') (example_fresh ''b'')) ?r"
    by code_simp
  from refresh_token_single_use [OF ok(1) token ok(2) spent token, where now' = 7 and fresh' = "example_fresh ''c''"
      and evs = "[(6, LogoutOp (example_cookies ''b''))]"]
  show ?thesis by (simp add: Let_def s)
qed

theorem mutations_are_authenticated_witness:
  "dispatch example_env 9 ''DELETE'' ''/videos/v1'' (example_cookies ''a'') = Inr (DeleteVideo ''v1'') \<and>
   (\<exists>token c. (bearer_token (example_cookies ''a'') = Some token \<or> access_cookie_token (example_cookies ''a'') = Some token) \<and>
      au_decode example_env token (au_secret example_env) 9 = Some c \<and> cl_sub c = au_username example_env)"
proof -
  have "dispatch example_env 9 ''DELETE'' ''/videos/v1'' (example_cookies ''a'') = Inr (DeleteVideo ''v1'')"
    by code_simp
  with mutations_are_authenticated [OF this] show ?thesis by simp
qed

end
