(* ===== verification/Media_Properties.thy ===== *)
theory Media_Properties
  imports Media_Tools "HOL-Library.Multiset"
begin

text \<open>
  The properties of encoding: what \<open>even_floor\<close> and the fit into the source give, in spite of the
  rounding of floats; what is kept of a tool's output, and where showing it panics; and renditions that
  come out in the order asked for.
\<close>

section \<open>Rounding\<close>

lemma nearest_relative:
  assumes "0 < x" "2 powi (- 1022) \<le> x"
  shows "nearest x \<le> x * (1 + 2 powi (- 53))" "x * (1 - 2 powi (- 53)) \<le> nearest x"
proof -
  have "(2 :: rat) powi (- 52) / 2 = 2 powi (- 53)"
    using power_int_add [of "2 :: rat" "- 53" 1] by (simp del: power_int_minus)
  then have "ulp x / 2 \<le> x * 2 powi (- 53)"
    using ulp_relative [OF assms] by (metis divide_right_mono times_divide_eq_right zero_le_numeral)
  then have "\<bar>nearest x - x\<bar> \<le> x * 2 powi (- 53)"
    using nearest_error [of x] by linarith
  then have "nearest x \<le> x + x * 2 powi (- 53)" "x - x * 2 powi (- 53) \<le> nearest x" by linarith+
  then show "nearest x \<le> x * (1 + 2 powi (- 53))" "x * (1 - 2 powi (- 53)) \<le> nearest x"
    by (simp_all only: ring_distribs mult_1_right)
qed

lemma tiny_le: "- 1022 \<le> k \<Longrightarrow> 2 powi k \<le> x \<Longrightarrow> (2 :: rat) powi (- 1022) \<le> x"
  by (rule order_trans [OF power_int_increasing]) simp_all

lemma nearest_powi_le: "- 1000 \<le> k \<Longrightarrow> 2 powi k \<le> x \<Longrightarrow> 2 powi k \<le> nearest x"
proof -
  assume k: "- 1000 \<le> k" "2 powi k \<le> x"
  have "nearest (2 powi k) = 2 powi k" by (rule nearest_exact [of _ 1 k]) (use k in simp_all)
  moreover have "nearest (2 powi k) \<le> nearest x" by (rule nearest_mono) (use k in simp_all)
  ultimately show ?thesis by simp
qed

lemma slack: "0 \<le> a \<Longrightarrow> a < 2 ^ 32 \<Longrightarrow> a * (1 + 2 powi (- 53)) * (1 + 2 powi (- 53)) < (a + 1 :: rat)"
proof -
  assume a: "0 \<le> a" "a < 2 ^ 32"
  have "a * (1 + 2 powi (- 53)) * (1 + 2 powi (- 53)) - a = a * (2 * 2 powi (- 53) + 2 powi (- 53) * 2 powi (- 53))"
    by (simp add: algebra_simps)
  also have "\<dots> \<le> 2 ^ 32 * (2 * 2 powi (- 53) + 2 powi (- 53) * 2 powi (- 53))"
    using a by (intro mult_right_mono) simp_all
  also have "\<dots> < 1" by simp
  finally show ?thesis by linarith
qed

lemma f64_of_int_small: "\<bar>i\<bar> < 2 ^ 53 \<Longrightarrow> f64_of_int i = Fin (of_int i)"
  by (simp add: f64_of_int_def f64_of_int_exact)

lemma f64_of_small:
  assumes "2 powi (- 1000) \<le> x" "x \<le> 2 powi 1000"
  shows "f64_of x = Fin (nearest x)"
proof -
  have x: "0 < x" by (rule less_le_trans [OF _ assms(1)]) simp
  have "nearest (2 powi 1000) = (2 powi 1000)" by (rule nearest_exact [of _ 1 1000]) simp_all
  then have "nearest x \<le> 2 powi 1000" using nearest_mono [OF x assms(2)] by simp
  also have "(2 :: rat) powi 1000 < 2 powi 1024" by (simp only: powi_less)
  finally have "nearest x < 2 ^ 1024" by simp
  with x show ?thesis by (rule f64_of_nearest)
qed

text \<open>A quotient of two dimensions is off by a relative error of at most 2 to the -53.\<close>

lemma quotient_close:
  assumes "0 < a" "a < 2 ^ 32" "0 < b" "b < 2 ^ 32"
  obtains s where "f64_div (f64_of_int a) (f64_of_int b) = Fin s" "2 powi (- 32) \<le> s"
    "s \<le> of_int a / of_int b * (1 + 2 powi (- 53))"
proof
  let ?q = "of_int a / of_int b :: rat"
  have lower: "2 powi (- 32) \<le> ?q"
  proof -
    have "2 ^ 32 * 1 \<le> 2 ^ 32 * a" using assms(1) by (intro mult_left_mono) simp_all
    with assms(4) have "b \<le> 2 ^ 32 * a" by linarith
    then have "(of_int b :: rat) \<le> of_int (2 ^ 32 * a)" by (simp only: of_int_le_iff)
    then show ?thesis using assms(3) by (simp add: field_simps power_int_minus)
  qed
  have upper: "?q \<le> 2 powi 1000"
  proof -
    have "?q \<le> of_int a" using assms by (simp add: divide_le_eq mult_le_cancel_left1)
    also have "\<dots> \<le> of_int (2 ^ 32)" using assms(2) by (simp only: of_int_le_iff)
    also have "\<dots> = 2 powi 32" by simp
    also have "\<dots> \<le> (2 powi 1000 :: rat)" by (rule power_int_increasing) simp_all
    finally show ?thesis .
  qed
  have "f64_div (f64_of_int a) (f64_of_int b) = f64_of ?q"
    using assms by (simp add: f64_of_int_small)
  also have "\<dots> = Fin (nearest ?q)"
    by (rule f64_of_small [OF order_trans [OF power_int_increasing lower] upper]) simp_all
  finally show "f64_div (f64_of_int a) (f64_of_int b) = Fin (nearest ?q)" .
  show "2 powi (- 32) \<le> nearest ?q" using lower by (rule nearest_powi_le [rotated]) simp
  show "nearest ?q \<le> ?q * (1 + 2 powi (- 53))"
    using assms by (intro nearest_relative tiny_le [OF _ lower]) simp_all
qed

lemma cancel_factor: "0 < (w :: rat) \<Longrightarrow> w * (a / w * r) = a * r"
  by simp

text \<open>A side scaled by a factor that is at most the quotient of the two sides stays in the source.\<close>

lemma scaled_side:
  assumes "0 < a" "a < 2 ^ 31" "0 < w" "w < 2 ^ 32" "2 powi (- 32) \<le> s" "s \<le> of_int a / of_int w * (1 + 2 powi (- 53))"
  obtains q where "f64_mul (f64_of_int w) (Fin s) = Fin q" "q < of_int a + 1"
proof
  let ?p = "of_int w * s"
  have "(of_int a :: rat) < of_int (2 ^ 31)" using assms(2) by (simp only: of_int_less_iff)
  then have a: "0 \<le> (of_int a :: rat)" "(of_int a :: rat) \<le> 2 ^ 31" "(of_int a :: rat) < 2 ^ 32"
    using assms(1) by simp_all
  have lower: "2 powi (- 32) \<le> ?p"
    using assms(3) mult_mono [of 1 "of_int w" "2 powi (- 32)" s] assms(5) by simp
  have p: "?p \<le> of_int a * (1 + 2 powi (- 53))"
  proof -
    have w: "0 < (of_int w :: rat)" using assms(3) by simp
    have "?p \<le> of_int w * (of_int a / of_int w * (1 + 2 powi (- 53)))"
      using assms(6) w by (rule mult_left_mono [OF _ less_imp_le])
    also have "\<dots> = of_int a * (1 + 2 powi (- 53))" using w by (rule cancel_factor)
    finally show ?thesis .
  qed
  have upper: "?p \<le> 2 powi 1000"
  proof -
    note p
    also have "of_int a * (1 + 2 powi (- 53)) \<le> (2 ^ 31 * 2 :: rat)"
      using a by (intro mult_mono) simp_all
    also have "\<dots> = 2 powi 32" by simp
    also have "\<dots> \<le> (2 powi 1000 :: rat)" by (rule power_int_increasing) simp_all
    finally show ?thesis .
  qed
  have "f64_mul (f64_of_int w) (Fin s) = f64_of ?p"
    using assms by (simp add: f64_of_int_small)
  also have "\<dots> = Fin (nearest ?p)"
    by (rule f64_of_small [OF order_trans [OF power_int_increasing lower] upper]) simp_all
  finally show "f64_mul (f64_of_int w) (Fin s) = Fin (nearest ?p)" .
  have "0 < ?p" using lower by (rule less_le_trans [rotated]) simp
  then have "nearest ?p \<le> ?p * (1 + 2 powi (- 53))"
    using tiny_le [OF _ lower] by (intro nearest_relative) simp_all
  also have "\<dots> \<le> of_int a * (1 + 2 powi (- 53)) * (1 + 2 powi (- 53))"
    using p by (rule mult_right_mono) simp
  also have "\<dots> < of_int a + 1"
    using a by (intro slack) simp_all
  finally show "nearest ?p < of_int a + 1" .
qed

section \<open>Even sides\<close>

lemma even_floor_even: "even (even_floor x)" "2 \<le> even_floor x"
proof -
  have "even (n - n mod 2)" for n :: int by presburger
  then show "even (even_floor x)" "2 \<le> even_floor x"
    by (simp_all add: even_floor_def Let_def max_def)
qed

lemma even_floor_le:
  assumes "q < of_int b + 1" "2 \<le> b"
  shows "even_floor (Fin q) \<le> b"
proof -
  let ?m = "max \<lfloor>q\<rfloor> 2"
  have "?m \<le> b" using assms by (simp add: floor_le_iff)
  moreover have "f64_max (f64_floor (Fin q)) (Fin 2) = Fin (of_int ?m)"
    by (simp add: f64_max_Fin max_def)
  moreover have "as_i32 (Fin (of_int m)) \<le> m" if "2 \<le> m" for m
    using that by simp
  from this [of ?m] have "as_i32 (Fin (of_int ?m)) \<le> ?m" by simp
  moreover have "max (n - n mod 2) 2 \<le> b" if "n \<le> b" for n :: int
    using that assms(2) by (simp add: le_diff_eq [symmetric] add_increasing)
  ultimately show ?thesis
    by (simp only: even_floor_def Let_def)
qed

lemma even_floor_i32: "even_floor x < 2 ^ 31"
proof -
  have "cast_between lo hi y \<le> max 0 (max lo hi)" for lo hi y
    by (cases y) auto
  from this [of "- (2 ^ 31)" "2 ^ 31 - 1"] have i: "as_i32 y \<le> 2 ^ 31 - 1" for y by simp
  have "max (n - n mod 2) 2 < 2 ^ 31" if "n \<le> 2 ^ 31 - 1" for n :: int
  proof -
    have "n - n mod 2 \<le> n" by simp
    with that have "n - n mod 2 < 2 ^ 31" by simp
    then show ?thesis by (simp add: max_def)
  qed
  then show ?thesis unfolding even_floor_def Let_def using i by blast
qed

definition fits :: "int \<Rightarrow> int \<Rightarrow> int \<Rightarrow> bool" where
  "fits bound wanted side \<longleftrightarrow> even side \<and> 2 \<le> side \<and> side \<le> bound \<and> side \<le> wanted"

lemma scaled_fits:
  assumes "2 \<le> a" "a < 2 ^ 31" "2 \<le> w" "w < 2 ^ 31" "2 powi (- 32) \<le> s" "s \<le> of_int a / of_int w * (1 + 2 powi (- 53))" "s \<le> 1"
  shows "fits a w (even_floor (f64_mul (f64_of_int w) (Fin s)))"
proof -
  obtain q where q: "f64_mul (f64_of_int w) (Fin s) = Fin q" "q < of_int a + 1"
    by (rule scaled_side [of a w s]) (use assms in simp_all)
  have one: "s \<le> of_int w / of_int w * (1 + 2 powi (- 53))"
  proof -
    note assms(7)
    also have "1 \<le> (1 + 2 powi (- 53) :: rat)" by simp
    finally show ?thesis using assms(3) by simp
  qed
  obtain q' where q': "f64_mul (f64_of_int w) (Fin s) = Fin q'" "q' < of_int w + 1"
    by (rule scaled_side [of w w s]) (use assms one in simp_all)
  show ?thesis
    using even_floor_even [of "Fin q"] even_floor_le [OF q(2) assms(1)] even_floor_le [OF q'(2) assms(3)] q'(1)
    by (simp only: fits_def q)
qed

lemma fit_within_source_fits:
  assumes "even w" "2 \<le> w" "w < 2 ^ 31" "even h" "2 \<le> h" "h < 2 ^ 31" "2 \<le> sw" "sw < 2 ^ 31" "2 \<le> sh" "sh < 2 ^ 31"
  shows "fits sw w (fst (fit_within_source w h sw sh)) \<and> fits sh h (snd (fit_within_source w h sw sh))"
proof (cases "w \<le> sw \<and> h \<le> sh")
  case True
  with assms show ?thesis by (simp add: fit_within_source_def fits_def)
next
  case False
  obtain x where x: "f64_div (f64_of_int sw) (f64_of_int w) = Fin x" "2 powi (- 32) \<le> x"
    "x \<le> of_int sw / of_int w * (1 + 2 powi (- 53))"
    by (rule quotient_close [of sw w]) (use assms in simp_all)
  obtain y where y: "f64_div (f64_of_int sh) (f64_of_int h) = Fin y" "2 powi (- 32) \<le> y"
    "y \<le> of_int sh / of_int h * (1 + 2 powi (- 53))"
    by (rule quotient_close [of sh h]) (use assms in simp_all)
  let ?s = "min (min x y) 1"
  have s: "2 powi (- 32) \<le> ?s" "?s \<le> x" "?s \<le> y" "?s \<le> 1" using x(2) y(2) by simp_all
  have "fit_within_source w h sw sh =
      (even_floor (f64_mul (f64_of_int w) (Fin ?s)), even_floor (f64_mul (f64_of_int h) (Fin ?s)))"
    using False by (simp only: fit_within_source_def x y f64_min_Fin Let_def if_False)
  then show ?thesis
    using scaled_fits [OF assms(7,8,2,3) s(1) order_trans [OF s(2) x(3)] s(4)]
      scaled_fits [OF assms(9,10,5,6) s(1) order_trans [OF s(3) y(3)] s(4)] by simp
qed

lemma presets_even:
  "list_all (\<lambda>(_, w, h, _). even w \<and> 2 \<le> w \<and> w < 2 ^ 31 \<and> even h \<and> 2 \<le> h \<and> h < 2 ^ 31) presets"
  by code_simp

text \<open>A rendition never exceeds its source and always has sides an encoder takes: for a preset and a
  source of at least 2 by 2 pixels, both sides are even and at least 2, each is at most the side of the
  source, and one of them is at most the short side of the preset. The scaling rounds floats four times
  on the way, which no source of 31-bit sides can tell.
\<close>

theorem target_fits_source:
  assumes "resolution_preset r = Some (pw, ph, v, a)"
    and "2 \<le> sw" "sw < 2 ^ 31" "2 \<le> sh" "sh < 2 ^ 31"
    and "target_dimensions_for_source pw ph (Some (sw, sh)) = (w, h)"
  shows "even w \<and> even h \<and> 2 \<le> w \<and> 2 \<le> h \<and> w \<le> sw \<and> h \<le> sh \<and> min w h \<le> min pw ph"
proof -
  have "(r, pw, ph, v, a) \<in> set presets" using assms(1) by (simp add: resolution_preset_def map_of_SomeD)
  with presets_even have p: "even (min pw ph)" "2 \<le> min pw ph" "min pw ph < 2 ^ 31"
    by (auto simp: list_all_iff min_def)
  note fit = fit_within_source_fits [OF _ _ _ _ _ _ assms(2-5)]
  note even = even_floor_even even_floor_i32
  consider "sh > sw" | "sw > sh" | "sw = sh" by linarith
  then have "\<exists>w' h'. fits sw w' w \<and> fits sh h' h \<and> (w' = min pw ph \<or> h' = min pw ph)"
  proof cases
    case 1
    with assms(6) fit [OF p even] show ?thesis
      by (simp only: target_dimensions_for_source_def Let_def option.case prod.case if_True) (metis fst_conv snd_conv)
  next
    case 2
    with assms(6) fit [OF even p] show ?thesis
      by (simp add: target_dimensions_for_source_def Let_def) (metis fst_conv snd_conv)
  next
    case 3
    with assms(6) fit [OF p p] show ?thesis
      by (simp add: target_dimensions_for_source_def Let_def) (metis fst_conv snd_conv)
  qed
  then show ?thesis by (auto simp: fits_def min_def)
qed

theorem target_fits_source_witness:
  "\<exists>w h. target_dimensions_for_source 1920 1080 (Some (1279, 533)) = (w, h) \<and>
    even w \<and> even h \<and> 2 \<le> w \<and> 2 \<le> h \<and> w \<le> 1279 \<and> h \<le> 533 \<and> min w h \<le> min 1920 1080"
proof -
  have preset: "resolution_preset ''1080p'' = Some (1920, 1080, 12000, 256)" by code_simp
  have target: "target_dimensions_for_source 1920 1080 (Some (1279, 533)) = (1278, 532)" by code_simp
  have "(2 :: int) \<le> 1279 \<and> (1279 :: int) < 2 ^ 31" "(2 :: int) \<le> 533 \<and> (533 :: int) < 2 ^ 31" by simp_all
  with target_fits_source [OF preset _ _ _ _ target] target show ?thesis by simp
qed

section \<open>Captured output\<close>

text \<open>What a pipe may give: chunks that are not empty and fit the buffer.\<close>

definition chunk_ok :: "string \<Rightarrow> bool" where
  "chunk_ok c \<longleftrightarrow> c \<noteq> [] \<and> length c \<le> 8192"

definition keep_last :: "nat \<Rightarrow> 'a list \<Rightarrow> 'a list" where
  "keep_last n xs = drop (length xs - n) xs"

lemma keep_last_append: "keep_last n (keep_last n xs @ ys) = keep_last n (xs @ ys)"
proof (cases "length xs \<le> n")
  case False
  then have "length ys + (length xs - n) = length xs + length ys - n" by simp
  with False show ?thesis by (simp add: keep_last_def)
qed (simp add: keep_last_def)

lemma capture_tail_from:
  "list_all chunk_ok chunks \<Longrightarrow> length acc \<le> 65536 \<Longrightarrow>
    capture_output True chunks acc = Inr (keep_last 65536 (acc @ concat chunks))"
proof (induction chunks arbitrary: acc)
  case Nil
  then show ?case by (simp add: keep_last_def)
next
  case (Cons c cs)
  then have c: "c \<noteq> []" "length c \<le> 8192" by (simp_all add: chunk_ok_def)
  let ?acc = "keep_last 65536 (acc @ c)"
  have "capture_output True (c # cs) acc = capture_output True cs ?acc"
    using c Cons.prems(2) by (simp add: keep_last_def Let_def)
  also have "\<dots> = Inr (keep_last 65536 (?acc @ concat cs))"
    using Cons.prems by (intro Cons.IH) (simp_all add: keep_last_def)
  also have "keep_last 65536 (?acc @ concat cs) = keep_last 65536 ((acc @ c) @ concat cs)"
    by (rule keep_last_append)
  finally show ?case by simp
qed

lemma capture_all_from:
  "list_all chunk_ok chunks \<Longrightarrow> length acc \<le> 1048576 \<Longrightarrow>
    capture_output False chunks acc =
      (if length acc + length (concat chunks) \<le> 1048576 then Inr (acc @ concat chunks) else Inl ''media output exceeds limit'')"
proof (induction chunks arbitrary: acc)
  case Nil
  then show ?case by simp
next
  case (Cons c cs)
  then show ?case by (simp add: chunk_ok_def Let_def)
qed

text \<open>Whatever a media tool writes and however the pipe splits it, the service keeps the last 64 KiB of
  its error output and nothing more, and all of its standard output when that is at most 1 MiB; a longer
  standard output is an error and never a truncated text.
\<close>

theorem captured_output:
  assumes "list_all chunk_ok chunks"
  shows "capture_output True chunks [] = Inr (keep_last 65536 (concat chunks)) \<and>
    capture_output False chunks [] =
      (if length (concat chunks) \<le> 1048576 then Inr (concat chunks) else Inl ''media output exceeds limit'')"
  using capture_tail_from [OF assms, of "[]"] capture_all_from [OF assms, of "[]"] by simp

theorem captured_output_witness:
  "capture_output True [''Invalid '', ''data''] [] = Inr ''Invalid data'' \<and>
   capture_output False [''Invalid '', ''data''] [] = Inr ''Invalid data''"
  using captured_output [of "[''Invalid '', ''data'']"] by (simp add: chunk_ok_def keep_last_def)

lemma two_byte_valid:
  assumes "ascii s"
  shows "valid_utf8 (CHR 0xC3 # CHR 0xA9 # s)"
proof -
  have "utf8_width (CHR 0xC3) = 2" "second_ok (CHR 0xC3) (CHR 0xA9)" by code_simp+
  then have "utf8_step (CHR 0xC3) (CHR 0xA9 # s) = (True, 2)"
    by (simp add: utf8_step_def Let_def numeral_2_eq_2)
  then show ?thesis using ascii_valid [OF assms] by (simp add: valid_utf8_def utf8_chars.simps)
qed

text \<open>The tail of a tool's error output is a slice of a text at a byte offset, so it panics exactly when
  that offset falls inside of a character: an output of 501 bytes that starts with a letter of two bytes
  is enough, and the release profile aborts the process on a panic.
\<close>

theorem stderr_tail_panics:
  "(stderr_tail stderr limit = None \<longleftrightarrow>
     (let text = from_utf8_lossy stderr
      in 0 < limit \<and> limit < length text \<and> continuation (text ! (length text - limit)))) \<and>
   stderr_tail (CHR 0xC3 # CHR 0xA9 # replicate 499 (CHR ''a'')) 500 = None"
proof
  show iff: "stderr_tail stderr limit = None \<longleftrightarrow>
     (let text = from_utf8_lossy stderr
      in 0 < limit \<and> limit < length text \<and> continuation (text ! (length text - limit)))" for stderr limit
    by (auto simp: stderr_tail_def slice_from_def is_char_boundary_def Let_def)
  let ?s = "CHR 0xC3 # CHR 0xA9 # replicate 499 (CHR ''a'')"
  have "ascii (replicate 499 (CHR ''a''))" by (simp add: ascii_def list_all_iff)
  then have "valid_utf8 ?s" by (rule two_byte_valid)
  then have decoded: "from_utf8_lossy ?s = ?s" by (rule from_utf8_lossy_id)
  have "continuation (CHR 0xA9)" by code_simp
  then show "stderr_tail ?s 500 = None" by (simp add: iff Let_def decoded)
qed

section \<open>Renditions in order\<close>

lemma join_renditions_Inr: "join_renditions (map (\<lambda>r. Finished (Inr r)) rs) = Inr rs"
  by (induction rs) simp_all

text \<open>The order in which the parallel encodings end does not show: when all of them succeed, in whatever
  order they are joined, the renditions come out in the order of the resolutions asked for, and a
  resolution without a preset is left out.
\<close>

theorem renditions_in_order:
  assumes "scheduled_renditions resolutions \<noteq> []"
    and "\<And>i r. tr_order (made (i, r)) = i"
    and "mset completed = mset (map made (scheduled_renditions resolutions))"
  shows "transcode_renditions resolutions (map (\<lambda>r. Finished (Inr r)) completed) =
    Inr (map made (scheduled_renditions resolutions))"
proof -
  let ?rs = "map made (scheduled_renditions resolutions)"
  have "tr_order (made x) = fst x" for x using assms(2) [of "fst x" "snd x"] by simp
  then have fst: "map tr_order ?rs = map fst (scheduled_renditions resolutions)" by simp
  have "sorted (map fst (scheduled_renditions resolutions))" "distinct (map fst (scheduled_renditions resolutions))"
    unfolding scheduled_renditions_def
    by (simp_all add: sorted_filter distinct_map_filter map_fst_enumerate)
  with fst have s: "sorted (map tr_order ?rs)" "distinct (map tr_order ?rs)" by metis+
  then have "inj_on tr_order (set completed)"
    using mset_eq_setD [OF assms(3)] by (simp only: distinct_map)
  then have "sort_key tr_order completed = ?rs"
    by (rule sort_key_inj_key_eq [OF assms(3) _ s(1)])
  then show ?thesis using assms(1) by (simp add: transcode_renditions_def join_renditions_Inr)
qed

definition example_rendition :: "nat \<times> string \<Rightarrow> transcoded_rendition" where
  "example_rendition p =
     \<lparr>tr_order = fst p, tr_resolution = snd p, tr_width = 640, tr_height = 360, tr_video_kbps = 1500, tr_audio_kbps = 128,
      tr_video_codec = H264, tr_segment_container = ''mpegts'', tr_segments = []\<rparr>"

theorem renditions_in_order_witness:
  "transcode_renditions [''720p'', ''tiny'', ''360p'']
     (map (\<lambda>r. Finished (Inr r)) [example_rendition (2, ''360p''), example_rendition (0, ''720p'')]) =
   Inr [example_rendition (0, ''720p''), example_rendition (2, ''360p'')]"
proof -
  have s: "scheduled_renditions [''720p'', ''tiny'', ''360p''] = [(0, ''720p''), (2, ''360p'')]"
    by code_simp
  show ?thesis
    using renditions_in_order [of "[''720p'', ''tiny'', ''360p'']" example_rendition
        "[example_rendition (2, ''360p''), example_rendition (0, ''720p'')]"]
    by (simp add: s) (simp add: example_rendition_def)
qed

end
