(* ===== verification/Upload_Quote.thy ===== *)
theory Upload_Quote
  imports Media_Encoding Payment_Contract Service_Clients
begin

text \<open>
  The preliminary price of an upload (\<open>crates/rust_admin/src/quote.rs\<close>): sizes are estimated from the
  encoding, each size is priced by the gateway through a sample, prices are cached by sample size and
  scaled to the size, and everything is added up. Amounts are 128-bit words, which wrap as the release
  build does; the other numbers are \<open>i64\<close>.
\<close>

section \<open>Ratios\<close>

definition trunc_div :: "int \<Rightarrow> int \<Rightarrow> int" where
  "trunc_div a b = sgn a * sgn b * (\<bar>a\<bar> div \<bar>b\<bar>)"

definition ceil_ratio :: "int \<Rightarrow> int \<Rightarrow> int \<Rightarrow> int" where
  "ceil_ratio value numerator denominator =
     (if denominator \<le> 0 then 0
      else wrap_signed 64 (trunc_div (value * numerator + denominator - 1) denominator))"

definition div_ceil :: "u128 \<Rightarrow> u128 \<Rightarrow> u128" where
  "div_ceil a b = (if a mod b > 0 then a div b + 1 else a div b)"

definition ceil_ratio_u128 :: "u128 \<Rightarrow> int \<Rightarrow> int \<Rightarrow> u128" where
  "ceil_ratio_u128 value numerator denominator =
     (if value = 0 \<or> numerator \<le> 0 \<or> denominator \<le> 0 then 0
      else div_ceil (value * word_of_int numerator) (word_of_int denominator))"

definition quote_sample_bytes :: "int \<Rightarrow> nat \<Rightarrow> int option" where
  "quote_sample_bytes byte_size max_sample_bytes =
     (if byte_size \<le> 0 then None
      else Some (max (min byte_size (wrap_signed 64 (int (max max_sample_bytes min_self_encryption_bytes))))
             (int min_self_encryption_bytes)))"

section \<open>The price of a size\<close>

record quote_value =
  qv_sampled :: bool
  qv_storage_cost_atto :: u128
  qv_estimated_gas_cost_wei :: u128
  qv_chunk_count :: int
  qv_payment_mode :: string

record cost_estimate =
  ce_cost :: "string option"
  ce_estimated_gas_cost_wei :: "string option"
  ce_chunk_count :: "int option"
  ce_payment_mode :: "string option"

text \<open>What the configuration sets, and the texts of the errors of the amount parser.\<close>

record pricing_env =
  qe_payment_mode :: string
  qe_hls_segment_duration :: f64
  qe_max_sample_bytes :: nat
  qe_transcoded_overhead :: f64
  qe_limits :: media_limits
  qe_show_error :: "perror \<Rightarrow> string"

definition parse_cost_u128 :: "pricing_env \<Rightarrow> string option \<Rightarrow> u128 api" where
  "parse_cost_u128 env value =
     (case amount (case value of Some s \<Rightarrow> s | None \<Rightarrow> []) of
        Inl e \<Rightarrow> Inl (Api 502 (''Invalid gateway cost: '' @ qe_show_error env e))
      | Inr w \<Rightarrow> Inr w)"

text \<open>A step of a quote: an answer, with the cache and the state of the gateway's client it leaves.\<close>

type_synonym cost_cache = "(int \<times> quote_value) list"
type_synonym ('s, 'a) quoting = "cost_cache \<times> 's \<Rightarrow> 'a api \<times> cost_cache \<times> 's"

definition qreturn :: "'a \<Rightarrow> ('s, 'a) quoting" where "qreturn x s = (Inr x, s)"

definition qbind :: "('s, 'a) quoting \<Rightarrow> ('a \<Rightarrow> ('s, 'b) quoting) \<Rightarrow> ('s, 'b) quoting" where
  "qbind m f s = (case m s of (Inl e, s') \<Rightarrow> (Inl e, s') | (Inr x, s') \<Rightarrow> f x s')"

text \<open>The gateway's price of a sample: \<open>AntdRestClient::data_cost_for_size\<close>, an error as its text.\<close>

type_synonym 's price_fn = "nat \<Rightarrow> 's \<Rightarrow> (string + cost_estimate) \<times> 's"

definition gateway_price ::
  "world \<Rightarrow> antd_client \<Rightarrow> (string \<Rightarrow> string + cost_estimate) \<Rightarrow> (nat \<Rightarrow> string) \<Rightarrow> net price_fn"
where
  "gateway_price w client decode sample_json n s =
     (case data_cost_for_size w client decode sample_json n s of
        (Inl e, s') \<Rightarrow> (Inl (client_error_text (wd_show_status w) e), s')
      | (Inr x, s') \<Rightarrow> (Inr x, s'))"

definition quote_of_estimate :: "pricing_env \<Rightarrow> cost_estimate \<Rightarrow> quote_value api" where
  "quote_of_estimate env estimate =
     rbind (parse_cost_u128 env (ce_cost estimate)) (\<lambda>storage.
     rbind (parse_cost_u128 env (ce_estimated_gas_cost_wei estimate)) (\<lambda>gas.
     Inr \<lparr>qv_sampled = False, qv_storage_cost_atto = storage, qv_estimated_gas_cost_wei = gas,
       qv_chunk_count = (case ce_chunk_count estimate of Some n \<Rightarrow> n | None \<Rightarrow> 0),
       qv_payment_mode = (case ce_payment_mode estimate of Some m \<Rightarrow> m | None \<Rightarrow> qe_payment_mode env)\<rparr>))"

definition quote_sample :: "pricing_env \<Rightarrow> 's price_fn \<Rightarrow> int \<Rightarrow> ('s, quote_value) quoting" where
  "quote_sample env price sample_bytes =
     (\<lambda>(cache, s).
        case map_of cache sample_bytes of
          Some value \<Rightarrow> (Inr value, cache, s)
        | None \<Rightarrow>
            (case price (nat sample_bytes) s of
               (Inl e, s') \<Rightarrow> (Inl (Api 503 (''Could not get Autonomi price quote: '' @ e)), cache, s')
             | (Inr estimate, s') \<Rightarrow>
                 (case quote_of_estimate env estimate of
                    Inl e \<Rightarrow> (Inl e, cache, s')
                  | Inr value \<Rightarrow> (Inr value, (sample_bytes, value) # cache, s'))))"

definition scale_quote :: "int \<Rightarrow> int \<Rightarrow> quote_value \<Rightarrow> quote_value" where
  "scale_quote quote_bytes sample_bytes q =
     (if sample_bytes = quote_bytes then q
      else \<lparr>qv_sampled = True,
        qv_storage_cost_atto = ceil_ratio_u128 (qv_storage_cost_atto q) quote_bytes sample_bytes,
        qv_estimated_gas_cost_wei = ceil_ratio_u128 (qv_estimated_gas_cost_wei q) quote_bytes sample_bytes,
        qv_chunk_count = max (ceil_ratio (qv_chunk_count q) quote_bytes sample_bytes) 1,
        qv_payment_mode = qv_payment_mode q\<rparr>)"

definition quote_data_size :: "pricing_env \<Rightarrow> 's price_fn \<Rightarrow> int \<Rightarrow> ('s, quote_value) quoting" where
  "quote_data_size env price byte_size =
     (if byte_size \<le> 0 then
        qreturn \<lparr>qv_sampled = False, qv_storage_cost_atto = 0, qv_estimated_gas_cost_wei = 0, qv_chunk_count = 0,
          qv_payment_mode = qe_payment_mode env\<rparr>
      else
        (let quote_bytes = max byte_size (int min_self_encryption_bytes);
             sample_bytes = (case quote_sample_bytes byte_size (qe_max_sample_bytes env) of
               Some n \<Rightarrow> n | None \<Rightarrow> int min_self_encryption_bytes)
         in qbind (quote_sample env price sample_bytes) (\<lambda>quoted.
            qreturn (scale_quote quote_bytes sample_bytes quoted))))"

section \<open>The quote of an upload\<close>

record upload_quote_request =
  ur_duration_seconds :: f64
  ur_resolutions :: "string list"
  ur_source_width :: "int option"
  ur_source_height :: "int option"
  ur_upload_original :: bool
  ur_source_size_bytes :: "int option"
  ur_encode_settings :: encode_settings

record variant_out =
  vo_resolution :: string
  vo_width :: int
  vo_height :: int
  vo_segment_count :: int
  vo_estimated_bytes :: int
  vo_chunk_count :: int
  vo_storage_cost_atto :: string
  vo_estimated_gas_cost_wei :: string
  vo_payment_mode :: string

record original_out =
  oo_estimated_bytes :: int
  oo_chunk_count :: int
  oo_storage_cost_atto :: string
  oo_estimated_gas_cost_wei :: string
  oo_payment_mode :: string

record upload_quote_out =
  uo_duration_seconds :: f64
  uo_segment_duration :: f64
  uo_payment_mode :: string
  uo_estimated_bytes :: int
  uo_segment_count :: int
  uo_storage_cost_atto :: string
  uo_estimated_gas_cost_wei :: string
  uo_metadata_bytes :: int
  uo_sampled :: bool
  uo_original_file :: "original_out option"
  uo_variants :: "variant_out list"

definition bad :: "string \<Rightarrow> 'a api" where "bad detail = Inl (bad_request detail)"

text \<open>The dimensions come together and are positive.\<close>

definition source_dimensions :: "upload_quote_request \<Rightarrow> (int \<times> int) option api" where
  "source_dimensions req =
     (case (ur_source_width req, ur_source_height req) of
        (None, None) \<Rightarrow> Inr None
      | (Some width, Some height) \<Rightarrow>
          if width > 0 \<and> height > 0 then Inr (Some (width, height))
          else bad ''source_width and source_height must be greater than zero''
      | _ \<Rightarrow> bad ''source_width and source_height must be provided together'')"

definition check_request :: "pricing_env \<Rightarrow> upload_quote_request \<Rightarrow> ((int \<times> int) option \<times> string list) api" where
  "check_request env req =
     (if f64_le (ur_duration_seconds req) (Fin 0) then bad ''duration_seconds must be greater than zero''
      else
        rbind (source_dimensions req) (\<lambda>source.
        rbind (case source of
                 Some (width, height) \<Rightarrow> enforce_upload_media_limits (qe_limits env) (ur_duration_seconds req) width height
               | None \<Rightarrow>
                   if f64_lt (ml_max_duration_seconds (qe_limits env)) (ur_duration_seconds req)
                   then Inl (Api 413 ''Video duration exceeds upload limit'') else Inr ()) (\<lambda>_.
        rbind (if ur_upload_original req
               then (case ur_source_size_bytes req of
                       Some n \<Rightarrow> if n > 0 then Inr ()
                         else bad ''source_size_bytes must be greater than zero when upload_original is true''
                     | None \<Rightarrow> bad ''source_size_bytes must be provided when upload_original is true'')
               else Inr ()) (\<lambda>_.
        (let selected = filter (\<lambda>r. resolution_preset r \<noteq> None) (ur_resolutions req)
         in if selected = [] then Inl (bad_request supported_resolutions_error)
            else rbind (validate_encode_settings (ur_encode_settings req) (ur_resolutions req)) (\<lambda>_.
                 Inr (source, selected)))))))"

text \<open>The sums a quote carries along.\<close>

record quote_totals =
  qt_storage :: u128
  qt_gas :: u128
  qt_bytes :: int
  qt_segments :: int
  qt_sampled :: bool

definition i64 :: "int \<Rightarrow> int" where "i64 i = wrap_signed 64 i"

definition split_duration :: "pricing_env \<Rightarrow> f64 \<Rightarrow> int \<times> f64" where
  "split_duration env duration =
     (let full_segments = as_i64 (f64_floor (f64_div duration (qe_hls_segment_duration env)));
          remainder = f64_sub duration (f64_mul (f64_of_int full_segments) (qe_hls_segment_duration env))
      in (full_segments, if f64_lt remainder (f64_of (1 / 100)) then Fin 0 else remainder))"

definition price_variant ::
  "pricing_env \<Rightarrow> 's price_fn \<Rightarrow> upload_quote_request \<Rightarrow> (int \<times> int) option \<Rightarrow> string \<Rightarrow> ('s, variant_out \<times> quote_totals) quoting"
where
  "price_variant env price req source resolution =
     (let (pw, ph, preset_video, preset_audio) =
            (case resolution_preset resolution of Some p \<Rightarrow> p | None \<Rightarrow> (0, 0, 0, 0));
          (width, height) = target_dimensions_for_source pw ph source;
          settings = ur_encode_settings req;
          video = target_video_bitrate_kbps (base_video_kbps settings resolution preset_video) pw ph width height;
          audio = (case es_audio_bitrate_kbps settings of Some k \<Rightarrow> k | None \<Rightarrow> preset_audio);
          (full_segments, remainder) = split_duration env (ur_duration_seconds req);
          final = f64_lt (Fin 0) remainder;
          segment_count = i64 (full_segments + (if final then 1 else 0));
          full_bytes = estimate_transcoded_bytes (f64_min (qe_hls_segment_duration env) (ur_duration_seconds req))
            video audio (qe_transcoded_overhead env)
      in qbind (quote_data_size env price full_bytes) (\<lambda>full.
         let storage = qv_storage_cost_atto full * word_of_int full_segments;
             gas = qv_estimated_gas_cost_wei full * word_of_int full_segments;
             n_bytes = i64 (full_bytes * full_segments);
             chunks = i64 (qv_chunk_count full * full_segments);
             done_with = (\<lambda>storage gas n_bytes chunks sampled.
               qreturn (\<lparr>vo_resolution = resolution, vo_width = width, vo_height = height, vo_segment_count = segment_count,
                   vo_estimated_bytes = n_bytes, vo_chunk_count = chunks, vo_storage_cost_atto = u128_to_string storage,
                   vo_estimated_gas_cost_wei = u128_to_string gas, vo_payment_mode = qv_payment_mode full\<rparr>,
                 \<lparr>qt_storage = storage, qt_gas = gas, qt_bytes = n_bytes, qt_segments = segment_count, qt_sampled = sampled\<rparr>))
         in if final then
              (let final_bytes = estimate_transcoded_bytes remainder video audio (qe_transcoded_overhead env)
               in qbind (quote_data_size env price final_bytes) (\<lambda>last_quote.
                  done_with (storage + qv_storage_cost_atto last_quote) (gas + qv_estimated_gas_cost_wei last_quote)
                    (i64 (n_bytes + final_bytes)) (i64 (chunks + qv_chunk_count last_quote))
                    (qv_sampled full \<or> qv_sampled last_quote)))
            else done_with storage gas n_bytes chunks (qv_sampled full)))"

definition add_totals :: "quote_totals \<Rightarrow> quote_totals \<Rightarrow> quote_totals" where
  "add_totals t u =
     \<lparr>qt_storage = qt_storage t + qt_storage u, qt_gas = qt_gas t + qt_gas u, qt_bytes = i64 (qt_bytes t + qt_bytes u),
      qt_segments = i64 (qt_segments t + qt_segments u), qt_sampled = (qt_sampled t \<or> qt_sampled u)\<rparr>"

definition no_totals :: quote_totals where
  "no_totals = \<lparr>qt_storage = 0, qt_gas = 0, qt_bytes = 0, qt_segments = 0, qt_sampled = False\<rparr>"

fun quote_variants ::
  "pricing_env \<Rightarrow> 's price_fn \<Rightarrow> upload_quote_request \<Rightarrow> (int \<times> int) option \<Rightarrow> string list \<Rightarrow> quote_totals \<Rightarrow>
     ('s, variant_out list \<times> quote_totals) quoting"
where
  "quote_variants env price req source [] t = qreturn ([], t)"
| "quote_variants env price req source (r # rs) t =
     qbind (price_variant env price req source r) (\<lambda>(v, u).
     qbind (quote_variants env price req source rs (add_totals t u)) (\<lambda>(vs, t').
     qreturn (v # vs, t')))"

definition totals_of_quote :: "int \<Rightarrow> quote_value \<Rightarrow> quote_totals" where
  "totals_of_quote n_bytes q =
     \<lparr>qt_storage = qv_storage_cost_atto q, qt_gas = qv_estimated_gas_cost_wei q, qt_bytes = n_bytes, qt_segments = 0,
      qt_sampled = qv_sampled q\<rparr>"

definition quote_original ::
  "pricing_env \<Rightarrow> 's price_fn \<Rightarrow> upload_quote_request \<Rightarrow> quote_totals \<Rightarrow> ('s, original_out option \<times> quote_totals) quoting"
where
  "quote_original env price req t =
     (if ur_upload_original req then
        (let n_bytes = (case ur_source_size_bytes req of Some n \<Rightarrow> n | None \<Rightarrow> 0)
         in qbind (quote_data_size env price n_bytes) (\<lambda>q.
            qreturn (Some \<lparr>oo_estimated_bytes = n_bytes, oo_chunk_count = qv_chunk_count q,
                oo_storage_cost_atto = u128_to_string (qv_storage_cost_atto q),
                oo_estimated_gas_cost_wei = u128_to_string (qv_estimated_gas_cost_wei q),
                oo_payment_mode = qv_payment_mode q\<rparr>,
              add_totals t (totals_of_quote n_bytes q))))
      else qreturn (None, t))"

definition quote_metadata_bytes :: "nat \<Rightarrow> int \<Rightarrow> int" where
  "quote_metadata_bytes n_variants n_segments =
     i64 (i64 (4096 + int n_variants * 1024 + i64 (n_segments * 220)) + (2048 + int n_variants * 512))"

definition quote_selected ::
  "pricing_env \<Rightarrow> 's price_fn \<Rightarrow> upload_quote_request \<Rightarrow> (int \<times> int) option \<Rightarrow> string list \<Rightarrow> ('s, upload_quote_out) quoting"
where
  "quote_selected env price req source selected =
     qbind (quote_variants env price req source selected no_totals) (\<lambda>(variants, t1).
     qbind (quote_original env price req t1) (\<lambda>(original, t2).
     let metadata = quote_metadata_bytes (length variants) (qt_segments t2)
     in qbind (quote_data_size env price metadata) (\<lambda>q.
        let t = add_totals t2 (totals_of_quote metadata q)
        in qreturn \<lparr>uo_duration_seconds = ur_duration_seconds req, uo_segment_duration = qe_hls_segment_duration env,
             uo_payment_mode = qe_payment_mode env, uo_estimated_bytes = qt_bytes t, uo_segment_count = qt_segments t,
             uo_storage_cost_atto = u128_to_string (qt_storage t), uo_estimated_gas_cost_wei = u128_to_string (qt_gas t),
             uo_metadata_bytes = metadata, uo_sampled = qt_sampled t, uo_original_file = original,
             uo_variants = variants\<rparr>)))"

definition build_upload_quote ::
  "pricing_env \<Rightarrow> 's price_fn \<Rightarrow> upload_quote_request \<Rightarrow> 's \<Rightarrow> upload_quote_out api \<times> cost_cache \<times> 's"
where
  "build_upload_quote env price req s =
     (case check_request env req of
        Inl e \<Rightarrow> (Inl e, [], s)
      | Inr (source, selected) \<Rightarrow> quote_selected env price req source selected ([], s))"

end
