(* ===== verification/Quote_Properties.thy ===== *)
theory Quote_Properties
  imports Upload_Quote
begin

text \<open>
  The properties of a preliminary price: a scaled price is the exact one rounded up unless the product
  overflows; the gateway is asked at most once for a sample size, and never for one above the bound; and
  the amounts of a quote add up.
\<close>

section \<open>Scaling\<close>

lemma unat_div_ceil:
  assumes "b \<noteq> 0"
  shows "unat b * unat (div_ceil a b) < unat a + unat b \<and> unat a \<le> unat b * unat (div_ceil a b)"
proof -
  have ab: "unat (a div b) = unat a div unat b" "unat (a mod b) = unat a mod unat b"
    by (simp_all add: unat_div unat_mod)
  have b: "0 < unat b" using assms by (simp add: unat_gt_0)
  show ?thesis
  proof (cases "a mod b = 0")
    case True
    then have "unat a mod unat b = 0" using ab(2) by (metis unat_0)
    then have "unat b * (unat a div unat b) = unat a" by (simp add: mod_0_imp_dvd)
    with True b show ?thesis by (simp add: div_ceil_def ab)
  next
    case False
    then have m: "0 < unat a mod unat b" using ab(2) by (metis gr0I unat_eq_zero)
    then have "1 < unat b" using b by (cases "unat b = 1") simp_all
    moreover have "0 < unat a" using m by (intro gr0I) simp
    ultimately have "unat a div unat b < unat a" by simp
    then have "unat a div unat b + 1 < 2 ^ 128" using unsigned_less [of a, where ?'a = nat] by simp
    then have "unat (a div b + 1) = unat a div unat b + 1"
      using unat_add_noflow [of "a div b" 1] ab by simp
    moreover have "unat a < unat b * (unat a div unat b + 1)" "unat b * (unat a div unat b + 1) < unat a + unat b"
    proof -
      have "unat a = unat b * (unat a div unat b) + unat a mod unat b" "unat a mod unat b < unat b" using b by simp_all
      with m show "unat a < unat b * (unat a div unat b + 1)" "unat b * (unat a div unat b + 1) < unat a + unat b"
        by (simp_all only: distrib_left mult_1_right)
    qed
    moreover have "0 < a mod b" using False by (simp add: word_gt_0)
    ultimately show ?thesis by (simp add: div_ceil_def)
  qed
qed

text \<open>A price that is scaled from a sample to a size is the exact ratio, rounded up, as long as the product
  of price and size fits 128 bits. The product is not checked: a price of 2 to the 127 scaled to twice the
  sample's size comes out as nothing.
\<close>

theorem scaled_price:
  assumes "0 < n" "n < 2 ^ 63" "0 < d" "d < 2 ^ 63" "unat v * nat n < 2 ^ 128"
  shows "nat d * unat (ceil_ratio_u128 v n d) < unat v * nat n + nat d \<and>
    unat v * nat n \<le> nat d * unat (ceil_ratio_u128 v n d) \<and>
    ceil_ratio_u128 (2 ^ 127) 6 3 = 0"
proof -
  have n: "unat (word_of_int n :: u128) = nat n" "unat (word_of_int d :: u128) = nat d"
    using assms by (simp_all flip: nat_uint_eq add: uint_word_of_int)
  then have "(word_of_int d :: u128) \<noteq> 0" using assms(3) by (intro notI) simp
  moreover have "unat (v * word_of_int n) = unat v * nat n"
    using assms(5) n by (simp add: unat_word_ariths)
  moreover have "ceil_ratio_u128 (2 ^ 127) 6 3 = 0" by (simp add: ceil_ratio_u128_def div_ceil_def)
  ultimately show ?thesis
    using unat_div_ceil [of "word_of_int d" "v * word_of_int n"] assms n
    by (auto simp: ceil_ratio_u128_def)
qed

theorem scaled_price_witness:
  "3 * unat (ceil_ratio_u128 10 4 3) < 40 + 3 \<and> 40 \<le> 3 * unat (ceil_ratio_u128 10 4 3)"
  using scaled_price [of 4 3 10] by simp

section \<open>The samples asked for\<close>

text \<open>A gateway whose state is the list of sizes it was asked for.\<close>

definition logged :: "(nat \<Rightarrow> string + cost_estimate) \<Rightarrow> nat list price_fn" where
  "logged answer n asked = (answer n, n # asked)"

definition sample_ok :: "pricing_env \<Rightarrow> nat \<Rightarrow> bool" where
  "sample_ok env n \<longleftrightarrow> 3 \<le> n \<and> n \<le> max 3 (qe_max_sample_bytes env)"

definition log_ok :: "pricing_env \<Rightarrow> nat list \<Rightarrow> bool" where
  "log_ok env asked \<longleftrightarrow> distinct asked \<and> list_all (sample_ok env) asked"

definition cached_log :: "pricing_env \<Rightarrow> cost_cache \<times> nat list \<Rightarrow> bool" where
  "cached_log env s \<longleftrightarrow> log_ok env (snd s) \<and> (\<lambda>n. int n) ` set (snd s) \<subseteq> fst ` set (fst s)"

text \<open>What a step keeps: the log while it answers, and at least the bounds when it fails.\<close>

definition keeps_log :: "pricing_env \<Rightarrow> (nat list, 'a) quoting \<Rightarrow> bool" where
  "keeps_log env m \<longleftrightarrow>
     (\<forall>s. cached_log env s \<longrightarrow>
        (case m s of (Inl _, s') \<Rightarrow> log_ok env (snd s') | (Inr _, s') \<Rightarrow> cached_log env s'))"

lemma keeps_logI:
  "(\<And>s. cached_log env s \<Longrightarrow> case m s of (Inl _, s') \<Rightarrow> log_ok env (snd s') | (Inr _, s') \<Rightarrow> cached_log env s') \<Longrightarrow>
    keeps_log env m"
  by (simp add: keeps_log_def)

lemma keeps_qreturn [simp]: "keeps_log env (qreturn x)"
  by (simp add: keeps_log_def qreturn_def)

lemma keeps_qbind: "keeps_log env m \<Longrightarrow> (\<And>x. keeps_log env (f x)) \<Longrightarrow> keeps_log env (qbind m f)"
proof (rule keeps_logI)
  fix s
  assume m: "keeps_log env m" and f: "\<And>x. keeps_log env (f x)" and s: "cached_log env s"
  obtain r s' where ms: "m s = (r, s')" by (cases "m s")
  show "case qbind m f s of (Inl _, s') \<Rightarrow> log_ok env (snd s') | (Inr _, s') \<Rightarrow> cached_log env s'"
  proof (cases r)
    case (Inl e)
    have "case m s of (Inl _, s') \<Rightarrow> log_ok env (snd s') | (Inr _, s') \<Rightarrow> cached_log env s'"
      using m s by (simp only: keeps_log_def)
    with Inl ms show ?thesis by (simp add: qbind_def)
  next
    case (Inr x)
    have "case m s of (Inl _, s') \<Rightarrow> log_ok env (snd s') | (Inr _, s') \<Rightarrow> cached_log env s'"
      using m s by (simp only: keeps_log_def)
    with Inr ms have "cached_log env s'" by simp
    then have "case f x s' of (Inl _, s') \<Rightarrow> log_ok env (snd s') | (Inr _, s') \<Rightarrow> cached_log env s'"
      using f [of x] by (simp only: keeps_log_def)
    with Inr ms show ?thesis by (simp add: qbind_def)
  qed
qed

lemma wrap_signed_le: "0 \<le> i \<Longrightarrow> wrap_signed bits i \<le> i"
  unfolding wrap_signed_def using zmod_le_nonneg_dividend [of "i + 2 ^ (bits - 1)" "2 ^ bits"] by simp

lemma sample_bytes_ok: "quote_sample_bytes n m = Some k \<Longrightarrow> 3 \<le> nat k \<and> nat k \<le> max 3 m \<and> int (nat k) = k"
  using wrap_signed_le [of "int (max m 3)" 64]
  by (auto simp: quote_sample_bytes_def min_self_encryption_bytes_def max_def min_def split: if_splits)

lemma keeps_quote_sample:
  assumes "sample_ok env (nat k)" "int (nat k) = k"
  shows "keeps_log env (quote_sample env (logged answer) k)"
proof (rule keeps_logI)
  fix s assume s: "cached_log env s"
  obtain cache asked where "s = (cache, asked)" by fastforce
  note s = s this
  show "case quote_sample env (logged answer) k s of (Inl _, s') \<Rightarrow> log_ok env (snd s') | (Inr _, s') \<Rightarrow> cached_log env s'"
  proof (cases "map_of cache k")
    case (Some v)
    with s show ?thesis by (simp add: quote_sample_def)
  next
    case None
    then have "k \<notin> fst ` set cache" by (simp add: map_of_eq_None_iff)
    then have "int (nat k) \<notin> (\<lambda>n. int n) ` set asked" using s assms(2) by (auto simp: cached_log_def)
    then have "nat k \<notin> set asked" by blast
    with s assms have "log_ok env (nat k # asked)" by (simp add: cached_log_def log_ok_def)
    with s None assms(2) show ?thesis
      by (auto simp: quote_sample_def logged_def cached_log_def split: sum.split)
  qed
qed

lemma keeps_data_size: "keeps_log env (quote_data_size env (logged answer) n)"
proof (cases "n \<le> 0")
  case False
  then obtain k where k: "quote_sample_bytes n (qe_max_sample_bytes env) = Some k"
    by (simp add: quote_sample_bytes_def)
  note ok = sample_bytes_ok [OF k]
  then have "keeps_log env (quote_sample env (logged answer) k)"
    by (intro keeps_quote_sample) (simp_all add: sample_ok_def)
  with False k show ?thesis
    by (simp add: quote_data_size_def Let_def keeps_qbind)
qed (simp add: quote_data_size_def)

lemma keeps_variant: "keeps_log env (price_variant env (logged answer) req source r)"
  unfolding price_variant_def Let_def split_beta
  by (intro keeps_qbind keeps_data_size) (auto intro: keeps_qbind keeps_data_size)

lemma keeps_variants: "keeps_log env (quote_variants env (logged answer) req source rs t)"
  by (induction rs arbitrary: t) (auto intro!: keeps_qbind keeps_variant)

lemma keeps_original: "keeps_log env (quote_original env (logged answer) req t)"
  by (auto simp: quote_original_def Let_def intro!: keeps_qbind keeps_data_size)

lemma keeps_selected: "keeps_log env (quote_selected env (logged answer) req source selected)"
  unfolding quote_selected_def Let_def split_beta
  by (intro keeps_qbind keeps_variants keeps_original keeps_data_size keeps_qreturn)

text \<open>A quote asks the gateway at most once for each sample size, whatever the request and whatever the
  gateway answers, and never for a sample above the configured bound or below the three bytes that
  self-encryption needs.
\<close>

theorem samples_asked_once:
  "let asked = snd (snd (build_upload_quote env (logged answer) req []))
   in distinct asked \<and> list_all (\<lambda>n. 3 \<le> n \<and> n \<le> max 3 (qe_max_sample_bytes env)) asked"
proof (cases "check_request env req")
  case (Inl e)
  then show ?thesis by (simp add: build_upload_quote_def)
next
  case (Inr x)
  let ?out = "quote_selected env (logged answer) req (fst x) (snd x) ([], [])"
  have "cached_log env ([], [])" by (simp add: cached_log_def log_ok_def)
  then have "case ?out of (Inl _, s') \<Rightarrow> log_ok env (snd s') | (Inr _, s') \<Rightarrow> cached_log env s'"
    using keeps_selected by (simp add: keeps_log_def)
  then have "log_ok env (snd (snd ?out))"
    by (auto simp: cached_log_def split: prod.splits sum.splits)
  with Inr show ?thesis
    by (simp add: build_upload_quote_def split_beta log_ok_def sample_ok_def Let_def list_all_iff)
qed

section \<open>Adding up\<close>

text \<open>The value of an amount shown in a quote.\<close>

definition shown_amount :: "string \<Rightarrow> u128" where
  "shown_amount s = (case amount s of Inr w \<Rightarrow> w | Inl _ \<Rightarrow> 0)"

lemma shown_u128 [simp]: "shown_amount (u128_to_string w) = w"
  by (simp add: shown_amount_def)

definition variants_storage :: "variant_out list \<Rightarrow> u128" where
  "variants_storage vs = sum_list (map (\<lambda>v. shown_amount (vo_storage_cost_atto v)) vs)"

definition variants_gas :: "variant_out list \<Rightarrow> u128" where
  "variants_gas vs = sum_list (map (\<lambda>v. shown_amount (vo_estimated_gas_cost_wei v)) vs)"

definition original_storage :: "original_out option \<Rightarrow> u128" where
  "original_storage oo = (case oo of None \<Rightarrow> 0 | Some x \<Rightarrow> shown_amount (oo_storage_cost_atto x))"

definition original_gas :: "original_out option \<Rightarrow> u128" where
  "original_gas oo = (case oo of None \<Rightarrow> 0 | Some x \<Rightarrow> shown_amount (oo_estimated_gas_cost_wei x))"

lemma qbind_Inr:
  assumes "fst (qbind m f s) = Inr y"
  obtains x s' where "m s = (Inr x, s')" "fst (f x s') = Inr y"
  using assms by (cases "m s"; cases "fst (m s)") (auto simp: qbind_def)

lemma price_variant_shown:
  assumes "fst (price_variant env price req source r s) = Inr (v, u)"
  shows "qt_storage u = shown_amount (vo_storage_cost_atto v) \<and> qt_gas u = shown_amount (vo_estimated_gas_cost_wei v) \<and>
    qt_segments u = vo_segment_count v"
  using assms unfolding price_variant_def Let_def split_beta
  by (auto elim!: qbind_Inr simp: qreturn_def split: if_splits)

lemma quote_variants_shown:
  "fst (quote_variants env price req source rs t s) = Inr (vs, t') \<Longrightarrow>
    qt_storage t' = qt_storage t + variants_storage vs \<and> qt_gas t' = qt_gas t + variants_gas vs"
proof (induction rs arbitrary: t s vs t')
  case Nil
  then show ?case by (simp add: qreturn_def variants_storage_def variants_gas_def)
next
  case (Cons r rs)
  from Cons.prems obtain x s1 where v: "price_variant env price req source r s = (Inr x, s1)"
    and rest: "fst (qbind (quote_variants env price req source rs (add_totals t (snd x))) (\<lambda>(ws, t'). qreturn (fst x # ws, t')) s1) = Inr (vs, t')"
    unfolding quote_variants.simps split_beta by (rule qbind_Inr)
  from rest obtain ws s2 where ws: "quote_variants env price req source rs (add_totals t (snd x)) s1 = (Inr (ws, t'), s2)"
    "vs = fst x # ws"
    by (auto elim!: qbind_Inr simp: qreturn_def)
  have "fst (price_variant env price req source r s) = Inr (fst x, snd x)" using v by simp
  note u = price_variant_shown [OF this]
  show ?case
    using Cons.IH [of "add_totals t (snd x)" s1 ws t'] ws u
    by (simp add: add_totals_def variants_storage_def variants_gas_def)
qed

lemma quote_original_shown:
  "fst (quote_original env price req t s) = Inr (oo, t') \<Longrightarrow>
    qt_storage t' = qt_storage t + original_storage oo \<and> qt_gas t' = qt_gas t + original_gas oo"
  by (auto simp: quote_original_def Let_def qreturn_def add_totals_def totals_of_quote_def original_storage_def
      original_gas_def elim!: qbind_Inr split: if_splits)

text \<open>The price of a size by the prices of samples that a quote has collected: nothing for nothing, and the
  price of its sample scaled otherwise.\<close>

definition collected_price :: "pricing_env \<Rightarrow> cost_cache \<Rightarrow> int \<Rightarrow> quote_value option" where
  "collected_price env cache n =
     (if n \<le> 0
      then Some \<lparr>qv_sampled = False, qv_storage_cost_atto = 0, qv_estimated_gas_cost_wei = 0, qv_chunk_count = 0,
        qv_payment_mode = qe_payment_mode env\<rparr>
      else
        (let k = (case quote_sample_bytes n (qe_max_sample_bytes env) of
               Some k \<Rightarrow> k | None \<Rightarrow> int min_self_encryption_bytes)
         in map_option (scale_quote (max n (int min_self_encryption_bytes)) k) (map_of cache k)))"

text \<open>Every collected price is one that the gateway answered for that sample.\<close>

definition from_gateway :: "pricing_env \<Rightarrow> 's price_fn \<Rightarrow> cost_cache \<Rightarrow> bool" where
  "from_gateway env price cache =
     list_all (\<lambda>(k, v). \<exists>s e s'. price (nat k) s = (Inr e, s') \<and> quote_of_estimate env e = Inr v) cache"

text \<open>A step of a quote only adds prices, which the gateway answered.\<close>

definition collects :: "pricing_env \<Rightarrow> 's price_fn \<Rightarrow> ('s, 'a) quoting \<Rightarrow> bool" where
  "collects env price m \<longleftrightarrow>
     (\<forall>s r s'. m s = (r, s') \<longrightarrow> map_of (fst s) \<subseteq>\<^sub>m map_of (fst s') \<and>
        (from_gateway env price (fst s) \<longrightarrow> from_gateway env price (fst s')))"

lemma collectsI:
  "(\<And>s r s'. m s = (r, s') \<Longrightarrow> map_of (fst s) \<subseteq>\<^sub>m map_of (fst s') \<and>
     (from_gateway env price (fst s) \<longrightarrow> from_gateway env price (fst s'))) \<Longrightarrow> collects env price m"
  unfolding collects_def by blast

lemma collects_mono: "collects env price m \<Longrightarrow> m s = (r, s') \<Longrightarrow> map_of (fst s) \<subseteq>\<^sub>m map_of (fst s')"
  and collects_honest: "collects env price m \<Longrightarrow> m s = (r, s') \<Longrightarrow> from_gateway env price (fst s) \<Longrightarrow>
    from_gateway env price (fst s')"
  unfolding collects_def by blast+

lemma collects_qreturn [simp]: "collects env price (qreturn x)"
  by (rule collectsI) (simp add: qreturn_def)

lemma collects_qbind: "collects env price m \<Longrightarrow> (\<And>x. collects env price (f x)) \<Longrightarrow> collects env price (qbind m f)"
proof (rule collectsI)
  fix s r s'
  assume m: "collects env price m" and f: "\<And>x. collects env price (f x)" and run: "qbind m f s = (r, s')"
  obtain r1 s1 where ms: "m s = (r1, s1)" by (cases "m s")
  note first = collects_mono [OF m ms] collects_honest [OF m ms]
  show "map_of (fst s) \<subseteq>\<^sub>m map_of (fst s') \<and> (from_gateway env price (fst s) \<longrightarrow> from_gateway env price (fst s'))"
  proof (cases r1)
    case (Inl e)
    with run ms first show ?thesis by (simp add: qbind_def)
  next
    case (Inr x)
    with run ms have "f x s1 = (r, s')" by (simp add: qbind_def)
    then show ?thesis
      using first collects_mono [OF f [of x]] collects_honest [OF f [of x]] by (blast intro: map_le_trans)
  qed
qed

lemma collects_sample: "collects env price (quote_sample env price k)"
proof (rule collectsI)
  fix s r s'
  assume run: "quote_sample env price k s = (r, s')"
  obtain cache t where s: "s = (cache, t)" by (cases s)
  show "map_of (fst s) \<subseteq>\<^sub>m map_of (fst s') \<and> (from_gateway env price (fst s) \<longrightarrow> from_gateway env price (fst s'))"
  proof (cases "map_of cache k")
    case (Some v)
    with run show ?thesis by (simp add: s quote_sample_def)
  next
    case None
    obtain answer t' where asked: "price (nat k) t = (answer, t')" by (cases "price (nat k) t")
    consider "s' = (cache, t')" | e v where "answer = Inr e" "quote_of_estimate env e = Inr v" "s' = ((k, v) # cache, t')"
      using run None asked by (auto simp: s quote_sample_def split: sum.splits dest: sym)
    then show ?thesis
    proof cases
      case 1
      then show ?thesis by (simp add: s)
    next
      case 2
      with asked have "\<exists>s e s'. price (nat k) s = (Inr e, s') \<and> quote_of_estimate env e = Inr v" by blast
      with 2 None show ?thesis by (auto simp: s from_gateway_def map_le_def)
    qed
  qed
qed

lemma sample_collected: "quote_sample env price k s = (Inr v, s') \<Longrightarrow> map_of (fst s') k = Some v"
  by (cases s) (auto simp: quote_sample_def split: option.splits prod.splits sum.splits)

lemma collects_size: "collects env price (quote_data_size env price n)"
  by (auto simp: quote_data_size_def Let_def intro!: collects_qbind collects_sample)

lemma size_collected:
  assumes "quote_data_size env price n s = (Inr q, s')"
  shows "collected_price env (fst s') n = Some q"
proof (cases "n \<le> 0")
  case True
  with assms show ?thesis by (simp add: quote_data_size_def qreturn_def collected_price_def)
next
  case False
  let ?k = "case quote_sample_bytes n (qe_max_sample_bytes env) of Some k \<Rightarrow> k | None \<Rightarrow> int min_self_encryption_bytes"
  from False assms obtain v where "quote_sample env price ?k s = (Inr v, s')"
    "q = scale_quote (max n (int min_self_encryption_bytes)) ?k v"
    by (auto simp: quote_data_size_def Let_def qbind_def qreturn_def split: prod.splits sum.splits)
  with sample_collected [OF this(1)] False show ?thesis by (simp add: collected_price_def Let_def)
qed

lemma collected_mono:
  "collected_price env c n = Some q \<Longrightarrow> map_of c \<subseteq>\<^sub>m map_of c' \<Longrightarrow> collected_price env c' n = Some q"
  by (auto simp: collected_price_def Let_def map_le_def dom_def split: if_splits)

lemma collects_variants: "collects env price (quote_variants env price req source rs t)"
proof -
  have "collects env price (price_variant env price req source r)" for r
    unfolding price_variant_def Let_def split_beta
    by (intro collects_qbind collects_size) (auto intro: collects_qbind collects_size)
  then show ?thesis by (induction rs arbitrary: t) (auto intro!: collects_qbind)
qed

lemma collects_original: "collects env price (quote_original env price req t)"
  by (auto simp: quote_original_def Let_def intro!: collects_qbind collects_size)

lemma original_collected:
  assumes "quote_original env price req t s = (Inr (oo, t'), s')"
  shows "if ur_upload_original req
    then \<exists>x p. oo = Some x \<and> ur_source_size_bytes req \<in> {None, Some (oo_estimated_bytes x)} \<and>
      collected_price env (fst s') (oo_estimated_bytes x) = Some p \<and>
      shown_amount (oo_storage_cost_atto x) = qv_storage_cost_atto p \<and>
      shown_amount (oo_estimated_gas_cost_wei x) = qv_estimated_gas_cost_wei p
    else oo = None"
proof (cases "ur_upload_original req")
  case True
  let ?n = "case ur_source_size_bytes req of Some n \<Rightarrow> n | None \<Rightarrow> 0"
  from True assms obtain p where p: "quote_data_size env price ?n s = (Inr p, s')"
    "oo = Some \<lparr>oo_estimated_bytes = ?n, oo_chunk_count = qv_chunk_count p,
       oo_storage_cost_atto = u128_to_string (qv_storage_cost_atto p),
       oo_estimated_gas_cost_wei = u128_to_string (qv_estimated_gas_cost_wei p), oo_payment_mode = qv_payment_mode p\<rparr>"
    by (auto simp: quote_original_def Let_def qbind_def qreturn_def split: prod.splits sum.splits)
  with size_collected [OF p(1)] True show ?thesis by (auto split: option.split)
next
  case False
  with assms show ?thesis by (simp add: quote_original_def qreturn_def)
qed

text \<open>C33. The amounts of a quote add up: for storage and for gas, the total shown is the sum of what is shown
  for the renditions and for the original file, and of the price of the metadata, in 128-bit arithmetic.
  The metadata and the original file cost what the samples of their sizes cost, scaled, by the prices that
  the quote has collected, and each of these is one that the gateway answered.
\<close>

theorem quote_adds_up:
  assumes "build_upload_quote env price req s = (Inr out, cache, s')"
  shows "from_gateway env price cache \<and>
    (\<exists>q. collected_price env cache (uo_metadata_bytes out) = Some q \<and>
      shown_amount (uo_storage_cost_atto out) =
        variants_storage (uo_variants out) + original_storage (uo_original_file out) + qv_storage_cost_atto q \<and>
      shown_amount (uo_estimated_gas_cost_wei out) =
        variants_gas (uo_variants out) + original_gas (uo_original_file out) + qv_estimated_gas_cost_wei q) \<and>
    (if ur_upload_original req
     then \<exists>x p. uo_original_file out = Some x \<and> ur_source_size_bytes req \<in> {None, Some (oo_estimated_bytes x)} \<and>
       collected_price env cache (oo_estimated_bytes x) = Some p \<and>
       shown_amount (oo_storage_cost_atto x) = qv_storage_cost_atto p \<and>
       shown_amount (oo_estimated_gas_cost_wei x) = qv_estimated_gas_cost_wei p
     else uo_original_file out = None)"
proof -
  from assms obtain source selected
    where sel: "quote_selected env price req source selected ([], s) = (Inr out, cache, s')"
    by (auto simp: build_upload_quote_def split: sum.splits)
  then obtain vs t1 s1 oo t2 s2 q
    where v: "quote_variants env price req source selected no_totals ([], s) = (Inr (vs, t1), s1)"
      and o': "quote_original env price req t1 s1 = (Inr (oo, t2), s2)"
      and q: "quote_data_size env price (quote_metadata_bytes (length vs) (qt_segments t2)) s2 = (Inr q, cache, s')"
      and out: "uo_storage_cost_atto out = u128_to_string (qt_storage t2 + qv_storage_cost_atto q)"
        "uo_estimated_gas_cost_wei out = u128_to_string (qt_gas t2 + qv_estimated_gas_cost_wei q)"
        "uo_metadata_bytes out = quote_metadata_bytes (length vs) (qt_segments t2)"
        "uo_variants out = vs" "uo_original_file out = oo"
    unfolding quote_selected_def Let_def
    by (auto simp: qbind_def qreturn_def add_totals_def totals_of_quote_def split: prod.splits sum.splits)
  have "qt_storage t2 = variants_storage vs + original_storage oo" "qt_gas t2 = variants_gas vs + original_gas oo"
    using quote_variants_shown [of env price req source selected no_totals "([], s)" vs t1]
      quote_original_shown [of env price req t1 s1 oo t2] v o' by (simp_all add: no_totals_def)
  moreover have "collected_price env cache (uo_metadata_bytes out) = Some q"
    using size_collected [OF q] by (simp add: out)
  moreover have "from_gateway env price cache"
    using collects_honest [OF collects_size q] collects_honest [OF collects_original o'] collects_honest [OF collects_variants v]
    by (simp add: from_gateway_def)
  moreover have "map_of (fst s2) \<subseteq>\<^sub>m map_of cache" using collects_mono [OF collects_size q] by simp
  note later = collected_mono [OF _ this]
  ultimately show ?thesis
    using original_collected [OF o'] later by (auto simp: out split: if_splits)
qed

text \<open>A gateway that asks the same for every sample.\<close>

definition example_pricing_env :: pricing_env where
  "example_pricing_env =
     \<lparr>qe_payment_mode = ''auto'', qe_hls_segment_duration = Fin 6, qe_max_sample_bytes = 100,
      qe_transcoded_overhead = Fin 1,
      qe_limits = \<lparr>ml_max_duration_seconds = Fin 14400, ml_max_source_pixels = 35389440, ml_max_source_long_edge = 8192\<rparr>,
      qe_show_error = (\<lambda>_. ''invalid'')\<rparr>"

definition example_price :: "nat \<Rightarrow> unit \<Rightarrow> (string + cost_estimate) \<times> unit" where
  "example_price n s =
     (Inr \<lparr>ce_cost = Some ''7'', ce_estimated_gas_cost_wei = Some ''2'', ce_chunk_count = Some 3, ce_payment_mode = None\<rparr>, s)"

definition example_request :: upload_quote_request where
  "example_request =
     \<lparr>ur_duration_seconds = Fin 15, ur_resolutions = [''144p''], ur_source_width = Some 256, ur_source_height = Some 144,
      ur_upload_original = True, ur_source_size_bytes = Some 1500000,
      ur_encode_settings = \<lparr>es_video_codec = H264, es_video_bitrate_overrides = [], es_audio_bitrate_kbps = None\<rparr>\<rparr>"

text \<open>A quote fails only where the request is refused or a price is.\<close>

definition answers :: "('s, 'a) quoting \<Rightarrow> bool" where
  "answers m \<longleftrightarrow> (\<forall>s. is_ok (fst (m s)))"

lemma answers_qreturn [simp]: "answers (qreturn x)"
  by (simp add: answers_def qreturn_def)

lemma answers_qbind: "answers m \<Longrightarrow> (\<And>x. answers (f x)) \<Longrightarrow> answers (qbind m f)"
  unfolding answers_def
proof
  fix s
  assume m: "\<forall>s. is_ok (fst (m s))" and f: "\<And>x. \<forall>s. is_ok (fst (f x s))"
  obtain r s' where ms: "m s = (r, s')" by (cases "m s")
  with m have "is_ok r" by (metis fst_conv)
  then obtain x where "r = Inr x" by (auto simp: is_ok_iff)
  with ms f [of x, rule_format, of s'] show "is_ok (fst (qbind m f s))" by (simp add: qbind_def)
qed

lemma answers_data_size:
  fixes price :: "'s price_fn"
  assumes "\<And>n s. \<exists>e s'. price n s = (Inr e, s') \<and> is_ok (quote_of_estimate env e)"
  shows "answers (quote_data_size env price n)"
proof -
  have "answers (quote_sample env price k)" for k
    unfolding answers_def
  proof (rule allI)
    fix s :: "cost_cache \<times> 's"
    obtain cache t where s: "s = (cache, t)" by (cases s)
    obtain e t' where "price (nat k) t = (Inr e, t')" "is_ok (quote_of_estimate env e)" using assms by blast
    then show "is_ok (fst (quote_sample env price k s))"
      by (auto simp: s quote_sample_def is_ok_iff split: option.split)
  qed
  then show ?thesis by (auto simp: quote_data_size_def Let_def intro!: answers_qbind)
qed

lemma build_answers:
  fixes price :: "'s price_fn"
  assumes price: "\<And>n s. \<exists>e s'. price n s = (Inr e, s') \<and> is_ok (quote_of_estimate env e)"
    and "check_request env req = Inr x"
  obtains out where "fst (build_upload_quote env price req s) = Inr out"
proof -
  note size = answers_data_size [OF price]
  have variant: "answers (price_variant env price req source r)" for source r
    unfolding price_variant_def Let_def split_beta
    by (intro answers_qbind size) (auto intro: answers_qbind size)
  have variants: "answers (quote_variants env price req source rs t)" for source rs t
    by (induction rs arbitrary: t) (auto intro!: answers_qbind variant)
  have original: "answers (quote_original env price req t)" for t
    by (auto simp: quote_original_def Let_def intro!: answers_qbind size)
  have "answers (quote_selected env price req (fst x) (snd x))"
    unfolding quote_selected_def Let_def split_beta
    by (intro answers_qbind variants original size answers_qreturn)
  then have "is_ok (fst (build_upload_quote env price req s))"
    using assms(2) by (simp add: answers_def build_upload_quote_def split_beta)
  with that show ?thesis by (auto simp: is_ok_iff)
qed

theorem quote_adds_up_witness:
  "\<exists>out cache q. build_upload_quote example_pricing_env example_price example_request () = (Inr out, cache, ()) \<and>
    from_gateway example_pricing_env example_price cache \<and>
    collected_price example_pricing_env cache (uo_metadata_bytes out) = Some q \<and>
    shown_amount (uo_storage_cost_atto out) =
      variants_storage (uo_variants out) + original_storage (uo_original_file out) + qv_storage_cost_atto q"
proof -
  have price: "\<exists>e s'. example_price n s = (Inr e, s') \<and> is_ok (quote_of_estimate example_pricing_env e)" for n s
    by (simp add: example_price_def quote_of_estimate_def parse_cost_u128_def amount_def is_ascii_digit_def digits_value_def)
  have "check_request example_pricing_env example_request = Inr (Some (256, 144), [''144p''])"
    by (simp add: check_request_def example_request_def example_pricing_env_def source_dimensions_def
        enforce_upload_media_limits_def f64_lt_def resolution_preset_def presets_def validate_encode_settings_def)
  then obtain out where "fst (build_upload_quote example_pricing_env example_price example_request ()) = Inr out"
    by (rule build_answers [OF price])
  then obtain cache where out: "build_upload_quote example_pricing_env example_price example_request () = (Inr out, cache, ())"
    by (metis prod.collapse unit.exhaust)
  from quote_adds_up [OF out] out show ?thesis by blast
qed

end
