(* ===== verification/Intake_Properties.thy ===== *)
theory Intake_Properties
  imports Upload_Intake
begin

text \<open>
  The properties of taking in an upload: the stored name is harmless, the stored file is whole and within
  its bounds, and an upload is accepted entirely or leaves neither a directory nor a row.
\<close>

section \<open>File names\<close>

lemma split_name_parts: "set (fst (split_name n)) \<subseteq> set n"
  by (auto simp: split_name_def Let_def dest: in_set_takeD)

definition name_char :: "char \<Rightarrow> bool" where
  "name_char c \<longleftrightarrow> is_ascii_alphanumeric c \<or> safe_mark c"

lemma safe_char_name: "name_char (safe_char x)"
  by (auto simp: safe_char_def name_char_def safe_mark_def split: option.split list.split)

lemma trim_marks_prefix: "prefix (trim_marks s) (dropWhile safe_mark s)"
  unfolding trim_marks_def prefix_def
  by (metis rev_append rev_rev_ident takeWhile_dropWhile_id)

lemma trim_marks_head: "trim_marks s \<noteq> [] \<Longrightarrow> \<not> safe_mark (hd (trim_marks s))"
proof -
  assume "trim_marks s \<noteq> []"
  then obtain t where "dropWhile safe_mark s = trim_marks s @ t" using trim_marks_prefix by (auto simp: prefix_def)
  with \<open>trim_marks s \<noteq> []\<close> have "dropWhile safe_mark s \<noteq> []" "hd (dropWhile safe_mark s) = hd (trim_marks s)" by auto
  then show ?thesis by (metis hd_dropWhile)
qed

lemma trim_marks_set: "set (trim_marks s) \<subseteq> set s"
  using set_mono_prefix [OF trim_marks_prefix [of s]] set_dropWhileD by fastforce

lemma ascii_lower_alphanumeric: "is_ascii_alphanumeric c \<Longrightarrow> is_ascii_alphanumeric (ascii_lower c)"
  by (auto simp: is_ascii_alphanumeric_def is_ascii_digit_def ascii_lower_def of_char_of)

text \<open>Whatever name a client gives its file, the name it is stored under is not empty, has at most 128
  bytes, consists of ASCII letters, digits, dots, underscores and hyphens only, and starts with a letter
  or a digit: it names neither a directory nor a hidden file, and no path.
\<close>

theorem stored_name_is_safe:
  "let s = sanitize_upload_filename filename
   in s \<noteq> [] \<and> length s \<le> 128 \<and> list_all name_char s \<and> is_ascii_alphanumeric (hd s)"
proof -
  define base where "base = (case Option.bind filename file_name of Some n \<Rightarrow> n | None \<Rightarrow> ''upload'')"
  define t where "t = trim_marks (map safe_char (utf8_chars (fst (split_name base))))"
  define stem where "stem = (if t = [] then ''upload'' else t)"
  define kept where
    "kept = to_ascii_lowercase (take 15 (filter is_ascii_alphanumeric (case snd (split_name base) of Some e \<Rightarrow> e | None \<Rightarrow> [])))"
  define suffix where "suffix = (if kept = [] then [] else CHR ''.'' # kept)"
  have s: "sanitize_upload_filename filename = take (max (128 - length suffix) 1) stem @ suffix"
    by (simp only: sanitize_upload_filename_def base_def t_def stem_def kept_def suffix_def split_beta Let_def)
  have "length kept \<le> 15" by (simp add: kept_def to_ascii_lowercase_def)
  then have len: "length suffix \<le> 16" by (simp add: suffix_def)
  have "is_ascii_alphanumeric c" if "c \<in> set kept" for c
    using that ascii_lower_alphanumeric by (auto simp: kept_def to_ascii_lowercase_def dest!: in_set_takeD)
  then have suffix_ok: "list_all name_char suffix"
    by (auto simp: suffix_def list_all_iff name_char_def safe_mark_def)
  have upload: "list_all name_char ''upload'' \<and> is_ascii_alphanumeric (CHR ''u'')" by code_simp
  have "list_all name_char t"
    using trim_marks_set safe_char_name by (fastforce simp: t_def list_all_iff)
  moreover have "is_ascii_alphanumeric (hd t)" if "t \<noteq> []"
    using trim_marks_head that calculation by (auto simp: t_def list_all_iff name_char_def)
  ultimately have stem: "stem \<noteq> []" "list_all name_char stem" "is_ascii_alphanumeric (hd stem)"
    using upload by (auto simp: stem_def)
  obtain n where n: "max (128 - length suffix) 1 = Suc n" using not0_implies_Suc by force
  obtain c cs where "stem = c # cs" using stem(1) by (cases stem) simp_all
  with stem n len suffix_ok show ?thesis
    by (auto simp: s Let_def list_all_iff dest: in_set_takeD)
qed

section \<open>The stored file\<close>

text \<open>The chunks of a file, when all of them arrive.\<close>

definition got_chunks :: "chunk_event mread list \<Rightarrow> chunk_event list" where
  "got_chunks rs = List.map_filter (\<lambda>r. case r of Got c \<Rightarrow> Some c | _ \<Rightarrow> None) rs"

definition chunk_fits :: "intake_env \<Rightarrow> chunk_event \<Rightarrow> bool" where
  "chunk_fits env c \<longleftrightarrow>
     ck_write c = None \<and>
     (case ck_free c of Inl _ \<Rightarrow> False | Inr free \<Rightarrow> min (2 ^ 64 - 1) (ie_min_free_bytes env + length (ck_data c)) \<le> free)"

lemma store_chunks_Inr:
  "store_chunks env written rs = Inr n \<Longrightarrow> written \<le> ie_max_file_bytes env \<Longrightarrow>
    rs = map Got (got_chunks rs) \<and> n = written + length (concat (map ck_data (got_chunks rs))) \<and>
    n \<le> ie_max_file_bytes env \<and> list_all (chunk_fits env) (got_chunks rs)"
proof (induction rs arbitrary: written)
  case Nil
  then show ?case by (simp add: got_chunks_def map_filter_simps)
next
  case (Cons r rs)
  then obtain c where r: "r = Got c" by (cases r) (simp_all add: timeout_multipart_read_def)
  from Cons.prems r have *: "written + length (ck_data c) \<le> ie_max_file_bytes env"
    "ensure_upload_disk_space env (ck_free c) (length (ck_data c)) = Inr ()" "ck_write c = None"
    "store_chunks env (written + length (ck_data c)) rs = Inr n"
    by (auto simp: timeout_multipart_read_def Let_def too_large_def store_error_def split: if_splits option.splits)
  then have "chunk_fits env c"
    by (auto simp: chunk_fits_def ensure_upload_disk_space_def Let_def split: sum.splits if_splits)
  with Cons.IH [OF *(4,1)] r show ?case by (simp add: got_chunks_def map_filter_simps)
qed

text \<open>A file that is stored is whole and within its bounds: every chunk arrived and was written, their
  lengths add up to the size that is recorded, the size is positive and at most the configured maximum,
  and before each chunk the disk had room for it beside the reserve.
\<close>

theorem stored_file_is_whole:
  assumes "store_file env fe = Inr n"
  shows "fe_chunks fe = map Got (got_chunks (fe_chunks fe)) \<and>
    n = length (concat (map ck_data (got_chunks (fe_chunks fe)))) \<and> 0 < n \<and> n \<le> ie_max_file_bytes env \<and>
    list_all (chunk_fits env) (got_chunks (fe_chunks fe))"
proof -
  from assms have "store_chunks env 0 (fe_chunks fe) = Inr n" "0 < n"
    by (auto simp: store_file_def split: if_splits)
  with store_chunks_Inr [OF this(1)] show ?thesis by simp
qed

section \<open>All or nothing\<close>

lemma receive_upload_Inr:
  assumes "receive_upload env hs username job_dir w = Some (Inr a)"
  obtains f where "read_form env job_dir (iw_form w) new_form = Some (Inr f)" "accepted_of_form env job_dir username f = Inr a"
  using assms by (auto simp: receive_upload_def split: sum.splits)

text \<open>The file of a form was stored under a safe name in the upload's directory.\<close>

definition form_file_ok :: "path \<Rightarrow> upload_form \<Rightarrow> bool" where
  "form_file_ok job_dir f \<longleftrightarrow>
     (case uf_file f of
        None \<Rightarrow> True
      | Some (name, source, _) \<Rightarrow> source = job_dir @ [''original_'' @ name] \<and> (\<exists>given. name = sanitize_upload_filename given))"

lemma set_field_file: "set_field env name t f = Inr f' \<Longrightarrow> uf_file f' = uf_file f"
  by (auto simp: set_field_def split: if_splits)

lemma take_file_ok: "take_file env job_dir fe f = Some (Inr f') \<Longrightarrow> form_file_ok job_dir f'"
  by (auto simp: take_file_def form_file_ok_def Let_def split: if_splits sum.splits)

lemma read_form_ok:
  "read_form env job_dir rs f = Some (Inr f') \<Longrightarrow> form_file_ok job_dir f \<Longrightarrow> form_file_ok job_dir f'"
proof (induction env job_dir rs f rule: read_form.induct)
  case (1 env job_dir f)
  then show ?case by simp
next
  case (2 env job_dir r rs f)
  then obtain x where x: "timeout_multipart_read r ''reading multipart upload'' = Inr x"
    by (auto split: sum.splits)
  show ?case
  proof (cases x)
    case Unnamed
    with 2 x show ?thesis by simp
  next
    case (FileField fe)
    with 2(4) x obtain g where g: "take_file env job_dir fe f = Some (Inr g)" "read_form env job_dir rs g = Some (Inr f')"
      by (auto split: option.splits sum.splits)
    with 2(2) [OF x FileField g(1)] show ?thesis by (simp add: take_file_ok)
  next
    case (TextField name v)
    with 2(4) x obtain g where g: "rbind (timeout_multipart_read v (''reading form field '' @ name)) (\<lambda>t. set_field env name t f) = Inr g"
      "read_form env job_dir rs g = Some (Inr f')"
      by (auto split: sum.splits simp del: rbind_eq_Inr)
    then have "uf_file g = uf_file f" by (auto dest: set_field_file)
    with 2(3) [OF x TextField g(1)] 2(5) g(2) show ?thesis by (simp add: form_file_ok_def)
  qed
qed

text \<open>What an accepted upload promises to the pipeline.\<close>

definition accepted_ok :: "intake_env \<Rightarrow> path \<Rightarrow> accepted_fields \<Rightarrow> bool" where
  "accepted_ok env job_dir a \<longleftrightarrow>
     af_title a \<noteq> [] \<and> af_resolutions a \<noteq> [] \<and> list_all (\<lambda>r. resolution_preset r \<noteq> None) (af_resolutions a) \<and>
     validate_encode_settings (af_encode_settings a) (af_resolutions a) = Inr () \<and>
     af_job_dir a = show_path job_dir \<and>
     (\<exists>given. af_original_filename a = sanitize_upload_filename given) \<and>
     af_source_path a = show_path (job_dir @ [''original_'' @ af_original_filename a])"

lemma ok_or_bad_Inr: "ok_or_bad x d = Inr y \<longleftrightarrow> x = Some y"
  by (cases x) (simp_all add: ok_or_bad_def)

lemma filter_option_Some: "filter_option P x = Some y \<longleftrightarrow> x = Some y \<and> P y"
  by (cases x) (auto simp: filter_option_def)

lemma accepted_of_form_ok:
  assumes "accepted_of_form env job_dir username f = Inr a" "form_file_ok job_dir f"
  shows "accepted_ok env job_dir a"
proof -
  let ?selected = "parse_resolutions (uf_resolutions f)"
  let ?settings = "\<lparr>es_video_codec = uf_video_codec f, es_video_bitrate_overrides = uf_video_bitrate_overrides f,
      es_audio_bitrate_kbps = uf_audio_bitrate_kbps f\<rparr>"
  from assms(1) obtain title stored where title: "filter_option (\<lambda>t. t \<noteq> []) (uf_title f) = Some title" and stored: "uf_file f = Some stored"
    unfolding accepted_of_form_def rbind_eq_Inr ok_or_bad_Inr by blast
  obtain name source m where f: "stored = (name, source, m)" by (cases stored)
  from assms(1) have sel: "?selected \<noteq> []" "validate_encode_settings ?settings ?selected = Inr ()"
    and a: "a = \<lparr>af_title = title, af_original_filename = name, af_description = uf_description f,
        af_job_dir = show_path job_dir, af_source_path = show_path source, af_resolutions = ?selected,
        af_encode_settings = ?settings, af_show_manifest_address = uf_show_manifest_address f,
        af_upload_original = uf_upload_original f, af_publish_when_ready = uf_publish_when_ready f,
        af_username = username\<rparr>"
    unfolding accepted_of_form_def title stored f Let_def ok_or_bad_def option.case rbind_simps prod.case
    by (simp_all split: if_splits)
  have "list_all (\<lambda>r. resolution_preset r \<noteq> None) ?selected" by (simp add: parse_resolutions_def list_all_iff)
  moreover have "title \<noteq> []" using title by (simp add: filter_option_Some)
  moreover have "source = job_dir @ [''original_'' @ name]" "\<exists>given. name = sanitize_upload_filename given"
    using assms(2) by (simp_all add: form_file_ok_def stored f)
  ultimately show ?thesis using sel by (simp only: accepted_ok_def a) simp
qed

lemma accept_upload_cases:
  assumes "accept_upload env hs username now w db = Some r"
  obtains e removed where "r = \<lparr>ir_answer = Inl e, ir_directory = removed, ir_db = db\<rparr>" "removed \<le> iw_remove_fails w"
    | a where "receive_upload env hs username (me_upload_temp_dir (ie_media env) @ [iw_video_id w]) w = Some (Inr a)"
        "\<not> exists_where (\<lambda>v. vd_id v = iw_video_id w) (videos db)"
        "r = (case iw_read_back w of
            Inl e \<Rightarrow> \<lparr>ir_answer = Inl e, ir_directory = iw_remove_fails w,
              ir_db = insert_video (accepted_video now (iw_video_id w) a) db\<rparr>
          | Inr _ \<Rightarrow> \<lparr>ir_answer = Inr a, ir_directory = True, ir_db = insert_video (accepted_video now (iw_video_id w) a) db\<rparr>)"
proof (cases "(case content_length hs of
               Some n \<Rightarrow> n > (ie_max_file_bytes env + multipart_overhead_allowance) mod 2 ^ 64 | None \<Rightarrow> False) \<or> iw_slots w = 0 \<or>
             iw_create_dir w \<noteq> None")
  case True
  with assms have "\<exists>e. r = \<lparr>ir_answer = Inl e, ir_directory = False, ir_db = db\<rparr>"
    unfolding accept_upload_def Let_def too_large_def by (auto split: if_splits option.splits)
  then show ?thesis using that(1) [of _ False] by auto
next
  case False
  let ?received = "receive_upload env hs username (me_upload_temp_dir (ie_media env) @ [iw_video_id w]) w"
  from False assms obtain x where x: "?received = Some x"
    unfolding accept_upload_def Let_def by (cases ?received) auto
  show ?thesis
  proof (cases x)
    case (Inl e)
    with x False assms that(1) [of e "iw_remove_fails w"] show ?thesis unfolding accept_upload_def Let_def by simp
  next
    case (Inr a)
    show ?thesis
    proof (cases "exists_where (\<lambda>v. vd_id v = iw_video_id w) (videos db) \<or> \<not> is_ok (iw_insert w)")
      case True
      then obtain e where "(case iw_insert w of Inl e \<Rightarrow> (Inl e, db) | Inr _ \<Rightarrow> accept_video now (iw_video_id w) a db) = (Inl e, db)"
        by (cases "iw_insert w") (auto simp: accept_video_def)
      with x Inr False assms that(1) [of e "iw_remove_fails w"] show ?thesis
        unfolding accept_upload_def Let_def by simp
    next
      case fresh: False
      then have "(case iw_insert w of Inl e \<Rightarrow> (Inl e, db) | Inr _ \<Rightarrow> accept_video now (iw_video_id w) a db) =
          (Inr (), insert_video (accepted_video now (iw_video_id w) a) db)"
        by (cases "iw_insert w") (simp_all add: accept_video_def)
      with x Inr False assms have "r = (case iw_read_back w of
            Inl e \<Rightarrow> \<lparr>ir_answer = Inl e, ir_directory = iw_remove_fails w,
              ir_db = insert_video (accepted_video now (iw_video_id w) a) db\<rparr>
          | Inr _ \<Rightarrow> \<lparr>ir_answer = Inr a, ir_directory = True, ir_db = insert_video (accepted_video now (iw_video_id w) a) db\<rparr>)"
        unfolding accept_upload_def Let_def by (auto split: sum.splits)
      with x Inr fresh show ?thesis using that(2) by simp
    qed
  qed
qed

text \<open>What was asked for in the form is what is accepted.\<close>

definition as_asked :: "upload_form \<Rightarrow> path \<Rightarrow> string \<Rightarrow> accepted_fields \<Rightarrow> bool" where
  "as_asked f job_dir username a \<longleftrightarrow>
     uf_title f = Some (af_title a) \<and> af_description a = uf_description f \<and>
     map_option (\<lambda>(name, source, _). (name, show_path source)) (uf_file f) = Some (af_original_filename a, af_source_path a) \<and>
     af_job_dir a = show_path job_dir \<and> af_resolutions a = parse_resolutions (uf_resolutions f) \<and>
     es_video_codec (af_encode_settings a) = uf_video_codec f \<and>
     es_video_bitrate_overrides (af_encode_settings a) = uf_video_bitrate_overrides f \<and>
     es_audio_bitrate_kbps (af_encode_settings a) = uf_audio_bitrate_kbps f \<and>
     af_show_manifest_address a = uf_show_manifest_address f \<and> af_upload_original a = uf_upload_original f \<and>
     af_publish_when_ready a = uf_publish_when_ready f \<and> af_username a = username"

lemma accepted_as_asked: "accepted_of_form env job_dir username f = Inr a \<Longrightarrow> as_asked f job_dir username a"
  by (auto simp: accepted_of_form_def as_asked_def ok_or_bad_Inr filter_option_Some Let_def split: if_splits)

text \<open>The row of an accepted upload: pending, private, with nothing quoted, priced or published.\<close>

definition pending_row :: "int \<Rightarrow> string \<Rightarrow> accepted_fields \<Rightarrow> video_row \<Rightarrow> bool" where
  "pending_row now video_id a v \<longleftrightarrow>
     vd_id v = video_id \<and> vd_status v = ''pending'' \<and> vd_title v = af_title a \<and>
     vd_original_filename v = af_original_filename a \<and>
     vd_description v = (if af_description a = [] then None else Some (af_description a)) \<and>
     vd_job_dir v = Some (af_job_dir a) \<and> vd_job_source_path v = Some (af_source_path a) \<and>
     vd_requested_resolutions v = Some (af_resolutions a) \<and> vd_encode_settings v = Some (af_encode_settings a) \<and>
     vd_show_manifest_address v = af_show_manifest_address a \<and> vd_upload_original v = af_upload_original a \<and>
     vd_publish_when_ready v = af_publish_when_ready a \<and> vd_user_id v = Some (af_username a) \<and>
     \<not> vd_is_public v \<and> \<not> vd_show_original_filename v \<and> vd_created_at v = now \<and> vd_updated_at v = now \<and>
     vd_manifest_address v = None \<and> vd_catalog_address v = None \<and> vd_all_catalog_address v = None \<and>
     vd_original_file_address v = None \<and> vd_final_quote v = None \<and> vd_approved_quote_id v = None \<and>
     vd_error_message v = None"

lemma insert_pending:
  "pending_row now video_id a (accepted_video now video_id a)"
  "insert_video (accepted_video now video_id a) db = db\<lparr>videos := videos db @ [accepted_video now video_id a]\<rparr>"
  by (simp_all add: pending_row_def accepted_video_def insert_video_def is_ready_def)

text \<open>C32. An upload is accepted entirely or not at all. When it is accepted, its directory is kept, and the
  only change of the tables is one more row of videos: pending and private, with the title, the
  description, the flags and the supported resolutions that the form asked for, the checked settings, and
  the name and the path of the stored file. When it is refused, its directory is gone - unless removing it
  fails - and the tables are as before except where reading the inserted row back fails, which leaves a
  pending row whose directory is removed.
\<close>

theorem upload_all_or_nothing:
  assumes "accept_upload env hs username now w db = Some r"
    and "job_dir = me_upload_temp_dir (ie_media env) @ [iw_video_id w]"
  shows "(if is_ok (ir_answer r) then ir_directory r else ir_directory r \<le> iw_remove_fails w) \<and>
    (case ir_answer r of
       Inl e \<Rightarrow>
         ir_db r = db \<or>
         (iw_read_back w = Inl e \<and>
          (\<exists>a v. pending_row now (iw_video_id w) a v \<and> ir_db r = db\<lparr>videos := videos db @ [v]\<rparr>))
     | Inr a \<Rightarrow>
         (\<exists>f. read_form env job_dir (iw_form w) new_form = Some (Inr f) \<and> as_asked f job_dir username a) \<and>
         accepted_ok env job_dir a \<and> \<not> exists_where (\<lambda>v. vd_id v = iw_video_id w) (videos db) \<and>
         (\<exists>v. pending_row now (iw_video_id w) a v \<and> ir_db r = db\<lparr>videos := videos db @ [v]\<rparr>))"
  using assms(1)
proof (cases rule: accept_upload_cases)
  case (1 e removed)
  then show ?thesis by simp
next
  case (2 a)
  from 2(1) obtain f where f: "read_form env job_dir (iw_form w) new_form = Some (Inr f)"
    "accepted_of_form env job_dir username f = Inr a"
    unfolding assms(2) [symmetric] by (rule receive_upload_Inr)
  have "form_file_ok job_dir new_form" by (simp add: form_file_ok_def new_form_def)
  from accepted_of_form_ok [OF f(2) read_form_ok [OF f(1) this]] have ok: "accepted_ok env job_dir a" .
  have row: "\<exists>v. pending_row now (iw_video_id w) a v \<and>
      insert_video (accepted_video now (iw_video_id w) a) db = db\<lparr>videos := videos db @ [v]\<rparr>"
    using insert_pending by blast
  show ?thesis
  proof (cases "iw_read_back w")
    case (Inl e)
    with row 2(3) show ?thesis by auto
  next
    case (Inr u)
    with row 2(2,3) f ok accepted_as_asked [OF f(2)] show ?thesis by auto
  qed
qed

section \<open>An upload that is accepted\<close>

definition example_probe :: json where
  "example_probe =
     JObject [(''streams'', JArray [JObject [(''codec_type'', JString ''video''), (''width'', JInt 640), (''height'', JInt 360)]]),
       (''format'', JObject [(''duration'', JInt 12)])]"

definition example_intake :: intake_env where
  "example_intake =
     \<lparr>ie_max_file_bytes = 100, ie_min_free_bytes = 10,
      ie_media = \<lparr>me_canonicalize = Resolved, me_upload_temp_dir = [''data''], me_parse_json = (\<lambda>_. Some example_probe),
        me_limits = \<lparr>ml_max_duration_seconds = Fin 14400, ml_max_source_pixels = 33177600, ml_max_source_long_edge = 7680\<rparr>,
        me_ffmpeg_threads = 2, me_ffmpeg_filter_threads = 1, me_hls_segment_duration = Fin 6\<rparr>\<rparr>"

definition example_file :: file_event where
  "example_file =
     \<lparr>fe_name = Some ''../My Video!!.MP4'', fe_create = None,
      fe_chunks = [Got \<lparr>ck_data = ''abc'', ck_free = Inr 50, ck_write = None\<rparr>, Got \<lparr>ck_data = ''de'', ck_free = Inr 47, ck_write = None\<rparr>],
      fe_flush = None, fe_probe = Ended (Some 0) [''{}''] [], fe_rename = None\<rparr>"

definition example_intake_world :: intake_world where
  "example_intake_world =
     \<lparr>iw_slots = 2, iw_video_id = ''v1'', iw_create_dir = None, iw_free = Inr 50,
      iw_form = [Got (TextField ''title'' (Got ''Boats'')), Got (FileField example_file)], iw_insert = Inr (),
      iw_read_back = Inr (), iw_remove_fails = False\<rparr>"

lemma example_stored: "store_file example_intake example_file = Inr 5"
  by (simp add: store_file_def store_error_def example_file_def example_intake_def timeout_multipart_read_def
      ensure_upload_disk_space_def)

theorem stored_file_is_whole_witness:
  "store_file example_intake example_file = Inr 5 \<and> 5 \<le> ie_max_file_bytes example_intake"
  using stored_file_is_whole [OF example_stored] example_stored by simp

lemma example_name: "sanitize_upload_filename (Some ''../My Video!!.MP4'') = ''My_Video.mp4''"
  by code_simp

lemma example_metadata:
  "read_metadata (me_limits (ie_media example_intake)) (Some example_probe) =
    Inr \<lparr>um_duration_seconds = Fin 12, um_dimensions = (640, 360)\<rparr>"
  by code_simp

lemma example_read_back:
  "probe_upload_media (ie_media example_intake) p (fe_probe example_file) =
    Some (Inr \<lparr>um_duration_seconds = Fin 12, um_dimensions = (640, 360)\<rparr>)" if "prefix [''data''] p"
  using that example_metadata
  by (simp add: probe_upload_media_def under_def assert_under_def run_command_output_def example_file_def example_intake_def)

definition example_form :: upload_form where
  "example_form =
     new_form\<lparr>uf_title := Some ''Boats'', uf_file := Some (''My_Video.mp4'', [''data'', ''v1'', ''original_My_Video.mp4''],
       \<lparr>um_duration_seconds = Fin 12, um_dimensions = (640, 360)\<rparr>)\<rparr>"

lemma example_received:
  "read_form example_intake [''data'', ''v1''] (iw_form example_intake_world) new_form = Some (Inr example_form)"
proof -
  have title: "set_field example_intake ''title'' ''Boats'' new_form = Inr (new_form\<lparr>uf_title := Some ''Boats''\<rparr>)"
    by code_simp
  have name: "fe_name example_file = Some ''../My Video!!.MP4''" by (simp add: example_file_def)
  have empty: "uf_file new_form = None" by (simp add: new_form_def)
  have rename: "fe_rename example_file = None" by (simp add: example_file_def)
  show ?thesis
    by (simp add: example_intake_world_def timeout_multipart_read_def title take_file_def Let_def name example_name example_stored rename
        example_read_back store_error_def example_form_def empty)
qed

lemma example_accepted: "\<exists>a. accepted_of_form example_intake [''data'', ''v1''] ''admin'' example_form = Inr a"
proof -
  have "parse_resolutions ''720p'' = [''720p'']" by code_simp
  then show ?thesis
    by (simp add: accepted_of_form_def example_form_def new_form_def ok_or_bad_def filter_option_def Let_def
        validate_encode_settings_def enforce_upload_media_limits_def example_intake_def f64_lt_def)
qed

theorem upload_all_or_nothing_witness:
  "\<exists>r a. accept_upload example_intake [] ''admin'' 0 example_intake_world empty_db = Some r \<and>
    ir_answer r = Inr a \<and> ir_directory r \<and> accepted_ok example_intake [''data'', ''v1''] a \<and>
    (\<exists>v. pending_row 0 ''v1'' a v \<and> videos (ir_db r) = [v])"
proof -
  obtain a where a: "accepted_of_form example_intake [''data'', ''v1''] ''admin'' example_form = Inr a"
    using example_accepted by blast
  have disk: "ensure_upload_disk_space example_intake (Inr 50) 0 = Inr ()"
    by (simp add: ensure_upload_disk_space_def example_intake_def)
  have world: "iw_slots example_intake_world = 2" "iw_video_id example_intake_world = ''v1''" "iw_create_dir example_intake_world = None"
    "iw_free example_intake_world = Inr 50" "iw_read_back example_intake_world = Inr ()" "iw_insert example_intake_world = Inr ()"
    "me_upload_temp_dir (ie_media example_intake) = [''data'']" "content_length [] = None"
    by (simp_all add: example_intake_world_def example_intake_def content_length_def header_text_def)
  have "receive_upload example_intake [] ''admin'' [''data'', ''v1''] example_intake_world = Some (Inr a)"
    by (simp add: receive_upload_def world disk example_received a)
  then have r: "accept_upload example_intake [] ''admin'' 0 example_intake_world empty_db =
      Some \<lparr>ir_answer = Inr a, ir_directory = True, ir_db = insert_video (accepted_video 0 ''v1'' a) empty_db\<rparr>"
    by (simp add: accept_upload_def Let_def world accept_video_def empty_db_def)
  have "job_dir = [''data'', ''v1''] \<Longrightarrow> job_dir = me_upload_temp_dir (ie_media example_intake) @ [iw_video_id example_intake_world]"
    for job_dir :: path by (simp add: world)
  from upload_all_or_nothing [OF r this [OF refl]] r show ?thesis by (auto simp: world empty_db_def)
qed

end
