(* ===== verification/Config_Properties.thy ===== *)
theory Config_Properties
  imports Admin_Config
begin

text \<open>
  The properties of the configuration: the bounds a started service has, the credentials a production
  service has, what the guards of floats let through, and the shape of an allowed origin.
\<close>

section \<open>Bounds\<close>

lemma setting_Inr: "setting en parse name d accepted msg = Inr v \<Longrightarrow> accepted v"
  by (auto simp: setting_def split: if_splits)

lemma parse_signed_bound: "parse_signed bits s = Some i \<Longrightarrow> - (2 ^ (bits - 1)) \<le> i \<and> i < 2 ^ (bits - 1)"
  by (auto simp: parse_signed_def Let_def split: if_splits)

lemma seconds_setting_Inr: "seconds_setting en name d = Inr v \<Longrightarrow> \<not> f64_le v (Fin 0)"
  and int_setting_Inr: "int_setting en name i = Inr j \<Longrightarrow> 0 < j"
  and nonzero_setting_Inr: "nonzero_setting en bits name m = Inr n \<Longrightarrow> 0 < n"
  and count_setting_Inr: "count_setting en name m = Inr n \<Longrightarrow> 0 < n"
  and attempts_setting_Inr: "attempts_setting en name i = Inr j \<Longrightarrow> 0 < j"
  unfolding seconds_setting_def int_setting_def nonzero_setting_def count_setting_def attempts_setting_def
  using setting_Inr by force+

lemmas setting_bounds = seconds_setting_Inr int_setting_Inr nonzero_setting_Inr count_setting_Inr attempts_setting_Inr

lemma read_database_bounds:
  "read_database en = Inr dc \<Longrightarrow> dc_min_connections dc \<le> dc_max_connections dc \<and> 0 < dc_max_connections dc"
  by (auto simp: read_database_def split: if_splits dest: setting_bounds)

lemma read_mode_bounds: "read_mode en name d = Inr m \<Longrightarrow> m \<in> set accepted_modes"
  by (auto simp: read_mode_def Let_def split: if_splits)

lemma read_media_bounds:
  "read_media en = Inr mc \<Longrightarrow> \<not> f64_le (mc_hls_segment_duration mc) (Fin 0) \<and> 0 < mc_ffmpeg_threads mc \<and>
    0 < mc_ffmpeg_max_parallel_renditions mc"
  by (auto simp: read_media_def dest: setting_bounds)

lemma read_intake_bounds:
  "read_intake en = Inr ic \<Longrightarrow> 0 < ic_max_file_bytes ic \<and> 0 < ic_max_concurrent_saves ic \<and> 0 < ic_quote_max_sample_bytes ic \<and>
    \<not> f64_lt (ic_quote_transcoded_overhead ic) (Fin 1)"
  by (auto simp: read_intake_def dest: setting_bounds setting_Inr)

lemma read_gateway_bounds:
  "read_gateway en = Inr gc \<Longrightarrow> 0 < gc_upload_retries gc \<and> 0 < gc_quote_concurrency gc \<and> 0 < gc_upload_concurrency gc \<and>
    3 \<le> gc_direct_upload_max_bytes gc \<and> 0 < gc_final_quote_approval_ttl_seconds gc"
  by (auto simp: read_gateway_def dest: setting_bounds setting_Inr)

lemma read_jobs_bounds:
  "read_jobs en = Inr jc \<Longrightarrow> 0 < jc_workers jc \<and> 0 < jc_lease_seconds jc \<and> jc_lease_seconds jc \<le> 300 \<and>
    0 < jc_max_attempts jc \<and> 0 < jc_catalog_publish_max_attempts jc"
  by (auto simp: read_jobs_def Let_def split: if_splits dest: setting_bounds)

lemma config_Inr:
  assumes "config_from_env en parse_ip localhost = Inr c"
  shows "read_database en = Inr (fc_database c)" "read_access en = Inr (fc_access c)"
    "read_mode en ''ANTD_PAYMENT_MODE'' ''auto'' = Inr (fc_payment_mode c)"
    "read_media en = Inr (fc_media c)" "read_intake en = Inr (fc_intake c)"
    "read_gateway en = Inr (fc_gateway c)" "read_jobs en = Inr (fc_jobs c)"
    "cors_allowed_origins en = Inr (fc_cors_allowed_origins c)"
  using assms by (auto simp: config_from_env_def)

text \<open>A service that starts has a pool it can open, a payment mode it knows, at least one worker, thread,
  slot and attempt, a lease of one to three hundred seconds, samples and direct uploads of a size that
  self-encryption takes, and no refused segment length.
\<close>

theorem started_within_bounds:
  assumes "config_from_env en parse_ip localhost = Inr c"
  shows "dc_min_connections (fc_database c) \<le> dc_max_connections (fc_database c) \<and> 0 < dc_max_connections (fc_database c) \<and>
    fc_payment_mode c \<in> set accepted_modes \<and>
    0 < mc_ffmpeg_threads (fc_media c) \<and> 0 < ic_max_concurrent_saves (fc_intake c) \<and> 0 < ic_max_file_bytes (fc_intake c) \<and>
    0 < gc_upload_retries (fc_gateway c) \<and> 3 \<le> gc_direct_upload_max_bytes (fc_gateway c) \<and>
    0 < jc_workers (fc_jobs c) \<and> 0 < jc_lease_seconds (fc_jobs c) \<and> jc_lease_seconds (fc_jobs c) \<le> 300 \<and>
    0 < jc_max_attempts (fc_jobs c) \<and> \<not> f64_le (mc_hls_segment_duration (fc_media c)) (Fin 0)"
  using read_database_bounds [OF config_Inr(1) [OF assms]] read_mode_bounds [OF config_Inr(3) [OF assms]]
    read_media_bounds [OF config_Inr(4) [OF assms]] read_intake_bounds [OF config_Inr(5) [OF assms]]
    read_gateway_bounds [OF config_Inr(6) [OF assms]] read_jobs_bounds [OF config_Inr(7) [OF assms]]
  by simp

section \<open>Credentials\<close>

lemma validate_production:
  assumes "validate_admin_auth_config en username password secret ttl = Inr ()" "is_production_environment en = Inr True"
  shows "\<not> is_unsafe_admin_auth_value username \<and> \<not> is_unsafe_admin_auth_value password \<and> \<not> is_unsafe_admin_auth_value secret \<and>
    secret \<noteq> password \<and> 12 \<le> length password \<and> 32 \<le> length secret"
  using assms by (auto simp: validate_admin_auth_config_def constant_time_eq_def Let_def split: if_splits)

lemma read_access_Inr:
  assumes "read_access en = Inr xc"
  shows "validate_admin_auth_config en (xc_username xc) (xc_password xc) (xc_secret xc) (xc_ttl_hours xc) = Inr ()"
    "xc_same_site xc = NoneSite \<Longrightarrow> xc_cookie_secure xc" "0 < xc_ttl_hours xc" "0 < xc_refresh_ttl_hours xc"
  using assms by (auto simp: read_access_def Let_def split: if_splits dest: setting_bounds)

text \<open>In production the service does not start with credentials that are weak: neither name, password nor
  secret is a default or a placeholder, the password has at least 12 bytes, the secret at least 32 and is
  not the password, and cookies that are sent across sites are sent over secure connections only.
\<close>

theorem production_credentials:
  assumes "config_from_env en parse_ip localhost = Inr c" "is_production_environment en = Inr True"
  shows "\<not> is_unsafe_admin_auth_value (xc_username (fc_access c)) \<and> \<not> is_unsafe_admin_auth_value (xc_password (fc_access c)) \<and>
    \<not> is_unsafe_admin_auth_value (xc_secret (fc_access c)) \<and> xc_secret (fc_access c) \<noteq> xc_password (fc_access c) \<and>
    12 \<le> length (xc_password (fc_access c)) \<and> 32 \<le> length (xc_secret (fc_access c)) \<and>
    (xc_cookie_secure (fc_access c) \<or> xc_same_site (fc_access c) \<noteq> NoneSite)"
proof -
  note access = config_Inr(2) [OF assms(1)]
  from validate_production [OF read_access_Inr(1) [OF access] assms(2)] read_access_Inr(2) [OF access]
  show ?thesis by blast
qed

section \<open>Origins\<close>

lemma collect_ok_Inr: "collect_ok f xs = Inr ys \<Longrightarrow> y \<in> set ys \<Longrightarrow> \<exists>x \<in> set xs. f x = Inr y"
  by (induction xs arbitrary: ys) auto

definition origin_shape :: "string \<Rightarrow> bool" where
  "origin_shape origin \<longleftrightarrow>
     (\<exists>scheme host. origin = scheme @ host \<and> scheme \<in> {''http://'', ''https://''} \<and> host \<noteq> [] \<and>
        CHR ''/'' \<notin> set host \<and> CHR ''?'' \<notin> set host \<and> CHR 0x23 \<notin> set host)"

lemma strip_prefix_eq: "strip_prefix p s = Some h \<Longrightarrow> s = p @ h"
  by (auto simp: strip_prefix_def prefix_def split: if_splits)

lemma normalize_shape:
  assumes "normalize_cors_origin given = Inr origin"
  shows "origin_shape origin"
proof -
  let ?o = "trim_slashes (trim given)"
  let ?h = "case strip_prefix ''http://'' ?o of Some h \<Rightarrow> Some h | None \<Rightarrow> strip_prefix ''https://'' ?o"
  obtain host where host: "?h = Some host" and rest: "host \<noteq> []" "CHR ''/'' \<notin> set host" "CHR ''?'' \<notin> set host"
    "CHR 0x23 \<notin> set host" "origin = ?o"
    using assms unfolding normalize_cors_origin_def Let_def by (cases ?h) (simp_all split: if_splits)
  have h: "strip_prefix ''http://'' ?o = Some host \<or> strip_prefix ''https://'' ?o = Some host"
    using host by (cases "strip_prefix ''http://'' ?o") simp_all
  then have "?o = ''http://'' @ host \<or> ?o = ''https://'' @ host" using strip_prefix_eq by blast
  with rest show ?thesis unfolding origin_shape_def by blast
qed

text \<open>Every origin that the service allows is a scheme and a host, with no path, query or fragment. The
  message of the check also excludes wildcards, but only the origin that is nothing else is refused: a
  host that is a star passes.
\<close>

theorem allowed_origins:
  assumes "config_from_env en parse_ip localhost = Inr c"
  shows "list_all origin_shape (fc_cors_allowed_origins c) \<and> normalize_cors_origin ''https://*'' = Inr ''https://*''"
proof
  obtain raw where "parse_cors_allowed_origins en raw = Inr (fc_cors_allowed_origins c)"
    using config_Inr(8) [OF assms] by (auto simp: cors_allowed_origins_def)
  then have "origin_shape origin" if "origin \<in> set (fc_cors_allowed_origins c)" for origin
    using collect_ok_Inr [of _ _ _ origin] that
    by (fastforce simp: parse_cors_allowed_origins_def origin_header_def split: if_splits intro: normalize_shape)
  then show "list_all origin_shape (fc_cors_allowed_origins c)" by (simp add: list_all_iff)
  show "normalize_cors_origin ''https://*'' = Inr ''https://*''" by code_simp
qed

section \<open>What is not a number\<close>

lemma parse_nan: "parse_f64 ''nan'' = Some Nan"
  by code_simp

lemma trim_nan: "trim ''nan'' = ''nan''"
  by code_simp

text \<open>The guards of floats compare with zero, and no comparison with a value that is not a number holds:
  a maximal duration of \<open>nan\<close> passes the guard that it must be greater than zero, and then no video is too
  long.
\<close>

theorem nan_passes_guards:
  assumes "en_var en ''UPLOAD_MAX_DURATION_SECONDS'' = Some ''nan''" "read_intake en = Inr ic"
  shows "ic_max_duration_seconds ic = Nan \<and>
    enforce_upload_media_limits (limits_of ic) duration width height =
      enforce_upload_media_limits (limits_of ic) (Fin 0) width height"
proof -
  have "seconds_setting en ''UPLOAD_MAX_DURATION_SECONDS'' d = Inr Nan" for d
    by (simp add: seconds_setting_def setting_def parse_env_def non_empty_env_def non_empty_def assms(1) trim_nan parse_nan)
  with assms(2) have "ic_max_duration_seconds ic = Nan" by (auto simp: read_intake_def)
  then show ?thesis by (simp add: enforce_upload_media_limits_def limits_of_def f64_lt_def)
qed

section \<open>Examples\<close>

definition example_environment :: "(string \<times> string) list \<Rightarrow> environment" where
  "example_environment vars =
     \<lparr>en_var = map_of vars, en_read_file = (\<lambda>_. Inl ''no such file''), en_parse_error = (\<lambda>_. ''invalid value'')\<rparr>"

text \<open>A variable that is not set takes its default.\<close>

lemma unset: "en_var en name = None \<Longrightarrow> parse_env en parse name d = Inr d"
  "en_var en name = None \<Longrightarrow> non_empty_env en name = None"
  by (simp_all add: parse_env_def non_empty_env_def non_empty_def)

lemmas setting_defs = seconds_setting_def int_setting_def nonzero_setting_def count_setting_def attempts_setting_def setting_def

lemma default_overhead: "\<not> f64_lt (f64_of (108 / 100)) (Fin 1)"
  by code_simp

lemma example_var [simp]: "en_var (example_environment vars) name = map_of vars name"
  by (simp add: example_environment_def)

theorem nan_passes_guards_witness:
  "\<exists>ic. read_intake (example_environment [(''UPLOAD_MAX_DURATION_SECONDS'', ''nan'')]) = Inr ic \<and>
    ic_max_duration_seconds ic = Nan \<and>
    enforce_upload_media_limits (limits_of ic) (Fin 1000000) 640 360 =
      enforce_upload_media_limits (limits_of ic) (Fin 0) 640 360"
proof -
  let ?en = "example_environment [(''UPLOAD_MAX_DURATION_SECONDS'', ''nan'')]"
  have "parse_env ?en parse_f64 ''UPLOAD_MAX_DURATION_SECONDS'' d = Inr Nan" for d
    by (simp add: parse_env_def non_empty_env_def non_empty_def trim_nan parse_nan)
  then have "is_ok (read_intake ?en)"
    using default_overhead by (simp add: read_intake_def setting_defs unset)
  then obtain ic where ic: "read_intake ?en = Inr ic" by (auto simp: is_ok_iff)
  from nan_passes_guards [OF _ ic] show ?thesis using ic by simp
qed

definition production_variables :: "(string \<times> string) list" where
  "production_variables =
     [(''APP_ENV'', ''production''), (''ADMIN_USERNAME'', ''keeper''), (''ADMIN_PASSWORD'', ''correct horse battery''),
      (''ADMIN_AUTH_SECRET'', ''0123456789abcdef0123456789abcdef'')]"

lemma example_access: "is_ok (read_access (example_environment production_variables))"
  by code_simp

lemma example_production: "is_production_environment (example_environment production_variables) = Inr True"
  by code_simp

lemma example_origins: "is_ok (cors_allowed_origins (example_environment production_variables))"
  by code_simp

lemma example_started: "\<exists>c. config_from_env (example_environment production_variables) (\<lambda>_. None) ''127.0.0.1'' = Inr c"
proof -
  let ?en = "example_environment production_variables"
  obtain xc origins where "read_access ?en = Inr xc" "cors_allowed_origins ?en = Inr origins"
    using example_access example_origins by (auto simp: is_ok_iff)
  moreover have "is_ok (read_database ?en)" "is_ok (read_media ?en)" "is_ok (read_intake ?en)" "is_ok (read_gateway ?en)" "is_ok (read_jobs ?en)"
    using default_overhead
    by (simp_all add: read_database_def read_media_def read_intake_def read_gateway_def read_jobs_def setting_defs unset
        production_variables_def)
  then obtain dc mc ic gc jc where "read_database ?en = Inr dc" "read_media ?en = Inr mc" "read_intake ?en = Inr ic"
    "read_gateway ?en = Inr gc" "read_jobs ?en = Inr jc"
    by (auto simp: is_ok_iff)
  moreover have "bind_addr_from_env ?en (\<lambda>_. None) ''127.0.0.1'' ''RUST_ADMIN'' 8000 = Inr (''127.0.0.1'', 8000)"
    "secret_env ?en ''ANTD_INTERNAL_TOKEN'' ''ANTD_INTERNAL_TOKEN_FILE'' = Inr None"
    "bool_from_env ?en ''ANTD_UPLOAD_VERIFY'' True = Inr True" "bool_from_env ?en ''ANTD_APPROVE_ON_STARTUP'' False = Inr False"
    "bool_from_env ?en ''ANTD_REQUIRE_COST_READY'' False = Inr False"
    by (simp_all add: bind_addr_from_env_def secret_env_def bool_from_env_def unset production_variables_def)
  moreover have "is_ok (read_mode ?en ''ANTD_PAYMENT_MODE'' ''auto'')" "is_ok (read_mode ?en ''ANTD_METADATA_PAYMENT_MODE'' ''merkle'')"
    by (simp_all add: read_mode_def var_or_def accepted_modes_def production_variables_def)
  then obtain m1 m2 where "read_mode ?en ''ANTD_PAYMENT_MODE'' ''auto'' = Inr m1"
    "read_mode ?en ''ANTD_METADATA_PAYMENT_MODE'' ''merkle'' = Inr m2"
    by (auto simp: is_ok_iff)
  ultimately show ?thesis by (simp add: config_from_env_def)
qed

theorem production_credentials_witness:
  "\<exists>c. config_from_env (example_environment production_variables) (\<lambda>_. None) ''127.0.0.1'' = Inr c \<and>
    12 \<le> length (xc_password (fc_access c)) \<and> xc_secret (fc_access c) \<noteq> xc_password (fc_access c)"
proof -
  obtain c where c: "config_from_env (example_environment production_variables) (\<lambda>_. None) ''127.0.0.1'' = Inr c"
    using example_started by blast
  from production_credentials [OF c example_production] c show ?thesis by blast
qed

theorem started_within_bounds_witness:
  "\<exists>c. config_from_env (example_environment production_variables) (\<lambda>_. None) ''127.0.0.1'' = Inr c \<and>
    0 < jc_workers (fc_jobs c) \<and> jc_lease_seconds (fc_jobs c) \<le> 300"
proof -
  obtain c where c: "config_from_env (example_environment production_variables) (\<lambda>_. None) ''127.0.0.1'' = Inr c"
    using example_started by blast
  from started_within_bounds [OF c] c show ?thesis by blast
qed

theorem allowed_origins_witness:
  "\<exists>c. config_from_env (example_environment production_variables) (\<lambda>_. None) ''127.0.0.1'' = Inr c \<and>
    list_all origin_shape (fc_cors_allowed_origins c)"
proof -
  obtain c where c: "config_from_env (example_environment production_variables) (\<lambda>_. None) ''127.0.0.1'' = Inr c"
    using example_started by blast
  from allowed_origins [OF c] c show ?thesis by blast
qed

end
